(* ===== verification/GoBase.thy ===== *)
theory GoBase
  imports Main "HOL-Library.AList" "HOL-Library.Word" "HOL-Library.Product_Lexorder"
begin

text \<open>
  The part of the Go language the repository relies on, shared by every other theory:
  error values, machine integers, instants and durations, and maps.

  A Go \<^verbatim>\<open>error\<close> is a value of \<open>go_error option\<close>, \<open>None\<close> for nil. A Go
  \<^verbatim>\<open>map[string]V\<close> is an association list with distinct keys. Go leaves the order in
  which a map is ranged over unspecified, so every loop over a map takes an \<open>order\<close>,
  a ranking of the keys: over all rankings, \<open>range_map\<close> visits the entries in all orders.
  An instant is the number of nanoseconds since Go's zero time (1 January of year 1, UTC).
\<close>

named_theorems go_map \<open>lookups in maps after updates, deletions and filters\<close>
named_theorems go_time \<open>instants and durations\<close>

section \<open>Errors\<close>

text \<open>
  \<open>ErrorString\<close> is \<^verbatim>\<open>errors.New\<close> or a formatted error, compared by its text only. The
  sentinel errors of the storage package and of the OTA engine are constructors, because the
  code tells them apart by identity (\<^verbatim>\<open>errors.Is\<close>).
\<close>

datatype go_error =
    ErrorString string
  | ErrNotFound | ErrTenantMismatch | ErrDuplicate | ErrQuotaExceeded
  | ErrRebootPending
  | ErrMissingTenant | ErrForbidden

fun Error :: "go_error \<Rightarrow> string" where
  "Error (ErrorString s) = s"
| "Error ErrNotFound = ''not found''"
| "Error ErrTenantMismatch = ''tenant mismatch''"
| "Error ErrDuplicate = ''duplicate''"
| "Error ErrQuotaExceeded = ''quota exceeded''"
| "Error ErrRebootPending = ''OTA reboot is pending''"
| "Error ErrMissingTenant = ''tenant context is required''"
| "Error ErrForbidden = ''forbidden''"

type_synonym 'a result = "go_error + 'a"

section \<open>Machine integers\<close>

text \<open>An \<^verbatim>\<open>int64\<close> (or 64-bit \<^verbatim>\<open>int\<close>) is an integer; \<open>i64\<close> is the wrap-around of its arithmetic.\<close>

definition i64 :: "int \<Rightarrow> int" where
  "i64 x = (x + 2 ^ 63) mod 2 ^ 64 - 2 ^ 63"

definition in_i64 :: "int \<Rightarrow> bool" where
  "in_i64 x \<longleftrightarrow> - (2 ^ 63) \<le> x \<and> x < 2 ^ 63"

lemma i64_id: "in_i64 x \<Longrightarrow> i64 x = x"
  by (simp add: in_i64_def i64_def)

lemma in_i64_i64: "in_i64 (i64 x)"
  unfolding in_i64_def i64_def
  using pos_mod_bound [of "2 ^ 64 :: int" "x + 2 ^ 63"] pos_mod_sign [of "2 ^ 64 :: int" "x + 2 ^ 63"]
  by auto

type_synonym u64 = "64 word"

section \<open>Instants and durations\<close>

type_synonym go_time = int
type_synonym duration = int

definition Nanosecond :: duration where "Nanosecond = 1"
definition Millisecond :: duration where "Millisecond = 10 ^ 6"
definition Second :: duration where "Second = 10 ^ 9"
definition Minute :: duration where "Minute = 60 * Second"
definition Hour :: duration where "Hour = 60 * Minute"

text \<open>\<^verbatim>\<open>time.Time{}\<close> and \<^verbatim>\<open>IsZero\<close>.\<close>

definition zero_time :: go_time where "zero_time = 0"

definition IsZero :: "go_time \<Rightarrow> bool" where
  "IsZero t \<longleftrightarrow> t = zero_time"

text \<open>The Unix epoch, 1 January 1970, and \<^verbatim>\<open>time.Unix(0, n)\<close>.\<close>

definition unix_epoch :: go_time where
  "unix_epoch = 62135596800 * Second"

definition Unix0 :: "int \<Rightarrow> go_time" where
  "Unix0 n = unix_epoch + n"

text \<open>\<^verbatim>\<open>t.Sub(u)\<close> saturates at the ends of the duration range; \<^verbatim>\<open>Add\<close> does not.\<close>

definition time_Sub :: "go_time \<Rightarrow> go_time \<Rightarrow> duration" where
  "time_Sub t u = max (- (2 ^ 63)) (min (2 ^ 63 - 1) (t - u))"

definition time_Add :: "go_time \<Rightarrow> duration \<Rightarrow> go_time" where
  "time_Add t d = t + d"

abbreviation (input) After :: "go_time \<Rightarrow> go_time \<Rightarrow> bool" where "After t u \<equiv> u < t"
abbreviation (input) Before :: "go_time \<Rightarrow> go_time \<Rightarrow> bool" where "Before t u \<equiv> t < u"

lemmas duration_units [go_time] = Nanosecond_def Millisecond_def Second_def Minute_def Hour_def
lemmas [go_time] = time_Sub_def time_Add_def zero_time_def IsZero_def

lemma time_Sub_gt: "d < 2 ^ 63 - 1 \<Longrightarrow> - (2 ^ 63) \<le> d \<Longrightarrow> d < time_Sub t u \<longleftrightarrow> d < t - u"
  by (auto simp: time_Sub_def)

lemma time_Sub_ge: "d \<le> 2 ^ 63 - 1 \<Longrightarrow> - (2 ^ 63) < d \<Longrightarrow> d \<le> time_Sub t u \<longleftrightarrow> d \<le> t - u"
  by (auto simp: time_Sub_def)

section \<open>Maps\<close>

type_synonym 'v go_map = "(string \<times> 'v) list"
type_synonym order = "string \<Rightarrow> nat"

definition wf_map :: "'v go_map \<Rightarrow> bool" where
  "wf_map m \<longleftrightarrow> distinct (map fst m)"

text \<open>\<open>mget\<close> is \<^verbatim>\<open>v, ok := m[k]\<close>, \<open>mput\<close> is \<^verbatim>\<open>m[k] = v\<close>, \<open>mdel\<close> is \<^verbatim>\<open>delete(m, k)\<close>.\<close>

definition mget :: "'v go_map \<Rightarrow> string \<Rightarrow> 'v option" where
  "mget m k = map_of m k"

definition mput :: "string \<Rightarrow> 'v \<Rightarrow> 'v go_map \<Rightarrow> 'v go_map" where
  "mput k v m = AList.update k v m"

definition mdel :: "string \<Rightarrow> 'v go_map \<Rightarrow> 'v go_map" where
  "mdel k m = AList.delete k m"

text \<open>
  A loop that deletes the entries that fail a test, and a loop that rewrites or deletes every
  entry by itself: their result does not depend on the order of the visits.
\<close>

definition mfilter :: "(string \<Rightarrow> 'v \<Rightarrow> bool) \<Rightarrow> 'v go_map \<Rightarrow> 'v go_map" where
  "mfilter P m = filter (\<lambda>(k, v). P k v) m"

definition mfiltermap :: "(string \<Rightarrow> 'v \<Rightarrow> 'v option) \<Rightarrow> 'v go_map \<Rightarrow> 'v go_map" where
  "mfiltermap f m = List.map_filter (\<lambda>(k, v). map_option (Pair k) (f k v)) m"

text \<open>The entries in the order of a loop over the map.\<close>

definition range_map :: "order \<Rightarrow> 'v go_map \<Rightarrow> (string \<times> 'v) list" where
  "range_map r m = sort_key (\<lambda>(k, v). r k) m"

definition range_values :: "order \<Rightarrow> 'v go_map \<Rightarrow> 'v list" where
  "range_values r m = map snd (range_map r m)"

lemma mget_Nil [simp]: "mget [] k = None"
  by (simp add: mget_def)

lemma mget_mput [go_map, simp]: "mget (mput k v m) k' = (if k' = k then Some v else mget m k')"
  by (simp add: mget_def mput_def update_conv)

lemma mget_mdel [go_map, simp]: "mget (mdel k m) k' = (if k' = k then None else mget m k')"
  by (simp add: mget_def mdel_def delete_conv)

lemma wf_map_Nil [simp]: "wf_map []"
  by (simp add: wf_map_def)

lemma wf_map_mput [simp]: "wf_map m \<Longrightarrow> wf_map (mput k v m)"
  by (simp add: wf_map_def mput_def distinct_update)

lemma wf_map_mdel [simp]: "wf_map m \<Longrightarrow> wf_map (mdel k m)"
  by (simp add: wf_map_def mdel_def distinct_delete)

lemma wf_map_mfilter [simp]: "wf_map m \<Longrightarrow> wf_map (mfilter P m)"
  by (induction m) (auto simp: wf_map_def mfilter_def)

lemma set_mfiltermap: "(k, w) \<in> set (mfiltermap f m) \<longleftrightarrow> (\<exists>v. (k, v) \<in> set m \<and> f k v = Some w)"
  by (auto simp: mfiltermap_def map_filter_def image_iff split: option.splits) force+

lemma mfiltermap_simps [simp]:
  "mfiltermap f [] = []"
  "mfiltermap f ((k, v) # m) = (case f k v of None \<Rightarrow> mfiltermap f m | Some w \<Rightarrow> (k, w) # mfiltermap f m)"
  by (auto simp: mfiltermap_def split: option.splits)

lemma wf_map_mfiltermap [simp]: "wf_map m \<Longrightarrow> wf_map (mfiltermap f m)"
proof (induction m)
  case Nil
  then show ?case by simp
next
  case (Cons a m)
  obtain k v where a: "a = (k, v)" by (cases a)
  have "k \<notin> fst ` set (mfiltermap f m)"
    using Cons.prems by (force simp: a wf_map_def set_mfiltermap)
  with Cons show ?case by (auto simp: a wf_map_def split: option.splits)
qed

lemma mget_iff_set: "wf_map m \<Longrightarrow> mget m k = Some v \<longleftrightarrow> (k, v) \<in> set m"
  by (simp add: wf_map_def mget_def)

lemma mget_SomeD: "mget m k = Some v \<Longrightarrow> (k, v) \<in> set m"
  by (simp add: mget_def map_of_SomeD)

lemma mget_mfilter [go_map, simp]:
  "wf_map m \<Longrightarrow> mget (mfilter P m) k = (case mget m k of None \<Rightarrow> None | Some v \<Rightarrow> if P k v then Some v else None)"
  by (induction m) (auto simp: wf_map_def mget_def mfilter_def split: option.splits intro!: map_of_eq_None_iff [THEN iffD2])

lemma mget_mfiltermap [go_map, simp]:
  assumes "wf_map m"
  shows "mget (mfiltermap f m) k = (case mget m k of None \<Rightarrow> None | Some v \<Rightarrow> f k v)"
proof (cases "mget (mfiltermap f m) k")
  case None
  then show ?thesis
    using assms mget_iff_set [of "mfiltermap f m" k] mget_SomeD [of m k]
    by (auto simp: set_mfiltermap split: option.splits) (metis option.exhaust)
next
  case (Some w)
  then obtain v where "(k, v) \<in> set m" "f k v = Some w"
    using assms by (auto simp: mget_iff_set set_mfiltermap)
  with Some assms show ?thesis by (auto simp: mget_iff_set [symmetric])
qed

lemma set_range_map [simp]: "set (range_map r m) = set m"
  by (simp add: range_map_def)

lemma length_range_map [simp]: "length (range_map r m) = length m"
  by (simp add: range_map_def)

lemma set_range_values: "v \<in> set (range_values r m) \<longleftrightarrow> (\<exists>k. (k, v) \<in> set m)"
  by (force simp: range_values_def)

lemma range_map_Nil [simp]: "range_map r [] = []" "range_values r [] = []"
  by (simp_all add: range_map_def range_values_def)

lemma range_map_single [simp]: "range_map r [x] = [x]"
  by (simp add: range_map_def)

lemma wf_range_map: "wf_map m \<Longrightarrow> wf_map (range_map r m)"
  by (simp add: wf_map_def distinct_map range_map_def)

lemma set_mput:
  "wf_map m \<Longrightarrow> set (mput k v m) = insert (k, v) {e \<in> set m. fst e \<noteq> k}"
proof -
  assume wf: "wf_map m"
  then have "wf_map (mput k v m)" by simp
  with wf show ?thesis
    by (auto simp: mget_iff_set [symmetric] set_eq_iff split: if_splits)
qed

lemma set_mdel: "set (mdel k m) = {e \<in> set m. fst e \<noteq> k}"
  by (auto simp: mdel_def AList.delete_eq)

end
