(* ===== verification/GoStrings.thy ===== *)
theory GoStrings
  imports GoBase "HOL-Library.Sublist"
begin

text \<open>
  Go strings and the functions of \<^verbatim>\<open>strings\<close>, \<^verbatim>\<open>strconv\<close>, \<^verbatim>\<open>encoding/hex\<close>,
  \<^verbatim>\<open>encoding/base64\<close> and \<^verbatim>\<open>regexp\<close> that the code uses. A Go string is a sequence of
  bytes, which is what \<open>string\<close> is. Case mapping and white space are those of ASCII: the
  bytes of a multi-byte UTF-8 character are left alone. The regular expressions of the code all
  have the form \<^verbatim>\<open>^[A][B]{m,n}$\<close> or \<^verbatim>\<open>^[A]{n}$\<close> over ASCII classes, so a pair of
  character classes and two bounds stand for one.
\<close>

named_theorems go_string \<open>evaluation of string operations\<close>

section \<open>Character classes and case\<close>

definition between :: "char \<Rightarrow> char \<Rightarrow> char \<Rightarrow> bool" where
  "between lo hi c \<longleftrightarrow> (of_char lo :: nat) \<le> of_char c \<and> (of_char c :: nat) \<le> of_char hi"

definition is_lower :: "char \<Rightarrow> bool" where "is_lower = between CHR ''a'' CHR ''z''"
definition is_upper :: "char \<Rightarrow> bool" where "is_upper = between CHR ''A'' CHR ''Z''"
definition is_digit :: "char \<Rightarrow> bool" where "is_digit = between CHR ''0'' CHR ''9''"
definition is_alnum :: "char \<Rightarrow> bool" where
  "is_alnum c \<longleftrightarrow> is_lower c \<or> is_upper c \<or> is_digit c"

definition is_space :: "char \<Rightarrow> bool" where
  "is_space c \<longleftrightarrow> c \<in> {CHR '' '', CHR 0x09, CHR 0x0A, CHR 0x0B, CHR 0x0C, CHR 0x0D}"

definition lower_char :: "char \<Rightarrow> char" where
  "lower_char c = (if is_upper c then char_of (of_char c + 32 :: nat) else c)"

definition upper_char :: "char \<Rightarrow> char" where
  "upper_char c = (if is_lower c then char_of (of_char c - 32 :: nat) else c)"

definition ToLower :: "string \<Rightarrow> string" where "ToLower s = map lower_char s"
definition ToUpper :: "string \<Rightarrow> string" where "ToUpper s = map upper_char s"

text \<open>\<^verbatim>\<open>strings.EqualFold\<close>.\<close>

definition EqualFold :: "string \<Rightarrow> string \<Rightarrow> bool" where
  "EqualFold s t \<longleftrightarrow> ToLower s = ToLower t"

lemmas char_classes [go_string] =
  between_def is_lower_def is_upper_def is_digit_def is_alnum_def is_space_def
  lower_char_def upper_char_def

lemma lower_char_idem [simp]: "lower_char (lower_char c) = lower_char c"
  by (simp add: lower_char_def is_upper_def between_def)

lemma ToLower_idem [simp]: "ToLower (ToLower s) = ToLower s"
  by (simp add: ToLower_def)

lemma ToLower_Nil [simp]: "ToLower [] = []"
  by (simp add: ToLower_def)

lemma ToLower_eq_Nil [simp]: "ToLower s = [] \<longleftrightarrow> s = []"
  by (simp add: ToLower_def)

lemma length_ToLower [simp]: "length (ToLower s) = length s"
  by (simp add: ToLower_def)

lemma EqualFold_refl [simp]: "EqualFold s s"
  by (simp add: EqualFold_def)

lemma EqualFold_sym: "EqualFold s t \<Longrightarrow> EqualFold t s"
  by (simp add: EqualFold_def)

lemma EqualFold_trans: "EqualFold s t \<Longrightarrow> EqualFold t u \<Longrightarrow> EqualFold s u"
  by (simp add: EqualFold_def)

lemma EqualFold_length: "EqualFold s t \<Longrightarrow> length s = length t"
  unfolding EqualFold_def using length_ToLower by metis

section \<open>Trimming, cutting, splitting\<close>

definition TrimRightFunc :: "(char \<Rightarrow> bool) \<Rightarrow> string \<Rightarrow> string" where
  "TrimRightFunc p s = rev (dropWhile p (rev s))"

definition TrimFunc :: "(char \<Rightarrow> bool) \<Rightarrow> string \<Rightarrow> string" where
  "TrimFunc p s = TrimRightFunc p (dropWhile p s)"

definition TrimSpace :: "string \<Rightarrow> string" where "TrimSpace = TrimFunc is_space"

text \<open>\<^verbatim>\<open>strings.Trim\<close>, \<^verbatim>\<open>TrimLeft\<close> and \<^verbatim>\<open>TrimRight\<close> take the characters to drop.\<close>

definition Trim :: "string \<Rightarrow> string \<Rightarrow> string" where
  "Trim s cs = TrimFunc (\<lambda>c. c \<in> set cs) s"

definition TrimLeft :: "string \<Rightarrow> string \<Rightarrow> string" where
  "TrimLeft s cs = dropWhile (\<lambda>c. c \<in> set cs) s"

definition TrimRight :: "string \<Rightarrow> string \<Rightarrow> string" where
  "TrimRight s cs = TrimRightFunc (\<lambda>c. c \<in> set cs) s"

definition HasPrefix :: "string \<Rightarrow> string \<Rightarrow> bool" where
  "HasPrefix s p \<longleftrightarrow> take (length p) s = p"

definition HasSuffix :: "string \<Rightarrow> string \<Rightarrow> bool" where
  "HasSuffix s p \<longleftrightarrow> HasPrefix (rev s) (rev p)"

definition TrimPrefix :: "string \<Rightarrow> string \<Rightarrow> string" where
  "TrimPrefix s p = (if HasPrefix s p then drop (length p) s else s)"

definition TrimSuffix :: "string \<Rightarrow> string \<Rightarrow> string" where
  "TrimSuffix s p = (if HasSuffix s p then take (length s - length p) s else s)"

fun Contains :: "string \<Rightarrow> string \<Rightarrow> bool" where
  "Contains [] p = (p = [])"
| "Contains (c # s) p = (HasPrefix (c # s) p \<or> Contains s p)"

text \<open>\<^verbatim>\<open>strings.Cut\<close> at a one-byte separator: \<open>None\<close> when it does not occur.\<close>

definition Cut :: "char \<Rightarrow> string \<Rightarrow> (string \<times> string) option" where
  "Cut sep s =
     (case dropWhile (\<lambda>c. c \<noteq> sep) s of
        [] \<Rightarrow> None
      | _ # rest \<Rightarrow> Some (takeWhile (\<lambda>c. c \<noteq> sep) s, rest))"

fun Split :: "char \<Rightarrow> string \<Rightarrow> string list" where
  "Split sep [] = [[]]"
| "Split sep (c # s) =
     (if c = sep then [] # Split sep s
      else (case Split sep s of [] \<Rightarrow> [[c]] | w # ws \<Rightarrow> (c # w) # ws))"

definition Fields :: "string \<Rightarrow> string list" where
  "Fields s = filter (\<lambda>w. w \<noteq> []) (Split CHR '' '' (map (\<lambda>c. if is_space c then CHR '' '' else c) s))"

fun Join :: "string list \<Rightarrow> string \<Rightarrow> string" where
  "Join [] sep = []"
| "Join [w] sep = w"
| "Join (w # ws) sep = w @ sep @ Join ws sep"

lemma HasPrefix_iff: "HasPrefix s p \<longleftrightarrow> (\<exists>t. s = p @ t)"
proof
  assume "HasPrefix s p"
  then have "s = p @ drop (length p) s"
    unfolding HasPrefix_def by (metis append_take_drop_id)
  then show "\<exists>t. s = p @ t" ..
qed (auto simp: HasPrefix_def)

lemma HasPrefix_append [simp]: "HasPrefix (p @ s) p"
  by (simp add: HasPrefix_def)

lemma HasSuffix_iff: "HasSuffix s p \<longleftrightarrow> (\<exists>t. s = t @ p)"
  unfolding HasSuffix_def HasPrefix_iff by (metis rev_append rev_rev_ident)

lemma Contains_iff: "Contains s p \<longleftrightarrow> (\<exists>u v. s = u @ p @ v)"
proof (induction s)
  case (Cons c s)
  have "(\<exists>u v. c # s = u @ p @ v) \<longleftrightarrow> HasPrefix (c # s) p \<or> (\<exists>u v. s = u @ p @ v)"
    unfolding HasPrefix_iff by (metis append_Cons append_Nil append_eq_Cons_conv)
  with Cons.IH show ?case by simp
qed auto

lemma Cut_Some: "Cut sep s = Some (a, b) \<longleftrightarrow> s = a @ sep # b \<and> sep \<notin> set a"
proof
  assume eq: "Cut sep s = Some (a, b)"
  then obtain x where d: "dropWhile (\<lambda>c. c \<noteq> sep) s = x # b" and a: "a = takeWhile (\<lambda>c. c \<noteq> sep) s"
    by (auto simp: Cut_def split: list.splits)
  have "x = sep" using d hd_dropWhile [of "\<lambda>c. c \<noteq> sep" s] by auto
  moreover have "s = a @ dropWhile (\<lambda>c. c \<noteq> sep) s" by (simp add: a)
  moreover have "sep \<notin> set a" using a set_takeWhileD by fastforce
  ultimately show "s = a @ sep # b \<and> sep \<notin> set a" using d by simp
next
  assume "s = a @ sep # b \<and> sep \<notin> set a"
  then have "dropWhile (\<lambda>c. c \<noteq> sep) s = sep # b" "takeWhile (\<lambda>c. c \<noteq> sep) s = a"
    by (auto simp: dropWhile_append takeWhile_append)
  then show "Cut sep s = Some (a, b)" by (simp add: Cut_def)
qed

lemma Cut_None: "Cut sep s = None \<longleftrightarrow> sep \<notin> set s"
proof (cases "Cut sep s")
  case None
  then have "dropWhile (\<lambda>c. c \<noteq> sep) s = []" by (auto simp: Cut_def split: list.splits)
  with None show ?thesis by auto
next
  case (Some p)
  with Cut_Some [of sep s "fst p" "snd p"] show ?thesis by auto
qed

lemma TrimRightFunc_eq_self: "s = [] \<or> \<not> p (last s) \<Longrightarrow> TrimRightFunc p s = s"
  unfolding TrimRightFunc_def by (cases s rule: rev_cases) auto

lemma TrimFunc_eq_self: "s = [] \<or> \<not> p (hd s) \<and> \<not> p (last s) \<Longrightarrow> TrimFunc p s = s"
  unfolding TrimFunc_def by (cases s) (auto intro: TrimRightFunc_eq_self)

lemma TrimRightFunc_last: "TrimRightFunc p s = [] \<or> \<not> p (last (TrimRightFunc p s))"
  unfolding TrimRightFunc_def using hd_dropWhile [of p "rev s"] by (auto simp: last_rev)

lemma TrimRightFunc_hd: "TrimRightFunc p s \<noteq> [] \<Longrightarrow> hd (TrimRightFunc p s) = hd s"
proof -
  have "s = TrimRightFunc p s @ rev (takeWhile p (rev s))"
    unfolding TrimRightFunc_def by (metis rev_append rev_rev_ident takeWhile_dropWhile_id)
  then show "TrimRightFunc p s \<noteq> [] \<Longrightarrow> ?thesis" by (metis hd_append2)
qed

lemma TrimFunc_ends: "TrimFunc p s = [] \<or> \<not> p (hd (TrimFunc p s)) \<and> \<not> p (last (TrimFunc p s))"
proof (cases "TrimFunc p s = []")
  case False
  then have "hd (TrimFunc p s) = hd (dropWhile p s)" and "dropWhile p s \<noteq> []"
    unfolding TrimFunc_def by (auto simp: TrimRightFunc_hd) (auto simp: TrimRightFunc_def dest: set_dropWhileD)
  with False hd_dropWhile [of p s] TrimRightFunc_last [of p "dropWhile p s"] show ?thesis
    by (auto simp: TrimFunc_def)
qed simp

lemma TrimFunc_idem [simp]: "TrimFunc p (TrimFunc p s) = TrimFunc p s"
  by (rule TrimFunc_eq_self) (rule TrimFunc_ends)

lemma TrimSpace_idem [simp]: "TrimSpace (TrimSpace s) = TrimSpace s"
  by (simp add: TrimSpace_def)

lemma TrimSpace_Nil [simp]: "TrimSpace [] = []"
  by (simp add: TrimSpace_def TrimFunc_def TrimRightFunc_def)

end
