(* ===== verification/GoCodec.thy ===== *)
theory GoCodec
  imports GoStrings
begin

text \<open>
  Text encodings of the Go standard library: \<^verbatim>\<open>strconv\<close> (decimal integers and
  quoting), \<^verbatim>\<open>encoding/hex\<close>, \<^verbatim>\<open>encoding/base64\<close> and the regular expressions
  of the code.
\<close>

section \<open>Decimal integers\<close>

definition digit_char :: "nat \<Rightarrow> char" where
  "digit_char d = char_of (48 + d)"

definition digit_val :: "char \<Rightarrow> nat" where
  "digit_val c = of_char c - 48"

fun utoa :: "nat \<Rightarrow> string" where
  "utoa n = (if n < 10 then [digit_char n] else utoa (n div 10) @ [digit_char (n mod 10)])"

declare utoa.simps [simp del]

text \<open>\<^verbatim>\<open>strconv.Itoa\<close>, \<^verbatim>\<open>strconv.FormatInt(n, 10)\<close> and the verb \<^verbatim>\<open>%d\<close>.\<close>

definition itoa :: "int \<Rightarrow> string" where
  "itoa n = (if n < 0 then CHR ''-'' # utoa (nat (- n)) else utoa (nat n))"

text \<open>The value of a string of digits, and \<^verbatim>\<open>ParseUint(s, 10, 64)\<close> and \<^verbatim>\<open>ParseInt(s, 10, 64)\<close> (which is \<^verbatim>\<open>Atoi\<close>).\<close>

definition digits_val :: "string \<Rightarrow> nat" where
  "digits_val s = foldl (\<lambda>a c. 10 * a + digit_val c) 0 s"

definition ParseUint :: "string \<Rightarrow> nat option" where
  "ParseUint s =
     (if s \<noteq> [] \<and> list_all is_digit s \<and> digits_val s < 2 ^ 64 then Some (digits_val s) else None)"

definition ParseInt :: "string \<Rightarrow> int option" where
  "ParseInt s =
     (let neg = (HasPrefix s ''-''); body = (if HasPrefix s ''-'' \<or> HasPrefix s ''+'' then tl s else s)
      in if body = [] \<or> \<not> list_all is_digit body then None
         else let v = (if neg then - int (digits_val body) else int (digits_val body))
              in if in_i64 v then Some v else None)"

lemma of_char_digit [simp]: "d < 10 \<Longrightarrow> (of_char (digit_char d) :: nat) = 48 + d"
  by (simp add: digit_char_def)

lemma is_digit_digit_char [simp]: "d < 10 \<Longrightarrow> is_digit (digit_char d)"
  by (simp add: is_digit_def between_def)

lemma digit_val_digit_char [simp]: "d < 10 \<Longrightarrow> digit_val (digit_char d) = d"
  by (simp add: digit_val_def)

lemma utoa_digits: "list_all is_digit (utoa n) \<and> utoa n \<noteq> []"
proof (induction n rule: utoa.induct)
  case (1 n)
  then show ?case by (cases "n < 10") (simp_all add: utoa.simps [of n])
qed

lemma digits_val_snoc: "digits_val (s @ [c]) = 10 * digits_val s + digit_val c"
  by (simp add: digits_val_def)

lemma digits_val_utoa [simp]: "digits_val (utoa n) = n"
proof (induction n rule: utoa.induct)
  case (1 n)
  show ?case
  proof (cases "n < 10")
    case True
    then show ?thesis by (simp add: utoa.simps [of n] digits_val_def)
  next
    case False
    with 1 show ?thesis by (simp add: utoa.simps [of n] digits_val_snoc)
  qed
qed

lemma hd_utoa_digit: "is_digit (hd (utoa n))"
  using utoa_digits [of n] by (cases "utoa n") auto

lemma utoa_no_sign: "\<not> HasPrefix (utoa n) ''-'' \<and> \<not> HasPrefix (utoa n) ''+''"
  using hd_utoa_digit [of n] utoa_digits [of n]
  by (cases "utoa n") (auto simp: HasPrefix_def is_digit_def between_def)

lemma ParseUint_utoa: "n < 2 ^ 64 \<Longrightarrow> ParseUint (utoa n) = Some n"
  using utoa_digits [of n] by (simp add: ParseUint_def)

lemma ParseInt_itoa: "in_i64 n \<Longrightarrow> ParseInt (itoa n) = Some n"
  using utoa_digits [of "nat n"] utoa_digits [of "nat (- n)"] utoa_no_sign [of "nat n"]
  by (auto simp: itoa_def ParseInt_def HasPrefix_def Let_def)

section \<open>Quoting\<close>

text \<open>
  The verb \<^verbatim>\<open>%q\<close> on ASCII; a byte of a multi-byte character stands for itself.
\<close>

definition hex_char :: "nat \<Rightarrow> char" where
  "hex_char d = (if d < 10 then char_of (48 + d) else char_of (87 + d))"

definition quote_char :: "char \<Rightarrow> string" where
  "quote_char c =
     (let n = of_char c :: nat in
      if c = CHR 0x22 then [CHR 0x5C, CHR 0x22]
      else if c = CHR 0x5C then [CHR 0x5C, CHR 0x5C]
      else if n = 7 then [CHR 0x5C, CHR ''a'']
      else if n = 8 then [CHR 0x5C, CHR ''b'']
      else if n = 9 then [CHR 0x5C, CHR ''t'']
      else if n = 10 then [CHR 0x5C, CHR ''n'']
      else if n = 11 then [CHR 0x5C, CHR ''v'']
      else if n = 12 then [CHR 0x5C, CHR ''f'']
      else if n = 13 then [CHR 0x5C, CHR ''r'']
      else if n < 32 \<or> n = 127 then [CHR 0x5C, CHR ''x'', hex_char (n div 16), hex_char (n mod 16)]
      else [c])"

definition quote :: "string \<Rightarrow> string" where
  "quote s = [CHR 0x22] @ concat (map quote_char s) @ [CHR 0x22]"

text \<open>The verb \<^verbatim>\<open>%t\<close>.\<close>

definition fmt_bool :: "bool \<Rightarrow> string" where
  "fmt_bool b = (if b then ''true'' else ''false'')"

section \<open>Hexadecimal\<close>

definition hex_val :: "char \<Rightarrow> nat option" where
  "hex_val c =
     (if is_digit c then Some (of_char c - 48)
      else if between CHR ''a'' CHR ''f'' c then Some (of_char c - 87)
      else if between CHR ''A'' CHR ''F'' c then Some (of_char c - 55)
      else None)"

definition is_hex :: "char \<Rightarrow> bool" where
  "is_hex c \<longleftrightarrow> is_digit c \<or> between CHR ''a'' CHR ''f'' c \<or> between CHR ''A'' CHR ''F'' c"

fun hexEncode :: "string \<Rightarrow> string" where
  "hexEncode [] = []"
| "hexEncode (c # s) = hex_char (of_char c div 16) # hex_char (of_char c mod 16) # hexEncode s"

text \<open>\<^verbatim>\<open>hex.DecodeString\<close>: \<open>None\<close> for an odd length or a byte that is not a digit.\<close>

fun hexDecode :: "string \<Rightarrow> string option" where
  "hexDecode [] = Some []"
| "hexDecode [c] = None"
| "hexDecode (a # b # s) =
     (case (hex_val a, hex_val b, hexDecode s) of
        (Some x, Some y, Some t) \<Rightarrow> Some (char_of (16 * x + y) # t)
      | _ \<Rightarrow> None)"

lemma hex_val_iff: "(\<exists>d. hex_val c = Some d) \<longleftrightarrow> is_hex c"
  by (auto simp: hex_val_def is_hex_def)

lemma hex_val_lower: "hex_val (lower_char c) = hex_val c"
  by (auto simp: hex_val_def lower_char_def is_upper_def is_digit_def between_def)

lemma hex_val_hex_char: "d < 16 \<Longrightarrow> hex_val (hex_char d) = Some d"
  by (auto simp: hex_val_def hex_char_def is_digit_def between_def)

lemma lower_hex_char: "d < 16 \<Longrightarrow> lower_char (hex_char d) = hex_char d"
  by (auto simp: lower_char_def hex_char_def is_upper_def between_def)

lemma of_char_div16 [simp]: "of_char c div (16::nat) < 16"
  using nat_of_char_less_256 [of c] by (simp add: less_mult_imp_div_less)

lemma hexDecode_hexEncode [simp]: "hexDecode (hexEncode s) = Some s"
  by (induction s) (simp_all add: hex_val_hex_char)

lemma ToLower_hexEncode [simp]: "ToLower (hexEncode s) = hexEncode s"
  by (induction s) (simp_all add: ToLower_def lower_hex_char)

lemma length_hexEncode [simp]: "length (hexEncode s) = 2 * length s"
  by (induction s) auto

lemma hexEncode_inj: "hexEncode s = hexEncode t \<longleftrightarrow> s = t"
  by (metis hexDecode_hexEncode option.inject)

lemma hexDecode_length: "hexDecode s = Some t \<Longrightarrow> length s = 2 * length t \<and> list_all is_hex s"
proof (induction s arbitrary: t rule: hexDecode.induct)
  case (3 a b s)
  then obtain x y t' where "hex_val a = Some x" "hex_val b = Some y" "hexDecode s = Some t'"
    and "t = char_of (16 * x + y) # t'"
    by (auto split: option.splits)
  with 3 hex_val_iff [of a] hex_val_iff [of b] show ?case by auto
qed auto

lemma hexDecode_lower: "hexDecode (ToLower s) = hexDecode s"
  by (induction s rule: hexDecode.induct) (simp_all add: ToLower_def hex_val_lower)

lemma hexDecode_iff: "(\<exists>t. hexDecode s = Some t) \<longleftrightarrow> even (length s) \<and> list_all is_hex s"
proof (induction s rule: hexDecode.induct)
  case (3 a b s)
  with hex_val_iff [of a] hex_val_iff [of b] show ?case
    by (auto split: option.splits)
qed auto

section \<open>Base64\<close>

definition b64_val :: "char \<Rightarrow> int option" where
  "b64_val c =
     (if is_upper c then Some (of_char c - 65)
      else if is_lower c then Some (of_char c - 71)
      else if is_digit c then Some (of_char c + 4)
      else if c = CHR ''+'' then Some 62
      else if c = CHR ''/'' then Some 63
      else None)"

definition b64_bytes :: "int \<Rightarrow> nat \<Rightarrow> string" where
  "b64_bytes v n = take n [char_of (v div 65536), char_of (v div 256 mod 256), char_of (v mod 256)]"

text \<open>
  The decoder drops line breaks, then reads groups of four characters. The padded encoding
  (\<^verbatim>\<open>StdEncoding\<close>) fills the last group with \<^verbatim>\<open>=\<close>; the raw one
  (\<^verbatim>\<open>RawStdEncoding\<close>) leaves it short. Neither checks the unused low bits.
\<close>

fun b64_groups :: "bool \<Rightarrow> string \<Rightarrow> string option" where
  "b64_groups padded [] = Some []"
| "b64_groups padded [a] = None"
| "b64_groups padded [a, b] =
     (if padded then None
      else case (b64_val a, b64_val b) of
             (Some w, Some x) \<Rightarrow> Some (b64_bytes (262144 * w + 4096 * x) 1)
           | _ \<Rightarrow> None)"
| "b64_groups padded [a, b, c] =
     (if padded then None
      else case (b64_val a, b64_val b, b64_val c) of
             (Some w, Some x, Some y) \<Rightarrow> Some (b64_bytes (262144 * w + 4096 * x + 64 * y) 2)
           | _ \<Rightarrow> None)"
| "b64_groups padded (a # b # c # d # s) =
     (case (b64_val a, b64_val b) of
        (Some w, Some x) \<Rightarrow>
          (if padded \<and> s = [] \<and> c = CHR ''='' \<and> d = CHR ''='' then Some (b64_bytes (262144 * w + 4096 * x) 1)
           else case b64_val c of
                  None \<Rightarrow> None
                | Some y \<Rightarrow>
                    (if padded \<and> s = [] \<and> d = CHR ''='' then Some (b64_bytes (262144 * w + 4096 * x + 64 * y) 2)
                     else case (b64_val d, b64_groups padded s) of
                            (Some z, Some t) \<Rightarrow> Some (b64_bytes (262144 * w + 4096 * x + 64 * y + z) 3 @ t)
                          | _ \<Rightarrow> None))
      | _ \<Rightarrow> None)"

definition b64_decode :: "bool \<Rightarrow> string \<Rightarrow> string option" where
  "b64_decode padded s = b64_groups padded (filter (\<lambda>c. c \<noteq> CHR 0x0A \<and> c \<noteq> CHR 0x0D) s)"

text \<open>The idiom of the code: the padded decoder first, then the raw one.\<close>

definition b64_decode_any :: "string \<Rightarrow> string option" where
  "b64_decode_any s = (case b64_decode True s of Some t \<Rightarrow> Some t | None \<Rightarrow> b64_decode False s)"

section \<open>Regular expressions\<close>

text \<open>\<^verbatim>\<open>^[first][rest]{lo,hi}$\<close>.\<close>

definition MatchString :: "(char \<Rightarrow> bool) \<Rightarrow> (char \<Rightarrow> bool) \<Rightarrow> nat \<Rightarrow> nat \<Rightarrow> string \<Rightarrow> bool" where
  "MatchString first rest lo hi s =
     (case s of [] \<Rightarrow> False | c # cs \<Rightarrow> first c \<and> lo \<le> length cs \<and> length cs \<le> hi \<and> list_all rest cs)"

text \<open>\<^verbatim>\<open>^[a-fA-F0-9]{64}$\<close>.\<close>

definition is_hex64 :: "string \<Rightarrow> bool" where
  "is_hex64 s \<longleftrightarrow> length s = 64 \<and> list_all is_hex s"

lemma is_hex64_decodes: "is_hex64 s \<longleftrightarrow> (\<exists>t. hexDecode s = Some t \<and> length t = 32)"
proof
  assume "is_hex64 s"
  then obtain t where t: "hexDecode s = Some t"
    using hexDecode_iff [of s] by (auto simp: is_hex64_def)
  with \<open>is_hex64 s\<close> hexDecode_length [OF t] show "\<exists>t. hexDecode s = Some t \<and> length t = 32"
    by (auto simp: is_hex64_def)
next
  assume "\<exists>t. hexDecode s = Some t \<and> length t = 32"
  then show "is_hex64 s" using hexDecode_length by (fastforce simp: is_hex64_def)
qed

lemma is_hex64_lower: "is_hex64 (ToLower s) \<longleftrightarrow> is_hex64 s"
  by (simp add: is_hex64_decodes hexDecode_lower)

lemma MatchString_nonempty: "MatchString f r lo hi s \<Longrightarrow> s \<noteq> []"
  by (auto simp: MatchString_def)

section \<open>Floats\<close>

text \<open>
  A \<^verbatim>\<open>float64\<close> is its 64 bits. A number that is not a number compares with nothing,
  and of the others the sign decides, then the magnitude.
\<close>

definition f64_magnitude :: "u64 \<Rightarrow> int" where
  "f64_magnitude x = uint x mod 2 ^ 63"

definition f64_value :: "u64 \<Rightarrow> int" where
  "f64_value x = (if uint x < 2 ^ 63 then f64_magnitude x else - f64_magnitude x)"

definition f64_number :: "u64 \<Rightarrow> bool" where
  "f64_number x \<longleftrightarrow> f64_magnitude x \<le> 9218868437227405312"

definition f64_le :: "u64 \<Rightarrow> u64 \<Rightarrow> bool" where
  "f64_le x y \<longleftrightarrow> f64_number x \<and> f64_number y \<and> f64_value x \<le> f64_value y"

definition f64_lt :: "u64 \<Rightarrow> u64 \<Rightarrow> bool" where
  "f64_lt x y \<longleftrightarrow> f64_number x \<and> f64_number y \<and> f64_value x < f64_value y"

text \<open>The bits of 90 and 180; the sign is the highest bit.\<close>

definition f64_90 :: u64 where "f64_90 = 4636033603912859648"
definition f64_180 :: u64 where "f64_180 = 4640537203540230144"
definition f64_neg :: "u64 \<Rightarrow> u64" where "f64_neg x = x + 9223372036854775808"

end
