(* ===== verification/GoPath.thy ===== *)
theory GoPath
  imports GoStrings
begin

text \<open>
  \<^verbatim>\<open>path/filepath\<close> on Unix: \<open>Clean\<close>, \<open>path_Join\<close> and \<open>path_Dir\<close>, with the fact the
  file deployment policy rests on: a cleaned absolute path has no \<^verbatim>\<open>..\<close> component.
\<close>

section \<open>URLs\<close>

text \<open>The parts of a parsed \<^verbatim>\<open>net/url.URL\<close> that the code reads. The parser itself is an argument of the definitions that call it.\<close>

record url =
  Scheme :: string
  Host :: string
  url_Path :: string
  Hostname :: string
  User :: bool
  RawQuery :: string
  Fragment :: string

section \<open>File paths\<close>

text \<open>The components read so far are kept in reverse.\<close>

definition clean_step :: "bool \<Rightarrow> string list \<Rightarrow> string \<Rightarrow> string list" where
  "clean_step rooted st c =
     (if c = [] \<or> c = ''.'' then st
      else if c = ''..'' then
        (case st of
           t # ts \<Rightarrow> (if t = ''..'' then c # st else ts)
         | [] \<Rightarrow> (if rooted then [] else [c]))
      else c # st)"

definition clean_parts :: "string \<Rightarrow> string list" where
  "clean_parts p = rev (foldl (clean_step (HasPrefix p ''/'')) [] (Split CHR ''/'' p))"

definition Clean :: "string \<Rightarrow> string" where
  "Clean p =
     (if HasPrefix p ''/'' then ''/'' @ Join (clean_parts p) ''/''
      else if clean_parts p = [] then ''.'' else Join (clean_parts p) ''/'')"

definition path_Join :: "string \<Rightarrow> string \<Rightarrow> string" where
  "path_Join a b =
     (if a = [] \<and> b = [] then []
      else if a = [] then Clean b
      else if b = [] then Clean a
      else Clean (a @ ''/'' @ b))"

text \<open>\<^verbatim>\<open>filepath.Dir\<close>: everything up to the last slash, cleaned.\<close>

definition path_Dir :: "string \<Rightarrow> string" where
  "path_Dir p = Clean (rev (dropWhile (\<lambda>c. c \<noteq> CHR ''/'') (rev p)))"

lemma Split_no_sep: "w \<in> set (Split sep s) \<Longrightarrow> sep \<notin> set w"
  by (induction sep s arbitrary: w rule: Split.induct) (auto split: if_splits list.splits)

lemma Split_nonempty [simp]: "Split sep s \<noteq> []"
  by (induction sep s rule: Split.induct) (auto split: list.splits)

lemma Split_append_sep: "Split sep (s @ sep # t) = Split sep s @ Split sep t"
proof (induction sep s rule: Split.induct)
  case (2 sep c s)
  then show ?case
    using Split_nonempty [of sep s] by (cases "Split sep s") auto
qed simp

lemma Split_no_occurrence: "sep \<notin> set s \<Longrightarrow> Split sep s = [s]"
  by (induction sep s rule: Split.induct) auto

lemma Split_Join:
  "ws \<noteq> [] \<Longrightarrow> \<forall>w \<in> set ws. sep \<notin> set w \<Longrightarrow> Split sep (Join ws [sep]) = ws"
proof (induction ws rule: induct_list012)
  case (3 w v ws)
  then show ?case by (simp add: Split_append_sep Split_no_occurrence)
qed (auto simp: Split_no_occurrence)

text \<open>What a cleaned component is: no slash, not empty, not a dot.\<close>

definition plain_part :: "string \<Rightarrow> bool" where
  "plain_part c \<longleftrightarrow> c \<noteq> [] \<and> c \<noteq> ''.'' \<and> c \<noteq> ''..'' \<and> CHR ''/'' \<notin> set c"

lemma clean_step_rooted_plain:
  "\<forall>c \<in> set st. plain_part c \<Longrightarrow> CHR ''/'' \<notin> set c \<Longrightarrow> \<forall>d \<in> set (clean_step True st c). plain_part d"
  by (cases st) (simp_all add: clean_step_def plain_part_def)

lemma clean_step_part:
  "d \<in> set (clean_step r st c) \<Longrightarrow> d \<in> set st \<or> d = c \<and> c \<noteq> []"
  unfolding clean_step_def by (cases st) (auto simp del: char_of_eq_iff split: if_splits)

lemma foldl_clean_part:
  "d \<in> set (foldl (clean_step r) st cs) \<Longrightarrow> d \<in> set st \<or> d \<in> set cs \<and> d \<noteq> []"
proof (induction cs arbitrary: st)
  case (Cons c cs)
  then have "d \<in> set (clean_step r st c) \<or> d \<in> set cs \<and> d \<noteq> []" by simp
  then show ?case using clean_step_part [of d r st c] by auto
qed simp

lemma clean_parts_part: "d \<in> set (clean_parts p) \<Longrightarrow> d \<noteq> [] \<and> CHR ''/'' \<notin> set d"
  using foldl_clean_part [of d "HasPrefix p ''/''" "[]" "Split CHR ''/'' p"] Split_no_sep
  by (fastforce simp: clean_parts_def)

lemma foldl_clean_rooted_plain:
  "\<forall>c \<in> set cs. CHR ''/'' \<notin> set c \<Longrightarrow> \<forall>c \<in> set st. plain_part c \<Longrightarrow>
   \<forall>d \<in> set (foldl (clean_step True) st cs). plain_part d"
proof (induction cs arbitrary: st)
  case (Cons c cs)
  then have "\<forall>d \<in> set (clean_step True st c). plain_part d"
    by (intro clean_step_rooted_plain) auto
  with Cons show ?case by simp
qed simp

lemma clean_parts_rooted_plain:
  "HasPrefix p ''/'' \<Longrightarrow> c \<in> set (clean_parts p) \<Longrightarrow> plain_part c"
  using foldl_clean_rooted_plain [of "Split CHR ''/'' p" "[]"] Split_no_sep [of _ "CHR ''/''" p]
  by (auto simp: clean_parts_def)

lemma foldl_clean_plain: "\<forall>c \<in> set cs. plain_part c \<Longrightarrow> foldl (clean_step r) st cs = rev cs @ st"
  by (induction cs arbitrary: st) (auto simp: clean_step_def plain_part_def)

lemma Clean_rooted [simp]: "HasPrefix (Clean p) ''/'' \<longleftrightarrow> HasPrefix p ''/''"
proof (cases "HasPrefix p ''/''")
  case False
  show ?thesis
  proof (cases "clean_parts p")
    case Nil
    then show ?thesis using False by (simp add: Clean_def HasPrefix_def)
  next
    case (Cons c cs)
    then obtain d ds where "c = d # ds" "d \<noteq> CHR ''/''"
      using clean_parts_part [of c p] by (cases c) auto
    with Cons False show ?thesis
      by (cases cs) (auto simp: Clean_def HasPrefix_def)
  qed
qed (simp add: Clean_def HasPrefix_def)

text \<open>The parts of a cleaned absolute path are the parts it was built from.\<close>

lemma clean_parts_Clean_rooted:
  assumes "HasPrefix p ''/''"
  shows "clean_parts (Clean p) = clean_parts p"
proof -
  have plain: "\<forall>c \<in> set (clean_parts p). plain_part c"
    using assms clean_parts_rooted_plain by blast
  have "Clean p = [] @ CHR ''/'' # Join (clean_parts p) ''/''"
    using assms by (simp add: Clean_def)
  then have sp: "Split CHR ''/'' (Clean p) = [[]] @ Split CHR ''/'' (Join (clean_parts p) ''/'')"
    by (metis Split.simps(1) Split_append_sep)
  show ?thesis
  proof (cases "clean_parts p = []")
    case True
    then show ?thesis using sp assms by (simp add: clean_parts_def [of "Clean p"] clean_step_def)
  next
    case False
    then have "Split CHR ''/'' (Join (clean_parts p) ''/'') = clean_parts p"
      using plain by (intro Split_Join) (auto simp: plain_part_def)
    then show ?thesis
      using sp assms plain by (simp add: clean_parts_def [of "Clean p"] clean_step_def foldl_clean_plain)
  qed
qed

lemma Clean_idem_rooted: "HasPrefix p ''/'' \<Longrightarrow> Clean (Clean p) = Clean p"
  by (simp add: Clean_def [of "Clean p"] clean_parts_Clean_rooted) (simp add: Clean_def)

end
