(* ===== verification/AgentOTA.thy ===== *)
theory AgentOTA
  imports GoCodec GoPath "HOL-Library.List_Lexorder" "HOL-Library.Char_ord"
begin

text \<open>
  The agent's OTA data and the checks that need no adapter:
  \<^verbatim>\<open>agent/internal/ota/ota.go\<close> (the request, its validation, the discovery of
  adapters), \<^verbatim>\<open>signature.go\<close> (digest and release signature) and \<^verbatim>\<open>download.go\<close>
  (the resumable download).

  The outside world is a type \<open>'w\<close>: whatever the adapters, the HTTP server, the clock and the
  disk do, they do as functions on it, collected in the record \<open>Sys\<close>. Cryptography is the
  record \<open>crypto\<close>. Beside \<open>'w\<close> the model keeps the regular files the engine itself reads and
  writes (\<open>files\<close>), the transaction files (\<open>txs\<close>, in \<^verbatim>\<open>AgentEngine\<close>) and a log of the
  calls that leave the engine (\<open>elog\<close>), which the engine never reads. A file that exists but
  cannot be read counts as absent.
\<close>

section \<open>Data\<close>

text \<open>A slice that may be nil is an option: \<^verbatim>\<open>nil\<close> and \<^verbatim>\<open>[]string{}\<close> differ for \<^verbatim>\<open>reflect.DeepEqual\<close>.\<close>

record Request =
  UpdateID :: string
  rq_Adapter :: string
  Version :: string
  Product :: string
  Architecture :: string
  ArtifactURL :: string
  ArtifactSize :: int
  Digest :: string
  Signature :: string
  SigningKeyID :: string
  CompatibleFrom :: "string list option"
  FlatpakRef :: string
  FlatpakRemote :: string
  FlatpakCommit :: string
  RepositoryURL :: string
  OSTreeRemote :: string
  OSTreeRef :: string
  OSTreeCommit :: string
  OSTreeOS :: string

record Status =
  st_UpdateID :: string
  st_Adapter :: string
  st_State :: string
  st_Version :: string
  st_Error :: string

record Config =
  Enabled :: bool
  cfg_Product :: string
  StateDir :: string
  StagingDir :: string
  TrustedKeysDir :: string
  PluginDir :: string
  MaxArtifactBytes :: int
  MinFreeBytes :: u64
  DownloadTimeout :: duration
  HealthTimeout :: duration
  HealthCheckCommand :: string
  AutoReboot :: bool

datatype public_key = Ed25519PublicKey string | OtherPublicKey

record crypto =
  sha256 :: "string \<Rightarrow> string"
  ed25519_Verify :: "string \<Rightarrow> string \<Rightarrow> string \<Rightarrow> bool"
  pem_Decode :: "string \<Rightarrow> string option"
  ParsePKIXPublicKey :: "string \<Rightarrow> public_key result"

text \<open>
  An HTTP exchange: the final scheme after redirects, and the body as the bytes that arrive
  before it ends, with the error it ends in, if any.
\<close>

record http_response =
  StatusCode :: int
  StatusText :: string
  FinalScheme :: string
  ContentLength :: int
  ContentRange :: string
  Body :: string
  BodyErr :: "go_error option"

record 'w Sys =
  goarch :: string
  sys_now :: "'w \<Rightarrow> go_time \<times> 'w"
  sys_bootID :: "'w \<Rightarrow> string \<times> 'w"
  sys_readErr :: "'w \<Rightarrow> go_error option \<times> 'w"
  sys_saveErr :: "'w \<Rightarrow> go_error option \<times> 'w"
  sys_fileErr :: "'w \<Rightarrow> go_error option \<times> 'w"
  sys_statfs :: "'w \<Rightarrow> (u64 \<times> u64) result \<times> 'w"
  http_Do :: "string \<Rightarrow> int \<Rightarrow> 'w \<Rightarrow> http_response result \<times> 'w"
  url_Parse :: "string \<Rightarrow> url result"
  LookPath :: "string \<Rightarrow> 'w \<Rightarrow> bool"
  Run :: "string \<Rightarrow> string list \<Rightarrow> 'w \<Rightarrow> (string \<times> go_error option) \<times> 'w"
  StatExecutable :: "string \<Rightarrow> 'w \<Rightarrow> bool"
  RunPlugin :: "string \<Rightarrow> string \<Rightarrow> Request \<Rightarrow> string \<Rightarrow> string \<Rightarrow> 'w \<Rightarrow> (string \<times> go_error option) \<times> 'w"
  RequiresRebootOutput :: "string \<Rightarrow> 'w \<Rightarrow> (string \<times> go_error option) \<times> 'w"
  sys_healthTicks :: "'w \<Rightarrow> nat \<times> 'w"

section \<open>Names and architectures\<close>

definition adapterNamePattern :: "string \<Rightarrow> bool" where
  "adapterNamePattern = MatchString is_lower (\<lambda>c. is_lower c \<or> is_digit c \<or> c = CHR ''-'') 1 31"

definition ostreeNamePattern :: "string \<Rightarrow> bool" where
  "ostreeNamePattern = MatchString is_alnum (\<lambda>c. is_alnum c \<or> c \<in> set ''._-'') 0 63"

definition ostreeRefPattern :: "string \<Rightarrow> bool" where
  "ostreeRefPattern = MatchString is_alnum (\<lambda>c. is_alnum c \<or> c \<in> set ''._/-'') 0 199"

definition signingKeyIDPattern :: "string \<Rightarrow> bool" where
  "signingKeyIDPattern = MatchString is_alnum (\<lambda>c. is_alnum c \<or> c \<in> set ''._-'') 0 63"

definition CanonicalArchitecture :: "string \<Rightarrow> string" where
  "CanonicalArchitecture value =
     (let v = ToLower (TrimSpace value) in
      if v = ''arm64'' \<or> v = ''aarch64'' then ''arm64''
      else if v = ''arm'' \<or> v = ''armv7'' \<or> v = ''armv7l'' \<or> v = ''armhf'' then ''armv7''
      else if v = ''amd64'' \<or> v = ''x86_64'' then ''amd64''
      else v)"

section \<open>Request validation\<close>

definition validateOSTreeRequest :: "Request \<Rightarrow> go_error option" where
  "validateOSTreeRequest request =
     (if (case hexDecode (OSTreeCommit request) of None \<Rightarrow> True | Some commit \<Rightarrow> length commit \<noteq> 32)
      then Some (ErrorString ''OSTree target commit must be a 64-character SHA-256 checksum'')
      else if OSTreeOS request \<noteq> [] \<and> \<not> ostreeNamePattern (OSTreeOS request)
      then Some (ErrorString ''OSTree deployment OS name is invalid'')
      else if \<not> (OSTreeRemote request \<noteq> [] \<or> OSTreeRef request \<noteq> [])
      then (if ArtifactURL request = []
            then Some (ErrorString ''OSTree offline updates require a signed static-delta artifact URL'')
            else None)
      else if ArtifactURL request \<noteq> []
      then Some (ErrorString ''OSTree update must use either a repository or a static-delta artifact, not both'')
      else if \<not> ostreeNamePattern (OSTreeRemote request) \<or> \<not> ostreeRefPattern (OSTreeRef request)
      then Some (ErrorString ''OSTree repository updates require a valid preconfigured remote and ref'')
      else if \<not> EqualFold (Digest request) (OSTreeCommit request)
      then Some (ErrorString ''OSTree repository digest must equal the pinned target commit'')
      else None)"

definition usesOSTreeRepository :: "Request \<Rightarrow> bool" where
  "usesOSTreeRepository request \<longleftrightarrow> rq_Adapter request = ''ostree'' \<and> OSTreeRemote request \<noteq> []"

text \<open>The checks of an update of the operating system, that is of every adapter but Flatpak.\<close>

definition validateOSRequest :: "string \<Rightarrow> Config \<Rightarrow> Request \<Rightarrow> go_error option" where
  "validateOSRequest arch cfg request =
     (if Digest request = [] \<or> Signature request = [] \<or> SigningKeyID request = []
      then Some (ErrorString ''OS OTA requires a SHA-256 digest, detached signature, and signing key ID'')
      else if CanonicalArchitecture (Architecture request) \<noteq> CanonicalArchitecture arch
      then Some (ErrorString (''artifact architecture '' @ quote (Architecture request)
                              @ '' does not match device architecture '' @ quote arch))
      else if cfg_Product cfg = []
      then Some (ErrorString ''ota.product must be configured before OS updates are allowed'')
      else if Product request \<noteq> cfg_Product cfg
      then Some (ErrorString (''artifact product '' @ quote (Product request)
                              @ '' does not match configured product '' @ quote (cfg_Product cfg)))
      else if rq_Adapter request = ''ostree'' then validateOSTreeRequest request
      else if ArtifactURL request = [] then Some (ErrorString ''OS OTA requires an artifact URL'')
      else None)"

definition ValidateRequest :: "string \<Rightarrow> Config \<Rightarrow> Request \<Rightarrow> go_error option" where
  "ValidateRequest arch cfg request =
     (if UpdateID request = [] \<or> Version request = [] \<or> \<not> adapterNamePattern (rq_Adapter request)
      then Some (ErrorString ''OTA request requires an update ID, version, and valid adapter'')
      else case (if rq_Adapter request \<noteq> ''flatpak'' then validateOSRequest arch cfg request else None) of
             Some err \<Rightarrow> Some err
           | None \<Rightarrow>
               (if ArtifactSize request < 0
                   \<or> (0 < MaxArtifactBytes cfg \<and> MaxArtifactBytes cfg < ArtifactSize request)
                then Some (ErrorString ''artifact exceeds the configured size limit'')
                else None))"

section \<open>Discovery of the installed adapters\<close>

text \<open>\<open>compact\<close> drops a value equal to the one kept before it.\<close>

fun compact_from :: "string \<Rightarrow> string list \<Rightarrow> string list" where
  "compact_from prev [] = []"
| "compact_from prev (v # vs) = (if v \<noteq> prev then v # compact_from v vs else compact_from prev vs)"

definition compact :: "string list \<Rightarrow> string list" where
  "compact values = (case values of [] \<Rightarrow> [] | v # vs \<Rightarrow> v # compact_from v vs)"

definition native_commands :: "string go_map" where
  "native_commands = [(''flatpak'', ''flatpak''), (''mender'', ''mender-update''), (''ostree'', ''ostree''),
     (''rauc'', ''rauc''), (''swupdate'', ''swupdate'')]"

definition native_capability :: "(string \<Rightarrow> bool) \<Rightarrow> string \<times> string \<Rightarrow> string option" where
  "native_capability look nc =
     (if look (snd nc) then Some (''ota:'' @ fst nc)
      else if fst nc = ''mender'' then (if look ''mender'' then Some ''ota:mender'' else None)
      else None)"

text \<open>A directory entry: its name, whether it is a directory, and its permission to execute, if its information can be read.\<close>

type_synonym dir_entry = "string \<times> bool \<times> bool option"

definition plugin_capability :: "dir_entry \<Rightarrow> string option" where
  "plugin_capability e =
     (case e of (name, isdir, exec) \<Rightarrow>
        if isdir \<or> \<not> adapterNamePattern name then None
        else if exec = Some True then Some (''ota:'' @ name) else None)"

definition DiscoverCapabilities :: "order \<Rightarrow> (string \<Rightarrow> bool) \<Rightarrow> dir_entry list \<Rightarrow> string list" where
  "DiscoverCapabilities r look entries =
     compact (sort (List.map_filter (native_capability look) (range_map r native_commands)
                    @ List.map_filter plugin_capability entries))"

lemma set_compact_from: "insert l (set (compact_from l vs)) = insert l (set vs)"
  by (induction l vs rule: compact_from.induct) auto

lemma sorted_compact_from: "sorted (l # vs) \<Longrightarrow> sorted_wrt (<) (l # compact_from l vs)"
proof (induction l vs rule: compact_from.induct)
  case (2 prev v vs)
  show ?case
  proof (cases "v = prev")
    case True
    with 2 show ?thesis by simp
  next
    case False
    moreover have "prev \<le> v" using 2 by simp
    ultimately have "prev < v" by (simp add: order_less_le)
    moreover have "sorted_wrt (<) (v # compact_from v vs)" using 2 False by simp
    ultimately show ?thesis using False by auto
  qed
qed simp

lemma set_compact [simp]: "set (compact vs) = set vs"
  by (cases vs) (simp_all add: compact_def set_compact_from)

lemma sorted_compact: "sorted vs \<Longrightarrow> sorted_wrt (<) (compact vs)"
  using sorted_compact_from by (auto simp: compact_def split: list.splits)

lemma set_DiscoverCapabilities:
  "set (DiscoverCapabilities r look entries) =
     {c. \<exists>nc \<in> set native_commands. native_capability look nc = Some c}
     \<union> {c. \<exists>e \<in> set entries. plugin_capability e = Some c}"
  by (auto simp: DiscoverCapabilities_def map_filter_def image_iff; force)

end
