(* ===== verification/AgentDownload.thy ===== *)
theory AgentDownload
  imports AgentOTA
begin

text \<open>
  The artifact side of an update: \<^verbatim>\<open>agent/internal/ota/download.go\<close> and
  \<^verbatim>\<open>signature.go\<close>. A download that succeeds leaves, under its final name, a file whose
  SHA-256 is the digest of the request and whose length respects the limit; one that fails
  leaves whatever was under the final name as it was.
\<close>

section \<open>The world the engine works in\<close>

text \<open>A transaction as \<^verbatim>\<open>engine.go\<close> persists it.\<close>

record transaction =
  tx_Request :: Request
  Phase :: string
  ArtifactPath :: string
  PreviousVersion :: string
  BootID :: string
  Failure :: string
  RebootAttempts :: int
  UpdatedAt :: go_time

text \<open>A transaction file decodes to a transaction or is rejected by the JSON decoder.\<close>

datatype tx_file = TxJSON transaction | TxCorrupt go_error

text \<open>
  The calls of the engine that its correctness is about, as they are made, with their
  arguments. \<open>EvSave\<close> is a save that succeeded. \<open>EvVerify\<close> is a verification with what it
  finds: the path of the artifact, its bytes and the release key, \<open>None\<close> where there is none.
\<close>

datatype event =
    EvProgress string
  | EvSave transaction
  | EvCurrentVersion Request
  | EvVerify Request string "string option" "string option"
  | EvCheck Request string
  | EvInstall Request string
  | EvActivate Request
  | EvCommit Request
  | EvRollback Request string
  | EvReboot
  | EvHealth "string list"

record 'w osw =
  files :: "string go_map"
  txs :: "tx_file go_map"
  elog :: "event list"
  ext :: 'w

definition ext_call :: "('w \<Rightarrow> 'a \<times> 'w) \<Rightarrow> 'w osw \<Rightarrow> 'a \<times> 'w osw" where
  "ext_call f w = (fst (f (ext w)), w\<lparr>ext := snd (f (ext w))\<rparr>)"

definition emit :: "event \<Rightarrow> 'w osw \<Rightarrow> 'w osw" where
  "emit e w = w\<lparr>elog := elog w @ [e]\<rparr>"

lemma ext_call_frame:
  "ext_call f w = (a, w') \<Longrightarrow> files w' = files w \<and> txs w' = txs w \<and> elog w' = elog w"
  by (auto simp: ext_call_def)

lemma ext_call_snd [simp]:
  "files (snd (ext_call f w)) = files w" "txs (snd (ext_call f w)) = txs w"
  "elog (snd (ext_call f w)) = elog w"
  by (simp_all add: ext_call_def)

lemma emit_frame [simp]:
  "files (emit e w) = files w" "txs (emit e w) = txs w" "ext (emit e w) = ext w"
  "elog (emit e w) = elog w @ [e]"
  by (simp_all add: emit_def)

section \<open>Digests and release signatures\<close>

definition safeID :: "string \<Rightarrow> string" where
  "safeID value = map (\<lambda>c. if is_alnum c \<or> c = CHR ''-'' \<or> c = CHR ''_'' then c else CHR ''_'') value"

definition digestMatches :: "crypto \<Rightarrow> 'w osw \<Rightarrow> string \<Rightarrow> string \<Rightarrow> bool" where
  "digestMatches cr w path expected =
     (case mget (files w) path of
        None \<Rightarrow> False
      | Some b \<Rightarrow> hexEncode (sha256 cr b) = ToLower expected)"

definition verifyReleaseSignature :: "crypto \<Rightarrow> 'w osw \<Rightarrow> Request \<Rightarrow> string \<Rightarrow> go_error option" where
  "verifyReleaseSignature cr w request trustedKeysDir =
     (if \<not> signingKeyIDPattern (SigningKeyID request) then Some (ErrorString ''invalid signing key ID'')
      else case mget (files w) (path_Join trustedKeysDir (SigningKeyID request @ ''.pem'')) of
        None \<Rightarrow> Some (ErrorString (''trusted release key '' @ quote (SigningKeyID request) @ '' is unavailable''))
      | Some keyPEM \<Rightarrow>
        (case pem_Decode cr keyPEM of
           None \<Rightarrow> Some (ErrorString ''trusted release key is not PEM encoded'')
         | Some block \<Rightarrow>
           (case ParsePKIXPublicKey cr block of
              Inl err \<Rightarrow> Some (ErrorString (''parse trusted release key: '' @ Error err))
            | Inr OtherPublicKey \<Rightarrow> Some (ErrorString ''trusted release key must be Ed25519'')
            | Inr (Ed25519PublicKey publicKey) \<Rightarrow>
              (case b64_decode_any (Signature request) of
                 None \<Rightarrow> Some (ErrorString ''detached signature must be a base64 Ed25519 signature'')
               | Some signature \<Rightarrow>
                 (if length signature \<noteq> 64
                  then Some (ErrorString ''detached signature must be a base64 Ed25519 signature'')
                  else if \<not> ed25519_Verify cr publicKey (ToLower (Digest request)) signature
                  then Some (ErrorString ''release signature is invalid'')
                  else None)))))"

definition verifyArtifact :: "crypto \<Rightarrow> 'w osw \<Rightarrow> string \<Rightarrow> Request \<Rightarrow> string \<Rightarrow> go_error option" where
  "verifyArtifact cr w path request trustedKeysDir =
     (if \<not> digestMatches cr w path (Digest request)
      then Some (ErrorString ''artifact SHA-256 digest mismatch'')
      else verifyReleaseSignature cr w request trustedKeysDir)"

text \<open>What an accepted release signature means: some trusted Ed25519 key signed the lower-case digest.\<close>

definition key_path :: "string \<Rightarrow> Request \<Rightarrow> string" where
  "key_path dir request = path_Join dir (SigningKeyID request @ ''.pem'')"

definition signed_with :: "crypto \<Rightarrow> string \<Rightarrow> Request \<Rightarrow> bool" where
  "signed_with cr keyPEM request \<longleftrightarrow>
     (case pem_Decode cr keyPEM of None \<Rightarrow> False | Some block \<Rightarrow>
     (case ParsePKIXPublicKey cr block of Inr (Ed25519PublicKey publicKey) \<Rightarrow>
        (case b64_decode_any (Signature request) of None \<Rightarrow> False | Some signature \<Rightarrow>
           length signature = 64 \<and> ed25519_Verify cr publicKey (ToLower (Digest request)) signature)
      | _ \<Rightarrow> False))"

definition signed_by_trusted_key :: "crypto \<Rightarrow> 'w osw \<Rightarrow> string \<Rightarrow> Request \<Rightarrow> bool" where
  "signed_by_trusted_key cr w dir request \<longleftrightarrow>
     (case mget (files w) (key_path dir request) of None \<Rightarrow> False | Some keyPEM \<Rightarrow> signed_with cr keyPEM request)"

lemma verifyReleaseSignature_None:
  "verifyReleaseSignature cr w request dir = None \<Longrightarrow> signed_by_trusted_key cr w dir request"
  by (auto simp: verifyReleaseSignature_def signed_by_trusted_key_def signed_with_def key_path_def
      split: if_splits option.splits sum.splits public_key.splits)

lemma verifyArtifact_None:
  "verifyArtifact cr w path request dir = None \<Longrightarrow>
     digestMatches cr w path (Digest request) \<and> signed_by_trusted_key cr w dir request"
  by (auto simp: verifyArtifact_def dest: verifyReleaseSignature_None split: if_splits)

section \<open>The resumable download\<close>

definition artifact_final :: "Config \<Rightarrow> Request \<Rightarrow> string" where
  "artifact_final cfg request = path_Join (StagingDir cfg) (safeID (UpdateID request) @ ''.artifact'')"

definition artifact_partial :: "Config \<Rightarrow> Request \<Rightarrow> string" where
  "artifact_partial cfg request = artifact_final cfg request @ ''.part''"

text \<open>The checks of the response, in the order of the code.\<close>

definition response_error :: "Config \<Rightarrow> int \<Rightarrow> http_response \<Rightarrow> go_error option" where
  "response_error cfg offset response =
     (if StatusCode response \<noteq> 200 \<and> StatusCode response \<noteq> 206
      then Some (ErrorString (''artifact server returned '' @ StatusText response))
      else if FinalScheme response \<noteq> ''https''
      then Some (ErrorString ''artifact download left HTTPS'')
      else if 0 < ContentLength response \<and> 0 < MaxArtifactBytes cfg
              \<and> MaxArtifactBytes cfg < i64 (offset + ContentLength response)
      then Some (ErrorString ''artifact server reported a payload larger than the configured limit'')
      else if 0 < offset \<and> StatusCode response = 206
              \<and> \<not> HasPrefix (ContentRange response) (''bytes '' @ itoa offset @ ''-'')
      then Some (ErrorString ''artifact server returned an invalid resume range'')
      else None)"

definition download_limit :: "Config \<Rightarrow> int" where
  "download_limit cfg = (if MaxArtifactBytes cfg \<le> 0 then 4 * 2 ^ 30 else MaxArtifactBytes cfg)"

text \<open>
  \<^verbatim>\<open>io.Copy(f, io.LimitReader(body, limit-offset+1))\<close>: at most that many bytes, and the
  body's own error only when the limit was not reached first.
\<close>

definition copy_count :: "Config \<Rightarrow> int \<Rightarrow> http_response \<Rightarrow> nat" where
  "copy_count cfg offset response =
     min (length (Body response)) (nat (i64 (download_limit cfg - offset + 1)))"

definition copy_error :: "Config \<Rightarrow> int \<Rightarrow> http_response \<Rightarrow> go_error option" where
  "copy_error cfg offset response =
     (if length (Body response) < nat (i64 (download_limit cfg - offset + 1)) then BodyErr response else None)"

text \<open>
  The part of an earlier attempt that is kept: all of it when the server honours the range
  request, none of it otherwise (the file is truncated and the offset reset to 0).
\<close>

definition kept_part :: "string option \<Rightarrow> http_response \<Rightarrow> string" where
  "kept_part part response =
     (case part of None \<Rightarrow> [] | Some b \<Rightarrow> if b \<noteq> [] \<and> StatusCode response = 206 then b else [])"

text \<open>Writing the body to the partial file and moving it into place.\<close>

definition store_body ::
  "crypto \<Rightarrow> 'w Sys \<Rightarrow> Config \<Rightarrow> Request \<Rightarrow> string \<Rightarrow> http_response \<Rightarrow> 'w osw \<Rightarrow> string result \<times> 'w osw" where
  "store_body cr sys cfg request old response w =
     (let final = artifact_final cfg request; partial = artifact_partial cfg request;
          offset = int (length old);
          written = copy_count cfg offset response;
          (openErr, w) = ext_call (sys_fileErr sys) w in
      case openErr of Some err \<Rightarrow> (Inl err, w) | None \<Rightarrow>
     (let w = w\<lparr>files := mput partial (old @ take written (Body response)) (files w)\<rparr>;
          (syncErr, w) = ext_call (sys_fileErr sys) w;
          (closeErr, w) = ext_call (sys_fileErr sys) w in
      case copy_error cfg offset response of Some err \<Rightarrow> (Inl err, w) | None \<Rightarrow>
      case syncErr of Some err \<Rightarrow> (Inl err, w) | None \<Rightarrow>
      case closeErr of Some err \<Rightarrow> (Inl err, w) | None \<Rightarrow>
     (if download_limit cfg < offset + int written
      then (Inl (ErrorString ''download exceeded the configured artifact size limit''), w)
      else if 0 < ArtifactSize request \<and> offset + int written \<noteq> ArtifactSize request
      then (Inl (ErrorString (''artifact size mismatch: expected '' @ itoa (ArtifactSize request)
                              @ '' bytes, received '' @ itoa (offset + int written))), w)
      else if \<not> digestMatches cr w partial (Digest request)
      then (let (removeErr, w) = ext_call (sys_fileErr sys) w in
            (Inl (ErrorString ''artifact SHA-256 digest mismatch''),
             if removeErr = None then w\<lparr>files := mdel partial (files w)\<rparr> else w))
      else let (renameErr, w) = ext_call (sys_fileErr sys) w in
           case renameErr of Some err \<Rightarrow> (Inl err, w) | None \<Rightarrow>
             (Inr final,
              w\<lparr>files := mput final (old @ take written (Body response)) (mdel partial (files w))\<rparr>))))"

definition fetch :: "crypto \<Rightarrow> 'w Sys \<Rightarrow> Config \<Rightarrow> Request \<Rightarrow> 'w osw \<Rightarrow> string result \<times> 'w osw" where
  "fetch cr sys cfg request w =
     (if \<not> HasPrefix (ToLower (ArtifactURL request)) ''https://''
      then (Inl (ErrorString ''artifact URL must use HTTPS''), w)
      else if digestMatches cr w (artifact_final cfg request) (Digest request)
      then (Inr (artifact_final cfg request), w)
      else
        let part = mget (files w) (artifact_partial cfg request);
            offset = (case part of None \<Rightarrow> 0 | Some b \<Rightarrow> int (length b));
            (resp, w) = ext_call (http_Do sys (ArtifactURL request) offset) w in
        case resp of
          Inl err \<Rightarrow> (Inl err, w)
        | Inr response \<Rightarrow>
            (case response_error cfg offset response of
               Some err \<Rightarrow> (Inl err, w)
             | None \<Rightarrow>
                 store_body cr sys cfg request (kept_part part response) response w))"

lemma partial_not_final [simp]:
  "artifact_partial cfg request \<noteq> artifact_final cfg request"
  "artifact_final cfg request \<noteq> artifact_partial cfg request"
  by (simp_all add: artifact_partial_def)

lemma copy_count_le [simp]: "min (length (Body response)) (copy_count cfg offset response) = copy_count cfg offset response"
  by (simp add: copy_count_def)

text \<open>What \<open>store_body\<close> does to the files, whatever happens.\<close>

lemma store_body_spec:
  assumes "store_body cr sys cfg request old response w = (res, w')"
  shows "(\<forall>p. p \<notin> {artifact_final cfg request, artifact_partial cfg request}
            \<longrightarrow> mget (files w') p = mget (files w) p)
    \<and> elog w' = elog w \<and> txs w' = txs w
    \<and> (case res of
         Inl _ \<Rightarrow> mget (files w') (artifact_final cfg request) = mget (files w) (artifact_final cfg request)
       | Inr path \<Rightarrow> path = artifact_final cfg request
           \<and> digestMatches cr w' path (Digest request)
           \<and> (\<exists>b. mget (files w') path = Some b \<and> int (length b) \<le> download_limit cfg
                \<and> (0 < ArtifactSize request \<longrightarrow> int (length b) = ArtifactSize request)))"
  using assms
  unfolding store_body_def Let_def ext_call_def prod.case
  by (auto simp: digestMatches_def split: option.splits if_splits)

lemma fetch_spec:
  assumes "fetch cr sys cfg request w = (res, w')"
  shows "(\<forall>p. p \<notin> {artifact_final cfg request, artifact_partial cfg request}
            \<longrightarrow> mget (files w') p = mget (files w) p)
    \<and> elog w' = elog w \<and> txs w' = txs w
    \<and> (case res of
         Inl _ \<Rightarrow> mget (files w') (artifact_final cfg request) = mget (files w) (artifact_final cfg request)
       | Inr path \<Rightarrow> path = artifact_final cfg request \<and> digestMatches cr w' path (Digest request)
           \<and> (w' = w \<or> (\<exists>b. mget (files w') path = Some b \<and> int (length b) \<le> download_limit cfg
                \<and> (0 < ArtifactSize request \<longrightarrow> int (length b) = ArtifactSize request))))"
proof (cases "HasPrefix (ToLower (ArtifactURL request)) ''https://''
    \<and> \<not> digestMatches cr w (artifact_final cfg request) (Digest request)")
  case False
  then show ?thesis using assms by (auto simp: fetch_def split: if_splits)
next
  case True
  define part where "part = mget (files w) (artifact_partial cfg request)"
  define offset where "offset = (case part of None \<Rightarrow> 0 | Some b \<Rightarrow> int (length b))"
  obtain resp w1 where call: "ext_call (http_Do sys (ArtifactURL request) offset) w = (resp, w1)"
    by fastforce
  have frame: "files w1 = files w" "txs w1 = txs w" "elog w1 = elog w"
    using ext_call_frame [OF call] by auto
  have run: "(case resp of Inl err \<Rightarrow> (Inl err, w1) | Inr response \<Rightarrow>
      (case response_error cfg offset response of
         Some err \<Rightarrow> (Inl err, w1)
       | None \<Rightarrow> store_body cr sys cfg request (kept_part part response) response w1)) = (res, w')"
    using assms True call [unfolded offset_def] unfolding fetch_def part_def [symmetric] offset_def
    by (simp add: Let_def)
  show ?thesis
  proof (cases "\<exists>response. resp = Inr response \<and> response_error cfg offset response = None")
    case True
    then obtain response where
      "store_body cr sys cfg request (kept_part part response) response w1 = (res, w')"
      using run by auto
    from store_body_spec [OF this] frame show ?thesis by (auto split: sum.splits)
  next
    case False
    then show ?thesis using run frame by (auto split: sum.splits option.splits)
  qed
qed

end
