(* ===== verification/AgentAdapters.thy ===== *)
theory AgentAdapters
  imports AgentDownload
begin

text \<open>
  The device adapters of \<^verbatim>\<open>agent/internal/ota/adapters.go\<close> and the Flatpak updates of
  \<^verbatim>\<open>agent/internal/applications/flatpak.go\<close>. An adapter is the record of its methods.
  The commands it runs are calls of \<open>Run\<close>, the parameter that stands for
  \<^verbatim>\<open>os/exec\<close>; whatever they do to the device they do to the world \<open>'w\<close>.
\<close>

section \<open>Flatpak updates\<close>

record FlatpakUpdate =
  CampaignID :: string
  Ref :: string
  Remote :: string
  Commit :: string
  fp_RepositoryURL :: string

definition flatpakRefPattern :: "string \<Rightarrow> bool" where
  "flatpakRefPattern = MatchString is_alnum (\<lambda>c. is_alnum c \<or> c \<in> set ''._/-'') 2 199"

definition flatpakRemotePattern :: "string \<Rightarrow> bool" where
  "flatpakRemotePattern = MatchString is_alnum (\<lambda>c. is_alnum c \<or> c \<in> set ''._-'') 0 63"

definition flatpakCommitPattern :: "string \<Rightarrow> bool" where
  "flatpakCommitPattern s \<longleftrightarrow> length s = 64 \<and> list_all is_hex s"

text \<open>The payload is given decoded, \<open>None\<close> when it is not the JSON of an update.\<close>

definition ParseFlatpakUpdate ::
  "(string \<Rightarrow> url result) \<Rightarrow> FlatpakUpdate option \<Rightarrow> FlatpakUpdate result" where
  "ParseFlatpakUpdate parse payload =
     (case payload of
        None \<Rightarrow> Inl (ErrorString ''invalid Flatpak update payload'')
      | Some update \<Rightarrow>
          if CampaignID update = [] then Inl (ErrorString ''Flatpak update is missing its campaign ID'')
          else if \<not> flatpakRefPattern (Ref update) then Inl (ErrorString ''invalid Flatpak reference'')
          else if \<not> flatpakRemotePattern (Remote update) then Inl (ErrorString ''invalid Flatpak remote'')
          else if Commit update \<noteq> [] \<and> \<not> flatpakCommitPattern (Commit update)
          then Inl (ErrorString ''invalid Flatpak OSTree commit'')
          else if fp_RepositoryURL update \<noteq> [] \<and>
             (case parse (fp_RepositoryURL update) of
                Inl err \<Rightarrow> True
              | Inr parsed \<Rightarrow> Scheme parsed \<noteq> ''https'' \<or> Host parsed = []
                  \<or> \<not> HasSuffix (ToLower (url_Path parsed)) ''.flatpakrepo'')
          then Inl (ErrorString ''Flatpak repository URL must use HTTPS and point to a .flatpakrepo descriptor'')
          else Inr update)"

text \<open>The arguments of the two commands that check and apply an update.\<close>

definition flatpak_infoArgs :: "FlatpakUpdate \<Rightarrow> string list" where
  "flatpak_infoArgs update =
     [''remote-info'', ''--system'', ''--show-commit'']
     @ (if Commit update \<noteq> [] then [''--commit='' @ Commit update] else [])
     @ [Remote update, Ref update]"

definition flatpak_updateArgs :: "FlatpakUpdate \<Rightarrow> string list" where
  "flatpak_updateArgs update =
     [''update'', ''--system'', ''--noninteractive'', ''--assumeyes'']
     @ (if Commit update \<noteq> [] then [''--commit='' @ Commit update] else [])
     @ [Ref update]"

definition flatpak_remoteAddArgs :: "FlatpakUpdate \<Rightarrow> string list" where
  "flatpak_remoteAddArgs update =
     [''remote-add'', ''--system'', ''--if-not-exists'', Remote update, fp_RepositoryURL update]"

type_synonym 'w runner = "string \<Rightarrow> string list \<Rightarrow> 'w \<Rightarrow> (string \<times> go_error option) \<times> 'w"

definition RunFlatpakUpdate ::
  "(string \<Rightarrow> 'w \<Rightarrow> bool) \<Rightarrow> 'w runner \<Rightarrow> FlatpakUpdate \<Rightarrow> 'w \<Rightarrow> (string \<times> go_error option) \<times> 'w" where
  "RunFlatpakUpdate look exec update w =
     (if \<not> look ''flatpak'' w
      then (([], Some (ErrorString ''flatpak is not installed on this device'')), w)
      else
        let ((output, addErr), w) =
              (if fp_RepositoryURL update \<noteq> [] then exec ''flatpak'' (flatpak_remoteAddArgs update) w
               else (([], None), w));
            remoteOutput = TrimSpace output in
        case addErr of
          Some err \<Rightarrow> ((remoteOutput, Some (ErrorString (''Flatpak repository setup failed: '' @ Error err))), w)
        | None \<Rightarrow>
          let ((availableCommit, infoErr), w) = exec ''flatpak'' (flatpak_infoArgs update) w in
          case infoErr of
            Some err \<Rightarrow> ((availableCommit, Some (ErrorString (''Flatpak remote validation failed: '' @ Error err))), w)
          | None \<Rightarrow>
            let ((output, updateErr), w) = exec ''flatpak'' (flatpak_updateArgs update) w;
                combined = (if remoteOutput \<noteq> [] then ''Repository: '' @ remoteOutput @ [CHR 0x0A] else [])
                  @ ''Resolved commit: '' @ TrimSpace availableCommit @ [CHR 0x0A] @ output in
            case updateErr of
              Some err \<Rightarrow> ((combined, Some (ErrorString (''Flatpak update failed: '' @ Error err))), w)
            | None \<Rightarrow> ((combined, None), w))"

lemma ParseFlatpakUpdate_ok:
  "ParseFlatpakUpdate parse payload = Inr update \<Longrightarrow>
     payload = Some update \<and> CampaignID update \<noteq> [] \<and> flatpakRefPattern (Ref update)
     \<and> flatpakRemotePattern (Remote update) \<and> (Commit update \<noteq> [] \<longrightarrow> flatpakCommitPattern (Commit update))"
  by (auto simp: ParseFlatpakUpdate_def split: option.splits if_splits)

text \<open>
  No argument of a command built from a checked update can be read as an option: a reference
  and a remote begin with a letter or a digit.
\<close>

definition is_option :: "string \<Rightarrow> bool" where
  "is_option arg \<longleftrightarrow> HasPrefix arg ''-''"

lemma MatchString_alnum_no_option:
  "MatchString is_alnum r lo hi s \<Longrightarrow> \<not> is_option s"
  by (cases s) (auto simp: MatchString_def is_option_def HasPrefix_def is_alnum_def is_lower_def is_upper_def is_digit_def between_def)

lemma checked_refs_no_options:
  "ParseFlatpakUpdate parse payload = Inr update \<Longrightarrow> \<not> is_option (Ref update) \<and> \<not> is_option (Remote update)"
  by (auto dest!: ParseFlatpakUpdate_ok simp: flatpakRefPattern_def flatpakRemotePattern_def
      dest: MatchString_alnum_no_option)

section \<open>Adapters\<close>

type_synonym 'w call = "'w \<Rightarrow> go_error option \<times> 'w"

record 'w Adapter =
  Name :: string
  ArtifactRequired :: bool
  Available :: "'w \<Rightarrow> bool"
  RequiresReboot :: "'w \<Rightarrow> bool \<times> 'w"
  Check :: "Request \<Rightarrow> string \<Rightarrow> 'w call"
  Install :: "Request \<Rightarrow> string \<Rightarrow> 'w call"
  Activate :: "Request \<Rightarrow> 'w call"
  ad_Commit :: "Request \<Rightarrow> 'w call"
  Rollback :: "Request \<Rightarrow> string \<Rightarrow> 'w call"
  CurrentVersion :: "Request \<Rightarrow> 'w \<Rightarrow> (string \<times> go_error option) \<times> 'w"

text \<open>\<^verbatim>\<open>OSRunner.Run\<close> over the process call \<^verbatim>\<open>CombinedOutput\<close>.\<close>

definition OSRunner_Run :: "'w runner \<Rightarrow> 'w runner" where
  "OSRunner_Run CombinedOutput name args w =
     (let ((output, err), w) = CombinedOutput name args w in
      ((TrimSpace output, map_option (\<lambda>e. ErrorString (name @ '' failed: '' @ Error e)) err), w))"

text \<open>A command whose output is not used.\<close>

definition run_cmd :: "'w Sys \<Rightarrow> string \<Rightarrow> string list \<Rightarrow> 'w call" where
  "run_cmd sys command args w = (let ((output, err), w) = Run sys command args w in (err, w))"

definition ostree_repo :: string where "ostree_repo = ''--repo=/ostree/repo''"

subsection \<open>The native adapters\<close>

definition native_Available :: "'w Sys \<Rightarrow> string \<Rightarrow> 'w \<Rightarrow> bool" where
  "native_Available sys name w =
     (if LookPath sys (if name = ''mender'' then ''mender-update'' else name) w then True
      else name = ''mender'' \<and> LookPath sys ''mender'' w)"

definition mender_command :: "'w Sys \<Rightarrow> 'w \<Rightarrow> string" where
  "mender_command sys w = (if LookPath sys ''mender-update'' w then ''mender-update'' else ''mender'')"

definition flatpakPayload :: "Request \<Rightarrow> FlatpakUpdate" where
  "flatpakPayload request =
     \<lparr>CampaignID = UpdateID request, Ref = FlatpakRef request, Remote = FlatpakRemote request,
      Commit = FlatpakCommit request, fp_RepositoryURL = RepositoryURL request\<rparr>"

definition https_url :: "'w Sys \<Rightarrow> string \<Rightarrow> bool" where
  "https_url sys s = (case url_Parse sys s of Inl _ \<Rightarrow> False | Inr parsed \<Rightarrow> Scheme parsed = ''https'' \<and> Host parsed \<noteq> [])"

definition ostree_config :: "'w Sys \<Rightarrow> Request \<Rightarrow> string \<Rightarrow> 'w \<Rightarrow> (string \<times> go_error option) \<times> 'w" where
  "ostree_config sys request key =
     Run sys ''ostree'' [ostree_repo, ''config'', ''get'',
       ''--group=remote '' @ [CHR 0x22] @ OSTreeRemote request @ [CHR 0x22], key]"

definition check_ostree_remote :: "'w Sys \<Rightarrow> Request \<Rightarrow> 'w call" where
  "check_ostree_remote sys request w =
     (let ((remoteURL, remoteErr), w) =
            Run sys ''ostree'' [ostree_repo, ''remote'', ''show-url'', OSTreeRemote request] w in
      case remoteErr of
        Some err \<Rightarrow> (Some (ErrorString (''OSTree remote '' @ quote (OSTreeRemote request)
                            @ '' is not configured: '' @ Error err)), w)
      | None \<Rightarrow>
     (if \<not> https_url sys (TrimSpace remoteURL) then (Some (ErrorString ''OSTree remote must use HTTPS''), w) else
      let ((gpg, gpgErr), w) = ostree_config sys request ''gpg-verify'' w in
      if gpgErr = None \<and> EqualFold (TrimSpace gpg) ''false''
      then (Some (ErrorString ''OSTree remote has GPG verification disabled''), w) else
      let ((tls, tlsErr), w) = ostree_config sys request ''tls-permissive'' w in
      if tlsErr = None \<and> EqualFold (TrimSpace tls) ''true''
      then (Some (ErrorString ''OSTree remote has permissive TLS enabled''), w) else
      let ((content, contentErr), w) = ostree_config sys request ''contenturl'' w in
      if contentErr = None \<and> TrimSpace content \<noteq> [] \<and> \<not> https_url sys (TrimSpace content)
      then (Some (ErrorString ''OSTree remote content URL must use HTTPS''), w)
      else (None, w)))"

definition native_Check :: "'w Sys \<Rightarrow> string \<Rightarrow> Request \<Rightarrow> string \<Rightarrow> 'w call" where
  "native_Check sys name request artifact w =
     (if \<not> native_Available sys name w
      then (Some (ErrorString (name @ '' is not installed on this device'')), w)
      else if name = ''flatpak'' then
        (case ParseFlatpakUpdate (url_Parse sys) (Some (flatpakPayload request)) of
           Inl err \<Rightarrow> (Some err, w) | Inr _ \<Rightarrow> (None, w))
      else if name = ''rauc'' then run_cmd sys ''rauc'' [''info'', artifact] w
      else if name = ''ostree'' then
        (if usesOSTreeRepository request then check_ostree_remote sys request w
         else run_cmd sys ''ostree'' [ostree_repo, ''static-delta'', ''verify'', artifact] w)
      else if name = ''swupdate'' then run_cmd sys ''swupdate'' [''--check'', ''-i'', artifact] w
      else if name = ''mender'' then
        (if LookPath sys ''mender-artifact'' w then run_cmd sys ''mender-artifact'' [''read'', artifact] w else (None, w))
      else (None, w))"

definition native_Install :: "'w Sys \<Rightarrow> string \<Rightarrow> Request \<Rightarrow> string \<Rightarrow> 'w call" where
  "native_Install sys name request artifact w =
     (if name = ''flatpak'' then
        (case ParseFlatpakUpdate (url_Parse sys) (Some (flatpakPayload request)) of
           Inl err \<Rightarrow> (Some err, w)
         | Inr update \<Rightarrow>
             let (addErr, w) = (if fp_RepositoryURL update \<noteq> []
                                then run_cmd sys ''flatpak'' (flatpak_remoteAddArgs update) w else (None, w)) in
             if addErr \<noteq> None then (addErr, w) else
             let (infoErr, w) = run_cmd sys ''flatpak'' (flatpak_infoArgs update) w in
             if infoErr \<noteq> None then (infoErr, w) else run_cmd sys ''flatpak'' (flatpak_updateArgs update) w)
      else if name = ''mender'' then run_cmd sys (mender_command sys w) [''install'', artifact] w
      else if name = ''rauc'' then run_cmd sys ''rauc'' [''install'', artifact] w
      else if name = ''ostree'' then
        (let (err, w) =
               (if usesOSTreeRepository request
                then run_cmd sys ''ostree'' [ostree_repo, ''pull'', OSTreeRemote request,
                       OSTreeRef request @ ''@'' @ ToLower (OSTreeCommit request)] w
                else run_cmd sys ''ostree'' [ostree_repo, ''static-delta'', ''apply-offline'', artifact] w) in
         if err \<noteq> None then (err, w) else
         let ((resolved, err), w) = Run sys ''ostree'' [ostree_repo, ''rev-parse'', OSTreeCommit request] w in
         case err of
           Some e \<Rightarrow> (Some (ErrorString (''OSTree target commit was not imported: '' @ Error e)), w)
         | None \<Rightarrow>
             (if \<not> EqualFold (TrimSpace resolved) (OSTreeCommit request)
              then (Some (ErrorString ''OSTree repository did not resolve the pinned target commit''), w)
              else (None, w)))
      else if name = ''swupdate'' then run_cmd sys ''swupdate'' [''-i'', artifact] w
      else (Some (ErrorString ''unsupported native OTA adapter''), w))"

definition ostree_deployArgs :: "Request \<Rightarrow> string \<Rightarrow> string list" where
  "ostree_deployArgs request revision =
     [''admin'', ''deploy''] @ (if OSTreeOS request \<noteq> [] then [''--os='' @ OSTreeOS request] else []) @ [revision]"

definition native_Activate :: "'w Sys \<Rightarrow> string \<Rightarrow> Request \<Rightarrow> 'w call" where
  "native_Activate sys name request w =
     (if name \<noteq> ''ostree'' then (None, w)
      else run_cmd sys ''ostree'' (ostree_deployArgs request (ToLower (OSTreeCommit request))) w)"

definition native_Commit :: "'w Sys \<Rightarrow> string \<Rightarrow> Request \<Rightarrow> 'w call" where
  "native_Commit sys name request w =
     (if name = ''mender'' then run_cmd sys (mender_command sys w) [''commit''] w
      else if name = ''rauc'' then run_cmd sys ''rauc'' [''status'', ''mark-good''] w
      else (None, w))"

definition native_Rollback :: "'w Sys \<Rightarrow> string \<Rightarrow> Request \<Rightarrow> string \<Rightarrow> 'w call" where
  "native_Rollback sys name request previous w =
     (if name = ''flatpak'' then
        (if previous = [] then (Some (ErrorString ''previous Flatpak commit is unknown''), w)
         else run_cmd sys ''flatpak'' [''update'', ''--system'', ''--noninteractive'', ''--assumeyes'',
                ''--commit='' @ previous, FlatpakRef request] w)
      else if name = ''mender'' then run_cmd sys (mender_command sys w) [''rollback''] w
      else if name = ''rauc'' then run_cmd sys ''rauc'' [''status'', ''mark-bad''] w
      else if name = ''ostree'' then
        (if \<not> flatpakCommitPattern previous
         then (Some (ErrorString ''previous OSTree deployment checksum is unavailable''), w)
         else run_cmd sys ''ostree'' (ostree_deployArgs request previous) w)
      else if name = ''swupdate'' then (Some (ErrorString ''SWUpdate rollback requires a device-specific plugin adapter''), w)
      else (Some (ErrorString ''rollback is not implemented''), w))"

text \<open>The leftmost run of 64 hexadecimal digits, as \<^verbatim>\<open>FindString\<close> returns it.\<close>

fun FindChecksum :: "string \<Rightarrow> string" where
  "FindChecksum [] = []"
| "FindChecksum (c # cs) =
     (if flatpakCommitPattern (take 64 (c # cs)) then take 64 (c # cs) else FindChecksum cs)"

definition newline :: char where "newline = CHR 0x0A"

fun mender_version :: "string list \<Rightarrow> string option" where
  "mender_version [] = None"
| "mender_version (line # ls) =
     (if HasPrefix (TrimSpace line) ''rootfs-image.version=''
      then Some (TrimSpace (TrimPrefix (TrimSpace line) ''rootfs-image.version='')) else mender_version ls)"

fun ostree_booted :: "string list \<Rightarrow> string option" where
  "ostree_booted [] = None"
| "ostree_booted (line # ls) =
     (if HasPrefix (TrimSpace line) ''*'' \<and> FindChecksum line \<noteq> [] then Some (FindChecksum line)
      else ostree_booted ls)"

definition native_CurrentVersion :: "'w Sys \<Rightarrow> string \<Rightarrow> Request \<Rightarrow> 'w \<Rightarrow> (string \<times> go_error option) \<times> 'w" where
  "native_CurrentVersion sys name request w =
     (if name = ''flatpak'' then Run sys ''flatpak'' [''info'', ''--system'', ''--show-commit'', FlatpakRef request] w
      else if name = ''mender'' then
        (let ((output, err), w) = Run sys (mender_command sys w) [''show-provides''] w in
         if err \<noteq> None then (([], err), w)
         else case mender_version (Split newline output) of
                Some v \<Rightarrow> ((v, None), w)
              | None \<Rightarrow> ((TrimSpace output, None), w))
      else if name = ''rauc'' then Run sys ''rauc'' [''status'', ''--detailed''] w
      else if name = ''ostree'' then
        (let ((output, err), w) = Run sys ''ostree'' [''admin'', ''status''] w in
         if err \<noteq> None then (([], err), w)
         else case ostree_booted (Split newline output) of
                Some checksum \<Rightarrow> ((checksum, None), w)
              | None \<Rightarrow> ((FindChecksum output, None), w))
      else if name = ''swupdate'' then (([], None), w)
      else (([], Some (ErrorString ''unsupported native OTA adapter'')), w))"

definition nativeAdapter :: "'w Sys \<Rightarrow> string \<Rightarrow> 'w Adapter" where
  "nativeAdapter sys name =
     \<lparr>Name = name, ArtifactRequired = (name \<noteq> ''flatpak''), Available = native_Available sys name,
      RequiresReboot = (\<lambda>w. (name \<noteq> ''flatpak'', w)),
      Check = native_Check sys name, Install = native_Install sys name,
      Activate = native_Activate sys name, ad_Commit = native_Commit sys name,
      Rollback = native_Rollback sys name, CurrentVersion = native_CurrentVersion sys name\<rparr>"

subsection \<open>The plugin adapters\<close>

definition plugin_invoke ::
  "'w Sys \<Rightarrow> string \<Rightarrow> string \<Rightarrow> string \<Rightarrow> Request \<Rightarrow> string \<Rightarrow> string \<Rightarrow> 'w \<Rightarrow> (string \<times> go_error option) \<times> 'w" where
  "plugin_invoke sys name path action request artifact previous w =
     (let ((output, err), w) = RunPlugin sys path action request artifact previous w in
      ((TrimSpace output,
        map_option (\<lambda>e. ErrorString (''adapter '' @ name @ '' '' @ action @ '' failed: '' @ Error e)) err), w))"

definition plugin_RequiresReboot :: "'w Sys \<Rightarrow> string \<Rightarrow> 'w \<Rightarrow> bool \<times> 'w" where
  "plugin_RequiresReboot sys path w =
     (let ((out, err), w) = RequiresRebootOutput sys path w in (err \<noteq> None \<or> TrimSpace out \<noteq> ''false'', w))"

definition plugin_err :: "((string \<times> go_error option) \<times> 'w) \<Rightarrow> go_error option \<times> 'w" where
  "plugin_err r = (snd (fst r), snd r)"

definition pluginAdapter :: "'w Sys \<Rightarrow> string \<Rightarrow> string \<Rightarrow> 'w Adapter" where
  "pluginAdapter sys name path =
     \<lparr>Name = name, ArtifactRequired = True, Available = (\<lambda>w. True),
      RequiresReboot = plugin_RequiresReboot sys path,
      Check = (\<lambda>r p w. plugin_err (plugin_invoke sys name path ''check'' r p [] w)),
      Install = (\<lambda>r p w. plugin_err (plugin_invoke sys name path ''install'' r p [] w)),
      Activate = (\<lambda>r w. plugin_err (plugin_invoke sys name path ''activate'' r [] [] w)),
      ad_Commit = (\<lambda>r w. plugin_err (plugin_invoke sys name path ''commit'' r [] [] w)),
      Rollback = (\<lambda>r previous w. plugin_err (plugin_invoke sys name path ''rollback'' r [] previous w)),
      CurrentVersion = (\<lambda>r w. plugin_invoke sys name path ''version'' r [] [] w)\<rparr>"

definition native_names :: "string list" where
  "native_names = [''flatpak'', ''mender'', ''ostree'', ''rauc'', ''swupdate'']"

definition NewAdapter :: "'w Sys \<Rightarrow> string \<Rightarrow> string \<Rightarrow> 'w \<Rightarrow> 'w Adapter result" where
  "NewAdapter sys name pluginDir w =
     (let path = path_Join pluginDir name in
      if adapterNamePattern name \<and> StatExecutable sys path w then Inr (pluginAdapter sys name path)
      else if name \<in> set native_names then Inr (nativeAdapter sys name)
      else if \<not> adapterNamePattern name then Inl (ErrorString ''invalid OTA adapter name'')
      else if \<not> StatExecutable sys path w
      then Inl (ErrorString (''OTA adapter '' @ quote name @ '' is not installed''))
      else Inr (pluginAdapter sys name path))"

section \<open>What the adapters guarantee\<close>

lemma NewAdapter_ArtifactRequired:
  "NewAdapter sys name dir w = Inr a \<Longrightarrow> name \<noteq> ''flatpak'' \<Longrightarrow> ArtifactRequired a"
  by (auto simp: NewAdapter_def Let_def nativeAdapter_def pluginAdapter_def split: if_splits)

text \<open>An OSTree install that succeeds ended in a commit that resolves to the pinned one.\<close>

lemma native_Install_ostree_pinned:
  assumes "native_Install sys ''ostree'' request artifact w = (None, w')"
  shows "\<exists>w1 resolved. Run sys ''ostree'' [ostree_repo, ''rev-parse'', OSTreeCommit request] w1 = ((resolved, None), w')
           \<and> EqualFold (TrimSpace resolved) (OSTreeCommit request)"
  using assms unfolding native_Install_def
  by (auto simp: Let_def split: prod.splits if_splits option.splits)

lemma length_FindChecksum: "FindChecksum s \<noteq> [] \<Longrightarrow> flatpakCommitPattern (FindChecksum s)"
  by (induction s rule: FindChecksum.induct) (auto split: if_splits)

lemma FindChecksum_substring: "\<exists>a b. s = a @ FindChecksum s @ b"
proof (induction s rule: FindChecksum.induct)
  case (2 c cs)
  show ?case
  proof (cases "flatpakCommitPattern (take 64 (c # cs))")
    case True
    then show ?thesis by (metis FindChecksum.simps(2) append_Nil append_take_drop_id)
  next
    case False
    with 2 show ?thesis by (auto) (metis append_Cons)
  qed
qed simp

lemma ostree_booted_pattern: "ostree_booted ls = Some v \<Longrightarrow> flatpakCommitPattern v"
  by (induction ls rule: ostree_booted.induct) (auto split: if_splits dest: length_FindChecksum)

text \<open>What the version of an OSTree device reads is nothing or a checksum that a rollback accepts.\<close>

lemma ostree_CurrentVersion_checksum:
  assumes "native_CurrentVersion sys ''ostree'' request w = ((v, None), w')" "v \<noteq> []"
  shows "flatpakCommitPattern v"
  using assms unfolding native_CurrentVersion_def
  by (auto simp: Let_def split: prod.splits if_splits option.splits dest: ostree_booted_pattern length_FindChecksum)

end
