(* ===== verification/AgentEngine.thy ===== *)
theory AgentEngine
  imports AgentAdapters
begin

text \<open>
  The update engine, \<^verbatim>\<open>agent/internal/ota/engine.go\<close>. \<open>Execute\<close> loads or creates the
  transaction of the request and takes it through its phases, one stage after the other. A
  stage of the code is a \<open>stage\<close> here: it ends the execution with an outcome, or hands the
  transaction on. The transaction file is written beside its target and renamed over it, so a
  save that fails leaves the file as it was.
\<close>

type_synonym outcome = "Status \<times> go_error option"
type_synonym 'w stage = "transaction \<Rightarrow> 'w osw \<Rightarrow> (outcome + transaction) \<times> 'w osw"

definition andThen :: "'w stage \<Rightarrow> 'w stage \<Rightarrow> 'w stage" where
  "andThen s t tx w = (case s tx w of (Inl r, w) \<Rightarrow> (Inl r, w) | (Inr tx, w) \<Rightarrow> t tx w)"

section \<open>Results\<close>

definition status :: "Request \<Rightarrow> string \<Rightarrow> string \<Rightarrow> Status" where
  "status request state message =
     \<lparr>st_UpdateID = UpdateID request, st_Adapter = rq_Adapter request, st_State = state,
      st_Version = Version request, st_Error = message\<rparr>"

definition failed :: "Request \<Rightarrow> string \<Rightarrow> go_error \<Rightarrow> outcome" where
  "failed request cls err = (status request ''failed'' (cls @ '': '' @ Error err), Some err)"

definition succeeded :: "Request \<Rightarrow> outcome" where
  "succeeded request = (status request ''succeeded'' [], None)"

definition rebooting :: "Request \<Rightarrow> string \<Rightarrow> outcome" where
  "rebooting request message = (status request ''rebooting'' message, Some ErrRebootPending)"

section \<open>Small checks\<close>

definition compatibleFrom :: "string list option \<Rightarrow> string \<Rightarrow> go_error option" where
  "compatibleFrom allowed current =
     (case allowed of
        None \<Rightarrow> None
      | Some versions \<Rightarrow>
          if versions = [] \<or> current \<in> set versions then None
          else Some (ErrorString ''current version is not in the release compatibility list''))"

definition validPhase :: "string \<Rightarrow> bool" where
  "validPhase phase \<longleftrightarrow> phase \<in> set [''created'', ''prepared'', ''downloaded'', ''verified'', ''installed'',
     ''activated'', ''reboot_requested'', ''rollback_reboot_requested'', ''completed'', ''rolled_back'',
     ''rollback_failed'']"

text \<open>All arithmetic is \<^verbatim>\<open>uint64\<close> and wraps.\<close>

definition ensureFreeSpace :: "(u64 \<times> u64) result \<Rightarrow> u64 \<Rightarrow> u64 \<Rightarrow> go_error option" where
  "ensureFreeSpace statfs minimum artifactSize =
     (case statfs of
        Inl err \<Rightarrow> Some err
      | Inr (bavail, bsize) \<Rightarrow>
          (let available = bavail * bsize; required = minimum + artifactSize in
           if available < required
           then Some (ErrorString (''insufficient staging space: need '' @ utoa (unat required)
                                   @ '' bytes, have '' @ utoa (unat available)))
           else None))"

section \<open>The transaction file\<close>

definition transactionPath :: "Config \<Rightarrow> string \<Rightarrow> string" where
  "transactionPath cfg updateID = path_Join (StateDir cfg) (safeID updateID @ ''.json'')"

text \<open>
  The time stamp is set in the saved copy only. \<open>sys_saveErr\<close> is the first error of writing,
  syncing, closing and renaming the file.
\<close>

definition save :: "'w Sys \<Rightarrow> Config \<Rightarrow> transaction \<Rightarrow> 'w osw \<Rightarrow> go_error option \<times> 'w osw" where
  "save sys cfg tx w =
     (let (now, w) = ext_call (sys_now sys) w;
          tx = tx\<lparr>UpdatedAt := now\<rparr>;
          (err, w) = ext_call (sys_saveErr sys) w in
      if err = None
      then (None, emit (EvSave tx)
                    (w\<lparr>txs := mput (transactionPath cfg (UpdateID (tx_Request tx))) (TxJSON tx) (txs w)\<rparr>))
      else (err, w))"

text \<open>
  What decoding the saved JSON gives: the same transaction, but an empty list of compatible
  versions was left out (\<^verbatim>\<open>omitempty\<close>) and comes back as nil.
\<close>

definition norm_request :: "Request \<Rightarrow> Request" where
  "norm_request request =
     request\<lparr>CompatibleFrom := (if CompatibleFrom request = Some [] then None else CompatibleFrom request)\<rparr>"

definition decoded :: "transaction \<Rightarrow> transaction" where
  "decoded tx = tx\<lparr>tx_Request := norm_request (tx_Request tx)\<rparr>"

definition new_transaction :: "Request \<Rightarrow> transaction" where
  "new_transaction request =
     \<lparr>tx_Request = request, Phase = ''created'', ArtifactPath = [], PreviousVersion = [], BootID = [],
      Failure = [], RebootAttempts = 0, UpdatedAt = zero_time\<rparr>"

definition loadOrCreate :: "'w Sys \<Rightarrow> Config \<Rightarrow> Request \<Rightarrow> 'w osw \<Rightarrow> transaction result \<times> 'w osw" where
  "loadOrCreate sys cfg request w =
     (let (readErr, w) = ext_call (sys_readErr sys) w in
      case readErr of Some err \<Rightarrow> (Inl err, w) | None \<Rightarrow>
      (case mget (txs w) (transactionPath cfg (UpdateID request)) of
         None \<Rightarrow>
           (let (err, w) = save sys cfg (new_transaction request) w in
            case err of Some err \<Rightarrow> (Inl err, w) | None \<Rightarrow> (Inr (new_transaction request), w))
       | Some (TxCorrupt err) \<Rightarrow> (Inl err, w)
       | Some (TxJSON tx) \<Rightarrow> (Inr (decoded tx), w)))"

section \<open>Reboots, health and rollback\<close>

definition requestReboot :: "'w Sys \<Rightarrow> Config \<Rightarrow> 'w osw \<Rightarrow> go_error option \<times> 'w osw" where
  "requestReboot sys cfg w =
     (if \<not> AutoReboot cfg
      then (Some (ErrorString ''automatic reboot is disabled in the local agent configuration''), w)
      else let ((output, err), w) =
                 ext_call (Run sys ''systemctl'' [''reboot'', ''--no-block'']) (emit EvReboot w) in
           (err, w))"

text \<open>
  The loop ends when the command succeeds or the context of the check is done, which happens
  after finitely many ticks of the five-second timer; the world decides how many.
\<close>

fun healthLoop :: "'w Sys \<Rightarrow> string list \<Rightarrow> nat \<Rightarrow> 'w osw \<Rightarrow> go_error option \<times> 'w osw" where
  "healthLoop sys parts ticks w =
     (let ((output, err), w) = ext_call (Run sys (hd parts) (tl parts)) (emit (EvHealth parts) w) in
      case err of
        None \<Rightarrow> (None, w)
      | Some e \<Rightarrow>
         (case ticks of
            0 \<Rightarrow> (Some (ErrorString (''health check did not pass: '' @ Error e)), w)
          | Suc n \<Rightarrow> healthLoop sys parts n w))"

definition healthCheck :: "'w Sys \<Rightarrow> Config \<Rightarrow> 'w osw \<Rightarrow> go_error option \<times> 'w osw" where
  "healthCheck sys cfg w =
     (if TrimSpace (HealthCheckCommand cfg) = [] then (None, w)
      else if Fields (HealthCheckCommand cfg) = [] then (None, w)
      else let (ticks, w) = ext_call (sys_healthTicks sys) w in
           healthLoop sys (Fields (HealthCheckCommand cfg)) ticks w)"

definition before_install :: "string \<Rightarrow> bool" where
  "before_install phase \<longleftrightarrow> phase \<in> set [''created'', ''prepared'', ''downloaded'', ''verified'']"

text \<open>The part of \<open>failAndRollback\<close> that runs when the adapter has rolled the device back and needs a reboot for it.\<close>

definition rollback_reboot :: "'w Sys \<Rightarrow> Config \<Rightarrow> transaction \<Rightarrow> 'w osw \<Rightarrow> outcome \<times> 'w osw" where
  "rollback_reboot sys cfg tx w =
     (let (boot, w) = ext_call (sys_bootID sys) w;
          tx = tx\<lparr>Phase := ''rollback_reboot_requested'', BootID := boot\<rparr>;
          (_, w) = save sys cfg tx w;
          (err, w) = requestReboot sys cfg w in
      case err of
        Some e \<Rightarrow>
          (let tx = tx\<lparr>Phase := ''rollback_failed'', Failure := Failure tx @ ''; rollback reboot: '' @ Error e\<rparr>;
               (_, w) = save sys cfg tx w in
           (failed (tx_Request tx) ''rollback_failed'' (ErrorString (Failure tx)), w))
      | None \<Rightarrow> (rebooting (tx_Request tx) (Failure tx), w))"

definition failAndRollback ::
  "'w Sys \<Rightarrow> Config \<Rightarrow> 'w Adapter \<Rightarrow> transaction \<Rightarrow> string \<Rightarrow> go_error \<Rightarrow> 'w osw \<Rightarrow> outcome \<times> 'w osw" where
  "failAndRollback sys cfg adapter tx cls cause w =
     (let tx = tx\<lparr>Failure := cls @ '': '' @ Error cause\<rparr> in
      if before_install (Phase tx)
      then (let (_, w) = save sys cfg (tx\<lparr>Phase := ''rolled_back''\<rparr>) w in
            (failed (tx_Request tx) cls cause, w))
      else
      let (err, w) = ext_call (Rollback adapter (tx_Request tx) (PreviousVersion tx))
                       (emit (EvRollback (tx_Request tx) (PreviousVersion tx)) w) in
      case err of
        Some e \<Rightarrow>
          (let tx = tx\<lparr>Phase := ''rollback_failed'', Failure := Failure tx @ ''; rollback: '' @ Error e\<rparr>;
               (_, w) = save sys cfg tx w in
           (failed (tx_Request tx) ''rollback_failed'' (ErrorString (Failure tx)), w))
      | None \<Rightarrow>
          (let (reboots, w) = ext_call (RequiresReboot adapter) w in
           if reboots then rollback_reboot sys cfg tx w
           else let (_, w) = save sys cfg (tx\<lparr>Phase := ''rolled_back''\<rparr>) w in
                (failed (tx_Request tx) cls cause, w)))"

section \<open>Confirming an update\<close>

definition version_mismatch :: "Request \<Rightarrow> string \<Rightarrow> go_error option" where
  "version_mismatch request current =
     (let pinned = (rq_Adapter request = ''ostree'' \<or> rq_Adapter request = ''flatpak'');
          expected = (if rq_Adapter request = ''ostree'' then OSTreeCommit request
                      else if rq_Adapter request = ''flatpak'' then FlatpakCommit request
                      else Version request) in
      if pinned \<and> expected \<noteq> [] \<and> \<not> EqualFold current expected
      then Some (ErrorString (''reported immutable revision '' @ quote current
                              @ '' does not equal expected revision '' @ quote expected))
      else if \<not> pinned \<and> expected \<noteq> [] \<and> current \<noteq> [] \<and> \<not> Contains current expected
      then Some (ErrorString (''reported version does not contain expected release '' @ quote expected))
      else None)"

definition confirmAndCommit :: "'w Sys \<Rightarrow> Config \<Rightarrow> 'w Adapter \<Rightarrow> transaction \<Rightarrow> 'w osw \<Rightarrow> outcome \<times> 'w osw" where
  "confirmAndCommit sys cfg adapter tx w =
     (let request = tx_Request tx;
          (healthErr, w) = healthCheck sys cfg w in
      case healthErr of Some err \<Rightarrow> failAndRollback sys cfg adapter tx ''health'' err w | None \<Rightarrow>
     (let ((current, versionErr), w) = ext_call (CurrentVersion adapter request) (emit (EvCurrentVersion request) w) in
      case versionErr of Some err \<Rightarrow> failAndRollback sys cfg adapter tx ''version_confirmation'' err w | None \<Rightarrow>
     (case version_mismatch request (TrimSpace current) of
        Some err \<Rightarrow> failAndRollback sys cfg adapter tx ''version_confirmation'' err w | None \<Rightarrow>
     (let w = emit (EvProgress ''Committing the healthy update'') w;
          (commitErr, w) = ext_call (ad_Commit adapter request) (emit (EvCommit request) w) in
      case commitErr of Some err \<Rightarrow> failAndRollback sys cfg adapter tx ''commit'' err w | None \<Rightarrow>
     (let tx = tx\<lparr>Phase := ''completed''\<rparr>;
          (saveErr, w) = save sys cfg tx w in
      case saveErr of Some err \<Rightarrow> (failed request ''state'' err, w) | None \<Rightarrow>
     (let (removeErr, w) = (if ArtifactPath tx \<noteq> [] then ext_call (sys_fileErr sys) w else (None, w)) in
      (succeeded request,
       if ArtifactPath tx \<noteq> [] \<and> removeErr = None
       then w\<lparr>files := mdel (ArtifactPath tx) (files w)\<rparr> else w)))))))"

definition resumeAfterReboot :: "'w Sys \<Rightarrow> Config \<Rightarrow> 'w Adapter \<Rightarrow> transaction \<Rightarrow> 'w osw \<Rightarrow> outcome \<times> 'w osw" where
  "resumeAfterReboot sys cfg adapter tx w =
     (let request = tx_Request tx;
          (boot, w) = (if BootID tx \<noteq> [] then ext_call (sys_bootID sys) w else ([], w)) in
      if BootID tx \<noteq> [] \<and> BootID tx = boot
      then
       (let (now, w) = ext_call (sys_now sys) w in
        if 2 * Minute \<le> time_Sub now (UpdatedAt tx)
        then
         (if 3 \<le> RebootAttempts tx
          then
           (if Phase tx = ''rollback_reboot_requested''
            then
             (let tx = tx\<lparr>Phase := ''rollback_failed'',
                          Failure := Failure tx @ ''; device did not reboot after three requests''\<rparr>;
                  (_, w) = save sys cfg tx w in
              (failed request ''rollback_failed'' (ErrorString (Failure tx)), w))
            else failAndRollback sys cfg adapter tx ''reboot''
                   (ErrorString ''device did not reboot after three requests'') w)
          else
           (let tx = tx\<lparr>RebootAttempts := RebootAttempts tx + 1\<rparr>;
                (saveErr, w) = save sys cfg tx w in
            case saveErr of Some err \<Rightarrow> (failed request ''state'' err, w) | None \<Rightarrow>
           (let (rebootErr, w) = requestReboot sys cfg w in
            case rebootErr of Some err \<Rightarrow> (failed request ''reboot'' err, w) | None \<Rightarrow>
            (rebooting request [], w))))
        else (rebooting request [], w))
      else if Phase tx = ''rollback_reboot_requested''
      then
       (let (saveErr, w) = save sys cfg (tx\<lparr>Phase := ''rolled_back''\<rparr>) w in
        case saveErr of Some err \<Rightarrow> (failed request ''state'' err, w) | None \<Rightarrow>
        (failed request ''rolled_back'' (ErrorString (Failure tx)), w))
      else confirmAndCommit sys cfg adapter tx
             (emit (EvProgress ''The device rebooted; confirming update health'') w))"

section \<open>The stages of an execution\<close>

definition needs_download :: "'w Adapter \<Rightarrow> Request \<Rightarrow> bool" where
  "needs_download adapter request \<longleftrightarrow> ArtifactRequired adapter \<and> \<not> usesOSTreeRepository request"

text \<open>The end of a stage: the transaction is saved in its new phase, and a failed save ends the execution.\<close>

definition advance :: "'w Sys \<Rightarrow> Config \<Rightarrow> string \<Rightarrow> 'w stage" where
  "advance sys cfg phase tx w =
     (let tx = tx\<lparr>Phase := phase\<rparr>;
          (err, w) = save sys cfg tx w in
      case err of Some e \<Rightarrow> (Inl (failed (tx_Request tx) ''state'' e), w) | None \<Rightarrow> (Inr tx, w))"

definition stop :: "outcome \<times> 'w osw \<Rightarrow> (outcome + transaction) \<times> 'w osw" where
  "stop r = (Inl (fst r), snd r)"

definition stage_preflight :: "'w Sys \<Rightarrow> Config \<Rightarrow> 'w Adapter \<Rightarrow> 'w stage" where
  "stage_preflight sys cfg adapter tx w =
     (if Phase tx \<noteq> ''created'' then (Inr tx, w) else
      let request = tx_Request tx;
          w = emit (EvProgress ''Running compatibility and storage preflight checks'') w;
          ((previous, versionErr), w) = ext_call (CurrentVersion adapter request) (emit (EvCurrentVersion request) w) in
      case versionErr of Some err \<Rightarrow> stop (failAndRollback sys cfg adapter tx ''current_version'' err w) | None \<Rightarrow>
     (let tx = tx\<lparr>PreviousVersion := TrimSpace previous\<rparr> in
      case compatibleFrom (CompatibleFrom request) (PreviousVersion tx) of
        Some err \<Rightarrow> stop (failAndRollback sys cfg adapter tx ''compatibility'' err w)
      | None \<Rightarrow>
         (let (space, w) = (if needs_download adapter request
                            then (let (statfs, w) = ext_call (sys_statfs sys) w in
                                  (ensureFreeSpace statfs (MinFreeBytes cfg) (word_of_int (ArtifactSize request)), w))
                            else (None, w)) in
          case space of
            Some err \<Rightarrow> stop (failAndRollback sys cfg adapter tx ''preflight'' err w)
          | None \<Rightarrow> advance sys cfg ''prepared'' tx w)))"

definition stage_download :: "crypto \<Rightarrow> 'w Sys \<Rightarrow> Config \<Rightarrow> 'w Adapter \<Rightarrow> 'w stage" where
  "stage_download cr sys cfg adapter tx w =
     (if Phase tx \<noteq> ''prepared'' then (Inr tx, w)
      else if needs_download adapter (tx_Request tx)
      then
       (let w = emit (EvProgress ''Downloading the signed update artifact'') w;
            (artifact, w) = fetch cr sys cfg (tx_Request tx) w in
        case artifact of
          Inl err \<Rightarrow> stop (failAndRollback sys cfg adapter tx ''download'' err w)
        | Inr path \<Rightarrow> advance sys cfg ''downloaded'' (tx\<lparr>ArtifactPath := path\<rparr>) w)
      else advance sys cfg ''downloaded'' tx w)"

definition verification :: "crypto \<Rightarrow> Config \<Rightarrow> 'w Adapter \<Rightarrow> transaction \<Rightarrow> 'w osw \<Rightarrow> go_error option \<times> 'w osw" where
  "verification cr cfg adapter tx w =
     (let request = tx_Request tx;
          seen = EvVerify request (ArtifactPath tx) (mget (files w) (ArtifactPath tx))
                   (mget (files w) (key_path (TrustedKeysDir cfg) request)) in
      if needs_download adapter request
      then (verifyArtifact cr w (ArtifactPath tx) request (TrustedKeysDir cfg), emit seen w)
      else if usesOSTreeRepository request
      then (verifyReleaseSignature cr w request (TrustedKeysDir cfg), emit seen w)
      else (None, w))"

definition stage_verify :: "crypto \<Rightarrow> 'w Sys \<Rightarrow> Config \<Rightarrow> 'w Adapter \<Rightarrow> 'w stage" where
  "stage_verify cr sys cfg adapter tx w =
     (if Phase tx \<noteq> ''downloaded'' then (Inr tx, w) else
      let request = tx_Request tx;
          w = emit (EvProgress ''Verifying digest, release signature, and native artifact metadata'') w;
          (verifyErr, w) = verification cr cfg adapter tx w in
      case verifyErr of Some err \<Rightarrow> stop (failAndRollback sys cfg adapter tx ''verification'' err w) | None \<Rightarrow>
     (let (checkErr, w) = ext_call (Check adapter request (ArtifactPath tx)) (emit (EvCheck request (ArtifactPath tx)) w) in
      case checkErr of
        Some err \<Rightarrow> stop (failAndRollback sys cfg adapter tx ''native_verification'' err w)
      | None \<Rightarrow> advance sys cfg ''verified'' tx w))"

definition stage_install :: "'w Sys \<Rightarrow> Config \<Rightarrow> 'w Adapter \<Rightarrow> 'w stage" where
  "stage_install sys cfg adapter tx w =
     (if Phase tx \<noteq> ''verified'' then (Inr tx, w) else
      let request = tx_Request tx;
          w = emit (EvProgress ''Installing the update with the selected device adapter'') w;
          (err, w) = ext_call (Install adapter request (ArtifactPath tx)) (emit (EvInstall request (ArtifactPath tx)) w) in
      case err of
        Some e \<Rightarrow> stop (failAndRollback sys cfg adapter tx ''install'' e w)
      | None \<Rightarrow> advance sys cfg ''installed'' tx w)"

definition stage_activate :: "'w Sys \<Rightarrow> Config \<Rightarrow> 'w Adapter \<Rightarrow> 'w stage" where
  "stage_activate sys cfg adapter tx w =
     (if Phase tx \<noteq> ''installed'' then (Inr tx, w) else
      let request = tx_Request tx;
          w = emit (EvProgress ''Activating the new device state'') w;
          (err, w) = ext_call (Activate adapter request) (emit (EvActivate request) w) in
      case err of
        Some e \<Rightarrow> stop (failAndRollback sys cfg adapter tx ''activate'' e w)
      | None \<Rightarrow> advance sys cfg ''activated'' tx w)"

definition stage_reboot :: "'w Sys \<Rightarrow> Config \<Rightarrow> 'w Adapter \<Rightarrow> 'w stage" where
  "stage_reboot sys cfg adapter tx w =
     (if Phase tx \<noteq> ''activated'' then (Inr tx, w) else
      let (reboots, w) = ext_call (RequiresReboot adapter) w in
      if \<not> reboots then (Inr tx, w) else
      let (boot, w) = ext_call (sys_bootID sys) w;
          tx = tx\<lparr>Phase := ''reboot_requested'', BootID := boot\<rparr>;
          (saveErr, w) = save sys cfg tx w in
      case saveErr of Some err \<Rightarrow> (Inl (failed (tx_Request tx) ''state'' err), w) | None \<Rightarrow>
     (let (rebootErr, w) = requestReboot sys cfg
            (emit (EvProgress ''Requesting a reboot to boot the staged update'') w) in
      case rebootErr of
        Some err \<Rightarrow> stop (failAndRollback sys cfg adapter tx ''reboot'' err w)
      | None \<Rightarrow> (Inl (rebooting (tx_Request tx) []), w)))"

definition stages :: "crypto \<Rightarrow> 'w Sys \<Rightarrow> Config \<Rightarrow> 'w Adapter \<Rightarrow> 'w stage" where
  "stages cr sys cfg adapter =
     andThen (stage_preflight sys cfg adapter)
    (andThen (stage_download cr sys cfg adapter)
    (andThen (stage_verify cr sys cfg adapter)
    (andThen (stage_install sys cfg adapter)
    (andThen (stage_activate sys cfg adapter) (stage_reboot sys cfg adapter)))))"

text \<open>What \<open>Execute\<close> does with a transaction it could load.\<close>

definition run_transaction ::
  "crypto \<Rightarrow> 'w Sys \<Rightarrow> Config \<Rightarrow> 'w Adapter \<Rightarrow> transaction \<Rightarrow> 'w osw \<Rightarrow> outcome \<times> 'w osw" where
  "run_transaction cr sys cfg adapter tx w =
     (let request = tx_Request tx in
      if \<not> validPhase (Phase tx)
      then (failed request ''state'' (ErrorString (''persisted OTA transaction has unknown phase '' @ quote (Phase tx))), w)
      else if Phase tx = ''completed'' then (succeeded request, w)
      else if Phase tx = ''rolled_back'' then (failed request ''rolled_back'' (ErrorString (Failure tx)), w)
      else if Phase tx = ''rollback_failed'' then (failed request ''rollback_failed'' (ErrorString (Failure tx)), w)
      else if Phase tx = ''reboot_requested'' \<or> Phase tx = ''rollback_reboot_requested''
      then resumeAfterReboot sys cfg adapter tx w
      else case stages cr sys cfg adapter tx w of
             (Inl r, w) \<Rightarrow> (r, w)
           | (Inr tx, w) \<Rightarrow> confirmAndCommit sys cfg adapter tx w)"

text \<open>The checks before a transaction is touched: the request, its adapter, and that the adapter is there.\<close>

definition admit :: "'w Sys \<Rightarrow> Config \<Rightarrow> Request \<Rightarrow> 'w \<Rightarrow> outcome + 'w Adapter" where
  "admit sys cfg request w =
     (case ValidateRequest (goarch sys) cfg request of
        Some err \<Rightarrow> Inl (failed request ''validation'' err)
      | None \<Rightarrow>
     (case NewAdapter sys (rq_Adapter request) (PluginDir cfg) w of
        Inl err \<Rightarrow> Inl (failed request ''adapter'' err)
      | Inr adapter \<Rightarrow>
          if \<not> Available adapter w
          then Inl (failed request ''adapter'' (ErrorString (''adapter '' @ rq_Adapter request @ '' is unavailable'')))
          else Inr adapter))"

definition Execute :: "crypto \<Rightarrow> 'w Sys \<Rightarrow> Config \<Rightarrow> Request \<Rightarrow> 'w osw \<Rightarrow> outcome \<times> 'w osw" where
  "Execute cr sys cfg request w =
     (case admit sys cfg request (ext w) of
        Inl r \<Rightarrow> (r, w)
      | Inr adapter \<Rightarrow>
     (let (loaded, w) = loadOrCreate sys cfg request w in
      case loaded of
        Inl err \<Rightarrow> (failed request ''state'' err, w)
      | Inr tx \<Rightarrow>
          if tx_Request tx \<noteq> request
          then (failed request ''state'' (ErrorString ''persisted OTA transaction does not match the delivered request''), w)
          else run_transaction cr sys cfg adapter tx w))"

text \<open>\<open>NewEngine\<close>: an engine exists only for an enabled configuration with all its directories.\<close>

definition NewEngine :: "Config \<Rightarrow> (string \<Rightarrow> go_error option) \<Rightarrow> Config result" where
  "NewEngine cfg MkdirAll =
     (if \<not> Enabled cfg then Inl (ErrorString ''OTA is disabled'')
      else if StateDir cfg = [] \<or> StagingDir cfg = [] \<or> TrustedKeysDir cfg = [] \<or> PluginDir cfg = []
      then Inl (ErrorString ''OTA state, staging, trusted-key, and plugin directories are required'')
      else case MkdirAll (StateDir cfg) of Some err \<Rightarrow> Inl err | None \<Rightarrow>
           (case MkdirAll (StagingDir cfg) of Some err \<Rightarrow> Inl err | None \<Rightarrow> Inr cfg))"

end
