(* ===== verification/OTAMachine.thy ===== *)
theory OTAMachine
  imports AgentEngine
begin

text \<open>
  What an OTA transaction promises, as a state machine that knows nothing of adapters, files
  or errors: the phases, which call the engine may make in which of them, and what has to be
  verified before. \<^verbatim>\<open>OTARefinement\<close> shows that every execution of the engine is a trace of
  this machine.
\<close>

section \<open>Phases\<close>

inductive phase_step :: "string \<Rightarrow> string \<Rightarrow> bool" where
  "phase_step ''created'' ''prepared''"
| "phase_step ''prepared'' ''downloaded''"
| "phase_step ''downloaded'' ''verified''"
| "phase_step ''verified'' ''installed''"
| "phase_step ''installed'' ''activated''"
| "phase_step ''activated'' ''reboot_requested''"
| "phase_step ''reboot_requested'' ''reboot_requested''"
| "phase_step ''rollback_reboot_requested'' ''rollback_reboot_requested''"
| "p \<in> {''activated'', ''reboot_requested''} \<Longrightarrow> phase_step p ''completed''"
| "p \<in> {''created'', ''prepared'', ''downloaded'', ''verified'', ''installed'', ''activated'',
        ''reboot_requested'', ''rollback_reboot_requested''} \<Longrightarrow> phase_step p ''rolled_back''"
| "p \<in> {''installed'', ''activated'', ''reboot_requested''} \<Longrightarrow> phase_step p ''rollback_reboot_requested''"
| "p \<in> {''installed'', ''activated'', ''reboot_requested'', ''rollback_reboot_requested''}
     \<Longrightarrow> phase_step p ''rollback_failed''"

text \<open>How far a phase is: a step goes strictly further unless it repeats a reboot request.\<close>

definition phase_rank :: "string \<Rightarrow> nat" where
  "phase_rank p =
     (if p = ''created'' then 0 else if p = ''prepared'' then 1 else if p = ''downloaded'' then 2
      else if p = ''verified'' then 3 else if p = ''installed'' then 4 else if p = ''activated'' then 5
      else if p = ''reboot_requested'' then 6 else if p = ''rollback_reboot_requested'' then 7 else 8)"

definition terminal :: "string \<Rightarrow> bool" where
  "terminal p \<longleftrightarrow> p \<in> {''completed'', ''rolled_back'', ''rollback_failed''}"

lemma phase_step_rank:
  "phase_step p q \<Longrightarrow> phase_rank p < phase_rank q \<or> p = q \<and> p \<in> {''reboot_requested'', ''rollback_reboot_requested''}"
  by (induction rule: phase_step.induct) (auto simp: phase_rank_def)

lemma phase_step_terminal: "phase_step p q \<Longrightarrow> \<not> terminal p"
  by (induction rule: phase_step.induct) (auto simp: terminal_def)

section \<open>The machine\<close>

text \<open>
  Its state is the persisted transaction without its time stamp, boot ID and failure text, and
  whether the release has been verified since the transaction was loaded.
\<close>

record ota_state =
  os_request :: Request
  os_phase :: string
  os_artifact :: string
  os_previous :: string
  os_attempts :: int
  os_checked :: bool

definition abs_tx :: "bool \<Rightarrow> transaction \<Rightarrow> ota_state" where
  "abs_tx c tx =
     \<lparr>os_request = norm_request (tx_Request tx), os_phase = Phase tx, os_artifact = ArtifactPath tx,
      os_previous = PreviousVersion tx, os_attempts = RebootAttempts tx, os_checked = c\<rparr>"

text \<open>Every update of the operating system needs a verified release; Flatpak verifies its own.\<close>

definition needs_signature :: "Request \<Rightarrow> bool" where
  "needs_signature request \<longleftrightarrow> rq_Adapter request \<noteq> ''flatpak''"

text \<open>
  A verification that counts: the release key signed the digest, and, unless the device pulls
  from an OSTree repository, the artifact has the digest.
\<close>

definition verify_ok :: "crypto \<Rightarrow> Request \<Rightarrow> string option \<Rightarrow> string option \<Rightarrow> bool" where
  "verify_ok cr request artifact key \<longleftrightarrow>
     (case key of None \<Rightarrow> False | Some k \<Rightarrow> signed_with cr k request)
     \<and> (usesOSTreeRepository request
         \<or> (case artifact of None \<Rightarrow> False | Some b \<Rightarrow> hexEncode (sha256 cr b) = ToLower (Digest request)))"

definition save_allowed :: "ota_state \<Rightarrow> transaction \<Rightarrow> bool" where
  "save_allowed s tx \<longleftrightarrow>
     norm_request (tx_Request tx) = os_request s
     \<and> phase_step (os_phase s) (Phase tx)
     \<and> (os_phase s \<noteq> ''created'' \<longrightarrow> PreviousVersion tx = os_previous s)
     \<and> (os_phase s \<noteq> ''prepared'' \<longrightarrow> ArtifactPath tx = os_artifact s)
     \<and> (RebootAttempts tx = os_attempts s
         \<or> os_phase s = Phase tx \<and> os_attempts s < 3 \<and> RebootAttempts tx = os_attempts s + 1)
     \<and> (Phase tx = ''verified'' \<longrightarrow> needs_signature (os_request s) \<longrightarrow> os_checked s)"

definition for_request :: "ota_state \<Rightarrow> Request \<Rightarrow> bool" where
  "for_request s request \<longleftrightarrow> norm_request request = os_request s"

inductive ota_step :: "crypto \<Rightarrow> ota_state \<Rightarrow> event \<Rightarrow> ota_state \<Rightarrow> bool" for cr where
  progress: "ota_step cr s (EvProgress m) s"
| health: "os_phase s \<in> {''activated'', ''reboot_requested''} \<Longrightarrow> ota_step cr s (EvHealth parts) s"
| current_version: "for_request s r \<Longrightarrow> os_phase s \<in> {''created'', ''activated'', ''reboot_requested''}
     \<Longrightarrow> ota_step cr s (EvCurrentVersion r) s"
| verify: "for_request s r \<Longrightarrow> os_phase s = ''downloaded'' \<Longrightarrow> path = os_artifact s
     \<Longrightarrow> ota_step cr s (EvVerify r path artifact key) (s\<lparr>os_checked := verify_ok cr r artifact key\<rparr>)"
| check: "for_request s r \<Longrightarrow> os_phase s = ''downloaded'' \<Longrightarrow> path = os_artifact s
     \<Longrightarrow> (needs_signature r \<longrightarrow> os_checked s) \<Longrightarrow> ota_step cr s (EvCheck r path) s"
| install: "for_request s r \<Longrightarrow> os_phase s = ''verified'' \<Longrightarrow> path = os_artifact s
     \<Longrightarrow> ota_step cr s (EvInstall r path) s"
| activate: "for_request s r \<Longrightarrow> os_phase s = ''installed'' \<Longrightarrow> ota_step cr s (EvActivate r) s"
| commit: "for_request s r \<Longrightarrow> os_phase s \<in> {''activated'', ''reboot_requested''} \<Longrightarrow> ota_step cr s (EvCommit r) s"
| rollback: "for_request s r \<Longrightarrow> os_phase s \<in> {''installed'', ''activated'', ''reboot_requested''}
     \<Longrightarrow> previous = os_previous s \<Longrightarrow> ota_step cr s (EvRollback r previous) s"
| reboot: "os_phase s \<in> {''installed'', ''activated'', ''reboot_requested'', ''rollback_reboot_requested''}
     \<Longrightarrow> ota_step cr s EvReboot s"
| save: "save_allowed s tx \<Longrightarrow> ota_step cr s (EvSave tx) (abs_tx (os_checked s) tx)"

inductive_simps ota_step_simps [simp]:
  "ota_step cr s (EvProgress m) s'"
  "ota_step cr s (EvHealth parts) s'"
  "ota_step cr s (EvCurrentVersion r) s'"
  "ota_step cr s (EvVerify r path artifact key) s'"
  "ota_step cr s (EvCheck r path) s'"
  "ota_step cr s (EvInstall r path) s'"
  "ota_step cr s (EvActivate r) s'"
  "ota_step cr s (EvCommit r) s'"
  "ota_step cr s (EvRollback r previous) s'"
  "ota_step cr s EvReboot s'"
  "ota_step cr s (EvSave tx) s'"

fun ota_trace :: "crypto \<Rightarrow> ota_state \<Rightarrow> event list \<Rightarrow> ota_state \<Rightarrow> bool" where
  "ota_trace cr s [] s' \<longleftrightarrow> s' = s"
| "ota_trace cr s (e # es) s' \<longleftrightarrow> (\<exists>t. ota_step cr s e t \<and> ota_trace cr t es s')"

lemma ota_trace_append:
  "ota_trace cr s (es @ fs) s' \<longleftrightarrow> (\<exists>t. ota_trace cr s es t \<and> ota_trace cr t fs s')"
  by (induction es arbitrary: s) auto

section \<open>What the machine guarantees\<close>

text \<open>The phases that a trace saves.\<close>

definition saved_phases :: "event list \<Rightarrow> string list" where
  "saved_phases es = List.map_filter (\<lambda>e. case e of EvSave tx \<Rightarrow> Some (Phase tx) | _ \<Rightarrow> None) es"

fun phase_path :: "string \<Rightarrow> string list \<Rightarrow> bool" where
  "phase_path p [] \<longleftrightarrow> True"
| "phase_path p (q # qs) \<longleftrightarrow> phase_step p q \<and> phase_path q qs"

lemma saved_phases_simps [simp]:
  "saved_phases [] = []"
  "saved_phases (e # es) = (case e of EvSave tx \<Rightarrow> Phase tx # saved_phases es | _ \<Rightarrow> saved_phases es)"
  by (simp_all add: saved_phases_def List.map_filter_simps split: event.split)

lemma ota_trace_phases: "ota_trace cr s es s' \<Longrightarrow> phase_path (os_phase s) (saved_phases es)"
proof (induction es arbitrary: s)
  case (Cons e es)
  then obtain t where "ota_step cr s e t" "phase_path (os_phase t) (saved_phases es)" by auto
  then show ?case by (cases e) (auto simp: save_allowed_def abs_tx_def)
qed simp

text \<open>An accepted verification of the release of a request, somewhere in a log.\<close>

definition verified_in :: "crypto \<Rightarrow> event list \<Rightarrow> Request \<Rightarrow> bool" where
  "verified_in cr es request \<longleftrightarrow>
     (\<exists>r path artifact key. EvVerify r path artifact key \<in> set es
        \<and> norm_request r = norm_request request \<and> verify_ok cr r artifact key)"

text \<open>Every install of an operating system update has an accepted verification before it.\<close>

fun installs_verified :: "crypto \<Rightarrow> event list \<Rightarrow> event list \<Rightarrow> bool" where
  "installs_verified cr past [] \<longleftrightarrow> True"
| "installs_verified cr past (e # es) \<longleftrightarrow>
     (case e of EvInstall r path \<Rightarrow> needs_signature r \<longrightarrow> verified_in cr past r | _ \<Rightarrow> True)
     \<and> installs_verified cr (past @ [e]) es"

lemma installs_verified_append:
  "installs_verified cr past (es @ fs) \<longleftrightarrow> installs_verified cr past es \<and> installs_verified cr (past @ es) fs"
  by (induction es arbitrary: past) auto

lemma verified_in_mono: "verified_in cr es r \<Longrightarrow> verified_in cr (es @ fs) r"
  by (auto simp: verified_in_def)

lemma norm_request_idem [simp]: "norm_request (norm_request r) = norm_request r"
  by (simp add: norm_request_def)

lemma needs_signature_norm [simp]: "needs_signature (norm_request r) = needs_signature r"
  by (simp add: needs_signature_def norm_request_def)

lemma verified_in_norm [simp]: "verified_in cr es (norm_request r) = verified_in cr es r"
  by (simp add: verified_in_def)

text \<open>
  The state of the machine is justified by a log: past verification, or checked, only with an
  accepted verification in it.
\<close>

definition after_verification :: "string \<Rightarrow> bool" where
  "after_verification p \<longleftrightarrow> p \<in> {''verified'', ''installed'', ''activated'', ''reboot_requested'',
     ''rollback_reboot_requested'', ''completed'', ''rollback_failed''}"

definition justified :: "crypto \<Rightarrow> event list \<Rightarrow> ota_state \<Rightarrow> bool" where
  "justified cr past s \<longleftrightarrow> (os_checked s \<or> needs_signature (os_request s) \<and> after_verification (os_phase s)
     \<longrightarrow> verified_in cr past (os_request s))"

lemma for_requestD: "for_request s r \<Longrightarrow> needs_signature r = needs_signature (os_request s)
    \<and> verified_in cr es r = verified_in cr es (os_request s)"
  unfolding for_request_def by (metis needs_signature_norm verified_in_norm)

lemma verify_verified_in:
  "norm_request r = norm_request q \<Longrightarrow> verify_ok cr r a k \<Longrightarrow> verified_in cr (past @ [EvVerify r path a k]) q"
  unfolding verified_in_def by fastforce

lemma phase_step_after:
  "phase_step p q \<Longrightarrow> after_verification q \<Longrightarrow> q \<noteq> ''verified'' \<Longrightarrow> after_verification p"
  by (cases rule: phase_step.cases) (auto simp: after_verification_def)

lemma ota_step_justified:
  assumes "ota_step cr s e t" "justified cr past s"
  shows "justified cr (past @ [e]) t \<and> os_request t = os_request s
    \<and> (case e of EvInstall r path \<Rightarrow> needs_signature r \<longrightarrow> verified_in cr past r | _ \<Rightarrow> True)"
  using assms
proof (cases rule: ota_step.cases)
  case (verify r path artifact key)
  then show ?thesis
    using assms(2) verify_verified_in [of r "os_request s" cr artifact key past path]
    by (auto simp: justified_def for_request_def after_verification_def) (metis norm_request_idem)+
next
  case (save tx)
  then have "os_checked s \<or> needs_signature (os_request s) \<and> after_verification (Phase tx)
      \<Longrightarrow> verified_in cr past (os_request s)"
    using assms(2) phase_step_after by (auto simp: justified_def save_allowed_def)
  with save show ?thesis
    by (auto simp: justified_def abs_tx_def save_allowed_def intro: verified_in_mono)
qed (auto simp: justified_def after_verification_def for_requestD intro: verified_in_mono)

lemma ota_trace_justified:
  "ota_trace cr s es s' \<Longrightarrow> justified cr past s \<Longrightarrow>
     installs_verified cr past es \<and> justified cr (past @ es) s' \<and> os_request s' = os_request s"
proof (induction es arbitrary: s past)
  case (Cons e es)
  then obtain t where "ota_step cr s e t" "ota_trace cr t es s'" by auto
  with Cons ota_step_justified [of cr s e t past] Cons.IH [of t "past @ [e]"]
  show ?case by auto
qed simp

end
