(* ===== verification/OTARefinement.thy ===== *)
theory OTARefinement
  imports OTAMachine
begin

text \<open>
  Every execution of the engine is a trace of the machine of \<^verbatim>\<open>OTAMachine\<close>, starting in the
  phase of the transaction it loaded, and the transaction files are those the saves of the
  trace leave. The forward rules \<open>sim_ext\<close>, \<open>sim_emit\<close> and \<open>sim_save\<close> follow one call of the
  engine each; the stages compose them.
\<close>

section \<open>Simulation\<close>

definition replay :: "Config \<Rightarrow> event list \<Rightarrow> tx_file go_map \<Rightarrow> tx_file go_map" where
  "replay cfg es m =
     fold (\<lambda>e m. case e of EvSave tx \<Rightarrow> mput (transactionPath cfg (UpdateID (tx_Request tx))) (TxJSON tx) m
                 | _ \<Rightarrow> m) es m"

lemma replay_append: "replay cfg (es @ fs) m = replay cfg fs (replay cfg es m)"
  by (simp add: replay_def)

definition ota_sim :: "crypto \<Rightarrow> Config \<Rightarrow> ota_state \<Rightarrow> 'w osw \<Rightarrow> ota_state \<Rightarrow> 'w osw \<Rightarrow> bool" where
  "ota_sim cr cfg s w s' w' \<longleftrightarrow>
     (\<exists>es. elog w' = elog w @ es \<and> txs w' = replay cfg es (txs w) \<and> ota_trace cr s es s')"

lemma sim_same: "elog w' = elog w \<Longrightarrow> txs w' = txs w \<Longrightarrow> ota_sim cr cfg s w s w'"
  unfolding ota_sim_def by (rule exI [of _ "[]"]) (simp add: replay_def)

lemma sim_trans:
  "ota_sim cr cfg s w s1 w1 \<Longrightarrow> ota_sim cr cfg s1 w1 s2 w2 \<Longrightarrow> ota_sim cr cfg s w s2 w2"
  unfolding ota_sim_def by (metis append_assoc ota_trace_append replay_append)

lemma sim_frame:
  "ota_sim cr cfg s0 w0 s w \<Longrightarrow> elog w' = elog w \<Longrightarrow> txs w' = txs w \<Longrightarrow> ota_sim cr cfg s0 w0 s w'"
  by (simp add: ota_sim_def)

lemma sim_ext: "ota_sim cr cfg s0 w0 s w \<Longrightarrow> ext_call f w = (a, w') \<Longrightarrow> ota_sim cr cfg s0 w0 s w'"
  by (metis sim_frame ext_call_frame)

definition is_save :: "event \<Rightarrow> bool" where
  "is_save e \<longleftrightarrow> (case e of EvSave tx \<Rightarrow> True | _ \<Rightarrow> False)"

lemma is_save_simps [simp]:
  "\<not> is_save (EvProgress m)" "\<not> is_save (EvCurrentVersion r)" "\<not> is_save (EvVerify r p a k)"
  "\<not> is_save (EvCheck r p)" "\<not> is_save (EvInstall r p)" "\<not> is_save (EvActivate r)"
  "\<not> is_save (EvCommit r)" "\<not> is_save (EvRollback r v)" "\<not> is_save EvReboot" "\<not> is_save (EvHealth c)"
  by (simp_all add: is_save_def)

lemma sim_emit:
  assumes "ota_sim cr cfg s0 w0 s w" "ota_step cr s e s'" "\<not> is_save e"
  shows "ota_sim cr cfg s0 w0 s' (emit e w)"
proof (rule sim_trans [OF assms(1)])
  have "replay cfg [e] (txs w) = txs w"
    using assms(3) by (cases e) (simp_all add: replay_def is_save_def)
  with assms(2) show "ota_sim cr cfg s w s' (emit e w)"
    unfolding ota_sim_def by (intro exI [of _ "[e]"]) simp
qed

lemma abs_tx_UpdatedAt [simp]: "abs_tx c (tx\<lparr>UpdatedAt := t\<rparr>) = abs_tx c tx"
  by (simp add: abs_tx_def)

lemma save_allowed_UpdatedAt [simp]: "save_allowed s (tx\<lparr>UpdatedAt := t\<rparr>) = save_allowed s tx"
  by (simp add: save_allowed_def)

lemma sim_save:
  assumes "ota_sim cr cfg s0 w0 s w" "save sys cfg tx w = (err, w')" "save_allowed s tx"
  shows "ota_sim cr cfg s0 w0 (if err = None then abs_tx (os_checked s) tx else s) w'"
proof -
  obtain now w1 where now: "ext_call (sys_now sys) w = (now, w1)" by fastforce
  obtain err' w2 where err: "ext_call (sys_saveErr sys) w1 = (err', w2)" by fastforce
  let ?tx = "tx\<lparr>UpdatedAt := now\<rparr>"
  have w2: "ota_sim cr cfg s0 w0 s w2" using sim_ext [OF sim_ext [OF assms(1) now] err] .
  show ?thesis
  proof (cases err')
    case (Some e)
    then show ?thesis using assms(2) now err w2 by (auto simp: save_def)
  next
    case None
    then have w': "err = None"
        "w' = emit (EvSave ?tx) (w2\<lparr>txs := mput (transactionPath cfg (UpdateID (tx_Request tx))) (TxJSON ?tx) (txs w2)\<rparr>)"
      using assms(2) now err by (auto simp: save_def Let_def)
    have "ota_sim cr cfg s w2 (abs_tx (os_checked s) ?tx) w'"
      unfolding ota_sim_def w' using assms(3)
      by (intro exI [of _ "[EvSave ?tx]"]) (simp add: replay_def)
    from sim_trans [OF w2 this] w' show ?thesis by simp
  qed
qed

section \<open>The transaction in memory\<close>

text \<open>
  The transaction in memory agrees with the state of the machine, up to the fields that the
  current stage may still change.
\<close>

definition linked :: "ota_state \<Rightarrow> transaction \<Rightarrow> bool" where
  "linked s tx \<longleftrightarrow>
     for_request s (tx_Request tx) \<and> os_phase s = Phase tx
     \<and> (Phase tx \<noteq> ''created'' \<longrightarrow> PreviousVersion tx = os_previous s)
     \<and> (Phase tx \<noteq> ''prepared'' \<longrightarrow> ArtifactPath tx = os_artifact s)
     \<and> RebootAttempts tx = os_attempts s"

lemma linked_abs [simp]: "linked (abs_tx c tx) tx"
  by (simp add: linked_def abs_tx_def for_request_def)

definition ota_ends :: "crypto \<Rightarrow> Config \<Rightarrow> ota_state \<Rightarrow> 'w osw \<Rightarrow> 'w osw \<Rightarrow> bool" where
  "ota_ends cr cfg s w w' \<longleftrightarrow> (\<exists>s'. ota_sim cr cfg s w s' w')"

lemma ota_endsI: "ota_sim cr cfg s w s' w' \<Longrightarrow> ota_ends cr cfg s w w'"
  by (auto simp: ota_ends_def)

lemma linked_save:
  "linked s tx \<Longrightarrow> tx_Request tx' = tx_Request tx \<Longrightarrow> PreviousVersion tx' = PreviousVersion tx
     \<Longrightarrow> ArtifactPath tx' = ArtifactPath tx \<Longrightarrow> RebootAttempts tx' = RebootAttempts tx
     \<Longrightarrow> phase_step (Phase tx) (Phase tx') \<Longrightarrow> Phase tx' \<noteq> ''verified'' \<Longrightarrow> save_allowed s tx'"
  by (auto simp: linked_def save_allowed_def for_request_def)

lemma requestReboot_sim:
  assumes "ota_sim cr cfg s0 w0 s w" "requestReboot sys cfg w = (err, w')"
    "os_phase s \<in> {''installed'', ''activated'', ''reboot_requested'', ''rollback_reboot_requested''}"
  shows "ota_sim cr cfg s0 w0 s w'"
proof (cases "AutoReboot cfg")
  case False
  then show ?thesis using assms by (simp add: requestReboot_def)
next
  case True
  obtain r w1 where run: "ext_call (Run sys ''systemctl'' [''reboot'', ''--no-block'']) (emit EvReboot w) = (r, w1)"
    by fastforce
  have "ota_sim cr cfg s0 w0 s (emit EvReboot w)"
    by (rule sim_emit [OF assms(1)]) (use assms(3) in simp_all)
  from sim_ext [OF this run] show ?thesis
    using assms(2) True run by (simp add: requestReboot_def Let_def split: prod.splits)
qed

definition rollback_phase :: "string \<Rightarrow> bool" where
  "rollback_phase p \<longleftrightarrow> p \<in> {''installed'', ''activated'', ''reboot_requested''}"

lemma phase_step_rollback [intro]:
  "rollback_phase p \<Longrightarrow> phase_step p ''rollback_failed''"
  "rollback_phase p \<Longrightarrow> phase_step p ''rollback_reboot_requested''"
  "rollback_phase p \<Longrightarrow> phase_step p ''rolled_back''"
  "before_install p \<Longrightarrow> phase_step p ''rolled_back''"
  "phase_step ''rollback_reboot_requested'' ''rollback_failed''"
  by (simp_all add: rollback_phase_def before_install_def phase_step.simps) auto

lemma save_end:
  assumes "ota_sim cr cfg s0 w0 s w" "save_allowed s tx" "save sys cfg tx w = (err, w')"
  shows "ota_ends cr cfg s0 w0 w'"
  using sim_save [OF assms(1) assms(3) assms(2)] by (auto simp: ota_ends_def split: if_splits)

lemma rollback_reboot_sim:
  assumes sim: "ota_sim cr cfg s0 w0 s w" and link: "linked s tx" and ph: "rollback_phase (Phase tx)"
    and run: "rollback_reboot sys cfg tx w = (r, w')"
  shows "ota_ends cr cfg s0 w0 w'"
proof -
  obtain boot w1 where b: "ext_call (sys_bootID sys) w = (boot, w1)" by fastforce
  define tx1 where "tx1 = tx\<lparr>Phase := ''rollback_reboot_requested'', BootID := boot\<rparr>"
  obtain e2 w2 where s2: "save sys cfg tx1 w1 = (e2, w2)" by fastforce
  define t where "t = (if e2 = None then abs_tx (os_checked s) tx1 else s)"
  have allowed1: "save_allowed s tx1"
    by (rule linked_save [OF link]) (use ph in \<open>auto simp: tx1_def\<close>)
  have w2: "ota_sim cr cfg s0 w0 t w2"
    unfolding t_def by (rule sim_save [OF sim_ext [OF sim b] s2 allowed1])
  obtain e3 w3 where r3: "requestReboot sys cfg w2 = (e3, w3)" by fastforce
  have tph: "os_phase t \<in> {''installed'', ''activated'', ''reboot_requested'', ''rollback_reboot_requested''}"
    using ph link by (auto simp: t_def abs_tx_def tx1_def linked_def rollback_phase_def)
  have w3: "ota_sim cr cfg s0 w0 t w3" by (rule requestReboot_sim [OF w2 r3 tph])
  show ?thesis
  proof (cases e3)
    case None
    then show ?thesis using run b s2 r3 ota_endsI [OF w3]
      by (simp add: rollback_reboot_def Let_def tx1_def split: prod.splits)
  next
    case (Some e)
    define tx4 where "tx4 = tx1\<lparr>Phase := ''rollback_failed'', Failure := Failure tx1 @ ''; rollback reboot: '' @ Error e\<rparr>"
    have tlink: "if e2 = None then linked t tx1 else linked t tx"
      using link by (simp add: t_def)
    have "save_allowed t tx4"
    proof (cases "e2 = None")
      case True
      with tlink show ?thesis by (intro linked_save [of t tx1]) (auto simp: tx4_def tx1_def)
    next
      case False
      with tlink ph show ?thesis by (intro linked_save [of t tx]) (auto simp: tx4_def tx1_def)
    qed
    then show ?thesis using run b s2 r3 Some save_end [OF w3, of tx4 sys]
      by (auto simp: rollback_reboot_def Let_def tx1_def tx4_def split: prod.splits)
  qed
qed

lemma linked_Failure [simp]: "linked s (tx\<lparr>Failure := f\<rparr>) = linked s tx"
  by (simp add: linked_def)

lemma failAndRollback_sim:
  assumes sim: "ota_sim cr cfg s0 w0 s w" and link: "linked s tx"
    and ph: "before_install (Phase tx) \<or> rollback_phase (Phase tx)"
    and run: "failAndRollback sys cfg adapter tx cls cause w = (r, w')"
  shows "ota_ends cr cfg s0 w0 w'"
proof -
  define tx1 where "tx1 = tx\<lparr>Failure := cls @ '': '' @ Error cause\<rparr>"
  have link1: "linked s tx1" and ph1: "Phase tx1 = Phase tx" using link by (simp_all add: tx1_def)
  have save_rolled_back: "save_allowed s (tx1\<lparr>Phase := ''rolled_back''\<rparr>)"
    by (rule linked_save [OF link1]) (use ph in \<open>auto simp: ph1\<close>)
  show ?thesis
  proof (cases "before_install (Phase tx)")
    case True
    then show ?thesis using run save_end [OF sim save_rolled_back, of sys]
      by (auto simp: failAndRollback_def Let_def tx1_def split: prod.splits)
  next
    case False
    then have rb: "rollback_phase (Phase tx)" using ph by simp
    obtain e2 w2 where call: "ext_call (Rollback adapter (tx_Request tx) (PreviousVersion tx))
        (emit (EvRollback (tx_Request tx) (PreviousVersion tx)) w) = (e2, w2)" by fastforce
    have "ota_sim cr cfg s0 w0 s (emit (EvRollback (tx_Request tx) (PreviousVersion tx)) w)"
      by (rule sim_emit [OF sim]) (use link rb in \<open>auto simp: linked_def rollback_phase_def\<close>)
    then have w2: "ota_sim cr cfg s0 w0 s w2" by (rule sim_ext [OF _ call])
    show ?thesis
    proof (cases e2)
      case (Some e)
      have "save_allowed s (tx1\<lparr>Phase := ''rollback_failed'', Failure := Failure tx1 @ ''; rollback: '' @ Error e\<rparr>)"
        by (rule linked_save [OF link1]) (use rb in \<open>auto simp: ph1\<close>)
      then show ?thesis using run False call Some save_end [OF w2, of _ sys]
        by (auto simp: failAndRollback_def Let_def tx1_def split: prod.splits)
    next
      case None
      obtain b w3 where reb: "ext_call (RequiresReboot adapter) w2 = (b, w3)" by fastforce
      have w3: "ota_sim cr cfg s0 w0 s w3" by (rule sim_ext [OF w2 reb])
      show ?thesis
      proof (cases b)
        case True
        have "rollback_reboot sys cfg tx1 w3 = (r, w')"
          using run False call None reb True by (simp add: failAndRollback_def Let_def tx1_def)
        from rollback_reboot_sim [OF w3 link1 _ this] show ?thesis by (simp add: ph1 rb)
      next
        case nb: False
        then show ?thesis using run False call None reb save_end [OF w3 save_rolled_back, of sys]
          by (auto simp: failAndRollback_def Let_def tx1_def split: prod.splits)
      qed
    qed
  qed
qed

section \<open>Health and confirmation\<close>

definition confirm_phase :: "string \<Rightarrow> bool" where
  "confirm_phase p \<longleftrightarrow> p \<in> {''activated'', ''reboot_requested''}"

lemma confirm_rollback_phase: "confirm_phase p \<Longrightarrow> rollback_phase p"
  by (auto simp: confirm_phase_def rollback_phase_def)

lemma healthLoop_sim:
  "ota_sim cr cfg s0 w0 s w \<Longrightarrow> confirm_phase (os_phase s) \<Longrightarrow> healthLoop sys parts n w = (err, w')
     \<Longrightarrow> ota_sim cr cfg s0 w0 s w'"
proof (induction n arbitrary: w)
  case (0 w)
  obtain o1 e1 w1 where call: "ext_call (Run sys (hd parts) (tl parts)) (emit (EvHealth parts) w) = ((o1, e1), w1)"
    by (metis surj_pair)
  have "ota_sim cr cfg s0 w0 s w1"
    by (rule sim_ext [OF sim_emit call]) (use 0 in \<open>auto simp: confirm_phase_def\<close>)
  then show ?case using 0(3) call by (auto split: option.splits)
next
  case (Suc n w)
  obtain o1 e1 w1 where call: "ext_call (Run sys (hd parts) (tl parts)) (emit (EvHealth parts) w) = ((o1, e1), w1)"
    by (metis surj_pair)
  have "ota_sim cr cfg s0 w0 s w1"
    by (rule sim_ext [OF sim_emit call]) (use Suc in \<open>auto simp: confirm_phase_def\<close>)
  then show ?case using Suc call by (auto simp del: healthLoop.simps simp: healthLoop.simps [of _ _ "Suc n"] split: option.splits)
qed

lemma healthCheck_sim:
  assumes "ota_sim cr cfg s0 w0 s w" "confirm_phase (os_phase s)" "healthCheck sys cfg w = (err, w')"
  shows "ota_sim cr cfg s0 w0 s w'"
proof -
  obtain n w1 where call: "ext_call (sys_healthTicks sys) w = (n, w1)" by fastforce
  show ?thesis
    using assms(3) call assms(1) healthLoop_sim [OF sim_ext [OF assms(1) call] assms(2)]
    by (auto simp: healthCheck_def Let_def simp del: healthLoop.simps split: if_splits)
qed

lemma sim_remove:
  "ota_sim cr cfg s0 w0 s w \<Longrightarrow> ota_sim cr cfg s0 w0 s (w\<lparr>files := f\<rparr>)"
  by (erule sim_frame) simp_all

lemma confirmAndCommit_sim:
  assumes sim: "ota_sim cr cfg s0 w0 s w" and link: "linked s tx" and ph: "confirm_phase (Phase tx)"
    and run: "confirmAndCommit sys cfg adapter tx w = (r, w')"
  shows "ota_ends cr cfg s0 w0 w'"
proof -
  let ?r = "tx_Request tx"
  have fail: "\<And>w cls cause r. ota_sim cr cfg s0 w0 s w \<Longrightarrow> failAndRollback sys cfg adapter tx cls cause w = (r, w')
      \<Longrightarrow> ota_ends cr cfg s0 w0 w'"
    using failAndRollback_sim [OF _ link] ph confirm_rollback_phase by blast
  have sph: "confirm_phase (os_phase s)" and fr: "for_request s ?r" using link ph by (auto simp: linked_def)
  obtain e1 w1 where h: "healthCheck sys cfg w = (e1, w1)" by fastforce
  have w1: "ota_sim cr cfg s0 w0 s w1" by (rule healthCheck_sim [OF sim sph h])
  obtain v e2 w2 where cv: "ext_call (CurrentVersion adapter ?r) (emit (EvCurrentVersion ?r) w1) = ((v, e2), w2)"
    by (metis surj_pair)
  have w2: "ota_sim cr cfg s0 w0 s w2"
    by (rule sim_ext [OF sim_emit cv]) (use w1 sph fr in \<open>auto simp: confirm_phase_def\<close>)
  let ?w3 = "emit (EvProgress ''Committing the healthy update'') w2"
  obtain e4 w4 where cm: "ext_call (ad_Commit adapter ?r) (emit (EvCommit ?r) ?w3) = (e4, w4)" by fastforce
  have w3: "ota_sim cr cfg s0 w0 s ?w3" by (rule sim_emit [OF w2]) simp_all
  have w4: "ota_sim cr cfg s0 w0 s w4"
    by (rule sim_ext [OF sim_emit cm]) (use w3 sph fr in \<open>auto simp: confirm_phase_def\<close>)
  have allowed: "save_allowed s (tx\<lparr>Phase := ''completed''\<rparr>)"
    by (rule linked_save [OF link]) (use ph in \<open>auto simp: confirm_phase_def intro: phase_step.intros\<close>)
  obtain e5 w5 where sv: "save sys cfg (tx\<lparr>Phase := ''completed''\<rparr>) w4 = (e5, w5)" by fastforce
  note w5 = sim_save [OF w4 sv allowed]
  show ?thesis
  proof (cases "e1 = None \<and> e2 = None \<and> version_mismatch ?r (TrimSpace v) = None \<and> e4 = None")
    case False
    then show ?thesis using run h cv cm w1 w2 w4 fail
      by (auto simp: confirmAndCommit_def Let_def split: option.splits)
  next
    case True
    obtain e6 w6 where rm: "ext_call (sys_fileErr sys) w5 = (e6, w6)" by fastforce
    note w6 = sim_ext [OF w5 rm]
    from True show ?thesis using run h cv cm sv rm ota_endsI [OF w5] ota_endsI [OF w6] ota_endsI [OF sim_remove [OF w6]]
      by (auto simp: confirmAndCommit_def Let_def split: option.splits if_splits)
  qed
qed

section \<open>The stages\<close>

definition install_phases :: "string list" where
  "install_phases = [''created'', ''prepared'', ''downloaded'', ''verified'', ''installed'', ''activated'']"

text \<open>An adapter of an operating system update always asks for an artifact.\<close>

definition adapter_fits :: "'w Adapter \<Rightarrow> Request \<Rightarrow> bool" where
  "adapter_fits adapter request \<longleftrightarrow> (needs_signature request \<longrightarrow> ArtifactRequired adapter)"

definition stage_result ::
  "crypto \<Rightarrow> Config \<Rightarrow> ota_state \<Rightarrow> 'w osw \<Rightarrow> transaction \<Rightarrow> string set \<Rightarrow> (outcome + transaction) \<times> 'w osw \<Rightarrow> bool" where
  "stage_result cr cfg s0 w0 tx Q res \<longleftrightarrow>
     (case res of
        (Inl r, w') \<Rightarrow> ota_ends cr cfg s0 w0 w'
      | (Inr tx', w') \<Rightarrow> tx_Request tx' = tx_Request tx \<and> Phase tx' \<in> Q
          \<and> (\<exists>s'. ota_sim cr cfg s0 w0 s' w' \<and> linked s' tx'))"

definition stage_ok :: "crypto \<Rightarrow> Config \<Rightarrow> 'w Adapter \<Rightarrow> string set \<Rightarrow> 'w stage \<Rightarrow> string set \<Rightarrow> bool" where
  "stage_ok cr cfg adapter P stage Q \<longleftrightarrow>
     (\<forall>s0 w0 s w tx. ota_sim cr cfg s0 w0 s w \<longrightarrow> linked s tx \<longrightarrow> Phase tx \<in> P
        \<longrightarrow> adapter_fits adapter (tx_Request tx) \<longrightarrow> stage_result cr cfg s0 w0 tx Q (stage tx w))"

lemma stage_okD:
  "stage_ok cr cfg adapter P stage Q \<Longrightarrow> ota_sim cr cfg s0 w0 s w \<Longrightarrow> linked s tx \<Longrightarrow> Phase tx \<in> P
     \<Longrightarrow> adapter_fits adapter (tx_Request tx) \<Longrightarrow> stage_result cr cfg s0 w0 tx Q (stage tx w)"
  unfolding stage_ok_def by blast

lemma stage_result_request:
  "tx_Request a = tx_Request b \<Longrightarrow> stage_result cr cfg s0 w0 a Q r \<Longrightarrow> stage_result cr cfg s0 w0 b Q r"
  by (cases r; cases "fst r") (auto simp: stage_result_def)

lemma stage_ok_andThen:
  assumes "stage_ok cr cfg adapter P a Q" "stage_ok cr cfg adapter Q b R"
  shows "stage_ok cr cfg adapter P (andThen a b) R"
  unfolding stage_ok_def
proof (intro allI impI)
  fix s0 s :: ota_state and w0 w :: "'a osw" and tx
  assume prems: "ota_sim cr cfg s0 w0 s w" "linked s tx" "Phase tx \<in> P" "adapter_fits adapter (tx_Request tx)"
  obtain r w1 where a: "a tx w = (r, w1)" by fastforce
  note ra = stage_okD [OF assms(1) prems, unfolded a]
  show "stage_result cr cfg s0 w0 tx R (andThen a b tx w)"
  proof (cases r)
    case (Inl x)
    then show ?thesis using ra a by (simp add: andThen_def stage_result_def)
  next
    case (Inr tx1)
    then obtain s1 where "ota_sim cr cfg s0 w0 s1 w1" "linked s1 tx1" "Phase tx1 \<in> Q"
        and req: "tx_Request tx1 = tx_Request tx"
      using ra by (auto simp: stage_result_def)
    from stage_okD [OF assms(2) this(1-3)] prems(4) req
    have "stage_result cr cfg s0 w0 tx R (b tx1 w1)" by (auto intro: stage_result_request [OF req])
    with Inr a show ?thesis by (simp add: andThen_def)
  qed
qed

lemma stage_result_stop:
  "ota_ends cr cfg s0 w0 (snd r) \<Longrightarrow> stage_result cr cfg s0 w0 tx Q (stop r)"
  by (simp add: stage_result_def stop_def)

lemma stage_result_fail:
  assumes "ota_sim cr cfg s0 w0 s w" "linked s tx" "before_install (Phase tx) \<or> rollback_phase (Phase tx)"
  shows "stage_result cr cfg s0 w0 tx' Q (stop (failAndRollback sys cfg adapter tx cls cause w))"
  using failAndRollback_sim [OF assms] by (intro stage_result_stop) (metis surj_pair snd_conv)

lemma stage_result_skip:
  "ota_sim cr cfg s0 w0 s w \<Longrightarrow> linked s tx \<Longrightarrow> Phase tx \<in> Q \<Longrightarrow> stage_result cr cfg s0 w0 tx Q (Inr tx, w)"
  by (auto simp: stage_result_def)

lemma stage_result_advance:
  assumes "ota_sim cr cfg s0 w0 s w" "save_allowed s (tx\<lparr>Phase := p\<rparr>)" "p \<in> Q"
    "tx_Request tx = tx_Request tx0"
  shows "stage_result cr cfg s0 w0 tx0 Q (advance sys cfg p tx w)"
proof -
  obtain e w1 where sv: "save sys cfg (tx\<lparr>Phase := p\<rparr>) w = (e, w1)" by fastforce
  from sim_save [OF assms(1) sv assms(2)] sv assms(3,4) show ?thesis
    by (auto simp: advance_def Let_def stage_result_def ota_ends_def split: option.splits)
qed

lemma linked_PreviousVersion:
  "linked s tx \<Longrightarrow> Phase tx = ''created'' \<Longrightarrow> linked s (tx\<lparr>PreviousVersion := v\<rparr>)"
  by (simp add: linked_def)

lemma stage_preflight_ok:
  "stage_ok cr cfg adapter (set install_phases) (stage_preflight sys cfg adapter) (set (drop 1 install_phases))"
  unfolding stage_ok_def
proof (intro allI impI)
  fix s0 s :: ota_state and w0 w :: "'a osw" and tx
  assume sim: "ota_sim cr cfg s0 w0 s w" and link: "linked s tx" and ph: "Phase tx \<in> set install_phases"
  let ?r = "tx_Request tx"
  let ?w1 = "emit (EvProgress ''Running compatibility and storage preflight checks'') w"
  show "stage_result cr cfg s0 w0 tx (set (drop 1 install_phases)) (stage_preflight sys cfg adapter tx w)"
  proof (cases "Phase tx = ''created''")
    case False
    with stage_result_skip [OF sim link] ph show ?thesis by (auto simp: stage_preflight_def install_phases_def)
  next
    case created: True
    have w1: "ota_sim cr cfg s0 w0 s ?w1" by (rule sim_emit [OF sim]) simp_all
    obtain v e w2 where cv: "ext_call (CurrentVersion adapter ?r) (emit (EvCurrentVersion ?r) ?w1) = ((v, e), w2)"
      by (metis surj_pair)
    have w2: "ota_sim cr cfg s0 w0 s w2"
      by (rule sim_ext [OF sim_emit cv]) (use w1 link created in \<open>auto simp: linked_def\<close>)
    obtain st w3 where fs: "ext_call (sys_statfs sys) w2 = (st, w3)" by fastforce
    have w3: "ota_sim cr cfg s0 w0 s w3" by (rule sim_ext [OF w2 fs])
    let ?tx = "tx\<lparr>PreviousVersion := TrimSpace v\<rparr>"
    have link2: "linked s ?tx" by (rule linked_PreviousVersion [OF link created])
    have bi: "before_install (Phase ?tx) \<or> rollback_phase (Phase ?tx)" by (simp add: created before_install_def)
    have allowed: "save_allowed s (?tx\<lparr>Phase := ''prepared''\<rparr>)"
      using link created by (auto simp: linked_def save_allowed_def for_request_def intro: phase_step.intros)
    have adv: "\<And>w. ota_sim cr cfg s0 w0 s w \<Longrightarrow>
        stage_result cr cfg s0 w0 tx (set (drop 1 install_phases)) (advance sys cfg ''prepared'' ?tx w)"
      by (rule stage_result_advance [OF _ allowed]) (simp_all add: install_phases_def)
    show ?thesis
      using created cv fs stage_result_fail [OF w2 link, of tx] stage_result_fail [OF w2 link2 bi, of tx]
        stage_result_fail [OF w3 link2 bi, of tx] adv [OF w2] adv [OF w3]
      by (auto simp: stage_preflight_def Let_def before_install_def split: option.splits)
  qed
qed

lemma fetch_sim:
  "ota_sim cr cfg s0 w0 s w \<Longrightarrow> fetch cr sys cfg request w = (res, w') \<Longrightarrow> ota_sim cr cfg s0 w0 s w'"
  by (erule sim_frame) (auto dest: fetch_spec)

lemma stage_download_ok:
  "stage_ok cr cfg adapter (set (drop 1 install_phases)) (stage_download cr sys cfg adapter) (set (drop 2 install_phases))"
  unfolding stage_ok_def
proof (intro allI impI)
  fix s0 s :: ota_state and w0 w :: "'a osw" and tx
  assume sim: "ota_sim cr cfg s0 w0 s w" and link: "linked s tx" and ph: "Phase tx \<in> set (drop 1 install_phases)"
  let ?w1 = "emit (EvProgress ''Downloading the signed update artifact'') w"
  show "stage_result cr cfg s0 w0 tx (set (drop 2 install_phases)) (stage_download cr sys cfg adapter tx w)"
  proof (cases "Phase tx = ''prepared''")
    case False
    with stage_result_skip [OF sim link] ph show ?thesis by (auto simp: stage_download_def install_phases_def)
  next
    case prepared: True
    have w1: "ota_sim cr cfg s0 w0 s ?w1" by (rule sim_emit [OF sim]) simp_all
    obtain a w2 where f: "fetch cr sys cfg (tx_Request tx) ?w1 = (a, w2)" by fastforce
    have w2: "ota_sim cr cfg s0 w0 s w2" by (rule fetch_sim [OF w1 f])
    have adv: "\<And>w tx1. ota_sim cr cfg s0 w0 s w \<Longrightarrow> tx1 = tx \<or> (\<exists>path. tx1 = tx\<lparr>ArtifactPath := path\<rparr>) \<Longrightarrow>
        stage_result cr cfg s0 w0 tx (set (drop 2 install_phases)) (advance sys cfg ''downloaded'' tx1 w)"
      by (erule stage_result_advance)
        (use link prepared in \<open>auto simp: install_phases_def linked_def save_allowed_def for_request_def intro: phase_step.intros\<close>)
    have adv_path: "stage_result cr cfg s0 w0 tx (set (drop 2 install_phases))
        (advance sys cfg ''downloaded'' (tx\<lparr>ArtifactPath := path\<rparr>) w2)" for path
      by (rule adv [OF w2]) auto
    show ?thesis
      using prepared f stage_result_fail [OF w2 link, of tx] adv_path adv [OF sim, of tx]
      by (auto simp: stage_download_def Let_def before_install_def split: sum.splits)
  qed
qed

lemma verifyArtifact_ok:
  "verifyArtifact cr w path request dir = None \<Longrightarrow>
     verify_ok cr request (mget (files w) path) (mget (files w) (key_path dir request))"
  using verifyArtifact_None [of cr w path request dir]
  by (auto simp: verify_ok_def digestMatches_def signed_by_trusted_key_def split: option.splits)

lemma verifyReleaseSignature_ok:
  "verifyReleaseSignature cr w request dir = None \<Longrightarrow> usesOSTreeRepository request \<Longrightarrow>
     verify_ok cr request artifact (mget (files w) (key_path dir request))"
  using verifyReleaseSignature_None [of cr w request dir]
  by (auto simp: verify_ok_def signed_by_trusted_key_def split: option.splits)

lemma linked_checked [simp]: "linked (s\<lparr>os_checked := c\<rparr>) tx = linked s tx"
  by (simp add: linked_def for_request_def)

lemma verification_sim:
  assumes sim: "ota_sim cr cfg s0 w0 s w" and link: "linked s tx" and ph: "Phase tx = ''downloaded''"
    and fits: "adapter_fits adapter (tx_Request tx)"
    and run: "verification cr cfg adapter tx w = (err, w')"
  shows "\<exists>c. ota_sim cr cfg s0 w0 (s\<lparr>os_checked := c\<rparr>) w'
           \<and> (err = None \<longrightarrow> needs_signature (tx_Request tx) \<longrightarrow> c)"
proof -
  let ?r = "tx_Request tx" and ?dir = "TrustedKeysDir cfg"
  let ?a = "mget (files w) (ArtifactPath tx)" and ?k = "mget (files w) (key_path (TrustedKeysDir cfg) (tx_Request tx))"
  let ?s = "s\<lparr>os_checked := verify_ok cr ?r ?a ?k\<rparr>"
  have seen: "ota_sim cr cfg s0 w0 ?s (emit (EvVerify ?r (ArtifactPath tx) ?a ?k) w)"
    by (rule sim_emit [OF sim]) (use link ph in \<open>auto simp: linked_def\<close>)
  have same: "ota_sim cr cfg s0 w0 (s\<lparr>os_checked := os_checked s\<rparr>) w" using sim by simp
  show ?thesis
  proof (cases "needs_download adapter ?r \<or> usesOSTreeRepository ?r")
    case True
    then have w': "w' = emit (EvVerify ?r (ArtifactPath tx) ?a ?k) w"
      and ok: "err = None \<Longrightarrow> verify_ok cr ?r ?a ?k"
      using run verifyArtifact_ok [of cr w "ArtifactPath tx" ?r ?dir] verifyReleaseSignature_ok [of cr w ?r ?dir]
      by (auto simp: verification_def Let_def split: if_splits)
    with seen show ?thesis by blast
  next
    case False
    then have "\<not> needs_signature ?r" using fits by (auto simp: adapter_fits_def needs_download_def)
    with False same run show ?thesis
      by (auto simp: verification_def Let_def intro!: exI [of _ "os_checked s"])
  qed
qed

lemma stage_verify_ok:
  "stage_ok cr cfg adapter (set (drop 2 install_phases)) (stage_verify cr sys cfg adapter) (set (drop 3 install_phases))"
  unfolding stage_ok_def
proof (intro allI impI)
  fix s0 s :: ota_state and w0 w :: "'a osw" and tx
  assume sim: "ota_sim cr cfg s0 w0 s w" and link: "linked s tx" and ph: "Phase tx \<in> set (drop 2 install_phases)"
    and fits: "adapter_fits adapter (tx_Request tx)"
  let ?r = "tx_Request tx" and ?p = "ArtifactPath tx"
  let ?w1 = "emit (EvProgress ''Verifying digest, release signature, and native artifact metadata'') w"
  show "stage_result cr cfg s0 w0 tx (set (drop 3 install_phases)) (stage_verify cr sys cfg adapter tx w)"
  proof (cases "Phase tx = ''downloaded''")
    case False
    with stage_result_skip [OF sim link] ph show ?thesis by (auto simp: stage_verify_def install_phases_def)
  next
    case dl: True
    have w1: "ota_sim cr cfg s0 w0 s ?w1" by (rule sim_emit [OF sim]) simp_all
    obtain e w2 where v: "verification cr cfg adapter tx ?w1 = (e, w2)" by fastforce
    from verification_sim [OF w1 link dl fits v] obtain c where
      w2: "ota_sim cr cfg s0 w0 (s\<lparr>os_checked := c\<rparr>) w2" and c: "e = None \<longrightarrow> needs_signature ?r \<longrightarrow> c" by blast
    have link2: "linked (s\<lparr>os_checked := c\<rparr>) tx" using link by simp
    have bi: "before_install (Phase tx) \<or> rollback_phase (Phase tx)" by (simp add: dl before_install_def)
    obtain e3 w3 where ck: "ext_call (Check adapter ?r ?p) (emit (EvCheck ?r ?p) w2) = (e3, w3)" by fastforce
    show ?thesis
    proof (cases e)
      case (Some err)
      then show ?thesis using dl v stage_result_fail [OF w2 link2 bi, of tx] by (simp add: stage_verify_def Let_def)
    next
      case None
      have "ota_sim cr cfg s0 w0 (s\<lparr>os_checked := c\<rparr>) (emit (EvCheck ?r ?p) w2)"
        by (rule sim_emit [OF w2]) (use link2 dl c None in \<open>auto simp: linked_def for_request_def\<close>)
      then have w3: "ota_sim cr cfg s0 w0 (s\<lparr>os_checked := c\<rparr>) w3" by (rule sim_ext [OF _ ck])
      have ns: "needs_signature (os_request s) = needs_signature ?r"
        using link by (metis linked_def for_request_def needs_signature_norm)
      have "save_allowed (s\<lparr>os_checked := c\<rparr>) (tx\<lparr>Phase := ''verified''\<rparr>)"
        using link dl c None ns by (auto simp: linked_def save_allowed_def for_request_def intro: phase_step.intros)
      from stage_result_advance [OF w3 this] stage_result_fail [OF w3 link2 bi, of tx]
      show ?thesis using dl v ck None by (auto simp: stage_verify_def Let_def install_phases_def split: option.splits)
    qed
  qed
qed

lemma stage_install_ok:
  "stage_ok cr cfg adapter (set (drop 3 install_phases)) (stage_install sys cfg adapter) (set (drop 4 install_phases))"
  unfolding stage_ok_def
proof (intro allI impI)
  fix s0 s :: ota_state and w0 w :: "'a osw" and tx
  assume sim: "ota_sim cr cfg s0 w0 s w" and link: "linked s tx" and ph: "Phase tx \<in> set (drop 3 install_phases)"
  let ?r = "tx_Request tx" and ?p = "ArtifactPath tx"
  let ?w1 = "emit (EvProgress ''Installing the update with the selected device adapter'') w"
  show "stage_result cr cfg s0 w0 tx (set (drop 4 install_phases)) (stage_install sys cfg adapter tx w)"
  proof (cases "Phase tx = ''verified''")
    case False
    with stage_result_skip [OF sim link] ph show ?thesis by (auto simp: stage_install_def install_phases_def)
  next
    case vf: True
    have w1: "ota_sim cr cfg s0 w0 s ?w1" by (rule sim_emit [OF sim]) simp_all
    obtain e w2 where call: "ext_call (Install adapter ?r ?p) (emit (EvInstall ?r ?p) ?w1) = (e, w2)" by fastforce
    have w2: "ota_sim cr cfg s0 w0 s w2"
      by (rule sim_ext [OF sim_emit call]) (use w1 link vf in \<open>auto simp: linked_def\<close>)
    have "save_allowed s (tx\<lparr>Phase := ''installed''\<rparr>)"
      by (rule linked_save [OF link]) (use vf in \<open>auto intro: phase_step.intros\<close>)
    from stage_result_advance [OF w2 this] stage_result_fail [OF w2 link, of tx]
    show ?thesis using vf call
      by (auto simp: stage_install_def Let_def install_phases_def before_install_def split: option.splits)
  qed
qed

lemma stage_activate_ok:
  "stage_ok cr cfg adapter (set (drop 4 install_phases)) (stage_activate sys cfg adapter) (set (drop 5 install_phases))"
  unfolding stage_ok_def
proof (intro allI impI)
  fix s0 s :: ota_state and w0 w :: "'a osw" and tx
  assume sim: "ota_sim cr cfg s0 w0 s w" and link: "linked s tx" and ph: "Phase tx \<in> set (drop 4 install_phases)"
  let ?r = "tx_Request tx"
  let ?w1 = "emit (EvProgress ''Activating the new device state'') w"
  show "stage_result cr cfg s0 w0 tx (set (drop 5 install_phases)) (stage_activate sys cfg adapter tx w)"
  proof (cases "Phase tx = ''installed''")
    case False
    with stage_result_skip [OF sim link] ph show ?thesis by (auto simp: stage_activate_def install_phases_def)
  next
    case inst: True
    have w1: "ota_sim cr cfg s0 w0 s ?w1" by (rule sim_emit [OF sim]) simp_all
    obtain e w2 where call: "ext_call (Activate adapter ?r) (emit (EvActivate ?r) ?w1) = (e, w2)" by fastforce
    have w2: "ota_sim cr cfg s0 w0 s w2"
      by (rule sim_ext [OF sim_emit call]) (use w1 link inst in \<open>auto simp: linked_def\<close>)
    have "save_allowed s (tx\<lparr>Phase := ''activated''\<rparr>)"
      by (rule linked_save [OF link]) (use inst in \<open>auto intro: phase_step.intros\<close>)
    from stage_result_advance [OF w2 this] stage_result_fail [OF w2 link, of tx]
    show ?thesis using inst call
      by (auto simp: stage_activate_def Let_def install_phases_def rollback_phase_def split: option.splits)
  qed
qed

lemma stage_reboot_ok:
  "stage_ok cr cfg adapter (set (drop 5 install_phases)) (stage_reboot sys cfg adapter) {''activated''}"
  unfolding stage_ok_def
proof (intro allI impI)
  fix s0 s :: ota_state and w0 w :: "'a osw" and tx
  assume sim: "ota_sim cr cfg s0 w0 s w" and link: "linked s tx" and "Phase tx \<in> set (drop 5 install_phases)"
  then have act: "Phase tx = ''activated''" by (simp add: install_phases_def)
  obtain b w1 where rr: "ext_call (RequiresReboot adapter) w = (b, w1)" by fastforce
  have w1: "ota_sim cr cfg s0 w0 s w1" by (rule sim_ext [OF sim rr])
  obtain boot w2 where bt: "ext_call (sys_bootID sys) w1 = (boot, w2)" by fastforce
  have w2: "ota_sim cr cfg s0 w0 s w2" by (rule sim_ext [OF w1 bt])
  define tx1 where "tx1 = tx\<lparr>Phase := ''reboot_requested'', BootID := boot\<rparr>"
  obtain e3 w3 where sv: "save sys cfg tx1 w2 = (e3, w3)" by fastforce
  have "save_allowed s tx1"
    by (rule linked_save [OF link]) (use act in \<open>auto simp: tx1_def intro: phase_step.intros\<close>)
  note w3 = sim_save [OF w2 sv this]
  let ?w4 = "emit (EvProgress ''Requesting a reboot to boot the staged update'') w3"
  obtain e5 w5 where rq: "requestReboot sys cfg ?w4 = (e5, w5)" by fastforce
  have ph1: "Phase tx1 = ''reboot_requested''" by (simp add: tx1_def)
  show "stage_result cr cfg s0 w0 tx {''activated''} (stage_reboot sys cfg adapter tx w)"
  proof (cases "b \<and> e3 = None")
    case False
    then show ?thesis using act rr bt sv [unfolded tx1_def] stage_result_skip [OF w1 link, of "{''activated''}"] ota_endsI [OF w3]
      by (auto simp: stage_reboot_def Let_def stage_result_def split: option.splits)
  next
    case True
    have w4: "ota_sim cr cfg s0 w0 (abs_tx (os_checked s) tx1) ?w4"
      by (rule sim_emit [where s = "abs_tx (os_checked s) tx1"]) (use w3 True in simp_all)
    have w5: "ota_sim cr cfg s0 w0 (abs_tx (os_checked s) tx1) w5"
      by (rule requestReboot_sim [OF w4 rq]) (simp add: abs_tx_def ph1)
    have "\<And>cls err. stage_result cr cfg s0 w0 tx {''activated''} (stop (failAndRollback sys cfg adapter tx1 cls err w5))"
      by (rule stage_result_fail [OF w5 linked_abs]) (simp add: ph1 rollback_phase_def)
    then show ?thesis using True act rr bt sv rq ota_endsI [OF w5]
      by (auto simp: stage_reboot_def Let_def tx1_def stage_result_def split: option.splits)
  qed
qed

lemma stages_ok:
  "stage_ok cr cfg adapter (set install_phases) (stages cr sys cfg adapter) {''activated''}"
  unfolding stages_def
  by (intro stage_ok_andThen [OF stage_preflight_ok] stage_ok_andThen [OF stage_download_ok]
      stage_ok_andThen [OF stage_verify_ok] stage_ok_andThen [OF stage_install_ok]
      stage_ok_andThen [OF stage_activate_ok] stage_reboot_ok)

section \<open>Executions\<close>

lemma resumeAfterReboot_sim:
  assumes sim: "ota_sim cr cfg s0 w0 s w" and link: "linked s tx"
    and ph: "Phase tx = ''reboot_requested'' \<or> Phase tx = ''rollback_reboot_requested''"
    and run: "resumeAfterReboot sys cfg adapter tx w = (r, w')"
  shows "ota_ends cr cfg s0 w0 w'"
proof -
  obtain boot w1 where bt: "(if BootID tx \<noteq> [] then ext_call (sys_bootID sys) w else ([], w)) = (boot, w1)"
    by fastforce
  have w1: "ota_sim cr cfg s0 w0 s w1"
    using bt sim sim_ext [OF sim] by (auto split: if_splits)
  obtain now w2 where nw: "ext_call (sys_now sys) w1 = (now, w2)" by fastforce
  have w2: "ota_sim cr cfg s0 w0 s w2" by (rule sim_ext [OF w1 nw])
  have sph: "os_phase s = Phase tx" using link by (simp add: linked_def)
  show ?thesis
  proof (cases "BootID tx \<noteq> [] \<and> BootID tx = boot")
    case same_boot: True
    show ?thesis
    proof (cases "2 * Minute \<le> time_Sub now (UpdatedAt tx)")
      case False
      then show ?thesis using run bt nw same_boot ota_endsI [OF w2]
        by (simp add: resumeAfterReboot_def Let_def split: if_splits prod.splits)
    next
      case late: True
      show ?thesis
      proof (cases "3 \<le> RebootAttempts tx")
        case many: True
        show ?thesis
        proof (cases "Phase tx = ''rollback_reboot_requested''")
          case True
          let ?tx = "tx\<lparr>Phase := ''rollback_failed'', Failure := Failure tx @ ''; device did not reboot after three requests''\<rparr>"
          have "save_allowed s ?tx" by (rule linked_save [OF link]) (use True in auto)
          then show ?thesis using run bt nw same_boot late many True save_end [OF w2, of ?tx sys]
            by (auto simp: resumeAfterReboot_def Let_def split: prod.splits if_splits)
        next
          case False
          then have "failAndRollback sys cfg adapter tx ''reboot''
              (ErrorString ''device did not reboot after three requests'') w2 = (r, w')"
            using run bt nw same_boot late many by (simp add: resumeAfterReboot_def Let_def split: if_splits)
          from failAndRollback_sim [OF w2 link _ this] False ph show ?thesis by (simp add: rollback_phase_def)
        qed
      next
        case few: False
        let ?tx = "tx\<lparr>RebootAttempts := RebootAttempts tx + 1\<rparr>"
        have "save_allowed s ?tx"
          using link ph few by (auto simp: linked_def save_allowed_def for_request_def intro: phase_step.intros)
        obtain e3 w3 where sv: "save sys cfg ?tx w2 = (e3, w3)" by fastforce
        note w3 = sim_save [OF w2 sv \<open>save_allowed s ?tx\<close>]
        obtain e4 w4 where rq: "requestReboot sys cfg w3 = (e4, w4)" by fastforce
        have w4: "ota_ends cr cfg s0 w0 w4"
          by (rule ota_endsI, rule requestReboot_sim [OF w3 rq]) (use ph sph in \<open>auto simp: abs_tx_def\<close>)
        show ?thesis using run bt nw same_boot late few sv rq ota_endsI [OF w3] w4
          by (auto simp: resumeAfterReboot_def Let_def split: option.splits if_splits)
      qed
    qed
  next
    case other_boot: False
    show ?thesis
    proof (cases "Phase tx = ''rollback_reboot_requested''")
      case True
      let ?tx = "tx\<lparr>Phase := ''rolled_back''\<rparr>"
      have "save_allowed s ?tx" by (rule linked_save [OF link]) (simp_all add: True phase_step.simps)
      obtain e3 w3 where sv: "save sys cfg ?tx w1 = (e3, w3)" by fastforce
      show ?thesis using run bt other_boot True sv save_end [OF w1 \<open>save_allowed s ?tx\<close> sv]
        by (auto simp: resumeAfterReboot_def Let_def split: option.splits if_splits)
    next
      case False
      then have c: "confirmAndCommit sys cfg adapter tx
          (emit (EvProgress ''The device rebooted; confirming update health'') w1) = (r, w')"
        using run bt other_boot by (auto simp: resumeAfterReboot_def Let_def split: if_splits)
      have "ota_sim cr cfg s0 w0 s (emit (EvProgress ''The device rebooted; confirming update health'') w1)"
        by (rule sim_emit [OF w1]) simp_all
      from confirmAndCommit_sim [OF this link _ c] False ph show ?thesis by (simp add: confirm_phase_def)
    qed
  qed
qed

lemma run_transaction_sim:
  assumes sim: "ota_sim cr cfg s0 w0 s w" and link: "linked s tx" and fits: "adapter_fits adapter (tx_Request tx)"
    and run: "run_transaction cr sys cfg adapter tx w = (r, w')"
  shows "ota_ends cr cfg s0 w0 w'"
proof (cases "Phase tx \<in> set install_phases")
  case True
  then have ph: "validPhase (Phase tx)" "Phase tx \<notin> {''completed'', ''rolled_back'', ''rollback_failed'',
      ''reboot_requested'', ''rollback_reboot_requested''}"
    by (auto simp: install_phases_def validPhase_def)
  obtain x w1 where st: "stages cr sys cfg adapter tx w = (x, w1)" by fastforce
  note res = stage_okD [OF stages_ok [of cr cfg adapter sys] sim link True fits, unfolded st]
  show ?thesis
  proof (cases x)
    case (Inl r')
    then show ?thesis using run ph st res by (simp add: run_transaction_def stage_result_def)
  next
    case (Inr tx')
    then obtain s' where "ota_sim cr cfg s0 w0 s' w1" "linked s' tx'" "confirm_phase (Phase tx')"
      using res by (auto simp: stage_result_def confirm_phase_def)
    from confirmAndCommit_sim [OF this] show ?thesis using run ph st Inr by (simp add: run_transaction_def)
  qed
next
  case False
  then show ?thesis
    using run sim resumeAfterReboot_sim [OF sim link]
    by (auto simp: run_transaction_def Let_def install_phases_def validPhase_def intro: ota_endsI split: if_splits)
qed

text \<open>How the log and the transaction files of an execution come about.\<close>

definition execution :: "crypto \<Rightarrow> Config \<Rightarrow> Request \<Rightarrow> tx_file go_map \<Rightarrow> event list \<Rightarrow> bool" where
  "execution cr cfg request m es \<longleftrightarrow>
     (case mget m (transactionPath cfg (UpdateID request)) of
        Some (TxJSON tx) \<Rightarrow>
          es = [] \<or> norm_request (tx_Request tx) = request \<and> (\<exists>s'. ota_trace cr (abs_tx False tx) es s')
      | Some (TxCorrupt err) \<Rightarrow> es = []
      | None \<Rightarrow>
          es = [] \<or> (\<exists>now es' s'. es = EvSave ((new_transaction request)\<lparr>UpdatedAt := now\<rparr>) # es'
                       \<and> ota_trace cr (abs_tx False (new_transaction request)) es' s'))"

lemma abs_tx_decoded [simp]: "abs_tx c (decoded tx) = abs_tx c tx"
  by (simp add: abs_tx_def decoded_def)

lemma admit_fits: "admit sys cfg request w = Inr adapter \<Longrightarrow> adapter_fits adapter request"
  by (auto simp: admit_def adapter_fits_def needs_signature_def split: option.splits sum.splits if_splits
      dest: NewAdapter_ArtifactRequired)

lemma Execute_execution:
  assumes run: "Execute cr sys cfg request w = (r, w')"
  shows "\<exists>es. elog w' = elog w @ es \<and> txs w' = replay cfg es (txs w) \<and> execution cr cfg request (txs w) es"
proof (cases "admit sys cfg request (ext w)")
  case (Inl a)
  then show ?thesis using run
    by (intro exI [of _ "[]"]) (simp add: Execute_def execution_def replay_def split: option.splits tx_file.splits)
next
  case (Inr adapter)
  note fits = admit_fits [OF Inr]
  let ?path = "transactionPath cfg (UpdateID request)"
  obtain re w1 where rd: "ext_call (sys_readErr sys) w = (re, w1)" by fastforce
  have w1: "elog w1 = elog w" "txs w1 = txs w" using ext_call_frame [OF rd] by auto
  obtain loaded w2 where ld: "loadOrCreate sys cfg request w = (loaded, w2)" by fastforce
  have quiet: "w' = w2 \<Longrightarrow> elog w2 = elog w \<Longrightarrow> txs w2 = txs w \<Longrightarrow> ?thesis"
    by (intro exI [of _ "[]"]) (simp add: execution_def replay_def split: option.splits tx_file.splits)
  show ?thesis
  proof (cases "re \<noteq> None \<or> (\<exists>err. mget (txs w) ?path = Some (TxCorrupt err))")
    case True
    then have "w2 = w1" "\<exists>err. loaded = Inl err"
      using ld rd w1 by (auto simp: loadOrCreate_def Let_def split: option.splits)
    with quiet w1 run Inr ld show ?thesis by (auto simp: Execute_def)
  next
    case noerr: False
    show ?thesis
    proof (cases "mget (txs w) ?path")
      case None
      let ?new = "new_transaction request"
      obtain e w3 where sv: "save sys cfg ?new w1 = (e, w3)" by fastforce
      obtain now w4 e4 w5 where now: "ext_call (sys_now sys) w1 = (now, w4)"
        and e4: "ext_call (sys_saveErr sys) w4 = (e4, w5)" by (metis surj_pair)
      have w5: "elog w5 = elog w" "txs w5 = txs w"
        using ext_call_frame [OF now] ext_call_frame [OF e4] w1 by auto
      show ?thesis
      proof (cases e4)
        case (Some err)
        then have "w' = w5" "w2 = w5"
          using run Inr ld rd None noerr w1 sv now e4 by (auto simp: Execute_def loadOrCreate_def save_def Let_def)
        with quiet w5 show ?thesis by simp
      next
        case ok: None
        let ?ev = "EvSave (?new\<lparr>UpdatedAt := now\<rparr>)"
        have "e = None" and w3: "elog w3 = elog w @ [?ev]" "txs w3 = replay cfg [?ev] (txs w)"
          using sv now e4 ok w5 by (auto simp: save_def Let_def replay_def)
        then have "run_transaction cr sys cfg adapter ?new w3 = (r, w')"
          using run Inr ld rd None noerr w1 sv
          by (auto simp: Execute_def loadOrCreate_def Let_def new_transaction_def)
        from run_transaction_sim [OF sim_same [of w3 w3] linked_abs _ this, of False] fits
        obtain s' where "ota_sim cr cfg (abs_tx False ?new) w3 s' w'"
          by (auto simp: ota_ends_def new_transaction_def)
        then obtain es where "elog w' = elog w3 @ es" "txs w' = replay cfg es (txs w3)"
            "ota_trace cr (abs_tx False ?new) es s'"
          by (auto simp: ota_sim_def)
        with w3 None show ?thesis
          by (intro exI [of _ "?ev # es"])
            (use replay_append [of cfg "[?ev]" es] in \<open>auto simp: execution_def\<close>)
      qed
    next
      case (Some f)
      with noerr obtain tx where f: "f = TxJSON tx" by (cases f) auto
      then have "loaded = Inr (decoded tx)" "w2 = w1"
        using ld rd Some noerr w1 by (auto simp: loadOrCreate_def Let_def)
      show ?thesis
      proof (cases "tx_Request (decoded tx) = request")
        case False
        then have "w' = w2" using run Inr ld \<open>loaded = _\<close> by (simp add: Execute_def)
        with quiet w1 \<open>w2 = w1\<close> show ?thesis by simp
      next
        case True
        then have "run_transaction cr sys cfg adapter (decoded tx) w1 = (r, w')"
          using run Inr ld \<open>loaded = _\<close> \<open>w2 = w1\<close> by (simp add: Execute_def)
        from run_transaction_sim [OF sim_same [of w1 w1] linked_abs _ this, of False] fits True
        obtain s' where "ota_sim cr cfg (abs_tx False tx) w1 s' w'"
          by (auto simp: ota_ends_def)
        then obtain es where "elog w' = elog w1 @ es" "txs w' = replay cfg es (txs w1)"
            "ota_trace cr (abs_tx False tx) es s'"
          by (auto simp: ota_sim_def)
        with Some f True w1 show ?thesis
          by (intro exI [of _ es]) (auto simp: execution_def decoded_def)
      qed
    qed
  qed
qed

end
