(* ===== verification/OTADemo.thy ===== *)
theory OTADemo
  imports OTARefinement
begin

text \<open>
  A concrete device, for the witnesses: a RAUC update of the product ``press'' on an amd64
  device whose commands all succeed. The world is the number of reboots, and the boot ID.
\<close>

type_synonym demo_world = nat

definition demo_call :: "'a \<Rightarrow> demo_world \<Rightarrow> 'a \<times> demo_world" where
  "demo_call a w = (a, w)"

definition demo_run :: "string \<Rightarrow> string list \<Rightarrow> demo_world \<Rightarrow> (string \<times> go_error option) \<times> demo_world" where
  "demo_run command args w =
     ((if command = ''rauc'' \<and> args = [''status'', ''--detailed''] then ''slot v2'' else ''ok'', None),
      if command = ''systemctl'' then Suc w else w)"

definition demo_sys :: "demo_world Sys" where
  "demo_sys =
     \<lparr>goarch = ''amd64'', sys_now = demo_call 0, sys_bootID = (\<lambda>w. demo_call (replicate (Suc w) CHR ''b'') w),
      sys_readErr = demo_call None, sys_saveErr = demo_call None, sys_fileErr = demo_call None,
      sys_statfs = demo_call (Inr (100, 1)),
      http_Do = (\<lambda>url offset. demo_call (Inr \<lparr>StatusCode = 200, StatusText = ''200 OK'', FinalScheme = ''https'',
        ContentLength = 3, ContentRange = [], Body = ''abc'', BodyErr = None\<rparr>)),
      url_Parse = (\<lambda>s. Inr \<lparr>Scheme = ''https'', Host = ''h'', url_Path = [], Hostname = ''h'', User = False,
        RawQuery = [], Fragment = []\<rparr>),
      LookPath = (\<lambda>c w. c = ''rauc''), Run = demo_run, StatExecutable = (\<lambda>p w. False),
      RunPlugin = (\<lambda>p a r f v. demo_call ([], None)),
      RequiresRebootOutput = (\<lambda>p. demo_call ([], None)), sys_healthTicks = demo_call 0\<rparr>"

definition demo_crypto :: crypto where
  "demo_crypto =
     \<lparr>sha256 = (\<lambda>s. s), ed25519_Verify = (\<lambda>key msg sig. key = ''key'' \<and> msg = hexEncode ''abc''),
      pem_Decode = Some, ParsePKIXPublicKey = (\<lambda>b. Inr (Ed25519PublicKey b))\<rparr>"

definition demo_cfg :: Config where
  "demo_cfg =
     \<lparr>Enabled = True, cfg_Product = ''press'', StateDir = ''/s'', StagingDir = ''/t'', TrustedKeysDir = ''/k'',
      PluginDir = ''/p'', MaxArtifactBytes = 10, MinFreeBytes = 0, DownloadTimeout = Hour, HealthTimeout = Minute,
      HealthCheckCommand = '''', AutoReboot = True\<rparr>"

definition demo_request :: Request where
  "demo_request =
     \<lparr>UpdateID = ''u1'', rq_Adapter = ''rauc'', Version = ''v2'', Product = ''press'', Architecture = ''x86_64'',
      ArtifactURL = ''https://h/a'', ArtifactSize = 3, Digest = ''616263'', Signature = replicate 86 CHR ''A'' @ ''=='',
      SigningKeyID = ''r'', CompatibleFrom = None, FlatpakRef = [], FlatpakRemote = [], FlatpakCommit = [],
      RepositoryURL = [], OSTreeRemote = [], OSTreeRef = [], OSTreeCommit = [], OSTreeOS = []\<rparr>"

definition demo_start :: "demo_world osw" where
  "demo_start = \<lparr>files = [(''/k/r.pem'', ''key'')], txs = [], elog = [], ext = 0\<rparr>"

definition demo_Execute :: "demo_world osw \<Rightarrow> outcome \<times> demo_world osw" where
  "demo_Execute = Execute demo_crypto demo_sys demo_cfg demo_request"

text \<open>The first execution, stage by stage, up to the reboot.\<close>

definition demo_adapter :: "demo_world Adapter" where
  "demo_adapter = nativeAdapter demo_sys ''rauc''"

definition demo_tx :: "string \<Rightarrow> string \<Rightarrow> string \<Rightarrow> string \<Rightarrow> transaction" where
  "demo_tx phase artifact previous boot =
     \<lparr>tx_Request = demo_request, Phase = phase, ArtifactPath = artifact, PreviousVersion = previous,
      BootID = boot, Failure = [], RebootAttempts = 0, UpdatedAt = 0\<rparr>"

definition demo_artifact :: string where "demo_artifact = ''/t/u1.artifact''"

definition demo_phase :: "string \<Rightarrow> transaction" where
  "demo_phase p =
     demo_tx p (if p = ''created'' \<or> p = ''prepared'' then [] else demo_artifact)
       (if p = ''created'' then [] else ''slot v2'')
       (if p = ''reboot_requested'' \<or> p = ''completed'' then ''b'' else [])"

definition demo_log :: "string \<Rightarrow> event list" where
  "demo_log p =
     (if p = ''created'' then []
      else if p = ''prepared'' then [EvProgress ''Running compatibility and storage preflight checks'', EvCurrentVersion demo_request]
      else if p = ''downloaded'' then [EvProgress ''Downloading the signed update artifact'']
      else if p = ''verified'' then
        [EvProgress ''Verifying digest, release signature, and native artifact metadata'',
         EvVerify demo_request demo_artifact (Some ''abc'') (Some ''key''), EvCheck demo_request demo_artifact]
      else if p = ''installed'' then
        [EvProgress ''Installing the update with the selected device adapter'', EvInstall demo_request demo_artifact]
      else if p = ''activated'' then [EvProgress ''Activating the new device state'', EvActivate demo_request]
      else []) @ [EvSave (demo_phase p)]"

definition demo_state :: "bool \<Rightarrow> string list \<Rightarrow> demo_world osw" where
  "demo_state got ps =
     \<lparr>files = (''/k/r.pem'', ''key'') # (if got then [(demo_artifact, ''abc'')] else []),
      txs = [(''/s/u1.json'', TxJSON (demo_phase (last ps)))],
      elog = concat (map demo_log ps), ext = 0\<rparr>"

lemma demo_load: "loadOrCreate demo_sys demo_cfg demo_request demo_start =
    (Inr (demo_phase ''created''), demo_state False [''created''])"
  by code_simp

lemma demo_preflight: "stage_preflight demo_sys demo_cfg demo_adapter (demo_phase ''created'') (demo_state False [''created'']) =
    (Inr (demo_phase ''prepared''), demo_state False [''created'', ''prepared''])"
  by code_simp

lemma demo_download: "stage_download demo_crypto demo_sys demo_cfg demo_adapter (demo_phase ''prepared'')
      (demo_state False [''created'', ''prepared'']) =
    (Inr (demo_phase ''downloaded''), demo_state True [''created'', ''prepared'', ''downloaded''])"
  by code_simp

lemma demo_verify: "stage_verify demo_crypto demo_sys demo_cfg demo_adapter (demo_phase ''downloaded'')
      (demo_state True [''created'', ''prepared'', ''downloaded'']) =
    (Inr (demo_phase ''verified''), demo_state True [''created'', ''prepared'', ''downloaded'', ''verified''])"
  by code_simp

lemma demo_install: "stage_install demo_sys demo_cfg demo_adapter (demo_phase ''verified'')
      (demo_state True [''created'', ''prepared'', ''downloaded'', ''verified'']) =
    (Inr (demo_phase ''installed''), demo_state True [''created'', ''prepared'', ''downloaded'', ''verified'', ''installed''])"
  by code_simp

definition demo_phases :: "string list" where
  "demo_phases = [''created'', ''prepared'', ''downloaded'', ''verified'', ''installed'', ''activated'']"

lemma demo_activate: "stage_activate demo_sys demo_cfg demo_adapter (demo_phase ''installed'')
      (demo_state True [''created'', ''prepared'', ''downloaded'', ''verified'', ''installed'']) =
    (Inr (demo_phase ''activated''), demo_state True demo_phases)"
  by code_simp

definition demo_rebooted :: "demo_world osw" where
  "demo_rebooted =
     \<lparr>files = [(''/k/r.pem'', ''key''), (demo_artifact, ''abc'')],
      txs = [(''/s/u1.json'', TxJSON (demo_phase ''reboot_requested''))],
      elog = concat (map demo_log demo_phases) @ [EvSave (demo_phase ''reboot_requested''),
        EvProgress ''Requesting a reboot to boot the staged update'', EvReboot], ext = 1\<rparr>"

lemma demo_reboot: "stage_reboot demo_sys demo_cfg demo_adapter (demo_phase ''activated'') (demo_state True demo_phases) =
    (Inl (rebooting demo_request []), demo_rebooted)"
  by code_simp

lemma demo_stages: "stages demo_crypto demo_sys demo_cfg demo_adapter (demo_phase ''created'') (demo_state False [''created'']) =
    (Inl (rebooting demo_request []), demo_rebooted)"
  by (simp add: stages_def andThen_def demo_preflight demo_download demo_verify demo_install demo_activate demo_reboot)

lemma demo_valid: "ValidateRequest ''amd64'' demo_cfg demo_request = None"
  by code_simp

lemma demo_admit: "admit demo_sys demo_cfg demo_request e = Inr demo_adapter"
  using demo_valid
  by (simp add: admit_def demo_adapter_def NewAdapter_def Let_def demo_sys_def demo_request_def native_names_def
      nativeAdapter_def native_Available_def)

lemma demo_first: "Execute demo_crypto demo_sys demo_cfg demo_request demo_start = (rebooting demo_request [], demo_rebooted)"
  using demo_load demo_stages
  by (simp add: Execute_def demo_admit run_transaction_def demo_phase_def demo_tx_def validPhase_def)

text \<open>The second execution, after the reboot, confirms and commits.\<close>

definition demo_done :: "demo_world osw" where
  "demo_done =
     \<lparr>files = [(''/k/r.pem'', ''key'')],
      txs = [(''/s/u1.json'', TxJSON (demo_phase ''completed''))],
      elog = elog demo_rebooted @ [EvProgress ''The device rebooted; confirming update health'',
        EvCurrentVersion demo_request, EvProgress ''Committing the healthy update'', EvCommit demo_request,
        EvSave (demo_phase ''completed'')], ext = 1\<rparr>"

definition demo_mid :: "event list \<Rightarrow> demo_world osw" where
  "demo_mid es = demo_rebooted\<lparr>elog := elog demo_rebooted @ es\<rparr>"

lemma demo_mid_emit: "emit e (demo_mid es) = demo_mid (es @ [e])" "emit e demo_rebooted = demo_mid [e]"
  by (simp_all add: demo_mid_def emit_def)

lemma demo_health: "healthCheck demo_sys demo_cfg w = (None, w)"
  by (simp add: healthCheck_def demo_cfg_def TrimSpace_def TrimFunc_def TrimRightFunc_def)

lemma demo_version: "version_mismatch demo_request (TrimSpace ''slot v2'') = None"
  by code_simp

lemma demo_current: "ext_call (CurrentVersion demo_adapter demo_request) w = ((''slot v2'', None), w)"
  by (cases w) (simp add: ext_call_def demo_adapter_def nativeAdapter_def native_CurrentVersion_def demo_sys_def demo_run_def)

lemma demo_commit: "ext_call (ad_Commit demo_adapter demo_request) w = (None, w)"
  by (cases w) (simp add: ext_call_def demo_adapter_def nativeAdapter_def native_Commit_def demo_sys_def demo_run_def
      run_cmd_def)

lemma demo_path: "transactionPath demo_cfg (UpdateID demo_request) = ''/s/u1.json''"
  by code_simp

lemma demo_save:
  "tx_Request tx = demo_request \<Longrightarrow> save demo_sys demo_cfg tx w =
     (None, emit (EvSave (tx\<lparr>UpdatedAt := 0\<rparr>)) (w\<lparr>txs := mput ''/s/u1.json'' (TxJSON (tx\<lparr>UpdatedAt := 0\<rparr>)) (txs w)\<rparr>))"
  by (cases w) (simp add: save_def ext_call_def demo_path demo_sys_def demo_call_def Let_def)

lemma demo_same_boot: "ext_call (sys_bootID demo_sys) demo_rebooted = (''bb'', demo_rebooted)"
  by code_simp

lemma demo_file_ok: "ext_call (sys_fileErr demo_sys) w = (None, w)"
  by (cases w) (simp add: ext_call_def demo_sys_def demo_call_def)

lemma demo_done_eq:
  "demo_done = emit (EvSave (demo_phase ''completed''))
     ((demo_mid [EvProgress ''The device rebooted; confirming update health'', EvCurrentVersion demo_request,
        EvProgress ''Committing the healthy update'', EvCommit demo_request])
       \<lparr>txs := [(''/s/u1.json'', TxJSON (demo_phase ''completed''))], files := [(''/k/r.pem'', ''key'')]\<rparr>)"
  by (simp add: demo_done_def demo_mid_def emit_def demo_rebooted_def)

lemma demo_confirm:
  "confirmAndCommit demo_sys demo_cfg demo_adapter (demo_phase ''reboot_requested'')
     (demo_mid [EvProgress ''The device rebooted; confirming update health'']) = (succeeded demo_request, demo_done)"
  by (simp add: confirmAndCommit_def Let_def demo_done_eq demo_phase_def demo_tx_def demo_health demo_mid_emit demo_current
      demo_version demo_commit demo_save demo_file_ok)
    (simp add: demo_mid_def emit_def demo_rebooted_def mput_def mdel_def demo_artifact_def demo_phase_def demo_tx_def)

lemma demo_resume: "resumeAfterReboot demo_sys demo_cfg demo_adapter (demo_phase ''reboot_requested'') demo_rebooted =
    (succeeded demo_request, demo_done)"
  using demo_confirm
  by (simp add: resumeAfterReboot_def demo_phase_def demo_tx_def demo_same_boot demo_mid_emit)

lemma demo_reload: "loadOrCreate demo_sys demo_cfg demo_request demo_rebooted = (Inr (demo_phase ''reboot_requested''), demo_rebooted)"
  by code_simp

lemma demo_second: "Execute demo_crypto demo_sys demo_cfg demo_request demo_rebooted = (succeeded demo_request, demo_done)"
  using demo_reload demo_resume
  by (simp add: Execute_def demo_admit run_transaction_def demo_phase_def demo_tx_def validPhase_def)

end
