(* ===== verification/OTAProperties.thy ===== *)
theory OTAProperties
  imports OTADemo
begin

text \<open>
  The properties of the update engine: what an execution may do, what a device that runs the
  engine for ever, with power cuts, can reach, and what each outcome means. The witnesses run
  the device of \<^verbatim>\<open>OTADemo\<close>.
\<close>

section \<open>Devices over time\<close>

text \<open>
  A device from its first start on. Each step is an execution with some request, on some state
  of the disk and of the world outside; it ends regularly or is cut off after any of its calls
  (\<open>es\<close> is the part that happened).
\<close>

inductive ota_reach :: "crypto \<Rightarrow> 'w Sys \<Rightarrow> Config \<Rightarrow> event list \<Rightarrow> tx_file go_map \<Rightarrow> bool" for cr and sys :: "'w Sys" and cfg where
  start: "ota_reach cr sys cfg [] []"
| execute: "ota_reach cr sys cfg (elog w) (txs w) \<Longrightarrow> Execute cr sys cfg request w = (r, w')
     \<Longrightarrow> elog w' = elog w @ es @ fs
     \<Longrightarrow> ota_reach cr sys cfg (elog w @ es) (replay cfg es (txs w))"

definition justified_files :: "crypto \<Rightarrow> event list \<Rightarrow> tx_file go_map \<Rightarrow> bool" where
  "justified_files cr past m \<longleftrightarrow> (\<forall>p tx. mget m p = Some (TxJSON tx) \<longrightarrow> justified cr past (abs_tx False tx))"

lemma justified_mono: "justified cr past s \<Longrightarrow> justified cr (past @ es) s"
  by (auto simp: justified_def intro: verified_in_mono)

lemma justified_unchecked: "justified cr past (abs_tx c tx) \<Longrightarrow> justified cr past (abs_tx False tx)"
  by (auto simp: justified_def abs_tx_def)

lemma justified_files_replay:
  "ota_trace cr s es s' \<Longrightarrow> justified cr past s \<Longrightarrow> justified_files cr past m
     \<Longrightarrow> justified_files cr (past @ es) (replay cfg es m)"
proof (induction es arbitrary: s past m)
  case Nil
  then show ?case by (simp add: replay_def)
next
  case (Cons e es)
  then obtain t where st: "ota_step cr s e t" and tr: "ota_trace cr t es s'" by auto
  have j: "justified cr (past @ [e]) t" using ota_step_justified [OF st Cons.prems(2)] by simp
  have "justified_files cr (past @ [e]) (replay cfg [e] m)"
    using Cons.prems(3) st j
    by (cases e) (auto simp: justified_files_def replay_def intro: justified_mono dest: justified_unchecked)
  from Cons.IH [OF tr j this] show ?case using replay_append [of cfg "[e]" es m] by simp
qed

lemma justified_new: "justified cr past (abs_tx False (new_transaction request))"
  by (simp add: justified_def abs_tx_def new_transaction_def after_verification_def)

lemma replay_no_events [simp]: "replay cfg [] m = m"
  by (simp add: replay_def)

text \<open>A prefix of an execution, after a past that justifies the files, keeps both invariants.\<close>

lemma execution_prefix_justified:
  assumes ex: "execution cr cfg request m (es @ fs)" and files: "justified_files cr past m"
  shows "installs_verified cr past es \<and> justified_files cr (past @ es) (replay cfg es m)"
proof (cases "es = []")
  case True
  with files show ?thesis by simp
next
  case False
  show ?thesis
  proof (cases "mget m (transactionPath cfg (UpdateID request))")
    case None
    let ?new = "new_transaction request"
    from ex None False obtain now es' s' where es: "es = EvSave (?new\<lparr>UpdatedAt := now\<rparr>) # es'"
      and tr: "ota_trace cr (abs_tx False ?new) (es' @ fs) s'"
      by (cases es) (auto simp: execution_def)
    let ?ev = "EvSave (?new\<lparr>UpdatedAt := now\<rparr>)"
    from tr obtain t where tr1: "ota_trace cr (abs_tx False ?new) es' t" by (auto simp: ota_trace_append)
    have "justified_files cr (past @ [?ev]) (replay cfg [?ev] m)"
      using files justified_new [of cr "past @ [?ev]" request]
      by (auto simp: justified_files_def replay_def intro: justified_mono split: if_splits)
    from justified_files_replay [OF tr1 justified_new this] ota_trace_justified [OF tr1 justified_new]
    show ?thesis using es replay_append [of cfg "[?ev]" es' m] by simp
  next
    case (Some f)
    with ex False obtain tx s' where f: "f = TxJSON tx" and tr: "ota_trace cr (abs_tx False tx) (es @ fs) s'"
      by (cases f) (auto simp: execution_def)
    from tr obtain t where tr1: "ota_trace cr (abs_tx False tx) es t" by (auto simp: ota_trace_append)
    have j: "justified cr past (abs_tx False tx)" using files Some f by (simp add: justified_files_def)
    from justified_files_replay [OF tr1 j files] ota_trace_justified [OF tr1 j] show ?thesis by simp
  qed
qed

lemma Execute_events:
  assumes "Execute cr sys cfg request w = (r, w')" "elog w' = elog w @ es"
  shows "execution cr cfg request (txs w) es \<and> txs w' = replay cfg es (txs w)"
  using Execute_execution [OF assms(1)] assms(2) by auto

lemma ota_reach_invariant:
  "ota_reach cr sys cfg log m \<Longrightarrow> installs_verified cr [] log \<and> justified_files cr log m"
proof (induction rule: ota_reach.induct)
  case start
  then show ?case by (simp add: justified_files_def)
next
  case (execute w request r w' es fs)
  then have ex: "execution cr cfg request (txs w) (es @ fs)"
    using Execute_events by blast
  from execution_prefix_justified [OF ex, of "elog w"] execute show ?case
    by (simp add: installs_verified_append)
qed

section \<open>Traces from a given phase\<close>

lemma execution_trace:
  assumes "mget m (transactionPath cfg (UpdateID request)) = Some (TxJSON tx)" "execution cr cfg request m es"
  shows "\<exists>s'. ota_trace cr (abs_tx False tx) es s'"
  using assms by (auto simp: execution_def intro: exI [of _ "abs_tx False tx"])

lemma trace_no_install:
  "ota_trace cr s es s' \<Longrightarrow> 4 \<le> phase_rank (os_phase s) \<Longrightarrow> EvInstall r path \<notin> set es"
proof (induction es arbitrary: s)
  case (Cons e es)
  then obtain t where st: "ota_step cr s e t" and tr: "ota_trace cr t es s'" by auto
  have "4 \<le> phase_rank (os_phase t)"
    using st Cons.prems(2) phase_step_rank [of "os_phase s"]
    by (cases e) (auto simp: save_allowed_def abs_tx_def dest!: phase_step_rank)
  moreover have "e \<noteq> EvInstall r path"
    using st Cons.prems(2) by (auto simp: phase_rank_def)
  ultimately show ?case using Cons.IH [OF tr] by simp
qed simp

definition few_attempts :: "int \<Rightarrow> bool" where
  "few_attempts n \<longleftrightarrow> 0 \<le> n \<and> n \<le> 3"

definition attempts_ok :: "event \<Rightarrow> bool" where
  "attempts_ok e = (case e of EvSave tx \<Rightarrow> few_attempts (RebootAttempts tx) | _ \<Rightarrow> True)"

definition attempts_files :: "tx_file go_map \<Rightarrow> bool" where
  "attempts_files m \<longleftrightarrow> (\<forall>p tx. mget m p = Some (TxJSON tx) \<longrightarrow> few_attempts (RebootAttempts tx))"

lemma trace_attempts:
  "ota_trace cr s es s' \<Longrightarrow> few_attempts (os_attempts s) \<Longrightarrow> list_all attempts_ok es"
proof (induction es arbitrary: s)
  case (Cons e es)
  then obtain t where st: "ota_step cr s e t" and tr: "ota_trace cr t es s'" by auto
  have "few_attempts (os_attempts t) \<and> attempts_ok e"
    using st Cons.prems(2) by (cases e) (auto simp: save_allowed_def abs_tx_def attempts_ok_def few_attempts_def)
  with Cons.IH [OF tr] show ?case by simp
qed simp

lemma replay_attempts: "list_all attempts_ok es \<Longrightarrow> attempts_files m \<Longrightarrow> attempts_files (replay cfg es m)"
proof (induction es arbitrary: m)
  case (Cons e es)
  have "attempts_files (replay cfg [e] m)"
    using Cons.prems by (cases e) (auto simp: replay_def attempts_ok_def attempts_files_def)
  with Cons replay_append [of cfg "[e]" es m] show ?case by simp
qed simp

lemma execution_attempts:
  assumes ex: "execution cr cfg request m es" and m: "attempts_files m"
  shows "list_all attempts_ok es"
proof -
  have new: "attempts_ok (EvSave ((new_transaction request)\<lparr>UpdatedAt := now\<rparr>))" for now
    by (simp add: attempts_ok_def few_attempts_def new_transaction_def)
  have "few_attempts (os_attempts (abs_tx False (new_transaction request)))"
    by (simp add: few_attempts_def new_transaction_def abs_tx_def)
  moreover have "mget m p = Some (TxJSON tx) \<Longrightarrow> few_attempts (os_attempts (abs_tx False tx))" for p tx
    using m by (simp add: attempts_files_def abs_tx_def)
  ultimately show ?thesis
    using ex new by (auto simp: execution_def dest: trace_attempts split: option.splits tx_file.splits)
qed

lemma ota_reach_attempts: "ota_reach cr sys cfg log m \<Longrightarrow> list_all attempts_ok log \<and> attempts_files m"
proof (induction rule: ota_reach.induct)
  case start
  then show ?case by (simp add: attempts_files_def)
next
  case (execute w request r w' es fs)
  then have "execution cr cfg request (txs w) (es @ fs)"
    using Execute_events by blast
  from execution_attempts [OF this] execute show ?case by (simp add: replay_attempts)
qed

section \<open>Properties\<close>

text \<open>C2: Every execution refines the abstract OTA machine: from the loaded transaction (or the
  one it creates) its calls form a trace of the machine, so each call is made only in the phase,
  for the request, with the artifact and, for the checks and the verified phase, after the
  verification the machine asks for; and the transaction files afterwards are exactly what the
  successful saves of that trace leave.\<close>

theorem execute_refines_machine:
  "\<exists>es. elog (snd (Execute cr sys cfg request w)) = elog w @ es
      \<and> txs (snd (Execute cr sys cfg request w)) = replay cfg es (txs w)
      \<and> execution cr cfg request (txs w) es"
  using Execute_execution [of cr sys cfg request w] by (metis surj_pair snd_conv)

text \<open>C1: On a device that runs any sequence of executions, with power cuts after any call and
  arbitrary changes of the disk and of the environment in between, no operating system update is
  ever installed unless, earlier in the log, its artifact was found to have the digest of the
  request and a trusted Ed25519 key to have signed that digest (for an OSTree repository update,
  the signature alone).\<close>

theorem installs_only_verified_releases:
  "ota_reach cr sys cfg log m \<Longrightarrow> installs_verified cr [] log"
  using ota_reach_invariant by blast

lemma demo_reach_first:
  "ota_reach demo_crypto demo_sys demo_cfg (elog demo_rebooted) (txs demo_rebooted)"
proof -
  have "elog demo_start = []" "txs demo_start = []" by (simp_all add: demo_start_def)
  with ota_reach.execute [where w = demo_start, OF _ demo_first, of "elog demo_rebooted" "[]"]
    Execute_events [OF demo_first, of "elog demo_rebooted"]
  show ?thesis by (simp add: ota_reach.start)
qed

theorem installs_only_verified_releases_witness:
  "installs_verified demo_crypto [] (elog demo_rebooted) \<and> EvInstall demo_request demo_artifact \<in> set (elog demo_rebooted)"
  using installs_only_verified_releases [OF demo_reach_first]
  by (simp add: demo_rebooted_def demo_phases_def demo_log_def)

lemma demo_file:
  "mget (txs demo_rebooted) (transactionPath demo_cfg (UpdateID demo_request)) =
     Some (TxJSON (demo_phase ''reboot_requested''))"
  unfolding demo_path by (simp add: demo_rebooted_def mget_def)

definition demo_confirm_events :: "event list" where
  "demo_confirm_events =
     [EvProgress ''The device rebooted; confirming update health'', EvCurrentVersion demo_request,
      EvProgress ''Committing the healthy update'', EvCommit demo_request, EvSave (demo_phase ''completed'')]"

lemma demo_done_elog: "elog demo_done = elog demo_rebooted @ demo_confirm_events"
  by (simp add: demo_done_def demo_confirm_events_def)

lemma Phase_demo_phase [simp]: "Phase (demo_phase p) = p"
  by (simp add: demo_phase_def demo_tx_def)

text \<open>C7: However often and wherever an update is interrupted, the phases an execution saves follow
  the protocol from the phase it loaded: each saved phase is an allowed successor of the one
  before it, so nothing is skipped and a terminal phase is never left.\<close>

theorem saved_phases_follow_protocol:
  assumes "mget (txs w) (transactionPath cfg (UpdateID request)) = Some (TxJSON tx)"
    and "Execute cr sys cfg request w = (r, w')" "elog w' = elog w @ es"
  shows "phase_path (Phase tx) (saved_phases es)"
  using execution_trace [OF assms(1)] Execute_events [OF assms(2,3)] ota_trace_phases
  by (fastforce simp: abs_tx_def)

theorem saved_phases_follow_protocol_witness:
  "phase_path ''reboot_requested'' (saved_phases demo_confirm_events) \<and> saved_phases demo_confirm_events = [''completed'']"
  using saved_phases_follow_protocol [OF demo_file demo_second demo_done_elog]
  by (simp add: demo_confirm_events_def)

text \<open>C9: Once the installation has been recorded, no later execution of that transaction installs
  again: not after a crash, not after the reboot, and not while a rollback is under way.\<close>

theorem no_second_install:
  assumes "mget (txs w) (transactionPath cfg (UpdateID request)) = Some (TxJSON tx)"
    and "4 \<le> phase_rank (Phase tx)"
    and "Execute cr sys cfg request w = (r, w')" "elog w' = elog w @ es"
  shows "EvInstall q path \<notin> set es"
  using execution_trace [OF assms(1)] Execute_events [OF assms(3,4)] trace_no_install assms(2)
  by (fastforce simp: abs_tx_def)

theorem no_second_install_witness:
  "EvInstall demo_request demo_artifact \<notin> set demo_confirm_events"
  using no_second_install [OF demo_file _ demo_second demo_done_elog] by (simp add: phase_rank_def)

text \<open>C35: The engine asks for at most three more reboots after the first one: every transaction a
  device ever saves has between 0 and 3 reboot attempts.\<close>

theorem reboot_attempts_bounded:
  "ota_reach cr sys cfg log m \<Longrightarrow> EvSave tx \<in> set log \<Longrightarrow> 0 \<le> RebootAttempts tx \<and> RebootAttempts tx \<le> 3"
  using ota_reach_attempts [of cr sys cfg log m] by (fastforce simp: attempts_ok_def few_attempts_def list_all_iff)

theorem reboot_attempts_bounded_witness:
  "0 \<le> RebootAttempts (demo_phase ''reboot_requested'') \<and> RebootAttempts (demo_phase ''reboot_requested'') \<le> 3"
  by (rule reboot_attempts_bounded [OF demo_reach_first]) (simp add: demo_rebooted_def)

end
