(* ===== verification/OTAOutcomes.thy ===== *)
theory OTAOutcomes
  imports OTAProperties
begin

text \<open>
  What the outcome of an execution says: success means a completed transaction, every failure is
  reported as an error, and a terminal transaction stays. At the end, a consequence of the code that its protocol
  did not intend.
\<close>

section \<open>Only a commit is a success\<close>

definition is_error :: "outcome \<Rightarrow> bool" where
  "is_error r \<longleftrightarrow> snd r \<noteq> None \<and> st_State (fst r) \<noteq> ''succeeded''"

lemma is_error_simps [simp]:
  "is_error (failed request cls err)" "is_error (rebooting request message)" "\<not> is_error (st, None)"
  by (simp_all add: is_error_def failed_def rebooting_def status_def)

lemma rollback_reboot_fails: "is_error (fst (rollback_reboot sys cfg tx w))"
  unfolding rollback_reboot_def Let_def by (auto split: prod.splits option.splits)

lemma failAndRollback_fails: "is_error (fst (failAndRollback sys cfg adapter tx cls cause w))"
  unfolding failAndRollback_def Let_def
  by (auto simp: rollback_reboot_fails split: prod.splits option.splits)

lemma failAndRollback_fails' [simp]: "failAndRollback sys cfg adapter tx cls cause w \<noteq> ((st, None), w')"
  using failAndRollback_fails [of sys cfg adapter tx cls cause w] by auto

text \<open>A stage ends in an error, or hands on a transaction of the same request.\<close>

definition stage_shape :: "transaction \<Rightarrow> outcome + transaction \<Rightarrow> bool" where
  "stage_shape tx res = (case res of Inl r \<Rightarrow> is_error r | Inr tx' \<Rightarrow> tx_Request tx' = tx_Request tx)"

lemma stage_shape_simps [simp]:
  "stage_shape tx (Inl r) = is_error r" "stage_shape tx (Inr tx') = (tx_Request tx' = tx_Request tx)"
  by (simp_all add: stage_shape_def)

lemma andThen_shape:
  assumes "\<And>tx w. stage_shape tx (fst (a tx w))" "\<And>tx w. stage_shape tx (fst (b tx w))"
  shows "stage_shape tx (fst (andThen a b tx w))"
proof -
  obtain x w1 where x: "a tx w = (x, w1)" by fastforce
  show ?thesis
  proof (cases x)
    case (Inl r)
    then show ?thesis using assms(1) [of tx w] x by (simp add: andThen_def)
  next
    case (Inr tx1)
    then show ?thesis using assms(1) [of tx w] assms(2) [of tx1 w1] x
      by (cases "fst (b tx1 w1)") (auto simp: andThen_def)
  qed
qed

lemma stop_shape [simp]: "stage_shape tx (fst (stop (failAndRollback sys cfg adapter tx' cls cause w)))"
  by (simp add: stop_def failAndRollback_fails)

lemma advance_shape [simp]: "tx_Request tx' = tx_Request tx \<Longrightarrow> stage_shape tx (fst (advance sys cfg p tx' w))"
  by (auto simp: advance_def Let_def split: prod.splits option.splits)

lemma stages_shape: "stage_shape tx (fst (stages cr sys cfg adapter tx w))"
proof -
  have "stage_shape tx (fst (stage_preflight sys cfg adapter tx w))" for tx w
    unfolding stage_preflight_def Let_def by (auto split: prod.splits option.splits)
  moreover have "stage_shape tx (fst (stage_download cr sys cfg adapter tx w))" for tx w
    unfolding stage_download_def Let_def by (auto split: prod.splits sum.splits)
  moreover have "stage_shape tx (fst (stage_verify cr sys cfg adapter tx w))" for tx w
    unfolding stage_verify_def Let_def by (auto split: prod.splits option.splits)
  moreover have "stage_shape tx (fst (stage_install sys cfg adapter tx w))" for tx w
    unfolding stage_install_def Let_def by (auto split: prod.splits option.splits)
  moreover have "stage_shape tx (fst (stage_activate sys cfg adapter tx w))" for tx w
    unfolding stage_activate_def Let_def by (auto split: prod.splits option.splits)
  moreover have "stage_shape tx (fst (stage_reboot sys cfg adapter tx w))" for tx w
    unfolding stage_reboot_def Let_def by (auto split: prod.splits option.splits)
  ultimately show ?thesis unfolding stages_def by (intro andThen_shape)
qed

definition completed_file :: "Config \<Rightarrow> Request \<Rightarrow> tx_file go_map \<Rightarrow> bool" where
  "completed_file cfg request m \<longleftrightarrow>
     (\<exists>tx. mget m (transactionPath cfg (UpdateID request)) = Some (TxJSON tx)
        \<and> Phase tx = ''completed'' \<and> norm_request (tx_Request tx) = norm_request request)"

lemma save_None:
  "save sys cfg tx w = (None, w') \<Longrightarrow>
     \<exists>now. mget (txs w') (transactionPath cfg (UpdateID (tx_Request tx))) = Some (TxJSON (tx\<lparr>UpdatedAt := now\<rparr>))"
  by (auto simp: save_def Let_def split: prod.splits if_splits)

lemma confirmAndCommit_success:
  assumes "confirmAndCommit sys cfg adapter tx w = ((st, None), w')"
  shows "(st, None) = succeeded (tx_Request tx) \<and> completed_file cfg (tx_Request tx) (txs w')"
proof -
  let ?r = "tx_Request tx"
  obtain e1 w1 where h: "healthCheck sys cfg w = (e1, w1)" by fastforce
  obtain v e2 w2 where cv: "ext_call (CurrentVersion adapter ?r) (emit (EvCurrentVersion ?r) w1) = ((v, e2), w2)"
    by (metis surj_pair)
  obtain e4 w4 where cm: "ext_call (ad_Commit adapter ?r) (emit (EvCommit ?r)
      (emit (EvProgress ''Committing the healthy update'') w2)) = (e4, w4)" by fastforce
  obtain e5 w5 where sv: "save sys cfg (tx\<lparr>Phase := ''completed''\<rparr>) w4 = (e5, w5)" by fastforce
  obtain e6 w6 where rm: "ext_call (sys_fileErr sys) w5 = (e6, w6)" by fastforce
  have ok: "e1 = None" "e2 = None" "version_mismatch ?r (TrimSpace v) = None" "e4 = None" "e5 = None"
    and st: "(st, None) = succeeded ?r" and w': "txs w' = txs w5"
    using assms h cv cm sv rm ext_call_frame [OF rm]
    by (auto simp: confirmAndCommit_def Let_def failed_def split: option.splits if_splits)
  have "completed_file cfg ?r (txs w')"
    using save_None [of sys cfg "tx\<lparr>Phase := ''completed''\<rparr>" w4 w5] sv ok w'
    by (auto simp: completed_file_def)
  then show ?thesis using st by simp
qed

lemma resumeAfterReboot_success:
  assumes "resumeAfterReboot sys cfg adapter tx w = ((st, None), w')"
  shows "\<exists>w1. confirmAndCommit sys cfg adapter tx w1 = ((st, None), w')"
  using assms unfolding resumeAfterReboot_def Let_def
  by (auto simp: failed_def rebooting_def split: prod.splits option.splits if_splits)

lemma run_transaction_success:
  assumes "run_transaction cr sys cfg adapter tx w = ((st, None), w')"
  shows "(st, None) = succeeded (tx_Request tx)
    \<and> (Phase tx = ''completed'' \<and> w' = w
        \<or> completed_file cfg (tx_Request tx) (txs w'))"
proof (cases "Phase tx = ''completed''")
  case True
  then show ?thesis using assms by (simp add: run_transaction_def validPhase_def succeeded_def)
next
  case False
  have "\<exists>tx1 w1. tx_Request tx1 = tx_Request tx \<and> confirmAndCommit sys cfg adapter tx1 w1 = ((st, None), w')"
  proof (cases "Phase tx \<in> {''reboot_requested'', ''rollback_reboot_requested''}")
    case True
    then have "resumeAfterReboot sys cfg adapter tx w = ((st, None), w')"
      using assms False by (auto simp: run_transaction_def Let_def failed_def split: if_splits)
    from resumeAfterReboot_success [OF this] show ?thesis by blast
  next
    case other: False
    obtain x w1 where s: "stages cr sys cfg adapter tx w = (x, w1)" by fastforce
    then have run: "(case x of Inl r \<Rightarrow> (r, w1) | Inr tx \<Rightarrow> confirmAndCommit sys cfg adapter tx w1) = ((st, None), w')"
      using assms False other by (auto simp: run_transaction_def Let_def failed_def split: if_splits sum.splits)
    obtain tx1 where "x = Inr tx1" "tx_Request tx1 = tx_Request tx"
      using run s stages_shape [of tx cr sys cfg adapter w] by (cases x) auto
    with run show ?thesis by auto
  qed
  then obtain tx1 w1 where "tx_Request tx1 = tx_Request tx" "confirmAndCommit sys cfg adapter tx1 w1 = ((st, None), w')"
    by blast
  from confirmAndCommit_success [OF this(2)] this(1) show ?thesis by simp
qed

lemma completed_file_norm [simp]: "completed_file cfg (norm_request request) m = completed_file cfg request m"
  by (simp add: completed_file_def norm_request_def)

lemma Execute_success:
  assumes run: "Execute cr sys cfg request w = ((st, None), w')"
  shows "(st, None) = succeeded request \<and> completed_file cfg request (txs w')"
proof -
  from run obtain adapter where ad: "admit sys cfg request (ext w) = Inr adapter"
    by (auto simp: Execute_def admit_def split: sum.splits option.splits if_splits)
      (auto simp: failed_def)
  obtain loaded w1 where ld: "loadOrCreate sys cfg request w = (loaded, w1)" by fastforce
  obtain tx where tx: "loaded = Inr tx" "tx_Request tx = request"
    and rt: "run_transaction cr sys cfg adapter tx w1 = ((st, None), w')"
    using run ad ld by (auto simp: Execute_def failed_def split: sum.splits if_splits)
  from run_transaction_success [OF rt] tx(2)
  consider "Phase tx = ''completed''" "w' = w1" | "completed_file cfg request (txs w')"
    by auto
  then show ?thesis
  proof cases
    case 1
    then obtain f where f: "mget (txs w) (transactionPath cfg (UpdateID request)) = Some (TxJSON f)" "tx = decoded f"
        "txs w1 = txs w"
      using ld tx(1)
      by (auto simp: loadOrCreate_def Let_def new_transaction_def dest!: ext_call_frame
          split: prod.splits option.splits tx_file.splits)
    have "request = norm_request (tx_Request f)" "Phase f = ''completed''"
      using f(2) 1 tx(2) by (simp_all add: decoded_def)
    then have "norm_request (tx_Request f) = norm_request request" by simp
    with f(1,3) 1 \<open>Phase f = _\<close> show ?thesis using run_transaction_success [OF rt] tx(2)
      by (auto simp: completed_file_def)
  next
    case 2
    with run_transaction_success [OF rt] tx(2) show ?thesis by auto
  qed
qed

text \<open>An outcome is a success without an error, or an error that does not claim success.\<close>

definition reported :: "outcome \<Rightarrow> bool" where
  "reported r \<longleftrightarrow> snd r = None \<or> is_error r"

lemma reported_simps [simp]:
  "reported (failed request cls err)" "reported (rebooting request message)" "reported (succeeded request)"
  "reported (fst (failAndRollback sys cfg adapter tx cls cause w))"
  by (simp_all add: reported_def succeeded_def failAndRollback_fails)

lemma confirmAndCommit_reported: "reported (fst (confirmAndCommit sys cfg adapter tx w))"
  unfolding confirmAndCommit_def Let_def by (auto split: prod.splits option.splits)

lemma resumeAfterReboot_reported: "reported (fst (resumeAfterReboot sys cfg adapter tx w))"
  unfolding resumeAfterReboot_def Let_def
  by (auto simp: confirmAndCommit_reported split: prod.splits option.splits)

lemma run_transaction_reported: "reported (fst (run_transaction cr sys cfg adapter tx w))"
proof -
  obtain x w1 where st: "stages cr sys cfg adapter tx w = (x, w1)" by fastforce
  have "reported (fst (case (x, w1) of (Inl r, w) \<Rightarrow> (r, w) | (Inr tx, w) \<Rightarrow> confirmAndCommit sys cfg adapter tx w))"
    using stages_shape [of tx cr sys cfg adapter w] st
    by (cases x) (auto simp: reported_def confirmAndCommit_reported [unfolded reported_def])
  then show ?thesis unfolding run_transaction_def Let_def st by (auto simp: resumeAfterReboot_reported)
qed

lemma Execute_reported: "reported (fst (Execute cr sys cfg request w))"
proof (cases "admit sys cfg request (ext w)")
  case (Inl x)
  then have "reported x" by (auto simp: admit_def split: option.splits sum.splits if_splits)
  with Inl show ?thesis by (simp add: Execute_def)
next
  case (Inr adapter)
  obtain loaded w1 where "loadOrCreate sys cfg request w = (loaded, w1)" by fastforce
  with Inr show ?thesis by (cases loaded) (auto simp: Execute_def run_transaction_reported)
qed

section \<open>Properties\<close>

text \<open>C21: A transaction in a terminal phase is final: executing the request again changes neither
  the transaction files, nor the staged artifacts, and makes no call to the adapter; a completed
  one is reported as succeeded and the others as failed with the recorded failure.\<close>

theorem terminal_transaction_is_final:
  assumes "mget (txs w) (transactionPath cfg (UpdateID request)) = Some (TxJSON tx)" "terminal (Phase tx)"
    and "Execute cr sys cfg request w = (r, w')"
  shows "txs w' = txs w \<and> elog w' = elog w \<and> files w' = files w
    \<and> (r = succeeded request \<longrightarrow> Phase tx = ''completed'')"
proof (cases "admit sys cfg request (ext w)")
  case (Inl x)
  then have "is_error x" by (auto simp: admit_def split: option.splits sum.splits if_splits)
  with Inl assms(3) show ?thesis by (auto simp: Execute_def succeeded_def)
next
  case (Inr adapter)
  obtain re w1 where rd: "ext_call (sys_readErr sys) w = (re, w1)" by fastforce
  note frame = ext_call_frame [OF rd]
  show ?thesis
  proof (cases re)
    case (Some err)
    then show ?thesis using assms Inr rd frame by (auto simp: Execute_def loadOrCreate_def failed_def succeeded_def)
  next
    case None
    then show ?thesis
      using assms Inr rd frame
      by (auto simp: Execute_def loadOrCreate_def run_transaction_def decoded_def terminal_def validPhase_def
          failed_def succeeded_def split: if_splits)
  qed
qed

theorem terminal_transaction_is_final_witness:
  "txs (snd (Execute demo_crypto demo_sys demo_cfg demo_request demo_done)) = txs demo_done
    \<and> Phase (demo_phase ''completed'') = ''completed''"
proof -
  have "mget (txs demo_done) (transactionPath demo_cfg (UpdateID demo_request)) = Some (TxJSON (demo_phase ''completed''))"
    unfolding demo_path by (simp add: demo_done_def mget_def)
  from terminal_transaction_is_final [OF this, of demo_crypto demo_sys
      "fst (Execute demo_crypto demo_sys demo_cfg demo_request demo_done)"
      "snd (Execute demo_crypto demo_sys demo_cfg demo_request demo_done)"]
  show ?thesis by (simp add: terminal_def)
qed

lemma failed_State [simp]: "st_State (fst (failed request cls err)) = ''failed''"
  by (simp add: failed_def status_def)

text \<open>A request whose list of compatible versions is present but empty cannot be resumed: the
  list is left out of the saved transaction and comes back as nil, so every execution after the
  first one, the one after the reboot included, ends in a state failure before it does anything.\<close>

theorem empty_compatibility_list_blocks_resume:
  assumes "CompatibleFrom request = Some []" "admit sys cfg request (ext w) = Inr adapter"
    and "mget (txs w) (transactionPath cfg (UpdateID request)) = Some (TxJSON tx)"
    and "ext_call (sys_readErr sys) w = (None, w1)"
  shows "Execute cr sys cfg request w =
     (failed request ''state'' (ErrorString ''persisted OTA transaction does not match the delivered request''), w1)"
proof -
  have "CompatibleFrom (tx_Request (decoded tx)) \<noteq> Some []"
    by (simp add: decoded_def norm_request_def)
  then have "tx_Request (decoded tx) \<noteq> request" using assms(1) by auto
  with assms ext_call_frame [OF assms(4)] show ?thesis by (simp add: Execute_def loadOrCreate_def)
qed

definition demo_empty_list :: Request where
  "demo_empty_list = demo_request\<lparr>CompatibleFrom := Some []\<rparr>"

lemma ValidateRequest_CompatibleFrom [simp]:
  "ValidateRequest arch cfg (r\<lparr>CompatibleFrom := c\<rparr>) = ValidateRequest arch cfg r"
  by (simp add: ValidateRequest_def validateOSRequest_def validateOSTreeRequest_def)

lemma demo_empty_admit: "admit demo_sys demo_cfg demo_empty_list e = Inr demo_adapter"
  using demo_valid
  by (simp add: admit_def demo_empty_list_def demo_adapter_def NewAdapter_def Let_def demo_sys_def
      native_names_def nativeAdapter_def native_Available_def)
    (simp add: demo_request_def)

theorem empty_compatibility_list_blocks_resume_witness:
  "st_State (fst (fst (Execute demo_crypto demo_sys demo_cfg demo_empty_list demo_rebooted))) = ''failed''
    \<and> txs (snd (Execute demo_crypto demo_sys demo_cfg demo_empty_list demo_rebooted)) = txs demo_rebooted"
proof -
  have "admit demo_sys demo_cfg demo_empty_list (ext demo_rebooted) = Inr demo_adapter"
    by (rule demo_empty_admit)
  moreover have "mget (txs demo_rebooted) (transactionPath demo_cfg (UpdateID demo_empty_list)) =
      Some (TxJSON (demo_phase ''reboot_requested''))"
    using demo_file by (simp add: demo_empty_list_def)
  moreover have "ext_call (sys_readErr demo_sys) demo_rebooted = (None, demo_rebooted)"
    by code_simp
  ultimately show ?thesis
    using empty_compatibility_list_blocks_resume [of demo_empty_list demo_sys demo_cfg demo_rebooted demo_adapter
        "demo_phase ''reboot_requested''" demo_rebooted demo_crypto]
    by (simp add: demo_empty_list_def)
qed

text \<open>A request of the operating system that passes validation carries everything the later
  stages trust: an update ID, a version and an adapter name that cannot leave the plugin directory,
  digest, signature and key ID, the architecture and the configured product of this device, an
  artifact within the size limit, and for OSTree a pinned commit with either a signed artifact or a
  named remote and ref, never both.\<close>

theorem accepted_os_request:
  assumes "ValidateRequest arch cfg request = None" "rq_Adapter request \<noteq> ''flatpak''"
  shows "UpdateID request \<noteq> [] \<and> Version request \<noteq> [] \<and> adapterNamePattern (rq_Adapter request)
    \<and> CHR ''/'' \<notin> set (rq_Adapter request) \<and> CHR ''.'' \<notin> set (rq_Adapter request)
    \<and> Digest request \<noteq> [] \<and> Signature request \<noteq> [] \<and> SigningKeyID request \<noteq> []
    \<and> CanonicalArchitecture (Architecture request) = CanonicalArchitecture arch
    \<and> cfg_Product cfg \<noteq> [] \<and> Product request = cfg_Product cfg
    \<and> 0 \<le> ArtifactSize request \<and> (0 < MaxArtifactBytes cfg \<longrightarrow> ArtifactSize request \<le> MaxArtifactBytes cfg)
    \<and> (rq_Adapter request \<noteq> ''ostree'' \<longrightarrow> ArtifactURL request \<noteq> [])
    \<and> (rq_Adapter request = ''ostree'' \<longrightarrow> is_hex64 (OSTreeCommit request)
         \<and> (if usesOSTreeRepository request
            then ArtifactURL request = [] \<and> ostreeNamePattern (OSTreeRemote request)
                 \<and> ostreeRefPattern (OSTreeRef request) \<and> EqualFold (Digest request) (OSTreeCommit request)
            else ArtifactURL request \<noteq> []))"
proof -
  have pat: "adapterNamePattern a \<Longrightarrow> CHR ''/'' \<notin> set a \<and> CHR ''.'' \<notin> set a" for a
    by (cases a) (auto simp: adapterNamePattern_def MatchString_def is_lower_def is_digit_def between_def list_all_iff)
  have os: "validateOSRequest arch cfg request = None"
    using assms by (auto simp: ValidateRequest_def split: if_splits option.splits)
  have "rq_Adapter request = ''ostree'' \<Longrightarrow> is_hex64 (OSTreeCommit request)"
    using os by (auto simp: validateOSRequest_def validateOSTreeRequest_def is_hex64_decodes split: if_splits option.splits)
  moreover have "rq_Adapter request = ''ostree'' \<Longrightarrow>
      (if usesOSTreeRepository request
            then ArtifactURL request = [] \<and> ostreeNamePattern (OSTreeRemote request)
                 \<and> ostreeRefPattern (OSTreeRef request) \<and> EqualFold (Digest request) (OSTreeCommit request)
            else ArtifactURL request \<noteq> [])"
    using os MatchString_nonempty
    by (auto simp: validateOSRequest_def validateOSTreeRequest_def usesOSTreeRepository_def ostreeNamePattern_def
        split: if_splits option.splits)
  moreover have "Digest request \<noteq> [] \<and> Signature request \<noteq> [] \<and> SigningKeyID request \<noteq> []
    \<and> CanonicalArchitecture (Architecture request) = CanonicalArchitecture arch
    \<and> cfg_Product cfg \<noteq> [] \<and> Product request = cfg_Product cfg
    \<and> (rq_Adapter request \<noteq> ''ostree'' \<longrightarrow> ArtifactURL request \<noteq> [])"
    using os by (auto simp: validateOSRequest_def split: if_splits)
  moreover have "UpdateID request \<noteq> [] \<and> Version request \<noteq> [] \<and> adapterNamePattern (rq_Adapter request)
    \<and> 0 \<le> ArtifactSize request \<and> (0 < MaxArtifactBytes cfg \<longrightarrow> ArtifactSize request \<le> MaxArtifactBytes cfg)"
    using assms(1) by (auto simp: ValidateRequest_def split: if_splits option.splits)
  ultimately show ?thesis using pat by blast
qed

theorem accepted_os_request_witness:
  "Product demo_request = cfg_Product demo_cfg \<and> ArtifactURL demo_request \<noteq> []"
  using accepted_os_request [OF demo_valid] by (simp add: demo_request_def)

end
