(* ===== verification/OTAEffects.thy ===== *)
theory OTAEffects
  imports OTAOutcomes
begin

text \<open>
  What the parts of an execution can do besides calling the adapter: the events they add to the log and the files they
  change. The rules follow the calls of the engine forwards, as those of \<^verbatim>\<open>OTARefinement\<close> do, but need no
  transaction to start from.
\<close>

section \<open>The effect of a part of a run\<close>

text \<open>
  Events a part of a run may be barred from: commits and completed transactions (\<open>c\<close>), reboots (\<open>b\<close>), and
  saved transactions with an artifact outside of \<open>P\<close>.
\<close>

definition barred :: "bool \<Rightarrow> bool \<Rightarrow> string set \<Rightarrow> event set" where
  "barred c b P =
     (if c then range EvCommit \<union> {EvSave tx | tx. Phase tx = ''completed''} else {})
   \<union> (if b then {EvReboot} else {}) \<union> {EvSave tx | tx. ArtifactPath tx \<notin> P}"

definition effect :: "bool \<Rightarrow> bool \<Rightarrow> string set \<Rightarrow> string set \<Rightarrow> 'w osw \<Rightarrow> 'w osw \<Rightarrow> bool" where
  "effect c b P F w w' \<longleftrightarrow>
     (\<exists>es. elog w' = elog w @ es \<and> set es \<inter> barred c b P = {})
   \<and> (\<forall>p. p \<notin> F \<longrightarrow> mget (files w') p = mget (files w) p)"

lemma barred_simps [simp]:
  "EvProgress m \<notin> barred c b P" "EvCurrentVersion r \<notin> barred c b P" "EvVerify r p a k \<notin> barred c b P"
  "EvCheck r p \<notin> barred c b P" "EvInstall r p \<notin> barred c b P" "EvActivate r \<notin> barred c b P" "EvRollback r v \<notin> barred c b P"
  "EvHealth h \<notin> barred c b P" "EvSave tx \<in> barred c b P \<longleftrightarrow> c \<and> Phase tx = ''completed'' \<or> ArtifactPath tx \<notin> P"
  "EvCommit r \<in> barred c b P \<longleftrightarrow> c" "EvReboot \<in> barred c b P \<longleftrightarrow> b"
  by (auto simp: barred_def)

lemma effect_refl [intro!, simp]: "effect c b P F w w"
  by (simp add: effect_def)

lemma effect_trans: "effect c b P F w w1 \<Longrightarrow> effect c b P F w1 w2 \<Longrightarrow> effect c b P F w w2"
  by (auto simp: effect_def)

lemma effect_emit: "effect c b P F w w1 \<Longrightarrow> e \<notin> barred c b P \<Longrightarrow> effect c b P F w (emit e w1)"
  by (auto simp: effect_def)

lemma effect_ext: "effect c b P F w w1 \<Longrightarrow> effect c b P F w (snd (ext_call f w1))"
  by (auto simp: effect_def)

lemma effect_remove:
  "effect c b P F w w1 \<Longrightarrow> p \<in> F \<Longrightarrow> m = files w1 \<Longrightarrow> effect c b P F w (w1\<lparr>files := mdel p m\<rparr>)"
  by (auto simp: effect_def)

lemma effect_save:
  assumes "effect c b P F w w1" "ArtifactPath tx \<in> P" "c \<longrightarrow> Phase tx \<noteq> ''completed''"
  shows "effect c b P F w (snd (save sys cfg tx w1))"
proof -
  obtain es where "elog w1 = elog w @ es" "set es \<inter> barred c b P = {}" using assms(1) by (auto simp: effect_def)
  then show ?thesis using assms by (auto simp: effect_def save_def Let_def split: prod.splits dest!: ext_call_frame)
qed

lemma effect_reboot: "effect c b P F w w1 \<Longrightarrow> b \<longrightarrow> \<not> AutoReboot cfg \<Longrightarrow> effect c b P F w (snd (requestReboot sys cfg w1))"
  by (auto simp: requestReboot_def case_prod_unfold Let_def intro!: effect_ext effect_emit)

lemmas effect_rules = effect_ext effect_emit effect_save effect_reboot

lemma effect_rollback_reboot:
  "effect c b P F w w1 \<Longrightarrow> b \<longrightarrow> \<not> AutoReboot cfg \<Longrightarrow> ArtifactPath tx \<in> P \<Longrightarrow> effect c b P F w (snd (rollback_reboot sys cfg tx w1))"
  by (auto simp: rollback_reboot_def Let_def case_prod_unfold split: option.split intro!: effect_rules)

lemma effect_failAndRollback:
  "effect c b P F w w1 \<Longrightarrow> b \<longrightarrow> \<not> AutoReboot cfg \<Longrightarrow> ArtifactPath tx \<in> P \<Longrightarrow>
     effect c b P F w (snd (failAndRollback sys cfg adapter tx cls cause w1))"
  by (auto simp: failAndRollback_def Let_def case_prod_unfold split: option.split intro!: effect_rules effect_rollback_reboot)

lemma fetch_frame:
  "elog (snd (fetch cr sys cfg request w)) = elog w"
  "p \<noteq> artifact_final cfg request \<Longrightarrow> p \<noteq> artifact_partial cfg request \<Longrightarrow> mget (files (snd (fetch cr sys cfg request w))) p = mget (files w) p"
  "fst (fetch cr sys cfg request w) = Inr path \<Longrightarrow> path = artifact_final cfg request"
proof -
  note spec = fetch_spec [of cr sys cfg request w, OF prod.collapse [symmetric]]
  show "elog (snd (fetch cr sys cfg request w)) = elog w" using spec by blast
  show "mget (files (snd (fetch cr sys cfg request w))) p = mget (files w) p"
    if "p \<noteq> artifact_final cfg request" "p \<noteq> artifact_partial cfg request" using that spec by blast
  show "path = artifact_final cfg request" if "fst (fetch cr sys cfg request w) = Inr path" using that spec by simp
qed

lemma effect_fetch:
  assumes "effect c b P F w w1" "{artifact_final cfg request, artifact_partial cfg request} \<subseteq> F"
  shows "effect c b P F w (snd (fetch cr sys cfg request w1))"
proof -
  have "mget (files (snd (fetch cr sys cfg request w1))) p = mget (files w) p" if "p \<notin> F" for p
  proof -
    have "p \<noteq> artifact_final cfg request" "p \<noteq> artifact_partial cfg request" using that assms(2) by auto
    from fetch_frame(2) [OF this, of cr sys w1] show ?thesis using that assms(1) by (simp add: effect_def)
  qed
  then show ?thesis using assms(1) by (simp add: effect_def fetch_frame(1))
qed

lemma effect_verification: "effect c b P F w w1 \<Longrightarrow> effect c b P F w (snd (verification cr cfg adapter tx w1))"
  by (simp add: verification_def Let_def effect_emit)

section \<open>The effect of the stages\<close>

text \<open>A stage has the effect, and what it hands on is a transaction of the same request with an artifact in \<open>P\<close>.\<close>

definition stage_effect :: "bool \<Rightarrow> bool \<Rightarrow> string set \<Rightarrow> string set \<Rightarrow> 'w osw \<Rightarrow> transaction \<Rightarrow> (outcome + transaction) \<times> 'w osw \<Rightarrow> bool" where
  "stage_effect c b P F w tx res \<longleftrightarrow>
     effect c b P F w (snd res)
   \<and> (case fst res of Inl r \<Rightarrow> True | Inr tx' \<Rightarrow> tx_Request tx' = tx_Request tx \<and> ArtifactPath tx' \<in> P)"

lemma stage_effect_Inl [simp]: "stage_effect c b P F w tx (Inl r, w') \<longleftrightarrow> effect c b P F w w'"
  and stage_effect_Inr [simp]: "stage_effect c b P F w tx (Inr tx', w') \<longleftrightarrow>
    effect c b P F w w' \<and> tx_Request tx' = tx_Request tx \<and> ArtifactPath tx' \<in> P"
  by (simp_all add: stage_effect_def)

lemma stage_effect_stop:
  "effect c b P F w w1 \<Longrightarrow> b \<longrightarrow> \<not> AutoReboot cfg \<Longrightarrow> ArtifactPath tx' \<in> P \<Longrightarrow>
     stage_effect c b P F w tx (stop (failAndRollback sys cfg adapter tx' cls cause w1))"
  by (simp add: stop_def effect_failAndRollback)

lemma stage_effect_advance:
  "effect c b P F w w1 \<Longrightarrow> tx_Request tx' = tx_Request tx \<Longrightarrow> ArtifactPath tx' \<in> P \<Longrightarrow> p \<noteq> ''completed'' \<Longrightarrow>
     stage_effect c b P F w tx (advance sys cfg p tx' w1)"
  by (auto simp: advance_def Let_def case_prod_unfold split: option.split intro!: effect_save)

lemma stage_effect_andThen:
  assumes "stage_effect c b P F w tx (s tx w)"
    and "\<And>tx' w'. effect c b P F w w' \<Longrightarrow> tx_Request tx' = tx_Request tx \<Longrightarrow> ArtifactPath tx' \<in> P \<Longrightarrow> stage_effect c b P F w' tx' (t tx' w')"
  shows "stage_effect c b P F w tx (andThen s t tx w)"
proof -
  obtain x w1 where s: "s tx w = (x, w1)" by fastforce
  show ?thesis
  proof (cases x)
    case (Inr tx1)
    then have e: "effect c b P F w w1" "tx_Request tx1 = tx_Request tx" "ArtifactPath tx1 \<in> P" using assms(1) s by simp_all
    from assms(2) [OF this] show ?thesis using s Inr e
      by (cases "t tx1 w1"; cases "fst (t tx1 w1)") (auto simp: andThen_def intro: effect_trans)
  qed (use assms(1) s in \<open>simp add: andThen_def\<close>)
qed

lemmas stage_effect_rules = stage_effect_stop stage_effect_advance effect_rules effect_refl

lemma stages_effect:
  assumes "b \<longrightarrow> \<not> AutoReboot cfg" "ArtifactPath tx \<in> P" "artifact_final cfg (tx_Request tx) \<in> P"
    and "{artifact_final cfg (tx_Request tx), artifact_partial cfg (tx_Request tx)} \<subseteq> F"
  shows "stage_effect c b P F w tx (stages cr sys cfg adapter tx w)"
proof -
  have preflight: "stage_effect c b P F w tx (stage_preflight sys cfg adapter tx w)"
    if "ArtifactPath tx \<in> P" for tx w
    using that assms(1) unfolding stage_preflight_def Let_def case_prod_unfold
    by (auto split: option.split intro!: stage_effect_rules)
  have download: "stage_effect c b P F w tx' (stage_download cr sys cfg adapter tx' w)"
    if "ArtifactPath tx' \<in> P" "tx_Request tx' = tx_Request tx" for tx' w
    using that assms unfolding stage_download_def Let_def case_prod_unfold
    by (auto split: sum.split dest: fetch_frame(3) intro!: stage_effect_rules effect_fetch)
  have verify: "stage_effect c b P F w tx (stage_verify cr sys cfg adapter tx w)"
    if "ArtifactPath tx \<in> P" for tx w
    using that assms(1) unfolding stage_verify_def Let_def case_prod_unfold
    by (auto split: option.split intro!: stage_effect_rules effect_verification)
  have install: "stage_effect c b P F w tx (stage_install sys cfg adapter tx w)"
    if "ArtifactPath tx \<in> P" for tx w
    using that assms(1) unfolding stage_install_def Let_def case_prod_unfold
    by (auto split: option.split intro!: stage_effect_rules)
  have activate: "stage_effect c b P F w tx (stage_activate sys cfg adapter tx w)"
    if "ArtifactPath tx \<in> P" for tx w
    using that assms(1) unfolding stage_activate_def Let_def case_prod_unfold
    by (auto split: option.split intro!: stage_effect_rules)
  have reboot: "stage_effect c b P F w tx (stage_reboot sys cfg adapter tx w)"
    if "ArtifactPath tx \<in> P" for tx w
    using that assms(1) unfolding stage_reboot_def Let_def case_prod_unfold
    by (auto split: option.split intro!: stage_effect_rules)
  show ?thesis unfolding stages_def
    by (intro stage_effect_andThen preflight download verify install activate reboot) (use assms in simp_all)
qed

section \<open>The effect of an execution\<close>

lemma effect_healthLoop: "effect c b P F w w1 \<Longrightarrow> effect c b P F w (snd (healthLoop sys parts n w1))"
proof (induction n arbitrary: w1)
  case 0
  then show ?case by (auto simp: Let_def case_prod_unfold split: option.split intro!: effect_rules)
next
  case (Suc n)
  have "effect c b P F w (snd (ext_call (Run sys (hd parts) (tl parts)) (emit (EvHealth parts) w1)))"
    by (intro effect_rules Suc.prems) simp
  from this Suc.IH [OF this] show ?case
    by (auto simp: healthLoop.simps [of _ _ "Suc n"] Let_def case_prod_unfold simp del: healthLoop.simps split: option.split)
qed

lemma effect_healthCheck: "effect c b P F w w1 \<Longrightarrow> effect c b P F w (snd (healthCheck sys cfg w1))"
  by (auto simp: healthCheck_def Let_def case_prod_unfold simp del: healthLoop.simps intro!: effect_healthLoop effect_ext)

lemma effect_confirmAndCommit:
  assumes "effect False False P F w w1" "ArtifactPath tx \<in> P" "P - {[]} \<subseteq> F"
  shows "effect False False P F w (snd (confirmAndCommit sys cfg adapter tx w1))"
proof -
  note rules = effect_rules effect_healthCheck [OF assms(1)] effect_failAndRollback effect_remove
  show ?thesis
    unfolding confirmAndCommit_def Let_def case_prod_unfold
    using assms(2,3) by (auto split: option.split intro!: rules)
qed

lemma effect_resumeAfterReboot:
  assumes "ArtifactPath tx \<in> P" "P - {[]} \<subseteq> F"
  shows "effect False False P F w (snd (resumeAfterReboot sys cfg adapter tx w))"
  unfolding resumeAfterReboot_def Let_def case_prod_unfold
  using assms by (auto split: option.split intro!: effect_rules effect_failAndRollback effect_confirmAndCommit)

lemma effect_run_transaction:
  assumes "ArtifactPath tx \<in> P" "P - {[]} \<subseteq> F" "artifact_final cfg (tx_Request tx) \<in> P"
    and "{artifact_final cfg (tx_Request tx), artifact_partial cfg (tx_Request tx)} \<subseteq> F"
  shows "effect False False P F w (snd (run_transaction cr sys cfg adapter tx w))"
proof -
  obtain x w1 where st: "stages cr sys cfg adapter tx w = (x, w1)" by fastforce
  have e: "stage_effect False False P F w tx (x, w1)"
    using stages_effect [of False cfg tx P F False w cr sys adapter] assms st by simp
  have "effect False False P F w (snd (case (x, w1) of (Inl r, w) \<Rightarrow> (r, w) | (Inr tx, w) \<Rightarrow> confirmAndCommit sys cfg adapter tx w))"
    using e assms(2) by (cases x) (auto intro: effect_confirmAndCommit)
  then show ?thesis
    using assms(1,2) effect_resumeAfterReboot unfolding run_transaction_def Let_def st by auto
qed

end
