(* ===== verification/GoFiles.thy ===== *)
theory GoFiles
  imports GoPath
begin

text \<open>Names in a directory: what cleaning, joining and taking the directory make of a rooted path.\<close>

lemma clean_parts_slash [simp]: "clean_parts ''/'' = []"
  by code_simp

lemma clean_parts_name:
  assumes "HasPrefix d ''/''" "plain_part name"
  shows "clean_parts (d @ CHR ''/'' # name) = clean_parts d @ [name]"
proof -
  have "HasPrefix (d @ CHR ''/'' # name) ''/''" using assms(1) by (cases d) (auto simp: HasPrefix_def)
  moreover have "Split CHR ''/'' name = [name]" using assms(2) by (simp add: plain_part_def Split_no_occurrence)
  ultimately show ?thesis using assms by (simp add: clean_parts_def Split_append_sep clean_step_def plain_part_def)
qed

lemma clean_parts_end:
  assumes "HasPrefix d ''/''"
  shows "clean_parts (d @ ''/'') = clean_parts d"
proof -
  have "HasPrefix (d @ ''/'') ''/''" using assms by (cases d) (auto simp: HasPrefix_def)
  then show ?thesis using assms Split_append_sep [of "CHR ''/''" d "[]"] by (simp add: clean_parts_def clean_step_def)
qed

lemma Join_snoc: "Join (ps @ [n]) sep = (if ps = [] then n else Join ps sep @ sep @ n)"
  by (induction ps sep rule: Join.induct) auto

lemma path_Join_rooted:
  assumes "HasPrefix d ''/''" "plain_part name"
  shows "path_Join d name = ''/'' @ Join (clean_parts d @ [name]) ''/''"
proof -
  have "d \<noteq> []" "name \<noteq> []" using assms by (auto simp: HasPrefix_def plain_part_def)
  moreover have "HasPrefix (d @ CHR ''/'' # name) ''/''" using assms(1) by (cases d) (auto simp: HasPrefix_def)
  ultimately show ?thesis using clean_parts_name [OF assms] by (simp add: path_Join_def Clean_def)
qed

lemma path_Dir_slash: "CHR ''/'' \<notin> set name \<Longrightarrow> path_Dir (d @ CHR ''/'' # name) = Clean (d @ ''/'')"
proof -
  assume "CHR ''/'' \<notin> set name"
  then have "dropWhile (\<lambda>c. c \<noteq> CHR ''/'') (rev name @ CHR ''/'' # rev d) = CHR ''/'' # rev d"
    by (subst dropWhile_append2) auto
  then show ?thesis by (simp add: path_Dir_def)
qed

lemma Clean_end:
  assumes "HasPrefix d ''/''"
  shows "Clean (d @ ''/'') = Clean d"
proof -
  have "HasPrefix (d @ ''/'') ''/''" using assms by (cases d) (auto simp: HasPrefix_def)
  then show ?thesis using assms by (simp add: Clean_def clean_parts_end)
qed

text \<open>A name joined to a directory lies directly in it.\<close>

lemma path_Dir_Join:
  assumes "HasPrefix d ''/''" "plain_part name"
  shows "path_Dir (path_Join d name) = Clean d"
proof (cases "clean_parts d")
  case Nil
  then show ?thesis using path_Dir_slash [of name "[]"] path_Join_rooted [OF assms] assms
    by (simp add: plain_part_def Clean_def HasPrefix_def)
next
  case (Cons p ps)
  have "path_Join d name = Clean d @ CHR ''/'' # name"
    using path_Join_rooted [OF assms] assms(1) Cons Join_snoc [of "p # ps" name "''/''"] by (simp add: Clean_def)
  then show ?thesis
    using path_Dir_slash [of name "Clean d"] Clean_end [of "Clean d"] assms by (simp add: plain_part_def Clean_idem_rooted)
qed

text \<open>The rooted path of given parts, and the last part of a cleaned path.\<close>

definition rooted :: "string list \<Rightarrow> string" where
  "rooted ps = ''/'' @ Join ps ''/''"

lemma rooted_slash [simp]: "HasPrefix (rooted ps) ''/''"
  by (simp add: rooted_def HasPrefix_def)

lemma clean_parts_rooted:
  assumes "\<forall>c \<in> set ps. plain_part c"
  shows "clean_parts (rooted ps) = ps"
proof (cases "ps = []")
  case False
  have "Split CHR ''/'' (rooted ps) = [[]] @ Split CHR ''/'' (Join ps ''/'')"
    using Split_append_sep [of "CHR ''/''" "[]"] by (simp add: rooted_def)
  also have "Split CHR ''/'' (Join ps ''/'') = ps" using assms False by (intro Split_Join) (auto simp: plain_part_def)
  finally show ?thesis using foldl_clean_plain [OF assms] by (simp add: clean_parts_def clean_step_def)
qed (simp add: rooted_def)

lemma Clean_is_rooted: "HasPrefix q ''/'' \<Longrightarrow> Clean q = rooted (clean_parts q)"
  by (simp add: Clean_def rooted_def)

lemma rooted_snoc: "rooted (ps @ [n]) = (if ps = [] then [] else rooted ps) @ CHR ''/'' # n"
  by (simp add: rooted_def Join_snoc)

lemma path_Dir_rooted:
  assumes "\<forall>c \<in> set (ps @ [n]). plain_part c"
  shows "path_Dir (rooted (ps @ [n])) = rooted ps"
proof -
  have n: "CHR ''/'' \<notin> set n" using assms by (simp add: plain_part_def)
  have "Clean (rooted ps @ ''/'') = rooted ps" using assms by (simp add: Clean_end Clean_is_rooted clean_parts_rooted)
  then show ?thesis
    using path_Dir_slash [OF n, of "if ps = [] then [] else rooted ps"] rooted_snoc [of ps n]
    by (cases "ps = []") (simp_all add: rooted_def Clean_is_rooted [of "''/''"] HasPrefix_def)
qed

lemma clean_parts_extended:
  assumes "\<forall>c \<in> set (ps @ [n]). plain_part c" "plain_part (n @ e)"
  shows "clean_parts (rooted (ps @ [n]) @ e) = ps @ [n @ e]"
proof -
  have "rooted (ps @ [n]) @ e = rooted (ps @ [n @ e])" by (simp add: rooted_snoc)
  then show ?thesis using assms by (simp add: clean_parts_rooted)
qed

lemma path_Join_parts:
  assumes "\<forall>c \<in> set ps. plain_part c" "plain_part name"
  shows "path_Join (rooted ps) name = rooted (ps @ [name])"
  using path_Join_rooted [OF rooted_slash assms(2), of ps] unfolding clean_parts_rooted [OF assms(1)] by (simp only: rooted_def)

end
