(* ===== verification/OTACommit.thy ===== *)
theory OTACommit
  imports OTAEffects GoFiles
begin

text \<open>
  What an execution does before it reports a success, what it does when reboots are switched off, and which files it
  writes.
\<close>

section \<open>Up to the confirmation\<close>

text \<open>
  The part of an execution before it confirms the update, with the transaction and the world it ends in: the stages for a
  transaction that is not yet waiting for a reboot, and the comparison of the boot IDs for one that is.
\<close>

definition to_confirmation ::
  "crypto \<Rightarrow> 'w Sys \<Rightarrow> Config \<Rightarrow> 'w Adapter \<Rightarrow> Request \<Rightarrow> 'w osw \<Rightarrow> (transaction \<times> 'w osw) option" where
  "to_confirmation cr sys cfg adapter request w =
     (case loadOrCreate sys cfg request w of
        (Inl err, w) \<Rightarrow> None
      | (Inr tx, w) \<Rightarrow>
          if Phase tx \<in> set install_phases
          then (case stages cr sys cfg adapter tx w of (Inl r, w) \<Rightarrow> None | (Inr tx, w) \<Rightarrow> Some (tx, w))
          else if Phase tx = ''reboot_requested''
          then (let (boot, w) = (if BootID tx \<noteq> [] then ext_call (sys_bootID sys) w else ([], w)) in
                if BootID tx \<noteq> [] \<and> BootID tx = boot then None
                else Some (tx, emit (EvProgress ''The device rebooted; confirming update health'') w))
          else None)"

text \<open>
  What happens from a world \<open>w0\<close> to the end \<open>w'\<close> of a successful execution, in this order: the health check passes
  (its last command returned without an error, unless none is configured), the adapter reports a version that fits the
  request, it accepts the commit, and the completed transaction is saved.
\<close>

definition confirms_and_commits :: "'w Sys \<Rightarrow> Config \<Rightarrow> 'w Adapter \<Rightarrow> Request \<Rightarrow> 'w osw \<Rightarrow> 'w osw \<Rightarrow> bool" where
  "confirms_and_commits sys cfg adapter request w0 w' \<longleftrightarrow>
     (\<exists>health w1 current e2 e3 tx.
        healthCheck sys cfg w0 = (None, w1)
      \<and> elog w1 = elog w0 @ health \<and> set health \<subseteq> {EvHealth (Fields (HealthCheckCommand cfg))}
      \<and> (TrimSpace (HealthCheckCommand cfg) \<noteq> [] \<and> Fields (HealthCheckCommand cfg) \<noteq> [] \<longrightarrow>
           health \<noteq> [] \<and> (\<exists>e0 output. Run sys (hd (Fields (HealthCheckCommand cfg))) (tl (Fields (HealthCheckCommand cfg))) e0
             = ((output, None), ext w1)))
      \<and> CurrentVersion adapter request (ext w1) = ((current, None), e2) \<and> version_mismatch request (TrimSpace current) = None
      \<and> ad_Commit adapter request e2 = (None, e3)
      \<and> elog w' = elog w1 @ [EvCurrentVersion request, EvProgress ''Committing the healthy update'', EvCommit request, EvSave tx]
      \<and> Phase tx = ''completed'' \<and> tx_Request tx = request
      \<and> txs w' = mput (transactionPath cfg (UpdateID request)) (TxJSON tx) (txs w0))"

lemma healthLoop_passed:
  "healthLoop sys parts n w = (None, w') \<Longrightarrow>
     (\<exists>k. elog w' = elog w @ replicate (Suc k) (EvHealth parts)) \<and> txs w' = txs w
   \<and> (\<exists>e0 output. Run sys (hd parts) (tl parts) e0 = ((output, None), ext w'))"
proof (induction n arbitrary: w)
  case 0
  let ?r = "Run sys (hd parts) (tl parts) (ext w)"
  have "snd (fst ?r) = None" "w' = snd (ext_call (Run sys (hd parts) (tl parts)) (emit (EvHealth parts) w))"
    using 0 by (auto simp: ext_call_def case_prod_unfold Let_def split: option.splits)
  then show ?case
    by (intro conjI exI [of _ 0] exI [of _ "ext w"] exI [of _ "fst (fst ?r)"]) (simp_all add: ext_call_def prod_eq_iff)
next
  case (Suc n)
  let ?r = "Run sys (hd parts) (tl parts) (ext w)"
  let ?w1 = "snd (ext_call (Run sys (hd parts) (tl parts)) (emit (EvHealth parts) w))"
  show ?case
  proof (cases "snd (fst ?r)")
    case None
    then have "w' = ?w1" using Suc.prems by (auto simp: healthLoop.simps [of _ _ "Suc n"] ext_call_def case_prod_unfold Let_def simp del: healthLoop.simps)
    with None show ?thesis
      by (intro conjI exI [of _ 0] exI [of _ "ext w"] exI [of _ "fst (fst ?r)"]) (simp_all add: ext_call_def prod_eq_iff)
  next
    case (Some err)
    then have "healthLoop sys parts n ?w1 = (None, w')"
      using Suc.prems by (simp add: healthLoop.simps [of _ _ "Suc n"] ext_call_def case_prod_unfold Let_def del: healthLoop.simps)
    from Suc.IH [OF this] obtain k where "elog w' = (elog w @ [EvHealth parts]) @ replicate (Suc k) (EvHealth parts)" "txs w' = txs w"
      "\<exists>e0 output. Run sys (hd parts) (tl parts) e0 = ((output, None), ext w')" by auto
    then show ?thesis by (auto intro!: exI [of _ "Suc k"])
  qed
qed

lemma healthCheck_passed:
  assumes "healthCheck sys cfg w = (None, w')"
  shows "\<exists>health. elog w' = elog w @ health \<and> set health \<subseteq> {EvHealth (Fields (HealthCheckCommand cfg))} \<and> txs w' = txs w
    \<and> (TrimSpace (HealthCheckCommand cfg) \<noteq> [] \<and> Fields (HealthCheckCommand cfg) \<noteq> [] \<longrightarrow>
         health \<noteq> [] \<and> (\<exists>e0 output. Run sys (hd (Fields (HealthCheckCommand cfg))) (tl (Fields (HealthCheckCommand cfg))) e0
           = ((output, None), ext w')))"
proof (cases "TrimSpace (HealthCheckCommand cfg) = [] \<or> Fields (HealthCheckCommand cfg) = []")
  case True
  with assms have "w' = w" by (auto simp: healthCheck_def split: if_splits)
  with True show ?thesis by auto
next
  case False
  obtain n w1 where n: "ext_call (sys_healthTicks sys) w = (n, w1)" by fastforce
  with assms False have "healthLoop sys (Fields (HealthCheckCommand cfg)) n w1 = (None, w')"
    by (simp add: healthCheck_def del: healthLoop.simps)
  from healthLoop_passed [OF this] obtain k where
    "elog w' = elog w1 @ replicate (Suc k) (EvHealth (Fields (HealthCheckCommand cfg)))" "txs w' = txs w1"
    "\<exists>e0 output. Run sys (hd (Fields (HealthCheckCommand cfg))) (tl (Fields (HealthCheckCommand cfg))) e0 = ((output, None), ext w')" by blast
  with ext_call_frame [OF n] show ?thesis by (intro exI [of _ "replicate (Suc k) (EvHealth (Fields (HealthCheckCommand cfg)))"]) auto
qed

lemma save_done:
  assumes "save sys cfg tx w = (None, w')"
  shows "\<exists>now. elog w' = elog w @ [EvSave (tx\<lparr>UpdatedAt := now\<rparr>)]
    \<and> txs w' = mput (transactionPath cfg (UpdateID (tx_Request tx))) (TxJSON (tx\<lparr>UpdatedAt := now\<rparr>)) (txs w)"
  using assms by (auto simp: save_def Let_def split: prod.splits if_splits dest!: ext_call_frame)

lemma confirmAndCommit_done:
  assumes "confirmAndCommit sys cfg adapter tx w = ((st, None), w')"
  shows "confirms_and_commits sys cfg adapter (tx_Request tx) w w'"
proof -
  let ?r = "tx_Request tx"
  obtain e1 w1 where h: "healthCheck sys cfg w = (e1, w1)" by fastforce
  obtain v e2 w2 where cv: "ext_call (CurrentVersion adapter ?r) (emit (EvCurrentVersion ?r) w1) = ((v, e2), w2)"
    by (metis surj_pair)
  obtain e4 w4 where cm: "ext_call (ad_Commit adapter ?r) (emit (EvCommit ?r)
      (emit (EvProgress ''Committing the healthy update'') w2)) = (e4, w4)" by fastforce
  obtain e5 w5 where sv: "save sys cfg (tx\<lparr>Phase := ''completed''\<rparr>) w4 = (e5, w5)" by fastforce
  obtain e6 w6 where rm: "ext_call (sys_fileErr sys) w5 = (e6, w6)" by fastforce
  have ok: "e1 = None" "e2 = None" "version_mismatch ?r (TrimSpace v) = None" "e4 = None" "e5 = None"
    and w': "txs w' = txs w5" "elog w' = elog w5"
    using assms h cv cm sv rm ext_call_frame [OF rm]
    by (auto simp: confirmAndCommit_def Let_def failed_def split: option.splits if_splits)
  obtain health where health: "elog w1 = elog w @ health" "set health \<subseteq> {EvHealth (Fields (HealthCheckCommand cfg))}" "txs w1 = txs w"
    "TrimSpace (HealthCheckCommand cfg) \<noteq> [] \<and> Fields (HealthCheckCommand cfg) \<noteq> [] \<longrightarrow>
       health \<noteq> [] \<and> (\<exists>e0 output. Run sys (hd (Fields (HealthCheckCommand cfg))) (tl (Fields (HealthCheckCommand cfg))) e0
         = ((output, None), ext w1))"
    using healthCheck_passed [of sys cfg w w1] h ok(1) by blast
  obtain now where saved: "elog w5 = elog w4 @ [EvSave (tx\<lparr>Phase := ''completed'', UpdatedAt := now\<rparr>)]"
    "txs w5 = mput (transactionPath cfg (UpdateID ?r)) (TxJSON (tx\<lparr>Phase := ''completed'', UpdatedAt := now\<rparr>)) (txs w4)"
    using save_done [of sys cfg "tx\<lparr>Phase := ''completed''\<rparr>" w4 w5] sv ok(5) by auto
  have calls: "CurrentVersion adapter ?r (ext w1) = ((v, None), ext w2)" "ad_Commit adapter ?r (ext w2) = (None, ext w4)"
    using cv cm ok(2,4) by (auto simp: ext_call_def prod_eq_iff)
  have frames: "elog w2 = elog w1 @ [EvCurrentVersion ?r]" "txs w2 = txs w1"
    "elog w4 = elog w2 @ [EvProgress ''Committing the healthy update'', EvCommit ?r]" "txs w4 = txs w2"
    using ext_call_frame [OF cv] ext_call_frame [OF cm] by auto
  show ?thesis
    unfolding confirms_and_commits_def
    by (intro exI [of _ health] exI [of _ w1] exI [of _ v] exI [of _ "ext w2"] exI [of _ "ext w4"]
        exI [of _ "tx\<lparr>Phase := ''completed'', UpdatedAt := now\<rparr>"] conjI)
      (use h ok health calls frames saved w' in simp_all)
qed

lemma loadOrCreate_effect:
  assumes "loadOrCreate sys cfg request w = (loaded, w1)"
  shows "effect True True UNIV UNIV w w1"
proof -
  have "effect True True UNIV UNIV w (snd (loadOrCreate sys cfg request w))"
    unfolding loadOrCreate_def Let_def case_prod_unfold
    by (auto simp: new_transaction_def split: option.split tx_file.split intro!: effect_rules)
  then show ?thesis using assms by simp
qed

lemma stages_reached:
  assumes "stages cr sys cfg adapter t w = (Inr tx, w0)" "Phase t \<in> set install_phases" "adapter_fits adapter (tx_Request t)"
  shows "effect True False UNIV UNIV w w0" "Phase tx = ''activated''" "tx_Request tx = tx_Request t"
proof -
  show "effect True False UNIV UNIV w w0" "tx_Request tx = tx_Request t"
    using stages_effect [of False cfg t UNIV UNIV True w cr sys adapter] assms(1) by auto
  show "Phase tx = ''activated''"
    using stage_okD [OF stages_ok [of cr cfg adapter sys] sim_same [OF refl refl] linked_abs [of False] assms(2,3), of w, unfolded assms(1)]
    by (simp add: stage_result_def)
qed

lemma resumeAfterReboot_confirms:
  assumes "resumeAfterReboot sys cfg adapter tx w = ((st, None), w')"
  shows "\<exists>boot w1. (if BootID tx \<noteq> [] then ext_call (sys_bootID sys) w else ([], w)) = (boot, w1)
    \<and> \<not> (BootID tx \<noteq> [] \<and> BootID tx = boot) \<and> Phase tx \<noteq> ''rollback_reboot_requested''
    \<and> confirmAndCommit sys cfg adapter tx (emit (EvProgress ''The device rebooted; confirming update health'') w1) = ((st, None), w')"
proof -
  obtain boot w1 where b: "(if BootID tx \<noteq> [] then ext_call (sys_bootID sys) w else ([], w)) = (boot, w1)" by fastforce
  have changed: "\<not> (BootID tx \<noteq> [] \<and> BootID tx = boot)"
  proof
    assume same: "BootID tx \<noteq> [] \<and> BootID tx = boot"
    then have b': "ext_call (sys_bootID sys) w = (BootID tx, w1)" using b by (auto split: if_splits)
    show False using assms same unfolding resumeAfterReboot_def Let_def
      by (auto simp: b' failed_def rebooting_def split: prod.splits option.splits if_splits)
  qed
  moreover have "Phase tx \<noteq> ''rollback_reboot_requested''"
  proof
    assume "Phase tx = ''rollback_reboot_requested''"
    then show False using assms changed b unfolding resumeAfterReboot_def Let_def
      by (auto simp: failed_def split: prod.splits option.splits if_splits)
  qed
  moreover have "confirmAndCommit sys cfg adapter tx (emit (EvProgress ''The device rebooted; confirming update health'') w1) = ((st, None), w')"
    using assms changed calculation(2) by (simp add: resumeAfterReboot_def b)
  ultimately show ?thesis using b by blast
qed

lemma run_transaction_confirms:
  assumes "run_transaction cr sys cfg adapter t w1 = ((st, None), w')" "loadOrCreate sys cfg request w = (Inr t, w1)"
    and "tx_Request t = request" "adapter_fits adapter request" "Phase t \<noteq> ''completed''"
  shows "\<exists>tx w0. to_confirmation cr sys cfg adapter request w = Some (tx, w0) \<and> effect True False UNIV UNIV w w0
    \<and> Phase tx \<in> {''activated'', ''reboot_requested''} \<and> confirms_and_commits sys cfg adapter request w0 w'"
proof -
  have e1: "effect True False UNIV UNIV w w1"
    using loadOrCreate_effect [OF assms(2)] by (auto simp: effect_def barred_def)
  show ?thesis
  proof (cases "Phase t \<in> {''reboot_requested'', ''rollback_reboot_requested''}")
    case True
    then have "resumeAfterReboot sys cfg adapter t w1 = ((st, None), w')"
      using assms(1,5) by (auto simp: run_transaction_def Let_def failed_def split: if_splits)
    from resumeAfterReboot_confirms [OF this] True obtain boot w2 where b:
      "(if BootID t \<noteq> [] then ext_call (sys_bootID sys) w1 else ([], w1)) = (boot, w2)" "\<not> (BootID t \<noteq> [] \<and> BootID t = boot)"
      "Phase t = ''reboot_requested''"
      "confirmAndCommit sys cfg adapter t (emit (EvProgress ''The device rebooted; confirming update health'') w2) = ((st, None), w')"
      by auto
    have "elog w2 = elog w1" using b(1) by (auto simp: ext_call_def split: if_splits)
    then have "effect True False UNIV UNIV w (emit (EvProgress ''The device rebooted; confirming update health'') w2)"
      using e1 by (intro effect_emit) (auto simp: effect_def)
    moreover have "to_confirmation cr sys cfg adapter request w
        = Some (t, emit (EvProgress ''The device rebooted; confirming update health'') w2)"
      using b assms(2) by (auto simp: to_confirmation_def install_phases_def)
    ultimately show ?thesis using b(3) confirmAndCommit_done [OF b(4)] assms(3) by blast
  next
    case False
    obtain x w0 where st: "stages cr sys cfg adapter t w1 = (x, w0)" by fastforce
    have inst: "Phase t \<in> set install_phases"
      using assms(1,5) False by (auto simp: run_transaction_def Let_def failed_def validPhase_def install_phases_def split: if_splits)
    have run: "(case x of Inl r \<Rightarrow> (r, w0) | Inr tx \<Rightarrow> confirmAndCommit sys cfg adapter tx w0) = ((st, None), w')"
      using assms(1,5) False st by (auto simp: run_transaction_def Let_def failed_def split: if_splits sum.splits)
    obtain tx where x: "x = Inr tx" using run st stages_shape [of t cr sys cfg adapter w1] by (cases x) auto
    have fits: "adapter_fits adapter (tx_Request t)" using assms(3,4) by simp
    note reached = stages_reached [OF st [unfolded x] inst fits]
    have "to_confirmation cr sys cfg adapter request w = Some (tx, w0)"
      using assms(2) st x inst by (simp add: to_confirmation_def)
    then show ?thesis
      using reached effect_trans [OF e1 reached(1)] confirmAndCommit_done [of sys cfg adapter tx w0 st w'] run x assms(3) by auto
  qed
qed

lemma Execute_confirms:
  assumes run: "Execute cr sys cfg request w = ((st, None), w')"
  shows "\<exists>adapter. admit sys cfg request (ext w) = Inr adapter
    \<and> (elog w' = elog w \<and> txs w' = txs w
     \<or> (\<exists>tx w0. to_confirmation cr sys cfg adapter request w = Some (tx, w0) \<and> effect True False UNIV UNIV w w0
         \<and> Phase tx \<in> {''activated'', ''reboot_requested''} \<and> confirms_and_commits sys cfg adapter request w0 w'))"
proof -
  from run obtain adapter where ad: "admit sys cfg request (ext w) = Inr adapter"
    by (auto simp: Execute_def admit_def split: sum.splits option.splits if_splits)
      (auto simp: failed_def)
  obtain loaded w1 where ld: "loadOrCreate sys cfg request w = (loaded, w1)" by fastforce
  obtain t where t: "loaded = Inr t" "tx_Request t = request"
    and rt: "run_transaction cr sys cfg adapter t w1 = ((st, None), w')"
    using run ad ld by (auto simp: Execute_def failed_def split: sum.splits if_splits)
  show ?thesis
  proof (cases "Phase t = ''completed''")
    case True
    then have "w' = w1" using rt by (simp add: run_transaction_def validPhase_def)
    moreover have "elog w1 = elog w \<and> txs w1 = txs w"
      using ld t(1) True
      by (auto simp: loadOrCreate_def Let_def new_transaction_def dest!: ext_call_frame split: prod.splits option.splits tx_file.splits)
    ultimately show ?thesis using ad by blast
  next
    case False
    from run_transaction_confirms [OF rt ld [unfolded t(1)] t(2) admit_fits [OF ad] False] ad show ?thesis by blast
  qed
qed

section \<open>Only a commit is a success\<close>

text \<open>C6: An execution returns without an error only for an update that is committed. Its outcome is ``succeeded'' and the
  persisted transaction of the request is completed. Either it was completed before the call, which then did nothing; or
  the execution went through its stages, or found that the device has rebooted, to an activated transaction without
  committing anything; from there, in this order, its health check passed, the adapter reported the version the request
  pins, it accepted the one commit, and the completed transaction was saved.\<close>

theorem success_means_committed:
  assumes "Execute cr sys cfg request w = ((st, None), w')"
  shows "(st, None) = succeeded request \<and> completed_file cfg request (txs w')
    \<and> (\<exists>adapter. admit sys cfg request (ext w) = Inr adapter
        \<and> (elog w' = elog w \<and> txs w' = txs w
         \<or> (\<exists>tx w0 es. to_confirmation cr sys cfg adapter request w = Some (tx, w0)
              \<and> elog w0 = elog w @ es \<and> (\<forall>r. EvCommit r \<notin> set es) \<and> (\<forall>tx. EvSave tx \<in> set es \<longrightarrow> Phase tx \<noteq> ''completed'')
              \<and> Phase tx \<in> {''activated'', ''reboot_requested''} \<and> confirms_and_commits sys cfg adapter request w0 w')))"
proof -
  have log: "\<exists>es. elog w0 = elog w @ es \<and> (\<forall>r. EvCommit r \<notin> set es) \<and> (\<forall>tx. EvSave tx \<in> set es \<longrightarrow> Phase tx \<noteq> ''completed'')"
    if "effect True False UNIV UNIV w w0" for w0
    using that by (force simp: effect_def barred_def)
  show ?thesis using Execute_success [OF assms] Execute_confirms [OF assms] log by blast
qed

theorem success_means_committed_witness:
  "completed_file demo_cfg demo_request (txs demo_done)
   \<and> (\<exists>adapter tx w0. admit demo_sys demo_cfg demo_request (ext demo_rebooted) = Inr adapter
        \<and> to_confirmation demo_crypto demo_sys demo_cfg adapter demo_request demo_rebooted = Some (tx, w0)
        \<and> confirms_and_commits demo_sys demo_cfg adapter demo_request w0 demo_done)"
proof -
  have "Execute demo_crypto demo_sys demo_cfg demo_request demo_rebooted = ((fst (succeeded demo_request), None), demo_done)"
    using demo_second by (simp add: succeeded_def)
  moreover have "elog demo_done \<noteq> elog demo_rebooted" by (simp add: demo_done_def)
  ultimately show ?thesis using success_means_committed by blast
qed

section \<open>The files of an update\<close>













section \<open>Reboots switched off\<close>

lemma requestReboot_disabled:
  "\<not> AutoReboot cfg \<Longrightarrow> requestReboot sys cfg w =
     (Some (ErrorString ''automatic reboot is disabled in the local agent configuration''), w)"
  by (simp add: requestReboot_def)

lemma failAndRollback_disabled:
  "\<not> AutoReboot cfg \<Longrightarrow> st_State (fst (fst (failAndRollback sys cfg adapter tx cls cause w))) = ''failed''"
  unfolding failAndRollback_def rollback_reboot_def Let_def
  by (auto simp: requestReboot_disabled split: prod.splits option.splits)

definition fails_only :: "(outcome + transaction) \<times> 'w osw \<Rightarrow> bool" where
  "fails_only res \<longleftrightarrow> (case fst res of Inl r \<Rightarrow> st_State (fst r) = ''failed'' | Inr tx \<Rightarrow> True)"

lemma fails_only_simps [simp]:
  "fails_only (Inl r, w) \<longleftrightarrow> st_State (fst r) = ''failed''" "fails_only (Inr tx, w)"
  by (simp_all add: fails_only_def)

lemma fails_only_andThen:
  assumes "\<And>tx w. fails_only (s tx w)" "\<And>tx w. fails_only (t tx w)"
  shows "fails_only (andThen s t tx w)"
  using assms(1) [of tx w] assms(2) by (auto simp: andThen_def split: prod.split sum.split)

lemma fails_only_stop: "\<not> AutoReboot cfg \<Longrightarrow> fails_only (stop (failAndRollback sys cfg adapter tx cls cause w))"
  by (simp add: stop_def failAndRollback_disabled)

lemma fails_only_advance [intro]: "fails_only (advance sys cfg p tx w)"
  by (auto simp: advance_def Let_def case_prod_unfold split: option.split)

lemma stages_fail_only:
  assumes "\<not> AutoReboot cfg"
  shows "fails_only (stages cr sys cfg adapter tx w)"
proof -
  note rules = fails_only_stop [OF assms] fails_only_advance
  have "fails_only (stage_preflight sys cfg adapter tx w)" for tx w
    unfolding stage_preflight_def Let_def case_prod_unfold by (auto split: option.split intro!: rules)
  moreover have "fails_only (stage_download cr sys cfg adapter tx w)" for tx w
    unfolding stage_download_def Let_def case_prod_unfold by (auto split: sum.split intro!: rules)
  moreover have "fails_only (stage_verify cr sys cfg adapter tx w)" for tx w
    unfolding stage_verify_def Let_def case_prod_unfold by (auto split: option.split intro!: rules)
  moreover have "fails_only (stage_install sys cfg adapter tx w)" for tx w
    unfolding stage_install_def Let_def case_prod_unfold by (auto split: option.split intro!: rules)
  moreover have "fails_only (stage_activate sys cfg adapter tx w)" for tx w
    unfolding stage_activate_def Let_def case_prod_unfold by (auto split: option.split intro!: rules)
  moreover have "fails_only (stage_reboot sys cfg adapter tx w)" for tx w
    unfolding stage_reboot_def Let_def case_prod_unfold
    by (auto simp: requestReboot_disabled [OF assms] split: option.split intro!: rules)
  ultimately show ?thesis unfolding stages_def by (intro fails_only_andThen)
qed

lemma andThen_Inr: "andThen s t tx w = (Inr tx', w') \<Longrightarrow> \<exists>tx1 w1. s tx w = (Inr tx1, w1) \<and> t tx1 w1 = (Inr tx', w')"
  by (auto simp: andThen_def split: prod.splits sum.splits)

text \<open>With an adapter that always needs a reboot the stages never hand on an activated transaction.\<close>

lemma stages_never_activated:
  assumes "\<forall>e. fst (RequiresReboot adapter e)" "stages cr sys cfg adapter tx w = (Inr tx', w')"
  shows "Phase tx' \<noteq> ''activated''"
proof -
  obtain tx1 w1 where last_stage: "stage_reboot sys cfg adapter tx1 w1 = (Inr tx', w')"
    using assms(2) unfolding stages_def by (blast dest: andThen_Inr)
  have "fst (ext_call (RequiresReboot adapter) w1)" using assms(1) by (simp add: ext_call_def)
  then show ?thesis
    using last_stage by (auto simp: stage_reboot_def Let_def case_prod_unfold stop_def split: option.splits if_splits)
qed

lemma native_requires_reboot: "name \<noteq> ''flatpak'' \<Longrightarrow> fst (RequiresReboot (nativeAdapter sys name) e)"
  by (simp add: nativeAdapter_def)

lemma loadOrCreate_phase:
  assumes "loadOrCreate sys cfg request w = (Inr tx, w1)"
    and "\<And>f. mget (txs w) (transactionPath cfg (UpdateID request)) = Some (TxJSON f) \<Longrightarrow> Phase f \<in> set install_phases"
  shows "Phase tx \<in> set install_phases"
  using assms
  by (auto simp: loadOrCreate_def Let_def new_transaction_def decoded_def install_phases_def dest!: ext_call_frame
      split: prod.splits option.splits tx_file.splits)

text \<open>C40: With automatic reboots switched off, an update that needs one cannot complete. If the adapter always needs a reboot
  (every operating system adapter of the agent does, Flatpak does not, and a plugin says so itself), and the update has
  not requested its reboot yet, then executing it always ends in a failure: no commit, no completed
  transaction and no reboot command. The engine does not wait for a reboot
  by hand.\<close>

theorem disabled_reboot_fails_update:
  assumes "\<not> AutoReboot cfg" "admit sys cfg request (ext w) = Inr adapter" "\<forall>e. fst (RequiresReboot adapter e)"
    and "\<And>f. mget (txs w) (transactionPath cfg (UpdateID request)) = Some (TxJSON f) \<Longrightarrow> Phase f \<in> set install_phases"
    and "Execute cr sys cfg request w = (r, w')"
  shows "st_State (fst r) = ''failed'' \<and> snd r \<noteq> None
    \<and> (\<exists>es. elog w' = elog w @ es \<and> EvReboot \<notin> set es \<and> (\<forall>q. EvCommit q \<notin> set es)
         \<and> (\<forall>tx. EvSave tx \<in> set es \<longrightarrow> Phase tx \<noteq> ''completed''))"
proof -
  obtain loaded w1 where ld: "loadOrCreate sys cfg request w = (loaded, w1)" by fastforce
  note e1 = loadOrCreate_effect [OF ld]
  have log: "\<exists>es. elog w' = elog w @ es \<and> EvReboot \<notin> set es \<and> (\<forall>q. EvCommit q \<notin> set es)
         \<and> (\<forall>tx. EvSave tx \<in> set es \<longrightarrow> Phase tx \<noteq> ''completed'')" if "effect True True UNIV UNIV w w'"
    using that by (force simp: effect_def barred_def)
  show ?thesis
  proof (cases "\<exists>tx. loaded = Inr tx \<and> tx_Request tx = request")
    case False
    then have "(\<exists>cls err. r = failed request cls err) \<and> w' = w1"
      using assms(2,5) ld by (cases loaded) (auto simp: Execute_def)
    then show ?thesis using log e1 by (auto simp: failed_def status_def)
  next
    case True
    then obtain tx where tx: "loaded = Inr tx" "tx_Request tx = request" by blast
    have ph: "Phase tx \<in> set install_phases" by (rule loadOrCreate_phase [OF ld [unfolded tx(1)] assms(4)])
    have rt: "run_transaction cr sys cfg adapter tx w1 = (r, w')" using assms(2,5) ld tx by (simp add: Execute_def)
    obtain x w2 where st: "stages cr sys cfg adapter tx w1 = (x, w2)" by fastforce
    have fits: "adapter_fits adapter (tx_Request tx)" using admit_fits [OF assms(2)] tx(2) by simp
    have "\<nexists>tx'. x = Inr tx'"
      using stages_never_activated [OF assms(3)] stages_reached(2) [OF _ ph fits] st by metis
    then obtain q where x: "x = Inl q" by (cases x) auto
    have "(r, w') = (q, w2)"
      using rt st x ph by (auto simp: run_transaction_def Let_def validPhase_def install_phases_def)
    moreover have "st_State (fst q) = ''failed''" using stages_fail_only [OF assms(1), of cr sys adapter tx w1] st x by simp
    moreover have "snd q \<noteq> None" using stages_shape [of tx cr sys cfg adapter w1] st x by (simp add: is_error_def)
    moreover have "effect True True UNIV UNIV w1 w2"
      using stages_effect [of True cfg tx UNIV UNIV True w1 cr sys adapter] assms(1) st x by simp
    ultimately show ?thesis using log effect_trans [OF e1] by simp
  qed
qed

theorem disabled_reboot_fails_update_witness:
  "st_State (fst (fst (Execute demo_crypto demo_sys (demo_cfg\<lparr>AutoReboot := False\<rparr>) demo_request demo_start))) = ''failed''"
proof -
  have "ValidateRequest ''amd64'' (demo_cfg\<lparr>AutoReboot := False\<rparr>) demo_request = None" by code_simp
  then have "admit demo_sys (demo_cfg\<lparr>AutoReboot := False\<rparr>) demo_request (ext demo_start) = Inr (nativeAdapter demo_sys ''rauc'')"
    by (simp add: admit_def NewAdapter_def Let_def demo_sys_def demo_request_def native_names_def nativeAdapter_def native_Available_def)
  moreover have "\<forall>e. fst (RequiresReboot (nativeAdapter demo_sys ''rauc'') e)" by (simp add: native_requires_reboot)
  moreover have "mget (txs demo_start) p = None" for p by (simp add: demo_start_def mget_def)
  ultimately show ?thesis
    using disabled_reboot_fails_update [of "demo_cfg\<lparr>AutoReboot := False\<rparr>" demo_sys demo_request demo_start] prod.collapse
    by (metis demo_cfg_def option.distinct(1) Config.select_convs Config.update_convs)
qed

end
