(* ===== verification/AgentQueue.thy ===== *)
theory AgentQueue
  imports GoCodec "HOL-Library.Multiset"
begin

text \<open>
  The offline queue of the agent, \<^verbatim>\<open>agent/internal/storage/store.go\<close>: a file of one JSON
  item per line, rewritten whole through a temporary file. The file is the list of its lines;
  a line that is no item is \<open>Garbage\<close> with its length. \<open>line_len\<close> is the length of the JSON
  encoding of an item.
\<close>

section \<open>Data\<close>

datatype Priority = Priority (rank_of: int)

instantiation Priority :: linorder
begin

definition less_eq_Priority :: "Priority \<Rightarrow> Priority \<Rightarrow> bool" where
  "less_eq_Priority p q \<longleftrightarrow> rank_of p \<le> rank_of q"

definition less_Priority :: "Priority \<Rightarrow> Priority \<Rightarrow> bool" where
  "less_Priority p q \<longleftrightarrow> rank_of p < rank_of q"

instance
  by standard (auto simp: less_eq_Priority_def less_Priority_def intro: Priority.expand)

end

definition Low :: Priority where "Low = Priority 0"
definition Normal :: Priority where "Normal = Priority 1"
definition High :: Priority where "High = Priority 2"

record QueueItem =
  qi_ID :: string
  qi_Kind :: string
  qi_Priority :: Priority
  qi_CreatedAt :: go_time
  qi_Payload :: string
  qi_ApproxBytes :: int

record QueueStats =
  Items :: int
  Bytes :: int
  DroppedItems :: int

datatype line = Item QueueItem | Garbage int

text \<open>The file is \<open>None\<close> until the first write.\<close>

record Store =
  queue_file :: "line list option"
  maxBytes :: int
  maxAge :: duration
  dropped :: int

text \<open>What an operation asks of its environment: the clock, and the errors of the file system.\<close>

record queue_env =
  q_now :: go_time
  q_readErr :: "go_error option"
  q_writeErr :: "go_error option"
  line_len :: "QueueItem \<Rightarrow> int"

section \<open>Reading and writing the file\<close>

definition max_token :: "Store \<Rightarrow> int" where
  "max_token s = max 65536 (if maxBytes s \<le> (2 ^ 63 - 1) div 2 then i64 (maxBytes s * 2) else 2 ^ 63 - 1)"

text \<open>The scan stops at a line that does not fit the buffer, with an error; a line that is no item is counted and skipped.\<close>

fun scan :: "(QueueItem \<Rightarrow> int) \<Rightarrow> int \<Rightarrow> line list \<Rightarrow> int \<Rightarrow> (QueueItem list \<times> go_error option) \<times> int" where
  "scan len limit [] d = (([], None), d)"
| "scan len limit (Item it # ls) d =
     (if limit \<le> len it then (([], Some (ErrorString ''bufio.Scanner: token too long'')), d)
      else let ((out, err), d) = scan len limit ls d in ((it # out, err), d))"
| "scan len limit (Garbage n # ls) d =
     (if limit \<le> n then (([], Some (ErrorString ''bufio.Scanner: token too long'')), d)
      else scan len limit ls (d + 1))"

definition loadLocked :: "queue_env \<Rightarrow> Store \<Rightarrow> (QueueItem list \<times> go_error option) \<times> Store" where
  "loadLocked env s =
     (case queue_file s of
        None \<Rightarrow> (([], None), s)
      | Some ls \<Rightarrow>
         (case q_readErr env of
            Some err \<Rightarrow> (([], Some err), s)
          | None \<Rightarrow>
              (let ((out, err), d) = scan (line_len env) (max_token s) ls (dropped s) in
               ((out, err), s\<lparr>dropped := d\<rparr>))))"

definition writeLocked :: "queue_env \<Rightarrow> QueueItem list \<Rightarrow> Store \<Rightarrow> go_error option \<times> Store" where
  "writeLocked env items s =
     (case q_writeErr env of
        Some err \<Rightarrow> (Some err, s)
      | None \<Rightarrow> (None, s\<lparr>queue_file := Some (map Item items)\<rparr>))"

section \<open>Pruning\<close>

definition expired :: "Store \<Rightarrow> go_time \<Rightarrow> QueueItem \<Rightarrow> bool" where
  "expired s now it \<longleftrightarrow> 0 < maxAge s \<and> maxAge s < time_Sub now (qi_CreatedAt it) \<and> qi_Priority it < High"

definition queue_key :: "QueueItem \<Rightarrow> int \<times> go_time" where
  "queue_key it = (- rank_of (qi_Priority it), qi_CreatedAt it)"

definition total_bytes :: "QueueItem list \<Rightarrow> int" where
  "total_bytes items = (\<Sum>it\<leftarrow>items. qi_ApproxBytes it)"

function cut_tail :: "int \<Rightarrow> QueueItem list \<Rightarrow> QueueItem list" where
  "cut_tail limit items =
     (if total_bytes items \<le> limit \<or> items = [] \<or> (length items = 1 \<and> qi_Priority (hd items) = High) then items
      else cut_tail limit (butlast items))"
  by pat_completeness auto
termination by (relation "measure (\<lambda>(_, items). length items)") auto

declare cut_tail.simps [simp del]

definition prune :: "QueueItem list \<Rightarrow> go_time \<Rightarrow> Store \<Rightarrow> QueueItem list \<times> Store" where
  "prune items now s =
     (let keep = filter (\<lambda>it. \<not> expired s now it) items;
          sorted_items = sort_key queue_key keep;
          kept = cut_tail (maxBytes s) sorted_items in
      (kept, s\<lparr>dropped := dropped s + int (length items - length kept)\<rparr>))"

section \<open>Operations\<close>

definition Enqueue :: "queue_env \<Rightarrow> QueueItem \<Rightarrow> Store \<Rightarrow> go_error option \<times> Store" where
  "Enqueue env item s =
     (if qi_ID item = [] then (Some (ErrorString ''queue item id is required''), s)
      else
        let item = item\<lparr>qi_CreatedAt := (if IsZero (qi_CreatedAt item) then q_now env else qi_CreatedAt item),
                        qi_ApproxBytes := int (length (qi_Payload item)) + 256\<rparr>;
            ((items, err), s) = loadLocked env s in
        case err of
          Some e \<Rightarrow> (Some e, s)
        | None \<Rightarrow> (let (items, s) = prune (items @ [item]) (q_now env) s in writeLocked env items s))"

definition Dequeue :: "queue_env \<Rightarrow> int \<Rightarrow> Store \<Rightarrow> (QueueItem list \<times> go_error option) \<times> Store" where
  "Dequeue env limit s =
     (let ((items, err), s) = loadLocked env s in
      case err of
        Some e \<Rightarrow> (([], Some e), s)
      | None \<Rightarrow>
          (let n = (if limit \<le> 0 \<or> int (length items) < limit then length items else nat limit);
               (werr, s) = writeLocked env (drop n items) s in
           ((take n items, werr), s)))"

definition Stats :: "queue_env \<Rightarrow> Store \<Rightarrow> (QueueStats \<times> go_error option) \<times> Store" where
  "Stats env s =
     (let ((items, err), s) = loadLocked env s in
      case err of
        Some e \<Rightarrow> ((\<lparr>Items = 0, Bytes = 0, DroppedItems = 0\<rparr>, Some e), s)
      | None \<Rightarrow> ((\<lparr>Items = int (length items), Bytes = total_bytes items, DroppedItems = dropped s\<rparr>, None), s))"

text \<open>The archive keeps the lines under another name; the time of the call is part of it.\<close>

definition ArchiveQueue ::
  "(go_time \<Rightarrow> string) \<Rightarrow> queue_env \<Rightarrow> string \<Rightarrow> Store \<Rightarrow> (string \<times> line list option) result \<times> Store" where
  "ArchiveQueue stamp env dir s =
     (case queue_file s of
        None \<Rightarrow> (Inr ([], None), s)
      | Some ls \<Rightarrow>
         (case q_writeErr env of
            Some err \<Rightarrow> (Inl err, s)
          | None \<Rightarrow> (Inr (dir @ ''/queue.archived-'' @ stamp (q_now env) @ ''.jsonl'', Some ls), s\<lparr>queue_file := None\<rparr>)))"

definition Open :: "int \<Rightarrow> duration \<Rightarrow> line list option \<Rightarrow> go_error option \<Rightarrow> Store result" where
  "Open max_bytes max_age file mkdirErr =
     (case mkdirErr of
        Some err \<Rightarrow> Inl err
      | None \<Rightarrow> Inr \<lparr>queue_file = file, maxBytes = max_bytes, maxAge = max_age, dropped = 0\<rparr>)"

section \<open>Facts about pruning\<close>

lemma total_bytes_simps [simp]:
  "total_bytes [] = 0" "total_bytes (it # items) = qi_ApproxBytes it + total_bytes items" "total_bytes (xs @ ys) = total_bytes xs + total_bytes ys"
  by (simp_all add: total_bytes_def)

lemma total_bytes_mset: "mset xs = mset ys \<Longrightarrow> total_bytes xs = total_bytes ys"
  unfolding total_bytes_def by (metis mset_map sum_mset_sum_list)

lemma cut_tail_prefix: "\<exists>rest. items = cut_tail limit items @ rest"
proof (induction limit items rule: cut_tail.induct)
  case (1 limit items)
  show ?case
  proof (cases "total_bytes items \<le> limit \<or> items = [] \<or> (length items = 1 \<and> qi_Priority (hd items) = High)")
    case True
    then show ?thesis by (simp add: cut_tail.simps [of limit items])
  next
    case False
    then obtain rest where "butlast items = cut_tail limit (butlast items) @ rest" using 1 by auto
    then have "items = cut_tail limit (butlast items) @ (rest @ [List.last items])"
      using False by (metis append.assoc append_butlast_last_id)
    with False show ?thesis by (auto simp: cut_tail.simps [of limit items])
  qed
qed

lemma cut_tail_fits:
  "total_bytes (cut_tail limit items) \<le> limit \<or> cut_tail limit items = []
     \<or> (length (cut_tail limit items) = 1 \<and> qi_Priority (hd (cut_tail limit items)) = High)"
proof (induction limit items rule: cut_tail.induct)
  case (1 limit items)
  then show ?case
    by (cases "total_bytes items \<le> limit \<or> items = [] \<or> (length items = 1 \<and> qi_Priority (hd items) = High)")
      (auto simp: cut_tail.simps [of limit items])
qed

lemma cut_tail_id: "total_bytes items \<le> limit \<Longrightarrow> cut_tail limit items = items"
  by (simp add: cut_tail.simps [of limit items])

text \<open>Nothing more is dropped than necessary: one more item would exceed the limit.\<close>

lemma cut_tail_maximal:
  "items = cut_tail limit items @ it # rest \<Longrightarrow> limit < total_bytes (cut_tail limit items @ [it])"
proof (induction limit items arbitrary: rest rule: cut_tail.induct)
  case (1 limit items)
  have go: "\<not> (total_bytes items \<le> limit \<or> items = [] \<or> (length items = 1 \<and> qi_Priority (hd items) = High))"
    using 1(2) by (auto simp: cut_tail.simps [of limit items] split: if_splits)
  then have c: "cut_tail limit items = cut_tail limit (butlast items)" by (subst cut_tail.simps) (simp only: if_False)
  show ?case
  proof (cases rest rule: rev_cases)
    case Nil
    with 1(2) go c show ?thesis by (metis linorder_not_le)
  next
    case (snoc r x)
    then have "butlast items = cut_tail limit (butlast items) @ it # r"
      using 1(2) c by (metis append.assoc append_Cons butlast_snoc)
    from 1(1) [OF go this] c show ?thesis by simp
  qed
qed

text \<open>What \<open>prune\<close> returns, in one lemma: its input without the expired items, ordered by
  priority and age, cut from the end.\<close>

lemma prune_spec:
  assumes "prune items now s = (kept, s')"
  shows "\<exists>cut_off. mset kept + mset cut_off = mset (filter (\<lambda>it. \<not> expired s now it) items)
      \<and> sorted (map queue_key (kept @ cut_off))
      \<and> kept = cut_tail (maxBytes s) (kept @ cut_off)
      \<and> s' = s\<lparr>dropped := dropped s + int (length items - length kept)\<rparr>"
proof -
  let ?sorted = "sort_key queue_key (filter (\<lambda>it. \<not> expired s now it) items)"
  obtain cut_off where c: "?sorted = cut_tail (maxBytes s) ?sorted @ cut_off" using cut_tail_prefix by blast
  have kept: "kept = cut_tail (maxBytes s) ?sorted" and s': "s' = s\<lparr>dropped := dropped s + int (length items - length kept)\<rparr>"
    using assms by (auto simp: prune_def Let_def)
  have "mset kept + mset cut_off = mset ?sorted" using c kept by (metis mset_append)
  then have "mset kept + mset cut_off = mset (filter (\<lambda>it. \<not> expired s now it) items)"
    by (metis mset_sort)
  moreover have "sorted (map queue_key (kept @ cut_off))" using c kept by (metis sorted_sort_key)
  ultimately show ?thesis using c kept s' by (metis (no_types, lifting))
qed

lemma sorted_key_Priority:
  "sorted (map queue_key (xs @ y # ys)) \<Longrightarrow> x \<in> set xs \<Longrightarrow>
     qi_Priority y < qi_Priority x \<or> qi_Priority y = qi_Priority x \<and> qi_CreatedAt x \<le> qi_CreatedAt y"
proof -
  assume "sorted (map queue_key (xs @ y # ys))" "x \<in> set xs"
  then have "queue_key x \<le> queue_key y" by (auto simp: sorted_append)
  then have "rank_of (qi_Priority y) < rank_of (qi_Priority x)
      \<or> rank_of (qi_Priority y) = rank_of (qi_Priority x) \<and> qi_CreatedAt x \<le> qi_CreatedAt y"
    by (auto simp: queue_key_def less_eq_prod_def)
  then show ?thesis by (auto simp: less_Priority_def intro: Priority.expand)
qed

section \<open>Facts about the file\<close>

text \<open>The lines fit the scanner and all are items: what \<open>writeLocked\<close> leaves.\<close>

definition readable :: "queue_env \<Rightarrow> Store \<Rightarrow> bool" where
  "readable env s \<longleftrightarrow>
     (case queue_file s of None \<Rightarrow> True | Some ls \<Rightarrow>
        q_readErr env = None \<and> (\<forall>l \<in> set ls. case l of Item it \<Rightarrow> line_len env it < max_token s | Garbage n \<Rightarrow> n < max_token s))"

definition queue_items :: "Store \<Rightarrow> QueueItem list" where
  "queue_items s = (case queue_file s of None \<Rightarrow> [] | Some ls \<Rightarrow> List.map_filter (\<lambda>l. case l of Item it \<Rightarrow> Some it | Garbage n \<Rightarrow> None) ls)"

definition garbage_lines :: "Store \<Rightarrow> int" where
  "garbage_lines s = (case queue_file s of None \<Rightarrow> 0 | Some ls \<Rightarrow>
     int (length (filter (\<lambda>l. case l of Item it \<Rightarrow> False | Garbage n \<Rightarrow> True) ls)))"

lemma scan_ok:
  "\<forall>l \<in> set ls. (case l of Item it \<Rightarrow> len it < limit | Garbage n \<Rightarrow> n < limit) \<Longrightarrow>
     scan len limit ls d = ((List.map_filter (\<lambda>l. case l of Item it \<Rightarrow> Some it | Garbage n \<Rightarrow> None) ls, None),
       d + int (length (filter (\<lambda>l. case l of Item it \<Rightarrow> False | Garbage n \<Rightarrow> True) ls)))"
  by (induction len limit ls d rule: scan.induct) (auto simp: List.map_filter_simps)

lemma loadLocked_readable:
  "readable env s \<Longrightarrow> loadLocked env s = ((queue_items s, None), s\<lparr>dropped := dropped s + garbage_lines s\<rparr>)"
proof (cases "queue_file s")
  case None
  then show ?thesis by (simp add: loadLocked_def queue_items_def garbage_lines_def)
next
  case (Some ls)
  assume "readable env s"
  with Some scan_ok [of ls "line_len env" "max_token s" "dropped s"] show ?thesis
    by (auto simp: readable_def loadLocked_def queue_items_def garbage_lines_def)
qed

lemma map_filter_items [simp]:
  "List.map_filter (\<lambda>l. case l of Item it \<Rightarrow> Some it | Garbage n \<Rightarrow> None) (map Item items) = items"
  by (induction items) (simp_all add: List.map_filter_simps)

lemma queue_items_write [simp]: "queue_items (s\<lparr>queue_file := Some (map Item items)\<rparr>) = items"
  by (simp add: queue_items_def)

lemma queue_items_dropped [simp]: "queue_items (s\<lparr>dropped := d\<rparr>) = queue_items s"
  by (simp add: queue_items_def)

end
