(* ===== verification/AgentFlush.thy ===== *)
theory AgentFlush
  imports AgentQueue
begin

text \<open>
  How the agent uses its offline queue: \<open>enqueue\<close> and \<open>flush\<close> of
  \<^verbatim>\<open>agent/internal/agent/agent.go\<close>. The locale \<open>offline_queue\<close> is the contract between
  them and the queue; the interpretation shows that \<^verbatim>\<open>storage/store.go\<close> honours it.
\<close>

section \<open>The client\<close>

text \<open>
  The clock and the file system, as the queue sees them, and the transport, as functions on the
  state \<open>'w\<close> of the world.
\<close>

record 'w link =
  next_env :: "'w \<Rightarrow> queue_env \<times> 'w"
  PostEnvelope :: "string \<Rightarrow> string \<Rightarrow> string \<Rightarrow> 'w \<Rightarrow> go_error option \<times> 'w"

definition endpoint_for :: "string \<Rightarrow> string" where
  "endpoint_for kind =
     (if kind = ''heartbeat'' then ''/v1/heartbeat''
      else if kind = ''telemetry'' then ''/v1/telemetry''
      else if kind = ''inventory'' then ''/v1/inventory''
      else ''/v1/offline'')"

type_synonym 's enqueue_op = "queue_env \<Rightarrow> QueueItem \<Rightarrow> 's \<Rightarrow> go_error option \<times> 's"
type_synonym 's dequeue_op = "queue_env \<Rightarrow> int \<Rightarrow> 's \<Rightarrow> (QueueItem list \<times> go_error option) \<times> 's"

text \<open>Putting the unsent items back; the errors of doing so are ignored.\<close>

fun requeue :: "'s enqueue_op \<Rightarrow> 'w link \<Rightarrow> QueueItem list \<Rightarrow> 's \<Rightarrow> 'w \<Rightarrow> 's \<times> 'w" where
  "requeue enq l [] s w = (s, w)"
| "requeue enq l (it # its) s w =
     (let (env, w) = next_env l w; (_, s) = enq env it s in requeue enq l its s w)"

text \<open>Sending until the first error. The first component of the result is what was delivered.\<close>

fun send_items ::
  "'s enqueue_op \<Rightarrow> 'w link \<Rightarrow> QueueItem list \<Rightarrow> 's \<Rightarrow> 'w \<Rightarrow> QueueItem list \<times> go_error option \<times> 's \<times> 'w" where
  "send_items enq l [] s w = ([], None, s, w)"
| "send_items enq l (it # its) s w =
     (let (err, w) = PostEnvelope l (endpoint_for (qi_Kind it)) (qi_Kind it @ ''.v1'') (qi_Payload it) w in
      case err of
        Some e \<Rightarrow> (let (s, w) = requeue enq l (it # its) s w in ([], Some e, s, w))
      | None \<Rightarrow> (let (done, e, s, w) = send_items enq l its s w in (it # done, e, s, w)))"

definition flush_with ::
  "'s enqueue_op \<Rightarrow> 's dequeue_op \<Rightarrow> 'w link \<Rightarrow> 's \<Rightarrow> 'w \<Rightarrow> QueueItem list \<times> go_error option \<times> 's \<times> 'w" where
  "flush_with enq deq l s w =
     (let (env, w) = next_env l w; ((items, err), s) = deq env 16 s in
      case err of
        Some e \<Rightarrow> ([], Some e, s, w)
      | None \<Rightarrow> send_items enq l items s w)"

definition flush :: "'w link \<Rightarrow> Store \<Rightarrow> 'w \<Rightarrow> QueueItem list \<times> go_error option \<times> Store \<times> 'w" where
  "flush = flush_with Enqueue Dequeue"

text \<open>\<open>stamp\<close> formats the time of the call into the item's ID.\<close>

definition enqueue :: "(go_time \<Rightarrow> string) \<Rightarrow> queue_env \<Rightarrow> string \<Rightarrow> Priority \<Rightarrow> string \<Rightarrow> Store \<Rightarrow> go_error option \<times> Store" where
  "enqueue stamp env kind priority raw s =
     Enqueue env \<lparr>qi_ID = kind @ ''-'' @ stamp (q_now env), qi_Kind = kind, qi_Priority = priority,
                  qi_CreatedAt = zero_time, qi_Payload = raw, qi_ApproxBytes = 0\<rparr> s"

section \<open>The contract of the queue\<close>

text \<open>
  \<open>room s its\<close>: the queue \<open>s\<close> has room for the items \<open>its\<close> beside its own, in every good
  environment. Then dequeuing splits the queue and keeps room for what it took, beside the room there was,
  and enqueuing loses nothing.
\<close>

locale offline_queue =
  fixes contents :: "'s \<Rightarrow> QueueItem list"
    and enq :: "'s enqueue_op" and deq :: "'s dequeue_op"
    and good :: "queue_env \<Rightarrow> bool" and room :: "'s \<Rightarrow> QueueItem list \<Rightarrow> bool"
  assumes deq_split: "good env \<Longrightarrow> room s rest \<Longrightarrow> 0 < n \<Longrightarrow>
      \<exists>s'. deq env n s = ((take (nat n) (contents s), None), s')
        \<and> contents s' = drop (nat n) (contents s) \<and> room s' (take (nat n) (contents s) @ rest)"
    and enq_keeps: "good env \<Longrightarrow> room s (it # its) \<Longrightarrow>
      \<exists>s'. enq env it s = (None, s') \<and> mset (contents s') = add_mset it (mset (contents s)) \<and> room s' its"
    and room_less: "room s (it # its) \<Longrightarrow> room s its"
begin

lemma requeue_keeps:
  "(\<And>w. good (fst (next_env l w))) \<Longrightarrow> room s (its @ rest) \<Longrightarrow> requeue enq l its s w = (s', w') \<Longrightarrow>
     mset (contents s') = mset its + mset (contents s) \<and> room s' rest"
proof (induction its arbitrary: s w)
  case (Cons it its)
  obtain env w1 where n: "next_env l w = (env, w1)" by fastforce
  then have "good env" using Cons.prems(1) [of w] by simp
  from enq_keeps [OF this Cons.prems(2) [unfolded append_Cons]] obtain s1 where
    s1: "enq env it s = (None, s1)" "mset (contents s1) = add_mset it (mset (contents s))" "room s1 (its @ rest)"
    by blast
  from Cons.IH [OF Cons.prems(1) s1(3)] Cons.prems(3) n s1 show ?case by simp
qed simp

lemma send_items_keeps:
  "(\<And>w. good (fst (next_env l w))) \<Longrightarrow> room s (its @ rest) \<Longrightarrow> send_items enq l its s w = (done, err, s', w') \<Longrightarrow>
     \<exists>unsent. its = done @ unsent \<and> mset (contents s') = mset unsent + mset (contents s)
       \<and> (err = None \<longrightarrow> unsent = [] \<and> s' = s) \<and> room s' rest"
proof (induction its arbitrary: s w "done" err s' w')
  case (Cons it its)
  obtain e w1 where p: "PostEnvelope l (endpoint_for (qi_Kind it)) (qi_Kind it @ ''.v1'') (qi_Payload it) w = (e, w1)"
    by fastforce
  show ?case
  proof (cases e)
    case None
    obtain d1 e1 s1 w2 where r: "send_items enq l its s w1 = (d1, e1, s1, w2)" by (metis prod_cases4)
    from Cons.IH [OF Cons.prems(1) room_less [OF Cons.prems(2) [unfolded append_Cons]] r] Cons.prems(3) p None r show ?thesis by auto
  next
    case (Some x)
    obtain s1 w2 where r: "requeue enq l (it # its) s w1 = (s1, w2)" by fastforce
    from requeue_keeps [OF Cons.prems(1,2) r] Cons.prems(3) p Some r show ?thesis
      by (auto simp del: requeue.simps)
  qed
qed simp

lemma flush_conserves:
  assumes "\<And>w. good (fst (next_env l w))" "room s rest" "flush_with enq deq l s w = (done, err, s', w')"
  shows "mset (contents s) = mset done + mset (contents s')
    \<and> (\<exists>unsent. take 16 (contents s) = done @ unsent \<and> (err = None \<longrightarrow> unsent = [])) \<and> room s' rest"
proof -
  obtain env w1 where n: "next_env l w = (env, w1)" by fastforce
  then have "good env" using assms(1) [of w] by simp
  from deq_split [OF this assms(2), of 16] obtain s1 where
    d: "deq env 16 s = ((take 16 (contents s), None), s1)" "contents s1 = drop 16 (contents s)"
       "room s1 (take 16 (contents s) @ rest)" by auto
  then have "send_items enq l (take 16 (contents s)) s1 w1 = (done, err, s', w')"
    using assms(3) n by (simp add: flush_with_def)
  from send_items_keeps [OF assms(1) d(3) this] obtain unsent where
    u: "take 16 (contents s) = done @ unsent" "mset (contents s') = mset unsent + mset (contents s1)"
       "err = None \<longrightarrow> unsent = [] \<and> s' = s1" "room s' rest" by blast
  have "mset (contents s) = mset (take 16 (contents s)) + mset (contents s1)"
    using d(2) by (metis append_take_drop_id mset_append)
  with u show ?thesis by auto
qed

end

section \<open>The store honours it\<close>

text \<open>An item as \<open>Enqueue\<close> stores it: stored again, it does not change.\<close>

definition normal_item :: "QueueItem \<Rightarrow> bool" where
  "normal_item it \<longleftrightarrow> qi_ID it \<noteq> [] \<and> \<not> IsZero (qi_CreatedAt it)
     \<and> qi_ApproxBytes it = int (length (qi_Payload it)) + 256"

text \<open>A good environment: no errors, and the clock has not passed a horizon.\<close>

definition good_env :: "go_time \<Rightarrow> (QueueItem \<Rightarrow> int) \<Rightarrow> queue_env \<Rightarrow> bool" where
  "good_env horizon len env \<longleftrightarrow> q_readErr env = None \<and> q_writeErr env = None \<and> line_len env = len \<and> q_now env \<le> horizon"

definition store_room :: "go_time \<Rightarrow> (QueueItem \<Rightarrow> int) \<Rightarrow> Store \<Rightarrow> QueueItem list \<Rightarrow> bool" where
  "store_room horizon len s its \<longleftrightarrow>
     (\<forall>it \<in> set (queue_items s @ its). normal_item it \<and> \<not> expired s horizon it \<and> len it < max_token s)
     \<and> total_bytes (queue_items s @ its) \<le> maxBytes s
     \<and> queue_file s \<in> {None, Some (map Item (queue_items s))}"

lemma expired_mono: "\<not> expired s horizon it \<Longrightarrow> now \<le> horizon \<Longrightarrow> \<not> expired s now it"
  by (auto simp: expired_def time_Sub_def)

lemma store_room_readable: "good_env horizon len env \<Longrightarrow> store_room horizon len s its \<Longrightarrow> readable env s"
  by (auto simp: readable_def store_room_def good_env_def)

lemma loadLocked_room:
  assumes "good_env horizon len env" "store_room horizon len s its"
  shows "\<exists>d. loadLocked env s = ((queue_items s, None), s\<lparr>dropped := d\<rparr>)"
  using loadLocked_readable [OF store_room_readable [OF assms]] by blast

lemma frame_simps [simp]:
  "expired (s\<lparr>dropped := d\<rparr>) = expired s" "expired (s\<lparr>queue_file := f\<rparr>) = expired s"
  "max_token (s\<lparr>dropped := d\<rparr>) = max_token s" "max_token (s\<lparr>queue_file := f\<rparr>) = max_token s"
  by (auto simp: expired_def max_token_def fun_eq_iff)

lemma total_bytes_nonneg: "\<forall>it \<in> set items. normal_item it \<Longrightarrow> 0 \<le> total_bytes items"
  by (induction items) (auto simp: normal_item_def)

lemma total_bytes_take: "\<forall>it \<in> set items. normal_item it \<Longrightarrow> total_bytes (take n items) \<le> total_bytes items"
  using total_bytes_nonneg [of "drop n items"] total_bytes_simps(3) [of "take n items" "drop n items"]
  by (simp add: in_set_dropD)

lemma prune_keeps_all:
  assumes "total_bytes items \<le> maxBytes s" "\<forall>it \<in> set items. \<not> expired s now it"
  shows "prune items now s = (sort_key queue_key items, s)"
proof -
  have "total_bytes (sort_key queue_key items) \<le> maxBytes s"
    using assms(1) total_bytes_mset [of "sort_key queue_key items" items] by simp
  then show ?thesis using assms(2) by (simp add: prune_def cut_tail_id filter_id_conv)
qed

lemma Dequeue_room:
  assumes env: "good_env horizon len env" and room: "store_room horizon len s rest" and n: "0 < n"
  shows "\<exists>s'. Dequeue env n s = ((take (nat n) (queue_items s), None), s')
    \<and> queue_items s' = drop (nat n) (queue_items s) \<and> store_room horizon len s' (take (nat n) (queue_items s) @ rest)"
proof -
  obtain d where load: "loadLocked env s = ((queue_items s, None), s\<lparr>dropped := d\<rparr>)"
    using loadLocked_room [OF env room] by blast
  define m where "m = (if int (length (queue_items s)) < n then length (queue_items s) else nat n)"
  have td: "take m (queue_items s) = take (nat n) (queue_items s)" "drop m (queue_items s) = drop (nat n) (queue_items s)"
    by (auto simp: m_def)
  let ?s' = "s\<lparr>dropped := d, queue_file := Some (map Item (drop (nat n) (queue_items s)))\<rparr>"
  have q: "queue_items ?s' = drop (nat n) (queue_items s)"
    using queue_items_write [where s = "s\<lparr>dropped := d\<rparr>"] by simp
  have "mset (drop (nat n) (queue_items s) @ take (nat n) (queue_items s) @ rest) = mset (queue_items s @ rest)"
    by (metis append_assoc append_take_drop_id mset_append union_commute)
  from total_bytes_mset [OF this]
  have "total_bytes (drop (nat n) (queue_items s) @ take (nat n) (queue_items s) @ rest) \<le> maxBytes s"
    using room by (simp add: store_room_def)
  moreover have "(if n \<le> 0 \<or> int (length (queue_items s)) < n then length (queue_items s) else nat n) = m"
    using n by (simp add: m_def)
  then have "Dequeue env n s = ((take (nat n) (queue_items s), None), ?s')"
    using load env td by (simp add: Dequeue_def writeLocked_def good_env_def Let_def)
  ultimately show ?thesis
    using room q by (auto simp: store_room_def dest: in_set_takeD in_set_dropD)
qed

lemma Enqueue_room:
  assumes env: "good_env horizon len env" and room: "store_room horizon len s (it # its)"
  shows "\<exists>s'. Enqueue env it s = (None, s') \<and> mset (queue_items s') = add_mset it (mset (queue_items s))
    \<and> store_room horizon len s' its"
proof -
  obtain d where load: "loadLocked env s = ((queue_items s, None), s\<lparr>dropped := d\<rparr>)"
    using loadLocked_room [OF env room] by blast
  let ?s1 = "s\<lparr>dropped := d\<rparr>" and ?items = "queue_items s @ [it]"
  have all: "\<forall>x \<in> set (queue_items s @ it # its). normal_item x \<and> \<not> expired s horizon x \<and> len x < max_token s"
    using room by (simp add: store_room_def)
  have norm: "it\<lparr>qi_ApproxBytes := int (length (qi_Payload it)) + 256\<rparr> = it"
    using all by (simp add: normal_item_def)
  have "0 \<le> total_bytes its" using all by (intro total_bytes_nonneg) auto
  then have fits: "total_bytes ?items \<le> maxBytes ?s1" using room by (simp add: store_room_def)
  have "\<not> expired s (q_now env) x" if "\<not> expired s horizon x" for x
    by (rule expired_mono [OF that]) (use env in \<open>simp add: good_env_def\<close>)
  then have "\<forall>x \<in> set ?items. \<not> expired ?s1 (q_now env) x"
    using all by simp
  from prune_keeps_all [OF fits this]
  have p: "prune ?items (q_now env) ?s1 = (sort_key queue_key ?items, ?s1)" .
  let ?s' = "?s1\<lparr>queue_file := Some (map Item (sort_key queue_key ?items))\<rparr>"
  have q: "queue_items ?s' = sort_key queue_key ?items" using queue_items_write [where s = ?s1] by simp
  have "Enqueue env it s = (None, ?s')"
    using load p env all by (simp add: Enqueue_def norm normal_item_def [of it] writeLocked_def good_env_def Let_def)
  moreover have "mset (queue_items ?s') = add_mset it (mset (queue_items s))" by (simp add: q)
  moreover have "total_bytes (queue_items ?s' @ its) \<le> maxBytes s"
    using room total_bytes_mset [of "queue_items ?s' @ its" "queue_items s @ it # its"] q by (simp add: store_room_def)
  ultimately show ?thesis using all q by (auto simp: store_room_def)
qed

interpretation store_queue: offline_queue queue_items Enqueue Dequeue "good_env horizon len" "store_room horizon len"
  for horizon len
proof unfold_locales
  show "\<exists>s'. Dequeue env n s = ((take (nat n) (queue_items s), None), s')
      \<and> queue_items s' = drop (nat n) (queue_items s) \<and> store_room horizon len s' (take (nat n) (queue_items s) @ rest)"
    if "good_env horizon len env" "store_room horizon len s rest" "0 < n" for env s rest n
    using Dequeue_room [OF that] .
  show "\<exists>s'. Enqueue env it s = (None, s') \<and> mset (queue_items s') = add_mset it (mset (queue_items s))
      \<and> store_room horizon len s' its"
    if "good_env horizon len env" "store_room horizon len s (it # its)" for env s it its
    using Enqueue_room [OF that] .
  show "store_room horizon len s its" if "store_room horizon len s (it # its)" for s it its
    using that by (auto simp: store_room_def normal_item_def)
qed

section \<open>Properties\<close>

definition stamped :: "queue_env \<Rightarrow> QueueItem \<Rightarrow> QueueItem" where
  "stamped env item =
     item\<lparr>qi_CreatedAt := (if IsZero (qi_CreatedAt item) then q_now env else qi_CreatedAt item),
          qi_ApproxBytes := int (length (qi_Payload item)) + 256\<rparr>"

definition live_items :: "queue_env \<Rightarrow> Store \<Rightarrow> QueueItem list \<Rightarrow> QueueItem list" where
  "live_items env s items = filter (\<lambda>it. \<not> expired s (q_now env) it) items"

text \<open>The contents are within the limit, or a single item of high priority that exceeds it alone.\<close>

definition within_limit :: "Store \<Rightarrow> bool" where
  "within_limit s \<longleftrightarrow> total_bytes (queue_items s) \<le> maxBytes s \<or> queue_items s = []
     \<or> (\<exists>it. queue_items s = [it] \<and> qi_Priority it = High)"

text \<open>No kept item has a lower priority than a lost one.\<close>

definition outranks :: "QueueItem list \<Rightarrow> QueueItem list \<Rightarrow> bool" where
  "outranks kept lost \<longleftrightarrow> (\<forall>x \<in> set kept. \<forall>y \<in> set lost. qi_Priority y \<le> qi_Priority x)"

text \<open>What the code does among items of one priority: it gives up the newest. (The policy document says the oldest.)\<close>

definition keeps_older :: "QueueItem list \<Rightarrow> QueueItem list \<Rightarrow> bool" where
  "keeps_older kept lost \<longleftrightarrow> (\<forall>x \<in> set kept. \<forall>y \<in> set lost. qi_Priority y = qi_Priority x \<longrightarrow> qi_CreatedAt x \<le> qi_CreatedAt y)"

lemma Enqueue_spec:
  assumes "readable env s" "Enqueue env item s = (None, s')"
  shows "\<exists>lost. mset (queue_items s') + mset lost = mset (live_items env s (queue_items s @ [stamped env item]))
     \<and> sorted (map queue_key (queue_items s')) \<and> outranks (queue_items s') lost \<and> keeps_older (queue_items s') lost \<and> within_limit s'
     \<and> (\<forall>y ys. lost = y # ys \<longrightarrow> maxBytes s < total_bytes (queue_items s' @ [y]))"
    and "dropped s' = dropped s + garbage_lines s + int (length (queue_items s) + 1) - int (length (queue_items s'))"
proof -
  let ?s1 = "s\<lparr>dropped := dropped s + garbage_lines s\<rparr>"
  note load = loadLocked_readable [OF assms(1)]
  obtain kept s2 where p: "prune (queue_items s @ [stamped env item]) (q_now env) ?s1 = (kept, s2)"
    by fastforce
  from prune_spec [OF p] obtain lost where
    ms: "mset kept + mset lost = mset (live_items env s (queue_items s @ [stamped env item]))"
    and so: "sorted (map queue_key (kept @ lost))"
    and ct: "kept = cut_tail (maxBytes s) (kept @ lost)" and s2: "maxBytes s2 = maxBytes s"
    and d: "dropped s2 = dropped s + garbage_lines s + int (length (queue_items s @ [stamped env item]) - length kept)"
    by (auto simp: live_items_def)
  have "writeLocked env kept s2 = (None, s')"
    using assms(2) load p by (auto simp: Enqueue_def stamped_def [symmetric] Let_def split: if_splits)
  then have s': "s' = s2\<lparr>queue_file := Some (map Item kept)\<rparr>"
    by (auto simp: writeLocked_def split: option.splits)
  have q: "queue_items s' = kept" unfolding s' by (rule queue_items_write)
  have order: "qi_Priority y < qi_Priority x \<or> qi_Priority y = qi_Priority x \<and> qi_CreatedAt x \<le> qi_CreatedAt y"
    if "x \<in> set kept" "y \<in> set lost" for x y
  proof -
    from split_list [OF that(2)] obtain l1 l2 where l: "lost = l1 @ y # l2" by blast
    have "sorted (map queue_key ((kept @ l1) @ y # l2))" using so l by simp
    from sorted_key_Priority [OF this, of x] that(1) show ?thesis by simp
  qed
  then have "outranks kept lost" "keeps_older kept lost" by (fastforce simp: outranks_def keeps_older_def)+
  moreover have "within_limit s'"
  proof -
    have "total_bytes kept \<le> maxBytes s \<or> kept = [] \<or> (length kept = 1 \<and> qi_Priority (hd kept) = High)"
      using cut_tail_fits [of "maxBytes s" "kept @ lost", folded ct] .
    then show ?thesis unfolding within_limit_def q using s2 by (cases kept) (auto simp: s')
  qed
  moreover have "lost = y # ys \<Longrightarrow> maxBytes s < total_bytes (kept @ [y])" for y ys
    using cut_tail_maximal [of "kept @ lost" "maxBytes s" y ys] ct by simp
  ultimately show "\<exists>lost. mset (queue_items s') + mset lost = mset (live_items env s (queue_items s @ [stamped env item]))
     \<and> sorted (map queue_key (queue_items s')) \<and> outranks (queue_items s') lost \<and> keeps_older (queue_items s') lost \<and> within_limit s'
     \<and> (\<forall>y ys. lost = y # ys \<longrightarrow> maxBytes s < total_bytes (queue_items s' @ [y]))"
    using ms so q by (intro exI [of _ lost]) (simp add: sorted_append)
  have "size (mset kept + mset lost) \<le> length (queue_items s @ [stamped env item])"
    unfolding ms live_items_def by (simp only: size_mset) (rule length_filter_le)
  then have "length kept \<le> length (queue_items s @ [stamped env item])" by simp
  then have "int (length (queue_items s @ [stamped env item]) - length kept) = int (length (queue_items s) + 1) - int (length kept)"
    by (simp add: of_nat_diff)
  then show "dropped s' = dropped s + garbage_lines s + int (length (queue_items s) + 1) - int (length (queue_items s'))"
    using d q by (simp add: s')
qed

text \<open>Among items of one priority the newest are given up, against the policy document.\<close>

lemma queue_gives_up_the_newest:
  "readable env s \<Longrightarrow> Enqueue env item s = (None, s') \<Longrightarrow>
     \<exists>lost. mset (queue_items s') + mset lost = mset (live_items env s (queue_items s @ [stamped env item])) \<and> keeps_older (queue_items s') lost"
  using Enqueue_spec(1) by blast

text \<open>C10: What the offline queue promises under pressure. After a successful enqueue it holds all its items and the new one
  but those it gave up: the expired ones below high priority, and then live ones of which none has a higher
  priority than any item that is kept. What is kept is in order of priority and age and within the byte budget
  (or a single item of high priority), no more is given up than the budget takes, and the counter of
  dropped items grows by exactly what was given up and by the unreadable lines of the file. (Which of several
  items of one priority goes is left open here.)\<close>

theorem queue_protects_priority:
  assumes "readable env s" "Enqueue env item s = (None, s')"
  shows "(\<exists>lost. mset (queue_items s') + mset lost = mset (live_items env s (queue_items s @ [stamped env item]))
       \<and> outranks (queue_items s') lost
       \<and> (\<forall>y ys. lost = y # ys \<longrightarrow> maxBytes s < total_bytes (queue_items s' @ [y])))
     \<and> sorted (map queue_key (queue_items s')) \<and> within_limit s'
     \<and> (\<forall>it \<in> set (queue_items s @ [stamped env item]). qi_Priority it = High \<longrightarrow>
          it \<in> set (live_items env s (queue_items s @ [stamped env item])))
     \<and> dropped s' = dropped s + garbage_lines s + int (length (queue_items s) + 1) - int (length (queue_items s'))"
  using Enqueue_spec [OF assms] by (auto simp: live_items_def expired_def)

definition demo_item :: "string \<Rightarrow> Priority \<Rightarrow> go_time \<Rightarrow> QueueItem" where
  "demo_item i p t = \<lparr>qi_ID = i, qi_Kind = ''telemetry'', qi_Priority = p, qi_CreatedAt = t, qi_Payload = ''x'',
     qi_ApproxBytes = 257\<rparr>"

definition demo_env :: queue_env where
  "demo_env = \<lparr>q_now = 1000, q_readErr = None, q_writeErr = None, line_len = (\<lambda>it. 80)\<rparr>"

definition demo_store :: "QueueItem list \<Rightarrow> Store" where
  "demo_store items = \<lparr>queue_file = Some (map Item items), maxBytes = 600, maxAge = 0, dropped = 0\<rparr>"

text \<open>The queue is full with a low and a high item; of the two low items one is given up, and the high one stays.\<close>

lemma demo_enqueue:
  "Enqueue demo_env (demo_item ''c'' Low 30) (demo_store [demo_item ''a'' Low 10, demo_item ''b'' High 20]) =
     (None, demo_store [demo_item ''b'' High 20, demo_item ''a'' Low 10]\<lparr>dropped := 1\<rparr>)"
  by code_simp

theorem queue_protects_priority_witness:
  "\<exists>lost. mset [demo_item ''b'' High 20, demo_item ''a'' Low 10] + mset lost =
     mset (live_items demo_env (demo_store [demo_item ''a'' Low 10, demo_item ''b'' High 20])
       ([demo_item ''a'' Low 10, demo_item ''b'' High 20] @ [stamped demo_env (demo_item ''c'' Low 30)]))
     \<and> outranks [demo_item ''b'' High 20, demo_item ''a'' Low 10] lost"
proof -
  have "readable demo_env (demo_store [demo_item ''a'' Low 10, demo_item ''b'' High 20])"
    by (simp add: readable_def demo_store_def demo_env_def max_token_def)
  from queue_protects_priority [OF this demo_enqueue, THEN conjunct1] show ?thesis
    by (auto simp: demo_store_def queue_items_def List.map_filter_simps)
qed

text \<open>C11: A flush neither loses nor invents an item: as long as the queue was within its limits,
  nothing in it is about to expire and the file can be read and written, what was delivered and
  what is queued afterwards are together exactly what was queued before; the delivered items are
  the first of the queue in order, all sixteen of them unless a delivery failed.\<close>

theorem flush_loses_nothing:
  assumes "\<And>w. good_env horizon len (fst (next_env l w))" "store_room horizon len s []"
    and "flush l s w = (done, err, s', w')"
  shows "mset (queue_items s) = mset done + mset (queue_items s')
    \<and> (\<exists>unsent. take 16 (queue_items s) = done @ unsent \<and> (err = None \<longrightarrow> unsent = []))
    \<and> store_room horizon len s' []"
  by (rule store_queue.flush_conserves [OF assms(1,2) assms(3) [unfolded flush_def]])

text \<open>A link that delivers one item and then fails.\<close>

definition demo_link :: "nat link" where
  "demo_link = \<lparr>next_env = (\<lambda>w. (demo_env, w)),
     PostEnvelope = (\<lambda>endpoint schema raw w. (if w = 0 then None else Some (ErrorString ''offline''), Suc w))\<rparr>"

lemma demo_flush:
  "flush demo_link (demo_store [demo_item ''b'' High 20, demo_item ''a'' Low 10]) 0 =
     ([demo_item ''b'' High 20], Some (ErrorString ''offline''), demo_store [demo_item ''a'' Low 10], 2)"
  by code_simp

theorem flush_loses_nothing_witness:
  "mset (queue_items (demo_store [demo_item ''b'' High 20, demo_item ''a'' Low 10])) =
     mset [demo_item ''b'' High 20] + mset (queue_items (demo_store [demo_item ''a'' Low 10]))"
proof -
  have "good_env 1000 (\<lambda>it. 80) (fst (next_env demo_link w))" for w
    by (simp add: good_env_def demo_link_def demo_env_def)
  moreover have "store_room 1000 (\<lambda>it. 80) (demo_store [demo_item ''b'' High 20, demo_item ''a'' Low 10]) []"
    by (simp add: store_room_def demo_store_def queue_items_def List.map_filter_simps demo_item_def normal_item_def
        IsZero_def zero_time_def expired_def max_token_def)
  ultimately show ?thesis using flush_loses_nothing [OF _ _ demo_flush] by blast
qed

end
