(* ===== verification/AgentConfig.thy ===== *)
theory AgentConfig
  imports AgentOTA
begin

text \<open>
  The configuration of the agent, \<^verbatim>\<open>agent/internal/config/config.go\<close>: its data, the
  default, the reading and writing of the file, and its validation. How durations and floats are
  written (with \<^verbatim>\<open>%g\<close>, and without an exponent in the editor) and read is a parameter, \<open>codec\<close>. The struct \<^verbatim>\<open>OTAConfig\<close> has the
  fields of the engine's \<open>Config\<close>, into which the agent copies it.
\<close>

section \<open>Data\<close>

record ServerConfig =
  Endpoint :: string
  CAFile :: string
  ConnectTimeout :: duration

record IdentityConfig =
  id_StateDir :: string
  UseTPM :: bool

record StorageConfig =
  st_StateDir :: string
  MaxQueueBytes :: int
  MaxQueueAge :: duration

record TelemetryConfig =
  Interval :: duration
  Jitter :: duration
  Collectors :: "bool go_map"

record JobsConfig =
  MaxConcurrent :: int
  DefaultTimeout :: duration
  AllowShell :: bool

record ContainerConfig =
  Provider :: string
  Socket :: string

record GatewayConfig =
  gw_Enabled :: bool
  ConnectorDir :: string

record LocationConfig =
  lc_Source :: string
  lc_Latitude :: u64
  lc_Longitude :: u64
  lc_Label :: string
  GPSDAddress :: string
  IPURL :: string

type_synonym OTAConfig = Config

record agent_config =
  ac_Version :: int
  ac_Server :: ServerConfig
  ac_Identity :: IdentityConfig
  ac_Storage :: StorageConfig
  ac_Telemetry :: TelemetryConfig
  ac_Jobs :: JobsConfig
  ac_Containers :: ContainerConfig
  ac_Gateway :: GatewayConfig
  ac_Location :: LocationConfig
  ac_OTA :: OTAConfig

definition Default :: agent_config where
  "Default =
     \<lparr>ac_Version = 1,
      ac_Server = \<lparr>Endpoint = ''https://127.0.0.1:9443'', CAFile = [], ConnectTimeout = 15 * Second\<rparr>,
      ac_Identity = \<lparr>id_StateDir = ''/var/lib/edge-agent/identity'', UseTPM = False\<rparr>,
      ac_Storage = \<lparr>st_StateDir = ''/var/lib/edge-agent'', MaxQueueBytes = 100 * 1024 * 1024, MaxQueueAge = 168 * Hour\<rparr>,
      ac_Telemetry = \<lparr>Interval = 60 * Second, Jitter = 10 * Second,
        Collectors = [(''cpu'', True), (''memory'', True), (''disk'', True), (''network'', True), (''uptime'', True),
                      (''os'', True), (''processes'', False)]\<rparr>,
      ac_Jobs = \<lparr>MaxConcurrent = 2, DefaultTimeout = 10 * Minute, AllowShell = False\<rparr>,
      ac_Containers = \<lparr>Provider = ''docker'', Socket = ''unix:///var/run/docker.sock''\<rparr>,
      ac_Gateway = \<lparr>gw_Enabled = True, ConnectorDir = ''/etc/edge-agent/connectors.d''\<rparr>,
      ac_Location = \<lparr>lc_Source = ''disabled'', lc_Latitude = 0, lc_Longitude = 0, lc_Label = [],
        GPSDAddress = ''127.0.0.1:2947'', IPURL = ''https://ipwho.is/''\<rparr>,
      ac_OTA = \<lparr>Enabled = True, cfg_Product = [], StateDir = ''/var/lib/edge-agent/ota'',
        StagingDir = ''/var/lib/edge-agent/ota/staging'', TrustedKeysDir = ''/etc/edge-agent/trusted-update-keys'',
        PluginDir = ''/usr/libexec/edge-agent/ota'', MaxArtifactBytes = 4 * 1024 * 1024 * 1024,
        MinFreeBytes = 256 * 1024 * 1024, DownloadTimeout = 2 * Hour, HealthTimeout = 2 * Minute,
        HealthCheckCommand = [], AutoReboot = False\<rparr>\<rparr>"

section \<open>Reading values\<close>

record codec =
  ParseDuration :: "string \<Rightarrow> duration result"
  Duration_String :: "duration \<Rightarrow> string"
  ParseFloat :: "string \<Rightarrow> u64 result"
  fmt_float :: "u64 \<Rightarrow> string"
  FormatFloat :: "u64 \<Rightarrow> string"

text \<open>The errors of \<^verbatim>\<open>strconv\<close>: the text is no number, or a number that does not fit.\<close>

definition num_error :: "string \<Rightarrow> string \<Rightarrow> bool \<Rightarrow> go_error" where
  "num_error fn s syntax =
     ErrorString (''strconv.'' @ fn @ '': parsing '' @ quote s @ (if syntax then '': invalid syntax'' else '': value out of range''))"

definition signed_digits :: "string \<Rightarrow> bool" where
  "signed_digits s \<longleftrightarrow>
     (let body = (if HasPrefix s ''-'' \<or> HasPrefix s ''+'' then tl s else s) in body \<noteq> [] \<and> list_all is_digit body)"

definition read_int :: "string \<Rightarrow> string \<Rightarrow> int result" where
  "read_int fn s = (case ParseInt s of Some v \<Rightarrow> Inr v | None \<Rightarrow> Inl (num_error fn s (\<not> signed_digits s)))"

definition read_uint :: "string \<Rightarrow> u64 result" where
  "read_uint s =
     (case ParseUint s of
        Some v \<Rightarrow> Inr (of_nat v)
      | None \<Rightarrow> Inl (num_error ''ParseUint'' s (s = [] \<or> \<not> list_all is_digit s)))"

definition parseBool :: "string \<Rightarrow> bool" where
  "parseBool s \<longleftrightarrow> EqualFold s ''true'' \<or> s = ''1'' \<or> EqualFold s ''yes''"

section \<open>Setting a value\<close>

text \<open>A key that is not known changes nothing.\<close>

abbreviation (input) upd :: "'a result \<Rightarrow> ('a \<Rightarrow> 'b) \<Rightarrow> 'b result" where
  "upd r f \<equiv> map_sum id f r"

definition set_server :: "codec \<Rightarrow> string \<Rightarrow> string \<Rightarrow> ServerConfig \<Rightarrow> ServerConfig result" where
  "set_server cd key value c =
     (if key = ''endpoint'' then Inr (c\<lparr>Endpoint := value\<rparr>)
      else if key = ''ca_file'' then Inr (c\<lparr>CAFile := value\<rparr>)
      else if key = ''connect_timeout'' then upd (ParseDuration cd value) (\<lambda>d. c\<lparr>ConnectTimeout := d\<rparr>)
      else Inr c)"

definition set_identity :: "string \<Rightarrow> string \<Rightarrow> IdentityConfig \<Rightarrow> IdentityConfig result" where
  "set_identity key value c =
     (if key = ''state_dir'' then Inr (c\<lparr>id_StateDir := value\<rparr>)
      else if key = ''use_tpm'' then Inr (c\<lparr>UseTPM := parseBool value\<rparr>)
      else Inr c)"

definition set_storage :: "codec \<Rightarrow> string \<Rightarrow> string \<Rightarrow> StorageConfig \<Rightarrow> StorageConfig result" where
  "set_storage cd key value c =
     (if key = ''state_dir'' then Inr (c\<lparr>st_StateDir := value\<rparr>)
      else if key = ''max_queue_bytes'' then upd (read_int ''ParseInt'' value) (\<lambda>v. c\<lparr>MaxQueueBytes := v\<rparr>)
      else if key = ''max_queue_age'' then upd (ParseDuration cd value) (\<lambda>d. c\<lparr>MaxQueueAge := d\<rparr>)
      else Inr c)"

definition set_telemetry :: "codec \<Rightarrow> string \<Rightarrow> string \<Rightarrow> TelemetryConfig \<Rightarrow> TelemetryConfig result" where
  "set_telemetry cd key value c =
     (if key = ''interval'' then upd (ParseDuration cd value) (\<lambda>d. c\<lparr>Interval := d\<rparr>)
      else if key = ''jitter'' then upd (ParseDuration cd value) (\<lambda>d. c\<lparr>Jitter := d\<rparr>)
      else if HasPrefix key ''collectors.''
      then Inr (c\<lparr>Collectors := mput (TrimPrefix key ''collectors.'') (parseBool value) (Collectors c)\<rparr>)
      else Inr c)"

definition set_jobs :: "codec \<Rightarrow> string \<Rightarrow> string \<Rightarrow> JobsConfig \<Rightarrow> JobsConfig result" where
  "set_jobs cd key value c =
     (if key = ''max_concurrent'' then upd (read_int ''Atoi'' value) (\<lambda>v. c\<lparr>MaxConcurrent := v\<rparr>)
      else if key = ''default_timeout'' then upd (ParseDuration cd value) (\<lambda>d. c\<lparr>DefaultTimeout := d\<rparr>)
      else if key = ''allow_shell'' then Inr (c\<lparr>AllowShell := parseBool value\<rparr>)
      else Inr c)"

definition set_containers :: "string \<Rightarrow> string \<Rightarrow> ContainerConfig \<Rightarrow> ContainerConfig result" where
  "set_containers key value c =
     (if key = ''provider'' then Inr (c\<lparr>Provider := value\<rparr>)
      else if key = ''socket'' then Inr (c\<lparr>Socket := value\<rparr>)
      else Inr c)"

definition set_gateway :: "string \<Rightarrow> string \<Rightarrow> GatewayConfig \<Rightarrow> GatewayConfig result" where
  "set_gateway key value c =
     (if key = ''enabled'' then Inr (c\<lparr>gw_Enabled := parseBool value\<rparr>)
      else if key = ''connector_dir'' then Inr (c\<lparr>ConnectorDir := value\<rparr>)
      else Inr c)"

definition set_location :: "codec \<Rightarrow> string \<Rightarrow> string \<Rightarrow> LocationConfig \<Rightarrow> LocationConfig result" where
  "set_location cd key value c =
     (if key = ''source'' then Inr (c\<lparr>lc_Source := ToLower value\<rparr>)
      else if key = ''latitude'' then upd (ParseFloat cd value) (\<lambda>v. c\<lparr>lc_Latitude := v\<rparr>)
      else if key = ''longitude'' then upd (ParseFloat cd value) (\<lambda>v. c\<lparr>lc_Longitude := v\<rparr>)
      else if key = ''label'' then Inr (c\<lparr>lc_Label := value\<rparr>)
      else if key = ''gpsd_address'' then Inr (c\<lparr>GPSDAddress := value\<rparr>)
      else if key = ''ip_url'' then Inr (c\<lparr>IPURL := value\<rparr>)
      else Inr c)"

definition set_ota :: "codec \<Rightarrow> string \<Rightarrow> string \<Rightarrow> OTAConfig \<Rightarrow> OTAConfig result" where
  "set_ota cd key value c =
     (if key = ''enabled'' then Inr (c\<lparr>Enabled := parseBool value\<rparr>)
      else if key = ''product'' then Inr (c\<lparr>cfg_Product := value\<rparr>)
      else if key = ''state_dir'' then Inr (c\<lparr>StateDir := value\<rparr>)
      else if key = ''staging_dir'' then Inr (c\<lparr>StagingDir := value\<rparr>)
      else if key = ''trusted_keys_dir'' then Inr (c\<lparr>TrustedKeysDir := value\<rparr>)
      else if key = ''plugin_dir'' then Inr (c\<lparr>PluginDir := value\<rparr>)
      else if key = ''max_artifact_bytes'' then upd (read_int ''ParseInt'' value) (\<lambda>v. c\<lparr>MaxArtifactBytes := v\<rparr>)
      else if key = ''min_free_bytes'' then upd (read_uint value) (\<lambda>v. c\<lparr>MinFreeBytes := v\<rparr>)
      else if key = ''download_timeout'' then upd (ParseDuration cd value) (\<lambda>d. c\<lparr>DownloadTimeout := d\<rparr>)
      else if key = ''health_timeout'' then upd (ParseDuration cd value) (\<lambda>d. c\<lparr>HealthTimeout := d\<rparr>)
      else if key = ''health_check_command'' then Inr (c\<lparr>HealthCheckCommand := value\<rparr>)
      else if key = ''auto_reboot'' then Inr (c\<lparr>AutoReboot := parseBool value\<rparr>)
      else Inr c)"

definition setValue :: "codec \<Rightarrow> string \<Rightarrow> string \<Rightarrow> string \<Rightarrow> agent_config \<Rightarrow> agent_config result" where
  "setValue cd sec key value c =
     (if sec = [] then
        if key = ''version'' then upd (read_int ''Atoi'' value) (\<lambda>v. c\<lparr>ac_Version := v\<rparr>) else Inr c
      else if sec = ''server'' then upd (set_server cd key value (ac_Server c)) (\<lambda>x. c\<lparr>ac_Server := x\<rparr>)
      else if sec = ''identity'' then upd (set_identity key value (ac_Identity c)) (\<lambda>x. c\<lparr>ac_Identity := x\<rparr>)
      else if sec = ''storage'' then upd (set_storage cd key value (ac_Storage c)) (\<lambda>x. c\<lparr>ac_Storage := x\<rparr>)
      else if sec = ''telemetry'' then upd (set_telemetry cd key value (ac_Telemetry c)) (\<lambda>x. c\<lparr>ac_Telemetry := x\<rparr>)
      else if sec = ''jobs'' then upd (set_jobs cd key value (ac_Jobs c)) (\<lambda>x. c\<lparr>ac_Jobs := x\<rparr>)
      else if sec = ''containers'' then upd (set_containers key value (ac_Containers c)) (\<lambda>x. c\<lparr>ac_Containers := x\<rparr>)
      else if sec = ''gateway'' then upd (set_gateway key value (ac_Gateway c)) (\<lambda>x. c\<lparr>ac_Gateway := x\<rparr>)
      else if sec = ''location'' then upd (set_location cd key value (ac_Location c)) (\<lambda>x. c\<lparr>ac_Location := x\<rparr>)
      else if sec = ''ota'' then upd (set_ota cd key value (ac_OTA c)) (\<lambda>x. c\<lparr>ac_OTA := x\<rparr>)
      else Inr c)"

section \<open>Validation\<close>

definition config_Validate :: "agent_config \<Rightarrow> go_error option" where
  "config_Validate c =
     (let location = ac_Location c; ota = ac_OTA c in
      if ac_Version c \<noteq> 1 then Some (ErrorString (''unsupported config version '' @ itoa (ac_Version c)))
      else if \<not> HasPrefix (Endpoint (ac_Server c)) ''https://'' then Some (ErrorString ''server.endpoint must use https'')
      else if id_StateDir (ac_Identity c) = [] then Some (ErrorString ''identity.state_dir is required'')
      else if st_StateDir (ac_Storage c) = [] then Some (ErrorString ''storage.state_dir is required'')
      else if MaxQueueBytes (ac_Storage c) < 1024 * 1024 then Some (ErrorString ''storage.max_queue_bytes must be at least 1 MiB'')
      else if Interval (ac_Telemetry c) < Second then Some (ErrorString ''telemetry.interval must be at least 1s'')
      else if MaxConcurrent (ac_Jobs c) < 1 then Some (ErrorString ''jobs.max_concurrent must be positive'')
      else if AllowShell (ac_Jobs c) then Some (ErrorString ''jobs.allow_shell must remain false for production handler set'')
      else if lc_Source location \<noteq> ''disabled'' \<and> lc_Source location \<noteq> ''static'' \<and> lc_Source location \<noteq> ''gpsd''
           \<and> lc_Source location \<noteq> ''ip''
      then Some (ErrorString ''location.source must be disabled, static, gpsd, or ip'')
      else if lc_Source location = ''static'' \<and> (f64_lt (lc_Latitude location) (f64_neg f64_90) \<or> f64_lt f64_90 (lc_Latitude location)
              \<or> f64_lt (lc_Longitude location) (f64_neg f64_180) \<or> f64_lt f64_180 (lc_Longitude location))
      then Some (ErrorString ''static location coordinates are invalid'')
      else if lc_Source location = ''ip'' \<and> \<not> HasPrefix (IPURL location) ''https://''
      then Some (ErrorString ''location.ip_url must use https'')
      else if Enabled ota then
        if StateDir ota = [] \<or> StagingDir ota = [] \<or> TrustedKeysDir ota = [] \<or> PluginDir ota = []
        then Some (ErrorString ''ota directories are required when OTA is enabled'')
        else if MaxArtifactBytes ota < 1024 * 1024 then Some (ErrorString ''ota.max_artifact_bytes must be at least 1 MiB'')
        else if DownloadTimeout ota < Minute \<or> HealthTimeout ota < Second
        then Some (ErrorString ''OTA download and health timeouts are too short'')
        else None
      else None)"

section \<open>Loading\<close>

text \<open>
  The lines of a file as \<^verbatim>\<open>bufio.Scanner\<close> yields them: without the final newline, and
  without a carriage return before it, up to the first line that does not fit its buffer.
\<close>

definition newline :: char where "newline = CHR 0x0A"

definition drop_cr :: "string \<Rightarrow> string" where
  "drop_cr l = (if l \<noteq> [] \<and> last l = CHR 0x0D then butlast l else l)"

definition file_lines :: "string \<Rightarrow> string list" where
  "file_lines s = (let ls = Split newline s in if last ls = [] then butlast ls else ls)"

definition max_line :: nat where "max_line = 65536"

definition scan_lines :: "string \<Rightarrow> string list \<times> go_error option" where
  "scan_lines s =
     (let ls = takeWhile (\<lambda>l. length l < max_line) (file_lines s) in
      (map drop_cr ls, if length ls = length (file_lines s) then None else Some (ErrorString ''bufio.Scanner: token too long'')))"

text \<open>One line that is neither blank nor a comment: the section, the subsection and the configuration after it.\<close>

definition load_line ::
  "codec \<Rightarrow> string \<Rightarrow> string \<times> string \<times> agent_config \<Rightarrow> (string \<times> string \<times> agent_config) result" where
  "load_line cd raw = (\<lambda>(sec, sub, c).
     (let line = TrimSpace raw in
      if line = [] \<or> HasPrefix line ''#'' then Inr (sec, sub, c)
      else let indent = length raw - length (TrimLeft raw '' '') in
        if HasSuffix line '':'' then
          if indent = 0 then Inr (TrimSuffix line '':'', [], c) else Inr (sec, TrimSuffix line '':'', c)
        else case Cut CHR '':'' line of
          None \<Rightarrow> Inl (ErrorString (''invalid config line '' @ quote raw))
        | Some (key, value) \<Rightarrow>
            (let key = TrimSpace key; value = Trim (TrimSpace value) [CHR 0x22];
                 key = (if sub \<noteq> [] then sub @ ''.'' @ key else key) in
             upd (setValue cd sec key value c) (\<lambda>c. (sec, sub, c)))))"

text \<open>On an error the configuration read so far is returned beside it.\<close>

fun load_lines :: "codec \<Rightarrow> string list \<Rightarrow> string \<times> string \<times> agent_config \<Rightarrow> agent_config \<times> go_error option" where
  "load_lines cd [] (sec, sub, c) = (c, None)"
| "load_lines cd (raw # ls) st =
     (case load_line cd raw st of
        Inl err \<Rightarrow> (snd (snd st), Some err)
      | Inr st \<Rightarrow> load_lines cd ls st)"

definition Load :: "codec \<Rightarrow> string result \<Rightarrow> agent_config \<times> go_error option" where
  "Load cd file =
     (case file of
        Inl err \<Rightarrow> (Default, Some err)
      | Inr s \<Rightarrow>
          (let (ls, scan_err) = scan_lines s; (c, err) = load_lines cd ls ([], [], Default) in
           case err of
             Some e \<Rightarrow> (c, Some e)
           | None \<Rightarrow> (case scan_err of Some e \<Rightarrow> (c, Some e) | None \<Rightarrow> (c, config_Validate c))))"

section \<open>Saving\<close>

text \<open>A section of the file: its name and its settings, two spaces in (the collectors four).\<close>

definition setting :: "nat \<Rightarrow> string \<times> string \<Rightarrow> string" where
  "setting n = (\<lambda>(key, value). replicate n CHR '' '' @ key @ '': '' @ value @ [newline])"

definition render_section :: "string \<Rightarrow> (string \<times> string) list \<Rightarrow> string" where
  "render_section name kvs = name @ '':'' @ [newline] @ concat (map (setting 2) kvs)"

definition sorted_keys :: "'v go_map \<Rightarrow> string list" where
  "sorted_keys m = sort_key (map (of_char :: char \<Rightarrow> nat)) (map fst m)"

definition flag :: "bool go_map \<Rightarrow> string \<Rightarrow> bool" where
  "flag m name = (mget m name = Some True)"

definition render :: "codec \<Rightarrow> agent_config \<Rightarrow> string" where
  "render cd c =
     (let sv = ac_Server c; idn = ac_Identity c; st = ac_Storage c; te = ac_Telemetry c; jo = ac_Jobs c; co = ac_Containers c;
          gw = ac_Gateway c; lo = ac_Location c; ota = ac_OTA c in
      setting 0 (''version'', itoa (ac_Version c))
      @ render_section ''server'' [(''endpoint'', Endpoint sv), (''ca_file'', CAFile sv),
          (''connect_timeout'', Duration_String cd (ConnectTimeout sv))]
      @ render_section ''identity'' [(''state_dir'', id_StateDir idn), (''use_tpm'', fmt_bool (UseTPM idn))]
      @ render_section ''storage'' [(''state_dir'', st_StateDir st), (''max_queue_bytes'', itoa (MaxQueueBytes st)),
          (''max_queue_age'', Duration_String cd (MaxQueueAge st))]
      @ render_section ''telemetry'' [(''interval'', Duration_String cd (Interval te)), (''jitter'', Duration_String cd (Jitter te))]
      @ ''  collectors:'' @ [newline]
      @ concat (map (\<lambda>name. setting 4 (name, fmt_bool (flag (Collectors te) name))) (sorted_keys (Collectors te)))
      @ render_section ''jobs'' [(''max_concurrent'', itoa (MaxConcurrent jo)),
          (''default_timeout'', Duration_String cd (DefaultTimeout jo)), (''allow_shell'', fmt_bool (AllowShell jo))]
      @ render_section ''containers'' [(''provider'', Provider co), (''socket'', Socket co)]
      @ render_section ''gateway'' [(''enabled'', fmt_bool (gw_Enabled gw)), (''connector_dir'', ConnectorDir gw)]
      @ render_section ''location'' [(''source'', lc_Source lo), (''latitude'', fmt_float cd (lc_Latitude lo)),
          (''longitude'', fmt_float cd (lc_Longitude lo)), (''label'', lc_Label lo), (''gpsd_address'', GPSDAddress lo),
          (''ip_url'', IPURL lo)]
      @ render_section ''ota'' [(''enabled'', fmt_bool (Enabled ota)), (''product'', cfg_Product ota), (''state_dir'', StateDir ota),
          (''staging_dir'', StagingDir ota), (''trusted_keys_dir'', TrustedKeysDir ota), (''plugin_dir'', PluginDir ota),
          (''max_artifact_bytes'', itoa (MaxArtifactBytes ota)), (''min_free_bytes'', utoa (unat (MinFreeBytes ota))),
          (''download_timeout'', Duration_String cd (DownloadTimeout ota)), (''health_timeout'', Duration_String cd (HealthTimeout ota)),
          (''health_check_command'', HealthCheckCommand ota), (''auto_reboot'', fmt_bool (AutoReboot ota))])"

text \<open>
  The file system as far as saving needs it: the errors of its steps. The file is its text with its
  mode; it is written under a temporary name and renamed.
\<close>

record save_env =
  sv_mkdir :: "go_error option"
  sv_create :: "go_error option"
  sv_chmod :: "go_error option"
  sv_write :: "go_error option"
  sv_sync :: "go_error option"
  sv_close :: "go_error option"
  sv_rename :: "go_error option"

type_synonym config_file = "(string \<times> nat) option"

fun first_error :: "go_error option list \<Rightarrow> go_error option" where
  "first_error [] = None"
| "first_error (Some e # es) = Some e"
| "first_error (None # es) = first_error es"

definition Save :: "codec \<Rightarrow> save_env \<Rightarrow> agent_config \<Rightarrow> config_file \<Rightarrow> go_error option \<times> config_file" where
  "Save cd env c f =
     (case config_Validate c of
        Some err \<Rightarrow> (Some err, f)
      | None \<Rightarrow>
          (let mode = (case f of Some (text, mode) \<Rightarrow> mode | None \<Rightarrow> 416) in
           case first_error [sv_mkdir env, sv_create env, sv_chmod env, sv_write env, sv_sync env, sv_close env, sv_rename env] of
             Some err \<Rightarrow> (Some err, f)
           | None \<Rightarrow> (None, Some (render cd c, mode))))"

end
