(* ===== verification/AgentConfigFile.thy ===== *)
theory AgentConfigFile
  imports AgentConfig
begin

text \<open>
  What saving a configuration and loading it again preserves: in each section of the file the
  settings up to the first empty one, because a line that ends in a colon opens a subsection.
\<close>

section \<open>Values that survive in a line\<close>

definition plain :: "string \<Rightarrow> bool" where
  "plain v \<longleftrightarrow> newline \<notin> set v \<and> TrimSpace v = v \<and> Trim v [CHR 0x22] = v \<and> (v \<noteq> [] \<longrightarrow> last v \<noteq> CHR '':'') \<and> length v < 65000"

definition plain_key :: "string \<Rightarrow> bool" where
  "plain_key k \<longleftrightarrow> plain k \<and> k \<noteq> [] \<and> CHR '':'' \<notin> set k \<and> hd k \<noteq> CHR ''#'' \<and> length k < 500"

lemma is_space_simps [simp]: "is_space CHR '' ''" "is_space newline" "is_space CHR 0x0D" "\<not> is_space CHR '':''"
  "\<not> is_space CHR ''#''"
  by code_simp+

lemma newline_neq [simp]: "newline \<noteq> CHR '':''" "newline \<noteq> CHR '' ''" "newline \<noteq> CHR ''.''"
  by code_simp+

lemma TrimFunc_fixed: "TrimFunc p s = s \<longleftrightarrow> s = [] \<or> \<not> p (hd s) \<and> \<not> p (last s)"
  by (metis TrimFunc_ends TrimFunc_eq_self)

lemma TrimSpace_fixed: "TrimSpace s = s \<longleftrightarrow> s = [] \<or> \<not> is_space (hd s) \<and> \<not> is_space (last s)"
  by (simp add: TrimSpace_def TrimFunc_fixed)

lemma dropWhile_replicate: "p x \<Longrightarrow> dropWhile p (replicate n x @ s) = dropWhile p s"
  by (induction n) simp_all

lemma TrimSpace_line:
  assumes "k \<noteq> []" "\<not> is_space (hd k)" "TrimSpace v = v"
  shows "TrimSpace (replicate n CHR '' '' @ k @ '': '' @ v) = k @ (if v = [] then '':'' else '': '' @ v)"
proof -
  have "dropWhile is_space (replicate n CHR '' '' @ k @ '': '' @ v) = k @ '': '' @ v"
    using assms(1,2) by (cases k) (simp_all add: dropWhile_replicate)
  then have line: "TrimSpace (replicate n CHR '' '' @ k @ '': '' @ v) = TrimRightFunc is_space (k @ '': '' @ v)"
    by (simp only: TrimSpace_def TrimFunc_def)
  show ?thesis
  proof (cases "v = []")
    case True
    then show ?thesis unfolding line by (simp add: TrimRightFunc_def)
  next
    case False
    then have "\<not> is_space (last (k @ '': '' @ v))" using assms(3) by (simp add: TrimSpace_fixed)
    then show ?thesis using False unfolding line by (simp add: TrimRightFunc_eq_self)
  qed
qed

section \<open>One line\<close>

text \<open>The keys of the file are words.\<close>

definition word_char :: "char \<Rightarrow> bool" where
  "word_char c \<longleftrightarrow> is_lower c \<or> c = CHR ''_''"

lemma word_char_ends:
  assumes "word_char c"
  shows "\<not> is_space c" "c \<noteq> CHR 0x22" "c \<noteq> CHR '':''" "c \<noteq> CHR ''#''" "c \<noteq> newline"
  using assms by (auto simp: word_char_def char_classes newline_def)

lemma word_key:
  assumes "list_all word_char k" "k \<noteq> []" "length k < 500"
  shows "plain_key k"
proof -
  have all: "word_char c" if "c \<in> set k" for c using assms(1) that by (simp add: list_all_iff)
  have "word_char (hd k)" "word_char (last k)" using all assms(2) by simp_all
  then have "TrimSpace k = k" "Trim k [CHR 0x22] = k" "last k \<noteq> CHR '':''" "hd k \<noteq> CHR ''#''"
    using word_char_ends by (simp_all add: TrimSpace_fixed Trim_def TrimFunc_fixed)
  moreover have "newline \<notin> set k" "CHR '':'' \<notin> set k" using all word_char_ends by blast+
  ultimately show ?thesis using assms(2,3) by (simp add: plain_key_def plain_def)
qed

lemma indent_line [simp]: "k \<noteq> [] \<Longrightarrow> hd k \<noteq> CHR '' '' \<Longrightarrow>
    length (replicate n CHR '' '' @ k @ v) - length (TrimLeft (replicate n CHR '' '' @ k @ v) '' '') = n"
  by (cases k) (simp_all add: TrimLeft_def dropWhile_replicate)

lemma plain_keyD:
  assumes "plain_key k"
  shows "k \<noteq> []" "\<not> is_space (hd k)" "hd k \<noteq> CHR '' ''" "TrimSpace k = k" "CHR '':'' \<notin> set k" "hd k \<noteq> CHR ''#''" "newline \<notin> set k"
  using assms by (auto simp: plain_key_def plain_def TrimSpace_fixed)

definition full_key :: "string \<Rightarrow> string \<Rightarrow> string" where
  "full_key sub k = (if sub \<noteq> [] then sub @ ''.'' @ k else k)"

lemma HasSuffix_last: "s \<noteq> [] \<Longrightarrow> HasSuffix s [x] \<longleftrightarrow> last s = x"
  by (auto simp: HasSuffix_def HasPrefix_def last_rev hd_rev take_Suc hd_conv_nth [symmetric])

lemma HasPrefix_hd: "k \<noteq> [] \<Longrightarrow> HasPrefix (k @ s) [x] \<longleftrightarrow> hd k = x"
  by (cases k) (auto simp: HasPrefix_def)

lemma load_setting:
  assumes k: "plain_key k" and v: "plain v" "v \<noteq> []"
  shows "load_line cd (replicate n CHR '' '' @ k @ '': '' @ v) (sec, sub, c)
    = map_sum id (\<lambda>c. (sec, sub, c)) (setValue cd sec (full_key sub k) v c)"
proof -
  note key = plain_keyD [OF k]
  have line: "TrimSpace (replicate n CHR '' '' @ k @ '': '' @ v) = k @ '': '' @ v"
    using TrimSpace_line [OF key(1,2), of v n] v by (simp add: plain_def)
  have cut: "Cut CHR '':'' (k @ '': '' @ v) = Some (k, '' '' @ v)" using key(5) by (simp add: Cut_Some)
  have val: "TrimSpace ('' '' @ v) = v" using v by (simp add: plain_def TrimSpace_def TrimFunc_def)
  have "\<not> HasSuffix (k @ '': '' @ v) '':''" "\<not> HasPrefix (k @ '': '' @ v) ''#''"
    using v key(1,6) by (simp_all add: HasSuffix_last plain_def HasPrefix_hd del: append.simps append_Cons)
  then show ?thesis
    using v key(1,4) unfolding load_line_def line
    by (simp add: Let_def cut [simplified] val [simplified] full_key_def plain_def)
qed

text \<open>A setting without a value opens a subsection.\<close>

lemma load_empty_setting:
  assumes k: "plain_key k" and n: "0 < n"
  shows "load_line cd (replicate n CHR '' '' @ k @ '': '') (sec, sub, c) = Inr (sec, k, c)"
proof -
  note key = plain_keyD [OF k]
  have line: "TrimSpace (replicate n CHR '' '' @ k @ '': '') = k @ '':''"
    using TrimSpace_line [OF key(1,2), of "[]" n] by simp
  have "\<not> HasPrefix (k @ '':'') ''#''" using key(6) HasPrefix_hd [OF key(1)] by blast
  moreover have "HasSuffix (k @ '':'') '':''" "TrimSuffix (k @ '':'') '':'' = k"
    by (simp_all add: HasSuffix_iff TrimSuffix_def)
  ultimately show ?thesis
    using n indent_line [OF key(1,3), of n "'': ''"] unfolding load_line_def line by (simp add: Let_def)
qed

lemma load_header:
  assumes k: "plain_key k"
  shows "load_line cd (replicate n CHR '' '' @ k @ '':'') (sec, sub, c) = Inr (if n = 0 then (k, [], c) else (sec, k, c))"
proof -
  note key = plain_keyD [OF k]
  have "dropWhile is_space (replicate n CHR '' '' @ k @ '':'') = k @ '':''"
    using key(1,2) by (cases k) (simp_all add: dropWhile_replicate)
  then have line: "TrimSpace (replicate n CHR '' '' @ k @ '':'') = k @ '':''"
    by (simp add: TrimSpace_def TrimFunc_def TrimRightFunc_eq_self)
  have "\<not> HasPrefix (k @ '':'') ''#''" using key(6) HasPrefix_hd [OF key(1)] by blast
  moreover have "HasSuffix (k @ '':'') '':''" "TrimSuffix (k @ '':'') '':'' = k"
    by (simp_all add: HasSuffix_iff TrimSuffix_def)
  ultimately show ?thesis
    using indent_line [OF key(1,3), of n "'':''"] unfolding load_line_def line by (simp add: Let_def)
qed

section \<open>The lines of the file\<close>

fun run_lines :: "codec \<Rightarrow> string list \<Rightarrow> string \<times> string \<times> agent_config \<Rightarrow> (string \<times> string \<times> agent_config) result" where
  "run_lines cd [] st = Inr st"
| "run_lines cd (raw # ls) st = (case load_line cd raw st of Inl err \<Rightarrow> Inl err | Inr st \<Rightarrow> run_lines cd ls st)"

lemma load_lines_run: "run_lines cd ls st = Inr (sec, sub, c) \<Longrightarrow> load_lines cd ls st = (c, None)"
  by (induction ls arbitrary: st) (auto split: sum.splits)

lemma run_lines_append: "run_lines cd (ls @ ls') st = (case run_lines cd ls st of Inl err \<Rightarrow> Inl err | Inr st \<Rightarrow> run_lines cd ls' st)"
  by (induction ls arbitrary: st) (auto split: sum.splits)

definition file_of :: "string list \<Rightarrow> string" where
  "file_of ls = concat (map (\<lambda>l. l @ [newline]) ls)"

lemma file_of_simps [simp]:
  "file_of [] = []" "file_of (l # ls) = l @ newline # file_of ls" "file_of (ls @ ls') = file_of ls @ file_of ls'"
  by (simp_all add: file_of_def)

definition good_line :: "string \<Rightarrow> bool" where
  "good_line l \<longleftrightarrow> newline \<notin> set l \<and> length l < max_line \<and> (l \<noteq> [] \<longrightarrow> last l \<noteq> CHR 0x0D)"

lemma Split_file_of: "\<forall>l \<in> set ls. newline \<notin> set l \<Longrightarrow> Split newline (file_of ls) = ls @ [[]]"
  by (induction ls) (simp_all add: Split_append_sep Split_no_occurrence)

lemma scan_file_of:
  assumes "\<forall>l \<in> set ls. good_line l"
  shows "scan_lines (file_of ls) = (ls, None)"
proof -
  have "\<forall>l \<in> set ls. newline \<notin> set l" using assms by (simp add: good_line_def)
  then have lines: "file_lines (file_of ls) = ls" by (simp add: file_lines_def Split_file_of)
  have short: "takeWhile (\<lambda>l. length l < max_line) ls = ls" using assms by (simp add: good_line_def takeWhile_eq_all_conv)
  have "map drop_cr ls = ls" using assms by (intro map_idI) (auto simp: good_line_def drop_cr_def)
  then show ?thesis by (simp add: scan_lines_def lines short)
qed

section \<open>A section\<close>

definition setting_line :: "nat \<Rightarrow> string \<times> string \<Rightarrow> string" where
  "setting_line n = (\<lambda>(k, v). replicate n CHR '' '' @ k @ '': '' @ v)"

lemma setting_file: "concat (map (setting n) kvs) = file_of (map (setting_line n) kvs)"
  by (induction kvs) (auto simp: setting_def setting_line_def)

lemma render_section_file: "render_section name kvs = file_of ((name @ '':'') # map (setting_line 2) kvs)"
  by (simp add: render_section_def setting_file)

definition plain_settings :: "(string \<times> string) list \<Rightarrow> bool" where
  "plain_settings kvs \<longleftrightarrow> (\<forall>(k, v) \<in> set kvs. plain_key k \<and> plain v)"

lemma plain_settings_simps [simp]:
  "plain_settings []" "plain_settings ((k, v) # kvs) \<longleftrightarrow> plain_key k \<and> plain v \<and> plain_settings kvs"
  by (simp_all add: plain_settings_def)

text \<open>The settings of a section take effect up to the first empty one.\<close>

fun set_all :: "codec \<Rightarrow> string \<Rightarrow> (string \<times> string) list \<Rightarrow> agent_config \<Rightarrow> agent_config result" where
  "set_all cd sec [] c = Inr c"
| "set_all cd sec ((k, v) # kvs) c =
     (if v = [] then Inr c
      else case setValue cd sec k v c of Inl err \<Rightarrow> Inl err | Inr c \<Rightarrow> set_all cd sec kvs c)"

definition flat_sections :: "string list" where
  "flat_sections = [''server'', ''identity'', ''storage'', ''jobs'', ''containers'', ''gateway'', ''location'', ''ota'']"

lemma set_hidden:
  assumes "CHR ''.'' \<in> set key"
  shows "set_server cd key v sv = Inr sv" "set_identity key v idn = Inr idn" "set_storage cd key v st = Inr st"
    "set_jobs cd key v jo = Inr jo" "set_containers key v co = Inr co" "set_gateway key v gw = Inr gw"
    "set_location cd key v lo = Inr lo" "set_ota cd key v ota = Inr ota"
proof -
  have neq: "CHR ''.'' \<notin> set k \<Longrightarrow> key \<noteq> k" for k using assms by auto
  show "set_server cd key v sv = Inr sv" "set_identity key v idn = Inr idn" "set_storage cd key v st = Inr st"
    "set_jobs cd key v jo = Inr jo" "set_containers key v co = Inr co" "set_gateway key v gw = Inr gw"
    "set_location cd key v lo = Inr lo" "set_ota cd key v ota = Inr ota"
    by (simp_all add: set_server_def set_identity_def set_storage_def set_jobs_def set_containers_def set_gateway_def
        set_location_def set_ota_def neq)
qed

lemma setValue_hidden: "sec \<in> set flat_sections \<Longrightarrow> CHR ''.'' \<in> set key \<Longrightarrow> setValue cd sec key v c = Inr c"
  by (auto simp: flat_sections_def setValue_def set_hidden)

lemma run_hidden:
  "sec \<in> set flat_sections \<Longrightarrow> plain_settings kvs \<Longrightarrow> sub \<noteq> [] \<Longrightarrow>
    \<exists>sub'. run_lines cd (map (setting_line 2) kvs) (sec, sub, c) = Inr (sec, sub', c)"
proof (induction kvs arbitrary: sub)
  case (Cons kv kvs)
  obtain k v where kv: "kv = (k, v)" by (cases kv)
  have k: "plain_key k" "plain v" using Cons.prems(2) by (simp_all add: kv)
  show ?case
  proof (cases "v = []")
    case True
    from Cons.IH [OF Cons.prems(1) _ plain_keyD(1) [OF k(1)]] Cons.prems(2) show ?thesis
      using load_empty_setting [OF k(1), of 2 cd sec sub c] by (simp add: kv True setting_line_def)
  next
    case False
    have "setValue cd sec (full_key sub k) v c = Inr c"
      by (rule setValue_hidden [OF Cons.prems(1)]) (simp add: full_key_def Cons.prems(3))
    then have "load_line cd (setting_line 2 kv) (sec, sub, c) = Inr (sec, sub, c)"
      using load_setting [OF k False, of cd 2 sec sub c] by (simp add: kv setting_line_def)
    with Cons.IH [OF Cons.prems(1) _ Cons.prems(3)] Cons.prems(2) show ?thesis by (simp add: kv)
  qed
qed simp

lemma run_settings:
  "sec \<in> set flat_sections \<Longrightarrow> plain_settings kvs \<Longrightarrow> set_all cd sec kvs c = Inr c' \<Longrightarrow>
    \<exists>sub'. run_lines cd (map (setting_line 2) kvs) (sec, [], c) = Inr (sec, sub', c')"
proof (induction kvs arbitrary: c)
  case (Cons kv kvs)
  obtain k v where kv: "kv = (k, v)" by (cases kv)
  have k: "plain_key k" "plain v" "plain_settings kvs" using Cons.prems(2) by (simp_all add: kv)
  show ?case
  proof (cases "v = []")
    case True
    from run_hidden [OF Cons.prems(1) k(3) plain_keyD(1) [OF k(1)], of cd c] Cons.prems(3) show ?thesis
      using load_empty_setting [OF k(1), of 2 cd sec "[]" c] by (simp add: kv True setting_line_def)
  next
    case False
    obtain c1 where c1: "setValue cd sec k v c = Inr c1" "set_all cd sec kvs c1 = Inr c'"
      using Cons.prems(3) False by (auto simp: kv split: sum.splits)
    then have "load_line cd (setting_line 2 kv) (sec, [], c) = Inr (sec, [], c1)"
      using load_setting [OF k(1,2) False, of cd 2 sec "[]" c] by (simp add: kv setting_line_def full_key_def)
    with Cons.IH [OF Cons.prems(1) k(3) c1(2)] show ?thesis by simp
  qed
qed simp

lemma flat_sections_keys: "list_all plain_key flat_sections"
  by (simp add: flat_sections_def word_key word_char_def char_classes)

lemma run_section:
  assumes "sec \<in> set flat_sections" "plain_settings kvs" "set_all cd sec kvs c = Inr c'"
  shows "\<exists>sub'. run_lines cd ((sec @ '':'') # map (setting_line 2) kvs) (sec0, sub0, c) = Inr (sec, sub', c')"
proof -
  have "plain_key sec" using assms(1) flat_sections_keys by (auto simp: list_all_iff)
  from load_header [OF this, of cd 0 sec0 sub0 c] run_settings [OF assms] show ?thesis by simp
qed

text \<open>\<open>loads cd ls c c'\<close>: in any section, the lines take the configuration from \<open>c\<close> to \<open>c'\<close>.\<close>

definition loads :: "codec \<Rightarrow> string list \<Rightarrow> agent_config \<Rightarrow> agent_config \<Rightarrow> bool" where
  "loads cd ls c c' \<longleftrightarrow> (\<forall>sec sub. \<exists>sec' sub'. run_lines cd ls (sec, sub, c) = Inr (sec', sub', c'))"

lemma loads_append:
  assumes "loads cd ls c c'" "loads cd ls' c' c''"
  shows "loads cd (ls @ ls') c c''"
  unfolding loads_def run_lines_append
proof (intro allI)
  fix sec sub
  obtain sec1 sub1 where "run_lines cd ls (sec, sub, c) = Inr (sec1, sub1, c')" using assms(1) unfolding loads_def by blast
  moreover obtain sec2 sub2 where "run_lines cd ls' (sec1, sub1, c') = Inr (sec2, sub2, c'')" using assms(2) unfolding loads_def by blast
  ultimately show "\<exists>sec' sub'. (case run_lines cd ls (sec, sub, c) of Inl err \<Rightarrow> Inl err | Inr st \<Rightarrow> run_lines cd ls' st) = Inr (sec', sub', c'')"
    by simp
qed

definition section_lines :: "string \<Rightarrow> (string \<times> string) list \<Rightarrow> string list" where
  "section_lines sec kvs = (sec @ '':'') # map (setting_line 2) kvs"

lemma loads_section:
  "sec \<in> set flat_sections \<Longrightarrow> plain_settings kvs \<Longrightarrow> set_all cd sec kvs c = Inr c' \<Longrightarrow> loads cd (section_lines sec kvs) c c'"
  unfolding loads_def section_lines_def using run_section by blast

section \<open>Numbers and flags as text\<close>

lemma digit_ends:
  assumes "is_digit c \<or> c = CHR ''-''"
  shows "\<not> is_space c" "c \<noteq> CHR 0x22" "c \<noteq> CHR '':''" "c \<noteq> newline"
  using assms by (auto simp: char_classes newline_def)

lemma plain_digits:
  assumes "\<And>c. c \<in> set v \<Longrightarrow> is_digit c \<or> c = CHR ''-''" "v \<noteq> []" "length v < 65000"
  shows "plain v"
proof -
  have "is_digit (hd v) \<or> hd v = CHR ''-''" "is_digit (last v) \<or> last v = CHR ''-''" using assms(1,2) by simp_all
  then have "TrimSpace v = v" "Trim v [CHR 0x22] = v" "last v \<noteq> CHR '':''"
    using digit_ends by (simp_all add: TrimSpace_fixed Trim_def TrimFunc_fixed)
  moreover have "newline \<notin> set v" using assms(1) digit_ends(4) by blast
  ultimately show ?thesis using assms(3) by (simp add: plain_def)
qed

lemma length_utoa: "n < 10 ^ k \<Longrightarrow> 0 < k \<Longrightarrow> length (utoa n) \<le> k"
proof (induction n arbitrary: k rule: utoa.induct)
  case (1 n)
  show ?case
  proof (cases "n < 10")
    case True
    then show ?thesis using 1(3) by (subst utoa.simps) simp
  next
    case False
    have "k \<noteq> 1" using False 1(2) by auto
    then obtain m where k: "k = Suc m" "0 < m" using 1(3) by (cases k) auto
    have "n div 10 < 10 ^ m" using 1(2) k(1) by (simp add: less_mult_imp_div_less)
    from 1(1) [OF False this k(2)] show ?thesis using False k(1) by (subst utoa.simps) simp
  qed
qed

lemma plain_utoa: "n < 2 ^ 64 \<Longrightarrow> plain (utoa n)"
proof (rule plain_digits)
  assume "n < 2 ^ 64"
  then have "n < 10 ^ 20" by (rule less_trans) simp
  from length_utoa [OF this] show "length (utoa n) < 65000" by simp
qed (use utoa_digits [of n] in \<open>auto simp: list_all_iff\<close>)

lemma plain_itoa:
  assumes "in_i64 n"
  shows "plain (itoa n)"
proof (rule plain_digits)
  have "nat \<bar>n\<bar> < 10 ^ 20" using assms by (auto simp: in_i64_def nat_less_iff abs_if)
  from length_utoa [OF this] show "length (itoa n) < 65000" by (auto simp: itoa_def)
  show "itoa n \<noteq> []" using utoa_digits [of "nat n"] by (simp add: itoa_def)
  show "is_digit c \<or> c = CHR ''-''" if "c \<in> set (itoa n)" for c
    using that utoa_digits by (auto simp: itoa_def list_all_iff split: if_splits)
qed

lemma number_text [simp]:
  "in_i64 n \<Longrightarrow> read_int fn (itoa n) = Inr n" "itoa n \<noteq> []" "utoa m \<noteq> []"
  using utoa_digits by (simp_all add: read_int_def ParseInt_itoa) (simp_all add: itoa_def)

lemma read_uint_utoa [simp]: "read_uint (utoa (unat x)) = Inr (x :: u64)"
proof -
  have "unat x < 2 ^ 64" using unsigned_less [of x, where ?'a = nat] by simp
  then show ?thesis by (simp add: read_uint_def ParseUint_utoa)
qed

lemma flag_text [simp]: "parseBool (fmt_bool b) = b" "fmt_bool b \<noteq> []" "plain (fmt_bool b)"
proof -
  have "parseBool ''true''" "\<not> parseBool ''false''" by code_simp+
  then show "parseBool (fmt_bool b) = b" by (simp add: fmt_bool_def)
  show "fmt_bool b \<noteq> []" by (simp add: fmt_bool_def)
  have "plain_key ''true''" "plain_key ''false''" by (simp_all add: word_key word_char_def char_classes)
  then show "plain (fmt_bool b)" by (simp add: fmt_bool_def plain_key_def)
qed

section \<open>What a file can hold\<close>

text \<open>Durations and floats are written as plain text that reads back (Go promises this of both).\<close>

definition codec_ok :: "codec \<Rightarrow> bool" where
  "codec_ok cd \<longleftrightarrow>
     (\<forall>d. in_i64 d \<longrightarrow> ParseDuration cd (Duration_String cd d) = Inr d \<and> Duration_String cd d \<noteq> [] \<and> plain (Duration_String cd d))
   \<and> (\<forall>x. f64_number x \<longrightarrow> ParseFloat cd (fmt_float cd x) = Inr x \<and> fmt_float cd x \<noteq> [] \<and> plain (fmt_float cd x))"

definition durations :: "agent_config \<Rightarrow> duration list" where
  "durations c = [ConnectTimeout (ac_Server c), MaxQueueAge (ac_Storage c), Interval (ac_Telemetry c), Jitter (ac_Telemetry c),
     DefaultTimeout (ac_Jobs c), DownloadTimeout (ac_OTA c), HealthTimeout (ac_OTA c)]"

definition texts :: "agent_config \<Rightarrow> string list" where
  "texts c = [Endpoint (ac_Server c), CAFile (ac_Server c), id_StateDir (ac_Identity c), st_StateDir (ac_Storage c),
     Provider (ac_Containers c), Socket (ac_Containers c), ConnectorDir (ac_Gateway c), lc_Source (ac_Location c),
     lc_Label (ac_Location c), GPSDAddress (ac_Location c), IPURL (ac_Location c), cfg_Product (ac_OTA c), StateDir (ac_OTA c),
     StagingDir (ac_OTA c), TrustedKeysDir (ac_OTA c), PluginDir (ac_OTA c), HealthCheckCommand (ac_OTA c)]"

definition config_ok :: "agent_config \<Rightarrow> bool" where
  "config_ok c \<longleftrightarrow> list_all plain (texts c) \<and> list_all in_i64 (durations c)
     \<and> in_i64 (MaxQueueBytes (ac_Storage c)) \<and> in_i64 (MaxConcurrent (ac_Jobs c)) \<and> in_i64 (MaxArtifactBytes (ac_OTA c))
     \<and> f64_number (lc_Latitude (ac_Location c)) \<and> f64_number (lc_Longitude (ac_Location c))
     \<and> wf_map (Collectors (ac_Telemetry c)) \<and> list_all plain_key (map fst (Collectors (ac_Telemetry c)))"

section \<open>What survives\<close>

text \<open>The default stands for what follows the first empty setting of a section.\<close>

definition kept_server :: "ServerConfig \<Rightarrow> ServerConfig" where
  "kept_server sv = (if CAFile sv = [] then sv\<lparr>ConnectTimeout := ConnectTimeout (ac_Server Default)\<rparr> else sv)"

definition kept_containers :: "ContainerConfig \<Rightarrow> ContainerConfig" where
  "kept_containers co =
     (if Provider co = [] then ac_Containers Default
      else if Socket co = [] then co\<lparr>Socket := Socket (ac_Containers Default)\<rparr> else co)"

definition kept_gateway :: "GatewayConfig \<Rightarrow> GatewayConfig" where
  "kept_gateway gw = (if ConnectorDir gw = [] then gw\<lparr>ConnectorDir := ConnectorDir (ac_Gateway Default)\<rparr> else gw)"

definition kept_location :: "LocationConfig \<Rightarrow> LocationConfig" where
  "kept_location lo =
     (if lc_Label lo = [] \<or> GPSDAddress lo = []
      then lo\<lparr>GPSDAddress := GPSDAddress (ac_Location Default), IPURL := IPURL (ac_Location Default)\<rparr>
      else if IPURL lo = [] then lo\<lparr>IPURL := IPURL (ac_Location Default)\<rparr> else lo)"

definition kept_ota :: "OTAConfig \<Rightarrow> OTAConfig" where
  "kept_ota ota =
     (if cfg_Product ota = [] then (ac_OTA Default)\<lparr>Enabled := Enabled ota\<rparr>
      else if StateDir ota = [] then (ac_OTA Default)\<lparr>Enabled := Enabled ota, cfg_Product := cfg_Product ota\<rparr>
      else if StagingDir ota = []
      then (ac_OTA Default)\<lparr>Enabled := Enabled ota, cfg_Product := cfg_Product ota, StateDir := StateDir ota\<rparr>
      else if TrustedKeysDir ota = []
      then (ac_OTA Default)\<lparr>Enabled := Enabled ota, cfg_Product := cfg_Product ota, StateDir := StateDir ota, StagingDir := StagingDir ota\<rparr>
      else if PluginDir ota = []
      then (ac_OTA Default)\<lparr>Enabled := Enabled ota, cfg_Product := cfg_Product ota, StateDir := StateDir ota,
             StagingDir := StagingDir ota, TrustedKeysDir := TrustedKeysDir ota\<rparr>
      else if HealthCheckCommand ota = [] then ota\<lparr>AutoReboot := AutoReboot (ac_OTA Default)\<rparr> else ota)"

definition kept_telemetry :: "TelemetryConfig \<Rightarrow> TelemetryConfig" where
  "kept_telemetry te = te\<lparr>Collectors :=
     foldl (\<lambda>m name. mput name (flag (Collectors te) name) m) (Collectors (ac_Telemetry Default)) (sorted_keys (Collectors te))\<rparr>"

definition kept :: "agent_config \<Rightarrow> agent_config" where
  "kept c = c\<lparr>ac_Server := kept_server (ac_Server c), ac_Telemetry := kept_telemetry (ac_Telemetry c),
     ac_Containers := kept_containers (ac_Containers c), ac_Gateway := kept_gateway (ac_Gateway c),
     ac_Location := kept_location (ac_Location c), ac_OTA := kept_ota (ac_OTA c)\<rparr>"

section \<open>The sections of a saved file\<close>

definition server_settings :: "codec \<Rightarrow> ServerConfig \<Rightarrow> (string \<times> string) list" where
  "server_settings cd sv = [(''endpoint'', Endpoint sv), (''ca_file'', CAFile sv),
     (''connect_timeout'', Duration_String cd (ConnectTimeout sv))]"

definition identity_settings :: "IdentityConfig \<Rightarrow> (string \<times> string) list" where
  "identity_settings idn = [(''state_dir'', id_StateDir idn), (''use_tpm'', fmt_bool (UseTPM idn))]"

definition storage_settings :: "codec \<Rightarrow> StorageConfig \<Rightarrow> (string \<times> string) list" where
  "storage_settings cd st = [(''state_dir'', st_StateDir st), (''max_queue_bytes'', itoa (MaxQueueBytes st)),
     (''max_queue_age'', Duration_String cd (MaxQueueAge st))]"

definition jobs_settings :: "codec \<Rightarrow> JobsConfig \<Rightarrow> (string \<times> string) list" where
  "jobs_settings cd jo = [(''max_concurrent'', itoa (MaxConcurrent jo)),
     (''default_timeout'', Duration_String cd (DefaultTimeout jo)), (''allow_shell'', fmt_bool (AllowShell jo))]"

definition containers_settings :: "ContainerConfig \<Rightarrow> (string \<times> string) list" where
  "containers_settings co = [(''provider'', Provider co), (''socket'', Socket co)]"

definition gateway_settings :: "GatewayConfig \<Rightarrow> (string \<times> string) list" where
  "gateway_settings gw = [(''enabled'', fmt_bool (gw_Enabled gw)), (''connector_dir'', ConnectorDir gw)]"

definition location_settings :: "codec \<Rightarrow> LocationConfig \<Rightarrow> (string \<times> string) list" where
  "location_settings cd lo = [(''source'', lc_Source lo), (''latitude'', fmt_float cd (lc_Latitude lo)),
     (''longitude'', fmt_float cd (lc_Longitude lo)), (''label'', lc_Label lo), (''gpsd_address'', GPSDAddress lo),
     (''ip_url'', IPURL lo)]"

definition ota_settings :: "codec \<Rightarrow> OTAConfig \<Rightarrow> (string \<times> string) list" where
  "ota_settings cd ota = [(''enabled'', fmt_bool (Enabled ota)), (''product'', cfg_Product ota), (''state_dir'', StateDir ota),
     (''staging_dir'', StagingDir ota), (''trusted_keys_dir'', TrustedKeysDir ota), (''plugin_dir'', PluginDir ota),
     (''max_artifact_bytes'', itoa (MaxArtifactBytes ota)), (''min_free_bytes'', utoa (unat (MinFreeBytes ota))),
     (''download_timeout'', Duration_String cd (DownloadTimeout ota)), (''health_timeout'', Duration_String cd (HealthTimeout ota)),
     (''health_check_command'', HealthCheckCommand ota), (''auto_reboot'', fmt_bool (AutoReboot ota))]"

definition telemetry_lines :: "codec \<Rightarrow> TelemetryConfig \<Rightarrow> string list" where
  "telemetry_lines cd te =
     section_lines ''telemetry'' [(''interval'', Duration_String cd (Interval te)), (''jitter'', Duration_String cd (Jitter te))]
     @ ''  collectors:''
     # map (\<lambda>name. setting_line 4 (name, fmt_bool (flag (Collectors te) name))) (sorted_keys (Collectors te))"

definition config_lines :: "codec \<Rightarrow> agent_config \<Rightarrow> string list" where
  "config_lines cd c =
     setting_line 0 (''version'', itoa (ac_Version c)) # section_lines ''server'' (server_settings cd (ac_Server c))
     @ section_lines ''identity'' (identity_settings (ac_Identity c)) @ section_lines ''storage'' (storage_settings cd (ac_Storage c))
     @ telemetry_lines cd (ac_Telemetry c) @ section_lines ''jobs'' (jobs_settings cd (ac_Jobs c))
     @ section_lines ''containers'' (containers_settings (ac_Containers c)) @ section_lines ''gateway'' (gateway_settings (ac_Gateway c))
     @ section_lines ''location'' (location_settings cd (ac_Location c)) @ section_lines ''ota'' (ota_settings cd (ac_OTA c))"

lemma render_lines: "render cd c = file_of (config_lines cd c)"
proof -
  have sec: "render_section name kvs = file_of (section_lines name kvs)" for name kvs
    by (simp add: render_section_file section_lines_def)
  have one: "setting n kv = setting_line n kv @ [newline]" for n kv
    by (simp add: setting_def setting_line_def split: prod.splits)
  have coll: "file_of (map f ks) = concat (map (\<lambda>name. f name @ [newline]) ks)" for f and ks :: "string list"
    by (simp add: file_of_def comp_def)
  show ?thesis
    unfolding render_def Let_def sec config_lines_def telemetry_lines_def server_settings_def identity_settings_def
      storage_settings_def jobs_settings_def containers_settings_def gateway_settings_def location_settings_def ota_settings_def one
    by (simp add: coll)
qed

section \<open>Loading the sections\<close>

lemma codec_okD:
  assumes "codec_ok cd"
  shows "in_i64 d \<Longrightarrow> ParseDuration cd (Duration_String cd d) = Inr d" "in_i64 d \<Longrightarrow> Duration_String cd d \<noteq> []"
    "in_i64 d \<Longrightarrow> plain (Duration_String cd d)" "f64_number x \<Longrightarrow> ParseFloat cd (fmt_float cd x) = Inr x"
    "f64_number x \<Longrightarrow> fmt_float cd x \<noteq> []" "f64_number x \<Longrightarrow> plain (fmt_float cd x)"
  using assms by (simp_all add: codec_ok_def)

lemmas setters = setValue_def set_server_def set_identity_def set_storage_def set_telemetry_def set_jobs_def set_containers_def
  set_gateway_def set_location_def set_ota_def

lemma config_keys:
  "list_all plain_key [''version'', ''endpoint'', ''ca_file'', ''connect_timeout'', ''state_dir'', ''use_tpm'', ''max_queue_bytes'',
     ''max_queue_age'', ''telemetry'', ''interval'', ''jitter'', ''collectors'', ''max_concurrent'', ''default_timeout'', ''allow_shell'', ''provider'', ''socket'',
     ''enabled'', ''connector_dir'', ''source'', ''latitude'', ''longitude'', ''label'', ''gpsd_address'', ''ip_url'', ''product'',
     ''staging_dir'', ''trusted_keys_dir'', ''plugin_dir'', ''max_artifact_bytes'', ''min_free_bytes'', ''download_timeout'',
     ''health_timeout'', ''health_check_command'', ''auto_reboot'']"
  by (simp add: word_key word_char_def char_classes)

lemmas config_key [simp] = config_keys [simplified]

lemma set_all_sections:
  assumes cd: "codec_ok cd" and ok: "config_ok c" and valid: "config_Validate c = None"
  shows "ac_Server x = ac_Server Default \<Longrightarrow>
      set_all cd ''server'' (server_settings cd (ac_Server c)) x = Inr (x\<lparr>ac_Server := kept_server (ac_Server c)\<rparr>)"
    and "ac_Identity x = ac_Identity Default \<Longrightarrow>
      set_all cd ''identity'' (identity_settings (ac_Identity c)) x = Inr (x\<lparr>ac_Identity := ac_Identity c\<rparr>)"
    and "ac_Storage x = ac_Storage Default \<Longrightarrow>
      set_all cd ''storage'' (storage_settings cd (ac_Storage c)) x = Inr (x\<lparr>ac_Storage := ac_Storage c\<rparr>)"
    and "ac_Jobs x = ac_Jobs Default \<Longrightarrow>
      set_all cd ''jobs'' (jobs_settings cd (ac_Jobs c)) x = Inr (x\<lparr>ac_Jobs := ac_Jobs c\<rparr>)"
    and "ac_Containers x = ac_Containers Default \<Longrightarrow>
      set_all cd ''containers'' (containers_settings (ac_Containers c)) x = Inr (x\<lparr>ac_Containers := kept_containers (ac_Containers c)\<rparr>)"
    and "ac_Gateway x = ac_Gateway Default \<Longrightarrow>
      set_all cd ''gateway'' (gateway_settings (ac_Gateway c)) x = Inr (x\<lparr>ac_Gateway := kept_gateway (ac_Gateway c)\<rparr>)"
proof -
  have req: "Endpoint (ac_Server c) \<noteq> []" "id_StateDir (ac_Identity c) \<noteq> []" "st_StateDir (ac_Storage c) \<noteq> []"
    using valid by (auto simp: config_Validate_def Let_def HasPrefix_def split: if_splits)
  note simps = setters ok [unfolded config_ok_def durations_def, simplified] codec_okD [OF cd] req
  show "ac_Server x = ac_Server Default \<Longrightarrow>
      set_all cd ''server'' (server_settings cd (ac_Server c)) x = Inr (x\<lparr>ac_Server := kept_server (ac_Server c)\<rparr>)"
    by (simp add: server_settings_def simps kept_server_def) (auto simp: Default_def)
  show "ac_Identity x = ac_Identity Default \<Longrightarrow>
      set_all cd ''identity'' (identity_settings (ac_Identity c)) x = Inr (x\<lparr>ac_Identity := ac_Identity c\<rparr>)"
    by (simp add: identity_settings_def simps)
  show "ac_Storage x = ac_Storage Default \<Longrightarrow>
      set_all cd ''storage'' (storage_settings cd (ac_Storage c)) x = Inr (x\<lparr>ac_Storage := ac_Storage c\<rparr>)"
    by (simp add: storage_settings_def simps)
  show "ac_Jobs x = ac_Jobs Default \<Longrightarrow>
      set_all cd ''jobs'' (jobs_settings cd (ac_Jobs c)) x = Inr (x\<lparr>ac_Jobs := ac_Jobs c\<rparr>)"
    by (simp add: jobs_settings_def simps)
  show "ac_Containers x = ac_Containers Default \<Longrightarrow>
      set_all cd ''containers'' (containers_settings (ac_Containers c)) x = Inr (x\<lparr>ac_Containers := kept_containers (ac_Containers c)\<rparr>)"
    by (auto simp: containers_settings_def simps kept_containers_def)
  show "ac_Gateway x = ac_Gateway Default \<Longrightarrow>
      set_all cd ''gateway'' (gateway_settings (ac_Gateway c)) x = Inr (x\<lparr>ac_Gateway := kept_gateway (ac_Gateway c)\<rparr>)"
    by (auto simp: gateway_settings_def simps kept_gateway_def)
qed

lemma set_all_location:
  assumes cd: "codec_ok cd" and ok: "config_ok c" and valid: "config_Validate c = None" and x: "ac_Location x = ac_Location Default"
  shows "set_all cd ''location'' (location_settings cd (ac_Location c)) x = Inr (x\<lparr>ac_Location := kept_location (ac_Location c)\<rparr>)"
proof -
  have src: "lc_Source (ac_Location c) \<in> {''disabled'', ''static'', ''gpsd'', ''ip''}"
    using valid by (auto simp: config_Validate_def Let_def split: if_splits)
  then have low: "ToLower (lc_Source (ac_Location c)) = lc_Source (ac_Location c)" "lc_Source (ac_Location c) \<noteq> []"
    by (auto simp: ToLower_def char_classes)
  have label: "lc_Label (ac_Location Default) = []" by (simp add: Default_def)
  note simps = setters ok [unfolded config_ok_def durations_def, simplified] codec_okD [OF cd] low
  show ?thesis by (auto simp: location_settings_def simps kept_location_def x label)
qed

lemma set_all_ota:
  assumes cd: "codec_ok cd" and ok: "config_ok c" and x: "ac_OTA x = ac_OTA Default"
  shows "set_all cd ''ota'' (ota_settings cd (ac_OTA c)) x = Inr (x\<lparr>ac_OTA := kept_ota (ac_OTA c)\<rparr>)"
proof -
  have dflt: "cfg_Product (ac_OTA Default) = []" "HealthCheckCommand (ac_OTA Default) = []" by (simp_all add: Default_def)
  note simps = setValue_def set_ota_def ok [unfolded config_ok_def durations_def, simplified] codec_okD [OF cd]
  show ?thesis by (simp add: ota_settings_def simps kept_ota_def x dflt)
qed

text \<open>The collectors, a subsection of their own.\<close>

lemma run_collectors:
  assumes "list_all plain_key names"
  shows "run_lines cd (map (\<lambda>name. setting_line 4 (name, fmt_bool (f name))) names) (''telemetry'', ''collectors'', x) =
    Inr (''telemetry'', ''collectors'', x\<lparr>ac_Telemetry := (ac_Telemetry x)\<lparr>Collectors :=
      foldl (\<lambda>m name. mput name (f name) m) (Collectors (ac_Telemetry x)) names\<rparr>\<rparr>)"
  using assms
proof (induction names arbitrary: x)
  case (Cons k ks)
  have "setValue cd ''telemetry'' (full_key ''collectors'' k) (fmt_bool (f k)) x
      = Inr (x\<lparr>ac_Telemetry := (ac_Telemetry x)\<lparr>Collectors := mput k (f k) (Collectors (ac_Telemetry x))\<rparr>\<rparr>)"
    by (simp add: setValue_def set_telemetry_def full_key_def HasPrefix_def TrimPrefix_def)
  then have "load_line cd (setting_line 4 (k, fmt_bool (f k))) (''telemetry'', ''collectors'', x) =
      Inr (''telemetry'', ''collectors'', x\<lparr>ac_Telemetry := (ac_Telemetry x)\<lparr>Collectors := mput k (f k) (Collectors (ac_Telemetry x))\<rparr>\<rparr>)"
    using load_setting [of k "fmt_bool (f k)" cd 4 "''telemetry''" "''collectors''" x] Cons.prems by (simp add: setting_line_def)
  with Cons.IH [of "x\<lparr>ac_Telemetry := (ac_Telemetry x)\<lparr>Collectors := mput k (f k) (Collectors (ac_Telemetry x))\<rparr>\<rparr>"] Cons.prems
  show ?case by simp
qed simp

lemma run_telemetry:
  assumes cd: "codec_ok cd" and ok: "config_ok c" and x: "ac_Telemetry x = ac_Telemetry Default"
  shows "run_lines cd (telemetry_lines cd (ac_Telemetry c)) (sec0, sub0, x)
    = Inr (''telemetry'', ''collectors'', x\<lparr>ac_Telemetry := kept_telemetry (ac_Telemetry c)\<rparr>)"
proof -
  let ?te = "ac_Telemetry c"
  have dur: "in_i64 (Interval ?te)" "in_i64 (Jitter ?te)" and names: "list_all plain_key (sorted_keys (Collectors ?te))"
    using ok by (simp_all add: config_ok_def durations_def sorted_keys_def list_all_iff)
  note codec = codec_okD [OF cd]
  have head: "load_line cd ''telemetry:'' (sec0, sub0, x) = Inr (''telemetry'', [], x)"
    using load_header [of "''telemetry''" cd 0 sec0 sub0 x] by simp
  have one: "load_line cd (setting_line 2 (''interval'', Duration_String cd (Interval ?te))) (''telemetry'', [], y)
      = Inr (''telemetry'', [], y\<lparr>ac_Telemetry := (ac_Telemetry y)\<lparr>Interval := Interval ?te\<rparr>\<rparr>)"
    and two: "load_line cd (setting_line 2 (''jitter'', Duration_String cd (Jitter ?te))) (''telemetry'', [], y)
      = Inr (''telemetry'', [], y\<lparr>ac_Telemetry := (ac_Telemetry y)\<lparr>Jitter := Jitter ?te\<rparr>\<rparr>)" for y
    using load_setting [of "''interval''" "Duration_String cd (Interval ?te)" cd 2 "''telemetry''" "[]" y]
      load_setting [of "''jitter''" "Duration_String cd (Jitter ?te)" cd 2 "''telemetry''" "[]" y] dur codec
    by (simp_all add: setting_line_def full_key_def setters)
  have sub: "load_line cd ''  collectors:'' (''telemetry'', [], y) = Inr (''telemetry'', ''collectors'', y)" for y
    using load_header [of "''collectors''" cd 2 "''telemetry''" "[]" y] by (simp add: numeral_2_eq_2)
  show ?thesis
    unfolding telemetry_lines_def section_lines_def run_lines_append
    using head by (simp add: one two sub run_collectors [OF names] kept_telemetry_def x)
qed

section \<open>The whole file\<close>

lemma plain_sections:
  assumes cd: "codec_ok cd" and ok: "config_ok c"
  shows "plain_settings (server_settings cd (ac_Server c))" "plain_settings (identity_settings (ac_Identity c))"
    "plain_settings (storage_settings cd (ac_Storage c))" "plain_settings (jobs_settings cd (ac_Jobs c))"
    "plain_settings (containers_settings (ac_Containers c))" "plain_settings (gateway_settings (ac_Gateway c))"
    "plain_settings (location_settings cd (ac_Location c))" "plain_settings (ota_settings cd (ac_OTA c))"
  using ok unsigned_less [of "MinFreeBytes (ac_OTA c)", where ?'a = nat]
  by (simp_all add: server_settings_def identity_settings_def storage_settings_def jobs_settings_def containers_settings_def
      gateway_settings_def location_settings_def ota_settings_def config_ok_def texts_def durations_def codec_okD [OF cd]
      plain_itoa plain_utoa)

lemma loads_config:
  assumes cd: "codec_ok cd" and ok: "config_ok c" and valid: "config_Validate c = None"
  shows "load_lines cd (config_lines cd c) ([], [], Default) = (kept c, None)"
proof -
  note plains = plain_sections [OF cd ok] and sets = set_all_sections [OF cd ok valid] set_all_location [OF cd ok valid]
    set_all_ota [OF cd ok]
  have v1: "ac_Version c = 1" using valid by (auto simp: config_Validate_def Let_def split: if_splits)
  have ver: "load_line cd (setting_line 0 (''version'', itoa (ac_Version c))) ([], [], Default) = Inr ([], [], Default)"
    using load_setting [of "''version''" "itoa 1" cd 0 "[]" "[]" Default] plain_itoa [of 1]
    by (simp add: setting_line_def v1 full_key_def setValue_def in_i64_def) (simp add: Default_def)
  note sec = loads_section [OF _ plains(1) sets(1)] loads_section [OF _ plains(2) sets(2)] loads_section [OF _ plains(3) sets(3)]
    loads_section [OF _ plains(4) sets(4)] loads_section [OF _ plains(5) sets(5)] loads_section [OF _ plains(6) sets(6)]
    loads_section [OF _ plains(7) sets(7)] loads_section [OF _ plains(8) sets(8)]
  have tele: "loads cd (telemetry_lines cd (ac_Telemetry c)) x (x\<lparr>ac_Telemetry := kept_telemetry (ac_Telemetry c)\<rparr>)"
    if "ac_Telemetry x = ac_Telemetry Default" for x
    using run_telemetry [OF cd ok that] unfolding loads_def by blast
  have "loads cd (tl (config_lines cd c)) Default
    (Default\<lparr>ac_Server := kept_server (ac_Server c), ac_Identity := ac_Identity c, ac_Storage := ac_Storage c,
       ac_Telemetry := kept_telemetry (ac_Telemetry c), ac_Jobs := ac_Jobs c, ac_Containers := kept_containers (ac_Containers c),
       ac_Gateway := kept_gateway (ac_Gateway c), ac_Location := kept_location (ac_Location c), ac_OTA := kept_ota (ac_OTA c)\<rparr>)"
    unfolding config_lines_def list.sel
    by (((rule loads_append)?, rule sec tele, (simp add: flat_sections_def; fail)+)+)
  moreover have "Default\<lparr>ac_Server := kept_server (ac_Server c), ac_Identity := ac_Identity c, ac_Storage := ac_Storage c,
       ac_Telemetry := kept_telemetry (ac_Telemetry c), ac_Jobs := ac_Jobs c, ac_Containers := kept_containers (ac_Containers c),
       ac_Gateway := kept_gateway (ac_Gateway c), ac_Location := kept_location (ac_Location c), ac_OTA := kept_ota (ac_OTA c)\<rparr> = kept c"
    using v1 by (simp add: kept_def Default_def)
  ultimately have "loads cd (tl (config_lines cd c)) Default (kept c)" by simp
  then obtain sec sub where "run_lines cd (tl (config_lines cd c)) ([], [], Default) = Inr (sec, sub, kept c)"
    unfolding loads_def by blast
  then have "run_lines cd (config_lines cd c) ([], [], Default) = Inr (sec, sub, kept c)"
    using ver by (simp add: config_lines_def)
  then show ?thesis by (rule load_lines_run)
qed

lemma good_setting:
  assumes "plain_key k" "plain v" "n \<le> 4"
  shows "good_line (setting_line n (k, v))"
proof -
  have "last (setting_line n (k, v)) \<noteq> CHR 0x0D"
    using assms(2) by (cases "v = []") (auto simp: setting_line_def plain_def TrimSpace_fixed)
  then show ?thesis using assms by (auto simp: good_line_def setting_line_def plain_key_def plain_def max_line_def)
qed

lemma good_section:
  assumes "plain_key sec" "plain_settings kvs"
  shows "list_all good_line (section_lines sec kvs)"
  using assms good_setting
  by (auto simp: section_lines_def list_all_iff plain_settings_def good_line_def plain_key_def plain_def max_line_def)

lemma good_config:
  assumes cd: "codec_ok cd" and ok: "config_ok c" and valid: "config_Validate c = None"
  shows "list_all good_line (config_lines cd c)"
proof -
  have sections: "plain_key ''server''" "plain_key ''identity''" "plain_key ''storage''" "plain_key ''jobs''" "plain_key ''containers''"
    "plain_key ''gateway''" "plain_key ''location''" "plain_key ''ota''"
    using flat_sections_keys by (simp_all add: flat_sections_def)
  have tele: "plain_settings [(''interval'', Duration_String cd (Interval (ac_Telemetry c))),
      (''jitter'', Duration_String cd (Jitter (ac_Telemetry c)))]"
    using ok by (simp add: config_ok_def durations_def codec_okD [OF cd])
  have names: "plain_key name" if "name \<in> set (sorted_keys (Collectors (ac_Telemetry c)))" for name
    using ok that by (auto simp: config_ok_def sorted_keys_def list_all_iff)
  have coll: "good_line ''  collectors:''" by (simp add: good_line_def newline_def max_line_def)
  have v1: "plain (itoa (ac_Version c))"
    using valid plain_itoa [of 1] by (auto simp: config_Validate_def Let_def in_i64_def split: if_splits)
  show ?thesis
    using plain_sections [OF cd ok] good_section [OF _ tele] sections
    by (simp add: config_lines_def telemetry_lines_def good_section good_setting v1 coll)
       (simp add: list_all_iff good_setting names)
qed

lemma Load_render:
  assumes "codec_ok cd" "config_ok c" "config_Validate c = None"
  shows "Load cd (Inr (render cd c)) = (kept c, config_Validate (kept c))"
  using scan_file_of [of "config_lines cd c"] good_config [OF assms] loads_config [OF assms]
  by (simp add: Load_def render_lines list_all_iff)

definition location_ok :: "LocationConfig \<Rightarrow> bool" where
  "location_ok lo \<longleftrightarrow> lc_Source lo \<in> {''disabled'', ''static'', ''gpsd'', ''ip''}
     \<and> (lc_Source lo = ''static'' \<longrightarrow> \<not> f64_lt (lc_Latitude lo) (f64_neg f64_90) \<and> \<not> f64_lt f64_90 (lc_Latitude lo)
          \<and> \<not> f64_lt (lc_Longitude lo) (f64_neg f64_180) \<and> \<not> f64_lt f64_180 (lc_Longitude lo))
     \<and> (lc_Source lo = ''ip'' \<longrightarrow> HasPrefix (IPURL lo) ''https://'')"

definition ota_ok :: "OTAConfig \<Rightarrow> bool" where
  "ota_ok ota \<longleftrightarrow> (Enabled ota \<longrightarrow> StateDir ota \<noteq> [] \<and> StagingDir ota \<noteq> [] \<and> TrustedKeysDir ota \<noteq> [] \<and> PluginDir ota \<noteq> []
     \<and> 1024 * 1024 \<le> MaxArtifactBytes ota \<and> Minute \<le> DownloadTimeout ota \<and> Second \<le> HealthTimeout ota)"

lemma if_None: "(if P then Some e else x) = None \<longleftrightarrow> \<not> P \<and> x = None"
  by simp

lemma Validate_None:
  "config_Validate c = None \<longleftrightarrow> ac_Version c = 1 \<and> HasPrefix (Endpoint (ac_Server c)) ''https://'' \<and> id_StateDir (ac_Identity c) \<noteq> []
     \<and> st_StateDir (ac_Storage c) \<noteq> [] \<and> 1024 * 1024 \<le> MaxQueueBytes (ac_Storage c) \<and> Second \<le> Interval (ac_Telemetry c)
     \<and> 1 \<le> MaxConcurrent (ac_Jobs c) \<and> \<not> AllowShell (ac_Jobs c) \<and> location_ok (ac_Location c) \<and> ota_ok (ac_OTA c)"
  unfolding config_Validate_def Let_def if_None location_ok_def ota_ok_def by (cases "Enabled (ac_OTA c)") auto

lemma kept_ota_ok: "ota_ok ota \<Longrightarrow> ota_ok (kept_ota ota)"
proof -
  have d: "ota_ok ((ac_OTA Default)\<lparr>Enabled := b\<rparr>)" for b
    by (simp add: ota_ok_def Default_def Second_def Minute_def Hour_def)
  show "ota_ok ota \<Longrightarrow> ota_ok (kept_ota ota)"
    using d [of "Enabled ota"] by (cases "Enabled ota") (auto simp: kept_ota_def ota_ok_def)
qed

lemma kept_location_ok: "location_ok lo \<Longrightarrow> location_ok (kept_location lo)"
proof -
  have "HasPrefix (IPURL (ac_Location Default)) ''https://''" by (simp add: Default_def HasPrefix_def)
  then show "location_ok lo \<Longrightarrow> location_ok (kept_location lo)" by (auto simp: kept_location_def location_ok_def)
qed

lemma kept_valid: "config_Validate c = None \<Longrightarrow> config_Validate (kept c) = None"
  unfolding Validate_None
  by (simp add: kept_def kept_server_def kept_telemetry_def kept_ota_ok kept_location_ok)

lemma mget_foldl_mput:
  "mget (foldl (\<lambda>m name. mput name (f name) m) m0 names) k = (if k \<in> set names then Some (f k) else mget m0 k)"
  by (induction names arbitrary: m0) auto

lemma set_sorted_keys [simp]: "set (sorted_keys m) = fst ` set m"
  by (simp add: sorted_keys_def)

lemma kept_collectors:
  assumes "wf_map (Collectors te)"
  shows "mget (Collectors (kept_telemetry te)) name =
    (case mget (Collectors te) name of Some b \<Rightarrow> Some b | None \<Rightarrow> mget (Collectors (ac_Telemetry Default)) name)"
proof (cases "mget (Collectors te) name")
  case None
  then have "name \<notin> fst ` set (Collectors te)" by (auto simp: mget_def map_of_eq_None_iff)
  then show ?thesis using None by (simp add: kept_telemetry_def mget_foldl_mput)
next
  case (Some b)
  then have "name \<in> fst ` set (Collectors te)" using mget_SomeD by force
  then show ?thesis using Some by (simp add: kept_telemetry_def mget_foldl_mput flag_def)
qed

lemma kept_complete:
  assumes "[] \<notin> set (texts c)"
  shows "kept_server (ac_Server c) = ac_Server c" "kept_containers (ac_Containers c) = ac_Containers c"
    "kept_gateway (ac_Gateway c) = ac_Gateway c" "kept_location (ac_Location c) = ac_Location c" "kept_ota (ac_OTA c) = ac_OTA c"
proof -
  have texts: "list_all (\<lambda>v. v \<noteq> []) (texts c)" using assms by (auto simp: list_all_iff)
  note filled = texts [unfolded texts_def, simplified]
  show "kept_server (ac_Server c) = ac_Server c" "kept_containers (ac_Containers c) = ac_Containers c"
    "kept_gateway (ac_Gateway c) = ac_Gateway c" "kept_location (ac_Location c) = ac_Location c" "kept_ota (ac_OTA c) = ac_OTA c"
    by (simp_all add: filled kept_server_def kept_containers_def kept_gateway_def kept_location_def kept_ota_def)
qed

text \<open>C24: What saving and loading preserves of a configuration that fits the lines of the file: each of its texts is on one
  line of less than 65,000 bytes, has no space or double quote at its ends and no colon as its last character; its numbers fit
  64 bits and its coordinates are numbers; its collectors are named in fewer than 500 bytes, without a colon. (\<open>config_ok\<close>; and
  durations and floats read back as they are written.) Saved, such a configuration loads without an error; it is the
  saved one if no text in it is empty and it names all collectors of the default. But of a section only what stands
  before its first empty text survives: with no CA file the connection timeout falls back to the default, and with no
  health check command automatic reboots are off, whatever was saved. A text that ends in a double quote or a colon, which
  \<open>config_ok\<close> excludes, is not read back: see the examples below.\<close>

theorem saved_config_is_loaded:
  assumes "codec_ok cd" "config_ok c" "Save cd env c f = (None, Some (saved, mode))"
  shows "Load cd (Inr saved) = (kept c, None)
    \<and> ([] \<notin> set (texts c) \<longrightarrow> kept c = c\<lparr>ac_Telemetry := kept_telemetry (ac_Telemetry c)\<rparr>)
    \<and> (\<forall>name. mget (Collectors (ac_Telemetry (kept c))) name =
         (case mget (Collectors (ac_Telemetry c)) name of Some b \<Rightarrow> Some b | None \<Rightarrow> mget (Collectors (ac_Telemetry Default)) name))
    \<and> (CAFile (ac_Server c) = [] \<longrightarrow> ConnectTimeout (ac_Server (kept c)) = 15 * Second)
    \<and> (HealthCheckCommand (ac_OTA c) = [] \<longrightarrow> \<not> AutoReboot (ac_OTA (kept c)))"
proof -
  have valid: "config_Validate c = None" and saved: "saved = render cd c"
    using assms(3) by (auto simp: Save_def Let_def split: option.splits)
  have "wf_map (Collectors (ac_Telemetry c))" using assms(2) by (simp add: config_ok_def)
  note coll = kept_collectors [OF this]
  have "kept c = c\<lparr>ac_Telemetry := kept_telemetry (ac_Telemetry c)\<rparr>" if "[] \<notin> set (texts c)"
    using kept_complete [OF that] by (intro agent_config.equality) (simp_all add: kept_def)
  moreover have "ConnectTimeout (ac_Server (kept c)) = 15 * Second" if "CAFile (ac_Server c) = []"
    using that by (simp add: kept_def kept_server_def Default_def)
  moreover have "\<not> AutoReboot (ac_OTA (kept c))" if "HealthCheckCommand (ac_OTA c) = []"
    using that by (simp add: kept_def kept_ota_def Default_def)
  moreover have "ac_Telemetry (kept c) = kept_telemetry (ac_Telemetry c)" by (simp add: kept_def)
  ultimately show ?thesis
    using Load_render [OF assms(1,2) valid] kept_valid [OF valid] coll by (simp add: saved)
qed

text \<open>The configuration for embedded Linux in \<^verbatim>\<open>agent/configs/embedded-linux.yaml\<close>, with numbers for durations.\<close>

definition embedded_linux :: agent_config where
  "embedded_linux = Default\<lparr>
     ac_Server := \<lparr>Endpoint = ''https://device-gateway.example.com:8443'', CAFile = ''/etc/edge-agent/ca.pem'', ConnectTimeout = 15 * Second\<rparr>,
     ac_Telemetry := (ac_Telemetry Default)\<lparr>Interval := 30 * Second, Jitter := 5 * Second\<rparr>,
     ac_Gateway := (ac_Gateway Default)\<lparr>gw_Enabled := False\<rparr>,
     ac_OTA := (ac_OTA Default)\<lparr>cfg_Product := ''embedded-linux'', AutoReboot := True\<rparr>\<rparr>"

definition decimal_codec :: codec where
  "decimal_codec = \<lparr>ParseDuration = read_int ''ParseInt'', Duration_String = itoa, ParseFloat = read_uint, fmt_float = (\<lambda>x. utoa (unat x)),
     FormatFloat = (\<lambda>x. utoa (unat x))\<rparr>"

lemma decimal_codec_ok: "codec_ok decimal_codec"
proof -
  have "plain (utoa (unat x))" for x :: u64 using plain_utoa [of "unat x"] unsigned_less [of x, where ?'a = nat] by simp
  then show ?thesis by (simp add: codec_ok_def decimal_codec_def plain_itoa)
qed

lemma collector_keys: "list_all plain_key [''cpu'', ''memory'', ''disk'', ''network'', ''uptime'', ''os'', ''processes'']"
  by (simp add: word_key word_char_def char_classes)

lemma embedded_linux_ok: "config_ok embedded_linux"
proof -
  have keys: "list_all plain_key (map fst (Collectors (ac_Telemetry embedded_linux)))"
    using collector_keys by (simp add: embedded_linux_def Default_def)
  have "list_all (\<lambda>v. newline \<notin> set v) (texts embedded_linux)" "list_all (\<lambda>v. TrimSpace v = v) (texts embedded_linux)"
    "list_all (\<lambda>v. Trim v [CHR 0x22] = v) (texts embedded_linux)"
    "list_all (\<lambda>v. v \<noteq> [] \<longrightarrow> last v \<noteq> CHR '':'') (texts embedded_linux)" by code_simp+
  moreover have "list_all (\<lambda>v. length v < 65000) (texts embedded_linux)" by (simp add: texts_def embedded_linux_def Default_def)
  ultimately have texts: "list_all plain (texts embedded_linux)" by (simp add: list_all_iff plain_def)
  have "wf_map (Collectors (ac_Telemetry embedded_linux))" "list_all in_i64 (durations embedded_linux)" by code_simp+
  then show ?thesis
    using keys texts
    by (simp add: config_ok_def) (simp add: embedded_linux_def Default_def in_i64_def f64_number_def f64_magnitude_def)
qed

definition no_errors :: save_env where
  "no_errors = \<lparr>sv_mkdir = None, sv_create = None, sv_chmod = None, sv_write = None, sv_sync = None, sv_close = None, sv_rename = None\<rparr>"

theorem saved_config_is_loaded_witness:
  "AutoReboot (ac_OTA embedded_linux)
   \<and> \<not> AutoReboot (ac_OTA (fst (Load decimal_codec (Inr (render decimal_codec embedded_linux)))))"
proof -
  have "config_Validate embedded_linux = None" by code_simp
  then have "Save decimal_codec no_errors embedded_linux None = (None, Some (render decimal_codec embedded_linux, 416))"
    by (simp add: Save_def no_errors_def)
  from saved_config_is_loaded [OF decimal_codec_ok embedded_linux_ok this] show ?thesis
    by (simp add: embedded_linux_def Default_def)
qed

section \<open>Texts that are not read back\<close>

text \<open>The editor and \<open>Save\<close> take these texts; the first loses its quote, the second hides all settings that follow.\<close>

definition quoted_ota :: "(string \<times> string) list" where
  "quoted_ota = [(''health_check_command'', ''check '' @ [CHR 0x22] @ ''all'' @ [CHR 0x22]), (''auto_reboot'', ''true'')]"

definition colon_ota :: "(string \<times> string) list" where
  "colon_ota = [(''health_check_command'', ''check:''), (''auto_reboot'', ''true'')]"

lemma final_quote_is_lost:
  "HealthCheckCommand (ac_OTA (fst (load_lines decimal_codec (''ota:'' # map (setting_line 2) quoted_ota) ([], [], Default))))
     = ''check '' @ [CHR 0x22] @ ''all''"
  by code_simp

lemma final_colon_hides_the_rest:
  "HealthCheckCommand (ac_OTA (fst (load_lines decimal_codec (''ota:'' # map (setting_line 2) colon_ota) ([], [], Default)))) = []
   \<and> \<not> AutoReboot (ac_OTA (fst (load_lines decimal_codec (''ota:'' # map (setting_line 2) colon_ota) ([], [], Default))))"
  by code_simp

end
