(* ===== verification/AgentConfigTUI.thy ===== *)
theory AgentConfigTUI
  imports AgentConfigFile "HOL-Library.Monad_Syntax"
begin

text \<open>
  The terminal editor of the configuration, \<^verbatim>\<open>agent/internal/configtui/tui.go\<close>. Its input
  is the list of lines the scanner yields; what it prints is not modelled. A question is asked again
  until its answer can be read, also at the end of the input, where the answer is always the current
  value: \<open>None\<close> is a question that is asked for ever.
\<close>

section \<open>Questions\<close>

definition answer_text :: "string \<Rightarrow> string \<Rightarrow> string" where
  "answer_text current line =
     (let value = TrimSpace line in if value = [] then current else if value = ''-'' then [] else value)"

fun ask_text :: "string \<Rightarrow> string list \<Rightarrow> string \<times> string list" where
  "ask_text current [] = (current, [])"
| "ask_text current (l # ls) = (answer_text current l, ls)"

fun ask :: "('a \<Rightarrow> string) \<Rightarrow> (string \<Rightarrow> 'a result) \<Rightarrow> 'a \<Rightarrow> string list \<Rightarrow> ('a \<times> string list) option" where
  "ask show_value parse current [] = (case parse (show_value current) of Inr v \<Rightarrow> Some (v, []) | Inl err \<Rightarrow> None)"
| "ask show_value parse current (l # ls) =
     (case parse (answer_text (show_value current) l) of
        Inr v \<Rightarrow> Some (v, ls)
      | Inl err \<Rightarrow> ask show_value parse current ls)"

text \<open>\<^verbatim>\<open>strconv.ParseBool\<close>.\<close>

definition ParseBool :: "string \<Rightarrow> bool result" where
  "ParseBool s =
     (if s \<in> {''1'', ''t'', ''T'', ''TRUE'', ''true'', ''True''} then Inr True
      else if s \<in> {''0'', ''f'', ''F'', ''FALSE'', ''false'', ''False''} then Inr False
      else Inl (num_error ''ParseBool'' s True))"

definition ask_bool :: "bool \<Rightarrow> string list \<Rightarrow> (bool \<times> string list) option" where
  "ask_bool = ask fmt_bool ParseBool"

definition ask_duration :: "codec \<Rightarrow> duration \<Rightarrow> string list \<Rightarrow> (duration \<times> string list) option" where
  "ask_duration cd = ask (Duration_String cd) (ParseDuration cd)"

definition ask_int :: "string \<Rightarrow> int \<Rightarrow> string list \<Rightarrow> (int \<times> string list) option" where
  "ask_int fn = ask itoa (read_int fn)"

definition ask_uint :: "u64 \<Rightarrow> string list \<Rightarrow> (u64 \<times> string list) option" where
  "ask_uint = ask (\<lambda>x. utoa (unat x)) read_uint"

definition ask_float :: "codec \<Rightarrow> u64 \<Rightarrow> string list \<Rightarrow> (u64 \<times> string list) option" where
  "ask_float cd = ask (FormatFloat cd) (ParseFloat cd)"

section \<open>Sections\<close>

definition edit_server :: "codec \<Rightarrow> ServerConfig \<Rightarrow> string list \<Rightarrow> (ServerConfig \<times> string list) option" where
  "edit_server cd sv ls =
     do { let (endpoint, ls) = ask_text (Endpoint sv) ls;
          let (ca, ls) = ask_text (CAFile sv) ls;
          (timeout, ls) \<leftarrow> ask_duration cd (ConnectTimeout sv) ls;
          Some (\<lparr>Endpoint = endpoint, CAFile = ca, ConnectTimeout = timeout\<rparr>, ls) }"

definition edit_identityStorage ::
  "codec \<Rightarrow> IdentityConfig \<Rightarrow> StorageConfig \<Rightarrow> string list \<Rightarrow> ((IdentityConfig \<times> StorageConfig) \<times> string list) option" where
  "edit_identityStorage cd idn st ls =
     do { let (id_dir, ls) = ask_text (id_StateDir idn) ls;
          (tpm, ls) \<leftarrow> ask_bool (UseTPM idn) ls;
          let (st_dir, ls) = ask_text (st_StateDir st) ls;
          (bytes, ls) \<leftarrow> ask_int ''ParseInt'' (MaxQueueBytes st) ls;
          (age, ls) \<leftarrow> ask_duration cd (MaxQueueAge st) ls;
          Some ((\<lparr>id_StateDir = id_dir, UseTPM = tpm\<rparr>, \<lparr>st_StateDir = st_dir, MaxQueueBytes = bytes, MaxQueueAge = age\<rparr>), ls) }"

fun edit_collectors :: "string list \<Rightarrow> bool go_map \<Rightarrow> string list \<Rightarrow> (bool go_map \<times> string list) option" where
  "edit_collectors [] m ls = Some (m, ls)"
| "edit_collectors (name # names) m ls =
     do { (b, ls) \<leftarrow> ask_bool (flag m name) ls; edit_collectors names (mput name b m) ls }"

definition edit_telemetry :: "codec \<Rightarrow> TelemetryConfig \<Rightarrow> string list \<Rightarrow> (TelemetryConfig \<times> string list) option" where
  "edit_telemetry cd te ls =
     do { (interval, ls) \<leftarrow> ask_duration cd (Interval te) ls;
          (jitter, ls) \<leftarrow> ask_duration cd (Jitter te) ls;
          (collectors, ls) \<leftarrow> edit_collectors [''cpu'', ''memory'', ''disk'', ''network'', ''uptime'', ''os'', ''processes''] (Collectors te) ls;
          Some (\<lparr>Interval = interval, Jitter = jitter, Collectors = collectors\<rparr>, ls) }"

definition edit_jobsContainers ::
  "codec \<Rightarrow> JobsConfig \<Rightarrow> ContainerConfig \<Rightarrow> string list \<Rightarrow> ((JobsConfig \<times> ContainerConfig) \<times> string list) option" where
  "edit_jobsContainers cd jo co ls =
     do { (concurrent, ls) \<leftarrow> ask_int ''Atoi'' (MaxConcurrent jo) ls;
          (timeout, ls) \<leftarrow> ask_duration cd (DefaultTimeout jo) ls;
          (shell, ls) \<leftarrow> ask_bool (AllowShell jo) ls;
          let (provider, ls) = ask_text (Provider co) ls;
          let (socket, ls) = ask_text (Socket co) ls;
          Some ((\<lparr>MaxConcurrent = concurrent, DefaultTimeout = timeout, AllowShell = shell\<rparr>, \<lparr>Provider = provider, Socket = socket\<rparr>), ls) }"

definition edit_gatewayLocation ::
  "codec \<Rightarrow> GatewayConfig \<Rightarrow> LocationConfig \<Rightarrow> string list \<Rightarrow> ((GatewayConfig \<times> LocationConfig) \<times> string list) option" where
  "edit_gatewayLocation cd gw lo ls =
     do { (enabled, ls) \<leftarrow> ask_bool (gw_Enabled gw) ls;
          let (dir, ls) = ask_text (ConnectorDir gw) ls;
          let (source, ls) = ask_text (lc_Source lo) ls;
          (latitude, ls) \<leftarrow> ask_float cd (lc_Latitude lo) ls;
          (longitude, ls) \<leftarrow> ask_float cd (lc_Longitude lo) ls;
          let (label, ls) = ask_text (lc_Label lo) ls;
          let (gpsd, ls) = ask_text (GPSDAddress lo) ls;
          let (ip, ls) = ask_text (IPURL lo) ls;
          Some ((\<lparr>gw_Enabled = enabled, ConnectorDir = dir\<rparr>,
                \<lparr>lc_Source = ToLower source, lc_Latitude = latitude, lc_Longitude = longitude, lc_Label = label, GPSDAddress = gpsd,
                 IPURL = ip\<rparr>), ls) }"

definition edit_ota :: "codec \<Rightarrow> OTAConfig \<Rightarrow> string list \<Rightarrow> (OTAConfig \<times> string list) option" where
  "edit_ota cd ota ls =
     do { (enabled, ls) \<leftarrow> ask_bool (Enabled ota) ls;
          let (product, ls) = ask_text (cfg_Product ota) ls;
          let (state, ls) = ask_text (StateDir ota) ls;
          let (staging, ls) = ask_text (StagingDir ota) ls;
          let (keys, ls) = ask_text (TrustedKeysDir ota) ls;
          let (plugins, ls) = ask_text (PluginDir ota) ls;
          (artifact, ls) \<leftarrow> ask_int ''ParseInt'' (MaxArtifactBytes ota) ls;
          (free, ls) \<leftarrow> ask_uint (MinFreeBytes ota) ls;
          (download, ls) \<leftarrow> ask_duration cd (DownloadTimeout ota) ls;
          (health, ls) \<leftarrow> ask_duration cd (HealthTimeout ota) ls;
          let (command, ls) = ask_text (HealthCheckCommand ota) ls;
          (reboot, ls) \<leftarrow> ask_bool (AutoReboot ota) ls;
          Some (\<lparr>Enabled = enabled, cfg_Product = product, StateDir = state, StagingDir = staging, TrustedKeysDir = keys,
                 PluginDir = plugins, MaxArtifactBytes = artifact, MinFreeBytes = free, DownloadTimeout = download,
                 HealthTimeout = health, HealthCheckCommand = command, AutoReboot = reboot\<rparr>, ls) }"

section \<open>The loop\<close>

definition edit_section :: "codec \<Rightarrow> string \<Rightarrow> agent_config \<Rightarrow> string list \<Rightarrow> (agent_config \<times> string list) option" where
  "edit_section cd choice c ls =
     (if choice = ''1'' then do { (sv, ls) \<leftarrow> edit_server cd (ac_Server c) ls; Some (c\<lparr>ac_Server := sv\<rparr>, ls) }
      else if choice = ''2'' then
        do { ((idn, st), ls) \<leftarrow> edit_identityStorage cd (ac_Identity c) (ac_Storage c) ls; Some (c\<lparr>ac_Identity := idn, ac_Storage := st\<rparr>, ls) }
      else if choice = ''3'' then do { (te, ls) \<leftarrow> edit_telemetry cd (ac_Telemetry c) ls; Some (c\<lparr>ac_Telemetry := te\<rparr>, ls) }
      else if choice = ''4'' then
        do { ((jo, co), ls) \<leftarrow> edit_jobsContainers cd (ac_Jobs c) (ac_Containers c) ls; Some (c\<lparr>ac_Jobs := jo, ac_Containers := co\<rparr>, ls) }
      else if choice = ''5'' then
        do { ((gw, lo), ls) \<leftarrow> edit_gatewayLocation cd (ac_Gateway c) (ac_Location c) ls; Some (c\<lparr>ac_Gateway := gw, ac_Location := lo\<rparr>, ls) }
      else if choice = ''6'' then do { (ota, ls) \<leftarrow> edit_ota cd (ac_OTA c) ls; Some (c\<lparr>ac_OTA := ota\<rparr>, ls) }
      else Some (c, ls))"

text \<open>What an edit does to the input: it never makes it longer.\<close>

definition shrinks :: "string list \<Rightarrow> ('a \<times> string list) option \<Rightarrow> bool" where
  "shrinks ls r \<longleftrightarrow> (\<forall>v ls'. r = Some (v, ls') \<longrightarrow> length ls' \<le> length ls)"

named_theorems shrink \<open>edits that do not lengthen the input\<close>
named_theorems editor \<open>the questions of the editor\<close>
lemmas [editor] = ask_bool_def ask_duration_def ask_int_def ask_uint_def ask_float_def

lemma shrinks_ask: "shrinks ls (ask f p v ls)"
  unfolding shrinks_def by (induction ls) (auto split: sum.splits)

lemma shrinks_asks [shrink]:
  "shrinks ls (ask_bool b ls)" "shrinks ls (ask_duration cd d ls)" "shrinks ls (ask_int fn i ls)" "shrinks ls (ask_uint u ls)"
  "shrinks ls (ask_float cd f ls)"
  by (simp_all add: editor shrinks_ask)

lemma shrinks_Some [shrink]: "shrinks ls (Some (v, ls))"
  by (simp add: shrinks_def)

lemma shrinks_bind [shrink]:
  assumes "shrinks ls r" "\<And>v ls1. shrinks ls1 (f v ls1)"
  shows "shrinks ls (r \<bind> (\<lambda>(v, ls). f v ls))"
  using assms unfolding shrinks_def by (cases r) (fastforce intro: le_trans)+

lemma shrinks_text [shrink]:
  assumes "\<And>x ls1. shrinks ls1 (f x ls1)"
  shows "shrinks ls (case ask_text v ls of (x, ls) \<Rightarrow> f x ls)"
proof (cases ls)
  case (Cons l ls')
  then show ?thesis using assms [of ls' "answer_text v l"] by (auto simp: shrinks_def intro: le_trans)
qed (simp add: assms)

lemma shrinks_collectors [shrink]: "shrinks ls (edit_collectors names m ls)"
  by (induction names arbitrary: m ls) (auto intro!: shrink)

lemma shrinks_sections [shrink]:
  "shrinks ls (edit_server cd sv ls)" "shrinks ls (edit_identityStorage cd idn st ls)" "shrinks ls (edit_telemetry cd te ls)"
  "shrinks ls (edit_jobsContainers cd jo co ls)" "shrinks ls (edit_gatewayLocation cd gw lo ls)" "shrinks ls (edit_ota cd ota ls)"
  unfolding edit_server_def edit_identityStorage_def edit_telemetry_def edit_jobsContainers_def edit_gatewayLocation_def
    edit_ota_def Let_def
  by ((rule shrink)+)

lemma shrinks_edit [shrink]: "shrinks ls (edit_section cd choice c ls)"
proof -
  have pair: "(\<lambda>((a, b), ls). f a b ls) = (\<lambda>(x, ls). (\<lambda>(a, b). f a b ls) x)" for f :: "'a \<Rightarrow> 'b \<Rightarrow> string list \<Rightarrow> 'c" by auto
  have two: "shrinks ls1 (case x of (a, b) \<Rightarrow> Some (f a b, ls1))" for x :: "'a \<times> 'b" and f :: "'a \<Rightarrow> 'b \<Rightarrow> agent_config" and ls1
    by (cases x) (simp add: shrinks_def)
  show ?thesis
    unfolding edit_section_def pair by (intro conjI impI shrink two | simp only: split: if_split)+
qed

text \<open>
  The loop over the choices. \<open>save\<close> saves the configuration in the world \<open>'w\<close>; when it
  fails the user is asked to press Enter, unless the input has ended.
\<close>

function run_editor ::
  "codec \<Rightarrow> (agent_config \<Rightarrow> 'w \<Rightarrow> go_error option \<times> 'w) \<Rightarrow> agent_config \<Rightarrow> string list \<Rightarrow> 'w \<Rightarrow> (go_error option \<times> 'w) option" where
  "run_editor cd save c [] w = Some (save c w)"
| "run_editor cd save c (l # ls) w =
     (let choice = TrimSpace l in
      if choice = ''0'' \<or> EqualFold choice ''q'' then
        (case save c w of
           (None, w) \<Rightarrow> Some (None, w)
         | (Some err, w) \<Rightarrow> run_editor cd save c (drop 1 ls) w)
      else case edit_section cd choice c ls of
        None \<Rightarrow> None
      | Some (c, ls) \<Rightarrow> run_editor cd save c ls w)"
  by pat_completeness auto
termination
proof (relation "measure (\<lambda>(cd, save, c, ls, w). length ls)")
  show "\<And>cd save c l ls w x y xa ya choice.
       choice = TrimSpace l \<Longrightarrow> \<not> (choice = ''0'' \<or> EqualFold choice ''q'') \<Longrightarrow> edit_section cd choice c ls = Some x \<Longrightarrow> (xa, ya) = x \<Longrightarrow>
       ((cd, save, xa, ya, w), cd, save, c, l # ls, w) \<in> measure (\<lambda>(cd, save, c, ls, w). length ls)"
    using shrinks_edit unfolding shrinks_def by (fastforce simp: less_Suc_eq_le)
qed simp_all

section \<open>The editor returns\<close>

definition codec_editable :: "codec \<Rightarrow> bool" where
  "codec_editable cd \<longleftrightarrow> codec_ok cd \<and> (\<forall>s d. ParseDuration cd s = Inr d \<longrightarrow> in_i64 d)
     \<and> (\<forall>x. \<exists>y. ParseFloat cd (FormatFloat cd x) = Inr y)"

definition in_range :: "agent_config \<Rightarrow> bool" where
  "in_range c \<longleftrightarrow> list_all in_i64 (durations c) \<and> in_i64 (MaxQueueBytes (ac_Storage c)) \<and> in_i64 (MaxConcurrent (ac_Jobs c))
     \<and> in_i64 (MaxArtifactBytes (ac_OTA c))"

definition answers :: "('a \<Rightarrow> bool) \<Rightarrow> string list \<Rightarrow> ('a \<times> string list) option \<Rightarrow> bool" where
  "answers P ls r \<longleftrightarrow> (\<exists>v ls'. r = Some (v, ls') \<and> P v)"

named_theorems answer \<open>questions that are answered\<close>

lemma answers_ask:
  assumes "\<And>s v. parse s = Inr v \<Longrightarrow> P v" "\<exists>v. parse (f cur) = Inr v"
  shows "answers P ls (ask f parse cur ls)"
  unfolding answers_def
proof (induction ls)
  case Nil
  then show ?case using assms by (auto split: sum.split)
next
  case (Cons l ls)
  then show ?case using assms(1) by (auto split: sum.split)
qed

lemma answers_bool [answer]: "answers (\<lambda>b. True) ls (ask_bool b ls)"
proof -
  have "\<exists>v. ParseBool (fmt_bool b) = Inr v" by (cases b) (auto simp: ParseBool_def fmt_bool_def)
  then show ?thesis unfolding ask_bool_def by (rule answers_ask [rotated]) simp
qed

lemma answers_duration [answer]: "codec_editable cd \<Longrightarrow> in_i64 d \<Longrightarrow> answers in_i64 ls (ask_duration cd d ls)"
  unfolding ask_duration_def by (rule answers_ask) (auto simp: codec_editable_def codec_ok_def)

lemma read_int_range: "read_int fn s = Inr v \<Longrightarrow> in_i64 v"
  by (auto simp: read_int_def ParseInt_def Let_def split: option.splits if_splits)

lemma answers_int [answer]: "in_i64 i \<Longrightarrow> answers in_i64 ls (ask_int fn i ls)"
  unfolding ask_int_def by (rule answers_ask) (auto dest: read_int_range)

lemma answers_uint [answer]: "answers (\<lambda>u. True) ls (ask_uint u ls)"
  unfolding ask_uint_def by (rule answers_ask) simp_all

lemma answers_float [answer]: "codec_editable cd \<Longrightarrow> answers (\<lambda>u. True) ls (ask_float cd u ls)"
  unfolding ask_float_def by (rule answers_ask) (auto simp: codec_editable_def)

lemma answers_Some: "P v \<Longrightarrow> answers P ls (Some (v, ls'))"
  by (simp add: answers_def)

lemma answers_bind:
  assumes "answers P ls r" "\<And>v ls1. P v \<Longrightarrow> answers Q ls1 (f v ls1)"
  shows "answers Q ls0 (r \<bind> (\<lambda>(v, ls). f v ls))"
  using assms unfolding answers_def by fastforce

lemma answers_text:
  assumes "\<And>x ls1. answers Q ls1 (f x ls1)"
  shows "answers Q ls0 (case ask_text v ls of (x, ls) \<Rightarrow> f x ls)"
  using assms by (cases "ask_text v ls") (auto simp: answers_def)

lemma answers_collectors [answer]: "answers (\<lambda>m. True) ls (edit_collectors names m ls)"
proof (induction names arbitrary: m ls)
  case (Cons name names)
  show ?case unfolding edit_collectors.simps by (rule answers_bind [OF answers_bool]) (rule Cons.IH)
qed (simp add: answers_def)

lemmas sections_answered = answers_bind [OF answers_bool] answers_bind [OF answers_duration] answers_bind [OF answers_int]
  answers_bind [OF answers_uint] answers_bind [OF answers_float] answers_bind [OF answers_collectors] answers_text answers_Some

lemma answers_sections:
  assumes "codec_editable cd" "in_range c"
  shows "answers (\<lambda>sv. in_i64 (ConnectTimeout sv)) ls (edit_server cd (ac_Server c) ls)"
    "answers (\<lambda>(idn, st). in_i64 (MaxQueueBytes st) \<and> in_i64 (MaxQueueAge st)) ls (edit_identityStorage cd (ac_Identity c) (ac_Storage c) ls)"
    "answers (\<lambda>te. in_i64 (Interval te) \<and> in_i64 (Jitter te)) ls (edit_telemetry cd (ac_Telemetry c) ls)"
    "answers (\<lambda>(jo, co). in_i64 (MaxConcurrent jo) \<and> in_i64 (DefaultTimeout jo)) ls (edit_jobsContainers cd (ac_Jobs c) (ac_Containers c) ls)"
    "answers (\<lambda>x. True) ls (edit_gatewayLocation cd (ac_Gateway c) (ac_Location c) ls)"
    "answers (\<lambda>ota. in_i64 (MaxArtifactBytes ota) \<and> in_i64 (DownloadTimeout ota) \<and> in_i64 (HealthTimeout ota)) ls (edit_ota cd (ac_OTA c) ls)"
proof -
  note range = assms(2) [unfolded in_range_def durations_def, simplified] assms(1)
  show "answers (\<lambda>sv. in_i64 (ConnectTimeout sv)) ls (edit_server cd (ac_Server c) ls)"
    "answers (\<lambda>(idn, st). in_i64 (MaxQueueBytes st) \<and> in_i64 (MaxQueueAge st)) ls (edit_identityStorage cd (ac_Identity c) (ac_Storage c) ls)"
    "answers (\<lambda>te. in_i64 (Interval te) \<and> in_i64 (Jitter te)) ls (edit_telemetry cd (ac_Telemetry c) ls)"
    "answers (\<lambda>(jo, co). in_i64 (MaxConcurrent jo) \<and> in_i64 (DefaultTimeout jo)) ls (edit_jobsContainers cd (ac_Jobs c) (ac_Containers c) ls)"
    "answers (\<lambda>x. True) ls (edit_gatewayLocation cd (ac_Gateway c) (ac_Location c) ls)"
    "answers (\<lambda>ota. in_i64 (MaxArtifactBytes ota) \<and> in_i64 (DownloadTimeout ota) \<and> in_i64 (HealthTimeout ota)) ls (edit_ota cd (ac_OTA c) ls)"
    unfolding edit_server_def edit_identityStorage_def edit_telemetry_def edit_jobsContainers_def edit_gatewayLocation_def edit_ota_def Let_def
    by ((rule sections_answered | simp add: range)+)
qed

lemma answers_edit:
  assumes "codec_editable cd" "in_range c"
  shows "answers in_range ls (edit_section cd choice c ls)"
proof -
  note sections = answers_sections [OF assms, of ls, unfolded answers_def]
  note range = assms(2) [unfolded in_range_def durations_def, simplified]
  show ?thesis
    using sections range unfolding edit_section_def answers_def
    by (elim exE conjE) (simp add: in_range_def durations_def split: prod.splits)
qed

lemma run_editor_returns:
  assumes "codec_editable cd" "in_range c"
  shows "\<exists>err f'. run_editor cd (Save cd env) c ls f = Some (err, f')
    \<and> (if err = None then \<exists>c' mode. in_range c' \<and> config_Validate c' = None \<and> f' = Some (render cd c', mode) else f' = f)"
  using assms
proof (induction cd "Save cd env" c ls f rule: run_editor.induct)
  case (1 cd c f)
  then show ?case by (auto simp: Save_def Let_def split: option.splits)
next
  case (2 cd c l ls f)
  let ?choice = "TrimSpace l"
  show ?case
  proof (cases "?choice = ''0'' \<or> EqualFold ?choice ''q''")
    case True
    show ?thesis
    proof (cases "Save cd env c f")
      case (Pair err f1)
      show ?thesis
      proof (cases err)
        case None
        then show ?thesis using True Pair 2(4) by (auto simp: Save_def Let_def split: option.splits)
      next
        case (Some e)
        then have "f1 = f" using Pair by (auto simp: Save_def Let_def split: option.splits)
        then have "run_editor cd (Save cd env) c (l # ls) f = run_editor cd (Save cd env) c (drop 1 ls) f"
          using True Pair Some by simp
        moreover note 2(1) [OF refl True Pair [symmetric] Some 2(3,4)]
        ultimately show ?thesis using \<open>f1 = f\<close> by (simp only:)
      qed
    qed
  next
    case False
    obtain c' ls' where edit: "edit_section cd ?choice c ls = Some (c', ls')" "in_range c'"
      using answers_edit [OF 2(3,4)] unfolding answers_def by blast
    show ?thesis using 2(2) [OF refl False edit(1) refl 2(3) edit(2)] False edit(1) by simp
  qed
qed

text \<open>C37: The editor of the configuration returns whatever is typed, also when the input ends in the middle of a
  section. If it reports no error the file holds a valid configuration as \<open>render\<close> writes it,
  otherwise the file is as it was. (A duration in range is read back in range, and every float it
  shows can be read.)\<close>

theorem editor_returns:
  assumes "codec_editable cd" "in_range c"
  shows "\<exists>err f'. run_editor cd (Save cd env) c ls f = Some (err, f')
    \<and> (if err = None then \<exists>c' mode. in_range c' \<and> config_Validate c' = None \<and> f' = Some (render cd c', mode) else f' = f)"
  by (rule run_editor_returns [OF assms])

lemma decimal_codec_editable: "codec_editable decimal_codec"
proof -
  have "\<exists>y. read_uint (utoa (unat x)) = Inr y" for x :: u64 by simp
  then show ?thesis
    unfolding codec_editable_def using decimal_codec_ok read_int_range by (auto simp: decimal_codec_def)
qed

text \<open>A user who opens the OTA section, clears the product name, and leaves at the end of the input.\<close>

theorem editor_returns_witness:
  "\<exists>err f'. run_editor decimal_codec (Save decimal_codec no_errors) embedded_linux [''6'', [], ''-''] None = Some (err, f')
    \<and> (err = None \<longrightarrow> f' \<noteq> None)"
proof -
  have "in_range embedded_linux" using embedded_linux_ok by (simp add: config_ok_def in_range_def)
  from editor_returns [OF decimal_codec_editable this, of no_errors "[''6'', [], ''-'']" None] show ?thesis
    by (auto split: if_splits)
qed

end
