(* ===== verification/CloudModel.thy ===== *)
theory CloudModel
  imports GoCodec GoPath "HOL-Library.List_Lexorder" "HOL-Library.Char_ord"
begin

text \<open>
  The data of the control plane, \<^verbatim>\<open>cloud-infra/internal/model/model.go\<close> and the
  campaign of \<^verbatim>\<open>ota/ota.go\<close>, the session of \<^verbatim>\<open>auth/session.go\<close>, and the
  tenant context and the roles of \<^verbatim>\<open>tenancy\<close> and \<^verbatim>\<open>rbac\<close>.
  A \<^verbatim>\<open>json.RawMessage\<close> is its text, a \<^verbatim>\<open>float64\<close> is its 64 bits. A nil slice and an
  empty one are both \<open>[]\<close>, except where the code tells them apart.
\<close>

section \<open>Data\<close>

record Organization =
  og_ID :: string
  og_Name :: string
  og_Slug :: string
  og_CreatedAt :: go_time

record PlatformSettings =
  OrganizationName :: string
  CompanyDomain :: string
  ShellHubURL :: string
  ShellHubSSHPort :: int
  DeviceOfflineMinutes :: int
  DefaultTelemetryWindow :: string
  DefaultOTAPilotPercent :: int
  DefaultEnrollmentTTLHours :: int
  DefaultJobTTLMinutes :: int
  ps_UpdatedBy :: string
  ps_UpdatedAt :: go_time

record AIConfiguration =
  Provider :: string
  BaseURL :: string
  ai_Model :: string
  APIKeyCiphertext :: string
  KeyHint :: string
  ai_Enabled :: bool
  ai_UpdatedBy :: string
  ai_UpdatedAt :: go_time

record User =
  us_ID :: string
  us_Email :: string
  us_Role :: string
  PasswordHash :: string
  ActivatedAt :: go_time
  MFAEnabled :: bool
  LockedUntil :: go_time
  FailedLoginCount :: int
  us_CreatedAt :: go_time

record Membership =
  mb_TenantID :: string
  mb_UserID :: string
  mb_Role :: string

record EnrollmentToken =
  et_ID :: string
  et_TenantID :: string
  et_ProfileID :: string
  et_TokenHash :: string
  PlainToken :: string
  ExpectedSerial :: string
  ExpectedProduct :: string
  MaxDevices :: int
  UsedCount :: int
  et_ExpiresAt :: go_time
  et_RevokedAt :: go_time
  et_CreatedBy :: string
  et_CreatedAt :: go_time

record DeviceLocation =
  Latitude :: u64
  Longitude :: u64
  AccuracyM :: u64
  lo_Source :: string
  lo_Label :: string
  lo_UpdatedAt :: go_time

record Device =
  dv_ID :: string
  dv_TenantID :: string
  dv_ProfileID :: string
  dv_ParentGatewayID :: string
  DisplayName :: string
  EnrollmentStatus :: string
  CertificateSubject :: string
  CertificateSerial :: string
  CertificateExpiresAt :: go_time
  dv_LastSeenAt :: go_time
  Presence :: string
  AgentVersion :: string
  dv_Architecture :: string
  dv_OS :: string
  dv_Kernel :: string
  HardwareModel :: string
  dv_Serial :: string
  dv_Capabilities :: "string list"
  dv_Tags :: "string list"
  dv_Location :: "DeviceLocation option"
  RemoteAccessID :: string
  SoftwareState :: string
  UpdateState :: string
  HealthState :: string
  dv_CreatedAt :: go_time

record DownstreamDevice =
  dd_ID :: string
  dd_TenantID :: string
  dd_ParentGatewayID :: string
  ConnectorType :: string
  ProtocolAddress :: string
  dd_Model :: string
  dd_Serial :: string
  FirmwareVersion :: string
  dd_LastSeenAt :: go_time
  dd_Health :: string
  dd_Capabilities :: "string list"
  ApprovedCommands :: "string list"

record Metric =
  mt_DeviceID :: string
  mt_Name :: string
  mt_Value :: u64
  mt_Unit :: string
  mt_Labels :: "string go_map"
  DeviceTime :: go_time
  ReceivedAt :: go_time
  mt_MessageID :: string

record cJob =
  jo_ID :: string
  jo_TenantID :: string
  jo_DeviceID :: string
  DeploymentID :: string
  jo_Type :: string
  jo_Payload :: string
  jo_PayloadDigest :: string
  jo_CreatedBy :: string
  jo_CreatedAt :: go_time
  jo_ExpiresAt :: go_time
  jo_TimeoutSeconds :: int
  ApprovalStatus :: string
  jo_Attempt :: int
  jo_State :: string
  jo_Result :: string
  IdempotencyKey :: string

record Artifact =
  ar_ID :: string
  ar_TenantID :: string
  ar_Name :: string
  ar_Version :: string
  ObjectKey :: string
  ar_Digest :: string
  ar_Signature :: string
  ContentType :: string
  SizeBytes :: int
  ar_CreatedAt :: go_time

record AuditEvent =
  ev_ID :: string
  ev_TenantID :: string
  ActorID :: string
  Action :: string
  ResourceType :: string
  ResourceID :: string
  ev_Result :: string
  SourceIP :: string
  UserAgent :: string
  ev_CorrelationID :: string
  Summary :: "string go_map"
  ev_CreatedAt :: go_time

text \<open>An update campaign; \<open>cm_CompatibleFrom\<close> is \<open>None\<close> for a nil list.\<close>

record Campaign =
  cm_ID :: string
  cm_TenantID :: string
  cm_Name :: string
  ArtifactID :: string
  cm_ArtifactURL :: string
  cm_Version :: string
  cm_Product :: string
  cm_Architecture :: string
  cm_Digest :: string
  cm_Signature :: string
  cm_SigningKeyID :: string
  cm_ArtifactSize :: int
  cm_CompatibleFrom :: "string list option"
  cm_Adapter :: string
  cm_FlatpakRef :: string
  cm_FlatpakRemote :: string
  cm_FlatpakCommit :: string
  FlatpakRepositoryURL :: string
  cm_OSTreeRemote :: string
  cm_OSTreeRef :: string
  cm_OSTreeCommit :: string
  cm_OSTreeOS :: string
  TargetIDs :: "string list"
  CanaryPercent :: int
  cm_CreatedBy :: string
  cm_State :: string
  cm_CreatedAt :: go_time

record Session =
  se_ID :: string
  se_UserID :: string
  se_TokenHash :: string
  se_ExpiresAt :: go_time
  se_RevokedAt :: go_time
  se_CreatedAt :: go_time

section \<open>Tenant context\<close>

record Context =
  tc_TenantID :: string
  tc_ActorID :: string
  Roles :: "string list"
  Scopes :: "string list"

text \<open>The context a device request runs in: a tenant and nothing else.\<close>

definition device_context :: "string \<Rightarrow> Context" where
  "device_context tenantID = \<lparr>tc_TenantID = tenantID, tc_ActorID = [], Roles = [], Scopes = []\<rparr>"

definition Require :: "Context option \<Rightarrow> Context result" where
  "Require ctx =
     (case ctx of
        None \<Rightarrow> Inl ErrMissingTenant
      | Some tc \<Rightarrow> if tc_TenantID tc = [] then Inl ErrMissingTenant else Inr tc)"

section \<open>Roles and permissions\<close>

datatype Permission =
    DeviceRead | DeviceEnroll | DeviceUpdate | DeviceDelete | DeviceCommand | JobDelete | DeviceReboot
  | TelemetryRead | DeploymentCreate | DeploymentApprove | DeploymentCancel | ArtifactUpload
  | ProfileManage | UserManage | AuditRead | RemoteCreate | TenantSettings | AIUse

fun permission_name :: "Permission \<Rightarrow> string" where
  "permission_name DeviceRead = ''device.read''"
| "permission_name DeviceEnroll = ''device.enroll''"
| "permission_name DeviceUpdate = ''device.update''"
| "permission_name DeviceDelete = ''device.delete''"
| "permission_name DeviceCommand = ''device.command''"
| "permission_name JobDelete = ''job.delete''"
| "permission_name DeviceReboot = ''device.reboot''"
| "permission_name TelemetryRead = ''telemetry.read''"
| "permission_name DeploymentCreate = ''deployment.create''"
| "permission_name DeploymentApprove = ''deployment.approve''"
| "permission_name DeploymentCancel = ''deployment.cancel''"
| "permission_name ArtifactUpload = ''artifact.upload''"
| "permission_name ProfileManage = ''profile.manage''"
| "permission_name UserManage = ''user.manage''"
| "permission_name AuditRead = ''audit.read''"
| "permission_name RemoteCreate = ''remote_access.create''"
| "permission_name TenantSettings = ''tenant.settings.manage''"
| "permission_name AIUse = ''ai.use''"

definition RolePermissions :: "(string \<times> Permission list) list" where
  "RolePermissions =
     [(''platform_administrator'',
        [DeviceRead, DeviceEnroll, DeviceUpdate, DeviceDelete, DeviceCommand, JobDelete, DeviceReboot, TelemetryRead,
         DeploymentCreate, DeploymentApprove, DeploymentCancel, ArtifactUpload, ProfileManage, UserManage, AuditRead,
         RemoteCreate, TenantSettings, AIUse]),
      (''organization_owner'',
        [DeviceRead, DeviceEnroll, DeviceUpdate, DeviceDelete, DeviceCommand, JobDelete, DeviceReboot, TelemetryRead,
         DeploymentCreate, DeploymentApprove, DeploymentCancel, ArtifactUpload, ProfileManage, UserManage, AuditRead,
         RemoteCreate, TenantSettings, AIUse]),
      (''organization_administrator'',
        [DeviceRead, DeviceEnroll, DeviceUpdate, DeviceDelete, DeviceCommand, JobDelete, DeviceReboot, TelemetryRead,
         DeploymentCreate, DeploymentApprove, DeploymentCancel, ArtifactUpload, ProfileManage, UserManage, AuditRead,
         RemoteCreate, AIUse]),
      (''fleet_operator'', [DeviceRead, DeviceCommand, TelemetryRead, AIUse]),
      (''deployment_manager'', [DeviceRead, TelemetryRead, DeploymentCreate, DeploymentCancel, ArtifactUpload, AIUse]),
      (''support_engineer'', [DeviceRead, TelemetryRead, DeviceCommand, RemoteCreate, AIUse]),
      (''security_auditor'', [DeviceRead, TelemetryRead, AuditRead, AIUse]),
      (''read_only_viewer'', [DeviceRead, TelemetryRead, AIUse])]"

text \<open>\<^verbatim>\<open>RolePermissions[role]\<close>: nothing for an unknown role.\<close>

definition permissions_of :: "string \<Rightarrow> Permission list" where
  "permissions_of role = (case map_of RolePermissions role of None \<Rightarrow> [] | Some ps \<Rightarrow> ps)"

definition Authorize :: "Context option \<Rightarrow> Permission \<Rightarrow> go_error option" where
  "Authorize ctx permission =
     (case Require ctx of
        Inl err \<Rightarrow> Some err
      | Inr tc \<Rightarrow>
         if permission_name permission \<in> set (Scopes tc) then None
         else if \<exists>role \<in> set (Roles tc). permission \<in> set (permissions_of role) then None
         else Some ErrForbidden)"

text \<open>Which roles a member may give to a new user: \<^verbatim>\<open>canAssignRole\<close> of \<^verbatim>\<open>server/server.go\<close>.\<close>

fun assignable_by :: "string list \<Rightarrow> string \<Rightarrow> bool" where
  "assignable_by [] role = False"
| "assignable_by (actorRole # actorRoles) role =
     (if actorRole = ''platform_administrator'' then True
      else if actorRole = ''organization_owner'' \<and> role \<noteq> ''platform_administrator'' then True
      else if actorRole = ''organization_administrator'' \<and> role \<noteq> ''platform_administrator'' \<and> role \<noteq> ''organization_owner''
      then True
      else assignable_by actorRoles role)"

definition canAssignRole :: "string list \<Rightarrow> string \<Rightarrow> bool" where
  "canAssignRole actorRoles role = (if map_of RolePermissions role = None then False else assignable_by actorRoles role)"

section \<open>Facts about permissions\<close>

lemma assignable_by_iff:
  "assignable_by actors role \<longleftrightarrow>
     ''platform_administrator'' \<in> set actors
   \<or> (''organization_owner'' \<in> set actors \<and> role \<noteq> ''platform_administrator'')
   \<or> (''organization_administrator'' \<in> set actors \<and> role \<noteq> ''platform_administrator'' \<and> role \<noteq> ''organization_owner'')"
  by (induction actors) auto

lemma permissions_of_known:
  "map_of RolePermissions role \<noteq> None \<Longrightarrow>
     role \<in> {''platform_administrator'', ''organization_owner'', ''organization_administrator'', ''fleet_operator'',
       ''deployment_manager'', ''support_engineer'', ''security_auditor'', ''read_only_viewer''}"
  by (auto simp: RolePermissions_def split: if_splits)

lemma permissions_of_everything:
  "set (permissions_of ''platform_administrator'') = UNIV"
  "set (permissions_of ''organization_owner'') = UNIV"
  "set (permissions_of ''organization_administrator'') = UNIV - {TenantSettings}"
proof -
  have "p \<in> set (permissions_of ''platform_administrator'')" "p \<in> set (permissions_of ''organization_owner'')"
    "p \<in> set (permissions_of ''organization_administrator'') \<longleftrightarrow> p \<noteq> TenantSettings" for p
    by (cases p; simp add: permissions_of_def RolePermissions_def)+
  then show "set (permissions_of ''platform_administrator'') = UNIV"
    "set (permissions_of ''organization_owner'') = UNIV"
    "set (permissions_of ''organization_administrator'') = UNIV - {TenantSettings}"
    by auto
qed

lemma no_TenantSettings:
  "map_of RolePermissions role \<noteq> None \<Longrightarrow> role \<noteq> ''platform_administrator'' \<Longrightarrow> role \<noteq> ''organization_owner'' \<Longrightarrow>
     TenantSettings \<notin> set (permissions_of role)"
  by (drule permissions_of_known) (auto simp: permissions_of_def RolePermissions_def)

lemma Authorize_None_iff:
  "Authorize (Some tc) p = None \<longleftrightarrow>
     tc_TenantID tc \<noteq> [] \<and> (permission_name p \<in> set (Scopes tc) \<or> (\<exists>role \<in> set (Roles tc). p \<in> set (permissions_of role)))"
  by (auto simp: Authorize_def Require_def)

text \<open>C27: Creating users cannot raise privileges: if a member may create users and may give a role,
  then every permission of that role is a permission the member already has.\<close>

theorem no_privilege_escalation:
  assumes "Authorize (Some tc) UserManage = None" "canAssignRole (Roles tc) role"
    and "p \<in> set (permissions_of role)"
  shows "Authorize (Some tc) p = None"
proof -
  have known: "map_of RolePermissions role \<noteq> None" and given: "assignable_by (Roles tc) role"
    using assms(2) by (auto simp: canAssignRole_def split: if_splits)
  have tenant: "tc_TenantID tc \<noteq> []" using assms(1) by (simp add: Authorize_None_iff)
  have "\<exists>r \<in> set (Roles tc). p \<in> set (permissions_of r)"
    using given assms(3) no_TenantSettings [OF known]
    unfolding assignable_by_iff by (metis DiffI UNIV_I permissions_of_everything singletonD)
  with tenant show ?thesis by (simp add: Authorize_None_iff)
qed

theorem no_privilege_escalation_witness:
  "Authorize (Some \<lparr>tc_TenantID = ''t'', tc_ActorID = ''u'', Roles = [''organization_administrator''], Scopes = []\<rparr>) RemoteCreate = None"
proof (rule no_privilege_escalation [where role = "''support_engineer''"])
  show "Authorize (Some \<lparr>tc_TenantID = ''t'', tc_ActorID = ''u'', Roles = [''organization_administrator''], Scopes = []\<rparr>) UserManage = None"
    by code_simp
  show "canAssignRole (Roles \<lparr>tc_TenantID = ''t'', tc_ActorID = ''u'', Roles = [''organization_administrator''], Scopes = []\<rparr>) ''support_engineer''"
    by code_simp
  show "RemoteCreate \<in> set (permissions_of ''support_engineer'')" by code_simp
qed

end
