(* ===== verification/CloudStore.thy ===== *)
theory CloudStore
  imports CloudModel
begin

text \<open>
  The store of the control plane, \<^verbatim>\<open>cloud-infra/internal/storage/store.go\<close>: the data
  in memory and the file it is saved to, and the operations on organisations, settings, users,
  sessions and enrollment tokens. Every operation holds the store's mutex, so it is one step.

  \<open>cenv\<close> is what one operation asks of its environment: the clock (one reading per
  operation), random bytes, the outcome of saving, the order in which a map is visited, SHA-256,
  JSON's re-indentation of embedded raw messages, and the \<^verbatim>\<open>state\<close> field of a job result
  given as JSON (empty when it cannot be decoded). An operation that returns a value and an
  error is a \<open>result\<close>: no caller looks at the value when there is an error.
\<close>

section \<open>State\<close>

record cdata =
  db_Organizations :: "Organization go_map"
  db_Users :: "User go_map"
  db_Memberships :: "Membership list"
  db_Sessions :: "Session go_map"
  db_EnrollmentTokens :: "EnrollmentToken go_map"
  db_Devices :: "Device go_map"
  db_Downstream :: "DownstreamDevice go_map"
  db_Telemetry :: "Metric list"
  db_Inventory :: "string go_map"
  db_Jobs :: "cJob go_map"
  db_Artifacts :: "Artifact go_map"
  db_OTACampaigns :: "Campaign go_map"
  db_PlatformSettings :: "PlatformSettings go_map"
  db_AIConfigurations :: "AIConfiguration go_map"
  db_Audit :: "AuditEvent list"

record cstore =
  file_path :: string
  mem :: cdata
  disk :: "cdata option"

record cenv =
  c_now :: go_time
  c_rand :: "nat \<Rightarrow> string"
  c_saveErr :: "go_error option"
  c_order :: order
  c_sha256 :: "string \<Rightarrow> string"
  c_reindent :: "string \<Rightarrow> string"
  c_reportedState :: "string \<Rightarrow> string"

definition no_data :: cdata where
  "no_data = \<lparr>db_Organizations = [], db_Users = [], db_Memberships = [], db_Sessions = [], db_EnrollmentTokens = [],
     db_Devices = [], db_Downstream = [], db_Telemetry = [], db_Inventory = [], db_Jobs = [], db_Artifacts = [],
     db_OTACampaigns = [], db_PlatformSettings = [], db_AIConfigurations = [], db_Audit = []\<rparr>"

definition modify :: "(cdata \<Rightarrow> cdata) \<Rightarrow> cstore \<Rightarrow> cstore" where
  "modify f s = s\<lparr>mem := f (mem s)\<rparr>"

lemma modify_simps [simp]:
  "mem (modify f s) = f (mem s)" "disk (modify f s) = disk s" "file_path (modify f s) = file_path s"
  by (simp_all add: modify_def)

section \<open>The file\<close>

text \<open>
  What the file holds for some data: the token hash of a session is not written (its key in the
  map is), and raw messages are re-indented; an empty one is written as \<^verbatim>\<open>null\<close> unless
  its field is omitted when empty. The list of compatible versions of a campaign is omitted when it is empty, too.
\<close>

definition raw_omitempty :: "cenv \<Rightarrow> string \<Rightarrow> string" where
  "raw_omitempty env raw = (if raw = [] then [] else c_reindent env raw)"

definition raw_always :: "cenv \<Rightarrow> string \<Rightarrow> string" where
  "raw_always env raw = (if raw = [] then ''null'' else c_reindent env raw)"

definition list_omitempty :: "'a list option \<Rightarrow> 'a list option" where
  "list_omitempty l = (if l = Some [] then None else l)"

definition map_values :: "('v \<Rightarrow> 'w) \<Rightarrow> 'v go_map \<Rightarrow> 'w go_map" where
  "map_values f m = map (\<lambda>(k, v). (k, f v)) m"

definition persisted :: "cenv \<Rightarrow> cdata \<Rightarrow> cdata" where
  "persisted env d =
     d\<lparr>db_Sessions := map_values (\<lambda>se. se\<lparr>se_TokenHash := []\<rparr>) (db_Sessions d),
       db_Devices := map_values (\<lambda>dv. dv\<lparr>SoftwareState := raw_omitempty env (SoftwareState dv)\<rparr>) (db_Devices d),
       db_Inventory := map_values (raw_always env) (db_Inventory d),
       db_Jobs := map_values (\<lambda>j. j\<lparr>jo_Payload := raw_always env (jo_Payload j),
                                     jo_Result := raw_omitempty env (jo_Result j)\<rparr>) (db_Jobs d),
       db_OTACampaigns := map_values (\<lambda>c. c\<lparr>cm_CompatibleFrom := list_omitempty (cm_CompatibleFrom c)\<rparr>) (db_OTACampaigns d)\<rparr>"

text \<open>Saving goes through a temporary file and a rename, so it takes effect entirely or not at all.\<close>

definition saveLocked :: "cenv \<Rightarrow> cstore \<Rightarrow> go_error option \<times> cstore" where
  "saveLocked env s =
     (if file_path s = [] then (None, s)
      else case c_saveErr env of
        Some err \<Rightarrow> (Some err, s)
      | None \<Rightarrow> (None, s\<lparr>disk := Some (persisted env (mem s))\<rparr>))"

text \<open>\<open>return v, s.saveLocked()\<close>.\<close>

definition save_and_return :: "cenv \<Rightarrow> 'a \<Rightarrow> cstore \<Rightarrow> 'a result \<times> cstore" where
  "save_and_return env v s =
     (case saveLocked env s of
        (Some err, s) \<Rightarrow> (Inl err, s)
      | (None, s) \<Rightarrow> (Inr v, s))"

text \<open>The file as \<open>Open_store\<close> finds it.\<close>

datatype db_file = NoFile | DBUnreadable go_error | DBCorrupt go_error | DBFile cdata

definition Open_store :: "string \<Rightarrow> db_file \<Rightarrow> cstore result" where
  "Open_store path file =
     (if path = [] then Inr \<lparr>file_path = [], mem = no_data, disk = None\<rparr>
      else case file of
        NoFile \<Rightarrow> Inr \<lparr>file_path = path, mem = no_data, disk = None\<rparr>
      | DBUnreadable err \<Rightarrow> Inl err
      | DBCorrupt err \<Rightarrow> Inl err
      | DBFile d \<Rightarrow> Inr \<lparr>file_path = path, mem = d, disk = Some d\<rparr>)"

definition NewID :: "cenv \<Rightarrow> nat \<Rightarrow> string \<Rightarrow> string" where
  "NewID env n pre = pre @ ''_'' @ hexEncode (c_rand env n)"

section \<open>Organisations and settings\<close>

definition CreateOrganization :: "cenv \<Rightarrow> string \<Rightarrow> string \<Rightarrow> cstore \<Rightarrow> Organization result \<times> cstore" where
  "CreateOrganization env name slug s =
     (if \<exists>(k, org) \<in> set (db_Organizations (mem s)). og_Slug org = slug then (Inl ErrDuplicate, s)
      else
        let org = \<lparr>og_ID = NewID env 0 ''org'', og_Name = name, og_Slug = slug, og_CreatedAt = c_now env\<rparr>;
            s = modify (\<lambda>d. d\<lparr>db_Organizations := mput (og_ID org) org (db_Organizations d)\<rparr>) s in
        save_and_return env org s)"

definition new_user :: "cenv \<Rightarrow> nat \<Rightarrow> string \<Rightarrow> string \<Rightarrow> string \<Rightarrow> User" where
  "new_user env n email passwordHash role =
     \<lparr>us_ID = NewID env n ''usr'', us_Email = email, us_Role = role, PasswordHash = passwordHash, ActivatedAt = c_now env,
      MFAEnabled = False, LockedUntil = zero_time, FailedLoginCount = 0, us_CreatedAt = c_now env\<rparr>"

definition BootstrapOrganizationOwner ::
  "cenv \<Rightarrow> string \<Rightarrow> string \<Rightarrow> string \<Rightarrow> string \<Rightarrow> cstore \<Rightarrow> bool result \<times> cstore" where
  "BootstrapOrganizationOwner env name slug email passwordHash s =
     (if db_Organizations (mem s) \<noteq> [] \<or> db_Users (mem s) \<noteq> [] \<or> db_Memberships (mem s) \<noteq> [] then (Inr False, s)
      else
        let org = \<lparr>og_ID = NewID env 0 ''org'', og_Name = name, og_Slug = slug, og_CreatedAt = c_now env\<rparr>;
            user = new_user env 1 email passwordHash [];
            s = modify (\<lambda>d. d\<lparr>db_Organizations := mput (og_ID org) org (db_Organizations d),
                               db_Users := mput (us_ID user) user (db_Users d),
                               db_Memberships := db_Memberships d @
                                 [\<lparr>mb_TenantID = og_ID org, mb_UserID = us_ID user, mb_Role = ''organization_owner''\<rparr>]\<rparr>) s in
        case saveLocked env s of
          (Some err, s) \<Rightarrow>
            (Inl err, modify (\<lambda>d. d\<lparr>db_Organizations := mdel (og_ID org) (db_Organizations d),
                                    db_Users := mdel (us_ID user) (db_Users d), db_Memberships := []\<rparr>) s)
        | (None, s) \<Rightarrow> (Inr True, s))"

definition ListOrganizations :: "cenv \<Rightarrow> cstore \<Rightarrow> Organization list" where
  "ListOrganizations env s = sort_key og_Name (range_values (c_order env) (db_Organizations (mem s)))"

definition get_Organization :: "Context \<Rightarrow> cstore \<Rightarrow> Organization result" where
  "get_Organization tc s =
     (case mget (db_Organizations (mem s)) (tc_TenantID tc) of None \<Rightarrow> Inl ErrNotFound | Some org \<Rightarrow> Inr org)"

definition get_PlatformSettings :: "Context \<Rightarrow> cstore \<Rightarrow> PlatformSettings option" where
  "get_PlatformSettings tc s = mget (db_PlatformSettings (mem s)) (tc_TenantID tc)"

definition SavePlatformSettings :: "cenv \<Rightarrow> Context \<Rightarrow> PlatformSettings \<Rightarrow> cstore \<Rightarrow> go_error option \<times> cstore" where
  "SavePlatformSettings env tc value s =
     (case mget (db_Organizations (mem s)) (tc_TenantID tc) of
        None \<Rightarrow> (Some ErrNotFound, s)
      | Some organization \<Rightarrow>
          (let organization = organization\<lparr>og_Name := OrganizationName value\<rparr>;
               value = value\<lparr>ps_UpdatedBy := tc_ActorID tc, ps_UpdatedAt := c_now env\<rparr>;
               s = modify (\<lambda>d. d\<lparr>db_Organizations := mput (tc_TenantID tc) organization (db_Organizations d),
                                  db_PlatformSettings := mput (tc_TenantID tc) value (db_PlatformSettings d)\<rparr>) s in
           saveLocked env s))"

definition ResetPlatformSettings :: "cenv \<Rightarrow> Context \<Rightarrow> cstore \<Rightarrow> go_error option \<times> cstore" where
  "ResetPlatformSettings env tc s =
     (if mget (db_Organizations (mem s)) (tc_TenantID tc) = None then (Some ErrNotFound, s)
      else saveLocked env (modify (\<lambda>d. d\<lparr>db_PlatformSettings := mdel (tc_TenantID tc) (db_PlatformSettings d)\<rparr>) s))"

definition get_AIConfiguration :: "Context \<Rightarrow> cstore \<Rightarrow> AIConfiguration option" where
  "get_AIConfiguration tc s = mget (db_AIConfigurations (mem s)) (tc_TenantID tc)"

definition SaveAIConfiguration :: "cenv \<Rightarrow> Context \<Rightarrow> AIConfiguration \<Rightarrow> cstore \<Rightarrow> go_error option \<times> cstore" where
  "SaveAIConfiguration env tc value s =
     (if mget (db_Organizations (mem s)) (tc_TenantID tc) = None then (Some ErrNotFound, s)
      else
        let value = value\<lparr>ai_UpdatedBy := tc_ActorID tc, ai_UpdatedAt := c_now env\<rparr> in
        saveLocked env (modify (\<lambda>d. d\<lparr>db_AIConfigurations := mput (tc_TenantID tc) value (db_AIConfigurations d)\<rparr>) s))"

definition DeleteAIConfiguration :: "cenv \<Rightarrow> Context \<Rightarrow> cstore \<Rightarrow> go_error option \<times> cstore" where
  "DeleteAIConfiguration env tc s =
     (if mget (db_Organizations (mem s)) (tc_TenantID tc) = None then (Some ErrNotFound, s)
      else saveLocked env (modify (\<lambda>d. d\<lparr>db_AIConfigurations := mdel (tc_TenantID tc) (db_AIConfigurations d)\<rparr>) s))"

section \<open>Users\<close>

definition email_taken :: "string \<Rightarrow> cstore \<Rightarrow> bool" where
  "email_taken email s \<longleftrightarrow> (\<exists>(k, u) \<in> set (db_Users (mem s)). us_Email u = email)"

definition put_user :: "User \<Rightarrow> cstore \<Rightarrow> cstore" where
  "put_user u = modify (\<lambda>d. d\<lparr>db_Users := mput (us_ID u) u (db_Users d)\<rparr>)"

definition CreateUser :: "cenv \<Rightarrow> string \<Rightarrow> string \<Rightarrow> cstore \<Rightarrow> User result \<times> cstore" where
  "CreateUser env email passwordHash s =
     (if email_taken email s then (Inl ErrDuplicate, s)
      else let u = new_user env 0 email passwordHash [] in save_and_return env u (put_user u s))"

definition CreateTenantUser ::
  "cenv \<Rightarrow> Context \<Rightarrow> string \<Rightarrow> string \<Rightarrow> string \<Rightarrow> cstore \<Rightarrow> User result \<times> cstore" where
  "CreateTenantUser env tc email passwordHash role s =
     (if email_taken email s then (Inl ErrDuplicate, s)
      else
        let u = new_user env 0 email passwordHash role;
            s = put_user u s;
            s = modify (\<lambda>d. d\<lparr>db_Memberships := db_Memberships d @
                  [\<lparr>mb_TenantID = tc_TenantID tc, mb_UserID = us_ID u, mb_Role = role\<rparr>]\<rparr>) s in
        case saveLocked env s of
          (Some err, s) \<Rightarrow>
            (Inl err, modify (\<lambda>d. d\<lparr>db_Users := mdel (us_ID u) (db_Users d),
                                    db_Memberships := butlast (db_Memberships d)\<rparr>) s)
        | (None, s) \<Rightarrow> (Inr (u\<lparr>PasswordHash := []\<rparr>), s))"

definition find_user :: "cenv \<Rightarrow> string \<Rightarrow> cstore \<Rightarrow> (string \<times> User) option" where
  "find_user env email s = List.find (\<lambda>(k, u). us_Email u = email) (range_map (c_order env) (db_Users (mem s)))"

definition UpsertUserPassword :: "cenv \<Rightarrow> string \<Rightarrow> string \<Rightarrow> cstore \<Rightarrow> User result \<times> cstore" where
  "UpsertUserPassword env email passwordHash s =
     (case find_user env email s of
        Some (k, u) \<Rightarrow>
          (let u = u\<lparr>PasswordHash := passwordHash, ActivatedAt := c_now env, LockedUntil := zero_time, FailedLoginCount := 0\<rparr> in
           save_and_return env u (modify (\<lambda>d. d\<lparr>db_Users := mput k u (db_Users d)\<rparr>) s))
      | None \<Rightarrow> (let u = new_user env 0 email passwordHash [] in save_and_return env u (put_user u s)))"

definition FindUserByEmail :: "cenv \<Rightarrow> string \<Rightarrow> cstore \<Rightarrow> User result" where
  "FindUserByEmail env email s = (case find_user env email s of Some (k, u) \<Rightarrow> Inr u | None \<Rightarrow> Inl ErrNotFound)"

definition AddMembership :: "cenv \<Rightarrow> Membership \<Rightarrow> cstore \<Rightarrow> go_error option \<times> cstore" where
  "AddMembership env m s =
     (if \<exists>existing \<in> set (db_Memberships (mem s)). mb_TenantID existing = mb_TenantID m \<and> mb_UserID existing = mb_UserID m
      then (Some ErrDuplicate, s)
      else saveLocked env (modify (\<lambda>d. d\<lparr>db_Memberships := db_Memberships d @ [m]\<rparr>) s))"

definition Memberships :: "string \<Rightarrow> cstore \<Rightarrow> Membership list" where
  "Memberships userID s = filter (\<lambda>m. mb_UserID m = userID) (db_Memberships (mem s))"

text \<open>The last membership of a user in the tenant gives the role.\<close>

definition tenant_roles :: "string \<Rightarrow> Membership list \<Rightarrow> string go_map" where
  "tenant_roles tenantID ms =
     fold (\<lambda>m roles. if mb_TenantID m = tenantID then mput (mb_UserID m) (mb_Role m) roles else roles) ms []"

definition shown_user :: "string go_map \<Rightarrow> string \<times> User \<Rightarrow> User option" where
  "shown_user roles = (\<lambda>(k, user). map_option (\<lambda>role. user\<lparr>PasswordHash := [], us_Role := role\<rparr>) (mget roles k))"

definition ListUsers :: "cenv \<Rightarrow> Context \<Rightarrow> cstore \<Rightarrow> User list" where
  "ListUsers env tc s =
     (let roles = tenant_roles (tc_TenantID tc) (db_Memberships (mem s)) in
      sort_key us_Email (List.map_filter (shown_user roles) (range_map (c_order env) (db_Users (mem s)))))"

section \<open>Sessions\<close>

definition HashToken :: "cenv \<Rightarrow> string \<Rightarrow> string" where
  "HashToken env token = hexEncode (c_sha256 env token)"

text \<open>\<^verbatim>\<open>auth.NewSession\<close>: the token is 32 random bytes, the session keeps its hash.\<close>

definition NewSession :: "cenv \<Rightarrow> go_error option \<Rightarrow> string \<Rightarrow> duration \<Rightarrow> (Session \<times> string) result" where
  "NewSession env randErr userID ttl =
     (case randErr of
        Some err \<Rightarrow> Inl err
      | None \<Rightarrow>
          (let token = hexEncode (c_rand env 0) in
           Inr (\<lparr>se_ID = NewID env 1 ''sess'', se_UserID = userID, se_TokenHash = HashToken env token,
                 se_ExpiresAt = time_Add (c_now env) ttl, se_RevokedAt = zero_time, se_CreatedAt = c_now env\<rparr>, token)))"

definition SaveSession :: "cenv \<Rightarrow> Session \<Rightarrow> cstore \<Rightarrow> go_error option \<times> cstore" where
  "SaveSession env session s =
     saveLocked env (modify (\<lambda>d. d\<lparr>db_Sessions := mput (se_TokenHash session) session (db_Sessions d)\<rparr>) s)"

definition SessionByToken :: "cenv \<Rightarrow> string \<Rightarrow> cstore \<Rightarrow> Session result" where
  "SessionByToken env token s =
     (case mget (db_Sessions (mem s)) (HashToken env token) of
        None \<Rightarrow> Inl ErrNotFound
      | Some session \<Rightarrow>
          if \<not> IsZero (se_RevokedAt session) \<or> After (c_now env) (se_ExpiresAt session) then Inl ErrNotFound
          else Inr session)"

section \<open>Enrollment tokens\<close>

definition CreateEnrollmentToken :: "cenv \<Rightarrow> Context \<Rightarrow> EnrollmentToken \<Rightarrow> cstore \<Rightarrow> EnrollmentToken result \<times> cstore" where
  "CreateEnrollmentToken env tc token s =
     (let token = token\<lparr>et_ID := NewID env 0 ''enr'', et_TenantID := tc_TenantID tc, et_CreatedBy := tc_ActorID tc,
                        et_CreatedAt := c_now env, MaxDevices := (if MaxDevices token = 0 then 1 else MaxDevices token)\<rparr> in
      save_and_return env token
        (modify (\<lambda>d. d\<lparr>db_EnrollmentTokens := mput (et_ID token) token (db_EnrollmentTokens d)\<rparr>) s))"

definition ListEnrollmentTokens :: "cenv \<Rightarrow> Context \<Rightarrow> cstore \<Rightarrow> EnrollmentToken list" where
  "ListEnrollmentTokens env tc s =
     sort_key (\<lambda>token. - et_CreatedAt token)
       (map (\<lambda>token. token\<lparr>et_TokenHash := [], PlainToken := []\<rparr>)
         (filter (\<lambda>token. et_TenantID token = tc_TenantID tc) (range_values (c_order env) (db_EnrollmentTokens (mem s)))))"

definition ConsumeEnrollmentToken ::
  "cenv \<Rightarrow> string \<Rightarrow> string \<Rightarrow> string \<Rightarrow> cstore \<Rightarrow> EnrollmentToken result \<times> cstore" where
  "ConsumeEnrollmentToken env tokenHash serial product s =
     (case List.find (\<lambda>(k, token). et_TokenHash token = tokenHash)
             (range_map (c_order env) (db_EnrollmentTokens (mem s))) of
        None \<Rightarrow> (Inl ErrNotFound, s)
      | Some (k, token) \<Rightarrow>
          if \<not> IsZero (et_RevokedAt token) \<or> After (c_now env) (et_ExpiresAt token) \<or> MaxDevices token \<le> UsedCount token
          then (Inl ErrNotFound, s)
          else if ExpectedSerial token \<noteq> [] \<and> ExpectedSerial token \<noteq> serial then (Inl ErrTenantMismatch, s)
          else if ExpectedProduct token \<noteq> [] \<and> ExpectedProduct token \<noteq> product then (Inl ErrTenantMismatch, s)
          else
            let token = token\<lparr>UsedCount := i64 (UsedCount token + 1)\<rparr> in
            save_and_return env token
              (modify (\<lambda>d. d\<lparr>db_EnrollmentTokens := mput k token (db_EnrollmentTokens d)\<rparr>) s))"

section \<open>Facts about saving\<close>

lemma saveLocked_frame: "saveLocked env s = (err, s') \<Longrightarrow> mem s' = mem s \<and> file_path s' = file_path s"
  by (auto simp: saveLocked_def split: if_splits option.splits)

lemma saveLocked_simps [simp]:
  "mem (snd (saveLocked env s)) = mem s" "file_path (snd (saveLocked env s)) = file_path s"
  by (simp_all add: saveLocked_def split: option.splits)

lemma save_and_return_simps [simp]:
  "mem (snd (save_and_return env v s)) = mem s" "file_path (snd (save_and_return env v s)) = file_path s"
  by (auto simp: save_and_return_def dest: saveLocked_frame split: prod.splits option.splits)

lemma save_and_return_fst: "fst (save_and_return env v s) = (case fst (saveLocked env s) of None \<Rightarrow> Inr v | Some e \<Rightarrow> Inl e)"
  by (simp add: save_and_return_def split: prod.splits option.splits)

lemma mget_map_values [simp]: "mget (map_values f m) k = map_option f (mget m k)"
  by (induction m) (auto simp: map_values_def mget_def)

lemma wf_map_values [simp]: "wf_map (map_values f m) = wf_map m"
proof -
  have "map fst (map_values f m) = map fst m" by (simp add: map_values_def comp_def case_prod_unfold)
  then show ?thesis by (simp add: wf_map_def)
qed

end
