(* ===== verification/CloudFleet.thy ===== *)
theory CloudFleet
  imports CloudStore
begin

text \<open>
  The rest of \<^verbatim>\<open>cloud-infra/internal/storage/store.go\<close>: devices, telemetry,
  inventory, jobs, artifacts, campaigns and the audit log; and the creation of jobs,
  \<^verbatim>\<open>jobs/jobs.go\<close>.
\<close>

section \<open>Devices\<close>

definition put_device :: "Device \<Rightarrow> cstore \<Rightarrow> cstore" where
  "put_device dv = modify (\<lambda>d. d\<lparr>db_Devices := mput (dv_ID dv) dv (db_Devices d)\<rparr>)"

definition CreateDevice :: "cenv \<Rightarrow> Device \<Rightarrow> cstore \<Rightarrow> Device result \<times> cstore" where
  "CreateDevice env device s =
     (let device = device\<lparr>dv_ID := NewID env 0 ''dev'', dv_CreatedAt := c_now env,
                          Presence := (if Presence device = [] then ''offline'' else Presence device),
                          EnrollmentStatus := (if EnrollmentStatus device = [] then ''enrolled'' else EnrollmentStatus device)\<rparr> in
      save_and_return env device (put_device device s))"

definition ListDevices :: "cenv \<Rightarrow> Context \<Rightarrow> cstore \<Rightarrow> Device list" where
  "ListDevices env tc s =
     sort_key DisplayName (filter (\<lambda>dv. dv_TenantID dv = tc_TenantID tc) (range_values (c_order env) (db_Devices (mem s))))"

definition ListDownstream :: "cenv \<Rightarrow> Context \<Rightarrow> cstore \<Rightarrow> DownstreamDevice list" where
  "ListDownstream env tc s =
     sort_key ProtocolAddress
       (filter (\<lambda>dd. dd_TenantID dd = tc_TenantID tc) (range_values (c_order env) (db_Downstream (mem s))))"

definition UpsertDownstream :: "cenv \<Rightarrow> DownstreamDevice \<Rightarrow> cstore \<Rightarrow> go_error option \<times> cstore" where
  "UpsertDownstream env device s =
     (let device = device\<lparr>dd_ID := (if dd_ID device = [] then NewID env 0 ''child'' else dd_ID device)\<rparr> in
      saveLocked env (modify (\<lambda>d. d\<lparr>db_Downstream := mput (dd_ID device) device (db_Downstream d)\<rparr>) s))"

definition GetDevice :: "Context \<Rightarrow> string \<Rightarrow> cstore \<Rightarrow> Device result" where
  "GetDevice tc k s =
     (case mget (db_Devices (mem s)) k of
        None \<Rightarrow> Inl ErrNotFound
      | Some dv \<Rightarrow> if dv_TenantID dv \<noteq> tc_TenantID tc then Inl ErrTenantMismatch else Inr dv)"

definition UpdateDevice :: "cenv \<Rightarrow> Device \<Rightarrow> cstore \<Rightarrow> go_error option \<times> cstore" where
  "UpdateDevice env device s =
     (case mget (db_Devices (mem s)) (dv_ID device) of
        None \<Rightarrow> (Some ErrNotFound, s)
      | Some existing \<Rightarrow>
          if dv_TenantID existing \<noteq> dv_TenantID device then (Some ErrTenantMismatch, s)
          else saveLocked env (put_device device s))"

text \<open>A campaign without the device; a campaign of the tenant that is left without targets is removed.\<close>

definition without_target :: "Context \<Rightarrow> string \<Rightarrow> Campaign \<Rightarrow> Campaign option" where
  "without_target tc deviceID campaign =
     (if cm_TenantID campaign \<noteq> tc_TenantID tc then Some campaign
      else
        let targets = filter (\<lambda>targetID. targetID \<noteq> deviceID) (TargetIDs campaign) in
        if targets = [] then None else Some (campaign\<lparr>TargetIDs := targets\<rparr>))"

definition forget_device :: "Context \<Rightarrow> string \<Rightarrow> cdata \<Rightarrow> cdata" where
  "forget_device tc deviceID d =
     d\<lparr>db_Devices := mdel deviceID (db_Devices d),
       db_Inventory := mdel deviceID (db_Inventory d),
       db_Downstream := mfilter (\<lambda>k downstream. dd_ParentGatewayID downstream \<noteq> deviceID) (db_Downstream d),
       db_Telemetry := filter (\<lambda>metric. mt_DeviceID metric \<noteq> deviceID) (db_Telemetry d),
       db_Jobs := mfilter (\<lambda>k job. jo_DeviceID job \<noteq> deviceID) (db_Jobs d),
       db_OTACampaigns := mfiltermap (\<lambda>k. without_target tc deviceID) (db_OTACampaigns d)\<rparr>"

definition DeleteDevice :: "cenv \<Rightarrow> Context \<Rightarrow> string \<Rightarrow> cstore \<Rightarrow> go_error option \<times> cstore" where
  "DeleteDevice env tc deviceID s =
     (case mget (db_Devices (mem s)) deviceID of
        None \<Rightarrow> (Some ErrNotFound, s)
      | Some device \<Rightarrow>
          if dv_TenantID device \<noteq> tc_TenantID tc then (Some ErrTenantMismatch, s)
          else saveLocked env (modify (forget_device tc deviceID) s))"

section \<open>Telemetry and inventory\<close>

text \<open>The metrics before a rejected one stay in memory.\<close>

fun add_metrics :: "cenv \<Rightarrow> Context \<Rightarrow> Metric list \<Rightarrow> cstore \<Rightarrow> go_error option \<times> cstore" where
  "add_metrics env tc [] s = saveLocked env s"
| "add_metrics env tc (m # ms) s =
     (case mget (db_Devices (mem s)) (mt_DeviceID m) of
        None \<Rightarrow> (Some ErrTenantMismatch, s)
      | Some dv \<Rightarrow>
          if dv_TenantID dv \<noteq> tc_TenantID tc then (Some ErrTenantMismatch, s)
          else if 12 < length (mt_Labels m) then (Some ErrQuotaExceeded, s)
          else add_metrics env tc ms
                 (modify (\<lambda>d. d\<lparr>db_Telemetry := db_Telemetry d @ [m\<lparr>ReceivedAt := c_now env\<rparr>]\<rparr>) s))"

definition AddTelemetry :: "cenv \<Rightarrow> Context \<Rightarrow> Metric list \<Rightarrow> cstore \<Rightarrow> go_error option \<times> cstore" where
  "AddTelemetry env tc metrics s =
     (if 5000 < int (length metrics) then (Some ErrQuotaExceeded, s) else add_metrics env tc metrics s)"

definition owned_device :: "string \<Rightarrow> cdata \<Rightarrow> string \<Rightarrow> bool" where
  "owned_device tenantID d deviceID \<longleftrightarrow>
     (case mget (db_Devices d) deviceID of None \<Rightarrow> False | Some dv \<Rightarrow> dv_TenantID dv = tenantID)"

definition ListTelemetry :: "Context \<Rightarrow> string \<Rightarrow> cstore \<Rightarrow> Metric list" where
  "ListTelemetry tc deviceID s =
     filter (\<lambda>m. mt_DeviceID m = deviceID \<and> owned_device (tc_TenantID tc) (mem s) (mt_DeviceID m)) (db_Telemetry (mem s))"

definition SaveInventory :: "cenv \<Rightarrow> Context \<Rightarrow> string \<Rightarrow> string \<Rightarrow> cstore \<Rightarrow> go_error option \<times> cstore" where
  "SaveInventory env tc deviceID payload s =
     (case GetDevice tc deviceID s of
        Inl err \<Rightarrow> (Some err, s)
      | Inr device \<Rightarrow> saveLocked env (modify (\<lambda>d. d\<lparr>db_Inventory := mput deviceID payload (db_Inventory d)\<rparr>) s))"

definition ListInventory :: "Context \<Rightarrow> cstore \<Rightarrow> string go_map" where
  "ListInventory tc s = mfilter (\<lambda>deviceID inventory. owned_device (tc_TenantID tc) (mem s) deviceID) (db_Inventory (mem s))"

section \<open>Jobs\<close>

definition AllowedTypes :: "string list" where
  "AllowedTypes =
     [''reboot'', ''restart_service'', ''collect_diagnostics'', ''collect_logs'', ''collect_inventory'',
      ''scan_vulnerabilities'', ''deploy_file'', ''apply_configuration'', ''container_action'',
      ''compose_application_deployment'', ''ota_stage'', ''ota_activate'', ''flatpak_update'', ''ota_update'',
      ''downstream_connector_command'']"

definition jobs_New :: "cenv \<Rightarrow> string \<Rightarrow> string \<Rightarrow> string \<Rightarrow> string \<Rightarrow> duration \<Rightarrow> cJob result" where
  "jobs_New env deviceID jobType payload createdBy ttl =
     (if jobType \<notin> set AllowedTypes then Inl (ErrorString ''unsupported job type'')
      else if ttl \<le> 0 then Inl (ErrorString ''job ttl must be positive'')
      else Inr \<lparr>jo_ID = [], jo_TenantID = [], jo_DeviceID = deviceID, DeploymentID = [], jo_Type = jobType,
                jo_Payload = payload, jo_PayloadDigest = hexEncode (c_sha256 env payload), jo_CreatedBy = createdBy,
                jo_CreatedAt = zero_time, jo_ExpiresAt = time_Add (c_now env) ttl, jo_TimeoutSeconds = 600,
                ApprovalStatus = ''approved'', jo_Attempt = 0, jo_State = ''queued'', jo_Result = [], IdempotencyKey = []\<rparr>)"

definition put_job :: "string \<Rightarrow> cJob \<Rightarrow> cstore \<Rightarrow> cstore" where
  "put_job k job = modify (\<lambda>d. d\<lparr>db_Jobs := mput k job (db_Jobs d)\<rparr>)"

definition same_request :: "Context \<Rightarrow> cJob \<Rightarrow> cJob \<Rightarrow> bool" where
  "same_request tc job existing \<longleftrightarrow>
     IdempotencyKey job \<noteq> [] \<and> jo_TenantID existing = tc_TenantID tc \<and> IdempotencyKey existing = IdempotencyKey job"

definition CreateJob :: "cenv \<Rightarrow> Context \<Rightarrow> cJob \<Rightarrow> cstore \<Rightarrow> cJob result \<times> cstore" where
  "CreateJob env tc job s =
     (if \<not> owned_device (tc_TenantID tc) (mem s) (jo_DeviceID job) then (Inl ErrTenantMismatch, s)
      else case List.find (same_request tc job) (range_values (c_order env) (db_Jobs (mem s))) of
        Some existing \<Rightarrow> (Inr existing, s)
      | None \<Rightarrow>
          (let job = job\<lparr>jo_ID := NewID env 0 ''job'', jo_TenantID := tc_TenantID tc, jo_CreatedAt := c_now env,
                         jo_State := (if jo_State job = [] then ''queued'' else jo_State job),
                         ApprovalStatus := (if ApprovalStatus job = [] then ''approved'' else ApprovalStatus job)\<rparr> in
           save_and_return env job (put_job (jo_ID job) job s)))"

definition ListJobs :: "cenv \<Rightarrow> Context \<Rightarrow> cstore \<Rightarrow> cJob list" where
  "ListJobs env tc s =
     sort_key (\<lambda>job. - jo_CreatedAt job)
       (filter (\<lambda>job. jo_TenantID job = tc_TenantID tc) (range_values (c_order env) (db_Jobs (mem s))))"

definition terminal_job :: "cJob \<Rightarrow> bool" where
  "terminal_job job \<longleftrightarrow> jo_State job \<in> {''succeeded'', ''failed'', ''expired'', ''cancelled''}"

definition DeleteJob :: "cenv \<Rightarrow> Context \<Rightarrow> string \<Rightarrow> cstore \<Rightarrow> go_error option \<times> cstore" where
  "DeleteJob env tc jobID s =
     (case mget (db_Jobs (mem s)) jobID of
        None \<Rightarrow> (Some ErrNotFound, s)
      | Some job \<Rightarrow>
          if jo_TenantID job \<noteq> tc_TenantID tc then (Some ErrTenantMismatch, s)
          else if \<not> terminal_job job then (Some (ErrorString ''only terminal jobs can be removed from history''), s)
          else saveLocked env (modify (\<lambda>d. d\<lparr>db_Jobs := mdel jobID (db_Jobs d)\<rparr>) s))"

definition JobsForDeployment :: "cenv \<Rightarrow> Context \<Rightarrow> string \<Rightarrow> cstore \<Rightarrow> cJob list" where
  "JobsForDeployment env tc deploymentID s =
     filter (\<lambda>job. jo_TenantID job = tc_TenantID tc \<and> DeploymentID job = deploymentID)
       (range_values (c_order env) (db_Jobs (mem s)))"

definition deliverable :: "Context \<Rightarrow> string \<Rightarrow> cJob \<Rightarrow> bool" where
  "deliverable tc deviceID job \<longleftrightarrow>
     jo_TenantID job = tc_TenantID tc \<and> jo_DeviceID job = deviceID
   \<and> jo_State job \<in> {''queued'', ''delivered'', ''running'', ''rebooting''}"

text \<open>The loop over the jobs: expired ones are marked in memory, the first live one is delivered.\<close>

fun next_job :: "cenv \<Rightarrow> Context \<Rightarrow> string \<Rightarrow> (string \<times> cJob) list \<Rightarrow> cstore \<Rightarrow> cJob result \<times> cstore" where
  "next_job env tc deviceID [] s = (Inl ErrNotFound, s)"
| "next_job env tc deviceID ((k, job) # jobs) s =
     (if deliverable tc deviceID job then
        if After (c_now env) (jo_ExpiresAt job) then
          next_job env tc deviceID jobs (put_job k (job\<lparr>jo_State := ''expired''\<rparr>) s)
        else
          let job = job\<lparr>jo_State := ''delivered'', jo_Attempt := i64 (jo_Attempt job + 1)\<rparr>;
              (_, s) = saveLocked env (put_job k job s) in
          (Inr job, s)
      else next_job env tc deviceID jobs s)"

definition NextJobForDevice :: "cenv \<Rightarrow> Context \<Rightarrow> string \<Rightarrow> cstore \<Rightarrow> cJob result \<times> cstore" where
  "NextJobForDevice env tc deviceID s = next_job env tc deviceID (range_map (c_order env) (db_Jobs (mem s))) s"

text \<open>The state of a campaign from its jobs; the order of the jobs does not matter.\<close>

definition campaignState :: "Campaign \<Rightarrow> cJob go_map \<Rightarrow> string" where
  "campaignState campaign allJobs =
     (let jobs = filter (\<lambda>job. jo_TenantID job = cm_TenantID campaign \<and> DeploymentID job = cm_ID campaign) (map snd allJobs) in
      if jobs = [] then cm_State campaign
      else if \<exists>job \<in> set jobs. jo_State job = ''failed'' \<or> jo_State job = ''expired'' then ''failed''
      else if \<forall>job \<in> set jobs. jo_State job = ''succeeded'' then
        if length jobs < length (TargetIDs campaign) then ''canary_complete'' else ''completed''
      else ''running'')"

definition completed_state :: "string \<Rightarrow> string" where
  "completed_state reported =
     (if reported \<notin> {''succeeded'', ''failed'', ''rebooting'', ''running''} then ''failed'' else reported)"

definition refresh_campaign :: "Context \<Rightarrow> string \<Rightarrow> cdata \<Rightarrow> cdata" where
  "refresh_campaign tc deploymentID d =
     (case mget (db_OTACampaigns d) deploymentID of
        None \<Rightarrow> d
      | Some campaign \<Rightarrow>
          if cm_TenantID campaign \<noteq> tc_TenantID tc then d
          else d\<lparr>db_OTACampaigns := mput (cm_ID campaign) (campaign\<lparr>cm_State := campaignState campaign (db_Jobs d)\<rparr>) (db_OTACampaigns d)\<rparr>)"

definition CompleteJob :: "cenv \<Rightarrow> Context \<Rightarrow> string \<Rightarrow> string \<Rightarrow> cstore \<Rightarrow> go_error option \<times> cstore" where
  "CompleteJob env tc jobID result s =
     (case mget (db_Jobs (mem s)) jobID of
        None \<Rightarrow> (Some ErrNotFound, s)
      | Some job \<Rightarrow>
          if jo_TenantID job \<noteq> tc_TenantID tc then (Some ErrTenantMismatch, s)
          else
            let job = job\<lparr>jo_State := completed_state (c_reportedState env result), jo_Result := result\<rparr>;
                s = modify (refresh_campaign tc (DeploymentID job)) (put_job jobID job s) in
            saveLocked env s)"

section \<open>Artifacts\<close>

definition UpsertArtifact :: "cenv \<Rightarrow> Artifact \<Rightarrow> cstore \<Rightarrow> go_error option \<times> cstore" where
  "UpsertArtifact env artifact s =
     (let artifact = artifact\<lparr>ar_ID := (if ar_ID artifact = [] then NewID env 0 ''art'' else ar_ID artifact),
                              ar_CreatedAt := (if IsZero (ar_CreatedAt artifact) then c_now env else ar_CreatedAt artifact)\<rparr> in
      saveLocked env (modify (\<lambda>d. d\<lparr>db_Artifacts := mput (ar_ID artifact) artifact (db_Artifacts d)\<rparr>) s))"

definition ListArtifacts :: "cenv \<Rightarrow> Context \<Rightarrow> cstore \<Rightarrow> Artifact list" where
  "ListArtifacts env tc s =
     sort_key (\<lambda>artifact. - ar_CreatedAt artifact)
       (filter (\<lambda>artifact. ar_TenantID artifact = tc_TenantID tc) (range_values (c_order env) (db_Artifacts (mem s))))"

section \<open>Campaigns\<close>

definition put_campaign :: "Campaign \<Rightarrow> cstore \<Rightarrow> cstore" where
  "put_campaign c = modify (\<lambda>d. d\<lparr>db_OTACampaigns := mput (cm_ID c) c (db_OTACampaigns d)\<rparr>)"

definition CreateOTACampaign :: "cenv \<Rightarrow> Context \<Rightarrow> Campaign \<Rightarrow> cstore \<Rightarrow> Campaign result \<times> cstore" where
  "CreateOTACampaign env tc campaign s =
     (if cm_TenantID campaign \<noteq> [] \<and> cm_TenantID campaign \<noteq> tc_TenantID tc then (Inl ErrTenantMismatch, s)
      else
        let campaign = campaign\<lparr>cm_ID := NewID env 0 ''ota'', cm_TenantID := tc_TenantID tc, cm_CreatedAt := c_now env,
                                cm_State := (if cm_State campaign = [] then ''ready'' else cm_State campaign)\<rparr> in
        save_and_return env campaign (put_campaign campaign s))"

definition ListOTACampaigns :: "cenv \<Rightarrow> Context \<Rightarrow> cstore \<Rightarrow> Campaign list" where
  "ListOTACampaigns env tc s =
     sort_key (\<lambda>campaign. - cm_CreatedAt campaign)
       (filter (\<lambda>campaign. cm_TenantID campaign = tc_TenantID tc) (range_values (c_order env) (db_OTACampaigns (mem s))))"

definition GetOTACampaign :: "Context \<Rightarrow> string \<Rightarrow> cstore \<Rightarrow> Campaign result" where
  "GetOTACampaign tc campaignID s =
     (case mget (db_OTACampaigns (mem s)) campaignID of
        None \<Rightarrow> Inl ErrNotFound
      | Some campaign \<Rightarrow> if cm_TenantID campaign \<noteq> tc_TenantID tc then Inl ErrTenantMismatch else Inr campaign)"

definition UpdateOTACampaign :: "cenv \<Rightarrow> Context \<Rightarrow> Campaign \<Rightarrow> cstore \<Rightarrow> go_error option \<times> cstore" where
  "UpdateOTACampaign env tc campaign s =
     (case mget (db_OTACampaigns (mem s)) (cm_ID campaign) of
        None \<Rightarrow> (Some ErrNotFound, s)
      | Some existing \<Rightarrow>
          if cm_TenantID existing \<noteq> tc_TenantID tc \<or> cm_TenantID campaign \<noteq> tc_TenantID tc then (Some ErrTenantMismatch, s)
          else saveLocked env (put_campaign campaign s))"

section \<open>The audit log\<close>

definition Audit :: "cenv \<Rightarrow> AuditEvent \<Rightarrow> cstore \<Rightarrow> go_error option \<times> cstore" where
  "Audit env event s =
     saveLocked env (modify (\<lambda>d. d\<lparr>db_Audit := db_Audit d @ [event\<lparr>ev_ID := NewID env 0 ''aud'', ev_CreatedAt := c_now env\<rparr>]\<rparr>) s)"

definition ListAudit :: "Context \<Rightarrow> cstore \<Rightarrow> AuditEvent list" where
  "ListAudit tc s = filter (\<lambda>e. ev_TenantID e = tc_TenantID tc) (db_Audit (mem s))"

text \<open>\<^verbatim>\<open>audit.Record\<close>: the outcome of saving is ignored.\<close>

definition Record ::
  "cenv \<Rightarrow> Context \<Rightarrow> string \<Rightarrow> string \<Rightarrow> string \<Rightarrow> string \<Rightarrow> string go_map \<Rightarrow> cstore \<Rightarrow> cstore" where
  "Record env tc action resourceType resourceID outcome summary s =
     snd (Audit env \<lparr>ev_ID = [], ev_TenantID = tc_TenantID tc, ActorID = tc_ActorID tc, Action = action,
                     ResourceType = resourceType, ResourceID = resourceID, ev_Result = outcome, SourceIP = [],
                     UserAgent = [], ev_CorrelationID = [], Summary = summary, ev_CreatedAt = zero_time\<rparr> s)"

end
