(* ===== verification/CloudOTA.thy ===== *)
theory CloudOTA
  imports CloudFleet AgentAdapters
begin

text \<open>
  Campaigns of the control plane: the validation of their metadata,
  \<^verbatim>\<open>cloud-infra/internal/ota/ota.go\<close>, and the request every target receives in its job,
  \<^verbatim>\<open>queueOTAJobs\<close> of \<^verbatim>\<open>server/server.go\<close>. The regular expressions are the ones
  of the agent. The agent accepts what the control plane has validated.
\<close>

section \<open>Validation\<close>

definition validateArtifactURL :: "(string \<Rightarrow> url result) \<Rightarrow> string \<Rightarrow> go_error option" where
  "validateArtifactURL parse value =
     (if (case parse value of Inl err \<Rightarrow> True | Inr parsed \<Rightarrow> Scheme parsed \<noteq> ''https'' \<or> Host parsed = [])
      then Some (ErrorString ''OTA artifact URL must use HTTPS'')
      else None)"

definition supportedArchitecture :: "string \<Rightarrow> bool" where
  "supportedArchitecture value \<longleftrightarrow>
     ToLower (TrimSpace value) \<in> {''arm64'', ''aarch64'', ''armv7'', ''armv7l'', ''armhf'', ''amd64'', ''x86_64''}"

definition validateRollout :: "Campaign \<Rightarrow> go_error option" where
  "validateRollout c =
     (if CanaryPercent c < 1 \<or> 100 < CanaryPercent c
      then Some (ErrorString ''OTA canary percentage must be between 1 and 100'')
      else if TargetIDs c = [] then Some (ErrorString ''OTA campaign requires at least one target device'')
      else None)"

definition validateOSTree :: "(string \<Rightarrow> url result) \<Rightarrow> Campaign \<Rightarrow> go_error option" where
  "validateOSTree parse c =
     (if (case hexDecode (cm_OSTreeCommit c) of None \<Rightarrow> True | Some commit \<Rightarrow> length commit \<noteq> 32)
      then Some (ErrorString ''OSTree target commit must be a 64-character SHA-256 checksum'')
      else if cm_OSTreeOS c \<noteq> [] \<and> \<not> ostreeNamePattern (cm_OSTreeOS c)
      then Some (ErrorString ''OSTree deployment OS name is invalid'')
      else if \<not> (cm_OSTreeRemote c \<noteq> [] \<or> cm_OSTreeRef c \<noteq> []) then validateArtifactURL parse (cm_ArtifactURL c)
      else if cm_ArtifactURL c \<noteq> []
      then Some (ErrorString ''OSTree campaign must use either a repository or a static-delta artifact, not both'')
      else if \<not> ostreeNamePattern (cm_OSTreeRemote c) \<or> \<not> ostreeRefPattern (cm_OSTreeRef c)
      then Some (ErrorString ''OSTree repository campaign requires a valid preconfigured remote and ref'')
      else if \<not> EqualFold (cm_Digest c) (cm_OSTreeCommit c)
      then Some (ErrorString ''OSTree repository digest must equal the pinned target commit'')
      else if cm_ArtifactSize c \<noteq> 0
      then Some (ErrorString ''OSTree repository campaign cannot include an artifact size'')
      else None)"

definition validateFlatpak :: "(string \<Rightarrow> url result) \<Rightarrow> Campaign \<Rightarrow> go_error option" where
  "validateFlatpak parse c =
     (if \<not> flatpakRefPattern (cm_FlatpakRef c) then Some (ErrorString ''Flatpak reference is invalid'')
      else if \<not> flatpakRemotePattern (cm_FlatpakRemote c) then Some (ErrorString ''Flatpak remote is invalid'')
      else if cm_FlatpakCommit c \<noteq> [] \<and> \<not> flatpakCommitPattern (cm_FlatpakCommit c)
      then Some (ErrorString ''Flatpak commit must be a 64-character OSTree commit'')
      else if FlatpakRepositoryURL c \<noteq> [] \<and>
         (case parse (FlatpakRepositoryURL c) of
            Inl err \<Rightarrow> True
          | Inr parsed \<Rightarrow> Scheme parsed \<noteq> ''https'' \<or> Host parsed = []
              \<or> \<not> HasSuffix (ToLower (url_Path parsed)) ''.flatpakrepo'')
      then Some (ErrorString ''Flatpak repository URL must use HTTPS and point to a .flatpakrepo descriptor'')
      else validateRollout c)"

definition validateSignature :: "Campaign \<Rightarrow> go_error option" where
  "validateSignature c =
     (if (case hexDecode (cm_Digest c) of None \<Rightarrow> True | Some digest \<Rightarrow> length digest \<noteq> 32)
      then Some (ErrorString ''OTA digest must be a SHA-256 value'')
      else if cm_ArtifactSize c < 0 then Some (ErrorString ''OTA artifact size cannot be negative'')
      else if \<not> signingKeyIDPattern (cm_SigningKeyID c) then Some (ErrorString ''OTA signing key ID is invalid'')
      else if (case b64_decode_any (cm_Signature c) of None \<Rightarrow> True | Some signature \<Rightarrow> length signature \<noteq> 64)
      then Some (ErrorString ''OTA signature must be a base64 Ed25519 signature'')
      else validateRollout c)"

definition ValidateMetadata :: "(string \<Rightarrow> url result) \<Rightarrow> Campaign \<Rightarrow> go_error option" where
  "ValidateMetadata parse c =
     (if cm_Name c = [] \<or> cm_Version c = [] then Some (ErrorString ''update metadata requires name and version'')
      else if cm_Adapter c = ''flatpak'' then validateFlatpak parse c
      else if cm_Digest c = [] \<or> cm_Signature c = [] \<or> cm_SigningKeyID c = []
      then Some (ErrorString ''OTA metadata requires a digest, detached signature, and signing key ID'')
      else if \<not> supportedArchitecture (cm_Architecture c)
      then Some (ErrorString ''OTA architecture must be arm64/aarch64, armv7, or amd64'')
      else if \<not> adapterNamePattern (cm_Adapter c) then Some (ErrorString ''update adapter name is invalid'')
      else if cm_Product c = [] then Some (ErrorString ''OTA product is required'')
      else case (if cm_Adapter c = ''ostree'' then validateOSTree parse c else validateArtifactURL parse (cm_ArtifactURL c)) of
             Some err \<Rightarrow> Some err
           | None \<Rightarrow> validateSignature c)"

section \<open>The request of a target\<close>

definition ota_request :: "Campaign \<Rightarrow> Request" where
  "ota_request c =
     \<lparr>UpdateID = cm_ID c, rq_Adapter = cm_Adapter c, Version = cm_Version c, Product = cm_Product c,
      Architecture = cm_Architecture c, ArtifactURL = cm_ArtifactURL c, ArtifactSize = cm_ArtifactSize c,
      Digest = cm_Digest c, Signature = cm_Signature c, SigningKeyID = cm_SigningKeyID c,
      CompatibleFrom = cm_CompatibleFrom c, FlatpakRef = cm_FlatpakRef c, FlatpakRemote = cm_FlatpakRemote c,
      FlatpakCommit = cm_FlatpakCommit c, RepositoryURL = FlatpakRepositoryURL c, OSTreeRemote = cm_OSTreeRemote c,
      OSTreeRef = cm_OSTreeRef c, OSTreeCommit = cm_OSTreeCommit c, OSTreeOS = cm_OSTreeOS c\<rparr>"

text \<open>\<open>encode\<close> is the JSON text of the request; the jobs are created until one fails.\<close>

definition ota_job :: "cenv \<Rightarrow> (Request \<Rightarrow> string) \<Rightarrow> Context \<Rightarrow> Campaign \<Rightarrow> string \<Rightarrow> cJob result" where
  "ota_job env encode tc c deviceID =
     map_sum id (\<lambda>job. job\<lparr>DeploymentID := cm_ID c, jo_TimeoutSeconds := 7200, IdempotencyKey := cm_ID c @ '':'' @ deviceID\<rparr>)
       (jobs_New env deviceID ''ota_update'' (encode (ota_request c)) (tc_ActorID tc) (24 * Hour))"

fun queueOTAJobs ::
  "(nat \<Rightarrow> cenv) \<Rightarrow> (Request \<Rightarrow> string) \<Rightarrow> Context \<Rightarrow> Campaign \<Rightarrow> string list \<Rightarrow> cstore \<Rightarrow> go_error option \<times> cstore" where
  "queueOTAJobs envs encode tc c [] s = (None, s)"
| "queueOTAJobs envs encode tc c (deviceID # deviceIDs) s =
     (case ota_job (envs 0) encode tc c deviceID of
        Inl err \<Rightarrow> (Some err, s)
      | Inr job \<Rightarrow>
          (case CreateJob (envs 0) tc job s of
             (Inl err, s) \<Rightarrow> (Some err, s)
           | (Inr _, s) \<Rightarrow> queueOTAJobs (\<lambda>n. envs (n + 1)) encode tc c deviceIDs s))"

text \<open>
  How many targets the pilot has: \<^verbatim>\<open>math.Ceil(float64(n) * float64(percent) / 100)\<close>. Below
  \<open>2 ^ 46\<close> targets the product is exact and the quotient is closer to a whole number than
  one hundredth only if it is one, so rounding up the exact quotient is the same.
\<close>

definition canaryCount :: "Campaign \<Rightarrow> int" where
  "canaryCount c = max 1 ((int (length (TargetIDs c)) * CanaryPercent c + 99) div 100)"

section \<open>What the validations guarantee\<close>

lemma supportedArchitecture_canonical:
  "supportedArchitecture a \<Longrightarrow> CanonicalArchitecture a \<in> {''arm64'', ''armv7'', ''amd64''}"
  by (auto simp: supportedArchitecture_def CanonicalArchitecture_def Let_def)

lemma ValidateMetadata_flatpak:
  assumes "ValidateMetadata parse c = None" "cm_Adapter c = ''flatpak''"
  shows "cm_Version c \<noteq> []" "flatpakRefPattern (cm_FlatpakRef c)" "flatpakRemotePattern (cm_FlatpakRemote c)"
    "cm_FlatpakCommit c = [] \<or> flatpakCommitPattern (cm_FlatpakCommit c)" "validateRollout c = None"
  using assms by (auto simp: ValidateMetadata_def validateFlatpak_def split: if_splits)

lemma ValidateMetadata_os:
  assumes "ValidateMetadata parse c = None" "cm_Adapter c \<noteq> ''flatpak''"
  shows "cm_Version c \<noteq> []" "cm_Digest c \<noteq> []" "cm_Signature c \<noteq> []" "cm_SigningKeyID c \<noteq> []"
    "adapterNamePattern (cm_Adapter c)" "cm_Adapter c = ''ostree'' \<Longrightarrow> validateOSTree parse c = None"
    "cm_Adapter c \<noteq> ''ostree'' \<Longrightarrow> validateArtifactURL parse (cm_ArtifactURL c) = None"
    "0 \<le> cm_ArtifactSize c" "validateSignature c = None" "validateRollout c = None"
  using assms by (auto simp: ValidateMetadata_def validateSignature_def split: if_splits option.splits)

lemma validated_rollout:
  "ValidateMetadata parse c = None \<Longrightarrow> 1 \<le> CanaryPercent c \<and> CanaryPercent c \<le> 100 \<and> TargetIDs c \<noteq> []"
  using ValidateMetadata_flatpak(5) [of parse c] ValidateMetadata_os(10) [of parse c]
  by (cases "cm_Adapter c = ''flatpak''") (auto simp: validateRollout_def split: if_splits)

text \<open>An OSTree campaign is a valid OSTree request.\<close>

lemma validateOSTree_request:
  assumes "validateOSTree parse c = None" "\<And>u. parse [] = Inr u \<Longrightarrow> Host u = []"
  shows "validateOSTreeRequest (ota_request c) = None"
  using assms by (auto simp: validateOSTree_def validateOSTreeRequest_def ota_request_def validateArtifactURL_def
      split: if_splits option.splits sum.splits)

text \<open>C19: What the control plane validates the agent accepts: the request a target receives of a
  validated campaign passes the agent's validation on every device of the campaign's architecture
  and product whose size limit it respects. (The empty string does not parse as a URL with a host;
  for Flatpak, where the control plane does not look at the artifact size, it must not be negative.)\<close>

theorem validated_campaign_is_accepted:
  assumes "ValidateMetadata parse c = None" "cm_ID c \<noteq> []"
    and "\<And>u. parse [] = Inr u \<Longrightarrow> Host u = []"
    and "CanonicalArchitecture (cm_Architecture c) = CanonicalArchitecture arch"
    and "cfg_Product cfg = cm_Product c" "cm_Product c \<noteq> [] "
    and "0 \<le> cm_ArtifactSize c" "MaxArtifactBytes cfg \<le> 0 \<or> cm_ArtifactSize c \<le> MaxArtifactBytes cfg"
  shows "ValidateRequest arch cfg (ota_request c) = None"
proof (cases "cm_Adapter c = ''flatpak''")
  case True
  moreover have "adapterNamePattern ''flatpak''" by code_simp
  ultimately show ?thesis
    using ValidateMetadata_flatpak [OF assms(1) True] assms(2,7,8) by (auto simp: ValidateRequest_def ota_request_def)
next
  case False
  note os = ValidateMetadata_os [OF assms(1) False]
  have "validateOSRequest arch cfg (ota_request c) = None"
  proof (cases "cm_Adapter c = ''ostree''")
    case True
    then show ?thesis
      using os validateOSTree_request [OF os(6) [OF True] assms(3)] assms(4-6)
      by (simp add: validateOSRequest_def) (simp add: ota_request_def)
  next
    case not_ostree: False
    have "cm_ArtifactURL c \<noteq> []"
      using os(7) [OF not_ostree] assms(3) by (auto simp: validateArtifactURL_def split: if_splits sum.splits)
    then show ?thesis using os not_ostree assms(4-6) by (simp add: validateOSRequest_def ota_request_def)
  qed
  then show ?thesis using False os assms(2,7,8) by (auto simp: ValidateRequest_def ota_request_def)
qed

text \<open>The agent also finds the signature well formed, as it decodes it the same way.\<close>

lemma validated_signature_shape:
  assumes "ValidateMetadata parse c = None" "cm_Adapter c \<noteq> ''flatpak''"
  shows "signingKeyIDPattern (SigningKeyID (ota_request c))"
    and "\<exists>sig. b64_decode_any (Signature (ota_request c)) = Some sig \<and> length sig = 64"
    and "\<exists>dig. hexDecode (Digest (ota_request c)) = Some dig \<and> length dig = 32"
  using ValidateMetadata_os(9) [OF assms] by (auto simp: validateSignature_def ota_request_def split: if_splits option.splits)

text \<open>The pilot group of a validated campaign is never empty and never larger than the campaign: the
  slice of the targets that becomes the pilot is within bounds.\<close>

theorem canary_within_targets:
  assumes "ValidateMetadata parse c = None"
  shows "1 \<le> canaryCount c \<and> canaryCount c \<le> int (length (TargetIDs c))"
proof -
  have r: "CanaryPercent c \<le> 100" "TargetIDs c \<noteq> []" using validated_rollout [OF assms] by simp_all
  then have "int (length (TargetIDs c)) * CanaryPercent c \<le> int (length (TargetIDs c)) * 100" by (intro mult_left_mono) simp_all
  then have "(int (length (TargetIDs c)) * CanaryPercent c + 99) div 100 \<le> (int (length (TargetIDs c)) * 100 + 99) div 100"
    by (intro zdiv_mono1) simp_all
  moreover have "(int (length (TargetIDs c)) * 100 + 99) div 100 = int (length (TargetIDs c))" by simp
  moreover have "1 \<le> int (length (TargetIDs c))" using r(2) by (cases "TargetIDs c") simp_all
  ultimately show ?thesis by (simp add: canaryCount_def)
qed

section \<open>Witnesses\<close>

definition demo_campaign :: Campaign where
  "demo_campaign = \<lparr>cm_ID = ''ota_1'', cm_TenantID = ''a'', cm_Name = ''n'', ArtifactID = [], cm_ArtifactURL = ''u'',
     cm_Version = ''2'', cm_Product = ''p'', cm_Architecture = ''aarch64'', cm_Digest = replicate 64 CHR ''0'',
     cm_Signature = replicate 86 CHR ''A'', cm_SigningKeyID = ''k'', cm_ArtifactSize = 10, cm_CompatibleFrom = None,
     cm_Adapter = ''rauc'', cm_FlatpakRef = [], cm_FlatpakRemote = [], cm_FlatpakCommit = [], FlatpakRepositoryURL = [],
     cm_OSTreeRemote = [], cm_OSTreeRef = [], cm_OSTreeCommit = [], cm_OSTreeOS = [], TargetIDs = [''d1'', ''d2'', ''d3''],
     CanaryPercent = 34, cm_CreatedBy = [], cm_State = [], cm_CreatedAt = 0\<rparr>"

definition demo_parse :: "string \<Rightarrow> url result" where
  "demo_parse s =
     (if s = [] then Inr \<lparr>Scheme = [], Host = [], url_Path = [], Hostname = [], User = False, RawQuery = [], Fragment = []\<rparr>
      else Inr \<lparr>Scheme = ''https'', Host = ''h'', url_Path = [], Hostname = ''h'', User = False, RawQuery = [], Fragment = []\<rparr>)"

definition demo_agent :: Config where
  "demo_agent = \<lparr>Enabled = True, cfg_Product = ''p'', StateDir = [], StagingDir = [], TrustedKeysDir = [], PluginDir = [],
     MaxArtifactBytes = 100, MinFreeBytes = 0, DownloadTimeout = 0, HealthTimeout = 0, HealthCheckCommand = [], AutoReboot = False\<rparr>"

lemma demo_campaign_valid: "ValidateMetadata demo_parse demo_campaign = None"
  by code_simp

theorem validated_campaign_is_accepted_witness: "ValidateRequest ''arm64'' demo_agent (ota_request demo_campaign) = None"
proof (rule validated_campaign_is_accepted [OF demo_campaign_valid])
  show "CanonicalArchitecture (cm_Architecture demo_campaign) = CanonicalArchitecture ''arm64''" by code_simp
qed (simp_all add: demo_campaign_def demo_agent_def demo_parse_def)

theorem canary_within_targets_witness: "1 \<le> canaryCount demo_campaign \<and> canaryCount demo_campaign \<le> 3"
  using canary_within_targets [OF demo_campaign_valid] by (simp add: demo_campaign_def)

end
