(* ===== verification/CloudPassword.thy ===== *)
theory CloudPassword
  imports GoCodec
begin

text \<open>
  Password hashes, \<^verbatim>\<open>cloud-infra/internal/auth/password.go\<close>: PBKDF2 over HMAC-SHA-256, the
  text form of a hash and its verification. HMAC is a parameter; the only law used of it is that its
  digests have 32 bytes. The iteration is by repetition, as the code's loop.
\<close>

section \<open>Base64 encoding\<close>

definition b64_char :: "int \<Rightarrow> char" where
  "b64_char v =
     (if v < 26 then char_of (v + 65)
      else if v < 52 then char_of (v + 71)
      else if v < 62 then char_of (v - 4)
      else if v = 62 then CHR ''+''
      else CHR ''/'')"

text \<open>\<^verbatim>\<open>base64.RawStdEncoding.EncodeToString\<close>.\<close>

fun b64_encode_raw :: "string \<Rightarrow> string" where
  "b64_encode_raw [] = []"
| "b64_encode_raw [a] =
     (let v = of_char a * 65536 in [b64_char (v div 262144), b64_char (v div 4096 mod 64)])"
| "b64_encode_raw [a, b] =
     (let v = of_char a * 65536 + of_char b * 256 in
      [b64_char (v div 262144), b64_char (v div 4096 mod 64), b64_char (v div 64 mod 64)])"
| "b64_encode_raw (a # b # c # s) =
     (let v = of_char a * 65536 + of_char b * 256 + of_char c in
      [b64_char (v div 262144), b64_char (v div 4096 mod 64), b64_char (v div 64 mod 64), b64_char (v mod 64)]
      @ b64_encode_raw s)"

section \<open>PBKDF2\<close>

definition pbkdf2Iterations :: nat where "pbkdf2Iterations = 210000"
definition saltBytes :: nat where "saltBytes = 16"
definition keyBytes :: nat where "keyBytes = 32"

type_synonym mac = "string \<Rightarrow> string \<Rightarrow> string"

text \<open>Byte-wise exclusive or of two strings.\<close>

definition xor_bytes :: "string \<Rightarrow> string \<Rightarrow> string" where
  "xor_bytes t u = map2 (\<lambda>a b. char_of (Bit_Operations.xor (of_char a :: nat) (of_char b))) t u"

definition block_index :: "nat \<Rightarrow> string" where
  "block_index block =
     [char_of (block div 16777216), char_of (block div 65536), char_of (block div 256), char_of block]"

text \<open>The rounds after the first: the mac \<open>u\<close> and the accumulated block \<open>t\<close>.\<close>

fun pbkdf2_rounds :: "mac \<Rightarrow> string \<Rightarrow> nat \<Rightarrow> string \<Rightarrow> string \<Rightarrow> string" where
  "pbkdf2_rounds hmac password 0 u t = t"
| "pbkdf2_rounds hmac password (Suc n) u t =
     (let u = hmac password u in pbkdf2_rounds hmac password n u (xor_bytes t u))"

definition pbkdf2_block :: "mac \<Rightarrow> string \<Rightarrow> string \<Rightarrow> nat \<Rightarrow> nat \<Rightarrow> string" where
  "pbkdf2_block hmac password salt iter block =
     (let u = hmac password (salt @ block_index block) in pbkdf2_rounds hmac password (iter - 1) u u)"

definition pbkdf2SHA256 :: "mac \<Rightarrow> string \<Rightarrow> string \<Rightarrow> nat \<Rightarrow> nat \<Rightarrow> string" where
  "pbkdf2SHA256 hmac password salt iter keyLen =
     (let blocks = (keyLen + 32 - 1) div 32 in
      take keyLen (concat (map (pbkdf2_block hmac password salt iter) [1..<Suc blocks])))"

section \<open>Hash and Verify\<close>

text \<open>\<open>rand\<close> is what the random source yields for the salt.\<close>

definition Hash :: "mac \<Rightarrow> string result \<Rightarrow> string \<Rightarrow> string result" where
  "Hash hmac rand password =
     (case rand of
        Inl err \<Rightarrow> Inl err
      | Inr salt \<Rightarrow>
          (let key = pbkdf2SHA256 hmac password salt pbkdf2Iterations keyBytes in
           Inr (''pbkdf2-sha256$'' @ itoa (int pbkdf2Iterations) @ ''$'' @ b64_encode_raw salt @ ''$'' @ b64_encode_raw key)))"

definition Verify :: "mac \<Rightarrow> string \<Rightarrow> string \<Rightarrow> bool" where
  "Verify hmac password encoded =
     (case Split CHR ''$'' encoded of
        [name, iters, salt, want] \<Rightarrow>
          name = ''pbkdf2-sha256'' \<and>
          (case ParseInt iters of
             None \<Rightarrow> False
           | Some n \<Rightarrow>
               100000 \<le> n \<and>
               (case (b64_decode False salt, b64_decode False want) of
                  (Some salt, Some want) \<Rightarrow> pbkdf2SHA256 hmac password salt (nat n) (length want) = want
                | _ \<Rightarrow> False))
      | _ \<Rightarrow> False)"

section \<open>Encoding and decoding\<close>

lemma b64_val_all: "list_all (\<lambda>v. b64_val (b64_char v) = Some v) [0..63]"
  by code_simp

lemma b64_plain_all: "list_all (\<lambda>v. b64_char v \<notin> {CHR ''$'', CHR 0x0A, CHR 0x0D}) [0..63]"
  by code_simp

lemma b64_val_char [simp]: "0 \<le> v \<Longrightarrow> v < 64 \<Longrightarrow> b64_val (b64_char v) = Some v"
  using b64_val_all by (simp add: list_all_iff del: upto.simps)

lemma b64_char_plain: "0 \<le> v \<Longrightarrow> v < 64 \<Longrightarrow> b64_char v \<notin> {CHR ''$'', CHR 0x0A, CHR 0x0D}"
  using b64_plain_all by (simp add: list_all_iff del: upto.simps)

lemma byte_range: "0 \<le> (of_char c :: int)" "(of_char c :: int) < 256"
proof -
  have "(of_char c :: nat) < 256" by simp
  then show "0 \<le> (of_char c :: int)" "(of_char c :: int) < 256"
    by (metis of_nat_of_char of_nat_0_le_iff, metis of_nat_of_char of_nat_less_numeral_iff)
qed

lemma digits64: "(v :: int) = 64 * b + r1 \<Longrightarrow> b = 64 * c + r2 \<Longrightarrow> c = 64 * d + r3 \<Longrightarrow> 262144 * d + 4096 * r3 + 64 * r2 + r1 = v"
  by simp

text \<open>A number of 24 bits is put together again from its four digits of six bits.\<close>

lemma recombine: "262144 * (v div 262144) + 4096 * (v div 4096 mod 64) + 64 * (v div 64 mod 64) + v mod 64 = (v :: int)"
proof -
  have "v div 4096 = v div 64 div 64" "v div 262144 = v div 64 div 64 div 64"
    by (simp_all add: zdiv_zmult2_eq [symmetric])
  moreover have "262144 * (v div 64 div 64 div 64) + 4096 * (v div 64 div 64 mod 64) + 64 * (v div 64 mod 64) + v mod 64 = v"
    by (rule digits64) (rule mult_div_mod_eq [symmetric])+
  ultimately show ?thesis by simp
qed

lemma div_range: "0 \<le> v \<Longrightarrow> v < 16777216 \<Longrightarrow> 0 \<le> v div 262144" "0 \<le> v \<Longrightarrow> v < 16777216 \<Longrightarrow> v div 262144 < (64 :: int)"
  using div_mult_mod_eq [of v 262144] pos_mod_sign [of 262144 v] by (simp_all add: pos_imp_zdiv_nonneg_iff)

lemma bytes3:
  fixes a b c :: int
  assumes "0 \<le> a" "a < 256" "0 \<le> b" "b < 256" "0 \<le> c" "c < 256"
  defines "v \<equiv> a * 65536 + b * 256 + c"
  shows "v div 65536 = a" "v div 256 mod 256 = b" "v mod 256 = c" "0 \<le> v" "v < 16777216"
proof -
  show "v div 65536 = a" by (rule int_div_pos_eq [of _ _ _ "b * 256 + c"]) (use assms(1-6) in \<open>simp_all add: v_def\<close>)
  have "v div 256 = a * 256 + b" by (rule int_div_pos_eq [of _ _ _ c]) (use assms(1-6) in \<open>simp_all add: v_def\<close>)
  then show "v div 256 mod 256 = b" using assms(3,4) by simp
  show "v mod 256 = c" by (rule int_mod_pos_eq [of _ _ "a * 256 + b"]) (use assms(1-6) in \<open>simp_all add: v_def\<close>)
  show "0 \<le> v" "v < 16777216" using assms(1-6) by (simp_all add: v_def)
qed

text \<open>The low digits of a short group are zero.\<close>

lemma low_digits:
  fixes a b :: int
  shows "(a * 65536) mod 64 = 0" "(a * 65536) div 64 mod 64 = 0" "(a * 65536 + b * 256) mod 64 = 0"
proof -
  have "a * 65536 = 64 * (a * 1024)" "a * 1024 = 64 * (a * 16)" "a * 65536 + b * 256 = 64 * (a * 1024 + b * 4)" by simp_all
  then show "(a * 65536) mod 64 = 0" "(a * 65536) div 64 mod 64 = 0" "(a * 65536 + b * 256) mod 64 = 0"
    by (metis mod_mult_self1_is_0, metis mod_mult_self1_is_0 nonzero_mult_div_cancel_left zero_neq_numeral, metis mod_mult_self1_is_0)
qed

lemma char_of_byte: "char_of (of_char c :: int) = c"
  by simp

text \<open>The groups of two, three and four digits.\<close>

lemma groups_chars:
  assumes "0 \<le> w" "w < 64" "0 \<le> x" "x < 64"
  shows "b64_groups False [b64_char w, b64_char x] = Some (b64_bytes (262144 * w + 4096 * x) 1)"
    and "0 \<le> y \<Longrightarrow> y < 64 \<Longrightarrow>
      b64_groups False [b64_char w, b64_char x, b64_char y] = Some (b64_bytes (262144 * w + 4096 * x + 64 * y) 2)"
    and "0 \<le> y \<Longrightarrow> y < 64 \<Longrightarrow> 0 \<le> z \<Longrightarrow> z < 64 \<Longrightarrow> b64_groups False s = Some t \<Longrightarrow>
      b64_groups False ([b64_char w, b64_char x, b64_char y, b64_char z] @ s)
        = Some (b64_bytes (262144 * w + 4096 * x + 64 * y + z) 3 @ t)"
  using assms by simp_all

lemma b64_bytes_parts:
  "b64_bytes v 1 = [char_of (v div 65536)]" "b64_bytes v 2 = [char_of (v div 65536), char_of (v div 256 mod 256)]"
  "b64_bytes v 3 = [char_of (v div 65536), char_of (v div 256 mod 256), char_of (v mod 256)]"
  by (simp_all add: b64_bytes_def)

lemma decode_group:
  fixes v :: int
  assumes "0 \<le> v" "v < 16777216" "v div 65536 = of_char a"
  shows "262144 * (v div 262144) + 4096 * (v div 4096 mod 64) = v \<Longrightarrow>
      b64_groups False [b64_char (v div 262144), b64_char (v div 4096 mod 64)] = Some [a]"
    and "262144 * (v div 262144) + 4096 * (v div 4096 mod 64) + 64 * (v div 64 mod 64) = v \<Longrightarrow> v div 256 mod 256 = of_char b \<Longrightarrow>
      b64_groups False [b64_char (v div 262144), b64_char (v div 4096 mod 64), b64_char (v div 64 mod 64)] = Some [a, b]"
    and "v div 256 mod 256 = of_char b \<Longrightarrow> v mod 256 = of_char c \<Longrightarrow> b64_groups False s = Some t \<Longrightarrow>
      b64_groups False ([b64_char (v div 262144), b64_char (v div 4096 mod 64), b64_char (v div 64 mod 64), b64_char (v mod 64)] @ s)
        = Some ([a, b, c] @ t)"
proof -
  have m: "0 \<le> x mod (64 :: int)" "x mod 64 < (64 :: int)" for x by simp_all
  note g = groups_chars [OF div_range(1) [OF assms(1,2)] div_range(2) [OF assms(1,2)] m [of "v div 4096"]]
  show "262144 * (v div 262144) + 4096 * (v div 4096 mod 64) = v \<Longrightarrow>
      b64_groups False [b64_char (v div 262144), b64_char (v div 4096 mod 64)] = Some [a]"
    by (simp only: g(1) b64_bytes_parts assms(3) char_of_byte)
  show "262144 * (v div 262144) + 4096 * (v div 4096 mod 64) + 64 * (v div 64 mod 64) = v \<Longrightarrow> v div 256 mod 256 = of_char b \<Longrightarrow>
      b64_groups False [b64_char (v div 262144), b64_char (v div 4096 mod 64), b64_char (v div 64 mod 64)] = Some [a, b]"
    by (simp only: g(2) [OF m [of "v div 64"]] b64_bytes_parts assms(3) char_of_byte)
  show "v div 256 mod 256 = of_char b \<Longrightarrow> v mod 256 = of_char c \<Longrightarrow> b64_groups False s = Some t \<Longrightarrow>
      b64_groups False ([b64_char (v div 262144), b64_char (v div 4096 mod 64), b64_char (v div 64 mod 64), b64_char (v mod 64)] @ s)
        = Some ([a, b, c] @ t)"
    by (simp only: g(3) [OF m [of "v div 64"] m [of v]] recombine b64_bytes_parts assms(3) char_of_byte)
qed

lemma b64_groups_encode: "b64_groups False (b64_encode_raw s) = Some s"
proof (induction s rule: b64_encode_raw.induct)
  case 1
  then show ?case by simp
next
  case (2 a)
  have v: "(of_char a * 65536 :: int) div 65536 = of_char a" "0 \<le> (of_char a * 65536 :: int)" "(of_char a * 65536 :: int) < 16777216"
    using byte_range [of a] by simp_all
  show ?case unfolding b64_encode_raw.simps Let_def
    by (rule decode_group(1) [OF v(2,3,1) recombine [of "of_char a * 65536", unfolded low_digits mult_zero_right add_0_right]])
next
  case (3 a b)
  have v: "(of_char a * 65536 + of_char b * 256 :: int) div 65536 = of_char a"
    "(of_char a * 65536 + of_char b * 256 :: int) div 256 mod 256 = of_char b"
    "0 \<le> (of_char a * 65536 + of_char b * 256 :: int)" "(of_char a * 65536 + of_char b * 256 :: int) < 16777216"
    using bytes3 [of "of_char a" "of_char b" 0] byte_range [of a] byte_range [of b] by simp_all
  show ?case unfolding b64_encode_raw.simps Let_def
    by (rule decode_group(2) [OF v(3,4,1) recombine [of "of_char a * 65536 + of_char b * 256", unfolded low_digits(3) add_0_right] v(2)])
next
  case (4 a b c s)
  note v = bytes3 [of "of_char a" "of_char b" "of_char c", OF byte_range [of a] byte_range [of b] byte_range [of c]]
  show ?case unfolding b64_encode_raw.simps Let_def
    using decode_group(3) [OF v(4,5,1,2,3) 4] by (simp only: append_Cons append_Nil)
qed

section \<open>A password verifies against its own hash\<close>

lemma groups_valid: "b64_groups padded s = Some t \<Longrightarrow> \<not> padded \<Longrightarrow> c \<in> set s \<Longrightarrow> b64_val c \<noteq> None"
  by (induction padded s arbitrary: t rule: b64_groups.induct) (auto split: option.splits if_splits)

lemma valid_plain: "b64_val c \<noteq> None \<Longrightarrow> c \<notin> {CHR ''$'', CHR 0x0A, CHR 0x0D}"
  by (auto simp: b64_val_def is_upper_def is_lower_def is_digit_def between_def)

lemma b64_encode_plain: "c \<in> set (b64_encode_raw s) \<Longrightarrow> c \<notin> {CHR ''$'', CHR 0x0A, CHR 0x0D}"
  using groups_valid [OF b64_groups_encode] valid_plain by blast

lemma b64_roundtrip: "b64_decode False (b64_encode_raw s) = Some s"
proof -
  have "filter (\<lambda>c. c \<noteq> CHR 0x0A \<and> c \<noteq> CHR 0x0D) (b64_encode_raw s) = b64_encode_raw s"
    using b64_encode_plain [of _ s] by (intro filter_True) auto
  then show ?thesis by (simp add: b64_decode_def b64_groups_encode)
qed

lemma Split_single: "sep \<notin> set s \<Longrightarrow> Split sep s = [s]"
  by (induction s) auto

lemma Split_append: "sep \<notin> set s \<Longrightarrow> Split sep (s @ sep # t) = s # Split sep t"
  by (induction s) auto

lemma length_pbkdf2_rounds:
  assumes "\<And>k m. length (hmac k m) = 32"
  shows "length t = 32 \<Longrightarrow> length (pbkdf2_rounds hmac password n u t) = 32"
  by (induction n arbitrary: u t) (simp_all add: Let_def xor_bytes_def assms)

lemma length_pbkdf2:
  assumes "\<And>k m. length (hmac k m) = 32"
  shows "length (pbkdf2SHA256 hmac password salt iter n) = n"
proof -
  have "length (pbkdf2_block hmac password salt iter b) = 32" for b
    by (simp add: pbkdf2_block_def Let_def length_pbkdf2_rounds assms)
  then have "length (concat (map (pbkdf2_block hmac password salt iter) xs)) = 32 * length xs" for xs
    by (induction xs) simp_all
  moreover have "n \<le> 32 * ((n + 32 - 1) div 32)" by simp
  ultimately show ?thesis by (simp add: pbkdf2SHA256_def Let_def)
qed

lemma itoa_plain: "CHR ''$'' \<notin> set (itoa (int n))"
  using utoa_digits [of n] by (auto simp: itoa_def list_all_iff is_digit_def between_def)

lemma Verify_Hash:
  assumes "\<And>k m. length (hmac k m) = 32" "Hash hmac (Inr salt) password = Inr encoded"
  shows "Verify hmac password encoded \<and> (Verify hmac other encoded \<longleftrightarrow>
      pbkdf2SHA256 hmac other salt pbkdf2Iterations keyBytes = pbkdf2SHA256 hmac password salt pbkdf2Iterations keyBytes)"
proof -
  define key where "key = pbkdf2SHA256 hmac password salt pbkdf2Iterations keyBytes"
  have plain: "CHR ''$'' \<notin> set (b64_encode_raw x)" for x using b64_encode_plain by blast
  have enc: "encoded = ''pbkdf2-sha256'' @ CHR ''$'' # itoa (int pbkdf2Iterations) @ CHR ''$'' # b64_encode_raw salt @ CHR ''$'' # b64_encode_raw key"
    using assms(2) by (simp add: Hash_def Let_def key_def)
  have split: "Split CHR ''$'' encoded = [''pbkdf2-sha256'', itoa (int pbkdf2Iterations), b64_encode_raw salt, b64_encode_raw key]"
    by (simp add: enc Split_append Split_single itoa_plain plain)
  have "in_i64 (int pbkdf2Iterations)" by (simp add: in_i64_def pbkdf2Iterations_def)
  then have it: "ParseInt (itoa (int pbkdf2Iterations)) = Some (int pbkdf2Iterations)" by (rule ParseInt_itoa)
  have "length key = keyBytes" by (simp add: key_def length_pbkdf2 assms(1))
  then have "Verify hmac p encoded \<longleftrightarrow> pbkdf2SHA256 hmac p salt pbkdf2Iterations keyBytes = key" for p
    by (simp add: Verify_def split it b64_roundtrip) (simp add: pbkdf2Iterations_def)
  then show ?thesis by (simp add: key_def)
qed

text \<open>C33: A password verifies against the hash made of it, whatever the salt: the text of a hash is read
  back to its iterations, salt and key. Any other password verifies only if it has the same derived key.\<close>

theorem hashed_password_verifies:
  assumes "\<And>k m. length (hmac k m) = 32" "Hash hmac (Inr salt) password = Inr encoded"
  shows "Verify hmac password encoded \<and> (Verify hmac other encoded \<longleftrightarrow>
      pbkdf2SHA256 hmac other salt pbkdf2Iterations keyBytes = pbkdf2SHA256 hmac password salt pbkdf2Iterations keyBytes)"
  using Verify_Hash [OF assms] .

definition demo_hmac :: mac where
  "demo_hmac key message = replicate 32 CHR ''x''"

theorem hashed_password_verifies_witness:
  "\<exists>encoded. Hash demo_hmac (Inr ''salt'') ''secret'' = Inr encoded \<and> Verify demo_hmac ''secret'' encoded"
proof -
  obtain encoded where h: "Hash demo_hmac (Inr ''salt'') ''secret'' = Inr encoded" by (simp add: Hash_def Let_def)
  have "length (demo_hmac k m) = 32" for k m by (simp add: demo_hmac_def)
  from hashed_password_verifies [OF this h] h show ?thesis by blast
qed

end
