(* ===== verification/CloudView.thy ===== *)
theory CloudView
  imports CloudFleet
begin

text \<open>
  What belongs to one tenant, \<open>tenant_view\<close>, the invariant of the store that ties its maps
  together, and how the projection commutes with the updates the operations make.
\<close>

section \<open>Projections of maps\<close>

named_theorems view \<open>how filters commute with updates, deletions, lookups and loops over maps\<close>

lemma mfilter_mput_in [view]:
  assumes "P k v" "\<And>w. mget m k = Some w \<Longrightarrow> P k w"
  shows "mfilter P (mput k v m) = mput k v (mfilter P m)"
  using assms(2)
proof (induction m)
  case Nil
  then show ?case using assms(1) by (simp add: mfilter_def mput_def)
next
  case (Cons a m)
  obtain k' v' where a: "a = (k', v')" by (cases a)
  show ?case
  proof (cases "k' = k")
    case True
    then show ?thesis using Cons.prems [of v'] assms(1) by (simp add: a mfilter_def mput_def mget_def)
  next
    case False
    then have "mfilter P (mput k v m) = mput k v (mfilter P m)" using Cons by (simp add: a mget_def)
    then show ?thesis using False by (simp add: a mfilter_def mput_def)
  qed
qed

lemma mfilter_mput_out [view]:
  assumes "\<not> P k v" "\<And>w. mget m k = Some w \<Longrightarrow> \<not> P k w"
  shows "mfilter P (mput k v m) = mfilter P m"
  using assms(2)
proof (induction m)
  case Nil
  then show ?case using assms(1) by (simp add: mfilter_def mput_def)
next
  case (Cons a m)
  obtain k' v' where a: "a = (k', v')" by (cases a)
  show ?case
  proof (cases "k' = k")
    case True
    then show ?thesis using Cons.prems [of v'] assms(1) by (simp add: a mfilter_def mput_def mget_def)
  next
    case False
    then have "mfilter P (mput k v m) = mfilter P m" using Cons by (simp add: a mget_def)
    then show ?thesis using False by (simp add: a mfilter_def mput_def)
  qed
qed

lemma mfilter_mdel [view]: "mfilter P (mdel k m) = mdel k (mfilter P m)"
  by (simp add: mfilter_def mdel_def AList.delete_eq filter_filter conj_commute case_prod_unfold)

lemma mdel_id: "mget m k = None \<Longrightarrow> mdel k m = m"
  by (simp add: mget_def mdel_def delete_idem map_of_eq_None_iff)

lemma mfilter_mdel_out:
  "wf_map m \<Longrightarrow> (\<And>v. mget m k = Some v \<Longrightarrow> \<not> P k v) \<Longrightarrow> mfilter P (mdel k m) = mfilter P m"
  unfolding mfilter_mdel by (rule mdel_id) (auto split: option.splits)

lemma mfilter_mfilter [view]: "mfilter P (mfilter Q m) = mfilter (\<lambda>k v. P k v \<and> Q k v) m"
  by (simp add: mfilter_def case_prod_unfold conj_commute)

lemma mfilter_cong: "(\<And>k v. (k, v) \<in> set m \<Longrightarrow> P k v = Q k v) \<Longrightarrow> mfilter P m = mfilter Q m"
  by (auto simp: mfilter_def intro: filter_cong)

lemma set_mfilter: "(k, v) \<in> set (mfilter P m) \<longleftrightarrow> (k, v) \<in> set m \<and> P k v"
  by (simp add: mfilter_def)

lemma mfilter_mfiltermap_in [view]:
  assumes "\<And>k v w. f k v = Some w \<Longrightarrow> P k w = P k v"
  shows "mfilter P (mfiltermap f m) = mfiltermap f (mfilter P m)"
proof (induction m)
  case Nil
  then show ?case by (simp add: mfilter_def)
next
  case (Cons a m)
  then show ?case using assms by (cases a) (auto simp: mfilter_def split: option.splits)
qed

lemma mfilter_mfiltermap_out:
  assumes "\<And>k v w. f k v = Some w \<Longrightarrow> P k w = P k v" "\<And>k v. P k v \<Longrightarrow> f k v = Some v"
  shows "mfilter P (mfiltermap f m) = mfilter P m"
proof (induction m)
  case Nil
  then show ?case by (simp add: mfilter_def)
next
  case (Cons a m)
  obtain k v where a: "a = (k, v)" by (cases a)
  have "mfilter P (mfiltermap f m) = mfilter P m" by (rule Cons.IH)
  then show ?case using assms [of k v] by (auto simp: a mfilter_def split: option.splits)
qed

lemma range_map_mfilter [view]: "range_map r (mfilter P m) = filter (\<lambda>(k, v). P k v) (range_map r m)"
  by (simp add: range_map_def mfilter_def filter_sort)

lemma range_values_mfilter [view]:
  "range_values r (mfilter (\<lambda>k. P) m) = filter P (range_values r m)"
proof -
  have "map snd (filter (\<lambda>(k, v). P v) xs) = filter P (map snd xs)" for xs :: "(string \<times> 'a) list"
    by (induction xs) auto
  then show ?thesis unfolding range_values_def range_map_mfilter .
qed

lemma find_filter [view]: "(\<And>x. P x \<Longrightarrow> Q x) \<Longrightarrow> List.find P (filter Q xs) = List.find P xs"
  by (induction xs) auto

section \<open>The view of a tenant\<close>

definition member :: "string \<Rightarrow> cdata \<Rightarrow> string \<Rightarrow> bool" where
  "member t d userID \<longleftrightarrow> (\<exists>m \<in> set (db_Memberships d). mb_TenantID m = t \<and> mb_UserID m = userID)"

definition tenant_view :: "string \<Rightarrow> cdata \<Rightarrow> cdata" where
  "tenant_view t d =
     \<lparr>db_Organizations = mfilter (\<lambda>k v. k = t) (db_Organizations d),
      db_Users = mfilter (\<lambda>k v. member t d k) (db_Users d),
      db_Memberships = filter (\<lambda>m. mb_TenantID m = t) (db_Memberships d),
      db_Sessions = [],
      db_EnrollmentTokens = mfilter (\<lambda>k v. et_TenantID v = t) (db_EnrollmentTokens d),
      db_Devices = mfilter (\<lambda>k v. dv_TenantID v = t) (db_Devices d),
      db_Downstream = mfilter (\<lambda>k v. dd_TenantID v = t) (db_Downstream d),
      db_Telemetry = filter (\<lambda>m. owned_device t d (mt_DeviceID m)) (db_Telemetry d),
      db_Inventory = mfilter (\<lambda>k v. owned_device t d k) (db_Inventory d),
      db_Jobs = mfilter (\<lambda>k v. jo_TenantID v = t) (db_Jobs d),
      db_Artifacts = mfilter (\<lambda>k v. ar_TenantID v = t) (db_Artifacts d),
      db_OTACampaigns = mfilter (\<lambda>k v. cm_TenantID v = t) (db_OTACampaigns d),
      db_PlatformSettings = mfilter (\<lambda>k v. k = t) (db_PlatformSettings d),
      db_AIConfigurations = mfilter (\<lambda>k v. k = t) (db_AIConfigurations d),
      db_Audit = filter (\<lambda>e. ev_TenantID e = t) (db_Audit d)\<rparr>"

lemma tenant_view_sel [simp]:
  "db_Organizations (tenant_view t d) = mfilter (\<lambda>k v. k = t) (db_Organizations d)"
  "db_Users (tenant_view t d) = mfilter (\<lambda>k v. member t d k) (db_Users d)"
  "db_Memberships (tenant_view t d) = filter (\<lambda>m. mb_TenantID m = t) (db_Memberships d)"
  "db_Sessions (tenant_view t d) = []"
  "db_EnrollmentTokens (tenant_view t d) = mfilter (\<lambda>k v. et_TenantID v = t) (db_EnrollmentTokens d)"
  "db_Devices (tenant_view t d) = mfilter (\<lambda>k v. dv_TenantID v = t) (db_Devices d)"
  "db_Downstream (tenant_view t d) = mfilter (\<lambda>k v. dd_TenantID v = t) (db_Downstream d)"
  "db_Telemetry (tenant_view t d) = filter (\<lambda>m. owned_device t d (mt_DeviceID m)) (db_Telemetry d)"
  "db_Inventory (tenant_view t d) = mfilter (\<lambda>k v. owned_device t d k) (db_Inventory d)"
  "db_Jobs (tenant_view t d) = mfilter (\<lambda>k v. jo_TenantID v = t) (db_Jobs d)"
  "db_Artifacts (tenant_view t d) = mfilter (\<lambda>k v. ar_TenantID v = t) (db_Artifacts d)"
  "db_OTACampaigns (tenant_view t d) = mfilter (\<lambda>k v. cm_TenantID v = t) (db_OTACampaigns d)"
  "db_PlatformSettings (tenant_view t d) = mfilter (\<lambda>k v. k = t) (db_PlatformSettings d)"
  "db_AIConfigurations (tenant_view t d) = mfilter (\<lambda>k v. k = t) (db_AIConfigurations d)"
  "db_Audit (tenant_view t d) = filter (\<lambda>e. ev_TenantID e = t) (db_Audit d)"
  by (simp_all add: tenant_view_def)

lemma tenant_view_eq_iff:
  "tenant_view t d = tenant_view t d' \<longleftrightarrow>
     db_Organizations (tenant_view t d) = db_Organizations (tenant_view t d')
   \<and> db_Users (tenant_view t d) = db_Users (tenant_view t d')
   \<and> db_Memberships (tenant_view t d) = db_Memberships (tenant_view t d')
   \<and> db_Sessions (tenant_view t d) = db_Sessions (tenant_view t d')
   \<and> db_EnrollmentTokens (tenant_view t d) = db_EnrollmentTokens (tenant_view t d')
   \<and> db_Devices (tenant_view t d) = db_Devices (tenant_view t d')
   \<and> db_Downstream (tenant_view t d) = db_Downstream (tenant_view t d')
   \<and> db_Telemetry (tenant_view t d) = db_Telemetry (tenant_view t d')
   \<and> db_Inventory (tenant_view t d) = db_Inventory (tenant_view t d')
   \<and> db_Jobs (tenant_view t d) = db_Jobs (tenant_view t d')
   \<and> db_Artifacts (tenant_view t d) = db_Artifacts (tenant_view t d')
   \<and> db_OTACampaigns (tenant_view t d) = db_OTACampaigns (tenant_view t d')
   \<and> db_PlatformSettings (tenant_view t d) = db_PlatformSettings (tenant_view t d')
   \<and> db_AIConfigurations (tenant_view t d) = db_AIConfigurations (tenant_view t d')
   \<and> db_Audit (tenant_view t d) = db_Audit (tenant_view t d')"
  by (simp add: tenant_view_def)

text \<open>The store as if the tenant had it for itself.\<close>

definition private_store :: "string \<Rightarrow> cstore \<Rightarrow> cstore" where
  "private_store t s = \<lparr>file_path = file_path s, mem = tenant_view t (mem s), disk = None\<rparr>"

lemma private_store_simps [simp]:
  "mem (private_store t s) = tenant_view t (mem s)" "file_path (private_store t s) = file_path s"
  by (simp_all add: private_store_def)

lemma private_store_eq_iff:
  "private_store t s = private_store t s' \<longleftrightarrow> file_path s = file_path s' \<and> tenant_view t (mem s) = tenant_view t (mem s')"
  by (simp add: private_store_def)

section \<open>The invariant\<close>

text \<open>
  Keys are unique; a campaign is filed under its ID; jobs and downstream devices belong to the
  tenant of their device; telemetry and inventory are of registered devices.
\<close>

definition wf_maps :: "cdata \<Rightarrow> bool" where
  "wf_maps d \<longleftrightarrow>
     wf_map (db_Organizations d) \<and> wf_map (db_Users d) \<and> wf_map (db_Sessions d) \<and> wf_map (db_EnrollmentTokens d)
   \<and> wf_map (db_Devices d) \<and> wf_map (db_Downstream d) \<and> wf_map (db_Inventory d) \<and> wf_map (db_Jobs d)
   \<and> wf_map (db_Artifacts d) \<and> wf_map (db_OTACampaigns d) \<and> wf_map (db_PlatformSettings d) \<and> wf_map (db_AIConfigurations d)"

definition references_ok :: "cdata \<Rightarrow> bool" where
  "references_ok d \<longleftrightarrow>
     (\<forall>(k, c) \<in> set (db_OTACampaigns d). cm_ID c = k)
   \<and> (\<forall>(k, j) \<in> set (db_Jobs d). owned_device (jo_TenantID j) d (jo_DeviceID j))
   \<and> (\<forall>(k, dd) \<in> set (db_Downstream d). owned_device (dd_TenantID dd) d (dd_ParentGatewayID dd))
   \<and> (\<forall>m \<in> set (db_Telemetry d). mget (db_Devices d) (mt_DeviceID m) \<noteq> None)
   \<and> (\<forall>(k, v) \<in> set (db_Inventory d). mget (db_Devices d) k \<noteq> None)"

definition store_inv :: "cdata \<Rightarrow> bool" where
  "store_inv d \<longleftrightarrow> wf_maps d \<and> references_ok d"

lemma wf_mapsD:
  assumes "wf_maps d"
  shows "wf_map (db_Organizations d)" "wf_map (db_Users d)" "wf_map (db_Sessions d)" "wf_map (db_EnrollmentTokens d)"
    "wf_map (db_Devices d)" "wf_map (db_Downstream d)" "wf_map (db_Inventory d)" "wf_map (db_Jobs d)"
    "wf_map (db_Artifacts d)" "wf_map (db_OTACampaigns d)" "wf_map (db_PlatformSettings d)" "wf_map (db_AIConfigurations d)"
  using assms by (simp_all add: wf_maps_def)

lemma owned_device_iff: "owned_device t d k \<longleftrightarrow> (\<exists>dv. mget (db_Devices d) k = Some dv \<and> dv_TenantID dv = t)"
  by (auto simp: owned_device_def split: option.splits)

text \<open>Ownership depends on the device map alone.\<close>

lemma owned_device_cong: "db_Devices d = db_Devices d' \<Longrightarrow> owned_device t d = owned_device t d'"
  by (simp add: owned_device_def fun_eq_iff)

lemma member_cong: "db_Memberships d = db_Memberships d' \<Longrightarrow> member t d = member t d'"
  by (simp add: member_def fun_eq_iff)

lemma owned_tenant_view [simp]: "wf_maps d \<Longrightarrow> owned_device t (tenant_view t d) k = owned_device t d k"
  by (auto simp: owned_device_iff tenant_view_def wf_mapsD split: option.splits)

lemma member_tenant_view [simp]: "member t (tenant_view t d) = member t d"
  by (auto simp: member_def tenant_view_def fun_eq_iff)

text \<open>The invariant holds of an empty store.\<close>

lemma store_inv_no_data: "store_inv no_data"
  by (simp add: store_inv_def wf_maps_def references_ok_def no_data_def)

end
