(* ===== verification/CloudUpdates.thy ===== *)
theory CloudUpdates
  imports CloudView
begin

text \<open>The updates of the data that the operations of a tenant make are local to the tenant.\<close>

section \<open>Local updates\<close>

text \<open>
  An update \<open>g\<close> of the data in the tenant's name: it keeps the invariant, has the same effect on
  the tenant's view as on the whole store, and none on the views of others.
\<close>

definition local_update :: "string \<Rightarrow> (cdata \<Rightarrow> cdata) \<Rightarrow> cdata \<Rightarrow> bool" where
  "local_update t g d \<longleftrightarrow>
     store_inv (g d) \<and> tenant_view t (g (tenant_view t d)) = tenant_view t (g d)
   \<and> (\<forall>t'. t' \<noteq> t \<longrightarrow> tenant_view t' (g d) = tenant_view t' d)"

lemma tenant_view_twice [simp]: "wf_maps d \<Longrightarrow> tenant_view t (tenant_view t d) = tenant_view t d"
  by (simp add: tenant_view_eq_iff view)

lemma private_store_twice [simp]: "wf_maps (mem s) \<Longrightarrow> private_store t (private_store t s) = private_store t s"
  by (simp add: private_store_def)


lemma owned_frame [simp]:
  "owned_device t (d\<lparr>db_Organizations := a1\<rparr>) = owned_device t d"
  "owned_device t (d\<lparr>db_EnrollmentTokens := a2\<rparr>) = owned_device t d"
  "owned_device t (d\<lparr>db_Telemetry := a3\<rparr>) = owned_device t d"
  "owned_device t (d\<lparr>db_Inventory := a4\<rparr>) = owned_device t d"
  "owned_device t (d\<lparr>db_Jobs := a5\<rparr>) = owned_device t d"
  "owned_device t (d\<lparr>db_OTACampaigns := a6\<rparr>) = owned_device t d"
  "owned_device t (d\<lparr>db_PlatformSettings := a7\<rparr>) = owned_device t d"
  "owned_device t (d\<lparr>db_AIConfigurations := a8\<rparr>) = owned_device t d"
  "owned_device t (d\<lparr>db_Audit := a9\<rparr>) = owned_device t d"
  "owned_device t (d\<lparr>db_Downstream := a10\<rparr>) = owned_device t d"
  by (simp_all add: owned_device_def fun_eq_iff)

lemma member_frame [simp]:
  "member t (d\<lparr>db_Organizations := a1\<rparr>) = member t d"
  "member t (d\<lparr>db_EnrollmentTokens := a2\<rparr>) = member t d"
  "member t (d\<lparr>db_Telemetry := a3\<rparr>) = member t d"
  "member t (d\<lparr>db_Inventory := a4\<rparr>) = member t d"
  "member t (d\<lparr>db_Jobs := a5\<rparr>) = member t d"
  "member t (d\<lparr>db_OTACampaigns := a6\<rparr>) = member t d"
  "member t (d\<lparr>db_PlatformSettings := a7\<rparr>) = member t d"
  "member t (d\<lparr>db_AIConfigurations := a8\<rparr>) = member t d"
  "member t (d\<lparr>db_Audit := a9\<rparr>) = member t d"
  "member t (d\<lparr>db_Downstream := a10\<rparr>) = member t d"
  "member t (d\<lparr>db_Devices := a11\<rparr>) = member t d"
  by (simp_all add: member_def fun_eq_iff)

lemma mput_view:
  assumes "P k v" "\<And>w. mget m k = Some w \<Longrightarrow> P k w" "wf_map m"
  shows "mfilter P (mput k v (mfilter P m)) = mfilter P (mput k v m)"
proof -
  have "mfilter P (mput k v (mfilter P m)) = mput k v (mfilter P (mfilter P m))"
    by (rule mfilter_mput_in) (use assms in \<open>auto split: option.splits if_splits\<close>)
  moreover have "mfilter P (mput k v m) = mput k v (mfilter P m)" by (rule mfilter_mput_in) (fact assms(1,2))+
  ultimately show ?thesis by (simp add: view)
qed

lemma mdel_view: "mfilter P (mdel k (mfilter P m)) = mfilter P (mdel k m)"
  by (simp add: view)

lemma mput_view_new:
  assumes "mget m k = None" "wf_map m"
  shows "P k v \<Longrightarrow> mfilter P (mput k v (mfilter P m)) = mfilter P (mput k v m)"
    and "\<not> P k v \<Longrightarrow> mfilter P (mput k v m) = mfilter P m"
  using assms by (intro mput_view mfilter_mput_out; simp)+

lemma mput_view_old:
  assumes "mget m k = Some w" "wf_map m" "P k w = P k v"
  shows "P k v \<Longrightarrow> mfilter P (mput k v (mfilter P m)) = mfilter P (mput k v m)"
    and "\<not> P k v \<Longrightarrow> mfilter P (mput k v m) = mfilter P m"
  using assms by (intro mput_view mfilter_mput_out; simp)+

lemmas local_simps = tenant_view_eq_iff mput_view mput_view_new mput_view_old mdel_view mfilter_mput_out mfilter_mdel_out mfilter_mfilter

text \<open>An update of one component \<open>upd\<close> of the data whose projection is a filter.\<close>

lemma local_update_settings:
  assumes "store_inv d"
  shows "local_update t (\<lambda>d. d\<lparr>db_PlatformSettings := mput t v (db_PlatformSettings d)\<rparr>) d"
    and "local_update t (\<lambda>d. d\<lparr>db_PlatformSettings := mdel t (db_PlatformSettings d)\<rparr>) d"
    and "local_update t (\<lambda>d. d\<lparr>db_AIConfigurations := mput t w (db_AIConfigurations d)\<rparr>) d"
    and "local_update t (\<lambda>d. d\<lparr>db_AIConfigurations := mdel t (db_AIConfigurations d)\<rparr>) d"
    and "local_update t (\<lambda>d. d\<lparr>db_Organizations := mput t org (db_Organizations d),
           db_PlatformSettings := mput t v (db_PlatformSettings d)\<rparr>) d"
  using assms unfolding local_update_def store_inv_def
  by (simp_all add: local_simps references_ok_def wf_maps_def)

lemma local_update_token:
  assumes "store_inv d" "et_TenantID v = t" "\<And>w. mget (db_EnrollmentTokens d) k = Some w \<Longrightarrow> et_TenantID w = t"
  shows "local_update t (\<lambda>d. d\<lparr>db_EnrollmentTokens := mput k v (db_EnrollmentTokens d)\<rparr>) d"
  using assms unfolding local_update_def store_inv_def
  by (cases "mget (db_EnrollmentTokens d) k") (auto simp: local_simps references_ok_def wf_maps_def)

lemma local_update_audit:
  assumes "store_inv d" "ev_TenantID e = t"
  shows "local_update t (\<lambda>d. d\<lparr>db_Audit := db_Audit d @ [e]\<rparr>) d"
  using assms unfolding local_update_def store_inv_def
  by (simp add: local_simps references_ok_def wf_maps_def)

lemma local_update_campaign:
  assumes "store_inv d" "cm_TenantID c = t" "\<And>w. mget (db_OTACampaigns d) (cm_ID c) = Some w \<Longrightarrow> cm_TenantID w = t"
  shows "local_update t (\<lambda>d. d\<lparr>db_OTACampaigns := mput (cm_ID c) c (db_OTACampaigns d)\<rparr>) d"
  using assms unfolding local_update_def store_inv_def
  by (cases "mget (db_OTACampaigns d) (cm_ID c)") (auto simp: local_simps references_ok_def wf_maps_def set_mput)

lemma local_update_job:
  assumes "store_inv d" "jo_TenantID j = t" "owned_device t d (jo_DeviceID j)"
    and "\<And>w. mget (db_Jobs d) k = Some w \<Longrightarrow> jo_TenantID w = t"
  shows "local_update t (\<lambda>d. d\<lparr>db_Jobs := mput k j (db_Jobs d)\<rparr>) d"
  using assms unfolding local_update_def store_inv_def
  by (cases "mget (db_Jobs d) k") (auto simp: local_simps references_ok_def wf_maps_def set_mput)

lemma local_update_job_delete:
  assumes "store_inv d" "\<And>w. mget (db_Jobs d) k = Some w \<Longrightarrow> jo_TenantID w = t"
  shows "local_update t (\<lambda>d. d\<lparr>db_Jobs := mdel k (db_Jobs d)\<rparr>) d"
  using assms unfolding local_update_def store_inv_def
  by (auto simp: local_simps references_ok_def wf_maps_def set_mdel)

lemma local_update_inventory:
  assumes "store_inv d" "owned_device t d k"
  shows "local_update t (\<lambda>d. d\<lparr>db_Inventory := mput k v (db_Inventory d)\<rparr>) d"
proof -
  have "t' \<noteq> t \<Longrightarrow> \<not> owned_device t' d k" for t' using assms(2) by (auto simp: owned_device_iff)
  moreover obtain dv where "mget (db_Devices d) k = Some dv" using assms(2) by (auto simp: owned_device_iff)
  ultimately show ?thesis using assms unfolding local_update_def store_inv_def
    by (cases "mget (db_Inventory d) k") (auto simp: local_simps references_ok_def wf_maps_def set_mput)
qed

lemma local_update_metric:
  assumes "store_inv d" "owned_device t d (mt_DeviceID m)"
  shows "local_update t (\<lambda>d. d\<lparr>db_Telemetry := db_Telemetry d @ [m]\<rparr>) d"
proof -
  have "t' \<noteq> t \<Longrightarrow> \<not> owned_device t' d (mt_DeviceID m)" for t' using assms(2) by (auto simp: owned_device_iff)
  moreover obtain dv where "mget (db_Devices d) (mt_DeviceID m) = Some dv" using assms(2) by (auto simp: owned_device_iff)
  ultimately show ?thesis using assms unfolding local_update_def store_inv_def
    by (auto simp: local_simps references_ok_def wf_maps_def)
qed

section \<open>Updates of devices\<close>

lemma owned_put_device:
  "owned_device t (d\<lparr>db_Devices := mput k v (db_Devices d)\<rparr>) k' \<longleftrightarrow> (if k' = k then dv_TenantID v = t else owned_device t d k')"
  by (simp add: owned_device_def)

lemma owned_put_same_tenant:
  assumes "mget (db_Devices d) k = Some old" "dv_TenantID old = dv_TenantID v"
  shows "owned_device t (d\<lparr>db_Devices := mput k v (db_Devices d)\<rparr>) = owned_device t d"
  using assms by (auto simp: fun_eq_iff owned_put_device owned_device_iff)

lemma local_update_device:
  assumes inv: "store_inv d" and old: "mget (db_Devices d) k = Some old" "dv_TenantID old = t" "dv_TenantID v = t"
  shows "local_update t (\<lambda>d. d\<lparr>db_Devices := mput k v (db_Devices d)\<rparr>) d"
proof -
  have wf: "wf_maps d" using inv by (simp add: store_inv_def)
  have "owned_device t' (d\<lparr>db_Devices := mput k v (db_Devices d)\<rparr>) = owned_device t' d" for t'
    by (rule owned_put_same_tenant) (use old in simp_all)
  moreover have "owned_device t ((tenant_view t d)\<lparr>db_Devices := mput k v (mfilter (\<lambda>k v. dv_TenantID v = t) (db_Devices d))\<rparr>)
      = owned_device t (tenant_view t d)"
    using owned_put_same_tenant [where d = "tenant_view t d" and t = t and k = k and v = v and old = old] old wf by (simp add: wf_mapsD)
  ultimately show ?thesis using inv old wf unfolding local_update_def store_inv_def
    by (auto simp: local_simps references_ok_def wf_maps_def)
qed

text \<open>Telemetry and inventory are of registered devices, so only these count.\<close>

lemma registered_filters:
  assumes "references_ok d" "\<And>k. mget (db_Devices d) k \<noteq> None \<Longrightarrow> Q k = Q' k"
  shows "filter (\<lambda>m. Q (mt_DeviceID m)) (db_Telemetry d) = filter (\<lambda>m. Q' (mt_DeviceID m)) (db_Telemetry d)"
    and "mfilter (\<lambda>k v. Q k) (db_Inventory d) = mfilter (\<lambda>k v. Q' k) (db_Inventory d)"
  using assms by (auto simp: references_ok_def intro!: filter_cong mfilter_cong)

lemma local_update_new_device:
  assumes inv: "store_inv d" and new: "mget (db_Devices d) k = None" "dv_TenantID v = t"
  shows "local_update t (\<lambda>d. d\<lparr>db_Devices := mput k v (db_Devices d)\<rparr>) d"
proof -
  let ?g = "\<lambda>d. d\<lparr>db_Devices := mput k v (db_Devices d)\<rparr>"
  have wf: "wf_maps d" and ref: "references_ok d" using inv by (simp_all add: store_inv_def)
  have owned: "owned_device t' (?g d) k' \<longleftrightarrow> (if k' = k then t' = t else owned_device t' d k')" for t' k'
    using new by (auto simp: owned_put_device)
  have owned': "owned_device t (?g (tenant_view t d)) k' \<longleftrightarrow> (if k' = k then True else owned_device t d k')" for k'
    using new owned_put_device [where d = "tenant_view t d" and t = t and k = k and v = v and k' = k'] wf by simp
  have same: "mget (db_Devices d) k' \<noteq> None \<Longrightarrow> owned_device t' (?g d) k' = owned_device t' d k'" for t' k'
    using new by (auto simp: owned)
  have same': "mget (db_Devices d) k' \<noteq> None \<Longrightarrow> (owned_device t (?g (tenant_view t d)) k' \<and> owned_device t d k') = owned_device t d k'" for k'
    using new unfolding owned' by auto
  have mono: "owned_device t' d k' \<Longrightarrow> owned_device t' (?g d) k'" for t' k'
    using new by (auto simp: owned owned_device_iff)
  have kept: "filter (\<lambda>m. owned_device t' (?g d) (mt_DeviceID m)) (db_Telemetry d) = filter (\<lambda>m. owned_device t' d (mt_DeviceID m)) (db_Telemetry d)"
    "mfilter (\<lambda>k v. owned_device t' (?g d) k) (db_Inventory d) = mfilter (\<lambda>k v. owned_device t' d k) (db_Inventory d)" for t'
    by (rule registered_filters [OF ref], erule same)+
  have kept': "filter (\<lambda>m. owned_device t (?g (tenant_view t d)) (mt_DeviceID m) \<and> owned_device t d (mt_DeviceID m)) (db_Telemetry d)
      = filter (\<lambda>m. owned_device t d (mt_DeviceID m)) (db_Telemetry d)"
    "mfilter (\<lambda>k v. owned_device t (?g (tenant_view t d)) k \<and> owned_device t d k) (db_Inventory d)
      = mfilter (\<lambda>k v. owned_device t d k) (db_Inventory d)"
    by (rule registered_filters [OF ref], erule same')+
  have "references_ok (?g d)" using ref by (auto simp: references_ok_def mono)
  moreover have "tenant_view t (?g (tenant_view t d)) = tenant_view t (?g d)"
    using kept kept' new wf by (simp add: local_simps wf_maps_def conj_commute)
  moreover have "t' \<noteq> t \<Longrightarrow> tenant_view t' (?g d) = tenant_view t' d" for t'
    using kept new wf by (simp add: local_simps wf_maps_def)
  ultimately show ?thesis using wf unfolding local_update_def store_inv_def by (simp add: wf_maps_def)
qed

text \<open>Forgetting a device.\<close>

lemma owned_forget_device:
  "owned_device t (forget_device tc k d) k' \<longleftrightarrow> k' \<noteq> k \<and> owned_device t d k'"
  by (simp add: owned_device_def forget_device_def)

lemma member_forget_device [simp]: "member t (forget_device tc k d) = member t d"
  by (simp add: member_def forget_device_def fun_eq_iff)

lemma without_target_tenant: "without_target tc k c = Some c' \<Longrightarrow> cm_TenantID c' = cm_TenantID c \<and> cm_ID c' = cm_ID c"
  by (auto simp: without_target_def Let_def split: if_splits)

lemma without_target_other: "cm_TenantID c \<noteq> tc_TenantID tc \<Longrightarrow> without_target tc k c = Some c"
  by (simp add: without_target_def)

lemma forget_device_sel [simp]:
  "db_Organizations (forget_device tc k d) = db_Organizations d" "db_Users (forget_device tc k d) = db_Users d"
  "db_Memberships (forget_device tc k d) = db_Memberships d" "db_Sessions (forget_device tc k d) = db_Sessions d"
  "db_EnrollmentTokens (forget_device tc k d) = db_EnrollmentTokens d"
  "db_Devices (forget_device tc k d) = mdel k (db_Devices d)"
  "db_Downstream (forget_device tc k d) = mfilter (\<lambda>k' dd. dd_ParentGatewayID dd \<noteq> k) (db_Downstream d)"
  "db_Telemetry (forget_device tc k d) = filter (\<lambda>m. mt_DeviceID m \<noteq> k) (db_Telemetry d)"
  "db_Inventory (forget_device tc k d) = mdel k (db_Inventory d)"
  "db_Jobs (forget_device tc k d) = mfilter (\<lambda>k' j. jo_DeviceID j \<noteq> k) (db_Jobs d)"
  "db_Artifacts (forget_device tc k d) = db_Artifacts d"
  "db_OTACampaigns (forget_device tc k d) = mfiltermap (\<lambda>k'. without_target tc k) (db_OTACampaigns d)"
  "db_PlatformSettings (forget_device tc k d) = db_PlatformSettings d"
  "db_AIConfigurations (forget_device tc k d) = db_AIConfigurations d" "db_Audit (forget_device tc k d) = db_Audit d"
  by (simp_all add: forget_device_def)

lemma set_mdel_iff: "(k', v) \<in> set (mdel k m) \<longleftrightarrow> (k', v) \<in> set m \<and> k' \<noteq> k"
  by (simp add: set_mdel)

lemma campaigns_forget:
  "mfilter (\<lambda>k v. cm_TenantID v = t) (mfiltermap (\<lambda>k'. without_target tc k) (mfilter (\<lambda>k v. cm_TenantID v = t) m))
     = mfilter (\<lambda>k v. cm_TenantID v = t) (mfiltermap (\<lambda>k'. without_target tc k) m)"
  "t \<noteq> tc_TenantID tc \<Longrightarrow> mfilter (\<lambda>k v. cm_TenantID v = t) (mfiltermap (\<lambda>k'. without_target tc k) m)
     = mfilter (\<lambda>k v. cm_TenantID v = t) m"
  by (subst (1 2) mfilter_mfiltermap_in; auto simp: view dest: without_target_tenant)
     (rule mfilter_mfiltermap_out; auto dest: without_target_tenant simp: without_target_other)

lemma inv_forget_device:
  assumes "store_inv d"
  shows "store_inv (forget_device tc k d)"
proof -
  have "\<forall>(k', c) \<in> set (mfiltermap (\<lambda>k'. without_target tc k) (db_OTACampaigns d)). cm_ID c = k'"
    using assms by (force simp: store_inv_def references_ok_def set_mfiltermap dest!: without_target_tenant)
  with assms show ?thesis
    by (auto simp: store_inv_def wf_maps_def references_ok_def owned_forget_device set_mfilter set_mdel_iff)
qed

lemma local_update_forget:
  assumes inv: "store_inv d" and owned: "owned_device (tc_TenantID tc) d k"
  shows "local_update (tc_TenantID tc) (forget_device tc k) d"
proof -
  let ?t = "tc_TenantID tc"
  have wf: "wf_maps d" and ref: "references_ok d" using inv by (simp_all add: store_inv_def)
  have other: "t' \<noteq> ?t \<Longrightarrow> owned_device t' d k' \<Longrightarrow> k' \<noteq> k" for t' k' using owned by (auto simp: owned_device_iff)
  have own: "tenant_view ?t (forget_device tc k (tenant_view ?t d)) = tenant_view ?t (forget_device tc k d)"
    using wf by (simp add: tenant_view_eq_iff owned_forget_device campaigns_forget)
      (auto simp: view conj_commute conj_left_commute intro: filter_cong mfilter_cong)
  have "tenant_view t' (forget_device tc k d) = tenant_view t' d" if "t' \<noteq> ?t" for t'
  proof -
    have notk: "\<not> owned_device t' d k" using other [OF that, of k] by blast
    have "mfilter (\<lambda>k' j. jo_TenantID j = t' \<and> jo_DeviceID j \<noteq> k) (db_Jobs d) = mfilter (\<lambda>k v. jo_TenantID v = t') (db_Jobs d)"
      "mfilter (\<lambda>k' dd. dd_TenantID dd = t' \<and> dd_ParentGatewayID dd \<noteq> k) (db_Downstream d)
        = mfilter (\<lambda>k v. dd_TenantID v = t') (db_Downstream d)"
      using ref notk by (fastforce simp: references_ok_def intro!: mfilter_cong)+
    moreover have "filter (\<lambda>m. mt_DeviceID m \<noteq> k \<and> owned_device t' d (mt_DeviceID m)) (db_Telemetry d)
        = filter (\<lambda>m. owned_device t' d (mt_DeviceID m)) (db_Telemetry d)"
      using other [OF that] by (auto intro: filter_cong)
    moreover have "mfilter (\<lambda>k' v. k' \<noteq> k \<and> owned_device t' d k') (mdel k (db_Inventory d))
        = mfilter (\<lambda>k v. owned_device t' d k) (db_Inventory d)"
      using other [OF that] by (subst mfilter_mdel_out) (auto simp: wf wf_mapsD intro: mfilter_cong)
    moreover have "mfilter (\<lambda>k v. dv_TenantID v = t') (mdel k (db_Devices d)) = mfilter (\<lambda>k v. dv_TenantID v = t') (db_Devices d)"
      using owned that by (intro mfilter_mdel_out) (auto simp: wf wf_mapsD owned_device_iff)
    ultimately show ?thesis using that
      by (simp add: tenant_view_eq_iff owned_forget_device campaigns_forget mfilter_mfilter conj_ac filter_filter)
  qed
  then show ?thesis using own inv_forget_device [OF inv] by (simp add: local_update_def)
qed

section \<open>Composition\<close>

lemma local_update_cong:
  "local_update t g' d \<Longrightarrow> g d = g' d \<Longrightarrow> g (tenant_view t d) = g' (tenant_view t d) \<Longrightarrow> local_update t g d"
  by (simp add: local_update_def)

lemma local_update_id: "store_inv d \<Longrightarrow> local_update t (\<lambda>d. d) d"
  by (simp add: local_update_def store_inv_def)

lemma local_update_comp:
  assumes "local_update t g d" "g (tenant_view t d) = tenant_view t (g d)" "local_update t h (g d)"
  shows "local_update t (\<lambda>d. h (g d)) d"
  using assms by (simp add: local_update_def)

text \<open>Appending a metric and writing a job commute with the projection exactly.\<close>

lemma metric_commutes:
  assumes "store_inv d" "owned_device t d (mt_DeviceID m)"
  shows "(tenant_view t d)\<lparr>db_Telemetry := db_Telemetry (tenant_view t d) @ [m]\<rparr>
    = tenant_view t (d\<lparr>db_Telemetry := db_Telemetry d @ [m]\<rparr>)"
  using assms by (simp add: tenant_view_def)

lemma job_commutes:
  assumes "store_inv d" "jo_TenantID j = t" "\<And>w. mget (db_Jobs d) k = Some w \<Longrightarrow> jo_TenantID w = t"
  shows "(tenant_view t d)\<lparr>db_Jobs := mput k j (db_Jobs (tenant_view t d))\<rparr> = tenant_view t (d\<lparr>db_Jobs := mput k j (db_Jobs d)\<rparr>)"
proof -
  have "mfilter (\<lambda>k v. jo_TenantID v = t) (mput k j (db_Jobs d)) = mput k j (mfilter (\<lambda>k v. jo_TenantID v = t) (db_Jobs d))"
    by (rule mfilter_mput_in) (use assms in auto)
  then show ?thesis by (simp add: tenant_view_def)
qed

text \<open>The state of a campaign depends on the jobs of its tenant only.\<close>

lemma campaignState_private:
  assumes "cm_TenantID c = t"
  shows "campaignState c (mfilter (\<lambda>k v. jo_TenantID v = t) m) = campaignState c m"
proof -
  have "filter (\<lambda>job. jo_TenantID job = t \<and> DeploymentID job = cm_ID c) (map snd (mfilter (\<lambda>k v. jo_TenantID v = t) m))
      = filter (\<lambda>job. jo_TenantID job = t \<and> DeploymentID job = cm_ID c) (map snd m)"
    by (induction m) (auto simp: mfilter_def)
  then show ?thesis by (simp add: campaignState_def assms)
qed

lemma local_update_refresh:
  assumes inv: "store_inv d"
  shows "local_update (tc_TenantID tc) (refresh_campaign tc k) d"
proof -
  have wf: "wf_map (db_OTACampaigns d)" using inv by (simp add: store_inv_def wf_mapsD)
  show ?thesis
  proof (cases "\<exists>c. mget (db_OTACampaigns d) k = Some c \<and> cm_TenantID c = tc_TenantID tc")
    case True
    then obtain c where c: "mget (db_OTACampaigns d) k = Some c" "cm_TenantID c = tc_TenantID tc" by blast
    then have id: "cm_ID c = k" using inv by (auto simp: store_inv_def references_ok_def dest!: mget_SomeD)
    let ?c = "c\<lparr>cm_State := campaignState c (db_Jobs d)\<rparr>"
    have "local_update (tc_TenantID tc) (\<lambda>d. d\<lparr>db_OTACampaigns := mput (cm_ID ?c) ?c (db_OTACampaigns d)\<rparr>) d"
      by (rule local_update_campaign [OF inv]) (use c id in auto)
    then show ?thesis
      by (rule local_update_cong) (use c id wf in \<open>simp_all add: refresh_campaign_def campaignState_private\<close>)
  next
    case False
    then show ?thesis
      by (intro local_update_cong [OF local_update_id [OF inv]]) (auto simp: refresh_campaign_def wf split: option.splits)
  qed
qed

end
