(* ===== verification/Isolation.thy ===== *)
theory Isolation
  imports Main
begin

text \<open>
  Isolation of the clients of a shared service, as an interface: the actions of one client behave
  on the shared state exactly as on the client's own projection of it, and they leave the
  projections of the others alone. From the two step conditions follows that what a client is
  answered, over any interleaving with the others, is what it would be answered alone.
\<close>

fun run_calls :: "('c \<Rightarrow> 's \<Rightarrow> 'r \<times> 's) \<Rightarrow> 'c list \<Rightarrow> 's \<Rightarrow> 's" where
  "run_calls act [] s = s"
| "run_calls act (c # cs) s = run_calls act cs (snd (act c s))"

text \<open>The replies to the calls of the client \<open>t\<close>, as far as \<open>obs\<close> tells them apart.\<close>

fun replies :: "('c \<Rightarrow> 's \<Rightarrow> 'r \<times> 's) \<Rightarrow> ('r \<Rightarrow> 'r) \<Rightarrow> ('c \<Rightarrow> 't) \<Rightarrow> 't \<Rightarrow> 'c list \<Rightarrow> 's \<Rightarrow> 'r list" where
  "replies act obs client t [] s = []"
| "replies act obs client t (c # cs) s =
     (if client c = t then obs (fst (act c s)) # replies act obs client t cs (snd (act c s))
      else replies act obs client t cs (snd (act c s)))"

fun admissible :: "('c \<Rightarrow> 's \<Rightarrow> 'r \<times> 's) \<Rightarrow> ('c \<Rightarrow> 's \<Rightarrow> bool) \<Rightarrow> 'c list \<Rightarrow> 's \<Rightarrow> bool" where
  "admissible act ok [] s \<longleftrightarrow> True"
| "admissible act ok (c # cs) s \<longleftrightarrow> ok c s \<and> admissible act ok cs (snd (act c s))"

definition purge :: "('c \<Rightarrow> 't) \<Rightarrow> 't \<Rightarrow> 'c list \<Rightarrow> 'c list" where
  "purge client t cs = filter (\<lambda>c. client c = t) cs"

locale shared_service =
  fixes act :: "'c \<Rightarrow> 's \<Rightarrow> 'r \<times> 's" and client :: "'c \<Rightarrow> 't" and proj :: "'t \<Rightarrow> 's \<Rightarrow> 's"
    and sinv :: "'s \<Rightarrow> bool" and ok :: "'c \<Rightarrow> 's \<Rightarrow> bool" and obs :: "'r \<Rightarrow> 'r"
  assumes keeps_inv: "sinv s \<Longrightarrow> ok c s \<Longrightarrow> sinv (snd (act c s))"
    and same_reply: "sinv s \<Longrightarrow> ok c s \<Longrightarrow> obs (fst (act c (proj (client c) s))) = obs (fst (act c s))"
    and same_effect: "sinv s \<Longrightarrow> ok c s \<Longrightarrow>
          proj (client c) (snd (act c (proj (client c) s))) = proj (client c) (snd (act c s))"
    and respects: "sinv s \<Longrightarrow> ok c s \<Longrightarrow> client c \<noteq> t \<Longrightarrow> proj t (snd (act c s)) = proj t s"
begin

lemma inv_run: "sinv s \<Longrightarrow> admissible act ok cs s \<Longrightarrow> sinv (run_calls act cs s)"
  by (induction cs arbitrary: s) (auto intro: keeps_inv)

lemma consistent:
  assumes "sinv s1" "sinv s2" "ok c s1" "ok c s2" "proj (client c) s1 = proj (client c) s2"
  shows "obs (fst (act c s1)) = obs (fst (act c s2))"
    and "proj (client c) (snd (act c s1)) = proj (client c) (snd (act c s2))"
  using assms same_reply [of s1 c] same_reply [of s2 c] same_effect [of s1 c] same_effect [of s2 c] by simp_all

theorem noninterference:
  assumes "sinv s1" "sinv s2" "proj t s1 = proj t s2"
    and "admissible act ok cs s1" "admissible act ok (purge client t cs) s2"
  shows "replies act obs client t cs s1 = replies act obs client t (purge client t cs) s2"
    and "proj t (run_calls act cs s1) = proj t (run_calls act (purge client t cs) s2)"
proof -
  have "replies act obs client t cs s1 = replies act obs client t (purge client t cs) s2
      \<and> proj t (run_calls act cs s1) = proj t (run_calls act (purge client t cs) s2)"
    using assms
  proof (induction cs arbitrary: s1 s2)
    case Nil
    then show ?case by (simp add: purge_def)
  next
    case (Cons c cs)
    have ok1: "ok c s1" and rest1: "admissible act ok cs (snd (act c s1))" using Cons.prems(4) by simp_all
    have inv1: "sinv (snd (act c s1))" using keeps_inv Cons.prems(1) ok1 .
    show ?case
    proof (cases "client c = t")
      case True
      then have ok2: "ok c s2" and rest2: "admissible act ok (purge client t cs) (snd (act c s2))"
        using Cons.prems(5) by (simp_all add: purge_def)
      note step = consistent [OF Cons.prems(1,2) ok1 ok2, unfolded True, OF Cons.prems(3)]
      from Cons.IH [OF inv1 keeps_inv [OF Cons.prems(2) ok2] step(2) rest1 rest2]
      show ?thesis using True step(1) by (simp add: purge_def)
    next
      case False
      have "proj t (snd (act c s1)) = proj t s2" using respects [OF Cons.prems(1) ok1 False] Cons.prems(3) by simp
      moreover have "admissible act ok (purge client t cs) s2" using Cons.prems(5) False by (simp add: purge_def)
      ultimately show ?thesis using Cons.IH [OF inv1 Cons.prems(2) _ rest1] False by (simp add: purge_def)
    qed
  qed
  then show "replies act obs client t cs s1 = replies act obs client t (purge client t cs) s2"
    "proj t (run_calls act cs s1) = proj t (run_calls act (purge client t cs) s2)" by simp_all
qed

end

end
