(* ===== verification/CloudIsolation.thy ===== *)
theory CloudIsolation
  imports CloudUpdates Isolation
begin

text \<open>
  Tenant isolation of the store. \<open>perform\<close> collects the operations that run in a tenant's
  context; each behaves on the store of all tenants as on the tenant's private one, keeps the
  invariant of the store and does not touch what belongs to others. The locale
  \<open>shared_service\<close> turns this into non-interference.

  Not among the operations: \<open>CreateTenantUser\<close>, whose answer depends on the e-mail addresses
  of all tenants, enrollment and log-in, which run before a tenant is known, the operations of
  the administration commands, and \<open>UpsertDownstream\<close> and \<open>UpsertArtifact\<close>, which nothing in the program calls
  and which store whatever tenant their argument names. For \<open>CreateDevice\<close>, \<open>UpdateDevice\<close> and \<open>Audit\<close> the
  tenant of the argument is that of the context here, as in all calls of the handlers.
\<close>

section \<open>Calls of a tenant\<close>

datatype operation =
    OpOrganization | OpPlatformSettings | OpSavePlatformSettings PlatformSettings | OpResetPlatformSettings
  | OpAIConfiguration | OpSaveAIConfiguration AIConfiguration | OpDeleteAIConfiguration
  | OpListUsers | OpCreateEnrollmentToken EnrollmentToken | OpListEnrollmentTokens
  | OpCreateDevice Device | OpListDevices | OpListDownstream | OpGetDevice string | OpUpdateDevice Device | OpDeleteDevice string
  | OpAddTelemetry "Metric list" | OpListTelemetry string | OpSaveInventory string string | OpListInventory
  | OpCreateJob cJob | OpListJobs | OpDeleteJob string | OpJobsForDeployment string | OpNextJob string | OpCompleteJob string string
  | OpListArtifacts
  | OpCreateCampaign Campaign | OpListCampaigns | OpGetCampaign string | OpUpdateCampaign Campaign
  | OpAudit AuditEvent | OpListAudit

datatype reply =
    Done | Failed go_error
  | ROrganization Organization | RSettings "PlatformSettings option" | RAI "AIConfiguration option"
  | RUsers "User list" | RToken EnrollmentToken | RTokens "EnrollmentToken list"
  | RDevice Device | RDevices "Device list" | RDownstream "DownstreamDevice list"
  | RMetrics "Metric list" | RInventory "string go_map"
  | RJob cJob | RJobs "cJob list" | RArtifacts "Artifact list"
  | RCampaign Campaign | RCampaigns "Campaign list" | RAudit "AuditEvent list"

fun done_or :: "go_error option \<Rightarrow> reply" where
  "done_or None = Done"
| "done_or (Some e) = Failed e"

fun value_or :: "('a \<Rightarrow> reply) \<Rightarrow> 'a result \<Rightarrow> reply" where
  "value_or f (Inl e) = Failed e"
| "value_or f (Inr v) = f v"

fun perform :: "cenv \<Rightarrow> Context \<Rightarrow> operation \<Rightarrow> cstore \<Rightarrow> reply \<times> cstore" where
  "perform env tc OpOrganization s = (value_or ROrganization (get_Organization tc s), s)"
| "perform env tc OpPlatformSettings s = (RSettings (get_PlatformSettings tc s), s)"
| "perform env tc (OpSavePlatformSettings v) s = apfst done_or (SavePlatformSettings env tc v s)"
| "perform env tc OpResetPlatformSettings s = apfst done_or (ResetPlatformSettings env tc s)"
| "perform env tc OpAIConfiguration s = (RAI (get_AIConfiguration tc s), s)"
| "perform env tc (OpSaveAIConfiguration v) s = apfst done_or (SaveAIConfiguration env tc v s)"
| "perform env tc OpDeleteAIConfiguration s = apfst done_or (DeleteAIConfiguration env tc s)"
| "perform env tc OpListUsers s = (RUsers (ListUsers env tc s), s)"
| "perform env tc (OpCreateEnrollmentToken v) s = apfst (value_or RToken) (CreateEnrollmentToken env tc v s)"
| "perform env tc OpListEnrollmentTokens s = (RTokens (ListEnrollmentTokens env tc s), s)"
| "perform env tc (OpCreateDevice v) s = apfst (value_or RDevice) (CreateDevice env (v\<lparr>dv_TenantID := tc_TenantID tc\<rparr>) s)"
| "perform env tc OpListDevices s = (RDevices (ListDevices env tc s), s)"
| "perform env tc OpListDownstream s = (RDownstream (ListDownstream env tc s), s)"
| "perform env tc (OpGetDevice k) s = (value_or RDevice (GetDevice tc k s), s)"
| "perform env tc (OpUpdateDevice v) s = apfst done_or (UpdateDevice env (v\<lparr>dv_TenantID := tc_TenantID tc\<rparr>) s)"
| "perform env tc (OpDeleteDevice k) s = apfst done_or (DeleteDevice env tc k s)"
| "perform env tc (OpAddTelemetry ms) s = apfst done_or (AddTelemetry env tc ms s)"
| "perform env tc (OpListTelemetry k) s = (RMetrics (ListTelemetry tc k s), s)"
| "perform env tc (OpSaveInventory k v) s = apfst done_or (SaveInventory env tc k v s)"
| "perform env tc OpListInventory s = (RInventory (ListInventory tc s), s)"
| "perform env tc (OpCreateJob v) s = apfst (value_or RJob) (CreateJob env tc v s)"
| "perform env tc OpListJobs s = (RJobs (ListJobs env tc s), s)"
| "perform env tc (OpDeleteJob k) s = apfst done_or (DeleteJob env tc k s)"
| "perform env tc (OpJobsForDeployment k) s = (RJobs (JobsForDeployment env tc k s), s)"
| "perform env tc (OpNextJob k) s = apfst (value_or RJob) (NextJobForDevice env tc k s)"
| "perform env tc (OpCompleteJob k v) s = apfst done_or (CompleteJob env tc k v s)"
| "perform env tc OpListArtifacts s = (RArtifacts (ListArtifacts env tc s), s)"
| "perform env tc (OpCreateCampaign v) s = apfst (value_or RCampaign) (CreateOTACampaign env tc v s)"
| "perform env tc OpListCampaigns s = (RCampaigns (ListOTACampaigns env tc s), s)"
| "perform env tc (OpGetCampaign k) s = (value_or RCampaign (GetOTACampaign tc k s), s)"
| "perform env tc (OpUpdateCampaign v) s = apfst done_or (UpdateOTACampaign env tc v s)"
| "perform env tc (OpAudit v) s = apfst done_or (Audit env (v\<lparr>ev_TenantID := tc_TenantID tc\<rparr>) s)"
| "perform env tc OpListAudit s = (RAudit (ListAudit tc s), s)"

text \<open>A new identifier is not in use. (It is twelve random bytes.)\<close>

fun fresh_ids :: "cenv \<Rightarrow> operation \<Rightarrow> cdata \<Rightarrow> bool" where
  "fresh_ids env (OpCreateEnrollmentToken v) d \<longleftrightarrow> mget (db_EnrollmentTokens d) (NewID env 0 ''enr'') = None"
| "fresh_ids env (OpCreateDevice v) d \<longleftrightarrow> mget (db_Devices d) (NewID env 0 ''dev'') = None"
| "fresh_ids env (OpCreateJob v) d \<longleftrightarrow> mget (db_Jobs d) (NewID env 0 ''job'') = None"
| "fresh_ids env (OpCreateCampaign v) d \<longleftrightarrow> mget (db_OTACampaigns d) (NewID env 0 ''ota'') = None"
| "fresh_ids env _ d \<longleftrightarrow> True"

text \<open>
  The store says \<^verbatim>\<open>tenant mismatch\<close> instead of \<^verbatim>\<open>not found\<close> for an identifier that
  another tenant uses; \<open>blur\<close> identifies the two.
\<close>

fun blur :: "reply \<Rightarrow> reply" where
  "blur (Failed e) = Failed (if e = ErrTenantMismatch then ErrNotFound else e)"
| "blur r = r"

datatype call = Call (call_env: cenv) (call_tenant: Context) (call_op: operation)

definition answer :: "call \<Rightarrow> cstore \<Rightarrow> reply \<times> cstore" where
  "answer c = perform (call_env c) (call_tenant c) (call_op c)"

definition caller :: "call \<Rightarrow> string" where
  "caller c = tc_TenantID (call_tenant c)"

definition allowed :: "call \<Rightarrow> cstore \<Rightarrow> bool" where
  "allowed c s \<longleftrightarrow> fresh_ids (call_env c) (call_op c) (mem s)"

section \<open>One isolated operation\<close>

definition isolated :: "string \<Rightarrow> (cstore \<Rightarrow> reply \<times> cstore) \<Rightarrow> cstore \<Rightarrow> bool" where
  "isolated t f s \<longleftrightarrow>
     store_inv (mem (snd (f s)))
   \<and> blur (fst (f (private_store t s))) = blur (fst (f s))
   \<and> private_store t (snd (f (private_store t s))) = private_store t (snd (f s))
   \<and> (\<forall>t'. t' \<noteq> t \<longrightarrow> private_store t' (snd (f s)) = private_store t' s)"

lemma isolated_read:
  assumes "store_inv (mem s)" "blur (r (private_store t s)) = blur (r s)"
  shows "isolated t (\<lambda>s. (r s, s)) s"
  using assms by (simp add: isolated_def store_inv_def)

lemma saveLocked_fst_cong: "file_path s = file_path s' \<Longrightarrow> fst (saveLocked env s) = fst (saveLocked env s')"
  by (simp add: saveLocked_def split: option.splits)

lemma isolated_update:
  assumes "local_update t g (mem s)"
  shows "isolated t (\<lambda>s. apfst done_or (saveLocked env (modify g s))) s"
    and "isolated t (\<lambda>s. apfst (value_or r) (save_and_return env v (modify g s))) s"
proof -
  have "fst (saveLocked env (modify g (private_store t s))) = fst (saveLocked env (modify g s))"
    by (rule saveLocked_fst_cong) simp
  then show "isolated t (\<lambda>s. apfst done_or (saveLocked env (modify g s))) s"
    "isolated t (\<lambda>s. apfst (value_or r) (save_and_return env v (modify g s))) s"
    using assms by (simp_all add: isolated_def local_update_def private_store_eq_iff save_and_return_fst)
qed

lemma isolated_branch:
  assumes "isolated t f' s" "f s = f' s" "f (private_store t s) = f' (private_store t s)"
  shows "isolated t f s"
  using assms by (simp add: isolated_def)

lemma isolated_reject:
  assumes "store_inv (mem s)" "f s = (Failed e, s)" "f (private_store t s) = (Failed e', private_store t s)"
    and "blur (Failed e) = blur (Failed e')"
  shows "isolated t f s"
  using assms by (simp add: isolated_def store_inv_def)

section \<open>Operations that read\<close>

lemma store_inv_wf:
  assumes "store_inv d"
  shows "wf_maps d" "wf_map (db_Organizations d)" "wf_map (db_Users d)" "wf_map (db_EnrollmentTokens d)"
    "wf_map (db_Devices d)" "wf_map (db_Downstream d)" "wf_map (db_Inventory d)" "wf_map (db_Jobs d)"
    "wf_map (db_Artifacts d)" "wf_map (db_OTACampaigns d)" "wf_map (db_PlatformSettings d)" "wf_map (db_AIConfigurations d)"
  using assms by (simp_all add: store_inv_def wf_mapsD)

lemma tenant_roles_fold:
  "fold (\<lambda>m roles. if mb_TenantID m = t then mput (mb_UserID m) (mb_Role m) roles else roles)
     (filter (\<lambda>m. mb_TenantID m = t) ms) acc
   = fold (\<lambda>m roles. if mb_TenantID m = t then mput (mb_UserID m) (mb_Role m) roles else roles) ms acc"
  by (induction ms arbitrary: acc) auto

lemma tenant_roles_filter [simp]: "tenant_roles t (filter (\<lambda>m. mb_TenantID m = t) ms) = tenant_roles t ms"
  by (simp add: tenant_roles_def tenant_roles_fold)

lemma tenant_roles_keys:
  assumes "mget (fold (\<lambda>m roles. if mb_TenantID m = t then mput (mb_UserID m) (mb_Role m) roles else roles) ms acc) k = Some role"
  shows "mget acc k \<noteq> None \<or> (\<exists>m \<in> set ms. mb_TenantID m = t \<and> mb_UserID m = k)"
  using assms by (induction ms arbitrary: acc) (fastforce split: if_splits)+

lemma map_filter_filter: "(\<And>x y. f x = Some y \<Longrightarrow> P x) \<Longrightarrow> List.map_filter f (filter P xs) = List.map_filter f xs"
  by (induction xs) (auto simp: List.map_filter_simps split: option.splits)

lemma ListUsers_private: "wf_maps (mem s) \<Longrightarrow> ListUsers env tc (private_store (tc_TenantID tc) s) = ListUsers env tc s"
proof -
  have "shown_user (tenant_roles t (db_Memberships (mem s))) x = Some y \<Longrightarrow> (case x of (k, v) \<Rightarrow> member t (mem s) k)" for x y t
    unfolding tenant_roles_def
    by (cases x) (auto simp: shown_user_def member_def dest!: tenant_roles_keys)
  then show ?thesis by (simp add: ListUsers_def range_map_mfilter map_filter_filter)
qed

lemma lists_private:
  fixes tc :: Context
  assumes "store_inv (mem s)"
  defines "p \<equiv> private_store (tc_TenantID tc) s"
  shows "ListEnrollmentTokens env tc p = ListEnrollmentTokens env tc s" "ListDevices env tc p = ListDevices env tc s"
    "ListDownstream env tc p = ListDownstream env tc s" "ListTelemetry tc k p = ListTelemetry tc k s"
    "ListInventory tc p = ListInventory tc s" "ListJobs env tc p = ListJobs env tc s"
    "JobsForDeployment env tc k p = JobsForDeployment env tc k s" "ListArtifacts env tc p = ListArtifacts env tc s"
    "ListOTACampaigns env tc p = ListOTACampaigns env tc s" "ListAudit tc p = ListAudit tc s"
    "get_PlatformSettings tc p = get_PlatformSettings tc s" "get_AIConfiguration tc p = get_AIConfiguration tc s"
    "get_Organization tc p = get_Organization tc s"
  using store_inv_wf [OF assms(1)] unfolding p_def
  by (simp_all add: ListEnrollmentTokens_def ListDevices_def ListDownstream_def ListTelemetry_def ListInventory_def
      ListJobs_def JobsForDeployment_def ListArtifacts_def ListOTACampaigns_def ListAudit_def get_PlatformSettings_def
      get_AIConfiguration_def get_Organization_def range_values_mfilter mfilter_mfilter conj_ac split: option.splits)

text \<open>A lookup finds the entry of another tenant where the private store has none.\<close>

lemma gets_private:
  assumes "store_inv (mem s)"
  shows "blur (value_or RDevice (GetDevice tc k (private_store (tc_TenantID tc) s))) = blur (value_or RDevice (GetDevice tc k s))"
    "blur (value_or RCampaign (GetOTACampaign tc k (private_store (tc_TenantID tc) s))) = blur (value_or RCampaign (GetOTACampaign tc k s))"
  using store_inv_wf [OF assms] by (auto simp: GetDevice_def GetOTACampaign_def split: option.splits)

section \<open>Operations that write\<close>

lemma isolated_settings:
  assumes inv: "store_inv (mem s)"
  shows "isolated (tc_TenantID tc) (\<lambda>s. apfst done_or (SavePlatformSettings env tc v s)) s"
    and "isolated (tc_TenantID tc) (\<lambda>s. apfst done_or (ResetPlatformSettings env tc s)) s"
    and "isolated (tc_TenantID tc) (\<lambda>s. apfst done_or (SaveAIConfiguration env tc w s)) s"
    and "isolated (tc_TenantID tc) (\<lambda>s. apfst done_or (DeleteAIConfiguration env tc s)) s"
proof -
  note wf = store_inv_wf [OF inv]
  note defs = SavePlatformSettings_def ResetPlatformSettings_def SaveAIConfiguration_def DeleteAIConfiguration_def
  note up = isolated_update(1) [OF local_update_settings(1) [OF inv]] isolated_update(1) [OF local_update_settings(2) [OF inv]]
    isolated_update(1) [OF local_update_settings(3) [OF inv]] isolated_update(1) [OF local_update_settings(4) [OF inv]]
    isolated_update(1) [OF local_update_settings(5) [OF inv]]
  have "isolated (tc_TenantID tc) (\<lambda>s. apfst done_or (SavePlatformSettings env tc v s)) s
    \<and> isolated (tc_TenantID tc) (\<lambda>s. apfst done_or (ResetPlatformSettings env tc s)) s
    \<and> isolated (tc_TenantID tc) (\<lambda>s. apfst done_or (SaveAIConfiguration env tc w s)) s
    \<and> isolated (tc_TenantID tc) (\<lambda>s. apfst done_or (DeleteAIConfiguration env tc s)) s"
  proof (cases "mget (db_Organizations (mem s)) (tc_TenantID tc)")
    case None
    then show ?thesis
      by (intro conjI isolated_reject [OF inv, where e = ErrNotFound and e' = ErrNotFound]) (simp_all add: defs wf)
  next
    case (Some org)
    then show ?thesis
      by (intro conjI; intro isolated_branch [OF up(5)] isolated_branch [OF up(1)] isolated_branch [OF up(2)]
          isolated_branch [OF up(3)] isolated_branch [OF up(4)]) (simp_all add: defs wf)
  qed
  then show "isolated (tc_TenantID tc) (\<lambda>s. apfst done_or (SavePlatformSettings env tc v s)) s"
    "isolated (tc_TenantID tc) (\<lambda>s. apfst done_or (ResetPlatformSettings env tc s)) s"
    "isolated (tc_TenantID tc) (\<lambda>s. apfst done_or (SaveAIConfiguration env tc w s)) s"
    "isolated (tc_TenantID tc) (\<lambda>s. apfst done_or (DeleteAIConfiguration env tc s)) s" by simp_all
qed

lemma isolated_update_ignore:
  assumes "local_update t g (mem s)"
  shows "isolated t (\<lambda>s. (r, snd (saveLocked env (modify g s)))) s"
  using assms by (simp add: isolated_def local_update_def private_store_eq_iff)

lemma isolated_after:
  assumes "local_update t g (mem s)" "g (tenant_view t (mem s)) = tenant_view t (g (mem s))" "isolated t f (modify g s)"
  shows "isolated t (\<lambda>s. f (modify g s)) s"
proof -
  have "modify g (private_store t s) = private_store t (modify g s)"
    using assms(2) by (simp add: private_store_def modify_def)
  then show ?thesis using assms(1,3) by (simp add: isolated_def local_update_def private_store_eq_iff)
qed

lemma isolated_devices:
  assumes inv: "store_inv (mem s)"
  shows "isolated (tc_TenantID tc) (\<lambda>s. apfst done_or (UpdateDevice env (v\<lparr>dv_TenantID := tc_TenantID tc\<rparr>) s)) s"
    and "isolated (tc_TenantID tc) (\<lambda>s. apfst done_or (DeleteDevice env tc k s)) s"
    and "isolated (tc_TenantID tc) (\<lambda>s. apfst done_or (SaveInventory env tc k raw s)) s"
proof -
  note wf = store_inv_wf [OF inv]
  note reject = isolated_reject [OF inv, where e' = ErrNotFound]
  show "isolated (tc_TenantID tc) (\<lambda>s. apfst done_or (UpdateDevice env (v\<lparr>dv_TenantID := tc_TenantID tc\<rparr>) s)) s"
  proof (cases "owned_device (tc_TenantID tc) (mem s) (dv_ID v)")
    case True
    then obtain dv where dv: "mget (db_Devices (mem s)) (dv_ID v) = Some dv" "dv_TenantID dv = tc_TenantID tc"
      by (auto simp: owned_device_iff)
    have "local_update (tc_TenantID tc)
        (\<lambda>d. d\<lparr>db_Devices := mput (dv_ID v) (v\<lparr>dv_TenantID := tc_TenantID tc\<rparr>) (db_Devices d)\<rparr>) (mem s)"
      by (rule local_update_device [OF inv dv]) simp
    from isolated_update(1) [OF this] show ?thesis
      by (rule isolated_branch) (use dv in \<open>simp_all add: UpdateDevice_def put_device_def wf\<close>)
  next
    case False
    then show ?thesis
      by (intro reject [where e = "if mget (db_Devices (mem s)) (dv_ID v) = None then ErrNotFound else ErrTenantMismatch"])
         (auto simp: UpdateDevice_def wf owned_device_iff split: option.splits)
  qed
  show "isolated (tc_TenantID tc) (\<lambda>s. apfst done_or (DeleteDevice env tc k s)) s"
    "isolated (tc_TenantID tc) (\<lambda>s. apfst done_or (SaveInventory env tc k raw s)) s"
  proof -
    have "isolated (tc_TenantID tc) (\<lambda>s. apfst done_or (DeleteDevice env tc k s)) s
      \<and> isolated (tc_TenantID tc) (\<lambda>s. apfst done_or (SaveInventory env tc k raw s)) s"
    proof (cases "owned_device (tc_TenantID tc) (mem s) k")
      case True
      then obtain dv where dv: "mget (db_Devices (mem s)) k = Some dv" "dv_TenantID dv = tc_TenantID tc"
        by (auto simp: owned_device_iff)
      note up = isolated_update(1) [OF local_update_forget [OF inv True]]
        isolated_update(1) [OF local_update_inventory [OF inv True]]
      show ?thesis
        by (intro conjI isolated_branch [OF up(1)] isolated_branch [OF up(2)])
           (use dv in \<open>simp_all add: DeleteDevice_def SaveInventory_def GetDevice_def wf\<close>)
    next
      case False
      then show ?thesis
        by (intro conjI reject [where e = "if mget (db_Devices (mem s)) k = None then ErrNotFound else ErrTenantMismatch"])
           (auto simp: DeleteDevice_def SaveInventory_def GetDevice_def wf owned_device_iff split: option.splits)
    qed
    then show "isolated (tc_TenantID tc) (\<lambda>s. apfst done_or (DeleteDevice env tc k s)) s"
      "isolated (tc_TenantID tc) (\<lambda>s. apfst done_or (SaveInventory env tc k raw s)) s" by simp_all
  qed
qed

lemma isolated_creates:
  assumes inv: "store_inv (mem s)"
  shows "mget (db_Devices (mem s)) (NewID env 0 ''dev'') = None \<Longrightarrow>
      isolated (tc_TenantID tc) (\<lambda>s. apfst (value_or RDevice) (CreateDevice env (dv\<lparr>dv_TenantID := tc_TenantID tc\<rparr>) s)) s"
    and "mget (db_EnrollmentTokens (mem s)) (NewID env 0 ''enr'') = None \<Longrightarrow>
      isolated (tc_TenantID tc) (\<lambda>s. apfst (value_or RToken) (CreateEnrollmentToken env tc token s)) s"
    and "mget (db_OTACampaigns (mem s)) (NewID env 0 ''ota'') = None \<Longrightarrow>
      isolated (tc_TenantID tc) (\<lambda>s. apfst (value_or RCampaign) (CreateOTACampaign env tc c s)) s"
    and "isolated (tc_TenantID tc) (\<lambda>s. apfst done_or (Audit env (event\<lparr>ev_TenantID := tc_TenantID tc\<rparr>) s)) s"
proof -
  note wf = store_inv_wf [OF inv]
  show "mget (db_Devices (mem s)) (NewID env 0 ''dev'') = None \<Longrightarrow>
      isolated (tc_TenantID tc) (\<lambda>s. apfst (value_or RDevice) (CreateDevice env (dv\<lparr>dv_TenantID := tc_TenantID tc\<rparr>) s)) s"
    unfolding CreateDevice_def put_device_def Let_def
    by (rule isolated_update(2), rule local_update_new_device [OF inv]) simp_all
  show "mget (db_EnrollmentTokens (mem s)) (NewID env 0 ''enr'') = None \<Longrightarrow>
      isolated (tc_TenantID tc) (\<lambda>s. apfst (value_or RToken) (CreateEnrollmentToken env tc token s)) s"
    unfolding CreateEnrollmentToken_def Let_def
    by (rule isolated_update(2), rule local_update_token [OF inv]) simp_all
  show "isolated (tc_TenantID tc) (\<lambda>s. apfst done_or (Audit env (event\<lparr>ev_TenantID := tc_TenantID tc\<rparr>) s)) s"
    unfolding Audit_def by (rule isolated_update(1), rule local_update_audit [OF inv]) simp
  show "isolated (tc_TenantID tc) (\<lambda>s. apfst (value_or RCampaign) (CreateOTACampaign env tc c s)) s"
    if new: "mget (db_OTACampaigns (mem s)) (NewID env 0 ''ota'') = None"
  proof (cases "cm_TenantID c \<noteq> [] \<and> cm_TenantID c \<noteq> tc_TenantID tc")
    case True
    then show ?thesis
      by (intro isolated_reject [OF inv, where e = ErrTenantMismatch and e' = ErrTenantMismatch])
         (simp_all add: CreateOTACampaign_def)
  next
    case False
    let ?c = "c\<lparr>cm_ID := NewID env 0 ''ota'', cm_TenantID := tc_TenantID tc, cm_CreatedAt := c_now env,
                cm_State := (if cm_State c = [] then ''ready'' else cm_State c)\<rparr>"
    have "local_update (tc_TenantID tc) (\<lambda>d. d\<lparr>db_OTACampaigns := mput (cm_ID ?c) ?c (db_OTACampaigns d)\<rparr>) (mem s)"
      by (rule local_update_campaign [OF inv]) (use new in simp_all)
    from isolated_update(2) [OF this, where v = ?c and r = RCampaign and env = env] show ?thesis
      by (rule isolated_branch) (use False in \<open>auto simp: CreateOTACampaign_def put_campaign_def Let_def\<close>)
  qed
qed

lemma isolated_jobs:
  assumes inv: "store_inv (mem s)"
  shows "mget (db_Jobs (mem s)) (NewID env 0 ''job'') = None \<Longrightarrow>
      isolated (tc_TenantID tc) (\<lambda>s. apfst (value_or RJob) (CreateJob env tc job s)) s"
    and "isolated (tc_TenantID tc) (\<lambda>s. apfst done_or (DeleteJob env tc k s)) s"
    and "isolated (tc_TenantID tc) (\<lambda>s. apfst done_or (CompleteJob env tc k raw s)) s"
proof -
  note wf = store_inv_wf [OF inv]
  have found: "List.find (same_request tc job) (range_values r (mfilter (\<lambda>k v. jo_TenantID v = tc_TenantID tc) m))
      = List.find (same_request tc job) (range_values r m)" for r m
    unfolding range_values_mfilter by (rule find_filter) (simp add: same_request_def)
  show "isolated (tc_TenantID tc) (\<lambda>s. apfst (value_or RJob) (CreateJob env tc job s)) s"
    if new: "mget (db_Jobs (mem s)) (NewID env 0 ''job'') = None"
  proof (cases "owned_device (tc_TenantID tc) (mem s) (jo_DeviceID job)")
    case False
    then show ?thesis
      by (intro isolated_reject [OF inv, where e = ErrTenantMismatch and e' = ErrTenantMismatch])
         (simp_all add: CreateJob_def wf)
  next
    case owned: True
    show ?thesis
    proof (cases "List.find (same_request tc job) (range_values (c_order env) (db_Jobs (mem s)))")
      case (Some existing)
      have "isolated (tc_TenantID tc) (\<lambda>s. (RJob existing, s)) s" by (rule isolated_read [OF inv]) simp
      then show ?thesis
        by (rule isolated_branch) (use owned Some in \<open>simp_all add: CreateJob_def found wf\<close>)
    next
      case None
      let ?j = "job\<lparr>jo_ID := NewID env 0 ''job'', jo_TenantID := tc_TenantID tc, jo_CreatedAt := c_now env,
                  jo_State := (if jo_State job = [] then ''queued'' else jo_State job),
                  ApprovalStatus := (if ApprovalStatus job = [] then ''approved'' else ApprovalStatus job)\<rparr>"
      have "local_update (tc_TenantID tc) (\<lambda>d. d\<lparr>db_Jobs := mput (jo_ID ?j) ?j (db_Jobs d)\<rparr>) (mem s)"
        by (rule local_update_job [OF inv]) (use owned new in simp_all)
      from isolated_update(2) [OF this, where v = ?j and r = RJob and env = env] show ?thesis
        by (rule isolated_branch) (use owned None in \<open>simp_all add: CreateJob_def found wf put_job_def Let_def\<close>)
    qed
  qed
  show "isolated (tc_TenantID tc) (\<lambda>s. apfst done_or (DeleteJob env tc k s)) s"
  proof (cases "\<exists>j. mget (db_Jobs (mem s)) k = Some j \<and> jo_TenantID j = tc_TenantID tc \<and> terminal_job j")
    case True
    then have "local_update (tc_TenantID tc) (\<lambda>d. d\<lparr>db_Jobs := mdel k (db_Jobs d)\<rparr>) (mem s)"
      by (intro local_update_job_delete [OF inv]) auto
    from isolated_update(1) [OF this] show ?thesis
      by (rule isolated_branch) (use True in \<open>auto simp: DeleteJob_def wf\<close>)
  next
    case False
    then show ?thesis
      by (intro isolated_reject [OF inv, where
            e = "case mget (db_Jobs (mem s)) k of None \<Rightarrow> ErrNotFound | Some j \<Rightarrow>
                   if jo_TenantID j \<noteq> tc_TenantID tc then ErrTenantMismatch
                   else ErrorString ''only terminal jobs can be removed from history''" and
            e' = "case mget (db_Jobs (mem s)) k of None \<Rightarrow> ErrNotFound | Some j \<Rightarrow>
                   if jo_TenantID j \<noteq> tc_TenantID tc then ErrNotFound
                   else ErrorString ''only terminal jobs can be removed from history''"])
         (auto simp: DeleteJob_def wf split: option.splits)
  qed
  show "isolated (tc_TenantID tc) (\<lambda>s. apfst done_or (CompleteJob env tc k raw s)) s"
  proof (cases "\<exists>j. mget (db_Jobs (mem s)) k = Some j \<and> jo_TenantID j = tc_TenantID tc")
    case True
    then obtain j where j: "mget (db_Jobs (mem s)) k = Some j" "jo_TenantID j = tc_TenantID tc" by blast
    let ?j = "j\<lparr>jo_State := completed_state (c_reportedState env raw), jo_Result := raw\<rparr>"
    let ?g = "\<lambda>d. d\<lparr>db_Jobs := mput k ?j (db_Jobs d)\<rparr>"
    have owned: "owned_device (tc_TenantID tc) (mem s) (jo_DeviceID j)"
      using inv j by (auto simp: store_inv_def references_ok_def dest!: mget_SomeD)
    have g: "local_update (tc_TenantID tc) ?g (mem s)" by (rule local_update_job [OF inv]) (use j owned in simp_all)
    have comm: "?g (tenant_view (tc_TenantID tc) (mem s)) = tenant_view (tc_TenantID tc) (?g (mem s))"
      by (rule job_commutes [OF inv]) (use j in simp_all)
    have "store_inv (?g (mem s))" using g by (simp add: local_update_def)
    from local_update_comp [OF g comm local_update_refresh [OF this]]
    have "local_update (tc_TenantID tc) (\<lambda>d. refresh_campaign tc (DeploymentID j) (?g d)) (mem s)" .
    from isolated_update(1) [OF this] show ?thesis
      by (rule isolated_branch) (use j in \<open>simp_all add: CompleteJob_def wf put_job_def modify_def Let_def\<close>)
  next
    case False
    then show ?thesis
      by (intro isolated_reject [OF inv, where e' = ErrNotFound and
            e = "if mget (db_Jobs (mem s)) k = None then ErrNotFound else ErrTenantMismatch"])
         (auto simp: CompleteJob_def wf split: option.splits)
  qed
qed

lemma isolated_update_campaign:
  assumes inv: "store_inv (mem s)"
  shows "isolated (tc_TenantID tc) (\<lambda>s. apfst done_or (UpdateOTACampaign env tc c s)) s"
proof (cases "\<exists>w. mget (db_OTACampaigns (mem s)) (cm_ID c) = Some w \<and> cm_TenantID w = tc_TenantID tc \<and> cm_TenantID c = tc_TenantID tc")
  case True
  then have "local_update (tc_TenantID tc) (\<lambda>d. d\<lparr>db_OTACampaigns := mput (cm_ID c) c (db_OTACampaigns d)\<rparr>) (mem s)"
    by (intro local_update_campaign [OF inv]) auto
  from isolated_update(1) [OF this] show ?thesis
    by (rule isolated_branch) (use True in \<open>auto simp: UpdateOTACampaign_def put_campaign_def store_inv_wf [OF inv]\<close>)
next
  case False
  then show ?thesis
    by (intro isolated_reject [OF inv, where
          e = "if mget (db_OTACampaigns (mem s)) (cm_ID c) = None then ErrNotFound else ErrTenantMismatch" and
          e' = "if \<exists>w. mget (db_OTACampaigns (mem s)) (cm_ID c) = Some w \<and> cm_TenantID w = tc_TenantID tc
                then ErrTenantMismatch else ErrNotFound"])
       (auto simp: UpdateOTACampaign_def store_inv_wf [OF inv] split: option.splits)
qed

text \<open>The two loops.\<close>

lemma isolated_add_metrics:
  "store_inv (mem s) \<Longrightarrow> isolated (tc_TenantID tc) (\<lambda>s. apfst done_or (add_metrics env tc ms s)) s"
proof (induction ms arbitrary: s)
  case Nil
  have "local_update (tc_TenantID tc) (\<lambda>d. d) (mem s)" by (rule local_update_id [OF Nil])
  from isolated_update(1) [OF this] show ?case by (simp add: modify_def)
next
  case (Cons m ms)
  note wf = store_inv_wf [OF Cons.prems]
  let ?g = "\<lambda>d. d\<lparr>db_Telemetry := db_Telemetry d @ [m\<lparr>ReceivedAt := c_now env\<rparr>]\<rparr>"
  show ?case
  proof (cases "owned_device (tc_TenantID tc) (mem s) (mt_DeviceID m) \<and> length (mt_Labels m) \<le> 12")
    case True
    then have owned: "owned_device (tc_TenantID tc) (mem s) (mt_DeviceID (m\<lparr>ReceivedAt := c_now env\<rparr>))" by simp
    note g = local_update_metric [OF Cons.prems owned]
    have "store_inv (mem (modify ?g s))" using g by (simp add: local_update_def)
    from isolated_after [OF g metric_commutes [OF Cons.prems owned] Cons.IH [OF this]] show ?thesis
      by (rule isolated_branch) (use True wf in \<open>auto simp: owned_device_iff\<close>)
  next
    case False
    then show ?thesis
      by (intro isolated_reject [OF Cons.prems, where
            e = "if owned_device (tc_TenantID tc) (mem s) (mt_DeviceID m) then ErrQuotaExceeded else ErrTenantMismatch" and
            e' = "if owned_device (tc_TenantID tc) (mem s) (mt_DeviceID m) then ErrQuotaExceeded else ErrTenantMismatch"])
         (auto simp: wf owned_device_iff split: option.splits)
  qed
qed

lemma isolated_AddTelemetry:
  assumes inv: "store_inv (mem s)"
  shows "isolated (tc_TenantID tc) (\<lambda>s. apfst done_or (AddTelemetry env tc ms s)) s"
proof (cases "5000 < int (length ms)")
  case True
  then show ?thesis
    by (intro isolated_reject [OF inv, where e = ErrQuotaExceeded and e' = ErrQuotaExceeded]) (simp_all add: AddTelemetry_def)
next
  case False
  then show ?thesis
    by (intro isolated_branch [OF isolated_add_metrics [OF inv]]) (simp_all add: AddTelemetry_def)
qed

definition visited :: "Context \<Rightarrow> cdata \<Rightarrow> string \<times> cJob \<Rightarrow> bool" where
  "visited tc d = (\<lambda>(k, j). jo_TenantID j = tc_TenantID tc \<longrightarrow>
     (\<exists>j'. mget (db_Jobs d) k = Some j' \<and> jo_TenantID j' = tc_TenantID tc \<and> jo_DeviceID j' = jo_DeviceID j))"

lemma isolated_next_job:
  "store_inv (mem s) \<Longrightarrow> \<forall>e \<in> set es. visited tc (mem s) e \<Longrightarrow>
     isolated (tc_TenantID tc) (\<lambda>s. apfst (value_or RJob) (next_job env tc dev es s)) s"
proof (induction es arbitrary: s)
  case Nil
  then show ?case
    by (intro isolated_reject [OF Nil(1), where e = ErrNotFound and e' = ErrNotFound]) simp_all
next
  case (Cons e es)
  obtain k j where e: "e = (k, j)" by (cases e)
  show ?case
  proof (cases "deliverable tc dev j")
    case False
    from Cons.IH [OF Cons.prems(1)] Cons.prems(2) show ?thesis by (simp add: e False)
  next
    case del: True
    then have "jo_TenantID j = tc_TenantID tc" by (simp add: deliverable_def)
    then obtain j' where j': "mget (db_Jobs (mem s)) k = Some j'" "jo_TenantID j' = tc_TenantID tc" "jo_DeviceID j' = jo_DeviceID j"
      using Cons.prems(2) by (auto simp: e visited_def)
    then have owned: "owned_device (tc_TenantID tc) (mem s) (jo_DeviceID j)"
      using Cons.prems(1) by (auto simp: store_inv_def references_ok_def dest!: mget_SomeD)
    have up: "local_update (tc_TenantID tc) (\<lambda>d. d\<lparr>db_Jobs := mput k i (db_Jobs d)\<rparr>) (mem s)"
      if "jo_TenantID i = tc_TenantID tc" "jo_DeviceID i = jo_DeviceID j" for i
      by (rule local_update_job [OF Cons.prems(1)]) (use that owned j' in simp_all)
    have comm: "(tenant_view (tc_TenantID tc) (mem s))\<lparr>db_Jobs := mput k i (db_Jobs (tenant_view (tc_TenantID tc) (mem s)))\<rparr>
        = tenant_view (tc_TenantID tc) ((mem s)\<lparr>db_Jobs := mput k i (db_Jobs (mem s))\<rparr>)"
      if "jo_TenantID i = tc_TenantID tc" for i
      by (rule job_commutes [OF Cons.prems(1) that]) (use j' in simp)
    show ?thesis
    proof (cases "After (c_now env) (jo_ExpiresAt j)")
      case True
      let ?i = "j\<lparr>jo_State := ''expired''\<rparr>"
      let ?g = "\<lambda>d. d\<lparr>db_Jobs := mput k ?i (db_Jobs d)\<rparr>"
      have i: "jo_TenantID ?i = tc_TenantID tc" "jo_DeviceID ?i = jo_DeviceID j" using del by (simp_all add: deliverable_def)
      have "store_inv (mem (modify ?g s))" using up [OF i] by (simp add: local_update_def)
      moreover have "\<forall>e \<in> set es. visited tc (mem (modify ?g s)) e"
        using Cons.prems(2) j' del by (fastforce simp: e visited_def deliverable_def)
      ultimately have "isolated (tc_TenantID tc) (\<lambda>s. apfst (value_or RJob) (next_job env tc dev es s)) (modify ?g s)"
        by (rule Cons.IH)
      from isolated_after [OF up [OF i] comm [OF i(1)] this] show ?thesis
        by (rule isolated_branch) (simp_all add: e del True put_job_def)
    next
      case False
      let ?i = "j\<lparr>jo_State := ''delivered'', jo_Attempt := i64 (jo_Attempt j + 1)\<rparr>"
      have i: "jo_TenantID ?i = tc_TenantID tc" "jo_DeviceID ?i = jo_DeviceID j" using del by (simp_all add: deliverable_def)
      from isolated_update_ignore [OF up [OF i], where env = env and r = "RJob ?i"] show ?thesis
        by (rule isolated_branch) (simp_all add: e del False put_job_def Let_def case_prod_unfold)
    qed
  qed
qed

lemma next_job_filter: "next_job env tc dev (filter (\<lambda>(k, j). jo_TenantID j = tc_TenantID tc) es) s = next_job env tc dev es s"
proof (induction es arbitrary: s)
  case (Cons e es)
  have "deliverable tc dev j \<Longrightarrow> jo_TenantID j = tc_TenantID tc" for j by (simp add: deliverable_def)
  with Cons show ?case by (cases e; cases "deliverable tc dev (snd e)") simp_all
qed simp

lemma isolated_NextJob:
  assumes inv: "store_inv (mem s)"
  shows "isolated (tc_TenantID tc) (\<lambda>s. apfst (value_or RJob) (NextJobForDevice env tc dev s)) s"
proof -
  have "\<forall>e \<in> set (range_map (c_order env) (db_Jobs (mem s))). visited tc (mem s) e"
    using store_inv_wf(8) [OF inv] by (auto simp: visited_def mget_iff_set)
  from isolated_next_job [OF inv this] show ?thesis
    by (rule isolated_branch) (simp_all add: NextJobForDevice_def range_map_mfilter next_job_filter)
qed

section \<open>Every operation is isolated\<close>

lemma isolated_perform:
  assumes inv: "store_inv (mem s)" and fresh: "fresh_ids env op (mem s)"
  shows "isolated (tc_TenantID tc) (\<lambda>s. perform env tc op s) s"
  using fresh isolated_settings [OF inv] isolated_devices [OF inv] isolated_creates [OF inv] isolated_jobs [OF inv]
    isolated_update_campaign [OF inv] isolated_AddTelemetry [OF inv] isolated_NextJob [OF inv]
  by (cases op) (simp_all add: isolated_read [OF inv] lists_private [OF inv] ListUsers_private [OF store_inv_wf(1) [OF inv]]
      gets_private [OF inv])

interpretation tenants: shared_service answer caller private_store "\<lambda>s. store_inv (mem s)" allowed blur
proof
  fix s c t
  assume inv: "store_inv (mem s)" and ok: "allowed c s"
  have iso: "isolated (caller c) (answer c) s"
    using isolated_perform [OF inv] ok by (simp add: answer_def caller_def allowed_def)
  show "store_inv (mem (snd (answer c s)))" using iso by (simp add: isolated_def)
  show "blur (fst (answer c (private_store (caller c) s))) = blur (fst (answer c s))" using iso by (simp add: isolated_def)
  show "private_store (caller c) (snd (answer c (private_store (caller c) s))) = private_store (caller c) (snd (answer c s))"
    using iso by (simp add: isolated_def)
  show "caller c \<noteq> t \<Longrightarrow> private_store t (snd (answer c s)) = private_store t s"
    using iso by (simp add: isolated_def)
qed

end
