(* ===== verification/CloudTenancy.thy ===== *)
theory CloudTenancy
  imports CloudIsolation
begin

text \<open>Tenant isolation and durability, as properties of the store.\<close>

section \<open>A small store of two tenants\<close>

definition demo_cenv :: cenv where
  "demo_cenv = \<lparr>c_now = 5000, c_rand = (\<lambda>n. ''x''), c_saveErr = None, c_order = (\<lambda>k. 0), c_sha256 = (\<lambda>s. s),
     c_reindent = (\<lambda>s. s), c_reportedState = (\<lambda>s. s)\<rparr>"

definition demo_dev :: "string \<Rightarrow> string \<Rightarrow> Device" where
  "demo_dev k t = \<lparr>dv_ID = k, dv_TenantID = t, dv_ProfileID = [], dv_ParentGatewayID = [], DisplayName = k,
     EnrollmentStatus = ''enrolled'', CertificateSubject = [], CertificateSerial = [], CertificateExpiresAt = 0,
     dv_LastSeenAt = 0, Presence = ''offline'', AgentVersion = [], dv_Architecture = [], dv_OS = [], dv_Kernel = [],
     HardwareModel = [], dv_Serial = [], dv_Capabilities = [], dv_Tags = [], dv_Location = None, RemoteAccessID = [],
     SoftwareState = [], UpdateState = [], HealthState = [], dv_CreatedAt = 0\<rparr>"

definition demo_cjob :: "string \<Rightarrow> string \<Rightarrow> string \<Rightarrow> string \<Rightarrow> cJob" where
  "demo_cjob k t dev st = \<lparr>jo_ID = k, jo_TenantID = t, jo_DeviceID = dev, DeploymentID = [], jo_Type = ''reboot'',
     jo_Payload = [], jo_PayloadDigest = [], jo_CreatedBy = [], jo_CreatedAt = 0, jo_ExpiresAt = 9000,
     jo_TimeoutSeconds = 600, ApprovalStatus = ''approved'', jo_Attempt = 0, jo_State = st, jo_Result = [],
     IdempotencyKey = []\<rparr>"

definition demo_db :: cstore where
  "demo_db = \<lparr>file_path = ''db'', mem = no_data\<lparr>db_Devices := [(''d1'', demo_dev ''d1'' ''a''), (''d2'', demo_dev ''d2'' ''b'')],
     db_Jobs := [(''j2'', demo_cjob ''j2'' ''b'' ''d2'' ''queued'')]\<rparr>, disk = None\<rparr>"

definition demo_tc :: "string \<Rightarrow> Context" where
  "demo_tc t = \<lparr>tc_TenantID = t, tc_ActorID = ''u'', Roles = [''organization_owner''], Scopes = []\<rparr>"

definition demo_calls :: "call list" where
  "demo_calls = [Call demo_cenv (demo_tc ''a'') (OpGetDevice ''d2''), Call demo_cenv (demo_tc ''b'') (OpDeleteDevice ''d2''),
     Call demo_cenv (demo_tc ''a'') (OpGetDevice ''d2''), Call demo_cenv (demo_tc ''a'') (OpGetDevice ''d1'')]"

lemma demo_db_inv: "store_inv (mem demo_db)"
  by code_simp

lemma demo_admissible:
  "admissible answer allowed demo_calls demo_db" "admissible answer allowed (purge caller ''a'' demo_calls) demo_db"
  by code_simp+

section \<open>Isolation\<close>

text \<open>C3: Tenants do not interfere: over any interleaving of the calls of all tenants, what a tenant
  is answered, and what it holds in the store afterwards, is the same as if the calls of all others
  had not happened, from any two stores that agree on its data. (Errors that say that an identifier is
  unknown and that it belongs to another tenant are not told apart; new identifiers are unused.)\<close>

theorem tenants_do_not_interfere:
  assumes "store_inv (mem s1)" "store_inv (mem s2)" "private_store t s1 = private_store t s2"
    and "admissible answer allowed calls s1" "admissible answer allowed (purge caller t calls) s2"
  shows "replies answer blur caller t calls s1 = replies answer blur caller t (purge caller t calls) s2
    \<and> private_store t (run_calls answer calls s1) = private_store t (run_calls answer (purge caller t calls) s2)"
  using tenants.noninterference [OF assms] by simp

theorem tenants_do_not_interfere_witness:
  "replies answer blur caller ''a'' demo_calls demo_db
     = replies answer blur caller ''a'' (purge caller ''a'' demo_calls) demo_db"
  using tenants_do_not_interfere [OF demo_db_inv demo_db_inv refl demo_admissible] by simp

text \<open>C4: For a tenant the shared store is its own private store: an operation in its name answers the
  same and has the same effect on its data as on the store restricted to its data.\<close>

theorem shared_store_refines_private:
  assumes "store_inv (mem s)" "fresh_ids env op (mem s)"
  shows "blur (fst (perform env tc op (private_store (tc_TenantID tc) s))) = blur (fst (perform env tc op s))
    \<and> private_store (tc_TenantID tc) (snd (perform env tc op (private_store (tc_TenantID tc) s)))
      = private_store (tc_TenantID tc) (snd (perform env tc op s))"
  using isolated_perform [OF assms] by (simp add: isolated_def)

theorem shared_store_refines_private_witness:
  "blur (fst (perform demo_cenv (demo_tc ''a'') (OpDeleteDevice ''d1'') (private_store ''a'' demo_db)))
     = blur (fst (perform demo_cenv (demo_tc ''a'') (OpDeleteDevice ''d1'') demo_db))"
  using shared_store_refines_private [OF demo_db_inv, where env = demo_cenv and tc = "demo_tc ''a''" and op = "OpDeleteDevice ''d1''"]
  by (simp add: demo_tc_def)

text \<open>An operation in the name of one tenant leaves everything that belongs to another as it was.\<close>

theorem other_tenants_untouched:
  assumes "store_inv (mem s)" "fresh_ids env op (mem s)" "t \<noteq> tc_TenantID tc"
  shows "tenant_view t (mem (snd (perform env tc op s))) = tenant_view t (mem s)"
  using isolated_perform [OF assms(1,2), of tc] assms(3) by (simp add: isolated_def private_store_eq_iff)

theorem other_tenants_untouched_witness:
  "tenant_view ''b'' (mem (snd (perform demo_cenv (demo_tc ''a'') (OpDeleteDevice ''d1'') demo_db))) = tenant_view ''b'' (mem demo_db)"
  by (rule other_tenants_untouched [OF demo_db_inv]) (simp_all add: demo_tc_def)

section \<open>Durability\<close>

text \<open>The data in memory is the data in the file, or has not changed.\<close>

definition durable :: "cenv \<Rightarrow> cstore \<Rightarrow> cstore \<Rightarrow> bool" where
  "durable env s s' \<longleftrightarrow> mem s' = mem s \<or> disk s' = Some (persisted env (mem s'))"

lemma saveLocked_durable: "saveLocked env s = (None, s') \<Longrightarrow> file_path s \<noteq> [] \<Longrightarrow> durable env s0 s'"
  by (auto simp: saveLocked_def durable_def split: option.splits)

lemma saveLocked_reply:
  assumes "apfst done_or (saveLocked env (modify g s)) = (r, s')" "\<And>e. r \<noteq> Failed e" "file_path s \<noteq> []"
  shows "durable env s0 s'"
  using assms saveLocked_durable [of env "modify g s" s'] by (cases "fst (saveLocked env (modify g s))") (auto simp: prod_eq_iff)

lemma save_and_return_reply:
  assumes "apfst (value_or f) (save_and_return env v (modify g s)) = (r, s')" "\<And>e. r \<noteq> Failed e" "file_path s \<noteq> []"
  shows "durable env s0 s'"
  using assms saveLocked_durable [of env "modify g s" s'] unfolding save_and_return_def
  by (cases "saveLocked env (modify g s)"; cases "fst (saveLocked env (modify g s))") auto

lemma add_metrics_durable:
  "add_metrics env tc ms s = (None, s') \<Longrightarrow> file_path s \<noteq> [] \<Longrightarrow> durable env s0 s'"
  by (induction ms arbitrary: s) (auto dest: saveLocked_durable split: option.splits if_splits)

lemma save_reply_None: "apfst done_or p = (r, s') \<Longrightarrow> (\<And>e. r \<noteq> Failed e) \<Longrightarrow> p = (None, s')"
  by (cases p; cases "fst p") auto

lemma durable_refl [simp]: "durable env s s"
  by (simp add: durable_def)

text \<open>C26: Success means saved: if an operation in a tenant's name reports no error, then the data in
  memory is what the file holds, or the operation changed nothing. (Delivering a job is the exception:
  it ignores an error of saving.)\<close>

theorem success_is_durable:
  assumes "perform env tc op s = (r, s')" "\<And>e. r \<noteq> Failed e" "file_path s \<noteq> []" "\<And>k. op \<noteq> OpNextJob k"
  shows "mem s' = mem s \<or> disk s' = Some (persisted env (mem s'))"
proof -
  note saved = saveLocked_durable [of env _ s' s] save_and_return_reply [of _ env _ _ _ r s' s]
  have "durable env s s'"
  proof (cases op)
    case (OpAddTelemetry ms)
    with assms show ?thesis
      by (auto simp: AddTelemetry_def dest!: save_reply_None add_metrics_durable [of _ _ _ _ _ s] split: if_splits)
  next
    case (OpCreateJob j)
    with assms show ?thesis
      by (auto simp: CreateJob_def put_job_def Let_def dest: save_and_return_reply [of _ env _ _ _ r s' s]
          split: if_splits option.splits)
  next
    case (OpCreateDevice j)
    with assms show ?thesis
      by (auto simp: CreateDevice_def put_device_def Let_def dest: save_and_return_reply [of _ env _ _ _ r s' s])
  next
    case (OpCreateEnrollmentToken j)
    with assms show ?thesis
      by (auto simp: CreateEnrollmentToken_def Let_def dest: save_and_return_reply [of _ env _ _ _ r s' s])
  next
    case (OpCreateCampaign c)
    with assms show ?thesis
      by (auto simp: CreateOTACampaign_def put_campaign_def Let_def dest: save_and_return_reply [of _ env _ _ _ r s' s]
          split: if_splits)
  qed (use assms in \<open>auto dest!: save_reply_None dest: saveLocked_durable [of env _ s' s] split: option.splits if_splits sum.splits
      simp: SavePlatformSettings_def ResetPlatformSettings_def SaveAIConfiguration_def DeleteAIConfiguration_def
        UpdateDevice_def DeleteDevice_def SaveInventory_def DeleteJob_def CompleteJob_def UpdateOTACampaign_def Audit_def
        put_device_def put_campaign_def put_job_def Let_def\<close>)
  then show ?thesis by (simp add: durable_def)
qed

theorem success_is_durable_witness:
  "mem (snd (perform demo_cenv (demo_tc ''a'') (OpDeleteDevice ''d1'') demo_db)) = mem demo_db
   \<or> disk (snd (perform demo_cenv (demo_tc ''a'') (OpDeleteDevice ''d1'') demo_db))
     = Some (persisted demo_cenv (mem (snd (perform demo_cenv (demo_tc ''a'') (OpDeleteDevice ''d1'') demo_db))))"
proof (rule success_is_durable [where tc = "demo_tc ''a''" and op = "OpDeleteDevice ''d1''"])
  have "fst (perform demo_cenv (demo_tc ''a'') (OpDeleteDevice ''d1'') demo_db) = Done" by code_simp
  then show "fst (perform demo_cenv (demo_tc ''a'') (OpDeleteDevice ''d1'') demo_db) \<noteq> Failed e" for e by simp
  show "file_path demo_db \<noteq> []" by (simp add: demo_db_def)
  show "perform demo_cenv (demo_tc ''a'') (OpDeleteDevice ''d1'') demo_db =
    (fst (perform demo_cenv (demo_tc ''a'') (OpDeleteDevice ''d1'') demo_db),
     snd (perform demo_cenv (demo_tc ''a'') (OpDeleteDevice ''d1'') demo_db))" by (simp only: prod.collapse)
qed simp_all

end
