(* ===== verification/CloudHTTP.thy ===== *)
theory CloudHTTP
  imports CloudOTA CloudPassword CloudTenancy
begin

text \<open>
  The HTTP layer of the control plane, \<^verbatim>\<open>cloud-infra/internal/server/server.go\<close>:
  requests and responses, log-in and the authentication of every request, and the platform
  settings with their validation, \<^verbatim>\<open>settings/settings.go\<close>.

  A handler is a function of its environments (\<open>envs n\<close> is what its \<open>n\<close>-th use of the store
  asks of the environment), the decoded body or the error of decoding it, and the store. Request
  parsing, JSON, URLs, addresses and durations are library code: \<open>services\<close>.
\<close>

section \<open>Requests and responses\<close>

record http_request =
  Method :: string
  Header :: "string \<Rightarrow> string"
  Cookie :: "string option"
  Query :: "string \<Rightarrow> string"
  http_Host :: string

datatype body =
    Status string string
  | BSession go_time "Membership list" string
  | BMembership Membership
  | BInfo string string bool bool int
  | BSettings PlatformSettings string bool
  | BOrganizations "Organization list"
  | BTokens "EnrollmentToken list" | BToken EnrollmentToken
  | BDownstream "DownstreamDevice list" | BInventory "string go_map"
  | BDevices "Device list" | BDevice Device
  | BCampaigns "Campaign list" | BCampaign Campaign
  | BRemote string string
  | BMetrics "Metric list" | BAccepted int string
  | BJobs "cJob list" | BJob "cJob option"
  | BUsers "User list" | BUser User
  | BArtifacts "Artifact list" | BAudit "AuditEvent list"
  | BRoles "(string \<times> Permission list) list"
  | BEnrolled string string string string string

datatype response = JSON (status: int) body | ErrorJSON (status: int) string string

record services =
  sv_url :: "string \<Rightarrow> url result"
  sv_address :: "string \<Rightarrow> string option"
  sv_duration :: "string \<Rightarrow> duration option"
  sv_encode :: "Request \<Rightarrow> string"
  sv_hmac :: mac

record server_cfg =
  SessionTTL :: duration
  CertificateTTL :: duration
  DevicePublicHost :: string
  ShellHubManaged :: bool
  defaults :: PlatformSettings

type_synonym envs = "nat \<Rightarrow> cenv"

definition method_not_allowed :: response where
  "method_not_allowed = ErrorJSON 405 ''method_not_allowed'' ''method not allowed''"

definition forbidden :: response where
  "forbidden = ErrorJSON 403 ''forbidden'' ''permission denied''"

definition bearer :: "string \<Rightarrow> string" where
  "bearer header = (if HasPrefix header ''Bearer '' then TrimPrefix header ''Bearer '' else [])"

section \<open>Log-in\<close>

record login_request =
  lg_Email :: string
  lg_Password :: string

text \<open>The cookie is part of the answer.\<close>

definition login ::
  "services \<Rightarrow> server_cfg \<Rightarrow> envs \<Rightarrow> go_error option \<Rightarrow> http_request \<Rightarrow> login_request result \<Rightarrow> cstore \<Rightarrow> response \<times> cstore" where
  "login sv cfg envs randErr r body s =
     (if Method r \<noteq> ''POST'' then (method_not_allowed, s)
      else case body of
        Inl err \<Rightarrow> (ErrorJSON 400 ''bad_request'' (Error err), s)
      | Inr req \<Rightarrow>
          (case FindUserByEmail (envs 0) (ToLower (lg_Email req)) s of
             Inl err \<Rightarrow> (ErrorJSON 401 ''invalid_credentials'' ''invalid credentials'', s)
           | Inr user \<Rightarrow>
               if \<not> Verify (sv_hmac sv) (lg_Password req) (PasswordHash user) \<or> Before (c_now (envs 0)) (LockedUntil user)
               then (ErrorJSON 401 ''invalid_credentials'' ''invalid credentials'', s)
               else case NewSession (envs 1) randErr (us_ID user) (SessionTTL cfg) of
                 Inl err \<Rightarrow> (ErrorJSON 500 ''session_error'' ''could not create session'', s)
               | Inr (session, token) \<Rightarrow>
                   (case SaveSession (envs 2) session s of
                      (Some err, s) \<Rightarrow> (ErrorJSON 500 ''session_error'' ''could not save session'', s)
                    | (None, s) \<Rightarrow> (JSON 200 (BSession (se_ExpiresAt session) (Memberships (us_ID user) s) token), s))))"

definition logout :: "http_request \<Rightarrow> cstore \<Rightarrow> response \<times> cstore" where
  "logout r s = (if Method r \<noteq> ''POST'' then method_not_allowed else JSON 200 (Status ''signed_out'' []), s)"

section \<open>Authentication\<close>

text \<open>The tenant of a request and the roles of the user in it; an empty tenant becomes that of the first membership.\<close>

fun tenant_and_roles :: "string \<Rightarrow> Membership list \<Rightarrow> string \<times> string list" where
  "tenant_and_roles tenantID [] = (tenantID, [])"
| "tenant_and_roles tenantID (m # ms) =
     (let tenantID = (if tenantID = [] then mb_TenantID m else tenantID);
          (t, roles) = tenant_and_roles tenantID ms in
      (t, if mb_TenantID m = tenantID then mb_Role m # roles else roles))"

definition request_token :: "http_request \<Rightarrow> string" where
  "request_token r =
     (let token = bearer (Header r ''Authorization'') in
      if token = [] then (case Cookie r of Some value \<Rightarrow> value | None \<Rightarrow> token) else token)"

definition authenticate :: "cenv \<Rightarrow> http_request \<Rightarrow> cstore \<Rightarrow> response + Context" where
  "authenticate env r s =
     (case SessionByToken env (request_token r) s of
        Inl err \<Rightarrow> Inl (ErrorJSON 401 ''unauthorized'' ''authentication required'')
      | Inr session \<Rightarrow>
          (let (tenantID, roles) = tenant_and_roles (Header r ''X-Tenant-ID'') (Memberships (se_UserID session) s) in
           if tenantID = [] \<or> roles = [] then Inl (ErrorJSON 403 ''forbidden'' ''tenant membership required'')
           else Inr \<lparr>tc_TenantID = tenantID, tc_ActorID = se_UserID session, Roles = roles, Scopes = []\<rparr>))"

definition withAuth :: "cenv \<Rightarrow> http_request \<Rightarrow> (Context \<Rightarrow> cstore \<Rightarrow> response \<times> cstore) \<Rightarrow> cstore \<Rightarrow> response \<times> cstore" where
  "withAuth env r handler s =
     (case authenticate env r s of Inl response \<Rightarrow> (response, s) | Inr tc \<Rightarrow> handler tc s)"

definition currentSession :: "http_request \<Rightarrow> Context \<Rightarrow> cstore \<Rightarrow> response \<times> cstore" where
  "currentSession r tc s =
     (if Method r \<noteq> ''GET'' then method_not_allowed
      else JSON 200 (BMembership \<lparr>mb_TenantID = tc_TenantID tc, mb_UserID = tc_ActorID tc, mb_Role = hd (Roles tc)\<rparr>), s)"

section \<open>Platform settings\<close>

text \<open>\<^verbatim>\<open>settings.Validate\<close>.\<close>

definition Settings_Validate :: "(string \<Rightarrow> url result) \<Rightarrow> PlatformSettings \<Rightarrow> go_error option" where
  "Settings_Validate parse value =
     (let name = TrimSpace (OrganizationName value); domain = ToLower (TrimSpace (CompanyDomain value)) in
      if length name < 2 \<or> 80 < length name then Some (ErrorString ''organization name must contain 2 to 80 characters'')
      else if CompanyDomain value \<noteq> [] \<and>
         ((case parse (''https://'' @ domain) of Inl err \<Rightarrow> True | Inr parsed \<Rightarrow> Hostname parsed \<noteq> domain) \<or> \<not> Contains domain ''.'')
      then Some (ErrorString ''company domain must be a hostname such as example.com'')
      else if ShellHubURL value \<noteq> [] \<and>
         (case parse (TrimSpace (ShellHubURL value)) of
            Inl err \<Rightarrow> True
          | Inr portal \<Rightarrow> (Scheme portal \<noteq> ''http'' \<and> Scheme portal \<noteq> ''https'') \<or> Hostname portal = [] \<or> url.User portal)
      then Some (ErrorString ''ShellHub portal URL must be an absolute HTTP or HTTPS URL'')
      else if ShellHubSSHPort value < 1 \<or> 65535 < ShellHubSSHPort value
      then Some (ErrorString ''ShellHub SSH port must be between 1 and 65535'')
      else if DeviceOfflineMinutes value < 2 \<or> 1440 < DeviceOfflineMinutes value
      then Some (ErrorString ''offline window must be between 2 and 1440 minutes'')
      else if DefaultTelemetryWindow value \<noteq> ''15m'' \<and> DefaultTelemetryWindow value \<noteq> ''1h'' \<and> DefaultTelemetryWindow value \<noteq> ''24h''
      then Some (ErrorString ''telemetry window must be 15m, 1h, or 24h'')
      else if DefaultOTAPilotPercent value < 1 \<or> 100 < DefaultOTAPilotPercent value
      then Some (ErrorString ''pilot percentage must be between 1 and 100'')
      else if DefaultEnrollmentTTLHours value < 1 \<or> 720 < DefaultEnrollmentTTLHours value
      then Some (ErrorString ''enrollment token lifetime must be between 1 and 720 hours'')
      else if DefaultJobTTLMinutes value < 5 \<or> 10080 < DefaultJobTTLMinutes value
      then Some (ErrorString ''job expiry must be between 5 and 10080 minutes'')
      else None)"

definition effectivePlatformSettings :: "server_cfg \<Rightarrow> Context \<Rightarrow> cstore \<Rightarrow> PlatformSettings \<times> string" where
  "effectivePlatformSettings cfg tc s =
     (case get_PlatformSettings tc s of
        Some value \<Rightarrow>
          (value\<lparr>ShellHubURL := (if ShellHubURL value = [] then ShellHubURL (defaults cfg) else ShellHubURL value),
                 ShellHubSSHPort := (if ShellHubSSHPort value = 0 then ShellHubSSHPort (defaults cfg) else ShellHubSSHPort value)\<rparr>,
           ''platform'')
      | None \<Rightarrow>
          (let organizationName = (case get_Organization tc s of
                 Inr organization \<Rightarrow> if og_Name organization \<noteq> [] then og_Name organization else OrganizationName (defaults cfg)
               | Inl err \<Rightarrow> OrganizationName (defaults cfg)) in
           ((defaults cfg)\<lparr>OrganizationName := organizationName, ps_UpdatedBy := [], ps_UpdatedAt := zero_time\<rparr>, ''deployment'')))"

definition platformInfo :: "server_cfg \<Rightarrow> http_request \<Rightarrow> Context \<Rightarrow> cstore \<Rightarrow> response \<times> cstore" where
  "platformInfo cfg r tc s =
     (if Method r \<noteq> ''GET'' then (method_not_allowed, s)
      else let settings = fst (effectivePlatformSettings cfg tc s) in
        (JSON 200 (BInfo (''https://'' @ DevicePublicHost cfg @ '':8443'') (ShellHubURL settings) (ShellHubURL settings \<noteq> [])
           (ShellHubManaged cfg) (ShellHubSSHPort settings)), s))"

definition platformSettings ::
  "services \<Rightarrow> server_cfg \<Rightarrow> envs \<Rightarrow> http_request \<Rightarrow> PlatformSettings result \<Rightarrow> Context \<Rightarrow> cstore \<Rightarrow> response \<times> cstore" where
  "platformSettings sv cfg envs r body tc s =
     (if Method r = ''GET'' then
        let (value, source) = effectivePlatformSettings cfg tc s in
        (JSON 200 (BSettings value source (Authorize (Some tc) TenantSettings = None)), s)
      else if Authorize (Some tc) TenantSettings \<noteq> None then (forbidden, s)
      else if Method r = ''DELETE'' then
        (case ResetPlatformSettings (envs 0) tc s of
           (Some err, s) \<Rightarrow> (ErrorJSON 500 ''settings_reset_failed'' (Error err), s)
         | (None, s) \<Rightarrow>
             (let s = Record (envs 1) tc ''platform_settings.reset'' ''organization'' (tc_TenantID tc) ''success'' [] s in
              (JSON 200 (BSettings (fst (effectivePlatformSettings cfg tc s)) ''deployment'' True), s)))
      else if Method r \<noteq> ''PUT'' then (method_not_allowed, s)
      else case body of
        Inl err \<Rightarrow> (ErrorJSON 400 ''bad_request'' (Error err), s)
      | Inr value \<Rightarrow>
          (let value = value\<lparr>OrganizationName := TrimSpace (OrganizationName value),
                             CompanyDomain := ToLower (TrimSpace (CompanyDomain value)),
                             ShellHubURL := TrimRight (TrimSpace (ShellHubURL value)) ''/''\<rparr> in
           case Settings_Validate (sv_url sv) value of
             Some err \<Rightarrow> (ErrorJSON 400 ''invalid_settings'' (Error err), s)
           | None \<Rightarrow>
               (case SavePlatformSettings (envs 0) tc value s of
                  (Some err, s) \<Rightarrow> (ErrorJSON 500 ''settings_save_failed'' (Error err), s)
                | (None, s) \<Rightarrow>
                    (let value = fst (effectivePlatformSettings cfg tc s);
                         s = Record (envs 1) tc ''platform_settings.updated'' ''organization'' (tc_TenantID tc) ''success''
                               [(''company_domain'', CompanyDomain value)] s in
                     (JSON 200 (BSettings value ''platform'' True), s)))))"

section \<open>What authentication guarantees\<close>

lemma tenant_and_roles_tenant: "fst (tenant_and_roles t0 ms) = t0 \<or> t0 = []"
  by (induction t0 ms rule: tenant_and_roles.induct) (auto simp: Let_def split: prod.splits if_splits)

lemma tenant_and_roles_sound:
  assumes "\<forall>m \<in> set ms. mb_TenantID m \<noteq> []"
  shows "tenant_and_roles t0 ms = (t, roles) \<Longrightarrow> role \<in> set roles \<Longrightarrow> \<exists>m \<in> set ms. mb_TenantID m = t \<and> mb_Role m = role"
  using assms
proof (induction t0 ms arbitrary: t roles rule: tenant_and_roles.induct)
  case (2 t0 m ms)
  let ?t0 = "if t0 = [] then mb_TenantID m else t0"
  obtain t' roles' where rec: "tenant_and_roles ?t0 ms = (t', roles')" by fastforce
  have "?t0 \<noteq> []" using 2(4) by simp
  with tenant_and_roles_tenant [of ?t0 ms] rec have "t' = ?t0" by auto
  with rec 2(1) [OF refl rec] 2(2-4) show ?case by (auto simp: Let_def split: if_splits)
qed simp

text \<open>C32: Every request is authenticated: a handler behind the authentication runs only for a token whose
  session is stored, not revoked and not expired, and in the context of a tenant of which the session's
  user is a member, with the roles of memberships the user has in that tenant and no scopes.\<close>

theorem handlers_run_authenticated:
  assumes "authenticate env r s = Inr tc" "\<forall>m \<in> set (db_Memberships (mem s)). mb_TenantID m \<noteq> []"
  shows "\<exists>session. mget (db_Sessions (mem s)) (HashToken env (request_token r)) = Some session
    \<and> IsZero (se_RevokedAt session) \<and> c_now env \<le> se_ExpiresAt session \<and> tc_ActorID tc = se_UserID session
    \<and> tc_TenantID tc \<noteq> [] \<and> Scopes tc = [] \<and> Roles tc \<noteq> []
    \<and> (\<forall>role \<in> set (Roles tc). \<lparr>mb_TenantID = tc_TenantID tc, mb_UserID = se_UserID session, mb_Role = role\<rparr> \<in> set (db_Memberships (mem s)))"
proof -
  obtain session where ses: "SessionByToken env (request_token r) s = Inr session"
    using assms(1) by (auto simp: authenticate_def split: sum.splits)
  obtain t roles where tr: "tenant_and_roles (Header r ''X-Tenant-ID'') (Memberships (se_UserID session) s) = (t, roles)"
    by fastforce
  have tc: "tc = \<lparr>tc_TenantID = t, tc_ActorID = se_UserID session, Roles = roles, Scopes = []\<rparr>" "t \<noteq> []" "roles \<noteq> []"
    using assms(1) by (auto simp: authenticate_def ses tr split: if_splits)
  have "\<forall>m \<in> set (Memberships (se_UserID session) s). mb_TenantID m \<noteq> []" using assms(2) by (simp add: Memberships_def)
  note sound = tenant_and_roles_sound [OF this tr]
  have "\<lparr>mb_TenantID = t, mb_UserID = se_UserID session, mb_Role = role\<rparr> \<in> set (db_Memberships (mem s))" if role: "role \<in> set roles" for role
  proof -
    obtain m where "m \<in> set (db_Memberships (mem s))" "mb_UserID m = se_UserID session" "mb_TenantID m = t" "mb_Role m = role"
      using sound [OF role] by (auto simp: Memberships_def)
    then show ?thesis by (metis Membership.surjective Membership.cases old.unit.exhaust)
  qed
  with tc ses show ?thesis by (auto simp: SessionByToken_def split: option.splits if_splits)
qed

text \<open>A store with one member and one session, for the token \<^verbatim>\<open>t\<close>.\<close>

definition demo_session :: Session where
  "demo_session = \<lparr>se_ID = ''s'', se_UserID = ''u'', se_TokenHash = ''74'', se_ExpiresAt = 9000, se_RevokedAt = zero_time,
     se_CreatedAt = 0\<rparr>"

definition demo_member_db :: cstore where
  "demo_member_db = demo_db\<lparr>mem := (mem demo_db)
     \<lparr>db_Sessions := [(''74'', demo_session)],
      db_Memberships := [\<lparr>mb_TenantID = ''a'', mb_UserID = ''u'', mb_Role = ''organization_owner''\<rparr>]\<rparr>\<rparr>"

definition demo_request :: "string \<Rightarrow> http_request" where
  "demo_request verb = \<lparr>Method = verb, Header = (\<lambda>h. if h = ''Authorization'' then ''Bearer t'' else []), Cookie = None,
     Query = (\<lambda>q. ''d1''), http_Host = []\<rparr>"

lemma demo_authenticate: "authenticate demo_cenv (demo_request ''DELETE'') demo_member_db = Inr (demo_tc ''a'')"
  by code_simp

theorem handlers_run_authenticated_witness:
  "tc_TenantID (demo_tc ''a'') \<noteq> [] \<and>
   \<lparr>mb_TenantID = ''a'', mb_UserID = ''u'', mb_Role = ''organization_owner''\<rparr> \<in> set (db_Memberships (mem demo_member_db))"
  using handlers_run_authenticated [OF demo_authenticate] by (simp add: demo_member_db_def demo_tc_def)

end
