(* ===== verification/CloudControl.thy ===== *)
theory CloudControl
  imports CloudHTTP
begin

text \<open>The handlers of the control API behind the authentication, \<^verbatim>\<open>server/server.go\<close>.\<close>

section \<open>Listings\<close>

definition organizations :: "envs \<Rightarrow> http_request \<Rightarrow> Context \<Rightarrow> cstore \<Rightarrow> response \<times> cstore" where
  "organizations envs r tc s =
     (if Method r \<noteq> ''GET'' then method_not_allowed else JSON 200 (BOrganizations (ListOrganizations (envs 0) s)), s)"

definition guarded :: "Context \<Rightarrow> Permission \<Rightarrow> body \<Rightarrow> cstore \<Rightarrow> response \<times> cstore" where
  "guarded tc permission b s = (if Authorize (Some tc) permission \<noteq> None then forbidden else JSON 200 b, s)"

definition downstream :: "envs \<Rightarrow> Context \<Rightarrow> cstore \<Rightarrow> response \<times> cstore" where
  "downstream envs tc s = guarded tc DeviceRead (BDownstream (ListDownstream (envs 0) tc s)) s"

definition inventory :: "Context \<Rightarrow> cstore \<Rightarrow> response \<times> cstore" where
  "inventory tc s = guarded tc DeviceRead (BInventory (ListInventory tc s)) s"

definition telemetryQuery :: "http_request \<Rightarrow> Context \<Rightarrow> cstore \<Rightarrow> response \<times> cstore" where
  "telemetryQuery r tc s = guarded tc TelemetryRead (BMetrics (ListTelemetry tc (Query r ''device_id'') s)) s"

definition audit :: "Context \<Rightarrow> cstore \<Rightarrow> response \<times> cstore" where
  "audit tc s = guarded tc AuditRead (BAudit (ListAudit tc s)) s"

definition artifacts :: "envs \<Rightarrow> Context \<Rightarrow> cstore \<Rightarrow> response \<times> cstore" where
  "artifacts envs tc s = (JSON 200 (BArtifacts (ListArtifacts (envs 0) tc s)), s)"

definition list_roles :: "cstore \<Rightarrow> response \<times> cstore" where
  "list_roles s = (JSON 200 (BRoles RolePermissions), s)"

section \<open>Enrollment tokens\<close>

record token_request =
  tr_ProfileID :: string
  tr_TTL :: string

text \<open>\<^verbatim>\<open>enrollment.NewToken\<close>.\<close>

definition NewToken :: "cenv \<Rightarrow> go_error option \<Rightarrow> Context \<Rightarrow> string \<Rightarrow> duration \<Rightarrow> cstore \<Rightarrow> EnrollmentToken result \<times> cstore" where
  "NewToken env randErr tc profileID ttl s =
     (case randErr of
        Some err \<Rightarrow> (Inl err, s)
      | None \<Rightarrow>
          (let plain = hexEncode (c_rand env 1);
               token = \<lparr>et_ID = [], et_TenantID = [], et_ProfileID = profileID, et_TokenHash = HashToken env plain,
                        PlainToken = plain, ExpectedSerial = [], ExpectedProduct = [], MaxDevices = 1, UsedCount = 0,
                        et_ExpiresAt = time_Add (c_now env) ttl, et_RevokedAt = zero_time, et_CreatedBy = [],
                        et_CreatedAt = zero_time\<rparr> in
           CreateEnrollmentToken env tc token s))"

text \<open>A duration given as text, or the default; decoding errors of the body are ignored.\<close>

definition ttl_or :: "services \<Rightarrow> duration \<Rightarrow> string \<Rightarrow> duration" where
  "ttl_or sv default_ttl text = (if text = [] then default_ttl else case sv_duration sv text of Some parsed \<Rightarrow> parsed | None \<Rightarrow> default_ttl)"

definition enrollmentTokens ::
  "services \<Rightarrow> server_cfg \<Rightarrow> envs \<Rightarrow> go_error option \<Rightarrow> http_request \<Rightarrow> token_request \<Rightarrow> Context \<Rightarrow> cstore \<Rightarrow> response \<times> cstore" where
  "enrollmentTokens sv cfg envs randErr r req tc s =
     (if Method r = ''GET'' then (JSON 200 (BTokens (ListEnrollmentTokens (envs 0) tc s)), s)
      else if Method r \<noteq> ''POST'' then (method_not_allowed, s)
      else if Authorize (Some tc) DeviceEnroll \<noteq> None then (forbidden, s)
      else
        let settings = fst (effectivePlatformSettings cfg tc s);
            ttl = ttl_or sv (i64 (DefaultEnrollmentTTLHours settings * Hour)) (tr_TTL req) in
        case NewToken (envs 0) randErr tc (tr_ProfileID req) ttl s of
          (Inl err, s) \<Rightarrow> (ErrorJSON 500 ''token_error'' (Error err), s)
        | (Inr token, s) \<Rightarrow>
            (JSON 201 (BToken (token\<lparr>et_TokenHash := []\<rparr>)),
             Record (envs 1) tc ''enrollment_token.created'' ''enrollment_token'' (et_ID token) ''success''
               [(''profile_id'', tr_ProfileID req)] s))"

section \<open>Devices\<close>

definition validCoordinates :: "u64 \<Rightarrow> u64 \<Rightarrow> bool" where
  "validCoordinates latitude longitude \<longleftrightarrow>
     f64_le (f64_neg f64_90) latitude \<and> f64_le latitude f64_90
   \<and> f64_le (f64_neg f64_180) longitude \<and> f64_le longitude f64_180"

record device_patch =
  dp_DeviceID :: string
  dp_Location :: "DeviceLocation option"
  dp_RemoteAccessID :: "string option"

definition boolString :: "bool \<Rightarrow> string" where
  "boolString value = (if value then ''true'' else ''false'')"

definition shown_presence :: "go_time \<Rightarrow> duration \<Rightarrow> Device \<Rightarrow> Device" where
  "shown_presence now offlineAfter dv =
     (if \<not> IsZero (dv_LastSeenAt dv) \<and> offlineAfter < time_Sub now (dv_LastSeenAt dv) then dv\<lparr>Presence := ''offline''\<rparr> else dv)"

definition patched_device :: "go_time \<Rightarrow> device_patch \<Rightarrow> Device \<Rightarrow> Device" where
  "patched_device now req device =
     (let device = (case dp_Location req of
            Some location \<Rightarrow> device\<lparr>dv_Location := Some (location\<lparr>lo_Source := ''manual'', lo_UpdatedAt := now\<rparr>)\<rparr>
          | None \<Rightarrow> device) in
      case dp_RemoteAccessID req of Some k \<Rightarrow> device\<lparr>RemoteAccessID := TrimSpace k\<rparr> | None \<Rightarrow> device)"

definition devices ::
  "server_cfg \<Rightarrow> envs \<Rightarrow> http_request \<Rightarrow> device_patch result \<Rightarrow> Context \<Rightarrow> cstore \<Rightarrow> response \<times> cstore" where
  "devices cfg envs r body tc s =
     (if Authorize (Some tc) DeviceRead \<noteq> None then (forbidden, s)
      else if Method r = ''GET'' then
        let settings = fst (effectivePlatformSettings cfg tc s);
            offlineAfter = i64 (DeviceOfflineMinutes settings * Minute) in
        (JSON 200 (BDevices (map (shown_presence (c_now (envs 0)) offlineAfter) (ListDevices (envs 0) tc s))), s)
      else if Method r = ''DELETE'' then
        (if Authorize (Some tc) DeviceDelete \<noteq> None then (forbidden, s)
         else
           let deviceID = TrimSpace (Query r ''device_id'') in
           if deviceID = [] then (ErrorJSON 400 ''bad_request'' ''device_id is required'', s)
           else case DeleteDevice (envs 0) tc deviceID s of
             (Some err, s) \<Rightarrow> (ErrorJSON 400 ''device_delete_failed'' (Error err), s)
           | (None, s) \<Rightarrow> (JSON 200 (Status ''removed'' deviceID),
                           Record (envs 1) tc ''device.removed'' ''device'' deviceID ''success'' [] s))
      else if Method r \<noteq> ''PATCH'' then (method_not_allowed, s)
      else if Authorize (Some tc) DeviceUpdate \<noteq> None then (forbidden, s)
      else case body of
        Inl err \<Rightarrow> (ErrorJSON 400 ''bad_request'' (Error err), s)
      | Inr req \<Rightarrow>
          (case GetDevice tc (dp_DeviceID req) s of
             Inl err \<Rightarrow> (ErrorJSON 404 ''not_found'' ''device not found'', s)
           | Inr device \<Rightarrow>
               if (case dp_Location req of Some l \<Rightarrow> \<not> validCoordinates (Latitude l) (Longitude l) | None \<Rightarrow> False)
               then (ErrorJSON 400 ''invalid_location'' ''latitude or longitude is invalid'', s)
               else
                 let device = patched_device (c_now (envs 0)) req device in
                 case UpdateDevice (envs 0) device s of
                   (Some err, s) \<Rightarrow> (ErrorJSON 500 ''device_update_failed'' (Error err), s)
                 | (None, s) \<Rightarrow>
                     (JSON 200 (BDevice device),
                      Record (envs 1) tc ''device.settings_updated'' ''device'' (dv_ID device) ''success''
                        [(''location'', boolString (dp_Location req \<noteq> None)),
                         (''remote_access'', boolString (dp_RemoteAccessID req \<noteq> None))] s)))"

section \<open>Remote access\<close>

record remote_request =
  ra_DeviceID :: string
  ra_User :: string

definition safeSSHPart :: "string \<Rightarrow> bool" where
  "safeSSHPart value \<longleftrightarrow> value \<noteq> [] \<and> list_all (\<lambda>c. is_alnum c \<or> c \<in> set ''._-@'') value"

definition remoteAccess ::
  "server_cfg \<Rightarrow> envs \<Rightarrow> http_request \<Rightarrow> remote_request result \<Rightarrow> Context \<Rightarrow> cstore \<Rightarrow> response \<times> cstore" where
  "remoteAccess cfg envs r body tc s =
     (if Method r \<noteq> ''POST'' then (method_not_allowed, s)
      else if Authorize (Some tc) RemoteCreate \<noteq> None then (forbidden, s)
      else
        let settings = fst (effectivePlatformSettings cfg tc s) in
        if ShellHubURL settings = [] then (ErrorJSON 503 ''remote_access_unconfigured'' ''ShellHub URL is not configured'', s)
        else case body of
          Inl err \<Rightarrow> (ErrorJSON 400 ''bad_request'' (Error err), s)
        | Inr req \<Rightarrow>
            (case GetDevice tc (ra_DeviceID req) s of
               Inl err \<Rightarrow> (ErrorJSON 400 ''remote_access_unmapped'' ''device does not have a ShellHub SSHID'', s)
             | Inr device \<Rightarrow>
                 if RemoteAccessID device = []
                 then (ErrorJSON 400 ''remote_access_unmapped'' ''device does not have a ShellHub SSHID'', s)
                 else if \<not> safeSSHPart (ra_User req) \<or> \<not> safeSSHPart (RemoteAccessID device)
                 then (ErrorJSON 400 ''invalid_ssh_identity'' ''SSH user or ShellHub SSHID is invalid'', s)
                 else
                   let sshCommand = ''ssh '' @ (if ShellHubSSHPort settings \<noteq> 22 then ''-p '' @ itoa (ShellHubSSHPort settings) @ '' '' else [])
                         @ ra_User req @ ''@'' @ RemoteAccessID device in
                   (JSON 201 (BRemote (ShellHubURL settings) sshCommand),
                    Record (envs 0) tc ''remote_access.requested'' ''device'' (dv_ID device) ''success''
                      [(''provider'', ''shellhub''), (''user'', ra_User req)] s)))"

section \<open>Jobs\<close>

record job_request =
  jr_DeviceID :: string
  jr_Type :: string
  jr_Payload :: string
  jr_TTL :: string

definition jobs ::
  "services \<Rightarrow> server_cfg \<Rightarrow> envs \<Rightarrow> http_request \<Rightarrow> job_request result \<Rightarrow> Context \<Rightarrow> cstore \<Rightarrow> response \<times> cstore" where
  "jobs sv cfg envs r body tc s =
     (if Method r = ''GET'' then (JSON 200 (BJobs (ListJobs (envs 0) tc s)), s)
      else if Method r = ''DELETE'' then
        (if Authorize (Some tc) JobDelete \<noteq> None then (forbidden, s)
         else
           let jobID = TrimSpace (Query r ''job_id'') in
           if jobID = [] then (ErrorJSON 400 ''bad_request'' ''job_id is required'', s)
           else case DeleteJob (envs 0) tc jobID s of
             (Some err, s) \<Rightarrow> (ErrorJSON 409 ''job_delete_failed'' (Error err), s)
           | (None, s) \<Rightarrow> (JSON 200 (Status ''removed'' jobID),
                           Record (envs 1) tc ''job.history_removed'' ''job'' jobID ''success'' [] s))
      else if Method r \<noteq> ''POST'' then (method_not_allowed, s)
      else if Authorize (Some tc) DeviceCommand \<noteq> None then (forbidden, s)
      else case body of
        Inl err \<Rightarrow> (ErrorJSON 400 ''bad_request'' (Error err), s)
      | Inr req \<Rightarrow>
          (let settings = fst (effectivePlatformSettings cfg tc s);
               ttl = ttl_or sv (i64 (DefaultJobTTLMinutes settings * Minute)) (jr_TTL req) in
           case jobs_New (envs 0) (jr_DeviceID req) (jr_Type req) (jr_Payload req) (tc_ActorID tc) ttl of
             Inl err \<Rightarrow> (ErrorJSON 400 ''bad_job'' (Error err), s)
           | Inr job \<Rightarrow>
               (case CreateJob (envs 0) tc (job\<lparr>IdempotencyKey := Header r ''Idempotency-Key''\<rparr>) s of
                  (Inl err, s) \<Rightarrow> (ErrorJSON 400 ''job_error'' (Error err), s)
                | (Inr job, s) \<Rightarrow>
                    (JSON 201 (BJob (Some job)),
                     Record (envs 1) tc ''device_job.queued'' ''job'' (jo_ID job) ''success''
                       [(''device_id'', jo_DeviceID job), (''type'', jo_Type job)] s))))"

section \<open>Users\<close>

record user_request =
  ur_Email :: string
  ur_Password :: string
  ur_Role :: string

definition users ::
  "services \<Rightarrow> envs \<Rightarrow> string result \<Rightarrow> http_request \<Rightarrow> user_request result \<Rightarrow> Context \<Rightarrow> cstore \<Rightarrow> response \<times> cstore" where
  "users sv envs salt r body tc s =
     (if Method r = ''GET'' then (JSON 200 (BUsers (ListUsers (envs 0) tc s)), s)
      else if Method r \<noteq> ''POST'' then (method_not_allowed, s)
      else if Authorize (Some tc) UserManage \<noteq> None then (forbidden, s)
      else case body of
        Inl err \<Rightarrow> (ErrorJSON 400 ''bad_request'' (Error err), s)
      | Inr req \<Rightarrow>
          (let email = ToLower (TrimSpace (ur_Email req)) in
           if sv_address sv email \<noteq> Some email then (ErrorJSON 400 ''invalid_email'' ''enter a valid email address'', s)
           else if length (ur_Password req) < 12 \<or> 256 < length (ur_Password req)
           then (ErrorJSON 400 ''invalid_password'' ''temporary password must contain 12 to 256 characters'', s)
           else if \<not> canAssignRole (Roles tc) (ur_Role req) then (ErrorJSON 403 ''invalid_role'' ''you cannot assign this role'', s)
           else case Hash (sv_hmac sv) salt (ur_Password req) of
             Inl err \<Rightarrow> (ErrorJSON 500 ''password_hash_failed'' ''could not secure the temporary password'', s)
           | Inr passwordHash \<Rightarrow>
               (case CreateTenantUser (envs 0) tc email passwordHash (ur_Role req) s of
                  (Inl err, s) \<Rightarrow>
                    (if err = ErrDuplicate then ErrorJSON 409 ''user_exists'' ''a user with this email already exists''
                     else ErrorJSON 500 ''user_create_failed'' (Error err), s)
                | (Inr user, s) \<Rightarrow>
                    (JSON 201 (BUser user),
                     Record (envs 1) tc ''user.created'' ''user'' (us_ID user) ''success'' [(''role'', ur_Role req)] s))))"

end
