(* ===== verification/CloudRollout.thy ===== *)
theory CloudRollout
  imports CloudControl
begin

text \<open>
  The rollout of a campaign: \<^verbatim>\<open>otaCampaigns\<close> and \<^verbatim>\<open>promoteOTACampaign\<close> of
  \<^verbatim>\<open>server/server.go\<close>, and what they guarantee together with the store.
\<close>

section \<open>The handlers\<close>

definition canonicalArchitecture :: "string \<Rightarrow> string" where
  "canonicalArchitecture value =
     (let v = ToLower (TrimSpace value) in
      if v \<in> {''arm64'', ''aarch64''} then ''arm64''
      else if v \<in> {''arm'', ''armv7'', ''armv7l'', ''armhf''} then ''armv7''
      else if v \<in> {''amd64'', ''x86_64''} then ''amd64''
      else v)"

text \<open>The check of the targets, in their order.\<close>

fun check_targets :: "Context \<Rightarrow> Campaign \<Rightarrow> string list \<Rightarrow> cstore \<Rightarrow> response option" where
  "check_targets tc c [] s = None"
| "check_targets tc c (deviceID # deviceIDs) s =
     (case GetDevice tc deviceID s of
        Inl err \<Rightarrow> Some (ErrorJSON 400 ''invalid_target'' ''campaign contains an unknown device'')
      | Inr device \<Rightarrow>
          if cm_Architecture c \<noteq> [] \<and> dv_Architecture device \<noteq> []
             \<and> canonicalArchitecture (cm_Architecture c) \<noteq> canonicalArchitecture (dv_Architecture device)
          then Some (ErrorJSON 400 ''incompatible_target'' ''campaign architecture does not match every target'')
          else if ''ota:'' @ cm_Adapter c \<notin> set (dv_Capabilities device)
          then Some (ErrorJSON 400 ''incompatible_target'' ''every target must report support for the selected OTA adapter'')
          else check_targets tc c deviceIDs s)"

record promote_request =
  pr_CampaignID :: string
  pr_Action :: string

text \<open>The uses of the store take their environments in turn: one each, and one per job from \<open>envs 4\<close> on.\<close>

definition createCampaign ::
  "services \<Rightarrow> envs \<Rightarrow> Campaign result \<Rightarrow> Context \<Rightarrow> cstore \<Rightarrow> response \<times> cstore" where
  "createCampaign sv envs body tc s =
     (if Authorize (Some tc) DeploymentCreate \<noteq> None then (forbidden, s)
      else case body of
        Inl err \<Rightarrow> (ErrorJSON 400 ''bad_request'' (Error err), s)
      | Inr campaign \<Rightarrow>
          (case ValidateMetadata (sv_url sv) campaign of
             Some err \<Rightarrow> (ErrorJSON 400 ''invalid_campaign'' (Error err), s)
           | None \<Rightarrow>
               (case check_targets tc campaign (TargetIDs campaign) s of
                  Some response \<Rightarrow> (response, s)
                | None \<Rightarrow>
                    (case CreateOTACampaign (envs 0) tc (campaign\<lparr>cm_CreatedBy := tc_ActorID tc, cm_State := ''ready''\<rparr>) s of
                       (Inl err, s) \<Rightarrow> (ErrorJSON 400 ''campaign_error'' (Error err), s)
                     | (Inr created, s) \<Rightarrow>
                         (case queueOTAJobs (\<lambda>n. envs (n + 4)) (sv_encode sv) tc created
                                 (take (nat (canaryCount created)) (TargetIDs created)) s of
                            (Some err, s) \<Rightarrow>
                              (ErrorJSON 500 ''ota_queue_failed'' (Error err),
                               snd (UpdateOTACampaign (envs 1) tc (created\<lparr>cm_State := ''failed''\<rparr>) s))
                          | (None, s) \<Rightarrow>
                              (let created = created\<lparr>cm_State := (if canaryCount created < int (length (TargetIDs created))
                                                               then ''canary_queued'' else ''queued'')\<rparr> in
                               case UpdateOTACampaign (envs 2) tc created s of
                                 (Some err, s) \<Rightarrow> (ErrorJSON 500 ''campaign_update_failed'' (Error err), s)
                               | (None, s) \<Rightarrow>
                                   (JSON 201 (BCampaign created),
                                    Record (envs 3) tc ''ota_campaign.created'' ''ota_campaign'' (cm_ID created) ''success''
                                      [(''adapter'', cm_Adapter created), (''targets'', boolString (TargetIDs created \<noteq> []))] s)))))))"

definition remaining_targets :: "cenv \<Rightarrow> Context \<Rightarrow> Campaign \<Rightarrow> cstore \<Rightarrow> string list" where
  "remaining_targets env tc c s =
     (let existing = map jo_DeviceID (JobsForDeployment env tc (cm_ID c) s) in
      filter (\<lambda>deviceID. deviceID \<notin> set existing) (TargetIDs c))"

definition promoteOTACampaign ::
  "services \<Rightarrow> envs \<Rightarrow> promote_request result \<Rightarrow> Context \<Rightarrow> cstore \<Rightarrow> response \<times> cstore" where
  "promoteOTACampaign sv envs body tc s =
     (if Authorize (Some tc) DeploymentApprove \<noteq> None then (forbidden, s)
      else case body of
        Inl err \<Rightarrow> (ErrorJSON 400 ''bad_request'' (Error err), s)
      | Inr req \<Rightarrow>
          (case GetOTACampaign tc (pr_CampaignID req) s of
             Inl err \<Rightarrow> (ErrorJSON 404 ''campaign_not_found'' ''campaign was not found'', s)
           | Inr campaign \<Rightarrow>
               if pr_Action req \<noteq> ''promote'' \<or> cm_State campaign \<noteq> ''canary_complete''
               then (ErrorJSON 409 ''campaign_not_promotable'' ''only a completed pilot group can be promoted'', s)
               else
                 let remaining = remaining_targets (envs 0) tc campaign s in
                 if remaining = []
                 then (ErrorJSON 409 ''campaign_already_promoted'' ''all campaign targets already have an update job'', s)
                 else case queueOTAJobs (\<lambda>n. envs (n + 4)) (sv_encode sv) tc campaign remaining s of
                   (Some err, s) \<Rightarrow> (ErrorJSON 500 ''ota_queue_failed'' (Error err), s)
                 | (None, s) \<Rightarrow>
                     (let campaign = campaign\<lparr>cm_State := ''queued''\<rparr> in
                      case UpdateOTACampaign (envs 2) tc campaign s of
                        (Some err, s) \<Rightarrow> (ErrorJSON 500 ''campaign_update_failed'' (Error err), s)
                      | (None, s) \<Rightarrow>
                          (JSON 200 (BCampaign campaign),
                           Record (envs 3) tc ''ota_campaign.promoted'' ''ota_campaign'' (cm_ID campaign) ''success''
                             [(''targets'', boolString (remaining \<noteq> []))] s))))"

definition otaCampaigns ::
  "services \<Rightarrow> envs \<Rightarrow> http_request \<Rightarrow> Campaign result \<Rightarrow> promote_request result \<Rightarrow> Context \<Rightarrow> cstore \<Rightarrow> response \<times> cstore" where
  "otaCampaigns sv envs r body patch tc s =
     (if Method r = ''GET'' then (JSON 200 (BCampaigns (ListOTACampaigns (envs 0) tc s)), s)
      else if Method r = ''PATCH'' then promoteOTACampaign sv envs patch tc s
      else if Method r \<noteq> ''POST'' then (method_not_allowed, s)
      else createCampaign sv envs body tc s)"

section \<open>Architecture names\<close>

text \<open>The two programs name architectures alike.\<close>

lemma canonicalArchitecture_agent: "canonicalArchitecture = CanonicalArchitecture"
  by (simp add: fun_eq_iff canonicalArchitecture_def CanonicalArchitecture_def Let_def)

end
