(* ===== verification/CloudGateway.thy ===== *)
theory CloudGateway
  imports CloudControl
begin

text \<open>
  The device gateway: the envelope of \<^verbatim>\<open>cloud-infra/internal/protocol/envelope.go\<close>, the
  normalisation of telemetry, \<^verbatim>\<open>telemetry/telemetry.go\<close>, enrollment,
  \<^verbatim>\<open>enrollment/enrollment.go\<close>, and the device handlers of \<^verbatim>\<open>server/server.go\<close>.
\<close>

section \<open>Envelopes\<close>

record Envelope =
  ProtocolVersion :: string
  MessageID :: string
  CorrelationID :: string
  en_TenantID :: string
  en_DeviceID :: string
  GatewayID :: string
  Sequence :: u64
  TimestampUnixNano :: int
  LegacyCreatedUnixNano :: int
  PayloadSchemaVersion :: string
  en_PayloadDigest :: string
  en_Payload :: string

definition fleet_version :: string where "fleet_version = ''fleet.v1''"

text \<open>\<open>raw\<close> is the JSON text of the payload, or the error of making it.\<close>

definition Wrap :: "cenv \<Rightarrow> string \<Rightarrow> string \<Rightarrow> string \<Rightarrow> u64 \<Rightarrow> string result \<Rightarrow> Envelope result" where
  "Wrap env tenantID deviceID schema sequence raw =
     (case raw of
        Inl err \<Rightarrow> Inl err
      | Inr raw \<Rightarrow>
          Inr \<lparr>ProtocolVersion = fleet_version, MessageID = hexEncode (c_rand env 0), CorrelationID = [],
               en_TenantID = tenantID, en_DeviceID = deviceID, GatewayID = [], Sequence = sequence,
               TimestampUnixNano = i64 (c_now env - unix_epoch), LegacyCreatedUnixNano = 0,
               PayloadSchemaVersion = schema, en_PayloadDigest = hexEncode (c_sha256 env raw), en_Payload = raw\<rparr>)"

definition Envelope_Validate :: "(string \<Rightarrow> string) \<Rightarrow> go_time \<Rightarrow> duration \<Rightarrow> Envelope \<Rightarrow> go_error option" where
  "Envelope_Validate sha now skew e =
     (if ProtocolVersion e \<noteq> fleet_version \<and> ProtocolVersion e \<noteq> ''edge.v1'' then Some (ErrorString ''unsupported protocol version'')
      else if MessageID e = [] then Some (ErrorString ''missing message_id'')
      else
        let ts = (if TimestampUnixNano e = 0 then Unix0 (LegacyCreatedUnixNano e) else Unix0 (TimestampUnixNano e)) in
        if After ts (time_Add now skew) \<or> Before ts (time_Add now (- skew)) then Some (ErrorString ''timestamp outside allowed skew'')
        else if en_PayloadDigest e \<noteq> [] \<and> hexEncode (sha (en_Payload e)) \<noteq> en_PayloadDigest e
        then Some (ErrorString ''payload digest mismatch'')
        else None)"

section \<open>Messages\<close>

record DeviceFingerprint =
  df_Hostname :: string
  MachineIDHash :: string
  df_Serial :: string
  df_Product :: string
  df_Architecture :: string
  df_OS :: string
  df_Kernel :: string

record EnrollmentRequest =
  er_Token :: string
  er_EnrollmentToken :: string
  PublicKeyPEM :: string
  RequestedName :: string
  Fingerprint :: DeviceFingerprint
  er_Inventory :: string

record EnrollmentResponse =
  es_TenantID :: string
  es_DeviceID :: string
  ClientCertificatePEM :: string
  CACertificatePEM :: string
  ServerEndpoint :: string

record Location =
  lc_Latitude :: u64
  lc_Longitude :: u64
  lc_AccuracyM :: u64
  lc_Source :: string
  lc_Label :: string

record Heartbeat =
  hb_AgentVersion :: string
  hb_Health :: string
  OSUptimeSeconds :: int
  AgentUptimeSeconds :: int
  UptimeSeconds :: int
  hb_Location :: "Location option"

record wire_metric =
  wm_Name :: string
  wm_Value :: u64
  wm_Unit :: string
  wm_Labels :: "string go_map"
  TimeUnixNano :: int

text \<open>\<^verbatim>\<open>telemetry.Normalize\<close>: the first invalid metric rejects the batch.\<close>

fun normalize_metrics :: "go_time \<Rightarrow> string \<Rightarrow> string \<Rightarrow> wire_metric list \<Rightarrow> Metric list result" where
  "normalize_metrics now deviceID messageID [] = Inr []"
| "normalize_metrics now deviceID messageID (m # ms) =
     (if wm_Name m = [] \<or> 12 < length (wm_Labels m) then Inl (ErrorString ''invalid metric'')
      else map_sum id (\<lambda>out.
        \<lparr>mt_DeviceID = deviceID, mt_Name = wm_Name m, mt_Value = wm_Value m, mt_Unit = wm_Unit m, mt_Labels = wm_Labels m,
         DeviceTime = (if TimeUnixNano m \<noteq> 0 then Unix0 (TimeUnixNano m) else now), ReceivedAt = now, mt_MessageID = messageID\<rparr> # out)
        (normalize_metrics now deviceID messageID ms))"

definition Normalize :: "go_time \<Rightarrow> string \<Rightarrow> string \<Rightarrow> wire_metric list \<Rightarrow> Metric list result" where
  "Normalize now deviceID messageID metrics =
     (if 5000 < int (length metrics) then Inl (ErrorString ''telemetry batch too large'')
      else normalize_metrics now deviceID messageID metrics)"

section \<open>Enrollment\<close>

text \<open>
  The certificate authority is a parameter: from the public key, the device and the lifetime it makes a
  certificate with its serial number and end, or fails.
\<close>

record authority =
  CertPEM :: string
  IssueDeviceCertificate :: "string \<Rightarrow> string \<Rightarrow> duration \<Rightarrow> (string \<times> string \<times> go_time) result"

definition first_nonempty :: "string list \<Rightarrow> string" where
  "first_nonempty values = (case List.find (\<lambda>v. v \<noteq> []) values of Some v \<Rightarrow> v | None \<Rightarrow> [])"

definition enrolled_device :: "cenv \<Rightarrow> EnrollmentToken \<Rightarrow> EnrollmentRequest \<Rightarrow> Device" where
  "enrolled_device env enr req =
     (let fp = Fingerprint req in
      \<lparr>dv_ID = [], dv_TenantID = et_TenantID enr, dv_ProfileID = et_ProfileID enr, dv_ParentGatewayID = [],
       DisplayName = first_nonempty [RequestedName req, df_Hostname fp, ''edge-device''], EnrollmentStatus = ''enrolled'',
       CertificateSubject = [], CertificateSerial = [], CertificateExpiresAt = zero_time, dv_LastSeenAt = c_now env,
       Presence = ''recently_seen'', AgentVersion = [], dv_Architecture = df_Architecture fp, dv_OS = df_OS fp,
       dv_Kernel = df_Kernel fp, HardwareModel = df_Product fp, dv_Serial = df_Serial fp,
       dv_Capabilities = [''telemetry'', ''inventory'', ''jobs''], dv_Tags = [], dv_Location = None, RemoteAccessID = [],
       SoftwareState = [], UpdateState = ''idle'', HealthState = ''unknown'', dv_CreatedAt = zero_time\<rparr>)"

definition Enroll ::
  "authority \<Rightarrow> duration \<Rightarrow> string \<Rightarrow> envs \<Rightarrow> EnrollmentRequest \<Rightarrow> cstore \<Rightarrow> EnrollmentResponse result \<times> cstore" where
  "Enroll ca ttl endpoint envs req s =
     (let token = (if er_Token req = [] then er_EnrollmentToken req else er_Token req) in
      if token = [] then (Inl (ErrorString ''enrollment token is required''), s)
      else case ConsumeEnrollmentToken (envs 0) (HashToken (envs 0) token) (df_Serial (Fingerprint req))
                  (df_Product (Fingerprint req)) s of
        (Inl err, s) \<Rightarrow> (Inl err, s)
      | (Inr enr, s) \<Rightarrow>
          (case CreateDevice (envs 1) (enrolled_device (envs 1) enr req) s of
             (Inl err, s) \<Rightarrow> (Inl err, s)
           | (Inr device, s) \<Rightarrow>
               (case IssueDeviceCertificate ca (PublicKeyPEM req) (dv_ID device) ttl of
                  Inl err \<Rightarrow> (Inl err, s)
                | Inr (certPEM, serial, expires) \<Rightarrow>
                    (let device = device\<lparr>CertificateSerial := serial, CertificateSubject := dv_ID device,
                                         CertificateExpiresAt := expires\<rparr> in
                     case UpdateDevice (envs 2) device s of
                       (Some err, s) \<Rightarrow> (Inl err, s)
                     | (None, s) \<Rightarrow>
                         (let s = (if er_Inventory req \<noteq> []
                                   then snd (SaveInventory (envs 3) (device_context (et_TenantID enr)) (dv_ID device) (er_Inventory req) s)
                                   else s) in
                          (Inr \<lparr>es_TenantID = et_TenantID enr, es_DeviceID = dv_ID device, ClientCertificatePEM = certPEM,
                                CACertificatePEM = CertPEM ca, ServerEndpoint = endpoint\<rparr>, s))))))"

definition deviceEnroll ::
  "server_cfg \<Rightarrow> authority \<Rightarrow> envs \<Rightarrow> http_request \<Rightarrow> EnrollmentRequest result \<Rightarrow> cstore \<Rightarrow> response \<times> cstore" where
  "deviceEnroll cfg ca envs r body s =
     (if Method r \<noteq> ''POST'' then (method_not_allowed, s)
      else case body of
        Inl err \<Rightarrow> (ErrorJSON 400 ''bad_request'' (Error err), s)
      | Inr req \<Rightarrow>
          (case Enroll ca (CertificateTTL cfg) (''https://'' @ http_Host r) envs req s of
             (Inl err, s) \<Rightarrow> (ErrorJSON 403 ''enrollment_rejected'' (Error err), s)
           | (Inr res, s) \<Rightarrow>
               (JSON 200 (BEnrolled (es_TenantID res) (es_DeviceID res) (ClientCertificatePEM res) (CACertificatePEM res) (ServerEndpoint res)),
                Record (envs 4) (device_context (es_TenantID res)) ''device.enrolled'' ''device'' (es_DeviceID res) ''success''
                  [(''name'', RequestedName req)] s)))"

section \<open>Device messages\<close>

definition envelope_skew :: duration where "envelope_skew = 10 * Minute"

definition deviceEnvelope :: "cenv \<Rightarrow> Envelope result \<Rightarrow> cstore \<Rightarrow> response + (Envelope \<times> Context)" where
  "deviceEnvelope env body s =
     (case body of
        Inl err \<Rightarrow> Inl (ErrorJSON 400 ''bad_envelope'' (Error err))
      | Inr e \<Rightarrow>
          (case Envelope_Validate (c_sha256 env) (c_now env) envelope_skew e of
             Some err \<Rightarrow> Inl (ErrorJSON 400 ''bad_envelope'' (Error err))
           | None \<Rightarrow>
               (case GetDevice (device_context (en_TenantID e)) (en_DeviceID e) s of
                  Inl err \<Rightarrow> Inl (ErrorJSON 401 ''unknown_device'' ''device identity rejected'')
                | Inr device \<Rightarrow> Inr (e, device_context (en_TenantID e)))))"

definition deviceContextFromHeaders :: "http_request \<Rightarrow> cstore \<Rightarrow> Context result" where
  "deviceContextFromHeaders r s =
     (if Header r ''X-Tenant-ID'' = [] \<or> Header r ''X-Device-ID'' = [] then Inl (ErrorString ''missing device headers'')
      else case GetDevice (device_context (Header r ''X-Tenant-ID'')) (Header r ''X-Device-ID'') s of
        Inl err \<Rightarrow> Inl err
      | Inr device \<Rightarrow> Inr (device_context (Header r ''X-Tenant-ID'')))"

definition deviceStatus :: "http_request \<Rightarrow> cstore \<Rightarrow> response \<times> cstore" where
  "deviceStatus r s =
     (if Method r \<noteq> ''GET'' then (method_not_allowed, s)
      else case deviceContextFromHeaders r s of
        Inl err \<Rightarrow> (ErrorJSON 401 ''unknown_device'' ''device identity rejected; enroll this device again if platform data was reset'', s)
      | Inr tc \<Rightarrow> (JSON 200 (Status ''accepted'' []), s))"

text \<open>\<open>decode_heartbeat\<close> is the decoded payload; what cannot be decoded leaves its fields empty.\<close>

definition seen_device :: "go_time \<Rightarrow> Heartbeat \<Rightarrow> Device \<Rightarrow> Device" where
  "seen_device now hb device =
     (let device = device\<lparr>dv_LastSeenAt := now, Presence := ''connected'', AgentVersion := hb_AgentVersion hb,
                          HealthState := hb_Health hb\<rparr> in
      case hb_Location hb of
        None \<Rightarrow> device
      | Some l \<Rightarrow>
          if validCoordinates (lc_Latitude l) (lc_Longitude l)
          then device\<lparr>dv_Location := Some \<lparr>Latitude = lc_Latitude l, Longitude = lc_Longitude l, AccuracyM = lc_AccuracyM l,
                        lo_Source = lc_Source l, lo_Label = lc_Label l, lo_UpdatedAt = now\<rparr>\<rparr>
          else device)"

definition deviceHeartbeat ::
  "(string \<Rightarrow> Heartbeat) \<Rightarrow> envs \<Rightarrow> Envelope result \<Rightarrow> cstore \<Rightarrow> response \<times> cstore" where
  "deviceHeartbeat decode_heartbeat envs body s =
     (case deviceEnvelope (envs 0) body s of
        Inl response \<Rightarrow> (response, s)
      | Inr (e, tc) \<Rightarrow>
          (case GetDevice tc (en_DeviceID e) s of
             Inl err \<Rightarrow> (ErrorJSON 403 ''unknown_device'' ''device not registered'', s)
           | Inr device \<Rightarrow>
               (JSON 200 (Status ''accepted'' (MessageID e)),
                snd (UpdateDevice (envs 1) (seen_device (c_now (envs 1)) (decode_heartbeat (en_Payload e)) device) s))))"

definition deviceTelemetry ::
  "(string \<Rightarrow> wire_metric list option) \<Rightarrow> envs \<Rightarrow> Envelope result \<Rightarrow> cstore \<Rightarrow> response \<times> cstore" where
  "deviceTelemetry decode_batch envs body s =
     (case deviceEnvelope (envs 0) body s of
        Inl response \<Rightarrow> (response, s)
      | Inr (e, tc) \<Rightarrow>
          (case decode_batch (en_Payload e) of
             None \<Rightarrow> (ErrorJSON 400 ''bad_telemetry'' ''invalid telemetry payload'', s)
           | Some batch \<Rightarrow>
               (case Normalize (c_now (envs 0)) (en_DeviceID e) (MessageID e) batch of
                  Inl err \<Rightarrow> (ErrorJSON 400 ''bad_telemetry'' (Error err), s)
                | Inr metrics \<Rightarrow>
                    (case AddTelemetry (envs 1) tc metrics s of
                       (Some err, s) \<Rightarrow> (ErrorJSON 400 ''telemetry_rejected'' (Error err), s)
                     | (None, s) \<Rightarrow> (JSON 200 (BAccepted (int (length metrics)) (MessageID e)), s)))))"

record device_inventory =
  iv_Hostname :: string
  iv_Architecture :: string
  iv_OS :: string
  iv_Kernel :: string
  iv_HardwareModel :: string
  iv_Serial :: string
  iv_AgentVersion :: string
  iv_Capabilities :: "string list"

definition firstUseful :: "string list \<Rightarrow> string" where
  "firstUseful values = (case List.find (\<lambda>v. v \<noteq> [] \<and> v \<noteq> ''unknown'') values of Some v \<Rightarrow> v | None \<Rightarrow> ''unknown'')"

definition inventoried_device :: "device_inventory \<Rightarrow> Device \<Rightarrow> Device" where
  "inventoried_device iv device =
     device\<lparr>dv_Architecture := first_nonempty [iv_Architecture iv, dv_Architecture device],
            dv_OS := first_nonempty [iv_OS iv, dv_OS device],
            dv_Kernel := first_nonempty [iv_Kernel iv, dv_Kernel device],
            HardwareModel := firstUseful [iv_HardwareModel iv, HardwareModel device],
            dv_Serial := firstUseful [iv_Serial iv, dv_Serial device],
            AgentVersion := first_nonempty [iv_AgentVersion iv, AgentVersion device],
            dv_Capabilities := (if iv_Capabilities iv \<noteq> [] then iv_Capabilities iv else dv_Capabilities device),
            DisplayName := (if DisplayName device = ''edge-device'' \<and> iv_Hostname iv \<noteq> [] then iv_Hostname iv else DisplayName device)\<rparr>"

definition deviceInventory ::
  "(string \<Rightarrow> device_inventory option) \<Rightarrow> envs \<Rightarrow> Envelope result \<Rightarrow> cstore \<Rightarrow> response \<times> cstore" where
  "deviceInventory decode_inventory envs body s =
     (case deviceEnvelope (envs 0) body s of
        Inl response \<Rightarrow> (response, s)
      | Inr (e, tc) \<Rightarrow>
          (case SaveInventory (envs 1) tc (en_DeviceID e) (en_Payload e) s of
             (Some err, s) \<Rightarrow> (ErrorJSON 400 ''inventory_rejected'' (Error err), s)
           | (None, s) \<Rightarrow>
               (JSON 200 (Status ''accepted'' (MessageID e)),
                case decode_inventory (en_Payload e) of
                  None \<Rightarrow> s
                | Some iv \<Rightarrow>
                    (case GetDevice tc (en_DeviceID e) s of
                       Inl err \<Rightarrow> s
                     | Inr device \<Rightarrow> snd (UpdateDevice (envs 2) (inventoried_device iv device) s)))))"

definition deviceOffline :: "envs \<Rightarrow> Envelope result \<Rightarrow> cstore \<Rightarrow> response \<times> cstore" where
  "deviceOffline envs body s =
     ((case deviceEnvelope (envs 0) body s of
         Inl response \<Rightarrow> response
       | Inr (e, tc) \<Rightarrow> JSON 200 (Status ''accepted'' (MessageID e))), s)"

section \<open>Device jobs\<close>

definition deviceNextJob :: "envs \<Rightarrow> http_request \<Rightarrow> cstore \<Rightarrow> response \<times> cstore" where
  "deviceNextJob envs r s =
     (case deviceContextFromHeaders r s of
        Inl err \<Rightarrow> (ErrorJSON 401 ''unauthorized'' ''device identity required'', s)
      | Inr tc \<Rightarrow>
          (case NextJobForDevice (envs 0) tc (Header r ''X-Device-ID'') s of
             (Inl err, s) \<Rightarrow> (if err = ErrNotFound then JSON 200 (BJob None) else ErrorJSON 400 ''job_error'' (Error err), s)
           | (Inr job, s) \<Rightarrow> (JSON 200 (BJob (Some job)), s)))"

record result_request =
  rr_JobID :: string
  rr_Result :: string

definition deviceJobResult :: "envs \<Rightarrow> http_request \<Rightarrow> result_request result \<Rightarrow> cstore \<Rightarrow> response \<times> cstore" where
  "deviceJobResult envs r body s =
     (case deviceContextFromHeaders r s of
        Inl err \<Rightarrow> (ErrorJSON 401 ''unauthorized'' ''device identity required'', s)
      | Inr tc \<Rightarrow>
          (case body of
             Inl err \<Rightarrow> (ErrorJSON 400 ''bad_request'' (Error err), s)
           | Inr req \<Rightarrow>
               (case CompleteJob (envs 0) tc (rr_JobID req) (rr_Result req) s of
                  (Some err, s) \<Rightarrow> (ErrorJSON 400 ''job_result_rejected'' (Error err), s)
                | (None, s) \<Rightarrow>
                    (JSON 200 (Status ''accepted'' []),
                     Record (envs 1) tc ''device_job.completed'' ''job'' (rr_JobID req) ''success'' [] s))))"

end
