(* ===== verification/CloudAuthority.thy ===== *)
theory CloudAuthority
  imports CloudRollout CloudGateway
begin

text \<open>
  The routes of \<^verbatim>\<open>ControlHandler\<close>, \<^verbatim>\<open>server/server.go\<close>, behind the authentication that use the
  store, with what each changes and which permission that takes.
\<close>

section \<open>Routes\<close>

text \<open>
  A route with the decoded body of the request. Log-in and log-out, which run without the authentication, the routes of
  the assistant, the health pages, the lists that are always empty and the download of the development CA are not among them: the
  theory \<open>ControlAPI\<close> puts them together with these.
\<close>

datatype endpoint =
    EpSession | EpOrganizations | EpEnrollmentTokens token_request
  | EpDevices "device_patch result" | EpDownstream | EpInventory | EpTelemetry
  | EpJobs "job_request result" | EpAudit | EpRoles | EpUsers "user_request result"
  | EpPlatformInfo | EpPlatformSettings "PlatformSettings result" | EpArtifacts
  | EpOTA "Campaign result" "promote_request result" | EpRemoteAccess "remote_request result"

fun route ::
  "services \<Rightarrow> server_cfg \<Rightarrow> envs \<Rightarrow> go_error option \<Rightarrow> string result \<Rightarrow> http_request \<Rightarrow> endpoint \<Rightarrow> Context \<Rightarrow> cstore
   \<Rightarrow> response \<times> cstore" where
  "route sv cfg envs randErr salt r EpSession = currentSession r"
| "route sv cfg envs randErr salt r EpOrganizations = organizations envs r"
| "route sv cfg envs randErr salt r (EpEnrollmentTokens req) = enrollmentTokens sv cfg envs randErr r req"
| "route sv cfg envs randErr salt r (EpDevices body) = devices cfg envs r body"
| "route sv cfg envs randErr salt r EpDownstream = downstream envs"
| "route sv cfg envs randErr salt r EpInventory = inventory"
| "route sv cfg envs randErr salt r EpTelemetry = telemetryQuery r"
| "route sv cfg envs randErr salt r (EpJobs body) = jobs sv cfg envs r body"
| "route sv cfg envs randErr salt r EpAudit = audit"
| "route sv cfg envs randErr salt r EpRoles = (\<lambda>tc. list_roles)"
| "route sv cfg envs randErr salt r (EpUsers body) = users sv envs salt r body"
| "route sv cfg envs randErr salt r EpPlatformInfo = platformInfo cfg r"
| "route sv cfg envs randErr salt r (EpPlatformSettings body) = platformSettings sv cfg envs r body"
| "route sv cfg envs randErr salt r EpArtifacts = artifacts envs"
| "route sv cfg envs randErr salt r (EpOTA body patch) = otaCampaigns sv envs r body patch"
| "route sv cfg envs randErr salt r (EpRemoteAccess body) = remoteAccess cfg envs r body"

definition control ::
  "services \<Rightarrow> server_cfg \<Rightarrow> envs \<Rightarrow> cenv \<Rightarrow> go_error option \<Rightarrow> string result \<Rightarrow> http_request \<Rightarrow> endpoint \<Rightarrow> cstore
   \<Rightarrow> response \<times> cstore" where
  "control sv cfg envs env randErr salt r e = withAuth env r (route sv cfg envs randErr salt r e)"

section \<open>Changes need a permission\<close>

text \<open>The permission that a change through a route takes; a route without one changes nothing.\<close>

fun needed :: "endpoint \<Rightarrow> string \<Rightarrow> Permission option" where
  "needed (EpEnrollmentTokens req) verb = Some DeviceEnroll"
| "needed (EpDevices body) verb = Some (if verb = ''DELETE'' then DeviceDelete else DeviceUpdate)"
| "needed (EpJobs body) verb = Some (if verb = ''DELETE'' then JobDelete else DeviceCommand)"
| "needed (EpUsers body) verb = Some UserManage"
| "needed (EpPlatformSettings body) verb = Some TenantSettings"
| "needed (EpOTA body patch) verb = Some (if verb = ''PATCH'' then DeploymentApprove else DeploymentCreate)"
| "needed (EpRemoteAccess body) verb = Some RemoteCreate"
| "needed _ verb = None"

lemma unauthorized_campaigns:
  "Authorize (Some tc) DeploymentCreate \<noteq> None \<Longrightarrow> createCampaign sv envs body tc s = (forbidden, s)"
  "Authorize (Some tc) DeploymentApprove \<noteq> None \<Longrightarrow> promoteOTACampaign sv envs patch tc s = (forbidden, s)"
  by (simp_all only: createCampaign_def promoteOTACampaign_def if_True simp_thms)

lemma unauthorized_route:
  assumes "\<And>p. needed e (Method r) = Some p \<Longrightarrow> Authorize (Some tc) p \<noteq> None"
  shows "snd (route sv cfg envs randErr salt r e tc s) = s"
proof (cases e)
  case (EpOTA body patch)
  with assms show ?thesis
    using unauthorized_campaigns [of tc sv envs] by (auto simp: otaCampaigns_def)
next
  case (EpEnrollmentTokens req)
  with assms show ?thesis by (simp add: enrollmentTokens_def)
next
  case (EpDevices body)
  with assms show ?thesis by (auto simp: devices_def Let_def split: if_splits)
next
  case (EpJobs body)
  with assms show ?thesis by (auto simp: jobs_def split: if_splits)
next
  case (EpUsers body)
  with assms show ?thesis by (simp add: users_def)
next
  case (EpPlatformSettings body)
  with assms show ?thesis by (simp add: platformSettings_def case_prod_unfold Let_def)
next
  case (EpRemoteAccess body)
  with assms show ?thesis by (simp add: remoteAccess_def)
qed (simp_all add: currentSession_def organizations_def downstream_def inventory_def telemetryQuery_def audit_def guarded_def
      list_roles_def artifacts_def platformInfo_def Let_def)

end
