(* ===== verification/CloudBoundary.thy ===== *)
theory CloudBoundary
  imports CloudAuthority
begin

text \<open>
  The handlers stay within a tenant: what the control API and the device gateway do to the store,
  seen from the other tenants. \<open>within t\<close> composes over the steps of a handler.
\<close>

section \<open>Steps within a tenant\<close>

definition within :: "string \<Rightarrow> cstore \<Rightarrow> cstore \<Rightarrow> bool" where
  "within t s s' \<longleftrightarrow> store_inv (mem s') \<and> (\<forall>t'. t' \<noteq> t \<longrightarrow> tenant_view t' (mem s') = tenant_view t' (mem s))"

lemma within_refl: "store_inv (mem s) \<Longrightarrow> within t s s"
  by (simp add: within_def)

lemma within_trans: "within t s s' \<Longrightarrow> within t s' s'' \<Longrightarrow> within t s s''"
  by (simp add: within_def)

lemma within_inv: "within t s s' \<Longrightarrow> store_inv (mem s')"
  by (simp add: within_def)

lemma within_perform:
  "store_inv (mem s) \<Longrightarrow> fresh_ids env op (mem s) \<Longrightarrow> within (tc_TenantID tc) s (snd (perform env tc op s))"
  using isolated_perform [of s env op tc] by (simp add: isolated_def within_def private_store_eq_iff)

text \<open>An operation without new identifiers.\<close>

lemma within_op:
  fixes tc :: Context
  assumes "store_inv (mem s)" "perform env tc op s = (r, s')" "\<And>d. fresh_ids env op d"
  shows "within (tc_TenantID tc) s s'"
  using within_perform [OF assms(1,3), of tc] assms(2) by simp

lemma within_updates:
  fixes tc :: Context
  assumes "store_inv (mem s)"
  shows "SavePlatformSettings env tc v s = (e, s') \<Longrightarrow> within (tc_TenantID tc) s s'"
    and "ResetPlatformSettings env tc s = (e, s') \<Longrightarrow> within (tc_TenantID tc) s s'"
    and "DeleteDevice env tc k s = (e, s') \<Longrightarrow> within (tc_TenantID tc) s s'"
    and "SaveInventory env tc k raw s = (e, s') \<Longrightarrow> within (tc_TenantID tc) s s'"
    and "AddTelemetry env tc ms s = (e, s') \<Longrightarrow> within (tc_TenantID tc) s s'"
    and "DeleteJob env tc k s = (e, s') \<Longrightarrow> within (tc_TenantID tc) s s'"
    and "CompleteJob env tc k raw s = (e, s') \<Longrightarrow> within (tc_TenantID tc) s s'"
    and "UpdateOTACampaign env tc c s = (e, s') \<Longrightarrow> within (tc_TenantID tc) s s'"
    and "NextJobForDevice env tc k s = (rj, s') \<Longrightarrow> within (tc_TenantID tc) s s'"
  using assms
    within_op [of s env tc "OpSavePlatformSettings v" "done_or e" s'] within_op [of s env tc OpResetPlatformSettings "done_or e" s']
    within_op [of s env tc "OpDeleteDevice k" "done_or e" s'] within_op [of s env tc "OpSaveInventory k raw" "done_or e" s']
    within_op [of s env tc "OpAddTelemetry ms" "done_or e" s'] within_op [of s env tc "OpDeleteJob k" "done_or e" s']
    within_op [of s env tc "OpCompleteJob k raw" "done_or e" s'] within_op [of s env tc "OpUpdateCampaign c" "done_or e" s']
    within_op [of s env tc "OpNextJob k" "value_or RJob rj" s']
  by simp_all

lemma within_UpdateDevice:
  fixes tc :: Context
  assumes "store_inv (mem s)" "UpdateDevice env dv s = (e, s')" "dv_TenantID dv = tc_TenantID tc"
  shows "within (tc_TenantID tc) s s'"
proof -
  have "dv\<lparr>dv_TenantID := tc_TenantID tc\<rparr> = dv" using assms(3) by simp
  then show ?thesis using within_op [OF assms(1), of env tc "OpUpdateDevice dv" "done_or e" s'] assms(2) by simp
qed

lemma within_Record:
  fixes tc :: Context
  assumes "store_inv (mem s)"
  shows "within (tc_TenantID tc) s (Record env tc action rt rid outcome summary s)"
proof -
  let ?ev = "\<lparr>ev_ID = [], ev_TenantID = tc_TenantID tc, ActorID = tc_ActorID tc, Action = action, ResourceType = rt,
     ResourceID = rid, ev_Result = outcome, SourceIP = [], UserAgent = [], ev_CorrelationID = [], Summary = summary,
     ev_CreatedAt = zero_time\<rparr>"
  have "fresh_ids env (OpAudit ?ev) d" for d by simp
  from within_perform [OF assms this, of tc] show ?thesis by (simp add: Record_def)
qed

lemma within_then_Record: "within (tc_TenantID tc) s s' \<Longrightarrow> within (tc_TenantID tc) s (Record env tc a rt rid out sm s')"
  by (rule within_trans [OF _ within_Record]) (auto dest: within_inv)

text \<open>Operations with a new identifier.\<close>

definition unused_ids :: "envs \<Rightarrow> cdata \<Rightarrow> bool" where
  "unused_ids envs d \<longleftrightarrow> inj (\<lambda>n. NewID (envs n) 0 ''job'') \<and>
     (\<forall>n. mget (db_EnrollmentTokens d) (NewID (envs n) 0 ''enr'') = None \<and> mget (db_Devices d) (NewID (envs n) 0 ''dev'') = None
        \<and> mget (db_Jobs d) (NewID (envs n) 0 ''job'') = None \<and> mget (db_OTACampaigns d) (NewID (envs n) 0 ''ota'') = None
        \<and> mget (db_Users d) (NewID (envs n) 0 ''usr'') = None
        \<and> NewID (envs n) 0 ''usr'' \<notin> mb_UserID ` set (db_Memberships d))"

lemma within_creates:
  fixes tc :: Context
  assumes "store_inv (mem s)"
  shows "mget (db_Jobs (mem s)) (NewID env 0 ''job'') = None \<Longrightarrow> CreateJob env tc j s = (rj, s') \<Longrightarrow> within (tc_TenantID tc) s s'"
    and "mget (db_EnrollmentTokens (mem s)) (NewID env 0 ''enr'') = None \<Longrightarrow> CreateEnrollmentToken env tc k s = (rk, s') \<Longrightarrow>
      within (tc_TenantID tc) s s'"
    and "mget (db_OTACampaigns (mem s)) (NewID env 0 ''ota'') = None \<Longrightarrow> CreateOTACampaign env tc c s = (rc, s') \<Longrightarrow>
      within (tc_TenantID tc) s s'"
  using within_perform [OF assms, of env "OpCreateJob j" tc] within_perform [OF assms, of env "OpCreateEnrollmentToken k" tc]
    within_perform [OF assms, of env "OpCreateCampaign c" tc] by simp_all

lemma within_CreateDevice:
  fixes tc :: Context
  assumes "store_inv (mem s)" "mget (db_Devices (mem s)) (NewID env 0 ''dev'') = None" "CreateDevice env dv s = (r, s')"
    "dv_TenantID dv = tc_TenantID tc"
  shows "within (tc_TenantID tc) s s'"
proof -
  have "dv\<lparr>dv_TenantID := tc_TenantID tc\<rparr> = dv" using assms(4) by simp
  then show ?thesis using within_perform [OF assms(1), of env "OpCreateDevice dv" tc] assms(2,3) by simp
qed

text \<open>A new user and the membership that comes with it, also when saving fails and both are withdrawn.\<close>

lemma mdel_mput_new: "mget m k = None \<Longrightarrow> mdel k (mput k v m) = m"
  by (simp add: mdel_def mput_def mget_def AList.delete_update_same) (simp add: delete_idem map_of_eq_None_iff)

lemma within_CreateTenantUser:
  assumes inv: "store_inv (mem s)" and new: "mget (db_Users (mem s)) (NewID env 0 ''usr'') = None"
    "NewID env 0 ''usr'' \<notin> mb_UserID ` set (db_Memberships (mem s))"
    and create: "CreateTenantUser env tc email hash role s = (r, s')"
  shows "within (tc_TenantID tc) s s'"
proof (cases "email_taken email s")
  case True
  then show ?thesis using create inv by (simp add: CreateTenantUser_def within_refl)
next
  case False
  let ?u = "new_user env 0 email hash role"
  let ?m = "\<lparr>mb_TenantID = tc_TenantID tc, mb_UserID = us_ID ?u, mb_Role = role\<rparr>"
  let ?d = "(mem s)\<lparr>db_Users := mput (us_ID ?u) ?u (db_Users (mem s)), db_Memberships := db_Memberships (mem s) @ [?m]\<rparr>"
  have k: "us_ID ?u = NewID env 0 ''usr''" by (simp add: new_user_def)
  have member: "member t' ?d k' \<longleftrightarrow> member t' (mem s) k'" if "t' \<noteq> tc_TenantID tc" for t' k'
    using that by (auto simp: member_def)
  have "mem s' = mem s \<or> mem s' = ?d"
  proof (cases "fst (saveLocked env (modify (\<lambda>_. ?d) s))")
    case None
    then show ?thesis using create False
      by (auto simp: CreateTenantUser_def Let_def put_user_def modify_def split: prod.splits option.splits dest: saveLocked_frame)
  next
    case (Some err)
    then show ?thesis using create False new(1) [folded k]
      by (auto simp: CreateTenantUser_def Let_def put_user_def modify_def mdel_mput_new split: prod.splits option.splits dest: saveLocked_frame)
  qed
  moreover have "store_inv ?d"
    using inv by (auto simp: store_inv_def wf_maps_def references_ok_def owned_device_cong [of ?d "mem s"])
  moreover have "tenant_view t' ?d = tenant_view t' (mem s)" if t': "t' \<noteq> tc_TenantID tc" for t'
  proof -
    have "\<not> member t' (mem s) (us_ID ?u)" using new(2) unfolding member_def k by (metis imageI)
    then have "mfilter (\<lambda>k v. member t' (mem s) k) (mput (us_ID ?u) ?u (db_Users (mem s))) = mfilter (\<lambda>k v. member t' (mem s) k) (db_Users (mem s))"
      by (intro mfilter_mput_out) simp_all
    with t' show ?thesis by (simp add: tenant_view_eq_iff member [OF t'] owned_device_cong [of ?d "mem s"])
  qed
  ultimately show ?thesis using inv by (auto simp: within_def)
qed

section \<open>The control API\<close>

lemma GetDevice_tenant: "GetDevice tc k s = Inr dv \<Longrightarrow> dv_TenantID dv = tc_TenantID tc"
  by (auto simp: GetDevice_def split: option.splits if_splits)

lemma patched_device_tenant [simp]: "dv_TenantID (patched_device now req dv) = dv_TenantID dv"
  by (simp add: patched_device_def Let_def split: option.splits)

lemma within_patch:
  fixes tc :: Context
  assumes "store_inv (mem s)" "GetDevice tc k s = Inr dv" "UpdateDevice env (patched_device now req dv) s = (e, s')"
  shows "within (tc_TenantID tc) s s'"
  by (rule within_UpdateDevice [OF assms(1,3)]) (simp add: GetDevice_tenant [OF assms(2)])

lemma within_control_writes:
  fixes tc :: Context
  assumes inv: "store_inv (mem s)" and ids: "unused_ids envs (mem s)"
  shows "within (tc_TenantID tc) s (snd (devices cfg envs r patch tc s))"
    and "within (tc_TenantID tc) s (snd (jobs sv cfg envs r jr tc s))"
    and "within (tc_TenantID tc) s (snd (users sv envs salt r ur tc s))"
    and "within (tc_TenantID tc) s (snd (enrollmentTokens sv cfg envs randErr r req tc s))"
    and "within (tc_TenantID tc) s (snd (platformSettings sv cfg envs r ps tc s))"
    and "within (tc_TenantID tc) s (snd (remoteAccess cfg envs r ra tc s))"
proof -
  have new: "mget (db_Jobs (mem s)) (NewID (envs 0) 0 ''job'') = None"
    "mget (db_EnrollmentTokens (mem s)) (NewID (envs 0) 0 ''enr'') = None"
    "mget (db_Users (mem s)) (NewID (envs 0) 0 ''usr'') = None"
    "NewID (envs 0) 0 ''usr'' \<notin> mb_UserID ` set (db_Memberships (mem s))"
    using ids unfolding unused_ids_def by blast+
  show "within (tc_TenantID tc) s (snd (devices cfg envs r patch tc s))"
    by (auto simp: devices_def Let_def inv split: if_splits sum.splits prod.splits option.splits
        intro!: within_refl within_then_Record dest: within_updates(3) [OF inv] within_patch [OF inv])
  show "within (tc_TenantID tc) s (snd (jobs sv cfg envs r jr tc s))"
    by (auto simp: jobs_def Let_def inv split: if_splits sum.splits prod.splits option.splits
        intro!: within_refl within_then_Record dest: within_updates(6) [OF inv] within_creates(1) [OF inv new(1)])
  show "within (tc_TenantID tc) s (snd (users sv envs salt r ur tc s))"
    by (auto simp: users_def Let_def inv split: if_splits sum.splits prod.splits option.splits
        intro!: within_refl within_then_Record dest: within_CreateTenantUser [OF inv new(3,4)])
  show "within (tc_TenantID tc) s (snd (enrollmentTokens sv cfg envs randErr r req tc s))"
    by (auto simp: enrollmentTokens_def NewToken_def Let_def inv split: if_splits sum.splits prod.splits option.splits
        intro!: within_refl within_then_Record dest: within_creates(2) [OF inv new(2)])
  show "within (tc_TenantID tc) s (snd (platformSettings sv cfg envs r ps tc s))"
    by (auto simp: platformSettings_def Let_def inv split: if_splits sum.splits prod.splits option.splits
        intro!: within_refl within_then_Record dest: within_updates(1,2) [OF inv])
  show "within (tc_TenantID tc) s (snd (remoteAccess cfg envs r ra tc s))"
    by (auto simp: remoteAccess_def Let_def inv split: if_splits sum.splits prod.splits option.splits
        intro!: within_refl within_then_Record)
qed

text \<open>The jobs of a rollout.\<close>

lemma within_queueOTAJobs:
  fixes tc :: Context
  assumes "store_inv (mem s)" "inj (\<lambda>n. NewID (envs n) 0 ''job'')"
    "\<And>n. mget (db_Jobs (mem s)) (NewID (envs n) 0 ''job'') = None"
  shows "within (tc_TenantID tc) s (snd (queueOTAJobs envs encode tc c devs s))"
  using assms
proof (induction devs arbitrary: s envs)
  case Nil
  then show ?case by (simp add: within_refl)
next
  case (Cons dev devs)
  show ?case
  proof (cases "ota_job (envs 0) encode tc c dev")
    case (Inl err)
    then show ?thesis using Cons.prems by (simp add: within_refl)
  next
    case (Inr job)
    obtain r s1 where create: "CreateJob (envs 0) tc job s = (r, s1)" by fastforce
    have step: "within (tc_TenantID tc) s s1" by (rule within_creates(1) [OF Cons.prems(1,3) create])
    show ?thesis
    proof (cases r)
      case (Inl err)
      then show ?thesis using step Inr create by simp
    next
      case r: (Inr j)
      have other: "NewID (envs (n + 1)) 0 ''job'' \<noteq> NewID (envs 0) 0 ''job''" for n
        using injD [OF Cons.prems(2), of "n + 1" 0] by auto
      have "mem s1 = mem s \<or> (\<exists>v. db_Jobs (mem s1) = mput (NewID (envs 0) 0 ''job'') v (db_Jobs (mem s)))"
        using create by (auto simp: CreateJob_def put_job_def Let_def prod_eq_iff split: if_splits option.splits)
      then have "mget (db_Jobs (mem s1)) (NewID (envs (n + 1)) 0 ''job'') = None" for n
        using Cons.prems(3) [of "n + 1"] other [of n] by auto
      moreover have "inj (\<lambda>n. NewID (envs (n + 1)) 0 ''job'')"
        using injD [OF Cons.prems(2)] by (intro injI) fastforce
      ultimately have "within (tc_TenantID tc) s1 (snd (queueOTAJobs (\<lambda>n. envs (n + 1)) encode tc c devs s1))"
        using within_inv [OF step] by (intro Cons.IH) simp_all
      then show ?thesis using within_trans [OF step] Inr create r by simp
    qed
  qed
qed

lemma within_queue_later:
  fixes tc :: Context
  assumes "within (tc_TenantID tc) s0 s" "unused_ids envs d" "db_Jobs (mem s) = db_Jobs d"
    "queueOTAJobs (\<lambda>n. envs (n + 4)) encode tc c devs s = (e, s')"
  shows "within (tc_TenantID tc) s0 s'"
proof (rule within_trans [OF assms(1)])
  have "inj (\<lambda>n. NewID (envs (n + 4)) 0 ''job'')"
    using assms(2) by (intro injI) (auto simp: unused_ids_def dest: injD)
  then have "within (tc_TenantID tc) s (snd (queueOTAJobs (\<lambda>n. envs (n + 4)) encode tc c devs s))"
    using assms(2,3) within_inv [OF assms(1)] by (intro within_queueOTAJobs) (simp_all add: unused_ids_def)
  then show "within (tc_TenantID tc) s s'" using assms(4) by simp
qed

lemma CreateOTACampaign_jobs: "CreateOTACampaign env tc c s = (r, s') \<Longrightarrow> db_Jobs (mem s') = db_Jobs (mem s)"
  by (auto simp: CreateOTACampaign_def put_campaign_def Let_def prod_eq_iff split: if_splits)

lemma within_step: "within (tc_TenantID tc) s s1 \<Longrightarrow> UpdateOTACampaign env tc c s1 = (e, s2) \<Longrightarrow> within (tc_TenantID tc) s s2"
  for tc :: Context
  by (rule within_trans [OF _ within_updates(8)]) (auto dest: within_inv)

text \<open>After the jobs are queued, the campaign is updated and the action is recorded.\<close>

lemma within_finish:
  fixes tc :: Context
  assumes "within (tc_TenantID tc) s0 s" "unused_ids envs d" "db_Jobs (mem s) = db_Jobs d"
  shows "within (tc_TenantID tc) s0 (snd (queueOTAJobs (\<lambda>n. envs (n + 4)) encode tc c devs s))"
    and "within (tc_TenantID tc) s0 (snd (UpdateOTACampaign env tc c'
           (snd (queueOTAJobs (\<lambda>n. envs (n + 4)) encode tc c devs s))))"
proof -
  show q: "within (tc_TenantID tc) s0 (snd (queueOTAJobs (\<lambda>n. envs (n + 4)) encode tc c devs s))"
    by (rule within_queue_later [OF assms, where e = "fst (queueOTAJobs (\<lambda>n. envs (n + 4)) encode tc c devs s)"]) simp
  show "within (tc_TenantID tc) s0 (snd (UpdateOTACampaign env tc c' (snd (queueOTAJobs (\<lambda>n. envs (n + 4)) encode tc c devs s))))"
    by (rule within_step [OF q, where e = "fst (UpdateOTACampaign env tc c' (snd (queueOTAJobs (\<lambda>n. envs (n + 4)) encode tc c devs s)))"]) simp
qed

lemma within_createCampaign:
  fixes tc :: Context
  assumes inv: "store_inv (mem s)" and ids: "unused_ids envs (mem s)"
  shows "within (tc_TenantID tc) s (snd (createCampaign sv envs body tc s))"
proof (cases "snd (createCampaign sv envs body tc s) = s")
  case False
  then obtain c where c: "Authorize (Some tc) DeploymentCreate = None" "body = Inr c"
    "ValidateMetadata (sv_url sv) c = None" "check_targets tc c (TargetIDs c) s = None"
    by (auto simp: createCampaign_def split: if_splits sum.splits option.splits)
  obtain rc s1 where create: "CreateOTACampaign (envs 0) tc (c\<lparr>cm_CreatedBy := tc_ActorID tc, cm_State := ''ready''\<rparr>) s = (rc, s1)"
    by fastforce
  have "mget (db_OTACampaigns (mem s)) (NewID (envs 0) 0 ''ota'') = None" using ids unfolding unused_ids_def by blast
  from within_creates(3) [OF inv this create] have w1: "within (tc_TenantID tc) s s1" .
  show ?thesis
  proof (cases rc)
    case (Inl err)
    then show ?thesis using w1 c create by (simp add: createCampaign_def)
  next
    case (Inr created)
    let ?devs = "take (nat (canaryCount created)) (TargetIDs created)"
    obtain e s2 where queue: "queueOTAJobs (\<lambda>n. envs (n + 4)) (sv_encode sv) tc created ?devs s1 = (e, s2)" by fastforce
    note w2 = within_finish [OF w1 ids CreateOTACampaign_jobs [OF create], where encode = "sv_encode sv" and c = created and devs = ?devs, unfolded queue snd_conv]
    show ?thesis
      using w2(1) w2(2) [where env = "envs 1"] w2(2) [where env = "envs 2"] c create Inr queue
      by (auto simp: createCampaign_def Let_def split: option.splits prod.splits if_splits intro!: within_then_Record)
         (metis snd_conv)+
  qed
qed (simp add: inv within_refl)

lemma within_promote:
  fixes tc :: Context
  assumes inv: "store_inv (mem s)" and ids: "unused_ids envs (mem s)"
  shows "within (tc_TenantID tc) s (snd (promoteOTACampaign sv envs patch tc s))"
proof (cases "snd (promoteOTACampaign sv envs patch tc s) = s")
  case False
  then obtain req c where c: "Authorize (Some tc) DeploymentApprove = None" "patch = Inr req"
    "GetOTACampaign tc (pr_CampaignID req) s = Inr c" "pr_Action req = ''promote''" "cm_State c = ''canary_complete''"
    "remaining_targets (envs 0) tc c s \<noteq> []"
    by (auto simp: promoteOTACampaign_def Let_def split: if_splits sum.splits)
  let ?devs = "remaining_targets (envs 0) tc c s"
  obtain e s2 where queue: "queueOTAJobs (\<lambda>n. envs (n + 4)) (sv_encode sv) tc c ?devs s = (e, s2)" by fastforce
  note w2 = within_finish [OF within_refl [OF inv] ids refl, where encode = "sv_encode sv" and c = c and devs = ?devs, unfolded queue snd_conv]
  show ?thesis
    using w2(1) w2(2) [where env = "envs 2"] c queue
    by (auto simp: promoteOTACampaign_def Let_def split: option.splits prod.splits if_splits intro!: within_then_Record)
       (metis snd_conv)+
qed (simp add: inv within_refl)

lemma within_route:
  fixes tc :: Context
  assumes "store_inv (mem s)" "unused_ids envs (mem s)"
  shows "within (tc_TenantID tc) s (snd (route sv cfg envs randErr salt r e tc s))"
proof (cases e)
  case (EpOTA body patch)
  then show ?thesis using within_createCampaign [OF assms] within_promote [OF assms] assms
    by (simp add: otaCampaigns_def within_refl)
qed (use within_control_writes [OF assms] assms in \<open>simp_all add: currentSession_def organizations_def downstream_def
      inventory_def telemetryQuery_def audit_def guarded_def list_roles_def artifacts_def platformInfo_def Let_def within_refl\<close>)

text \<open>C14: Every request to the control API stays within the tenant it is authenticated for: whatever the
  route, the method and the body, what the other tenants hold in the store is as before, and the store
  keeps its invariant. (New identifiers are unused.)\<close>

theorem requests_stay_in_tenant:
  assumes "store_inv (mem s)" "unused_ids envs (mem s)"
    and "\<And>tc. authenticate env r s = Inr tc \<Longrightarrow> tc_TenantID tc \<noteq> t"
  shows "tenant_view t (mem (snd (control sv cfg envs env randErr salt r e s))) = tenant_view t (mem s)
    \<and> store_inv (mem (snd (control sv cfg envs env randErr salt r e s)))"
proof (cases "authenticate env r s")
  case (Inl response)
  then show ?thesis using assms(1) by (simp add: control_def withAuth_def)
next
  case (Inr tc)
  with within_route [OF assms(1,2), of tc] assms(3) [OF Inr] show ?thesis
    by (auto simp: control_def withAuth_def within_def)
qed

section \<open>The device gateway\<close>

text \<open>The routes of \<^verbatim>\<open>DeviceHandler\<close>; \<open>decoders\<close> read the payloads.\<close>

datatype device_endpoint =
    DvEnroll "EnrollmentRequest result" | DvStatus | DvHeartbeat "Envelope result" | DvTelemetry "Envelope result"
  | DvInventory "Envelope result" | DvOffline "Envelope result" | DvNextJob | DvJobResult "result_request result"

record decoders =
  de_heartbeat :: "string \<Rightarrow> Heartbeat"
  de_batch :: "string \<Rightarrow> wire_metric list option"
  de_inventory :: "string \<Rightarrow> device_inventory option"

fun device_route ::
  "server_cfg \<Rightarrow> authority \<Rightarrow> decoders \<Rightarrow> envs \<Rightarrow> http_request \<Rightarrow> device_endpoint \<Rightarrow> cstore \<Rightarrow> response \<times> cstore" where
  "device_route cfg ca de envs r (DvEnroll body) = deviceEnroll cfg ca envs r body"
| "device_route cfg ca de envs r DvStatus = deviceStatus r"
| "device_route cfg ca de envs r (DvHeartbeat body) = deviceHeartbeat (de_heartbeat de) envs body"
| "device_route cfg ca de envs r (DvTelemetry body) = deviceTelemetry (de_batch de) envs body"
| "device_route cfg ca de envs r (DvInventory body) = deviceInventory (de_inventory de) envs body"
| "device_route cfg ca de envs r (DvOffline body) = deviceOffline envs body"
| "device_route cfg ca de envs r DvNextJob = deviceNextJob envs r"
| "device_route cfg ca de envs r (DvJobResult body) = deviceJobResult envs r body"

text \<open>
  The tenant a message speaks for: of the enrollment token it carries, of the envelope, or of the
  headers.
\<close>

definition token_tenant :: "cenv \<Rightarrow> EnrollmentRequest \<Rightarrow> cstore \<Rightarrow> string option" where
  "token_tenant env req s =
     map_option (\<lambda>(k, token). et_TenantID token)
       (List.find (\<lambda>(k, token). et_TokenHash token = HashToken env (if er_Token req = [] then er_EnrollmentToken req else er_Token req))
         (range_map (c_order env) (db_EnrollmentTokens (mem s))))"

fun speaks_for :: "cenv \<Rightarrow> http_request \<Rightarrow> device_endpoint \<Rightarrow> cstore \<Rightarrow> string option" where
  "speaks_for env r (DvEnroll body) s = (case body of Inl err \<Rightarrow> None | Inr req \<Rightarrow> token_tenant env req s)"
| "speaks_for env r (DvHeartbeat body) s = (case body of Inl err \<Rightarrow> None | Inr e \<Rightarrow> Some (en_TenantID e))"
| "speaks_for env r (DvTelemetry body) s = (case body of Inl err \<Rightarrow> None | Inr e \<Rightarrow> Some (en_TenantID e))"
| "speaks_for env r (DvInventory body) s = (case body of Inl err \<Rightarrow> None | Inr e \<Rightarrow> Some (en_TenantID e))"
| "speaks_for env r (DvOffline body) s = (case body of Inl err \<Rightarrow> None | Inr e \<Rightarrow> Some (en_TenantID e))"
| "speaks_for env r _ s = Some (Header r ''X-Tenant-ID'')"

lemma device_context_tenant [simp]: "tc_TenantID (device_context t) = t"
  by (simp add: device_context_def)

lemma seen_device_tenant [simp]: "dv_TenantID (seen_device now hb dv) = dv_TenantID dv"
  by (simp add: seen_device_def Let_def split: option.splits)

lemma inventoried_device_tenant [simp]: "dv_TenantID (inventoried_device iv dv) = dv_TenantID dv"
  by (simp add: inventoried_device_def)

text \<open>An update of a device that has just been read.\<close>

lemma within_device_update:
  assumes "within t s0 s" "GetDevice (device_context t) k s = Inr dv" "dv_TenantID dv' = dv_TenantID dv"
  shows "within t s0 (snd (UpdateDevice env dv' s))"
proof (rule within_trans [OF assms(1)])
  have "dv_TenantID dv' = tc_TenantID (device_context t)" using GetDevice_tenant [OF assms(2)] assms(3) by simp
  from within_UpdateDevice [OF within_inv [OF assms(1)] _ this, of env "fst (UpdateDevice env dv' s)" "snd (UpdateDevice env dv' s)"]
  show "within t s (snd (UpdateDevice env dv' s))" by simp
qed

lemma deviceEnvelope_Inr:
  "deviceEnvelope env body s = Inr (e, tc) \<Longrightarrow>
     body = Inr e \<and> tc = device_context (en_TenantID e) \<and> (\<exists>dv. GetDevice tc (en_DeviceID e) s = Inr dv)
     \<and> Envelope_Validate (c_sha256 env) (c_now env) envelope_skew e = None"
  by (auto simp: deviceEnvelope_def split: sum.splits option.splits)

lemma within_ConsumeEnrollmentToken:
  assumes inv: "store_inv (mem s)" and consume: "ConsumeEnrollmentToken env hash serial product s = (r, s')"
    and found: "List.find (\<lambda>(k, token). et_TokenHash token = hash) (range_map (c_order env) (db_EnrollmentTokens (mem s))) = Some (k, token)"
  shows "within (et_TenantID token) s s' \<and> (\<forall>t. r = Inr t \<longrightarrow> et_TenantID t = et_TenantID token)"
    and "db_Devices (mem s') = db_Devices (mem s)"
proof -
  have "(k, token) \<in> set (range_map (c_order env) (db_EnrollmentTokens (mem s)))"
    using found by (metis find_Some_iff nth_mem)
  then have k: "mget (db_EnrollmentTokens (mem s)) k = Some token"
    using store_inv_wf(4) [OF inv] by (simp add: mget_iff_set)
  let ?t = "token\<lparr>UsedCount := i64 (UsedCount token + 1)\<rparr>"
  have "local_update (et_TenantID token) (\<lambda>d. d\<lparr>db_EnrollmentTokens := mput k ?t (db_EnrollmentTokens d)\<rparr>) (mem s)"
    by (rule local_update_token [OF inv]) (simp_all add: k)
  then have w: "within (et_TenantID token) s (modify (\<lambda>d. d\<lparr>db_EnrollmentTokens := mput k ?t (db_EnrollmentTokens d)\<rparr>) s)"
    by (simp add: local_update_def within_def)
  show "within (et_TenantID token) s s' \<and> (\<forall>t. r = Inr t \<longrightarrow> et_TenantID t = et_TenantID token)"
    "db_Devices (mem s') = db_Devices (mem s)"
    using consume w inv
    by (auto simp: ConsumeEnrollmentToken_def found Let_def within_def save_and_return_def split: if_splits option.splits prod.splits
        dest!: saveLocked_frame)
qed

lemma within_Enroll:
  assumes inv: "store_inv (mem s)" and ids: "unused_ids envs (mem s)"
    and enroll: "Enroll ca ttl endpoint envs req s = (r, s')"
  shows "if token_tenant (envs 0) req s = None then s' = s \<and> (\<exists>err. r = Inl err)
    else within (the (token_tenant (envs 0) req s)) s s' \<and> (\<forall>res. r = Inr res \<longrightarrow> es_TenantID res = the (token_tenant (envs 0) req s))"
proof -
  let ?token = "if er_Token req = [] then er_EnrollmentToken req else er_Token req"
  let ?find = "List.find (\<lambda>(k, token). et_TokenHash token = HashToken (envs 0) ?token)
                (range_map (c_order (envs 0)) (db_EnrollmentTokens (mem s)))"
  obtain r1 s1 where consume: "ConsumeEnrollmentToken (envs 0) (HashToken (envs 0) ?token) (df_Serial (Fingerprint req))
      (df_Product (Fingerprint req)) s = (r1, s1)" by fastforce
  show ?thesis
  proof (cases ?find)
    case None
    then show ?thesis using enroll by (auto simp: Enroll_def Let_def token_tenant_def ConsumeEnrollmentToken_def split: if_splits)
  next
    case (Some p)
    then obtain k token where found: "?find = Some (k, token)" by (cases p) auto
    then have t: "token_tenant (envs 0) req s = Some (et_TenantID token)" by (simp add: token_tenant_def)
    note c = within_ConsumeEnrollmentToken [OF inv consume found]
    have "within (et_TenantID token) s s' \<and> (\<forall>res. r = Inr res \<longrightarrow> es_TenantID res = et_TenantID token)"
    proof (cases "?token = []")
      case True
      then show ?thesis using enroll inv by (auto simp: Enroll_def Let_def within_refl split: if_splits)
    next
      case nonempty: False
      show ?thesis
      proof (cases r1)
        case (Inl err)
        then show ?thesis using enroll nonempty c consume by (auto simp: Enroll_def Let_def split: if_splits)
      next
        case (Inr enr)
        have enr: "et_TenantID enr = et_TenantID token" using c Inr by simp
        obtain r2 s2 where create: "CreateDevice (envs 1) (enrolled_device (envs 1) enr req) s1 = (r2, s2)" by fastforce
        have "mget (db_Devices (mem s1)) (NewID (envs 1) 0 ''dev'') = None" using ids c(2) unfolding unused_ids_def by simp
        from within_CreateDevice [OF within_inv this create, of "et_TenantID token" s "device_context (et_TenantID token)"]
        have w2: "within (et_TenantID token) s s2"
          using within_trans [of "et_TenantID token" s s1 s2] c(1) by (simp add: enrolled_device_def Let_def enr)
        have dv: "r2 = Inr dv \<Longrightarrow> dv_TenantID dv = et_TenantID token" for dv
          using create by (auto simp: CreateDevice_def Let_def save_and_return_def enrolled_device_def enr split: prod.splits option.splits)
        have up: "within (et_TenantID token) s (snd (UpdateDevice (envs 2) dv' s2))" if "dv_TenantID dv' = et_TenantID token" for dv'
          using within_UpdateDevice [OF within_inv [OF w2], of "envs 2" dv' "fst (UpdateDevice (envs 2) dv' s2)" "snd (UpdateDevice (envs 2) dv' s2)"
              "device_context (et_TenantID token)"] that within_trans [OF w2] by simp
        have saved: "within (et_TenantID token) s (snd (SaveInventory (envs 3) (device_context (et_TenantID token)) k' raw s3))"
          if "within (et_TenantID token) s s3" for k' raw s3
          using within_updates(4) [OF within_inv [OF that], of "envs 3" "device_context (et_TenantID token)" k' raw
              "fst (SaveInventory (envs 3) (device_context (et_TenantID token)) k' raw s3)"
              "snd (SaveInventory (envs 3) (device_context (et_TenantID token)) k' raw s3)"] within_trans [OF that] by simp
        have "UpdateDevice (envs 2) dv' s2 = (e, s3) \<Longrightarrow> dv_TenantID dv' = et_TenantID token \<Longrightarrow> within (et_TenantID token) s s3" for dv' e s3
          using up [of dv'] by simp
        note this = this [of "dv\<lparr>CertificateSerial := serial, CertificateSubject := dv_ID dv, CertificateExpiresAt := expires\<rparr>"
            for dv serial expires, simplified]
        then show ?thesis
          using enroll nonempty consume Inr create w2 dv saved
          by (auto simp: Enroll_def Let_def enr split: if_splits sum.splits prod.splits option.splits)
      qed
    qed
    then show ?thesis by (simp add: t)
  qed
qed

lemma within_deviceEnroll:
  assumes "store_inv (mem s)" "unused_ids envs (mem s)"
  shows "case token_tenant (envs 0) req s of None \<Rightarrow> snd (deviceEnroll cfg ca envs r (Inr req) s) = s
    | Some t \<Rightarrow> within t s (snd (deviceEnroll cfg ca envs r (Inr req) s))"
proof -
  obtain res s1 where enroll: "Enroll ca (CertificateTTL cfg) (''https://'' @ http_Host r) envs req s = (res, s1)" by fastforce
  have rec: "within t s s1 \<Longrightarrow> within t s (Record env (device_context t) a rt rid out sm s1)" for t env a rt rid out sm
    using within_then_Record [of "device_context t" s s1] by simp
  show ?thesis
    using within_Enroll [OF assms enroll] enroll assms(1) rec
    by (auto simp: deviceEnroll_def within_refl split: option.splits sum.splits if_splits)
qed

lemma within_envelope_messages:
  assumes inv: "store_inv (mem s)"
  shows "within (en_TenantID e) s (snd (deviceHeartbeat dh envs (Inr e) s))"
    and "within (en_TenantID e) s (snd (deviceTelemetry db envs (Inr e) s))"
    and "within (en_TenantID e) s (snd (deviceInventory di envs (Inr e) s))"
proof -
  note refl = within_refl [OF inv]
  show "within (en_TenantID e) s (snd (deviceHeartbeat dh envs (Inr e) s))"
    by (auto simp: deviceHeartbeat_def refl split: sum.splits dest!: deviceEnvelope_Inr
        intro: within_device_update [OF refl])
  show "within (en_TenantID e) s (snd (deviceTelemetry db envs (Inr e) s))"
    using within_updates(5) [OF inv, where tc = "device_context (en_TenantID e)", simplified]
    by (auto simp: deviceTelemetry_def refl split: sum.splits prod.splits option.splits dest!: deviceEnvelope_Inr)
  show "within (en_TenantID e) s (snd (deviceInventory di envs (Inr e) s))"
    using within_updates(4) [OF inv, where tc = "device_context (en_TenantID e)", simplified]
    by (auto simp: deviceInventory_def refl split: sum.splits prod.splits option.splits dest!: deviceEnvelope_Inr
        intro: within_device_update)
qed

lemma deviceContextFromHeaders_Inr:
  "deviceContextFromHeaders r s = Inr tc \<Longrightarrow> tc = device_context (Header r ''X-Tenant-ID'')
     \<and> (\<exists>dv. GetDevice tc (Header r ''X-Device-ID'') s = Inr dv)"
  by (auto simp: deviceContextFromHeaders_def split: if_splits sum.splits)

lemma within_header_messages:
  assumes inv: "store_inv (mem s)"
  shows "within (Header r ''X-Tenant-ID'') s (snd (deviceNextJob envs r s))"
    and "within (Header r ''X-Tenant-ID'') s (snd (deviceJobResult envs r body s))"
proof -
  let ?t = "Header r ''X-Tenant-ID''"
  note refl = within_refl [OF inv]
  have rec: "within ?t s s1 \<Longrightarrow> within ?t s (Record env (device_context ?t) a rt rid out sm s1)" for env a rt rid out sm s1
    using within_then_Record [of "device_context ?t" s s1] by simp
  show "within ?t s (snd (deviceNextJob envs r s))"
    using within_updates(9) [OF inv, where tc = "device_context ?t", simplified]
    by (auto simp: deviceNextJob_def refl split: sum.splits prod.splits if_splits dest!: deviceContextFromHeaders_Inr)
  show "within ?t s (snd (deviceJobResult envs r body s))"
    using within_updates(7) [OF inv, where tc = "device_context ?t", simplified] rec
    by (auto simp: deviceJobResult_def refl split: sum.splits prod.splits option.splits dest!: deviceContextFromHeaders_Inr)
qed

text \<open>C15: A message to the device gateway changes at most the tenant it speaks for, which is that of the
  enrollment token it carries, of its envelope or of its headers: all other tenants keep what they
  hold, and the store keeps its invariant.\<close>

theorem device_messages_stay_in_tenant:
  assumes "store_inv (mem s)" "unused_ids envs (mem s)" "speaks_for (envs 0) r e s \<noteq> Some t"
  shows "tenant_view t (mem (snd (device_route cfg ca de envs r e s))) = tenant_view t (mem s)
    \<and> store_inv (mem (snd (device_route cfg ca de envs r e s)))"
proof (cases e)
  case (DvEnroll body)
  then show ?thesis
  proof (cases body)
    case (Inl err)
    then show ?thesis using assms(1) DvEnroll by (simp add: deviceEnroll_def)
  next
    case (Inr req)
    then show ?thesis using within_deviceEnroll [OF assms(1,2), where req = req and cfg = cfg and ca = ca and r = r] assms(1,3) DvEnroll
      by (cases "token_tenant (envs 0) req s") (auto simp: within_def)
  qed
next
  case (DvHeartbeat body)
  then show ?thesis using within_envelope_messages(1) [OF assms(1)] assms(1,3)
    by (cases body) (auto simp: within_def deviceHeartbeat_def deviceEnvelope_def)
next
  case (DvTelemetry body)
  then show ?thesis using within_envelope_messages(2) [OF assms(1)] assms(1,3)
    by (cases body) (auto simp: within_def deviceTelemetry_def deviceEnvelope_def)
next
  case (DvInventory body)
  then show ?thesis using within_envelope_messages(3) [OF assms(1)] assms(1,3)
    by (cases body) (auto simp: within_def deviceInventory_def deviceEnvelope_def)
next
  case DvNextJob
  then show ?thesis using within_header_messages(1) [OF assms(1)] assms(3) by (simp add: within_def)
next
  case (DvJobResult body)
  then show ?thesis using within_header_messages(2) [OF assms(1)] assms(3) by (simp add: within_def)
qed (use assms(1) in \<open>simp_all add: deviceStatus_def deviceOffline_def split: sum.split\<close>)

section \<open>Witnesses\<close>

definition demo_envs :: envs where
  "demo_envs n = demo_cenv\<lparr>c_rand := (\<lambda>k. replicate n CHR ''x'')\<rparr>"

lemma demo_unused: "unused_ids demo_envs (mem demo_member_db)"
proof -
  have "inj (\<lambda>n. NewID (demo_envs n) 0 ''job'')"
  proof (rule injI)
    fix m n
    assume "NewID (demo_envs m) 0 ''job'' = NewID (demo_envs n) 0 ''job''"
    then have "length (hexEncode (replicate m CHR ''x'')) = length (hexEncode (replicate n CHR ''x''))"
      by (simp add: NewID_def demo_envs_def)
    then show "m = n" by simp
  qed
  then show ?thesis
    by (auto simp: unused_ids_def NewID_def demo_member_db_def demo_db_def no_data_def mget_def)
qed

lemma demo_member_inv: "store_inv (mem demo_member_db)"
  by code_simp

definition demo_services :: services where
  "demo_services = \<lparr>sv_url = demo_parse, sv_address = Some, sv_duration = (\<lambda>s. None), sv_encode = (\<lambda>r. []), sv_hmac = (\<lambda>k m. [])\<rparr>"

definition demo_server :: server_cfg where
  "demo_server = \<lparr>SessionTTL = Hour, CertificateTTL = Hour, DevicePublicHost = [], ShellHubManaged = False,
     defaults = \<lparr>OrganizationName = [], CompanyDomain = [], ShellHubURL = [], ShellHubSSHPort = 22, DeviceOfflineMinutes = 2,
       DefaultTelemetryWindow = ''1h'', DefaultOTAPilotPercent = 10, DefaultEnrollmentTTLHours = 1, DefaultJobTTLMinutes = 60,
       ps_UpdatedBy = [], ps_UpdatedAt = 0\<rparr>\<rparr>"

lemma demo_delete: "fst (control demo_services demo_server demo_envs demo_cenv None (Inr []) (demo_request ''DELETE'')
    (EpDevices (Inl ErrNotFound)) demo_member_db) = JSON 200 (Status ''removed'' ''d1'')
  \<and> snd (control demo_services demo_server demo_envs demo_cenv None (Inr []) (demo_request ''DELETE'')
    (EpDevices (Inl ErrNotFound)) demo_member_db) \<noteq> demo_member_db"
proof -
  have "map fst (db_Devices (mem (snd (control demo_services demo_server demo_envs demo_cenv None (Inr []) (demo_request ''DELETE'')
    (EpDevices (Inl ErrNotFound)) demo_member_db)))) = [''d2'']" by code_simp
  moreover have "map fst (db_Devices (mem demo_member_db)) = [''d1'', ''d2'']" by code_simp
  moreover have "fst (control demo_services demo_server demo_envs demo_cenv None (Inr []) (demo_request ''DELETE'')
    (EpDevices (Inl ErrNotFound)) demo_member_db) = JSON 200 (Status ''removed'' ''d1'')" by code_simp
  ultimately show ?thesis by force
qed

theorem requests_stay_in_tenant_witness:
  "tenant_view ''b'' (mem (snd (control demo_services demo_server demo_envs demo_cenv None (Inr []) (demo_request ''DELETE'')
      (EpDevices (Inl ErrNotFound)) demo_member_db))) = tenant_view ''b'' (mem demo_member_db)"
  using requests_stay_in_tenant [OF demo_member_inv demo_unused, of demo_cenv "demo_request ''DELETE''" "''b''"] demo_authenticate
  by (simp add: demo_tc_def)

definition demo_authority :: authority where
  "demo_authority = \<lparr>CertPEM = ''ca'', IssueDeviceCertificate = (\<lambda>key dev ttl. Inr (''cert'', ''1'', 9000))\<rparr>"

definition demo_decoders :: decoders where
  "demo_decoders = \<lparr>de_heartbeat = (\<lambda>raw. \<lparr>hb_AgentVersion = [], hb_Health = [], OSUptimeSeconds = 0, AgentUptimeSeconds = 0,
     UptimeSeconds = 0, hb_Location = None\<rparr>), de_batch = (\<lambda>raw. None), de_inventory = (\<lambda>raw. None)\<rparr>"

theorem device_messages_stay_in_tenant_witness:
  "tenant_view ''a'' (mem (snd (device_route demo_server demo_authority demo_decoders demo_envs
      ((demo_request ''GET'')\<lparr>Header := (\<lambda>h. if h = ''X-Tenant-ID'' then ''b'' else ''d2'')\<rparr>) DvNextJob demo_member_db)))
   = tenant_view ''a'' (mem demo_member_db)"
  by (rule device_messages_stay_in_tenant [OF demo_member_inv demo_unused, THEN conjunct1]) simp

end
