(* ===== verification/AgentJobs.thy ===== *)
theory AgentJobs
  imports AgentFlush OTAOutcomes
begin

text \<open>
  Jobs on the agent: the job states in \<^verbatim>\<open>jobs.json\<close> (\<^verbatim>\<open>agent/internal/storage/store.go\<close>),
  the registry that runs a job at most once to success (\<^verbatim>\<open>agent/internal/jobs/jobs.go\<close>), and
  the handlers (\<^verbatim>\<open>agent/internal/agent/job_handlers.go\<close>). Texts are taken to be valid UTF-8,
  so that encoding and decoding a result as JSON gives it back.
\<close>

section \<open>Data\<close>

record Job =
  jb_ID :: string
  jb_TenantID :: string
  jb_DeviceID :: string
  jb_Type :: string
  jb_ExpiresAt :: go_time
  jb_Attempt :: int
  jb_TimeoutSeconds :: int
  jb_PayloadDigest :: string
  jb_Payload :: string

record Result =
  rs_JobID :: string
  rs_State :: string
  rs_ExitCode :: int
  rs_Stdout :: string
  rs_Stderr :: string
  rs_ErrorClass :: string
  rs_StartedAt :: go_time
  rs_FinishedAt :: go_time
  rs_Retryable :: bool

definition zero_Result :: Result where
  "zero_Result = \<lparr>rs_JobID = [], rs_State = [], rs_ExitCode = 0, rs_Stdout = [], rs_Stderr = [], rs_ErrorClass = [],
     rs_StartedAt = zero_time, rs_FinishedAt = zero_time, rs_Retryable = False\<rparr>"

text \<open>\<open>None\<close> stands for an empty \<^verbatim>\<open>ResultJSON\<close>.\<close>

record JobState =
  js_JobID :: string
  js_State :: string
  js_Result :: "Result option"
  js_UpdatedAt :: go_time

section \<open>The job states\<close>

text \<open>The file is missing, a JSON object, or something the decoder rejects.\<close>

datatype jobs_doc = JobsJSON "JobState go_map" | JobsCorrupt

type_synonym jobs_file = "jobs_doc option"

text \<open>
  The environment of one call. \<^verbatim>\<open>os.WriteFile\<close> truncates the file before it writes: a write
  that fails may leave it unreadable.
\<close>

datatype write_outcome = Written | WriteFailed go_error bool

record jobs_env =
  je_now :: go_time
  je_readErr :: "go_error option"
  je_write :: write_outcome

definition SaveJobState :: "jobs_env \<Rightarrow> JobState \<Rightarrow> jobs_file \<Rightarrow> go_error option \<times> jobs_file" where
  "SaveJobState env st f =
     (let m = (case f of
                 Some (JobsJSON m) \<Rightarrow> (if je_readErr env = None then m else [])
               | _ \<Rightarrow> []);
          st = st\<lparr>js_UpdatedAt := je_now env\<rparr> in
      case je_write env of
        Written \<Rightarrow> (None, Some (JobsJSON (mput (js_JobID st) st m)))
      | WriteFailed err damaged \<Rightarrow> (Some err, if damaged then Some JobsCorrupt else f))"

definition LoadJobState :: "jobs_env \<Rightarrow> string \<Rightarrow> jobs_file \<Rightarrow> JobState option result" where
  "LoadJobState env jobID f =
     (case f of
        None \<Rightarrow> Inr None
      | Some doc \<Rightarrow>
         (case je_readErr env of
            Some err \<Rightarrow> Inl err
          | None \<Rightarrow>
             (case doc of
                JobsJSON m \<Rightarrow> Inr (mget m jobID)
              | JobsCorrupt \<Rightarrow> Inl (ErrorString ''invalid JSON''))))"

section \<open>The registry\<close>

definition Job_Validate :: "(string \<Rightarrow> string) \<Rightarrow> go_time \<Rightarrow> Job \<Rightarrow> go_error option" where
  "Job_Validate sha now j =
     (if jb_ID j = [] \<or> jb_TenantID j = [] \<or> jb_DeviceID j = [] \<or> jb_Type j = []
      then Some (ErrorString ''job missing required identity fields'')
      else if \<not> IsZero (jb_ExpiresAt j) \<and> After now (jb_ExpiresAt j) then Some (ErrorString ''job expired'')
      else if jb_Attempt j < 0 then Some (ErrorString ''invalid attempt'')
      else if jb_PayloadDigest j \<noteq> [] \<and> hexEncode (sha (jb_Payload j)) \<noteq> ToLower (jb_PayloadDigest j)
      then Some (ErrorString ''payload digest mismatch'')
      else None)"

definition fail :: "string \<Rightarrow> go_time \<Rightarrow> go_time \<Rightarrow> string \<Rightarrow> go_error \<Rightarrow> Result" where
  "fail jobID started finished cls err =
     zero_Result\<lparr>rs_JobID := jobID, rs_State := ''failed'', rs_ExitCode := 1, rs_Stderr := Error err,
       rs_ErrorClass := cls, rs_StartedAt := started, rs_FinishedAt := finished\<rparr>"

record 'w Handler =
  h_Validate :: "Job \<Rightarrow> 'w \<Rightarrow> go_error option \<times> 'w"
  h_Prepare :: "Job \<Rightarrow> 'w \<Rightarrow> go_error option \<times> 'w"
  h_Execute :: "Job \<Rightarrow> 'w \<Rightarrow> Result \<times> 'w"

definition NewFunctionHandler ::
  "(Job \<Rightarrow> 'w \<Rightarrow> go_error option \<times> 'w) option \<Rightarrow> (Job \<Rightarrow> 'w \<Rightarrow> Result \<times> 'w) \<Rightarrow> 'w Handler" where
  "NewFunctionHandler validate exec =
     \<lparr>h_Validate = (case validate of Some v \<Rightarrow> v | None \<Rightarrow> (\<lambda>j w. (None, w))),
      h_Prepare = (\<lambda>j w. (None, w)), h_Execute = exec\<rparr>"

text \<open>
  The defaults the registry fills in, and the limit on the captured output.
\<close>

definition max_output :: nat where "max_output = 65536"

definition finish :: "Job \<Rightarrow> go_time \<Rightarrow> go_time \<Rightarrow> Result \<Rightarrow> Result" where
  "finish job start now res =
     res\<lparr>rs_JobID := (if rs_JobID res = [] then jb_ID job else rs_JobID res),
         rs_StartedAt := (if IsZero (rs_StartedAt res) then start else rs_StartedAt res),
         rs_FinishedAt := (if IsZero (rs_FinishedAt res) then now else rs_FinishedAt res),
         rs_Stdout := take max_output (rs_Stdout res),
         rs_Stderr := take max_output (rs_Stderr res)\<rparr>"

text \<open>The registry over any store of job states: \<open>sv\<close> (save) and \<open>ld\<close> (load) act on the state \<open>'s\<close>.\<close>

type_synonym 's save_op = "jobs_env \<Rightarrow> JobState \<Rightarrow> 's \<Rightarrow> go_error option \<times> 's"
type_synonym 's load_op = "jobs_env \<Rightarrow> string \<Rightarrow> 's \<Rightarrow> JobState option result"

record 'w job_world =
  jw_env :: "'w \<Rightarrow> jobs_env \<times> 'w"
  jw_sha :: "string \<Rightarrow> string"
  handlers :: "string \<Rightarrow> 'w Handler option"

definition previous_success :: "JobState option result \<Rightarrow> Result option" where
  "previous_success loaded =
     (case loaded of
        Inr (Some st) \<Rightarrow>
          (if js_State st = ''succeeded''
           then Some (case js_Result st of Some prev \<Rightarrow> prev | None \<Rightarrow> zero_Result) else None)
      | _ \<Rightarrow> None)"

definition run_handler ::
  "'s save_op \<Rightarrow> 'w job_world \<Rightarrow> 'w Handler \<Rightarrow> Job \<Rightarrow> go_time \<Rightarrow> 's \<Rightarrow> 'w \<Rightarrow> Result \<times> 's \<times> 'w" where
  "run_handler sv jw h job start s w =
     (let (env, w) = jw_env jw w;
          (_, s) = sv env \<lparr>js_JobID = jb_ID job, js_State = ''running'', js_Result = None, js_UpdatedAt = zero_time\<rparr> s;
          (res, w) = h_Execute h job w;
          (env, w) = jw_env jw w;
          res = finish job start (je_now env) res;
          (_, s) = sv env \<lparr>js_JobID = jb_ID job, js_State = rs_State res, js_Result = Some res,
                            js_UpdatedAt = zero_time\<rparr> s in
      (res, s, w))"

definition execute_with ::
  "'s save_op \<Rightarrow> 's load_op \<Rightarrow> 'w job_world \<Rightarrow> Job \<Rightarrow> 's \<Rightarrow> 'w \<Rightarrow> Result \<times> 's \<times> 'w" where
  "execute_with sv ld jw job s w =
     (let (env, w) = jw_env jw w;
          start = je_now env in
      case Job_Validate (jw_sha jw) (je_now env) job of
        Some err \<Rightarrow> (fail (jb_ID job) start (je_now env) ''validation'' err, s, w)
      | None \<Rightarrow>
     (case previous_success (ld env (jb_ID job) s) of
        Some prev \<Rightarrow> (prev, s, w)
      | None \<Rightarrow>
     (case handlers jw (jb_Type job) of
        None \<Rightarrow> (fail (jb_ID job) start (je_now env) ''unsupported_type''
                   (ErrorString (''unsupported job type '' @ jb_Type job)), s, w)
      | Some h \<Rightarrow>
     (let (err, w) = h_Validate h job w in
      case err of Some e \<Rightarrow> (fail (jb_ID job) start (je_now env) ''validation'' e, s, w) | None \<Rightarrow>
     (let (err, w) = h_Prepare h job w in
      case err of Some e \<Rightarrow> (fail (jb_ID job) start (je_now env) ''prepare'' e, s, w) | None \<Rightarrow>
      run_handler sv jw h job start s w)))))"

definition Registry_Execute :: "'w job_world \<Rightarrow> Job \<Rightarrow> jobs_file \<Rightarrow> 'w \<Rightarrow> Result \<times> jobs_file \<times> 'w" where
  "Registry_Execute = execute_with SaveJobState LoadJobState"

section \<open>The contract of the job store\<close>

text \<open>
  In a calm environment, a saved state is loaded back with its time stamp and leaves the
  others alone.
\<close>

definition calm :: "jobs_env \<Rightarrow> bool" where
  "calm env \<longleftrightarrow> je_readErr env = None \<and> je_write env = Written"

locale job_store =
  fixes sv :: "'s save_op" and ld :: "'s load_op" and intact :: "'s \<Rightarrow> bool"
  assumes save_intact: "calm env \<Longrightarrow> intact s \<Longrightarrow> sv env st s = (e, s') \<Longrightarrow> intact s'"
    and load_saved: "calm env \<Longrightarrow> calm env' \<Longrightarrow> intact s \<Longrightarrow> sv env st s = (e, s') \<Longrightarrow>
      ld env' (js_JobID st) s' = Inr (Some (st\<lparr>js_UpdatedAt := je_now env\<rparr>))"
    and load_other: "calm env \<Longrightarrow> calm env' \<Longrightarrow> intact s \<Longrightarrow> sv env st s = (e, s') \<Longrightarrow>
      i \<noteq> js_JobID st \<Longrightarrow> ld env' i s' = ld env' i s"
    and load_calm: "calm env \<Longrightarrow> calm env' \<Longrightarrow> ld env i s = ld env' i s"
begin

text \<open>A job is done when its stored state says so.\<close>

definition done_with :: "string \<Rightarrow> Result \<Rightarrow> 's \<Rightarrow> bool" where
  "done_with i res s \<longleftrightarrow> intact s \<and> (\<forall>env. calm env \<longrightarrow> previous_success (ld env i s) = Some res)"

lemma run_handler_records:
  assumes "\<And>w. calm (fst (jw_env jw w))" "intact s" "run_handler sv jw h job start s w = (res, s', w')"
  shows "intact s' \<and> (rs_State res = ''succeeded'' \<longrightarrow> done_with (jb_ID job) res s')
    \<and> (\<forall>i env. i \<noteq> jb_ID job \<longrightarrow> calm env \<longrightarrow> ld env i s' = ld env i s)"
proof -
  obtain e1 w1 where e1: "jw_env jw w = (e1, w1)" by fastforce
  let ?running = "\<lparr>js_JobID = jb_ID job, js_State = ''running'', js_Result = None, js_UpdatedAt = zero_time\<rparr>"
  obtain x1 s1 where s1: "sv e1 ?running s = (x1, s1)" by fastforce
  obtain r w2 where r: "h_Execute h job w1 = (r, w2)" by fastforce
  obtain e2 w3 where e2: "jw_env jw w2 = (e2, w3)" by fastforce
  let ?res = "finish job start (je_now e2) r"
  let ?final = "\<lparr>js_JobID = jb_ID job, js_State = rs_State ?res, js_Result = Some ?res, js_UpdatedAt = zero_time\<rparr>"
  obtain x2 s2 where s2: "sv e2 ?final s1 = (x2, s2)" by fastforce
  have res: "res = ?res" "s' = s2" using assms(3) e1 s1 r e2 s2 by (auto simp: run_handler_def Let_def)
  have calm: "calm e1" "calm e2" using assms(1) [of w] assms(1) [of w2] e1 e2 by auto
  have i1: "intact s1" by (rule save_intact [OF calm(1) assms(2) s1])
  have i2: "intact s2" by (rule save_intact [OF calm(2) i1 s2])
  have "calm env \<Longrightarrow> ld env (jb_ID job) s2 = Inr (Some (?final\<lparr>js_UpdatedAt := je_now e2\<rparr>))" for env
    using load_saved [OF calm(2) _ i1 s2] by simp
  moreover have "i \<noteq> jb_ID job \<Longrightarrow> calm env \<Longrightarrow> ld env i s2 = ld env i s" for i env
    using load_other [OF calm(2) _ i1 s2] load_other [OF calm(1) _ assms(2) s1] by simp
  ultimately show ?thesis using res i2 by (auto simp: done_with_def previous_success_def)
qed

text \<open>A done job is answered from the store and runs nothing.\<close>

lemma done_not_rerun:
  assumes "\<And>w. calm (fst (jw_env jw w))" "done_with (jb_ID job) prev s"
    and "execute_with sv ld jw job s w = (res, s', w')"
  shows "s' = s \<and> w' = snd (jw_env jw w) \<and> (res = prev \<or> rs_ErrorClass res = ''validation'')"
proof -
  obtain e1 w1 where e1: "jw_env jw w = (e1, w1)" by fastforce
  then have "previous_success (ld e1 (jb_ID job) s) = Some prev"
    using assms(1) [of w] assms(2) by (simp add: done_with_def)
  then show ?thesis using assms(3) e1
    by (auto simp: execute_with_def Let_def fail_def split: option.splits)
qed

lemma success_is_done:
  assumes env: "\<And>w. calm (fst (jw_env jw w))" and "intact s"
    and run: "execute_with sv ld jw job s w = (res, s', w')" and ok: "rs_State res = ''succeeded''"
  shows "done_with (jb_ID job) res s'"
proof -
  obtain e1 w1 where e1: "jw_env jw w = (e1, w1)" by fastforce
  show ?thesis
  proof (cases "previous_success (ld e1 (jb_ID job) s)")
    case (Some prev)
    then have "res = prev" "s' = s" using run e1 ok
      by (auto simp: execute_with_def Let_def fail_def split: option.splits)
    moreover have "calm env \<Longrightarrow> ld env (jb_ID job) s = ld e1 (jb_ID job) s" for env
      using load_calm [of env e1] env [of w] e1 by simp
    ultimately show ?thesis using Some \<open>intact s\<close> by (simp add: done_with_def)
  next
    case None
    then obtain h start w2 where "run_handler sv jw h job start s w2 = (res, s', w')"
      using run e1 ok by (auto simp: execute_with_def Let_def fail_def split: option.splits prod.splits)
    from run_handler_records [OF env \<open>intact s\<close> this] ok show ?thesis by simp
  qed
qed

lemma done_stays_done:
  assumes "\<And>w. calm (fst (jw_env jw w))" "done_with i prev s" "execute_with sv ld jw job s w = (res, s', w')"
  shows "done_with i prev s'"
proof (cases "jb_ID job = i")
  case True
  with done_not_rerun [OF assms(1) _ assms(3), of prev] assms(2) show ?thesis by simp
next
  case False
  have "intact s" using assms(2) by (simp add: done_with_def)
  have "s' = s \<or> (\<exists>h start w1. run_handler sv jw h job start s w1 = (res, s', w'))"
    using assms(3) by (auto simp: execute_with_def Let_def split: option.splits prod.splits)
  then show ?thesis
  proof
    assume "\<exists>h start w1. run_handler sv jw h job start s w1 = (res, s', w')"
    then obtain h start w1 where "run_handler sv jw h job start s w1 = (res, s', w')" by blast
    from run_handler_records [OF assms(1) \<open>intact s\<close> this] False assms(2) show ?thesis
      by (auto simp: done_with_def)
  qed (use assms(2) in simp)
qed

end

section \<open>The file honours it\<close>

definition jobs_intact :: "jobs_file \<Rightarrow> bool" where
  "jobs_intact f \<longleftrightarrow> f \<noteq> Some JobsCorrupt"

interpretation jobs_json: job_store SaveJobState LoadJobState jobs_intact
proof
  show "jobs_intact s'" if "calm env" "jobs_intact s" "SaveJobState env st s = (e, s')" for env st e and s s' :: jobs_file
    using that by (auto simp: SaveJobState_def calm_def jobs_intact_def)
  show "LoadJobState env' (js_JobID st) s' = Inr (Some (st\<lparr>js_UpdatedAt := je_now env\<rparr>))"
    if "calm env" "calm env'" "jobs_intact s" "SaveJobState env st s = (e, s')" for env env' st e and s s' :: jobs_file
    using that by (auto simp: SaveJobState_def LoadJobState_def calm_def Let_def)
  show "LoadJobState env i s = LoadJobState env' i s" if "calm env" "calm env'" for env env' i and s :: jobs_file
    using that by (auto simp: LoadJobState_def calm_def split: option.splits)
  show "LoadJobState env' i s' = LoadJobState env' i s"
    if "calm env" "calm env'" "jobs_intact s" "SaveJobState env st s = (e, s')" "i \<noteq> js_JobID st"
    for env env' st e i and s s' :: jobs_file
    using that by (auto simp: SaveJobState_def LoadJobState_def calm_def jobs_intact_def Let_def
        split: option.splits jobs_doc.splits)
qed

section \<open>Properties\<close>

text \<open>Any sequence of jobs, as the agent gets them from the server.\<close>

fun run_jobs :: "'w job_world \<Rightarrow> Job list \<Rightarrow> jobs_file \<Rightarrow> 'w \<Rightarrow> jobs_file \<times> 'w" where
  "run_jobs jw [] f w = (f, w)"
| "run_jobs jw (j # js) f w = (let (_, f, w) = Registry_Execute jw j f w in run_jobs jw js f w)"

lemma run_jobs_done:
  assumes "\<And>w. calm (fst (jw_env jw w))"
  shows "jobs_json.done_with i res f \<Longrightarrow> run_jobs jw js f w = (f', w') \<Longrightarrow> jobs_json.done_with i res f'"
proof (induction js arbitrary: f w)
  case (Cons j js)
  obtain r f1 w1 where r: "Registry_Execute jw j f w = (r, f1, w1)" by (metis prod_cases3)
  have "jobs_json.done_with i res f1"
    by (rule jobs_json.done_stays_done [OF assms Cons.prems(1) r [unfolded Registry_Execute_def]])
  with Cons.IH r Cons.prems(2) show ?case by simp
qed simp

text \<open>C17: A job that has succeeded is not run again: whatever other jobs the agent runs in between,
  delivering it again returns the recorded result (or a validation failure, when it has expired),
  calls no handler and leaves the job states as they are, as long as the state file can be read
  and written.\<close>

theorem succeeded_job_not_rerun:
  assumes env: "\<And>w. calm (fst (jw_env jw w))" and "jobs_intact f"
    and first: "Registry_Execute jw job f w = (res, f1, w1)" "rs_State res = ''succeeded''"
    and others: "run_jobs jw js f1 w1 = (f2, w2)"
    and again: "Registry_Execute jw job f2 w2 = (res', f3, w3)"
  shows "f3 = f2 \<and> w3 = snd (jw_env jw w2) \<and> (res' = res \<or> rs_ErrorClass res' = ''validation'')"
proof -
  have "jobs_json.done_with (jb_ID job) res f1"
    by (rule jobs_json.success_is_done [OF env \<open>jobs_intact f\<close> first(1) [unfolded Registry_Execute_def] first(2)])
  then have "jobs_json.done_with (jb_ID job) res f2" by (rule run_jobs_done [OF env _ others])
  from jobs_json.done_not_rerun [OF env this again [unfolded Registry_Execute_def]] show ?thesis .
qed

text \<open>A device whose only handler counts its runs.\<close>

definition demo_job :: "string \<Rightarrow> Job" where
  "demo_job i = \<lparr>jb_ID = i, jb_TenantID = ''t'', jb_DeviceID = ''d'', jb_Type = ''count'', jb_ExpiresAt = zero_time,
     jb_Attempt = 0, jb_TimeoutSeconds = 0, jb_PayloadDigest = [], jb_Payload = []\<rparr>"

definition demo_jobs :: "nat job_world" where
  "demo_jobs = \<lparr>jw_env = (\<lambda>w. (\<lparr>je_now = 5, je_readErr = None, je_write = Written\<rparr>, w)), jw_sha = (\<lambda>s. s),
     handlers = (\<lambda>t. if t = ''count''
       then Some (NewFunctionHandler None (\<lambda>j w. (zero_Result\<lparr>rs_State := ''succeeded'', rs_ExitCode := int w\<rparr>, Suc w)))
       else None)\<rparr>"

definition demo_result :: Result where
  "demo_result = zero_Result\<lparr>rs_JobID := ''a'', rs_State := ''succeeded'', rs_StartedAt := 5, rs_FinishedAt := 5\<rparr>"

definition demo_states :: jobs_file where
  "demo_states = Some (JobsJSON [(''a'', \<lparr>js_JobID = ''a'', js_State = ''succeeded'', js_Result = Some demo_result, js_UpdatedAt = 5\<rparr>)])"

lemma demo_job_first: "Registry_Execute demo_jobs (demo_job ''a'') None 0 = (demo_result, demo_states, 1)"
  by (simp add: Registry_Execute_def execute_with_def run_handler_def NewFunctionHandler_def demo_jobs_def demo_job_def
      Job_Validate_def IsZero_def zero_time_def LoadJobState_def previous_success_def SaveJobState_def finish_def
      zero_Result_def demo_result_def demo_states_def mput_def Let_def)

lemma demo_jobs_calm: "calm (fst (jw_env demo_jobs w))"
  by (simp add: demo_jobs_def calm_def)

theorem succeeded_job_not_rerun_witness:
  "snd (snd (Registry_Execute demo_jobs (demo_job ''a'') (fst (run_jobs demo_jobs [demo_job ''b''] demo_states 1))
               (snd (run_jobs demo_jobs [demo_job ''b''] demo_states 1))))
     = snd (run_jobs demo_jobs [demo_job ''b''] demo_states 1)"
proof -
  obtain f2 w2 where f2: "run_jobs demo_jobs [demo_job ''b''] demo_states 1 = (f2, w2)" by fastforce
  obtain r f3 w3 where r: "Registry_Execute demo_jobs (demo_job ''a'') f2 w2 = (r, f3, w3)" by (metis prod_cases3)
  have "w3 = snd (jw_env demo_jobs w2)"
    using succeeded_job_not_rerun [OF demo_jobs_calm _ demo_job_first _ f2 r]
    by (simp add: jobs_intact_def demo_result_def zero_Result_def)
  then show ?thesis using f2 r by (simp add: demo_jobs_def)
qed

text \<open>The job states are not crash safe: a save that is cut off after it truncated the file
  leaves it unreadable, and the next delivery of a job that had succeeded runs its handler again.\<close>

theorem damaged_states_rerun_job:
  assumes "SaveJobState env0 st f = (Some err, f')" "je_write env0 = WriteFailed err True"
    and "jw_env jw w = (env, w1)" "je_readErr env = None"
    and "Job_Validate (jw_sha jw) (je_now env) job = None"
    and "handlers jw (jb_Type job) = Some (NewFunctionHandler None exec)"
  shows "Registry_Execute jw job f' w = run_handler SaveJobState jw (NewFunctionHandler None exec) job (je_now env) f' w1"
proof -
  have "f' = Some JobsCorrupt" using assms(1,2) by (auto simp: SaveJobState_def Let_def)
  then show ?thesis using assms(3-6)
    by (simp add: Registry_Execute_def execute_with_def LoadJobState_def previous_success_def NewFunctionHandler_def)
qed

theorem damaged_states_rerun_job_witness:
  "rs_ExitCode (fst (Registry_Execute demo_jobs (demo_job ''a'') (Some JobsCorrupt) 1)) = 1"
proof -
  let ?env0 = "\<lparr>je_now = 6, je_readErr = None, je_write = WriteFailed ErrNotFound True\<rparr>"
  let ?st = "\<lparr>js_JobID = ''b'', js_State = ''running'', js_Result = None, js_UpdatedAt = 0\<rparr>"
  have "SaveJobState ?env0 ?st demo_states = (Some ErrNotFound, Some JobsCorrupt)"
    by (simp add: SaveJobState_def)
  from damaged_states_rerun_job [OF this, of demo_jobs 1 "\<lparr>je_now = 5, je_readErr = None, je_write = Written\<rparr>" 1
      "demo_job ''a''" "\<lambda>j w. (zero_Result\<lparr>rs_State := ''succeeded'', rs_ExitCode := int w\<rparr>, Suc w)"]
  have "Registry_Execute demo_jobs (demo_job ''a'') (Some JobsCorrupt) 1 =
      run_handler SaveJobState demo_jobs
        (NewFunctionHandler None (\<lambda>j w. (zero_Result\<lparr>rs_State := ''succeeded'', rs_ExitCode := int w\<rparr>, Suc w)))
        (demo_job ''a'') 5 (Some JobsCorrupt) 1"
    by (simp add: demo_jobs_def demo_job_def Job_Validate_def IsZero_def)
  then show ?thesis
    by (simp add: run_handler_def NewFunctionHandler_def finish_def demo_jobs_def SaveJobState_def Let_def zero_Result_def)
qed

end
