(* ===== verification/AgentHandlers.thy ===== *)
theory AgentHandlers
  imports AgentJobs
begin

text \<open>
  The job handlers of \<^verbatim>\<open>agent/internal/agent/job_handlers.go\<close> over the world of the OTA
  engine, and the registry of job types. JSON is a parameter: \<open>decode\<close> reads a payload and
  \<open>encode\<close> writes a value, as texts.
\<close>

record 'w dev_sys =
  ds_sys :: "'w Sys"
  ds_crypto :: crypto
  ds_cfg :: "Config option"
  decodeRequest :: "string \<Rightarrow> Request option"
  decodeFlatpak :: "string \<Rightarrow> FlatpakUpdate option"
  encodeStatus :: "Status \<Rightarrow> string"
  CombinedOutput :: "'w runner"
  LookPathAt :: "string \<Rightarrow> 'w \<Rightarrow> string result"
  inventoryJSON :: "'w \<Rightarrow> string result \<times> 'w"
  diagnosticsJSON :: "'w \<Rightarrow> string result \<times> 'w"
  scanReport :: "'w \<Rightarrow> string result result \<times> 'w"

definition result_ok :: "Job \<Rightarrow> go_time \<Rightarrow> go_time \<Rightarrow> string \<Rightarrow> Result" where
  "result_ok job started finished stdout =
     zero_Result\<lparr>rs_JobID := jb_ID job, rs_State := ''succeeded'', rs_Stdout := stdout, rs_StartedAt := started,
       rs_FinishedAt := finished\<rparr>"

definition result_failed :: "Job \<Rightarrow> go_time \<Rightarrow> go_time \<Rightarrow> string \<Rightarrow> string \<Rightarrow> Result" where
  "result_failed job started finished cls stderr =
     zero_Result\<lparr>rs_JobID := jb_ID job, rs_State := ''failed'', rs_ExitCode := 1, rs_Stderr := stderr,
       rs_ErrorClass := cls, rs_StartedAt := started, rs_FinishedAt := finished\<rparr>"

definition now :: "'w dev_sys \<Rightarrow> 'w osw \<Rightarrow> go_time \<times> 'w osw" where
  "now d w = ext_call (sys_now (ds_sys d)) w"

definition successfulJob :: "'w dev_sys \<Rightarrow> Job \<Rightarrow> string result \<Rightarrow> 'w osw \<Rightarrow> Result \<times> 'w osw" where
  "successfulJob d job value w =
     (let (started, w) = now d w; (finished, w) = now d w in
      case value of
        Inl err \<Rightarrow> (result_failed job started finished ''encoding'' (Error err), w)
      | Inr output \<Rightarrow> (result_ok job started finished output, w))"

section \<open>Simple handlers\<close>

definition collectLogs :: "'w dev_sys \<Rightarrow> Job \<Rightarrow> 'w osw \<Rightarrow> Result \<times> 'w osw" where
  "collectLogs d job w =
     (let (started, w) = now d w;
          ((output, err), w) = ext_call (CombinedOutput d ''journalctl''
             [''-n'', ''200'', ''--no-pager'', ''-o'', ''short-iso'']) w;
          (finished, w) = now d w in
      case err of
        Some e \<Rightarrow> (result_failed job started finished ''log_collection'' (Error e)\<lparr>rs_Stdout := output\<rparr>, w)
      | None \<Rightarrow> (result_ok job started finished output, w))"

definition collectInventory :: "'w dev_sys \<Rightarrow> Job \<Rightarrow> 'w osw \<Rightarrow> Result \<times> 'w osw" where
  "collectInventory d job w = (let (value, w) = ext_call (inventoryJSON d) w in successfulJob d job value w)"

definition collectDiagnostics :: "'w dev_sys \<Rightarrow> Job \<Rightarrow> 'w osw \<Rightarrow> Result \<times> 'w osw" where
  "collectDiagnostics d job w = (let (value, w) = ext_call (diagnosticsJSON d) w in successfulJob d job value w)"

definition scanVulnerabilities :: "'w dev_sys \<Rightarrow> Job \<Rightarrow> 'w osw \<Rightarrow> Result \<times> 'w osw" where
  "scanVulnerabilities d job w =
     (let (started, w) = now d w; (report, w) = ext_call (scanReport d) w in
      case report of
        Inl err \<Rightarrow> (let (finished, w) = now d w in
                    (result_failed job started finished ''vulnerability_scan'' (Error err), w))
      | Inr value \<Rightarrow> successfulJob d job value w)"

section \<open>Reboot\<close>

definition rebootCommand ::
  "(string \<Rightarrow> string) \<Rightarrow> (string \<Rightarrow> string result) \<Rightarrow> string \<Rightarrow> (string \<times> string list \<times> string) result" where
  "rebootCommand sha look jobID =
     (case (look ''systemd-run'', look ''systemctl'') of
        (Inr systemdRun, Inr systemctl) \<Rightarrow>
          Inr (systemdRun, [''--unit=soul-room-reboot-'' @ hexEncode (take 6 (sha jobID)), ''--on-active=10s'', systemctl, ''reboot''],
               ''in about 10 seconds'')
      | _ \<Rightarrow>
         (case look ''shutdown'' of
            Inr shutdown \<Rightarrow> Inr (shutdown, [''-r'', ''+1'', ''Soul Room approved reboot''], ''in about one minute'')
          | Inl _ \<Rightarrow> Inl (ErrorString ''no supported reboot scheduler was found (systemd-run/systemctl or shutdown is required)'')))"

definition runReboot :: "'w dev_sys \<Rightarrow> Job \<Rightarrow> 'w osw \<Rightarrow> Result \<times> 'w osw" where
  "runReboot d job w =
     (let (started, w) = now d w in
      case rebootCommand (sha256 (ds_crypto d)) (\<lambda>n. LookPathAt d n (ext w)) (jb_ID job) of
        Inl err \<Rightarrow> (let (finished, w) = now d w in
                    (result_failed job started finished ''reboot_unavailable'' (Error err), w))
      | Inr (command, args, delay) \<Rightarrow>
          (let ((output, err), w) = ext_call (CombinedOutput d command args) w; (finished, w) = now d w in
           case err of
             Some e \<Rightarrow> (result_failed job started finished ''reboot_schedule''
                          (''could not schedule reboot: '' @ Error e @ '': '' @ output), w)
           | None \<Rightarrow> (result_ok job started finished (''Device reboot scheduled '' @ delay @ ''. '' @ output), w)))"

section \<open>Updates\<close>

definition runFlatpakUpdate :: "'w dev_sys \<Rightarrow> Job \<Rightarrow> 'w osw \<Rightarrow> Result \<times> 'w osw" where
  "runFlatpakUpdate d job w =
     (let (started, w) = now d w in
      case ParseFlatpakUpdate (url_Parse (ds_sys d)) (decodeFlatpak d (jb_Payload job)) of
        Inl err \<Rightarrow> (let (finished, w) = now d w in (result_failed job started finished ''validation'' (Error err), w))
      | Inr update \<Rightarrow>
          (let ((output, err), w) = ext_call (RunFlatpakUpdate (\<lambda>n w. case LookPathAt d n w of Inr _ \<Rightarrow> True | Inl _ \<Rightarrow> False)
                                                (CombinedOutput d) update) w;
               (finished, w) = now d w in
           case err of
             Some e \<Rightarrow> (result_failed job started finished ''flatpak_update'' (Error e)\<lparr>rs_Stdout := output\<rparr>, w)
           | None \<Rightarrow> (result_ok job started finished output, w)))"

definition validateFlatpakJob :: "'w dev_sys \<Rightarrow> Job \<Rightarrow> 'w osw \<Rightarrow> go_error option \<times> 'w osw" where
  "validateFlatpakJob d job w =
     ((case ParseFlatpakUpdate (url_Parse (ds_sys d)) (decodeFlatpak d (jb_Payload job)) of Inl err \<Rightarrow> Some err | Inr _ \<Rightarrow> None), w)"

text \<open>The validation of an OTA job uses only part of the configuration, as the code builds it.\<close>

definition validation_cfg :: "Config \<Rightarrow> Config" where
  "validation_cfg cfg =
     cfg\<lparr>StateDir := [], StagingDir := [], TrustedKeysDir := [], PluginDir := [], MinFreeBytes := 0, DownloadTimeout := 0,
         HealthTimeout := 0, HealthCheckCommand := [], AutoReboot := False\<rparr>"

definition validateOTAJob :: "'w dev_sys \<Rightarrow> Job \<Rightarrow> 'w osw \<Rightarrow> go_error option \<times> 'w osw" where
  "validateOTAJob d job w =
     ((case ds_cfg d of
         None \<Rightarrow> Some (ErrorString ''OTA is disabled on this device'')
       | Some cfg \<Rightarrow>
          (case decodeRequest d (jb_Payload job) of
             None \<Rightarrow> Some (ErrorString ''invalid OTA update payload'')
           | Some request \<Rightarrow> ValidateRequest (goarch (ds_sys d)) (validation_cfg cfg) request)), w)"

text \<open>A disabled engine would be a nil dereference; the validation above comes first.\<close>

definition runOTAUpdate :: "'w dev_sys \<Rightarrow> Config \<Rightarrow> Job \<Rightarrow> 'w osw \<Rightarrow> Result \<times> 'w osw" where
  "runOTAUpdate d cfg job w =
     (let (started, w) = now d w in
      case decodeRequest d (jb_Payload job) of
        None \<Rightarrow> (let (finished, w) = now d w in (result_failed job started finished ''validation'' ''invalid JSON'', w))
      | Some request \<Rightarrow>
          (let ((updateStatus, err), w) = Execute (ds_crypto d) (ds_sys d) cfg request w;
               (finished, w) = now d w;
               result = zero_Result\<lparr>rs_JobID := jb_ID job, rs_State := st_State updateStatus, rs_StartedAt := started,
                          rs_FinishedAt := finished, rs_Stdout := encodeStatus d updateStatus\<rparr> in
           case err of
             Some e \<Rightarrow>
               (if e \<noteq> ErrRebootPending
                then (result\<lparr>rs_State := ''failed'', rs_ExitCode := 1, rs_Stderr := Error e, rs_ErrorClass := ''ota_update''\<rparr>, w)
                else (result, w))
           | None \<Rightarrow> (result, w)))"

definition newJobRegistry :: "'w dev_sys \<Rightarrow> string \<Rightarrow> ('w osw) Handler option" where
  "newJobRegistry d jobType =
     (if jobType = ''collect_logs'' then Some (NewFunctionHandler None (collectLogs d))
      else if jobType = ''collect_inventory'' then Some (NewFunctionHandler None (collectInventory d))
      else if jobType = ''collect_diagnostics'' then Some (NewFunctionHandler None (collectDiagnostics d))
      else if jobType = ''scan_vulnerabilities'' then Some (NewFunctionHandler None (scanVulnerabilities d))
      else if jobType = ''reboot'' then Some (NewFunctionHandler None (runReboot d))
      else if jobType = ''flatpak_update'' then Some (NewFunctionHandler (Some (validateFlatpakJob d)) (runFlatpakUpdate d))
      else if jobType = ''ota_update'' then
        Some (NewFunctionHandler (Some (validateOTAJob d))
               (\<lambda>job w. case ds_cfg d of Some cfg \<Rightarrow> runOTAUpdate d cfg job w | None \<Rightarrow> (zero_Result, w)))
      else None)"

section \<open>Facts\<close>

lemma validation_cfg_simps [simp]:
  "MaxArtifactBytes (validation_cfg cfg) = MaxArtifactBytes cfg" "cfg_Product (validation_cfg cfg) = cfg_Product cfg"
  by (simp_all add: validation_cfg_def)

lemma ValidateRequest_validation_cfg [simp]:
  "ValidateRequest arch (validation_cfg cfg) request = ValidateRequest arch cfg request"
proof -
  have "validateOSRequest arch (validation_cfg cfg) request = validateOSRequest arch cfg request"
    by (simp add: validateOSRequest_def)
  then show ?thesis unfolding ValidateRequest_def by (simp only: validation_cfg_simps)
qed

lemma now_frame: "now d w = (t, w') \<Longrightarrow> txs w' = txs w"
  by (auto simp: now_def dest: ext_call_frame)

lemma result_failed_State [simp]: "rs_State (result_failed job started finished cls stderr) = ''failed''"
  by (simp add: result_failed_def)

section \<open>Properties\<close>

lemma runOTAUpdate_success:
  assumes "runOTAUpdate d cfg job w = (res, w')" "rs_State res = ''succeeded''"
  shows "\<exists>request st w1 w2. decodeRequest d (jb_Payload job) = Some request
    \<and> Execute (ds_crypto d) (ds_sys d) cfg request w1 = ((st, None), w2) \<and> txs w' = txs w2"
proof -
  obtain t w1 where t: "now d w = (t, w1)" by fastforce
  obtain request where rq: "decodeRequest d (jb_Payload job) = Some request"
    using assms t by (auto simp: runOTAUpdate_def split: option.splits prod.splits)
  obtain st err w2 where ex: "Execute (ds_crypto d) (ds_sys d) cfg request w1 = ((st, err), w2)" by (metis prod_cases3 surj_pair)
  obtain t2 w3 where t2: "now d w2 = (t2, w3)" by fastforce
  have "w' = w3" "err = None"
    using assms t rq ex t2 Execute_reported [of "ds_crypto d" "ds_sys d" cfg request w1]
    by (auto simp: runOTAUpdate_def Let_def reported_def is_error_def split: option.splits if_splits)
  with rq ex now_frame [OF t2] show ?thesis by auto
qed

text \<open>C38: The server is told that an OTA job succeeded only when the update is committed: if the
  handler of an \<^verbatim>\<open>ota_update\<close> job reports the state succeeded, the persisted transaction of
  the request in its payload is completed.\<close>

theorem ota_job_success_means_committed:
  assumes "runOTAUpdate d cfg job w = (res, w')" "rs_State res = ''succeeded''"
  shows "\<exists>request. decodeRequest d (jb_Payload job) = Some request \<and> completed_file cfg request (txs w')"
  using runOTAUpdate_success [OF assms] Execute_success by metis

definition demo_device :: "demo_world dev_sys" where
  "demo_device =
     \<lparr>ds_sys = demo_sys, ds_crypto = demo_crypto, ds_cfg = Some demo_cfg, decodeRequest = (\<lambda>s. Some demo_request),
      decodeFlatpak = (\<lambda>s. None), encodeStatus = (\<lambda>st. st_State st), CombinedOutput = demo_run,
      LookPathAt = (\<lambda>n w. Inr n), inventoryJSON = demo_call (Inr []), diagnosticsJSON = demo_call (Inr []),
      scanReport = demo_call (Inr (Inr []))\<rparr>"

lemma demo_now: "now demo_device w = (0, w)"
  by (cases w) (simp add: now_def demo_device_def ext_call_def demo_sys_def demo_call_def)

lemma demo_ota_job:
  "runOTAUpdate demo_device demo_cfg job demo_rebooted =
     (zero_Result\<lparr>rs_JobID := jb_ID job, rs_State := ''succeeded'', rs_StartedAt := 0, rs_FinishedAt := 0,
        rs_Stdout := ''succeeded''\<rparr>, demo_done)"
proof -
  have "Execute (ds_crypto demo_device) (ds_sys demo_device) demo_cfg demo_request demo_rebooted = (succeeded demo_request, demo_done)"
    using demo_second by (simp add: demo_device_def)
  moreover have "decodeRequest demo_device p = Some demo_request" "encodeStatus demo_device st = st_State st" for p st
    by (simp_all add: demo_device_def)
  ultimately show ?thesis
    by (simp add: runOTAUpdate_def demo_now Let_def succeeded_def status_def)
qed

theorem ota_job_success_means_committed_witness:
  "completed_file demo_cfg demo_request (txs demo_done)"
  using ota_job_success_means_committed [OF demo_ota_job, of "demo_job ''u''"] by (simp add: demo_device_def)

end
