(* ===== verification/CloudDelivery.thy ===== *)
theory CloudDelivery
  imports CloudBoundary AgentHandlers
begin

text \<open>
  Jobs between the control plane and the device: what a delivery hands out, that the device accepts
  it, what a reported result does, and the device's side of the exchange, \<^verbatim>\<open>processNextJob\<close>
  of \<^verbatim>\<open>agent/internal/agent/agent.go\<close>.
\<close>

section \<open>Delivery\<close>

definition live_job :: "go_time \<Rightarrow> Context \<Rightarrow> string \<Rightarrow> cJob \<Rightarrow> bool" where
  "live_job t tc deviceID job \<longleftrightarrow> deliverable tc deviceID job \<and> \<not> After t (jo_ExpiresAt job)"

definition delivered :: "cJob \<Rightarrow> cJob" where
  "delivered job = job\<lparr>jo_State := ''delivered'', jo_Attempt := i64 (jo_Attempt job + 1)\<rparr>"

text \<open>What the loop makes of an entry it passes: nothing, or a job marked as expired.\<close>

definition passed :: "go_time \<Rightarrow> Context \<Rightarrow> string \<Rightarrow> cJob \<Rightarrow> cJob \<Rightarrow> bool" where
  "passed t tc deviceID job job' \<longleftrightarrow>
     job' = job \<or> (deliverable tc deviceID job \<and> After t (jo_ExpiresAt job) \<and> job' = job\<lparr>jo_State := ''expired''\<rparr>)"

lemma wf_map_ConsD: "wf_map ((k, v) # m) \<Longrightarrow> wf_map m" "wf_map ((k, v) # m) \<Longrightarrow> (k', v') \<in> set m \<Longrightarrow> k' \<noteq> k"
  by (simp_all add: wf_map_def) force

text \<open>The three ways through an entry.\<close>

lemma next_job_Cons:
  obtains "\<not> deliverable tc dev j" "next_job env tc dev ((k, j) # es) s = next_job env tc dev es s"
  | "deliverable tc dev j" "\<not> live_job (c_now env) tc dev j"
      "next_job env tc dev ((k, j) # es) s = next_job env tc dev es (put_job k (j\<lparr>jo_State := ''expired''\<rparr>) s)"
  | "live_job (c_now env) tc dev j"
      "next_job env tc dev ((k, j) # es) s = (Inr (delivered j), snd (saveLocked env (put_job k (delivered j) s)))"
  by (cases "live_job (c_now env) tc dev j"; cases "deliverable tc dev j")
     (auto simp: live_job_def delivered_def Let_def split: prod.splits)

lemma next_job_none:
  "next_job env tc dev es s = (Inl err, s') \<Longrightarrow> err = ErrNotFound \<and> (\<forall>(k, j) \<in> set es. \<not> live_job (c_now env) tc dev j)"
proof (induction es arbitrary: s)
  case (Cons e es)
  obtain k j where e: "e = (k, j)" by (cases e)
  show ?case
    by (rule next_job_Cons [of tc dev j env k es s]) (use Cons in \<open>auto simp: e live_job_def\<close>)
qed simp

lemma next_job_others:
  "next_job env tc dev es s = (r, s') \<Longrightarrow> mem s' = (mem s)\<lparr>db_Jobs := db_Jobs (mem s')\<rparr>"
proof (induction es arbitrary: s)
  case (Cons e es)
  obtain k j where e: "e = (k, j)" by (cases e)
  show ?case
  proof (rule next_job_Cons [of tc dev j env k es s])
    assume "next_job env tc dev ((k, j) # es) s = next_job env tc dev es s"
    then show ?thesis using Cons by (simp add: e del: next_job.simps)
  next
    assume "next_job env tc dev ((k, j) # es) s = next_job env tc dev es (put_job k (j\<lparr>jo_State := ''expired''\<rparr>) s)"
    then have "mem s' = (mem (put_job k (j\<lparr>jo_State := ''expired''\<rparr>) s))\<lparr>db_Jobs := db_Jobs (mem s')\<rparr>"
      using Cons by (simp add: e del: next_job.simps)
    then show ?thesis by (simp add: put_job_def)
  next
    assume "next_job env tc dev ((k, j) # es) s = (Inr (delivered j), snd (saveLocked env (put_job k (delivered j) s)))"
    then have "s' = snd (saveLocked env (put_job k (delivered j) s))" using Cons.prems by (simp add: e del: next_job.simps)
    then show ?thesis by (simp add: put_job_def)
  qed
qed simp

lemma next_job_some:
  assumes "next_job env tc dev es s = (Inr job, s')" "wf_map es"
  shows "\<exists>k j. (k, j) \<in> set es \<and> live_job (c_now env) tc dev j \<and> job = delivered j \<and> mget (db_Jobs (mem s')) k = Some job"
  using assms
proof (induction es arbitrary: s)
  case (Cons e es)
  obtain k j where e: "e = (k, j)" by (cases e)
  have wf: "wf_map es" using Cons.prems(2) wf_map_ConsD(1) by (auto simp: e)
  show ?case
  proof (rule next_job_Cons [of tc dev j env k es s])
    assume "live_job (c_now env) tc dev j"
      "next_job env tc dev ((k, j) # es) s = (Inr (delivered j), snd (saveLocked env (put_job k (delivered j) s)))"
    then show ?thesis using Cons.prems(1) by (auto simp: e put_job_def simp del: next_job.simps intro!: exI [of _ k] exI [of _ j])
  next
    assume "next_job env tc dev ((k, j) # es) s = next_job env tc dev es s"
    then have "next_job env tc dev es s = (Inr job, s')" using Cons.prems(1) by (simp add: e del: next_job.simps)
    from Cons.IH [OF this wf] show ?thesis by auto
  next
    assume "next_job env tc dev ((k, j) # es) s = next_job env tc dev es (put_job k (j\<lparr>jo_State := ''expired''\<rparr>) s)"
    then have "next_job env tc dev es (put_job k (j\<lparr>jo_State := ''expired''\<rparr>) s) = (Inr job, s')"
      using Cons.prems(1) by (simp add: e del: next_job.simps)
    from Cons.IH [OF this wf] show ?thesis by auto
  qed
qed simp

text \<open>What delivery leaves of the jobs.\<close>

lemma next_job_frame:
  assumes "next_job env tc dev es s = (r, s')" "wf_map es"
    and "\<And>k j. (k, j) \<in> set es \<Longrightarrow> mget (db_Jobs (mem s)) k = Some j"
    and "mget (db_Jobs (mem s)) k = Some j"
  shows "\<exists>j'. mget (db_Jobs (mem s')) k = Some j' \<and> (passed (c_now env) tc dev j j' \<or> r = Inr j')"
  using assms
proof (induction es arbitrary: s j)
  case Nil
  from Nil(1,4) show ?case by (simp add: passed_def)
next
  case (Cons e es)
  obtain k0 j0 where e: "e = (k0, j0)" by (cases e)
  note wf = wf_map_ConsD [OF Cons.prems(2) [unfolded e]]
  have k0: "mget (db_Jobs (mem s)) k0 = Some j0" using Cons.prems(3) by (simp add: e)
  show ?case
  proof (rule next_job_Cons [of tc dev j0 env k0 es s])
    assume "next_job env tc dev ((k0, j0) # es) s = next_job env tc dev es s"
    then have "next_job env tc dev es s = (r, s')" using Cons.prems(1) by (simp add: e del: next_job.simps)
    then show ?thesis by (rule Cons.IH) (use wf(1) Cons.prems(3,4) in simp_all)
  next
    let ?s = "put_job k0 (j0\<lparr>jo_State := ''expired''\<rparr>) s"
    assume j0: "deliverable tc dev j0" "\<not> live_job (c_now env) tc dev j0"
      and "next_job env tc dev ((k0, j0) # es) s = next_job env tc dev es ?s"
    then have run: "next_job env tc dev es ?s = (r, s')" using Cons.prems(1) by (simp add: e del: next_job.simps)
    have es: "mget (db_Jobs (mem ?s)) k' = Some j'" if "(k', j') \<in> set es" for k' j'
      using Cons.prems(3) [of k' j'] wf(2) [OF that] that by (simp add: put_job_def)
    show ?thesis
    proof (cases "k = k0")
      case True
      have "\<exists>j'. mget (db_Jobs (mem s')) k = Some j' \<and> (passed (c_now env) tc dev (j0\<lparr>jo_State := ''expired''\<rparr>) j' \<or> r = Inr j')"
        by (rule Cons.IH [OF run wf(1) es]) (simp_all add: put_job_def True)
      then show ?thesis using j0 k0 Cons.prems(4) True by (auto simp: passed_def deliverable_def live_job_def)
    next
      case False
      show ?thesis by (rule Cons.IH [OF run wf(1) es]) (use Cons.prems(4) False in \<open>simp_all add: put_job_def\<close>)
    qed
  next
    assume "next_job env tc dev ((k0, j0) # es) s = (Inr (delivered j0), snd (saveLocked env (put_job k0 (delivered j0) s)))"
    then have "r = Inr (delivered j0)" "s' = snd (saveLocked env (put_job k0 (delivered j0) s))"
      using Cons.prems(1) by (simp_all add: e del: next_job.simps)
    then show ?thesis using Cons.prems(4) by (auto simp: put_job_def passed_def)
  qed
qed

text \<open>C29: A delivery hands out a live job: one of this tenant for this device, in a state that still runs and not
  expired, now marked as delivered with one attempt more, and stored so. There is no delivery only
  if there is no live job. Nothing else changes but that expired jobs are marked as such.\<close>

theorem delivers_a_live_job:
  assumes "wf_map (db_Jobs (mem s))" "NextJobForDevice env tc dev s = (r, s')"
  shows "(case r of
      Inr job \<Rightarrow> \<exists>k j. mget (db_Jobs (mem s)) k = Some j \<and> live_job (c_now env) tc dev j \<and> job = delivered j
                   \<and> mget (db_Jobs (mem s')) k = Some job
    | Inl err \<Rightarrow> err = ErrNotFound \<and> (\<forall>k j. mget (db_Jobs (mem s)) k = Some j \<longrightarrow> \<not> live_job (c_now env) tc dev j))
    \<and> mem s' = (mem s)\<lparr>db_Jobs := db_Jobs (mem s')\<rparr>
    \<and> (\<forall>k j. mget (db_Jobs (mem s)) k = Some j \<longrightarrow>
         (\<exists>j'. mget (db_Jobs (mem s')) k = Some j' \<and> (passed (c_now env) tc dev j j' \<or> r = Inr j')))"
proof -
  let ?es = "range_map (c_order env) (db_Jobs (mem s))"
  have run: "next_job env tc dev ?es s = (r, s')" using assms(2) by (simp add: NextJobForDevice_def)
  have mem: "(k, j) \<in> set ?es \<longleftrightarrow> mget (db_Jobs (mem s)) k = Some j" for k j using assms(1) by (simp add: mget_iff_set)
  have kept: "\<exists>j'. mget (db_Jobs (mem s')) k = Some j' \<and> (passed (c_now env) tc dev j j' \<or> r = Inr j')"
    if "mget (db_Jobs (mem s)) k = Some j" for k j
    by (rule next_job_frame [OF run wf_range_map [OF assms(1)] _ that]) (simp only: mem)
  show ?thesis
  proof (cases r)
    case (Inl err)
    then show ?thesis using next_job_none [OF run [unfolded Inl]] next_job_others [OF run] kept
      by (auto simp: mget_iff_set [OF assms(1)])
  next
    case (Inr job)
    then show ?thesis
      using next_job_some [OF run [unfolded Inr] wf_range_map [OF assms(1)], unfolded mem] next_job_others [OF run] kept by simp
  qed
qed

theorem delivers_a_live_job_witness:
  "\<exists>k j. mget (db_Jobs (mem demo_db)) k = Some j \<and> live_job (c_now demo_cenv) (device_context ''b'') ''d2'' j"
proof -
  let ?p = "NextJobForDevice demo_cenv (device_context ''b'') ''d2'' demo_db"
  have p: "NextJobForDevice demo_cenv (device_context ''b'') ''d2'' demo_db = (Inr (delivered (demo_cjob ''j2'' ''b'' ''d2'' ''queued'')), snd ?p)"
    by code_simp
  have "wf_map (db_Jobs (mem demo_db))" by code_simp
  from delivers_a_live_job [OF this p, THEN conjunct1] show ?thesis by auto
qed

section \<open>Well-formed jobs\<close>

text \<open>
  What every stored job is: filed under its identifier, of a known type, in one of the seven states that
  occur (no operation produces \<^verbatim>\<open>cancelled\<close>), with its identity complete and a digest of
  its payload.
\<close>

definition job_states :: "string list" where
  "job_states = [''queued'', ''delivered'', ''running'', ''rebooting'', ''succeeded'', ''failed'', ''expired'']"

definition job_data :: "(string \<Rightarrow> string) \<Rightarrow> cJob \<Rightarrow> bool" where
  "job_data sha j \<longleftrightarrow> jo_Type j \<in> set AllowedTypes \<and> jo_PayloadDigest j = hexEncode (sha (jo_Payload j))"

definition job_typed :: "(string \<Rightarrow> string) \<Rightarrow> string \<times> cJob \<Rightarrow> bool" where
  "job_typed sha = (\<lambda>(k, j). job_data sha j \<and> jo_ID j = k \<and> k \<noteq> [] \<and> jo_TenantID j \<noteq> [] \<and> jo_DeviceID j \<noteq> []
     \<and> jo_State j \<in> set job_states)"

definition store_typed :: "(string \<Rightarrow> string) \<Rightarrow> cdata \<Rightarrow> bool" where
  "store_typed sha d \<longleftrightarrow> (\<forall>e \<in> set (db_Jobs d). job_typed sha e) \<and> (\<forall>(k, dv) \<in> set (db_Devices d). k \<noteq> [])"

text \<open>The jobs the handlers create come from \<open>jobs_New\<close>.\<close>

fun typed_op :: "(string \<Rightarrow> string) \<Rightarrow> operation \<Rightarrow> bool" where
  "typed_op sha (OpCreateJob j) \<longleftrightarrow> job_data sha j \<and> jo_State j = ''queued''"
| "typed_op sha _ \<longleftrightarrow> True"

lemma jobs_New_typed: "jobs_New env dev ty payload by' ttl = Inr j \<Longrightarrow> typed_op (c_sha256 env) (OpCreateJob j)"
  by (auto simp: jobs_New_def job_data_def split: if_splits)

lemma set_mput_subset: "set (mput k v m) \<subseteq> insert (k, v) (set m)"
  by (induction m) (auto simp: mput_def)

lemma set_mdel_subset: "set (mdel k m) \<subseteq> set m"
  by (auto simp: set_mdel_iff)

lemma store_typed_put_job:
  "store_typed sha d \<Longrightarrow> job_typed sha (k, j) \<Longrightarrow> store_typed sha (d\<lparr>db_Jobs := mput k j (db_Jobs d)\<rparr>)"
  using set_mput_subset [of k j "db_Jobs d"] by (auto simp: store_typed_def)

lemma store_typed_put_device:
  "store_typed sha d \<Longrightarrow> k \<noteq> [] \<Longrightarrow> store_typed sha (d\<lparr>db_Devices := mput k dv (db_Devices d)\<rparr>)"
  using set_mput_subset [of k dv "db_Devices d"] by (auto simp: store_typed_def)

lemma store_typed_frame:
  "db_Jobs d' = db_Jobs d \<Longrightarrow> db_Devices d' = db_Devices d \<Longrightarrow> store_typed sha d' = store_typed sha d"
  by (simp add: store_typed_def)

lemma store_typed_refresh [simp]: "store_typed sha (refresh_campaign tc k d) = store_typed sha d"
  by (intro store_typed_frame) (simp_all add: refresh_campaign_def split: option.splits)

lemma store_typed_forget: "store_typed sha d \<Longrightarrow> store_typed sha (forget_device tc k d)"
  by (auto simp: store_typed_def forget_device_def set_mfilter set_mdel_iff)

lemma store_typed_mget:
  "store_typed sha d \<Longrightarrow> mget (db_Jobs d) k = Some j \<Longrightarrow> job_typed sha (k, j)"
  "store_typed sha d \<Longrightarrow> mget (db_Devices d) k' = Some dv \<Longrightarrow> k' \<noteq> []"
  by (auto simp: store_typed_def dest!: mget_SomeD)

lemma NewID_nonempty [simp]: "NewID env n pre \<noteq> []"
  by (simp add: NewID_def)

lemma store_typed_CreateJob:
  assumes "store_typed sha (mem s)" "tc_TenantID tc \<noteq> []" "typed_op sha (OpCreateJob j)"
  shows "store_typed sha (mem (snd (CreateJob env tc j s)))"
proof (cases "owned_device (tc_TenantID tc) (mem s) (jo_DeviceID j)")
  case True
  then have "jo_DeviceID j \<noteq> []" using store_typed_mget(2) [OF assms(1)] by (auto simp: owned_device_iff)
  then have "job_typed sha (NewID env 0 ''job'', j\<lparr>jo_ID := NewID env 0 ''job'', jo_TenantID := tc_TenantID tc, jo_CreatedAt := c_now env,
      jo_State := ''queued'', ApprovalStatus := (if ApprovalStatus j = [] then ''approved'' else ApprovalStatus j)\<rparr>)"
    using assms(2,3) by (simp add: job_typed_def job_data_def job_states_def)
  from store_typed_put_job [OF assms(1) this] show ?thesis
    using assms True by (auto simp: CreateJob_def put_job_def Let_def split: option.splits)
qed (use assms in \<open>simp add: CreateJob_def\<close>)

lemma store_typed_next_job:
  "\<forall>e \<in> set es. job_typed sha e \<Longrightarrow> store_typed sha (mem s) \<Longrightarrow> store_typed sha (mem (snd (next_job env tc dev es s)))"
proof (induction es arbitrary: s)
  case (Cons e es)
  obtain k j where e: "e = (k, j)" by (cases e)
  have typed: "job_typed sha (k, j\<lparr>jo_State := ''expired''\<rparr>)" "job_typed sha (k, delivered j)"
    using Cons.prems(1) by (auto simp: e job_typed_def job_data_def job_states_def delivered_def)
  show ?case
    by (rule next_job_Cons [of tc dev j env k es s])
       (use Cons typed in \<open>simp_all add: e put_job_def store_typed_put_job del: next_job.simps\<close>)
qed simp

lemma store_typed_CompleteJob:
  assumes "store_typed sha (mem s)"
  shows "store_typed sha (mem (snd (CompleteJob env tc k raw s)))"
proof (cases "mget (db_Jobs (mem s)) k")
  case (Some j)
  then have "job_typed sha (k, j\<lparr>jo_State := completed_state (c_reportedState env raw), jo_Result := raw\<rparr>)"
    using store_typed_mget(1) [OF assms Some] by (auto simp: job_typed_def job_data_def job_states_def completed_state_def)
  from store_typed_put_job [OF assms this] show ?thesis
    using assms Some by (simp add: CompleteJob_def put_job_def Let_def)
qed (use assms in \<open>simp add: CompleteJob_def\<close>)

lemma store_typed_devices:
  assumes "store_typed sha (mem s)"
  shows "store_typed sha (mem (snd (CreateDevice env dv s)))" "store_typed sha (mem (snd (UpdateDevice env dv s)))"
    "store_typed sha (mem (snd (DeleteDevice env tc k s)))" "store_typed sha (mem (snd (DeleteJob env tc k s)))"
  using assms
  by (auto simp: CreateDevice_def UpdateDevice_def DeleteDevice_def put_device_def Let_def store_typed_put_device store_typed_mget
      store_typed_forget DeleteJob_def split: option.splits)
     (auto simp: store_typed_def set_mdel_iff)

lemma add_metrics_frame:
  "db_Jobs (mem (snd (add_metrics env tc ms s))) = db_Jobs (mem s) \<and> db_Devices (mem (snd (add_metrics env tc ms s))) = db_Devices (mem s)"
  by (induction ms arbitrary: s) (auto split: option.splits)

lemma other_ops_frame:
  "\<lbrakk>case op of OpCreateJob j \<Rightarrow> False | OpDeleteJob k \<Rightarrow> False | OpNextJob k \<Rightarrow> False | OpCompleteJob k raw \<Rightarrow> False
      | OpCreateDevice dv \<Rightarrow> False | OpUpdateDevice dv \<Rightarrow> False | OpDeleteDevice k \<Rightarrow> False | _ \<Rightarrow> True\<rbrakk> \<Longrightarrow>
    db_Jobs (mem (snd (perform env tc op s))) = db_Jobs (mem s) \<and> db_Devices (mem (snd (perform env tc op s))) = db_Devices (mem s)"
  by (cases op) (simp_all add: SavePlatformSettings_def ResetPlatformSettings_def SaveAIConfiguration_def DeleteAIConfiguration_def
      CreateEnrollmentToken_def AddTelemetry_def add_metrics_frame SaveInventory_def CreateOTACampaign_def UpdateOTACampaign_def
      put_campaign_def Audit_def Let_def split: option.splits sum.splits)

lemma perform_typed:
  assumes "store_typed sha (mem s)" "typed_op sha op" "tc_TenantID tc \<noteq> []"
  shows "store_typed sha (mem (snd (perform env tc op s)))"
proof (cases "case op of OpCreateJob j \<Rightarrow> False | OpDeleteJob k \<Rightarrow> False | OpNextJob k \<Rightarrow> False | OpCompleteJob k raw \<Rightarrow> False
      | OpCreateDevice dv \<Rightarrow> False | OpUpdateDevice dv \<Rightarrow> False | OpDeleteDevice k \<Rightarrow> False | _ \<Rightarrow> True")
  case True
  from other_ops_frame [OF this, of env tc s] show ?thesis using assms(1) by (simp add: store_typed_def)
next
  case False
  have "\<forall>e \<in> set (range_map (c_order env) (db_Jobs (mem s))). job_typed sha e" using assms(1) by (simp add: store_typed_def)
  note nj = store_typed_next_job [OF this assms(1), of env tc, folded NextJobForDevice_def]
  from False show ?thesis
    using assms store_typed_CreateJob [OF assms(1,3)] store_typed_CompleteJob [OF assms(1)] store_typed_devices [OF assms(1)] nj
    by (cases op) simp_all
qed

text \<open>C22: Jobs stay well formed: over any sequence of calls of any tenants, whose new jobs were made by
  \<^verbatim>\<open>jobs.New\<close>, every stored job keeps its identity, a type of the allowed ones, one of the
  seven states and a digest that matches its payload.\<close>

theorem jobs_stay_well_formed:
  assumes "store_typed sha (mem s)" "\<forall>c \<in> set calls. typed_op sha (call_op c) \<and> tc_TenantID (call_tenant c) \<noteq> []"
  shows "store_typed sha (mem (run_calls answer calls s))"
  using assms
proof (induction calls arbitrary: s)
  case (Cons c calls)
  have "store_typed sha (mem (snd (answer c s)))" using perform_typed Cons.prems by (simp add: answer_def)
  then show ?case using Cons by simp
qed simp

theorem jobs_stay_well_formed_witness: "store_typed (\<lambda>s. s) (mem (run_calls answer demo_calls demo_db))"
  by (rule jobs_stay_well_formed)
     (simp_all add: demo_calls_def demo_tc_def demo_db_def no_data_def store_typed_def job_typed_def job_data_def demo_cjob_def
       job_states_def AllowedTypes_def)

end
