(* ===== verification/AgentTransport.thy ===== *)
theory AgentTransport
  imports AgentHandlers
begin

text \<open>
  The agent's side of the wire: envelopes, \<^verbatim>\<open>agent/internal/protocol/types.go\<close>, the client
  with its retries, \<^verbatim>\<open>agent/internal/transport/client.go\<close>, and the exchange of jobs and
  messages in a tick, \<^verbatim>\<open>agent/internal/agent/agent.go\<close>. The HTTP round trip (with the
  building of the request) and the timer are parameters on the state \<open>'n\<close> of the network; TLS is
  below them. JSON texts are given by encoding and decoding functions.
\<close>

section \<open>Envelopes\<close>

definition edge_version :: string where "edge_version = ''edge.v1''"

record agent_envelope =
  ae_ProtocolVersion :: string
  ae_MessageID :: string
  ae_TenantID :: string
  ae_DeviceID :: string
  ParentGatewayID :: string
  ae_Sequence :: u64
  CreatedUnixNano :: int
  ae_PayloadSchemaVersion :: string
  ae_PayloadDigest :: string
  ae_Payload :: string

text \<open>\<open>random\<close> are the sixteen bytes of the identifier, \<open>raw\<close> the JSON text of the payload.\<close>

definition NewEnvelope ::
  "(string \<Rightarrow> string) \<Rightarrow> go_time \<Rightarrow> string \<Rightarrow> string \<Rightarrow> string \<Rightarrow> string \<Rightarrow> u64 \<Rightarrow> string result \<Rightarrow> agent_envelope result" where
  "NewEnvelope sha t random tenantID deviceID schema sequence raw =
     (case raw of
        Inl err \<Rightarrow> Inl err
      | Inr raw \<Rightarrow>
          Inr \<lparr>ae_ProtocolVersion = edge_version, ae_MessageID = hexEncode random, ae_TenantID = tenantID,
               ae_DeviceID = deviceID, ParentGatewayID = [], ae_Sequence = sequence,
               CreatedUnixNano = i64 (t - unix_epoch), ae_PayloadSchemaVersion = schema,
               ae_PayloadDigest = hexEncode (sha raw), ae_Payload = raw\<rparr>)"

definition agent_Validate :: "(string \<Rightarrow> string) \<Rightarrow> go_time \<Rightarrow> duration \<Rightarrow> agent_envelope \<Rightarrow> go_error option" where
  "agent_Validate sha t maxSkew e =
     (if ae_ProtocolVersion e \<noteq> edge_version then Some (ErrorString (''unsupported protocol version '' @ quote (ae_ProtocolVersion e)))
      else if ae_MessageID e = [] then Some (ErrorString ''missing message_id'')
      else if After (Unix0 (CreatedUnixNano e)) (time_Add t maxSkew) \<or> Before (Unix0 (CreatedUnixNano e)) (time_Add t (- maxSkew))
      then Some (ErrorString ''message timestamp outside allowed skew'')
      else if hexEncode (sha (ae_Payload e)) \<noteq> ae_PayloadDigest e then Some (ErrorString ''payload digest mismatch'')
      else None)"

section \<open>The client\<close>

record wire_request =
  wr_Method :: string
  wr_Path :: string
  wr_TenantID :: string
  wr_DeviceID :: string
  wr_Body :: string

text \<open>\<open>ws_ReadErr\<close> is the error of reading the body of the response.\<close>

record wire_response =
  ws_StatusCode :: int
  ws_Status :: string
  ws_Body :: string
  ws_ReadErr :: "go_error option"

record 'n network =
  send :: "wire_request \<Rightarrow> 'n \<Rightarrow> wire_response result \<times> 'n"
  sleep :: "duration \<Rightarrow> 'n \<Rightarrow> go_error option \<times> 'n"
  jitter :: "'n \<Rightarrow> duration \<times> 'n"
  stamp_of :: "'n \<Rightarrow> (go_time \<times> string) \<times> 'n"

record client =
  cl_TenantID :: string
  cl_DeviceID :: string
  cl_sha :: "string \<Rightarrow> string"
  encode_envelope :: "agent_envelope \<Rightarrow> string"

definition max_body :: nat where "max_body = 1048576"

definition accepted :: "wire_response \<Rightarrow> bool" where
  "accepted res \<longleftrightarrow> 200 \<le> ws_StatusCode res \<and> ws_StatusCode res < 300"

definition read_body :: "wire_response \<Rightarrow> string result" where
  "read_body res = (case ws_ReadErr res of Some err \<Rightarrow> Inl err | None \<Rightarrow> Inr (take max_body (ws_Body res)))"

text \<open>One attempt: what is returned at once, for an accepted response, or the error to remember for the next attempt.\<close>

definition attempt_result :: "wire_response result \<Rightarrow> string result result" where
  "attempt_result r =
     (case r of
        Inl err \<Rightarrow> Inl err
      | Inr res \<Rightarrow> if accepted res then Inr (read_body res)
                   else Inl (ErrorString (''server returned '' @ ws_Status res)))"

definition backoff :: "nat \<Rightarrow> duration \<Rightarrow> duration" where
  "backoff attempt j = 2 ^ attempt * Second + j"

text \<open>
  The loop over the attempts that are left, \<open>n\<close> of them. The wait follows every failed
  attempt, the last one too. \<open>prev\<close> is the error of the attempt before.
\<close>

fun attempts :: "'n network \<Rightarrow> wire_request \<Rightarrow> nat \<Rightarrow> nat \<Rightarrow> string result \<Rightarrow> 'n \<Rightarrow> string result \<times> 'n" where
  "attempts net req attempt 0 prev w = (prev, w)"
| "attempts net req attempt (Suc n) prev w =
     (let (r, w) = send net req w in
      case attempt_result r of
        Inr returned \<Rightarrow> (returned, w)
      | Inl err \<Rightarrow>
          (let (j, w) = jitter net w; (cancelled, w) = sleep net (backoff attempt j) w in
           case cancelled of
             Some e \<Rightarrow> (Inl e, w)
           | None \<Rightarrow> attempts net req (Suc attempt) n (Inl err) w))"

definition max_attempts :: nat where "max_attempts = 4"

text \<open>The sequence number is taken before the payload is encoded. Posting an envelope has no device headers.\<close>

definition Client_PostEnvelope ::
  "'n network \<Rightarrow> client \<Rightarrow> string \<Rightarrow> string \<Rightarrow> string result \<Rightarrow> u64 \<Rightarrow> 'n \<Rightarrow> string result \<times> u64 \<times> 'n" where
  "Client_PostEnvelope net cl path schema raw sequence w =
     (let sequence = sequence + 1; ((t, random), w) = stamp_of net w in
      case NewEnvelope (cl_sha cl) t random (cl_TenantID cl) (cl_DeviceID cl) schema sequence raw of
        Inl err \<Rightarrow> (Inl err, sequence, w)
      | Inr e \<Rightarrow>
          (let (r, w) = attempts net \<lparr>wr_Method = ''POST'', wr_Path = path, wr_TenantID = [], wr_DeviceID = [],
                                      wr_Body = encode_envelope cl e\<rparr> 0 max_attempts (Inr []) w in
           (r, sequence, w)))"

definition deviceJSON :: "'n network \<Rightarrow> client \<Rightarrow> string \<Rightarrow> string \<Rightarrow> string \<Rightarrow> 'n \<Rightarrow> string result \<times> 'n" where
  "deviceJSON net cl verb path body w =
     (let (r, w) = send net \<lparr>wr_Method = verb, wr_Path = path, wr_TenantID = cl_TenantID cl, wr_DeviceID = cl_DeviceID cl,
                             wr_Body = body\<rparr> w in
      (case r of
         Inl err \<Rightarrow> Inl err
       | Inr res \<Rightarrow>
           (case read_body res of
              Inl err \<Rightarrow> Inl err
            | Inr responseBody \<Rightarrow>
                if \<not> accepted res then Inl (ErrorString (''server returned '' @ ws_Status res @ '': '' @ responseBody))
                else Inr responseBody), w))"

text \<open>An empty response body leaves the output as it was: no status.\<close>

definition Client_Status :: "'n network \<Rightarrow> client \<Rightarrow> (string \<Rightarrow> string result) \<Rightarrow> 'n \<Rightarrow> go_error option \<times> 'n" where
  "Client_Status net cl decode w =
     (let (r, w) = deviceJSON net cl ''GET'' ''/v1/status'' [] w in
      (case r of
         Inl err \<Rightarrow> Some err
       | Inr body \<Rightarrow>
           (case (if body = [] then Inr [] else decode body) of
              Inl err \<Rightarrow> Some err
            | Inr st \<Rightarrow> if st \<noteq> ''accepted'' then Some (ErrorString (''unexpected device status '' @ quote st)) else None), w))"

section \<open>The tick of the agent\<close>

text \<open>
  \<open>decode_job\<close> reads the answer to the request for a job, \<open>encode_result\<close> writes a result.
  The time limit of the job's context is not modelled.
\<close>

record job_codec =
  decode_job :: "string \<Rightarrow> Job option result"
  encode_result :: "string \<Rightarrow> Result \<Rightarrow> string"

definition processNextJob ::
  "'n network \<Rightarrow> client \<Rightarrow> job_codec \<Rightarrow> 'w job_world \<Rightarrow> 'n \<Rightarrow> jobs_file \<Rightarrow> 'w \<Rightarrow> go_error option \<times> 'n \<times> jobs_file \<times> 'w" where
  "processNextJob net cl codec jw n f w =
     (let (r, n) = deviceJSON net cl ''GET'' ''/v1/jobs/next'' [] n in
      case r of
        Inl err \<Rightarrow> (Some err, n, f, w)
      | Inr body \<Rightarrow>
          (case (if body = [] then Inr None else decode_job codec body) of
             Inl err \<Rightarrow> (Some err, n, f, w)
           | Inr None \<Rightarrow> (None, n, f, w)
           | Inr (Some job) \<Rightarrow>
               (let (result, f, w) = Registry_Execute jw job f w;
                    (r, n) = deviceJSON net cl ''POST'' ''/v1/jobs/result'' (encode_result codec (jb_ID job) result) n in
                (case r of Inl err \<Rightarrow> Some err | Inr reply \<Rightarrow> None, n, f, w))))"

section \<open>Retries are bounded\<close>

text \<open>A network that counts what is asked of it.\<close>

definition counting :: "'n network \<Rightarrow> ('n \<times> nat \<times> duration) network" where
  "counting net =
     \<lparr>send = (\<lambda>req (w, sent, slept). let (r, w) = send net req w in (r, w, Suc sent, slept)),
      sleep = (\<lambda>d (w, sent, slept). let (e, w) = sleep net d w in (e, w, sent, slept + d)),
      jitter = (\<lambda>(w, c). let (j, w) = jitter net w in (j, w, c)),
      stamp_of = (\<lambda>(w, c). let (t, w) = stamp_of net w in (t, w, c))\<rparr>"

lemma counting_sim:
  "attempts (counting net) req a n prev (w, sent, slept) = (r, w', sent', slept') \<Longrightarrow> attempts net req a n prev w = (r, w')"
  by (induction n arbitrary: a prev w sent slept)
     (auto simp: counting_def Let_def split: prod.splits sum.splits option.splits)

lemma attempts_bounded:
  assumes "\<And>w. 0 \<le> fst (jitter net w) \<and> fst (jitter net w) < Second div 4"
  shows "attempts (counting net) req a n prev (w, sent, slept) = (r, w', sent', slept') \<Longrightarrow>
    sent' \<le> sent + n \<and> slept' \<le> slept + (2 ^ (a + n) - 2 ^ a) * Second + int n * (Second div 4)
    \<and> sent + min 1 n \<le> sent'"
proof (induction n arbitrary: a prev w sent slept)
  case 0
  then show ?case by simp
next
  case (Suc n)
  obtain res w1 where res: "send net req w = (res, w1)" by fastforce
  show ?case
  proof (cases "attempt_result res")
    case (Inr body)
    have "(2 :: int) ^ a \<le> 2 ^ (a + Suc n)" by (intro power_increasing) simp_all
    then have "0 \<le> (2 ^ (a + Suc n) - 2 ^ a) * Second" by (simp add: Second_def)
    moreover have "0 \<le> int (Suc n) * (Second div 4)" by (simp add: Second_def)
    ultimately show ?thesis using Suc.prems Inr res by (auto simp: counting_def Let_def)
  next
    case (Inl err)
    obtain j w2 where j: "jitter net w1 = (j, w2)" by fastforce
    obtain c w3 where c: "sleep net (backoff a j) w2 = (c, w3)" by fastforce
    have jb: "j \<le> Second div 4" using assms [of w1] j by simp
    have step: "backoff a j \<le> 2 ^ a * Second + Second div 4" using jb by (simp add: backoff_def)
    have split: "(2 ^ (a + Suc n) - 2 ^ a) * Second = (2 ^ (Suc a + n) - 2 ^ Suc a) * Second + 2 ^ a * Second"
      by (simp add: algebra_simps)
    show ?thesis
    proof (cases c)
      case (Some e)
      have "(2 :: int) ^ Suc a \<le> 2 ^ (Suc a + n)" by (intro power_increasing) simp_all
      then have "0 \<le> (2 ^ (Suc a + n) - 2 ^ Suc a) * Second" by (simp add: Second_def)
      moreover have "0 \<le> int n * (Second div 4)" by (simp add: Second_def)
      moreover have "slept' = slept + backoff a j" "sent' = Suc sent"
        using Suc.prems res Inl j c Some by (simp_all add: counting_def Let_def)
      ultimately show ?thesis using step unfolding split by (simp add: algebra_simps)
    next
      case None
      have rec: "attempts (counting net) req (Suc a) n (Inl err) (w3, Suc sent, slept + backoff a j) = (r, w', sent', slept')"
        using Suc.prems res Inl j c None by (simp add: counting_def Let_def)
      from Suc.IH [OF rec] step show ?thesis unfolding split by (simp add: algebra_simps)
    qed
  qed
qed

text \<open>C36: Posting a message makes at most four requests and waits at most sixteen seconds, whatever the
  network answers; if the payload could be encoded, at least one request is made.\<close>

theorem posting_is_bounded:
  assumes "\<And>w. 0 \<le> fst (jitter net w) \<and> fst (jitter net w) < Second div 4"
    and "Client_PostEnvelope (counting net) cl path schema raw sq (w, 0, 0) = (r, sq', w', sent, slept)"
  shows "sent \<le> 4 \<and> slept \<le> 16 * Second \<and> (\<forall>body. raw = Inr body \<longrightarrow> 1 \<le> sent) \<and> sq' = sq + 1"
proof (cases raw)
  case (Inl err)
  then show ?thesis using assms(2)
    by (auto simp: Client_PostEnvelope_def NewEnvelope_def counting_def Let_def Second_def split: prod.splits)
next
  case (Inr body)
  obtain t random w1 where t: "stamp_of net w = ((t, random), w1)" by (metis surj_pair)
  obtain e where e: "NewEnvelope (cl_sha cl) t random (cl_TenantID cl) (cl_DeviceID cl) schema (sq + 1) raw = Inr e"
    using Inr by (simp add: NewEnvelope_def)
  have "attempts (counting net) \<lparr>wr_Method = ''POST'', wr_Path = path, wr_TenantID = [], wr_DeviceID = [],
      wr_Body = encode_envelope cl e\<rparr> 0 max_attempts (Inr []) (w1, 0, 0) = (r, w', sent, slept)" "sq' = sq + 1"
    using assms(2) t e by (auto simp: Client_PostEnvelope_def counting_def Let_def split: prod.splits)
  from attempts_bounded [OF assms(1) this(1)] this(2) show ?thesis by (simp add: max_attempts_def Second_def)
qed

text \<open>A network that refuses everything.\<close>

definition demo_net :: "unit network" where
  "demo_net = \<lparr>send = (\<lambda>req w. (Inr \<lparr>ws_StatusCode = 503, ws_Status = ''503'', ws_Body = [], ws_ReadErr = None\<rparr>, w)), sleep = (\<lambda>d w. (None, w)),
     jitter = (\<lambda>w. (0, w)), stamp_of = (\<lambda>w. ((0, ''r''), w))\<rparr>"

definition demo_client :: client where
  "demo_client = \<lparr>cl_TenantID = ''a'', cl_DeviceID = ''d1'', cl_sha = (\<lambda>s. s), encode_envelope = ae_Payload\<rparr>"

lemma demo_post: "Client_PostEnvelope (counting demo_net) demo_client ''/v1/heartbeat'' ''heartbeat.v1'' (Inr ''x'') 0 ((), 0, 0)
    = (Inl (ErrorString ''server returned 503''), 1, (), 4, 15 * Second)"
  by code_simp

theorem posting_is_bounded_witness: "(4 :: nat) \<le> 4 \<and> 15 * Second \<le> 16 * Second"
proof -
  have "0 \<le> fst (jitter demo_net w) \<and> fst (jitter demo_net w) < Second div 4" for w
    by (simp add: demo_net_def Second_def)
  from posting_is_bounded [OF this demo_post] show ?thesis by simp
qed

end
