(* ===== verification/GoJSON.thy ===== *)
theory GoJSON
  imports GoStrings
begin

text \<open>
  How \<^verbatim>\<open>encoding/json\<close> writes a raw message into the text of a larger value, as \<^verbatim>\<open>writeJSON\<close> of
  \<^verbatim>\<open>server/server.go\<close> does with the payload of a job: white space between the tokens is left out, and
  the characters that HTML treats specially and the two line separators of Unicode are written as escapes.
  A string holds the bytes of the text.
\<close>

section \<open>Compaction\<close>

text \<open>Where a byte of a JSON text stands: between tokens or in one, in a text literal, or after a backslash there.\<close>

datatype json_place = Outside | InText | AfterBackslash

fun next_place :: "json_place \<Rightarrow> char \<Rightarrow> json_place" where
  "next_place Outside c = (if c = CHR 0x22 then InText else Outside)"
| "next_place InText c = (if c = CHR 0x22 then Outside else if c = CHR 0x5C then AfterBackslash else InText)"
| "next_place AfterBackslash c = InText"

definition json_space :: "char \<Rightarrow> bool" where
  "json_space c \<longleftrightarrow> c \<in> {CHR '' '', CHR 0x09, CHR 0x0A, CHR 0x0D}"

definition html_escape :: "char \<Rightarrow> string option" where
  "html_escape c =
     (if c = CHR ''<'' then Some ([CHR 0x5C] @ ''u003c'')
      else if c = CHR ''>'' then Some ([CHR 0x5C] @ ''u003e'')
      else if c = CHR ''&'' then Some ([CHR 0x5C] @ ''u0026'')
      else None)"

definition separator_escape :: "string \<Rightarrow> string option" where
  "separator_escape s =
     (if prefix [CHR 0xE2, CHR 0x80, CHR 0xA8] s then Some ([CHR 0x5C] @ ''u2028'')
      else if prefix [CHR 0xE2, CHR 0x80, CHR 0xA9] s then Some ([CHR 0x5C] @ ''u2029'')
      else None)"

function compact_from :: "json_place \<Rightarrow> string \<Rightarrow> string" where
  "compact_from p [] = []"
| "compact_from p (c # cs) =
     (case html_escape c of
        Some e \<Rightarrow> e @ compact_from (next_place p c) cs
      | None \<Rightarrow>
          (case separator_escape (c # cs) of
             Some e \<Rightarrow> e @ compact_from (next_place p c) (drop 2 cs)
           | None \<Rightarrow>
               if p = Outside \<and> json_space c then compact_from p cs
               else c # compact_from (next_place p c) cs))"
  by pat_completeness auto
termination by (relation "measure (length \<circ> snd)") auto

definition json_compact :: "string \<Rightarrow> string" where
  "json_compact = compact_from Outside"

section \<open>Texts that stay as they are\<close>

fun places :: "json_place \<Rightarrow> string \<Rightarrow> json_place list" where
  "places p [] = []"
| "places p (c # cs) = p # places (next_place p c) cs"

text \<open>No character that is escaped, and no white space outside of text literals.\<close>

definition stays :: "json_place \<Rightarrow> string \<Rightarrow> bool" where
  "stays p s \<longleftrightarrow>
     CHR ''<'' \<notin> set s \<and> CHR ''>'' \<notin> set s \<and> CHR ''&'' \<notin> set s
   \<and> \<not> sublist [CHR 0xE2, CHR 0x80, CHR 0xA8] s \<and> \<not> sublist [CHR 0xE2, CHR 0x80, CHR 0xA9] s
   \<and> (\<forall>(pl, c) \<in> set (zip (places p s) s). pl = Outside \<longrightarrow> \<not> json_space c)"

definition plain_json :: "string \<Rightarrow> bool" where
  "plain_json = stays Outside"

lemma stays_Nil [simp]: "stays p []"
  by (simp add: stays_def)

lemma stays_Cons [simp]:
  "stays p (c # cs) \<longleftrightarrow> html_escape c = None \<and> separator_escape (c # cs) = None \<and> \<not> (p = Outside \<and> json_space c)
     \<and> stays (next_place p c) cs"
  by (auto simp: stays_def html_escape_def separator_escape_def sublist_Cons_right)

lemma escapes_start: "html_escape c = Some e \<Longrightarrow> \<exists>r. e = CHR 0x5C # r" "separator_escape s = Some e \<Longrightarrow> \<exists>r. e = CHR 0x5C # r"
  by (auto simp: html_escape_def separator_escape_def split: if_splits)

lemma escaped_char: "html_escape c = Some e \<Longrightarrow> c \<noteq> CHR 0x5C" "separator_escape (c # cs) = Some e \<Longrightarrow> c \<noteq> CHR 0x5C"
  by (auto simp: html_escape_def separator_escape_def split: if_splits)

text \<open>What is left of a text outside of literals does not start with white space.\<close>

lemma compact_starts: "compact_from p s = c # r \<Longrightarrow> p = Outside \<Longrightarrow> \<not> json_space c"
proof (induction s arbitrary: c r p)
  case (Cons d ds)
  show ?case
  proof (cases "html_escape d")
    case (Some e)
    then show ?thesis using Cons.prems escapes_start(1) [OF Some] by (auto simp: json_space_def)
  next
    case None
    note html = None
    show ?thesis
    proof (cases "separator_escape (d # ds)")
      case (Some e)
      then show ?thesis using html Cons.prems escapes_start(2) [OF Some] by (auto simp: json_space_def)
    next
      case None
      then show ?thesis using html Cons by (auto split: if_splits)
    qed
  qed
qed simp

lemma compact_from_same: "compact_from p s = s \<longleftrightarrow> stays p s"
proof (induction p s rule: compact_from.induct)
  case (2 p c cs)
  show ?case
  proof (cases "html_escape c")
    case (Some e)
    then show ?thesis using escapes_start(1) [OF Some] escaped_char(1) [OF Some] by auto
  next
    case None
    note html = None
    show ?thesis
    proof (cases "separator_escape (c # cs)")
      case (Some e)
      then show ?thesis using html escapes_start(2) [OF Some] escaped_char(2) [OF Some] by auto
    next
      case None
      then show ?thesis using html 2 compact_starts [of Outside cs c cs] by auto
    qed
  qed
qed simp

lemma json_compact_same: "json_compact s = s \<longleftrightarrow> plain_json s"
  by (simp add: json_compact_def plain_json_def compact_from_same)

end
