(* ===== verification/EndToEnd.thy ===== *)
theory EndToEnd
  imports CloudDelivery AgentTransport GoJSON
begin

text \<open>
  The agent against the control plane: envelopes and jobs as they travel between the two programs,
  and the exchange of one job over a network that may lose the request or the answer. The JSON texts
  in between are parameters with their round-trip laws as hypotheses.
\<close>

section \<open>Messages on the wire\<close>

text \<open>
  The names of the fields agree but for the time of creation, which the control plane reads into
  its second time field, and the parent gateway, which it does not read. \<open>wire\<close> is what
  becomes of a raw payload on the way.
\<close>

definition envelope_on_wire :: "(string \<Rightarrow> string) \<Rightarrow> agent_envelope \<Rightarrow> Envelope" where
  "envelope_on_wire wire e =
     \<lparr>ProtocolVersion = ae_ProtocolVersion e, MessageID = ae_MessageID e, CorrelationID = [], en_TenantID = ae_TenantID e,
      en_DeviceID = ae_DeviceID e, GatewayID = [], Sequence = ae_Sequence e, TimestampUnixNano = 0,
      LegacyCreatedUnixNano = CreatedUnixNano e, PayloadSchemaVersion = ae_PayloadSchemaVersion e,
      en_PayloadDigest = ae_PayloadDigest e, en_Payload = wire (ae_Payload e)\<rparr>"

text \<open>C20: The gateway accepts the envelopes of the agent: an envelope made at one time passes validation at another
  exactly if the two clocks are at most ten minutes apart, its payload having been encoded compactly,
  as the agent does. So a device whose clock is off by more is shut out.\<close>

theorem agent_envelopes_are_accepted:
  assumes "NewEnvelope sha t random tenant dev schema sq raw = Inr e" "random \<noteq> []"
    and "i64 (t - unix_epoch) = t - unix_epoch" "wire (ae_Payload e) = ae_Payload e"
  shows "Envelope_Validate sha t' envelope_skew (envelope_on_wire wire e) = None
    \<longleftrightarrow> t' - 10 * Minute \<le> t \<and> t \<le> t' + 10 * Minute"
proof -
  obtain body where raw: "raw = Inr body" using assms(1) by (cases raw) (simp_all add: NewEnvelope_def)
  have e: "ae_ProtocolVersion e = ''edge.v1''" "ae_MessageID e = hexEncode random" "CreatedUnixNano e = t - unix_epoch"
    "ae_PayloadDigest e = hexEncode (sha (ae_Payload e))"
    using assms(1,3) by (auto simp: NewEnvelope_def raw edge_version_def)
  have "hexEncode random \<noteq> []" using assms(2) by (cases random) simp_all
  then show ?thesis using assms(4)
    by (auto simp: Envelope_Validate_def envelope_on_wire_def e Let_def Unix0_def time_Add_def envelope_skew_def not_less)
qed

lemma demo_envelope: "NewEnvelope (\<lambda>s. s) (unix_epoch + 5) ''r'' ''a'' ''d1'' ''heartbeat.v1'' 1 (Inr ''{}'')
  = Inr \<lparr>ae_ProtocolVersion = ''edge.v1'', ae_MessageID = hexEncode ''r'', ae_TenantID = ''a'', ae_DeviceID = ''d1'',
      ParentGatewayID = [], ae_Sequence = 1, CreatedUnixNano = 5, ae_PayloadSchemaVersion = ''heartbeat.v1'',
      ae_PayloadDigest = hexEncode ''{}'', ae_Payload = ''{}''\<rparr>"
  by (simp add: NewEnvelope_def edge_version_def i64_def)

theorem agent_envelopes_are_accepted_witness:
  "Envelope_Validate (\<lambda>s. s) (unix_epoch + 7) envelope_skew (envelope_on_wire (\<lambda>s. s)
     \<lparr>ae_ProtocolVersion = ''edge.v1'', ae_MessageID = hexEncode ''r'', ae_TenantID = ''a'', ae_DeviceID = ''d1'',
      ParentGatewayID = [], ae_Sequence = 1, CreatedUnixNano = 5, ae_PayloadSchemaVersion = ''heartbeat.v1'',
      ae_PayloadDigest = hexEncode ''{}'', ae_Payload = ''{}''\<rparr>) = None"
  using agent_envelopes_are_accepted [OF demo_envelope, of "\<lambda>s. s" "unix_epoch + 7"]
  by (simp add: i64_def Minute_def Second_def)

section \<open>Jobs on the wire\<close>

definition job_on_wire :: "(string \<Rightarrow> string) \<Rightarrow> cJob \<Rightarrow> Job" where
  "job_on_wire wire j =
     \<lparr>jb_ID = jo_ID j, jb_TenantID = jo_TenantID j, jb_DeviceID = jo_DeviceID j, jb_Type = jo_Type j,
      jb_ExpiresAt = jo_ExpiresAt j, jb_Attempt = jo_Attempt j, jb_TimeoutSeconds = jo_TimeoutSeconds j,
      jb_PayloadDigest = jo_PayloadDigest j, jb_Payload = (if jo_Payload j = [] then ''null'' else wire (jo_Payload j))\<rparr>"

text \<open>The payload as the device receives it: \<open>json_compact\<close> is what \<^verbatim>\<open>encoding/json\<close> makes of a raw message.\<close>

definition payload_received :: "string \<Rightarrow> string" where
  "payload_received p = (if p = [] then ''null'' else json_compact p)"

lemma payload_received_same: "payload_received p = p \<longleftrightarrow> p \<noteq> [] \<and> plain_json p"
  by (simp add: payload_received_def json_compact_same)

lemma delivered_job_fields:
  assumes "store_typed sha (mem s)" "wf_map (db_Jobs (mem s))" "NextJobForDevice env tc dev s = (Inr job, s')"
  shows "jo_ID job \<noteq> []" "jo_TenantID job \<noteq> []" "jo_DeviceID job \<noteq> []" "jo_Type job \<noteq> []"
    "jo_PayloadDigest job = hexEncode (sha (jo_Payload job))"
proof -
  obtain k j where j: "mget (db_Jobs (mem s)) k = Some j" "live_job (c_now env) tc dev j" "job = delivered j"
    using next_job_some [of env tc dev "range_map (c_order env) (db_Jobs (mem s))" s job s'] assms(2,3)
    by (auto simp: NextJobForDevice_def wf_range_map mget_iff_set [OF assms(2)])
  have "job_typed sha (k, j)" by (rule store_typed_mget(1) [OF assms(1) j(1)])
  then show "jo_ID job \<noteq> []" "jo_TenantID job \<noteq> []" "jo_DeviceID job \<noteq> []" "jo_Type job \<noteq> []"
    "jo_PayloadDigest job = hexEncode (sha (jo_Payload job))"
    by (auto simp: job_typed_def job_data_def AllowedTypes_def j(3) delivered_def)
qed

text \<open>C30: The device accepts what the control plane delivers, if the payload is plain: a delivered job whose payload is not
  empty, has no white space outside of text literals and none of the characters \<^verbatim>\<open><\<close>, \<^verbatim>\<open>>\<close>, \<^verbatim>\<open>&\<close> and the
  Unicode line separators passes the agent's validation up to its expiry. The payload of any other job is changed by the
  encoding (compaction and the escapes for HTML; an empty one becomes \<^verbatim>\<open>null\<close>), and the device refuses the job
  with a digest mismatch, unless the two payloads collide under the hash. (The payload is the one held since the job was
  created; a restart of the control plane reads it back re-indented from the file.)\<close>

theorem delivered_job_is_accepted:
  assumes "store_typed sha (mem s)" "wf_map (db_Jobs (mem s))" "NextJobForDevice env tc dev s = (Inr job, s')"
    and "0 \<le> jo_Attempt job" "t \<le> jo_ExpiresAt job" "\<And>x. sha x \<noteq> []"
  shows "if jo_Payload job \<noteq> [] \<and> plain_json (jo_Payload job) then Job_Validate sha t (job_on_wire json_compact job) = None
    else payload_received (jo_Payload job) \<noteq> jo_Payload job
      \<and> (Job_Validate sha t (job_on_wire json_compact job) = Some (ErrorString ''payload digest mismatch'')
         \<or> sha (payload_received (jo_Payload job)) = sha (jo_Payload job))"
proof -
  note fields = delivered_job_fields [OF assms(1,2,3)]
  have "hexEncode (sha x) \<noteq> []" for x using assms(6) [of x] by (cases "sha x") simp_all
  then have "Job_Validate sha t (job_on_wire json_compact job) =
      (if sha (payload_received (jo_Payload job)) = sha (jo_Payload job) then None else Some (ErrorString ''payload digest mismatch''))"
    using fields assms(4,5) by (simp add: Job_Validate_def job_on_wire_def hexEncode_inj payload_received_def)
  then show ?thesis using payload_received_same [of "jo_Payload job"] by auto
qed

definition demo_sha :: "string \<Rightarrow> string" where
  "demo_sha s = CHR ''h'' # s"

definition demo_digest_job :: cJob where
  "demo_digest_job = (demo_cjob ''j2'' ''b'' ''d2'' ''queued'')\<lparr>jo_Payload := [CHR 0x22] @ ''a&b'' @ [CHR 0x22], jo_PayloadDigest := ''682261266222''\<rparr>"

definition demo_digest_db :: cstore where
  "demo_digest_db = demo_db\<lparr>mem := (mem demo_db)\<lparr>db_Jobs := [(''j2'', demo_digest_job)]\<rparr>\<rparr>"

text \<open>A payload with an ampersand in it is refused.\<close>

theorem delivered_job_is_accepted_witness:
  "Job_Validate demo_sha 6000 (job_on_wire json_compact (delivered demo_digest_job)) = Some (ErrorString ''payload digest mismatch'')"
proof -
  have run: "NextJobForDevice demo_cenv (device_context ''b'') ''d2'' demo_digest_db
      = (Inr (delivered demo_digest_job), snd (NextJobForDevice demo_cenv (device_context ''b'') ''d2'' demo_digest_db))"
    by code_simp
  have typed: "store_typed demo_sha (mem demo_digest_db)" "wf_map (db_Jobs (mem demo_digest_db))" by code_simp+
  have "0 \<le> jo_Attempt (delivered demo_digest_job)" "6000 \<le> jo_ExpiresAt (delivered demo_digest_job)" by code_simp+
  from delivered_job_is_accepted [OF typed run this] show ?thesis
    by (auto simp: demo_sha_def demo_digest_job_def delivered_def demo_cjob_def plain_json_def html_escape_def)
qed

section \<open>Reported results\<close>

text \<open>A result is taken whatever the state of its job and whatever device reports it: a report of the
  state running reopens a job that had succeeded, and as long as it has not expired it is delivered
  again.\<close>

theorem report_reopens_finished_job:
  assumes "wf_map (db_Jobs (mem s))" "mget (db_Jobs (mem s)) k = Some j" "jo_TenantID j = tc_TenantID tc" "jo_State j = ''succeeded''"
    and "c_reportedState env raw = ''running''" "CompleteJob env tc k raw s = (err, s')" "\<not> After t (jo_ExpiresAt j)"
  shows "\<exists>j'. mget (db_Jobs (mem s')) k = Some j' \<and> live_job t tc (jo_DeviceID j) j'"
proof -
  have "err = fst (CompleteJob env tc k raw s)" "s' = snd (CompleteJob env tc k raw s)" using assms(6) by simp_all
  then show ?thesis using assms(2,3,5,7)
    by (simp add: CompleteJob_def Let_def put_job_def refresh_campaign_def live_job_def deliverable_def completed_state_def split: option.splits)
qed

definition demo_finished :: cstore where
  "demo_finished = demo_db\<lparr>mem := (mem demo_db)\<lparr>db_Jobs := [(''j2'', demo_cjob ''j2'' ''b'' ''d2'' ''succeeded'')]\<rparr>\<rparr>"

theorem report_reopens_finished_job_witness:
  "\<exists>j'. mget (db_Jobs (mem (snd (CompleteJob demo_cenv (device_context ''b'') ''j2'' ''running'' demo_finished)))) ''j2'' = Some j'
     \<and> live_job 5000 (device_context ''b'') (jo_DeviceID (demo_cjob ''j2'' ''b'' ''d2'' ''succeeded'')) j'"
proof (rule report_reopens_finished_job)
  show "wf_map (db_Jobs (mem demo_finished))" by code_simp
  show "mget (db_Jobs (mem demo_finished)) ''j2'' = Some (demo_cjob ''j2'' ''b'' ''d2'' ''succeeded'')" by code_simp
  show "c_reportedState demo_cenv ''running'' = ''running''" by code_simp
  show "CompleteJob demo_cenv (device_context ''b'') ''j2'' ''running'' demo_finished
    = (fst (CompleteJob demo_cenv (device_context ''b'') ''j2'' ''running'' demo_finished),
       snd (CompleteJob demo_cenv (device_context ''b'') ''j2'' ''running'' demo_finished))" by (simp only: prod.collapse)
qed (simp_all add: demo_cjob_def device_context_def)

section \<open>The exchange of a job\<close>

text \<open>
  The network between one device and the gateway. Every request takes the next fate: it arrives and is
  answered, or it is lost, or its answer is lost after the gateway has acted on it. \<open>encode\<close> writes
  a response and \<open>decode_result\<close> reads a reported result.
\<close>

datatype fate = Answered | LostRequest go_error | LostAnswer go_error

record gateway =
  gw_store :: cstore
  gw_count :: nat

record wire_world =
  ww_cfg :: server_cfg
  ww_authority :: authority
  ww_decoders :: decoders
  ww_envs :: "nat \<Rightarrow> envs"
  ww_fate :: "nat \<Rightarrow> fate"
  ww_encode :: "response \<Rightarrow> string"
  ww_decode_result :: "string \<Rightarrow> result_request result"

definition request_of :: "wire_request \<Rightarrow> http_request" where
  "request_of wr = \<lparr>Method = wr_Method wr,
     Header = (\<lambda>h. if h = ''X-Tenant-ID'' then wr_TenantID wr else if h = ''X-Device-ID'' then wr_DeviceID wr else []),
     Cookie = None, Query = (\<lambda>q. []), http_Host = []\<rparr>"

text \<open>The two job routes.\<close>

definition serve :: "wire_world \<Rightarrow> envs \<Rightarrow> wire_request \<Rightarrow> cstore \<Rightarrow> response \<times> cstore" where
  "serve ww envs wr =
     device_route (ww_cfg ww) (ww_authority ww) (ww_decoders ww) envs (request_of wr)
       (if wr_Path wr = ''/v1/jobs/result'' then DvJobResult (ww_decode_result ww (wr_Body wr)) else DvNextJob)"

definition exchange :: "wire_world \<Rightarrow> wire_request \<Rightarrow> gateway \<Rightarrow> wire_response result \<times> gateway" where
  "exchange ww wr g =
     (let g' = g\<lparr>gw_count := Suc (gw_count g)\<rparr>;
          (resp, s) = serve ww (ww_envs ww (gw_count g)) wr (gw_store g);
          answer = \<lparr>ws_StatusCode = response.status resp, ws_Status = itoa (response.status resp), ws_Body = ww_encode ww resp, ws_ReadErr = None\<rparr> in
      case ww_fate ww (gw_count g) of
        Answered \<Rightarrow> (Inr answer, g'\<lparr>gw_store := s\<rparr>)
      | LostRequest err \<Rightarrow> (Inl err, g')
      | LostAnswer err \<Rightarrow> (Inl err, g'\<lparr>gw_store := s\<rparr>))"

definition job_network :: "wire_world \<Rightarrow> gateway network" where
  "job_network ww = \<lparr>send = exchange ww, sleep = (\<lambda>d g. (None, g)), jitter = (\<lambda>g. (0, g)), stamp_of = (\<lambda>g. ((0, []), g))\<rparr>"

text \<open>The laws of JSON that the exchange relies on, for the jobs at hand, and that SHA-256 is one function.\<close>

definition faithful :: "wire_world \<Rightarrow> job_codec \<Rightarrow> (string \<Rightarrow> string) \<Rightarrow> cJob set \<Rightarrow> bool" where
  "faithful ww codec wire js \<longleftrightarrow>
     (\<forall>j \<in> js. decode_job codec (take max_body (ww_encode ww (JSON 200 (BJob (Some (delivered j))))))
        = Inr (Some (job_on_wire wire (delivered j))))
   \<and> (\<forall>r. (\<forall>job. r \<noteq> JSON 200 (BJob (Some job))) \<longrightarrow> (\<forall>job. decode_job codec (take max_body (ww_encode ww r)) \<noteq> Inr (Some job)))
   \<and> (\<forall>j \<in> js. \<forall>res. \<exists>raw. ww_decode_result ww (encode_result codec (jo_ID j) res) = Inr \<lparr>rr_JobID = jo_ID j, rr_Result = raw\<rparr>
        \<and> (\<forall>n m. c_reportedState (ww_envs ww n m) raw = rs_State res))"

text \<open>One device call: what the gateway does to its store, and what the agent sees.\<close>

lemma deviceJSON_store:
  assumes "deviceJSON (job_network ww) cl verb path body g = (r, g')"
  shows "\<exists>resp s. serve ww (ww_envs ww (gw_count g)) \<lparr>wr_Method = verb, wr_Path = path, wr_TenantID = cl_TenantID cl,
            wr_DeviceID = cl_DeviceID cl, wr_Body = body\<rparr> (gw_store g) = (resp, s)
      \<and> (gw_store g' = gw_store g \<and> (\<exists>err. r = Inl err) \<or> gw_store g' = s)
      \<and> (\<forall>b. r = Inr b \<longrightarrow> gw_store g' = s \<and> b = take max_body (ww_encode ww resp) \<and> 200 \<le> response.status resp \<and> response.status resp < 300)"
  using assms
  by (cases "ww_fate ww (gw_count g)")
     (auto simp: deviceJSON_def job_network_def exchange_def accepted_def read_body_def Let_def split: prod.splits if_splits sum.splits)

lemma run_handler_State:
  "run_handler sv jw h job start f w = (res, f', w') \<Longrightarrow>
    \<exists>w1 res0 w2. h_Execute h job w1 = (res0, w2) \<and> rs_State res0 = rs_State res \<and> w' = snd (jw_env jw w2)"
  by (auto simp: run_handler_def finish_def Let_def split: prod.splits) (metis snd_conv)

lemma Registry_success:
  assumes "Registry_Execute jw job f w = (res, f', w')" "rs_State res = ''succeeded''"
  shows "(\<exists>env prev. previous_success (LoadJobState env (jb_ID job) f) = Some prev)
    \<or> (\<exists>h w1 res0 w2. handlers jw (jb_Type job) = Some h \<and> h_Execute h job w1 = (res0, w2) \<and> rs_State res0 = ''succeeded''
         \<and> w' = snd (jw_env jw w2))"
proof -
  obtain env w0 where env: "jw_env jw w = (env, w0)" by fastforce
  show ?thesis
  proof (cases "previous_success (LoadJobState env (jb_ID job) f)")
    case None
    then obtain h start wh where h: "handlers jw (jb_Type job) = Some h" "run_handler SaveJobState jw h job start f wh = (res, f', w')"
      using assms env by (auto simp: Registry_Execute_def execute_with_def fail_def Let_def split: option.splits prod.splits)
    from run_handler_State [OF h(2)] h(1) assms(2) show ?thesis by metis
  qed blast
qed

text \<open>What the route for the next job can do.\<close>

lemma serve_next_cases:
  assumes "serve ww envs wr s = (resp, s')" "wr_Path wr \<noteq> ''/v1/jobs/result''"
  obtains "s' = s" "\<forall>job. resp \<noteq> JSON 200 (BJob (Some job))"
  | tc r where "next_job (envs 0) tc (wr_DeviceID wr) (range_map (c_order (envs 0)) (db_Jobs (mem s))) s = (r, s')"
      "\<forall>job. resp = JSON 200 (BJob (Some job)) \<longrightarrow> r = Inr job"
  using assms
  by (auto simp: serve_def deviceNextJob_def NextJobForDevice_def request_of_def split: sum.splits prod.splits if_splits)

lemma serve_next_state:
  assumes "serve ww envs wr s = (resp, s')" "wr_Path wr \<noteq> ''/v1/jobs/result''" "wf_map (db_Jobs (mem s))"
    and "mget (db_Jobs (mem s)) k = Some j"
  shows "\<exists>j'. mget (db_Jobs (mem s')) k = Some j' \<and> (jo_State j' = ''succeeded'' \<longrightarrow> jo_State j = ''succeeded'')"
proof (rule serve_next_cases [OF assms(1,2)])
  fix tc r
  assume run: "next_job (envs 0) tc (wr_DeviceID wr) (range_map (c_order (envs 0)) (db_Jobs (mem s))) s = (r, s')"
  obtain j' where j': "mget (db_Jobs (mem s')) k = Some j'" "passed (c_now (envs 0)) tc (wr_DeviceID wr) j j' \<or> r = Inr j'"
    using next_job_frame [OF run wf_range_map [OF assms(3)] _ assms(4)] assms(3) by (auto simp: mget_iff_set)
  moreover have "jo_State j' = ''delivered''" if "r = Inr j'"
    using next_job_some [OF run [unfolded that] wf_range_map [OF assms(3)]] by (auto simp: delivered_def)
  ultimately show ?thesis by (auto simp: passed_def)
qed (use assms(4) in auto)

lemma serve_next_job:
  assumes "serve ww envs wr s = (JSON 200 (BJob (Some job)), s')" "wr_Path wr \<noteq> ''/v1/jobs/result''" "wf_map (db_Jobs (mem s))"
  shows "\<exists>k j. mget (db_Jobs (mem s)) k = Some j \<and> job = delivered j"
proof (rule serve_next_cases [OF assms(1,2)])
  fix tc r
  assume "next_job (envs 0) tc (wr_DeviceID wr) (range_map (c_order (envs 0)) (db_Jobs (mem s))) s = (r, s')"
    and "\<forall>j. JSON 200 (BJob (Some job)) = JSON 200 (BJob (Some j)) \<longrightarrow> r = Inr j"
  then have "next_job (envs 0) tc (wr_DeviceID wr) (range_map (c_order (envs 0)) (db_Jobs (mem s))) s = (Inr job, s')" by simp
  from next_job_some [OF this wf_range_map [OF assms(3)]] show ?thesis using mget_iff_set [OF assms(3)] by auto
qed auto

text \<open>A job becomes succeeded by a report only.\<close>

lemma serve_result_success:
  assumes "serve ww envs wr s = (resp, s')" "wr_Path wr = ''/v1/jobs/result''"
    and "ww_decode_result ww (wr_Body wr) = Inr \<lparr>rr_JobID = k0, rr_Result = raw\<rparr>"
    and "mget (db_Jobs (mem s)) k = Some j" "mget (db_Jobs (mem s')) k = Some j'" "jo_State j' = ''succeeded''" "jo_State j \<noteq> ''succeeded''"
  shows "k = k0 \<and> c_reportedState (envs 0) raw = ''succeeded''"
proof -
  have rec: "db_Jobs (mem (Record e t a rt rid out sm s1)) = db_Jobs (mem s1)" for e t a rt rid out sm s1
    by (simp add: Record_def Audit_def)
  have completed: "db_Jobs (mem (snd (CompleteJob e t k0 raw s))) = db_Jobs (mem s)
      \<or> (\<exists>i. db_Jobs (mem (snd (CompleteJob e t k0 raw s))) = mput k0 (i\<lparr>jo_State := completed_state (c_reportedState e raw), jo_Result := raw\<rparr>) (db_Jobs (mem s)))"
    for e t
    by (auto simp: CompleteJob_def Let_def put_job_def refresh_campaign_def split: option.splits)
  have "db_Jobs (mem s') = db_Jobs (mem s)
      \<or> (\<exists>i. db_Jobs (mem s') = mput k0 (i\<lparr>jo_State := completed_state (c_reportedState (envs 0) raw), jo_Result := raw\<rparr>) (db_Jobs (mem s)))"
  proof (cases "deviceContextFromHeaders (request_of wr) s")
    case (Inl err)
    then show ?thesis using assms(1-3) by (simp add: serve_def deviceJobResult_def)
  next
    case (Inr tc)
    obtain e s1 where c: "CompleteJob (envs 0) tc k0 raw s = (e, s1)" by fastforce
    then have "db_Jobs (mem s') = db_Jobs (mem s1)"
      using assms(1-3) Inr rec by (auto simp: serve_def deviceJobResult_def split: option.splits)
    with completed [of "envs 0" tc] c show ?thesis by simp
  qed
  then show ?thesis using assms(4-7) by (auto simp: completed_state_def split: if_splits)
qed

text \<open>C5: What the control plane shows as succeeded is done on the device: if, over one exchange in which requests
  and answers may be lost, an \<^verbatim>\<open>ota_update\<close> job becomes succeeded in the control plane, then the
  device has committed the update of the request in the job's payload, or its job file already recorded
  the job as succeeded before.\<close>

theorem cloud_success_means_committed:
  assumes "store_typed sha (mem (gw_store g))" "wf_map (db_Jobs (mem (gw_store g)))" "faithful ww codec wire (snd ` set (db_Jobs (mem (gw_store g))))"
    and "processNextJob (job_network ww) cl codec jw g f w = (err, g', f', w')"
    and "mget (db_Jobs (mem (gw_store g))) k = Some j" "jo_State j \<noteq> ''succeeded''" "jo_Type j = ''ota_update''"
    and "mget (db_Jobs (mem (gw_store g'))) k = Some j'" "jo_State j' = ''succeeded''"
    and "handlers jw = newJobRegistry d" "ds_cfg d = Some cfg" "\<And>v. snd (jw_env jw v) = v"
  shows "(\<exists>env prev. previous_success (LoadJobState env k f) = Some prev)
    \<or> (\<exists>request. decodeRequest d (jb_Payload (job_on_wire wire j)) = Some request \<and> completed_file cfg request (txs w'))"
proof -
  obtain r1 g1 where get: "deviceJSON (job_network ww) cl ''GET'' ''/v1/jobs/next'' [] g = (r1, g1)" by fastforce
  from deviceJSON_store [OF get] obtain resp s1 where s1:
    "serve ww (ww_envs ww (gw_count g)) \<lparr>wr_Method = ''GET'', wr_Path = ''/v1/jobs/next'', wr_TenantID = cl_TenantID cl,
        wr_DeviceID = cl_DeviceID cl, wr_Body = []\<rparr> (gw_store g) = (resp, s1)"
    "gw_store g1 = gw_store g \<or> gw_store g1 = s1"
    "\<And>b. r1 = Inr b \<Longrightarrow> gw_store g1 = s1 \<and> b = take max_body (ww_encode ww resp)" by blast
  note nextjob = serve_next_state [OF s1(1) _ assms(2,5), simplified]
  have unfinished: "jo_State i \<noteq> ''succeeded''" if "mget (db_Jobs (mem (gw_store g1))) k = Some i" for i
    using s1(2) that assms(5,6) nextjob by auto
  have "\<exists>job b. r1 = Inr b \<and> b \<noteq> [] \<and> decode_job codec b = Inr (Some job)"
  proof (rule ccontr)
    assume "\<not> ?thesis"
    then have "g' = g1" using assms(4) get
      by (auto simp: processNextJob_def Let_def split: sum.splits if_splits option.splits prod.splits)
    then show False using unfinished [of j'] assms(8,9) by simp
  qed
  then obtain job b where b: "r1 = Inr b" "b \<noteq> []" "decode_job codec b = Inr (Some job)" by blast
  then obtain cj where resp: "resp = JSON 200 (BJob (Some cj))"
    using s1(3) [OF b(1)] assms(3) unfolding faithful_def by metis
  obtain k0 j0 where j0: "mget (db_Jobs (mem (gw_store g))) k0 = Some j0" "cj = delivered j0"
    using serve_next_job [OF s1(1) [unfolded resp] _ assms(2)] by auto
  have stored: "j0 \<in> snd ` set (db_Jobs (mem (gw_store g)))" using mget_SomeD [OF j0(1)] by force
  then have job: "job = job_on_wire wire cj"
    using s1(3) [OF b(1)] b(3) assms(3) unfolding faithful_def resp j0(2) by force
  have id0: "jo_ID j0 = k0" using store_typed_mget(1) [OF assms(1) j0(1)] by (simp add: job_typed_def)
  then have jid: "jb_ID job = k0" by (simp add: job job_on_wire_def j0(2) delivered_def)
  obtain res f1 w1 where reg: "Registry_Execute jw job f w = (res, f1, w1)" by (metis prod_cases3)
  obtain r2 g2 where post: "deviceJSON (job_network ww) cl ''POST'' ''/v1/jobs/result'' (encode_result codec (jb_ID job) res) g1 = (r2, g2)"
    by fastforce
  have g': "g' = g2" "w' = w1" using assms(4) get b reg post by (auto simp: processNextJob_def Let_def)
  from assms(3) obtain raw where raw: "ww_decode_result ww (encode_result codec k0 res) = Inr \<lparr>rr_JobID = k0, rr_Result = raw\<rparr>"
    "\<And>n m. c_reportedState (ww_envs ww n m) raw = rs_State res"
    using stored id0 unfolding faithful_def by blast
  from deviceJSON_store [OF post] obtain resp2 s2 where s2:
    "serve ww (ww_envs ww (gw_count g1)) \<lparr>wr_Method = ''POST'', wr_Path = ''/v1/jobs/result'', wr_TenantID = cl_TenantID cl,
        wr_DeviceID = cl_DeviceID cl, wr_Body = encode_result codec (jb_ID job) res\<rparr> (gw_store g1) = (resp2, s2)"
    "gw_store g2 = gw_store g1 \<or> gw_store g2 = s2" by blast
  have after: "mget (db_Jobs (mem s2)) k = Some j'" using s2(2) g'(1) assms(8,9) unfinished [of j'] by auto
  obtain i where i: "mget (db_Jobs (mem (gw_store g1))) k = Some i"
    using nextjob s1(2) assms(5) by auto
  have "k = k0" "rs_State res = ''succeeded''"
    using serve_result_success [OF s2(1) _ _ i after assms(9) unfinished [OF i], of k0 raw] raw jid by simp_all
  then have "j = j0" using j0(1) assms(5) by simp
  have payload: "jb_Payload job = jb_Payload (job_on_wire wire j)" "jb_Type job = ''ota_update''"
    using assms(7) by (simp_all add: job job_on_wire_def j0(2) delivered_def \<open>j = j0\<close>)
  from Registry_success [OF reg \<open>rs_State res = ''succeeded''\<close>] show ?thesis
  proof
    assume "\<exists>env prev. previous_success (LoadJobState env (jb_ID job) f) = Some prev"
    then show ?thesis using jid \<open>k = k0\<close> by simp
  next
    assume "\<exists>h v1 res0 v2. handlers jw (jb_Type job) = Some h \<and> h_Execute h job v1 = (res0, v2) \<and> rs_State res0 = ''succeeded''
         \<and> w1 = snd (jw_env jw v2)"
    then obtain v1 res0 v2 where "runOTAUpdate d cfg job v1 = (res0, v2)" "rs_State res0 = ''succeeded''" "w1 = v2"
      using assms(10-12) payload(2) by (auto simp: newJobRegistry_def NewFunctionHandler_def)
    from runOTAUpdate_success [OF this(1,2)] this(3) Execute_success show ?thesis
      unfolding payload(1) g'(2) by metis
  qed
qed

text \<open>An update job of the device that has just rebooted into the new version.\<close>

definition demo_ota_cjob :: cJob where
  "demo_ota_cjob = (demo_cjob ''j2'' ''b'' ''d2'' ''rebooting'')
     \<lparr>jo_Type := ''ota_update'', jo_Payload := ''x'', jo_PayloadDigest := hexEncode (demo_sha ''x'')\<rparr>"

definition demo_gateway :: gateway where
  "demo_gateway = \<lparr>gw_store = demo_db\<lparr>mem := (mem demo_db)\<lparr>db_Jobs := [(''j2'', demo_ota_cjob)]\<rparr>\<rparr>, gw_count = 0\<rparr>"

definition demo_wire :: wire_world where
  "demo_wire = \<lparr>ww_cfg = demo_server, ww_authority = demo_authority, ww_decoders = demo_decoders, ww_envs = (\<lambda>n m. demo_cenv),
     ww_fate = (\<lambda>n. Answered), ww_encode = (\<lambda>r. if r = JSON 200 (BJob (Some (delivered demo_ota_cjob))) then ''J'' else ''N''),
     ww_decode_result = (\<lambda>raw. Inr \<lparr>rr_JobID = ''j2'', rr_Result = raw\<rparr>)\<rparr>"

definition demo_codec :: job_codec where
  "demo_codec = \<lparr>decode_job = (\<lambda>b. Inr (if b = ''J'' then Some (job_on_wire (\<lambda>s. s) (delivered demo_ota_cjob)) else None)),
     encode_result = (\<lambda>k res. rs_State res)\<rparr>"

definition demo_device_client :: client where
  "demo_device_client = \<lparr>cl_TenantID = ''b'', cl_DeviceID = ''d2'', cl_sha = demo_sha, encode_envelope = ae_Payload\<rparr>"

definition demo_device_jobs :: "demo_world osw job_world" where
  "demo_device_jobs = \<lparr>jw_env = (\<lambda>w. (\<lparr>je_now = 5, je_readErr = None, je_write = Written\<rparr>, w)), jw_sha = demo_sha,
     handlers = newJobRegistry demo_device\<rparr>"

lemma demo_faithful: "faithful demo_wire demo_codec (\<lambda>s. s) (snd ` set (db_Jobs (mem (gw_store demo_gateway))))"
  by (auto simp: faithful_def demo_wire_def demo_codec_def demo_gateway_def demo_cenv_def max_body_def demo_ota_cjob_def demo_cjob_def)

lemma demo_wire_sel: "ww_envs demo_wire n = (\<lambda>m. demo_cenv)" "ww_fate demo_wire n = Answered"
  "ww_encode demo_wire r = (if r = JSON 200 (BJob (Some (delivered demo_ota_cjob))) then ''J'' else ''N'')"
  by (simp_all add: demo_wire_def)

lemma demo_serve: "fst (serve demo_wire (\<lambda>m. demo_cenv) \<lparr>wr_Method = ''GET'', wr_Path = ''/v1/jobs/next'', wr_TenantID = ''b'',
    wr_DeviceID = ''d2'', wr_Body = []\<rparr> (gw_store demo_gateway)) = JSON 200 (BJob (Some (delivered demo_ota_cjob)))"
  by code_simp

text \<open>A request that is answered.\<close>

lemma deviceJSON_answered:
  assumes "ww_fate ww (gw_count g) = Answered"
    and "serve ww (ww_envs ww (gw_count g)) \<lparr>wr_Method = verb, wr_Path = path, wr_TenantID = cl_TenantID cl,
      wr_DeviceID = cl_DeviceID cl, wr_Body = body\<rparr> (gw_store g) = (resp, s)" "response.status resp = 200"
  shows "deviceJSON (job_network ww) cl verb path body g
    = (Inr (take max_body (ww_encode ww resp)), \<lparr>gw_store = s, gw_count = Suc (gw_count g)\<rparr>)"
  using assms by (simp add: deviceJSON_def job_network_def exchange_def accepted_def read_body_def Let_def)

lemma Registry_runs:
  assumes "\<And>v. jw_env jw v = (e, v)" "Job_Validate (jw_sha jw) (je_now e) job = None" "handlers jw (jb_Type job) = Some h"
    and "h_Validate h job w = (None, w)" "h_Prepare h job w = (None, w)" "h_Execute h job w = (res0, w')"
  shows "\<exists>res f1. Registry_Execute jw job None w = (res, f1, w') \<and> rs_State res = rs_State res0"
  using assms
  by (simp add: Registry_Execute_def execute_with_def LoadJobState_def previous_success_def run_handler_def finish_def
      case_prod_unfold Let_def)

lemma demo_ota_registry: "\<exists>res f1. Registry_Execute demo_device_jobs (job_on_wire (\<lambda>s. s) (delivered demo_ota_cjob)) None demo_rebooted
    = (res, f1, demo_done) \<and> rs_State res = ''succeeded''"
proof -
  let ?job = "job_on_wire (\<lambda>s. s) (delivered demo_ota_cjob)"
  let ?h = "NewFunctionHandler (Some (validateOTAJob demo_device))
               (\<lambda>job w. case ds_cfg demo_device of Some cfg \<Rightarrow> runOTAUpdate demo_device cfg job w | None \<Rightarrow> (zero_Result, w))"
  have valid: "h_Validate ?h ?job demo_rebooted = (None, demo_rebooted)" "h_Prepare ?h ?job demo_rebooted = (None, demo_rebooted)"
    using demo_valid by (simp_all add: NewFunctionHandler_def validateOTAJob_def demo_device_def demo_sys_def)
  have "ds_cfg demo_device = Some demo_cfg" by (simp add: demo_device_def)
  then have run: "h_Execute ?h ?job demo_rebooted = runOTAUpdate demo_device demo_cfg ?job demo_rebooted"
    by (simp add: NewFunctionHandler_def)
  have "jb_Type ?job = ''ota_update''" by code_simp
  then have h: "handlers demo_device_jobs (jb_Type ?job) = Some ?h" by (simp add: demo_device_jobs_def newJobRegistry_def)
  have "Job_Validate (jw_sha demo_device_jobs) 5 ?job = None" unfolding demo_device_jobs_def job_world.simps by code_simp
  then have ok: "Job_Validate (jw_sha demo_device_jobs) (je_now \<lparr>je_now = 5, je_readErr = None, je_write = Written\<rparr>) ?job = None" by simp
  have env: "jw_env demo_device_jobs v = (\<lparr>je_now = 5, je_readErr = None, je_write = Written\<rparr>, v)" for v
    by (simp add: demo_device_jobs_def)
  from Registry_runs [OF env ok h valid run [unfolded demo_ota_job]] show ?thesis by simp
qed

definition demo_told :: cstore where
  "demo_told = snd (serve demo_wire (\<lambda>m. demo_cenv) \<lparr>wr_Method = ''GET'', wr_Path = ''/v1/jobs/next'', wr_TenantID = ''b'',
    wr_DeviceID = ''d2'', wr_Body = []\<rparr> (gw_store demo_gateway))"

definition demo_reported :: cstore where
  "demo_reported = snd (serve demo_wire (\<lambda>m. demo_cenv) \<lparr>wr_Method = ''POST'', wr_Path = ''/v1/jobs/result'', wr_TenantID = ''b'',
    wr_DeviceID = ''d2'', wr_Body = ''succeeded''\<rparr> demo_told)"

lemma demo_report_ok: "fst (serve demo_wire (\<lambda>m. demo_cenv) \<lparr>wr_Method = ''POST'', wr_Path = ''/v1/jobs/result'', wr_TenantID = ''b'',
    wr_DeviceID = ''d2'', wr_Body = ''succeeded''\<rparr> demo_told) = JSON 200 (Status ''accepted'' [])"
  by code_simp

lemma demo_cycle: "\<exists>err f'. processNextJob (job_network demo_wire) demo_device_client demo_codec demo_device_jobs demo_gateway None demo_rebooted
    = (err, \<lparr>gw_store = demo_reported, gw_count = 2\<rparr>, f', demo_done)"
proof -
  obtain res f1 where reg: "Registry_Execute demo_device_jobs (job_on_wire (\<lambda>s. s) (delivered demo_ota_cjob)) None demo_rebooted
      = (res, f1, demo_done)" "rs_State res = ''succeeded''" using demo_ota_registry by blast
  have cl: "cl_TenantID demo_device_client = ''b''" "cl_DeviceID demo_device_client = ''d2''" by (simp_all add: demo_device_client_def)
  have c0: "gw_count demo_gateway = 0" by (simp add: demo_gateway_def)
  have get: "deviceJSON (job_network demo_wire) demo_device_client ''GET'' ''/v1/jobs/next'' [] demo_gateway
      = (Inr ''J'', \<lparr>gw_store = demo_told, gw_count = 1\<rparr>)"
    using deviceJSON_answered [of demo_wire demo_gateway "''GET''" "''/v1/jobs/next''" demo_device_client "[]"
        "JSON 200 (BJob (Some (delivered demo_ota_cjob)))" demo_told] demo_serve
    by (simp add: demo_wire_sel cl c0 demo_told_def max_body_def prod_eq_iff)
  have post: "\<exists>b. deviceJSON (job_network demo_wire) demo_device_client ''POST'' ''/v1/jobs/result'' ''succeeded''
      \<lparr>gw_store = demo_told, gw_count = 1\<rparr> = (Inr b, \<lparr>gw_store = demo_reported, gw_count = 2\<rparr>)"
    using deviceJSON_answered [of demo_wire "\<lparr>gw_store = demo_told, gw_count = 1\<rparr>" "''POST''" "''/v1/jobs/result''"
        demo_device_client "''succeeded''" "JSON 200 (Status ''accepted'' [])" demo_reported] demo_report_ok
    by (simp add: demo_wire_sel cl demo_reported_def prod_eq_iff)
  have codec: "decode_job demo_codec ''J'' = Inr (Some (job_on_wire (\<lambda>s. s) (delivered demo_ota_cjob)))"
    "encode_result demo_codec k res = ''succeeded''" for k using reg(2) by (simp_all add: demo_codec_def)
  show ?thesis using post by (auto simp: processNextJob_def get codec reg(1))
qed

theorem cloud_success_means_committed_witness: "completed_file demo_cfg OTADemo.demo_request (txs demo_done)"
proof -
  obtain err f' where cycle: "processNextJob (job_network demo_wire) demo_device_client demo_codec demo_device_jobs demo_gateway None demo_rebooted
      = (err, \<lparr>gw_store = demo_reported, gw_count = 2\<rparr>, f', demo_done)" using demo_cycle by blast
  have typed: "store_typed demo_sha (mem (gw_store demo_gateway))" "wf_map (db_Jobs (mem (gw_store demo_gateway)))" by code_simp+
  have job: "mget (db_Jobs (mem (gw_store demo_gateway))) ''j2'' = Some demo_ota_cjob" by code_simp
  have "map_option jo_State (mget (db_Jobs (mem demo_reported)) ''j2'') = Some ''succeeded''" by code_simp
  then obtain j' where j': "mget (db_Jobs (mem (gw_store \<lparr>gw_store = demo_reported, gw_count = 2\<rparr>))) ''j2'' = Some j'" "jo_State j' = ''succeeded''"
    by auto
  have state: "jo_State demo_ota_cjob \<noteq> ''succeeded''" "jo_Type demo_ota_cjob = ''ota_update''"
    by (simp_all add: demo_ota_cjob_def demo_cjob_def)
  have dev: "handlers demo_device_jobs = newJobRegistry demo_device" "ds_cfg demo_device = Some demo_cfg" "snd (jw_env demo_device_jobs v) = v" for v
    by (simp_all add: demo_device_jobs_def demo_device_def)
  have "decodeRequest demo_device p = Some OTADemo.demo_request" for p by (simp add: demo_device_def)
  then show ?thesis
    using cloud_success_means_committed [OF typed demo_faithful cycle job state j' dev]
    by (simp add: previous_success_def LoadJobState_def)
qed

end
