(* ===== verification/CloudCampaigns.thy ===== *)
theory CloudCampaigns
  imports CloudDelivery
begin

text \<open>
  What a rollout guarantees: the jobs that creating and promoting a campaign queue, and what its
  state says of the targets.
\<close>

section \<open>The jobs of a campaign\<close>

definition campaign_job :: "Context \<Rightarrow> Campaign \<Rightarrow> string \<Rightarrow> cJob \<Rightarrow> bool" where
  "campaign_job tc c dev j \<longleftrightarrow> jo_TenantID j = tc_TenantID tc \<and> DeploymentID j = cm_ID c \<and> jo_DeviceID j = dev"

definition has_job :: "Context \<Rightarrow> Campaign \<Rightarrow> cdata \<Rightarrow> string \<Rightarrow> bool" where
  "has_job tc c d dev \<longleftrightarrow> (\<exists>k j. mget (db_Jobs d) k = Some j \<and> campaign_job tc c dev j)"

text \<open>
  The idempotency key of the campaign for a target. The job API lets a client choose the key of a job freely, so another
  job of the tenant may hold it.
\<close>

definition key_taken :: "Context \<Rightarrow> Campaign \<Rightarrow> cdata \<Rightarrow> string \<Rightarrow> bool" where
  "key_taken tc c d dev \<longleftrightarrow>
     (\<exists>k j. mget (db_Jobs d) k = Some j \<and> jo_TenantID j = tc_TenantID tc \<and> IdempotencyKey j = cm_ID c @ '':'' @ dev)"

definition one_each :: "Context \<Rightarrow> Campaign \<Rightarrow> cdata \<Rightarrow> bool" where
  "one_each tc c d \<longleftrightarrow> (\<forall>k j k' j' dev. mget (db_Jobs d) k = Some j \<longrightarrow> mget (db_Jobs d) k' = Some j' \<longrightarrow>
     campaign_job tc c dev j \<longrightarrow> campaign_job tc c dev j' \<longrightarrow> k = k')"

lemma JobsForDeployment_devices:
  assumes "wf_map (db_Jobs (mem s))"
  shows "dev \<in> jo_DeviceID ` set (JobsForDeployment env tc (cm_ID c) s) \<longleftrightarrow> has_job tc c (mem s) dev"
  by (force simp: JobsForDeployment_def has_job_def campaign_job_def range_values_def mget_iff_set [OF assms])

lemma set_remaining_targets:
  "wf_map (db_Jobs (mem s)) \<Longrightarrow> dev \<in> set (remaining_targets env tc c s) \<longleftrightarrow> dev \<in> set (TargetIDs c) \<and> \<not> has_job tc c (mem s) dev"
  using JobsForDeployment_devices [of s dev env tc c] by (auto simp: remaining_targets_def)

text \<open>One target: its key is taken and nothing happens, or it gets a job.\<close>

definition queued_for :: "Context \<Rightarrow> Campaign \<Rightarrow> string \<Rightarrow> cJob \<Rightarrow> bool" where
  "queued_for tc c dev j \<longleftrightarrow> campaign_job tc c dev j \<and> IdempotencyKey j = cm_ID c @ '':'' @ dev \<and> jo_State j = ''queued''"

lemma queue_one:
  assumes wf: "wf_map (db_Jobs (mem s))"
    and job: "ota_job env encode tc c dev = Inr job" and create: "CreateJob env tc job s = (Inr j0, s')"
  shows "if key_taken tc c (mem s) dev then mem s' = mem s
    else \<exists>j. db_Jobs (mem s') = mput (NewID env 0 ''job'') j (db_Jobs (mem s)) \<and> queued_for tc c dev j"
proof -
  have j: "jo_DeviceID job = dev" "DeploymentID job = cm_ID c" "IdempotencyKey job = cm_ID c @ '':'' @ dev" "jo_State job = ''queued''"
    using job by (auto simp: ota_job_def jobs_New_def split: if_splits)
  have owned: "owned_device (tc_TenantID tc) (mem s) (jo_DeviceID job)" using create by (auto simp: CreateJob_def split: if_splits)
  have taken: "List.find (same_request tc job) (range_values (c_order env) (db_Jobs (mem s))) = None \<longleftrightarrow> \<not> key_taken tc c (mem s) dev"
    using j(3) by (force simp: find_None_iff key_taken_def range_values_def same_request_def mget_iff_set [OF wf])
  show ?thesis
  proof (cases "key_taken tc c (mem s) dev")
    case True
    then have "List.find (same_request tc job) (range_values (c_order env) (db_Jobs (mem s))) \<noteq> None" using taken by blast
    then show ?thesis using True create owned by (auto simp: CreateJob_def)
  next
    case False
    then have "List.find (same_request tc job) (range_values (c_order env) (db_Jobs (mem s))) = None" using taken by blast
    then show ?thesis using False create owned j
      by (auto simp: CreateJob_def Let_def put_job_def queued_for_def campaign_job_def prod_eq_iff intro!: exI)
  qed
qed

text \<open>All targets: the jobs that were there stay, and each target whose key is free gets exactly one.\<close>

lemma queue_all:
  assumes "wf_map (db_Jobs (mem s))" "inj (\<lambda>n. NewID (envs n) 0 ''job'')"
    and "\<And>n. mget (db_Jobs (mem s)) (NewID (envs n) 0 ''job'') = None" "queueOTAJobs envs encode tc c devs s = (None, s')"
  shows "(\<forall>k j. mget (db_Jobs (mem s)) k = Some j \<longrightarrow> mget (db_Jobs (mem s')) k = Some j)
    \<and> (\<forall>k j. mget (db_Jobs (mem s')) k = Some j \<longrightarrow> mget (db_Jobs (mem s)) k = None \<longrightarrow>
         (\<exists>dev \<in> set devs. queued_for tc c dev j \<and> \<not> key_taken tc c (mem s) dev))
    \<and> (\<forall>dev \<in> set devs. \<not> key_taken tc c (mem s) dev \<longrightarrow>
         (\<exists>!k. \<exists>j. mget (db_Jobs (mem s')) k = Some j \<and> mget (db_Jobs (mem s)) k = None \<and> queued_for tc c dev j))"
  using assms
proof (induction devs arbitrary: s envs)
  case (Cons dev devs)
  obtain job where job: "ota_job (envs 0) encode tc c dev = Inr job" using Cons.prems(4) by (auto split: sum.splits)
  obtain j0 s1 where create: "CreateJob (envs 0) tc job s = (Inr j0, s1)"
    and rest: "queueOTAJobs (\<lambda>n. envs (n + 1)) encode tc c devs s1 = (None, s')"
    using Cons.prems(4) job by (auto split: sum.splits prod.splits)
  let ?k = "NewID (envs 0) 0 ''job''"
  note one = queue_one [OF Cons.prems(1) job create]
  have inj: "inj (\<lambda>n. NewID (envs (n + 1)) 0 ''job'')" using injD [OF Cons.prems(2)] by (intro injI) fastforce
  have other: "NewID (envs (n + 1)) 0 ''job'' \<noteq> ?k" for n using injD [OF Cons.prems(2), of "n + 1" 0] by auto
  show ?case
  proof (cases "key_taken tc c (mem s) dev")
    case True
    then have same: "mem s1 = mem s" using one by simp
    from Cons.IH [OF Cons.prems(1) [folded same] inj _ rest] Cons.prems(3) True show ?thesis by (auto simp: same)
  next
    case False
    then obtain j where j: "db_Jobs (mem s1) = mput ?k j (db_Jobs (mem s))" "queued_for tc c dev j" using one by auto
    have wf: "wf_map (db_Jobs (mem s1))" using Cons.prems(1) j(1) by simp
    have fresh: "mget (db_Jobs (mem s1)) (NewID (envs (n + 1)) 0 ''job'') = None" for n
      using Cons.prems(3) [of "n + 1"] other [of n] j(1) by simp
    have k: "mget (db_Jobs (mem s)) ?k = None" using Cons.prems(3) [of 0] by simp
    have taken: "key_taken tc c (mem s1) d \<longleftrightarrow> key_taken tc c (mem s) d \<or> d = dev" for d
      using j k by (auto simp: key_taken_def queued_for_def campaign_job_def split: if_splits) (metis option.distinct(1))+
    note IH = Cons.IH [OF wf inj fresh rest]
    have kept: "mget (db_Jobs (mem s')) i = Some v" if "mget (db_Jobs (mem s)) i = Some v" for i v
    proof -
      have "i \<noteq> ?k" using that k by auto
      then have "mget (db_Jobs (mem s1)) i = Some v" using that j(1) by simp
      then show ?thesis using IH by blast
    qed
    have mine: "mget (db_Jobs (mem s')) ?k = Some j" using IH j(1) by simp
    have new: "(\<exists>d \<in> set (dev # devs). queued_for tc c d v \<and> \<not> key_taken tc c (mem s) d) \<and> (i = ?k \<or> \<not> queued_for tc c dev v)"
      if "mget (db_Jobs (mem s')) i = Some v" "mget (db_Jobs (mem s)) i = None" for i v
    proof (cases "i = ?k")
      case True
      then have "v = j" using mine that(1) by simp
      then show ?thesis using j(2) False True by auto
    next
      case i: False
      note here = that
      have "mget (db_Jobs (mem s1)) i = None" using i that(2) j(1) by simp
      with here(1) obtain d where d: "d \<in> set devs" "queued_for tc c d v" "\<not> key_taken tc c (mem s1) d" using IH here(1) by blast
      then have "d \<noteq> dev" using taken by blast
      then have "\<not> queued_for tc c dev v" using d(2) by (auto simp: queued_for_def campaign_job_def)
      then show ?thesis using d taken by auto
    qed
    have "\<exists>!i. \<exists>v. mget (db_Jobs (mem s')) i = Some v \<and> mget (db_Jobs (mem s)) i = None \<and> queued_for tc c d v"
      if d: "d \<in> set (dev # devs)" "\<not> key_taken tc c (mem s) d" for d
    proof (cases "d = dev")
      case True
      show ?thesis unfolding True
      proof (rule ex1I [of _ ?k])
        show "\<exists>v. mget (db_Jobs (mem s')) ?k = Some v \<and> mget (db_Jobs (mem s)) ?k = None \<and> queued_for tc c dev v"
          using mine k j(2) by blast
        show "i = ?k" if "\<exists>v. mget (db_Jobs (mem s')) i = Some v \<and> mget (db_Jobs (mem s)) i = None \<and> queued_for tc c dev v" for i
          using that new by blast
      qed
    next
      case neq: False
      then have "d \<in> set devs" "\<not> key_taken tc c (mem s1) d" using d taken by auto
      then have "\<exists>!i. \<exists>v. mget (db_Jobs (mem s')) i = Some v \<and> mget (db_Jobs (mem s1)) i = None \<and> queued_for tc c d v" using IH by blast
      moreover have "mget (db_Jobs (mem s')) i = Some v \<and> mget (db_Jobs (mem s1)) i = None \<and> queued_for tc c d v
          \<longleftrightarrow> mget (db_Jobs (mem s')) i = Some v \<and> mget (db_Jobs (mem s)) i = None \<and> queued_for tc c d v" for i v
      proof (cases "i = ?k")
        case True
        have "\<not> queued_for tc c d j" using j(2) neq by (auto simp: queued_for_def campaign_job_def)
        then show ?thesis using mine True by auto
      qed (simp add: j(1))
      ultimately show ?thesis by simp
    qed
    with kept new show ?thesis by blast
  qed
qed simp

section \<open>Promotion\<close>

lemma unused_later:
  "unused_ids envs d \<Longrightarrow> inj (\<lambda>n. NewID (envs (n + 4)) 0 ''job'')"
  "unused_ids envs d \<Longrightarrow> mget (db_Jobs d) (NewID (envs n) 0 ''job'') = None"
  by (auto simp: unused_ids_def intro!: injI dest: injD)

lemma UpdateOTACampaign_jobs: "UpdateOTACampaign env tc c s = (e, s') \<Longrightarrow> db_Jobs (mem s') = db_Jobs (mem s)"
  by (auto simp: UpdateOTACampaign_def put_campaign_def split: option.splits if_splits dest!: saveLocked_frame)

lemma Record_jobs [simp]: "db_Jobs (mem (Record env tc a rt rid out sm s)) = db_Jobs (mem s)"
  by (simp add: Record_def Audit_def)

lemma Record_campaigns [simp]: "db_OTACampaigns (mem (Record env tc a rt rid out sm s)) = db_OTACampaigns (mem s)"
  by (simp add: Record_def Audit_def)

text \<open>C18: What an acknowledged promotion does to the targets of its campaign. The campaign's pilot had completed; the jobs that
  were there are untouched; every new job is a queued job of the campaign for a target that had none and whose
  idempotency key was free; and each such target gets exactly one. A target that had a job gets no other, and one whose
  key another job of the tenant already holds (the job API lets clients choose keys) gets none either.\<close>

theorem promotion_queues_remaining_targets:
  assumes "store_inv (mem s)" "unused_ids envs (mem s)"
    and "GetOTACampaign tc (pr_CampaignID req) s = Inr c"
    and "promoteOTACampaign sv envs (Inr req) tc s = (JSON 200 b, s')"
  shows "cm_State c = ''canary_complete''
    \<and> (\<forall>k j. mget (db_Jobs (mem s)) k = Some j \<longrightarrow> mget (db_Jobs (mem s')) k = Some j)
    \<and> (\<forall>k j. mget (db_Jobs (mem s')) k = Some j \<longrightarrow> mget (db_Jobs (mem s)) k = None \<longrightarrow>
         (\<exists>dev \<in> set (TargetIDs c). queued_for tc c dev j \<and> \<not> has_job tc c (mem s) dev \<and> \<not> key_taken tc c (mem s) dev))
    \<and> (\<forall>dev \<in> set (TargetIDs c). \<not> has_job tc c (mem s) dev \<longrightarrow> \<not> key_taken tc c (mem s) dev \<longrightarrow>
         (\<exists>!k. \<exists>j. mget (db_Jobs (mem s')) k = Some j \<and> campaign_job tc c dev j)
         \<and> (\<exists>k j. mget (db_Jobs (mem s')) k = Some j \<and> queued_for tc c dev j))"
proof -
  have wf: "wf_map (db_Jobs (mem s))" by (rule store_inv_wf(8) [OF assms(1)])
  let ?devs = "remaining_targets (envs 0) tc c s"
  have st: "cm_State c = ''canary_complete''"
    using assms(3,4) by (auto simp: promoteOTACampaign_def Let_def forbidden_def split: if_splits)
  obtain s1 where queue: "queueOTAJobs (\<lambda>n. envs (n + 4)) (sv_encode sv) tc c ?devs s = (None, s1)" "db_Jobs (mem s') = db_Jobs (mem s1)"
    using assms(3,4)
    by (auto simp: promoteOTACampaign_def Let_def forbidden_def split: if_splits prod.splits option.splits dest: UpdateOTACampaign_jobs)
  note q = queue_all [OF wf unused_later(1) [OF assms(2)] unused_later(2) [OF assms(2)] queue(1)]
  note remaining = set_remaining_targets [OF wf, of _ "envs 0" tc c]
  have new: "\<exists>dev \<in> set (TargetIDs c). queued_for tc c dev j \<and> \<not> has_job tc c (mem s) dev \<and> \<not> key_taken tc c (mem s) dev"
    if "mget (db_Jobs (mem s1)) k = Some j" "mget (db_Jobs (mem s)) k = None" for k j
    using q that remaining by blast
  have one: "(\<exists>!k. \<exists>j. mget (db_Jobs (mem s1)) k = Some j \<and> campaign_job tc c dev j)
      \<and> (\<exists>k j. mget (db_Jobs (mem s1)) k = Some j \<and> queued_for tc c dev j)"
    if dev: "dev \<in> set (TargetIDs c)" "\<not> has_job tc c (mem s) dev" "\<not> key_taken tc c (mem s) dev" for dev
  proof -
    have eq: "mget (db_Jobs (mem s1)) k = Some j \<and> campaign_job tc c dev j \<longleftrightarrow>
        mget (db_Jobs (mem s1)) k = Some j \<and> mget (db_Jobs (mem s)) k = None \<and> queued_for tc c dev j" for k j
    proof
      assume a: "mget (db_Jobs (mem s1)) k = Some j \<and> campaign_job tc c dev j"
      have n: "mget (db_Jobs (mem s)) k = None"
      proof (rule ccontr)
        assume "mget (db_Jobs (mem s)) k \<noteq> None"
        then have "mget (db_Jobs (mem s)) k = Some j" using a q by force
        then show False using a dev(2) unfolding has_job_def by blast
      qed
      then obtain d where "queued_for tc c d j" using new a by blast
      moreover have "d = dev" using calculation a by (auto simp: queued_for_def campaign_job_def)
      ultimately show "mget (db_Jobs (mem s1)) k = Some j \<and> mget (db_Jobs (mem s)) k = None \<and> queued_for tc c dev j" using a n by simp
    qed (simp add: queued_for_def)
    have "\<exists>!k. \<exists>j. mget (db_Jobs (mem s1)) k = Some j \<and> mget (db_Jobs (mem s)) k = None \<and> queued_for tc c dev j"
      using q dev remaining by blast
    then show ?thesis unfolding eq by blast
  qed
  have kept: "mget (db_Jobs (mem s1)) k = Some j" if "mget (db_Jobs (mem s)) k = Some j" for k j using q that by blast
  show ?thesis unfolding queue(2)
  proof (intro conjI allI ballI impI)
    show "\<exists>!k. \<exists>j. mget (db_Jobs (mem s1)) k = Some j \<and> campaign_job tc c dev j"
      "\<exists>k j. mget (db_Jobs (mem s1)) k = Some j \<and> queued_for tc c dev j"
      if "dev \<in> set (TargetIDs c)" "\<not> has_job tc c (mem s) dev" "\<not> key_taken tc c (mem s) dev" for dev
      using one [OF that] by blast+
  qed (use st kept new in blast)+
qed

text \<open>A campaign whose pilot, the first of its two devices, has succeeded.\<close>

definition demo_rollout :: Campaign where
  "demo_rollout = demo_campaign\<lparr>TargetIDs := [''d1'', ''d3''], cm_State := ''canary_complete''\<rparr>"

definition demo_rollout_db :: cstore where
  "demo_rollout_db = demo_db\<lparr>mem := (mem demo_db)
     \<lparr>db_Devices := [(''d1'', demo_dev ''d1'' ''a''), (''d2'', demo_dev ''d2'' ''b''), (''d3'', demo_dev ''d3'' ''a'')],
      db_OTACampaigns := [(''ota_1'', demo_rollout)],
      db_Jobs := [(''j1'', (demo_cjob ''j1'' ''a'' ''d1'' ''succeeded'')\<lparr>DeploymentID := ''ota_1'', IdempotencyKey := ''ota_1:d1''\<rparr>)]\<rparr>\<rparr>"

definition demo_promotion :: "response \<times> cstore" where
  "demo_promotion = promoteOTACampaign demo_services demo_envs (Inr \<lparr>pr_CampaignID = ''ota_1'', pr_Action = ''promote''\<rparr>)
     (demo_tc ''a'') demo_rollout_db"

lemma demo_rollout_inv: "store_inv (mem demo_rollout_db)"
  by code_simp

lemma demo_rollout_unused: "unused_ids demo_envs (mem demo_rollout_db)"
proof -
  have "hexEncode x \<noteq> ''1''" for x by (rule notI, drule arg_cong [of _ _ length]) simp
  then show ?thesis
    using demo_unused by (auto simp: unused_ids_def NewID_def demo_member_db_def demo_rollout_db_def demo_db_def no_data_def mget_def)
qed

lemma demo_rollout_jobs:
  "mget (db_Jobs (mem demo_rollout_db)) k = Some j \<longleftrightarrow>
     k = ''j1'' \<and> j = (demo_cjob ''j1'' ''a'' ''d1'' ''succeeded'')\<lparr>DeploymentID := ''ota_1'', IdempotencyKey := ''ota_1:d1''\<rparr>"
  by (auto simp: demo_rollout_db_def mget_def)

lemma demo_rollout_one_each: "one_each (demo_tc ''a'') demo_rollout (mem demo_rollout_db)"
  by (simp add: one_each_def demo_rollout_jobs)

lemma demo_rollout_has: "has_job (demo_tc ''a'') demo_rollout (mem demo_rollout_db) dev \<longleftrightarrow> dev = ''d1''"
  by (auto simp: has_job_def demo_rollout_jobs campaign_job_def demo_cjob_def demo_tc_def demo_rollout_def demo_campaign_def)

lemma demo_promoted: "\<exists>b. fst demo_promotion = JSON 200 b"
proof -
  have "(case fst demo_promotion of JSON n b \<Rightarrow> n = 200 | _ \<Rightarrow> False)" by code_simp
  then show ?thesis by (auto split: response.splits)
qed

lemma demo_rollout_free: "\<not> key_taken (demo_tc ''a'') demo_rollout (mem demo_rollout_db) ''d3''"
  by (simp add: key_taken_def demo_rollout_jobs demo_rollout_def demo_campaign_def)

theorem promotion_queues_remaining_targets_witness:
  "\<exists>k j. mget (db_Jobs (mem (snd demo_promotion))) k = Some j \<and> queued_for (demo_tc ''a'') demo_rollout ''d3'' j"
proof -
  obtain b where b: "fst demo_promotion = JSON 200 b" using demo_promoted by blast
  have "promoteOTACampaign demo_services demo_envs (Inr \<lparr>pr_CampaignID = ''ota_1'', pr_Action = ''promote''\<rparr>) (demo_tc ''a'') demo_rollout_db
      = (JSON 200 b, snd demo_promotion)"
    by (simp add: prod_eq_iff b [symmetric] demo_promotion_def)
  moreover have "GetOTACampaign (demo_tc ''a'') (pr_CampaignID \<lparr>pr_CampaignID = ''ota_1'', pr_Action = ''promote''\<rparr>) demo_rollout_db = Inr demo_rollout"
    by code_simp
  ultimately have "\<forall>dev \<in> set (TargetIDs demo_rollout). \<not> has_job (demo_tc ''a'') demo_rollout (mem demo_rollout_db) dev \<longrightarrow>
      \<not> key_taken (demo_tc ''a'') demo_rollout (mem demo_rollout_db) dev \<longrightarrow>
      (\<exists>k j. mget (db_Jobs (mem (snd demo_promotion))) k = Some j \<and> queued_for (demo_tc ''a'') demo_rollout dev j)"
    using promotion_queues_remaining_targets [OF demo_rollout_inv demo_rollout_unused] by blast
  moreover have "''d3'' \<in> set (TargetIDs demo_rollout)" by (simp add: demo_rollout_def)
  ultimately show ?thesis using demo_rollout_free by (simp add: demo_rollout_has)
qed

section \<open>The state of a campaign\<close>

text \<open>The jobs of a campaign among all jobs, and how they are found by their keys.\<close>

abbreviation deployed :: "Campaign \<Rightarrow> cJob go_map \<Rightarrow> cJob list" where
  "deployed c J \<equiv> filter (\<lambda>job. jo_TenantID job = cm_TenantID c \<and> DeploymentID job = cm_ID c) (map snd J)"

lemma set_deployed:
  assumes "wf_map J" "cm_TenantID c = tc_TenantID tc"
  shows "j \<in> set (deployed c J) \<longleftrightarrow> (\<exists>k. mget J k = Some j \<and> campaign_job tc c (jo_DeviceID j) j)"
  using assms(2) by (force simp: mget_iff_set [OF assms(1)] campaign_job_def)

lemma has_deployed:
  assumes "wf_map (db_Jobs d)" "cm_TenantID c = tc_TenantID tc"
  shows "has_job tc c d dev \<longleftrightarrow> dev \<in> jo_DeviceID ` set (deployed c (db_Jobs d))"
proof -
  have "has_job tc c d dev \<longleftrightarrow> (\<exists>j. j \<in> set (deployed c (db_Jobs d)) \<and> jo_DeviceID j = dev)"
    unfolding set_deployed [OF assms] has_job_def by (auto simp: campaign_job_def)
  then show ?thesis by auto
qed

lemma length_deployed:
  assumes "wf_map (db_Jobs d)" "cm_TenantID c = tc_TenantID tc" "one_each tc c d"
  shows "length (deployed c (db_Jobs d)) = card (jo_DeviceID ` set (deployed c (db_Jobs d)))"
proof -
  let ?P = "\<lambda>job. jo_TenantID job = cm_TenantID c \<and> DeploymentID job = cm_ID c"
  let ?es = "filter (\<lambda>(k, j). ?P j) (db_Jobs d)"
  have js: "deployed c (db_Jobs d) = map snd ?es" by (simp add: filter_map comp_def case_prod_unfold)
  have inj: "inj_on (\<lambda>(k, j). jo_DeviceID j) (set ?es)"
  proof (rule inj_onI)
    fix x y assume x: "x \<in> set ?es" and y: "y \<in> set ?es" and eq: "(case x of (k, j) \<Rightarrow> jo_DeviceID j) = (case y of (k, j) \<Rightarrow> jo_DeviceID j)"
    obtain k i where xk: "x = (k, i)" by (cases x)
    obtain l j where yl: "y = (l, j)" by (cases y)
    have "mget (db_Jobs d) k = Some i" "mget (db_Jobs d) l = Some j" using x y by (simp_all add: xk yl mget_iff_set [OF assms(1)])
    moreover have "campaign_job tc c (jo_DeviceID i) i" "campaign_job tc c (jo_DeviceID i) j"
      using x y eq assms(2) by (simp_all add: xk yl campaign_job_def)
    ultimately have "k = l" using assms(3) unfolding one_each_def by blast
    then show "x = y" using \<open>mget (db_Jobs d) k = Some i\<close> \<open>mget (db_Jobs d) l = Some j\<close> by (simp add: xk yl)
  qed
  have "distinct ?es" using assms(1) by (simp add: wf_map_def distinct_map)
  then have "length ?es = card (set ?es)" by (simp only: distinct_card)
  then have "length (deployed c (db_Jobs d)) = card ((\<lambda>(k, j). jo_DeviceID j) ` set ?es)"
    using card_image [OF inj] by (simp only: js length_map)
  also have "(\<lambda>(k, j). jo_DeviceID j) ` set ?es = jo_DeviceID ` set (deployed c (db_Jobs d))" by (force simp: js)
  finally show ?thesis .
qed

text \<open>There are fewer jobs than targets exactly if a target has none.\<close>

lemma few_deployed:
  assumes "wf_map (db_Jobs d)" "cm_TenantID c = tc_TenantID tc" "one_each tc c d" "distinct (TargetIDs c)"
    and "\<And>dev. has_job tc c d dev \<Longrightarrow> dev \<in> set (TargetIDs c)"
  shows "length (deployed c (db_Jobs d)) < length (TargetIDs c) \<longleftrightarrow> (\<exists>dev \<in> set (TargetIDs c). \<not> has_job tc c d dev)"
proof -
  let ?D = "jo_DeviceID ` set (deployed c (db_Jobs d))"
  have sub: "?D \<subseteq> set (TargetIDs c)" using assms(5) has_deployed [OF assms(1,2)] by blast
  have "length (TargetIDs c) = card (set (TargetIDs c))" using assms(4) by (simp add: distinct_card)
  moreover have "card ?D < card (set (TargetIDs c)) \<longleftrightarrow> ?D \<noteq> set (TargetIDs c)"
  proof
    assume "?D \<noteq> set (TargetIDs c)"
    with sub have "?D \<subset> set (TargetIDs c)" by (rule psubsetI)
    then show "card ?D < card (set (TargetIDs c))" by (rule psubset_card_mono [OF finite_set])
  qed (metis less_irrefl)
  ultimately have "length (deployed c (db_Jobs d)) < length (TargetIDs c) \<longleftrightarrow> ?D \<noteq> set (TargetIDs c)"
    by (simp only: length_deployed [OF assms(1-3)])
  with sub show ?thesis unfolding has_deployed [OF assms(1,2)] by blast
qed

text \<open>Every target has a job that succeeded exactly if every target has a job and they all succeeded.\<close>

lemma all_deployed:
  assumes "one_each tc c d" and "\<And>dev. has_job tc c d dev \<Longrightarrow> dev \<in> set (TargetIDs c)"
  shows "(\<forall>dev \<in> set (TargetIDs c). \<exists>k j. mget (db_Jobs d) k = Some j \<and> campaign_job tc c dev j \<and> jo_State j = st)
    \<longleftrightarrow> (\<forall>k j dev. mget (db_Jobs d) k = Some j \<longrightarrow> campaign_job tc c dev j \<longrightarrow> jo_State j = st)
      \<and> (\<forall>dev \<in> set (TargetIDs c). has_job tc c d dev)" (is "?L \<longleftrightarrow> ?A \<and> ?T")
proof
  assume L: ?L
  have ?A
  proof (intro allI impI)
    fix k j dev assume j: "mget (db_Jobs d) k = Some j" "campaign_job tc c dev j"
    then have "dev \<in> set (TargetIDs c)" using assms(2) by (auto simp: has_job_def)
    then obtain k' j' where j': "mget (db_Jobs d) k' = Some j'" "campaign_job tc c dev j'" "jo_State j' = st" using L by blast
    have "k = k'" using assms(1) j j'(1,2) unfolding one_each_def by blast
    then show "jo_State j = st" using j(1) j'(1,3) by simp
  qed
  moreover have ?T using L unfolding has_job_def by blast
  ultimately show "?A \<and> ?T" ..
next
  assume "?A \<and> ?T"
  then show ?L unfolding has_job_def by blast
qed

lemma state_cases:
  assumes "\<not> (G \<and> B)" "st = (if B then ''failed'' else if G then if L then ''canary_complete'' else ''completed'' else ''running'')"
  shows "(st = ''failed'' \<longleftrightarrow> B) \<and> (st = ''completed'' \<longleftrightarrow> G \<and> \<not> L) \<and> (st = ''canary_complete'' \<longleftrightarrow> G \<and> L)"
  using assms by (cases B; cases G; cases L) simp_all

text \<open>C28: The state of a campaign says what its jobs say: when a result is reported, the campaign counts as failed
  exactly if one of its jobs failed or expired, as completed exactly if every target has a job that
  succeeded, and as ready for promotion exactly if all its jobs succeeded but a target has none yet.
  (Its targets are distinct, and every job of it is for a target of its own.)\<close>

theorem campaign_state_is_faithful:
  assumes "wf_map (db_Jobs d)" "cm_TenantID c = tc_TenantID tc" "distinct (TargetIDs c)" "one_each tc c d"
    and "\<exists>dev. has_job tc c d dev" "\<And>dev. has_job tc c d dev \<Longrightarrow> dev \<in> set (TargetIDs c)"
  shows "(campaignState c (db_Jobs d) = ''failed'' \<longleftrightarrow>
        (\<exists>k j dev. mget (db_Jobs d) k = Some j \<and> campaign_job tc c dev j \<and> jo_State j \<in> {''failed'', ''expired''}))
    \<and> (campaignState c (db_Jobs d) = ''completed'' \<longleftrightarrow>
         (\<forall>dev \<in> set (TargetIDs c). \<exists>k j. mget (db_Jobs d) k = Some j \<and> campaign_job tc c dev j \<and> jo_State j = ''succeeded''))
    \<and> (campaignState c (db_Jobs d) = ''canary_complete'' \<longleftrightarrow>
         (\<forall>k j dev. mget (db_Jobs d) k = Some j \<longrightarrow> campaign_job tc c dev j \<longrightarrow> jo_State j = ''succeeded'')
         \<and> (\<exists>dev \<in> set (TargetIDs c). \<not> has_job tc c d dev))"
proof -
  let ?js = "deployed c (db_Jobs d)"
  note set = set_deployed [OF assms(1,2)]
  have some: "?js \<noteq> []" using assms(5) has_deployed [OF assms(1,2)] by (metis empty_iff image_empty list.set(1))
  have dev: "campaign_job tc c dev j \<longleftrightarrow> campaign_job tc c (jo_DeviceID j) j \<and> dev = jo_DeviceID j" for dev j
    by (auto simp: campaign_job_def)
  have bad: "(\<exists>k j dev. mget (db_Jobs d) k = Some j \<and> campaign_job tc c dev j \<and> jo_State j \<in> {''failed'', ''expired''})
      \<longleftrightarrow> (\<exists>j \<in> set ?js. jo_State j = ''failed'' \<or> jo_State j = ''expired'')"
    unfolding Bex_def set by (subst dev) blast
  have good: "(\<forall>k j dev. mget (db_Jobs d) k = Some j \<longrightarrow> campaign_job tc c dev j \<longrightarrow> jo_State j = ''succeeded'')
      \<longleftrightarrow> (\<forall>j \<in> set ?js. jo_State j = ''succeeded'')"
    unfolding Ball_def set by (subst dev) blast
  have excl: "\<not> ((\<forall>j \<in> set ?js. jo_State j = ''succeeded'') \<and> (\<exists>j \<in> set ?js. jo_State j = ''failed'' \<or> jo_State j = ''expired''))"
    by auto
  have few: "(\<exists>dev \<in> set (TargetIDs c). \<not> has_job tc c d dev) \<longleftrightarrow> length ?js < length (TargetIDs c)"
      "(\<forall>dev \<in> set (TargetIDs c). has_job tc c d dev) \<longleftrightarrow> \<not> length ?js < length (TargetIDs c)"
    using few_deployed [OF assms(1,2,4,3,6)] by blast+
  have all: "(\<forall>dev \<in> set (TargetIDs c). \<exists>k j. mget (db_Jobs d) k = Some j \<and> campaign_job tc c dev j \<and> jo_State j = ''succeeded'')
      \<longleftrightarrow> (\<forall>j \<in> set ?js. jo_State j = ''succeeded'') \<and> \<not> length ?js < length (TargetIDs c)"
    using all_deployed [OF assms(4,6), of "''succeeded''"] unfolding good few .
  have state: "campaignState c (db_Jobs d) =
      (if \<exists>j \<in> set ?js. jo_State j = ''failed'' \<or> jo_State j = ''expired'' then ''failed''
       else if \<forall>j \<in> set ?js. jo_State j = ''succeeded'' then
         if length ?js < length (TargetIDs c) then ''canary_complete'' else ''completed''
       else ''running'')"
    using some by (simp only: campaignState_def Let_def if_False)
  show ?thesis
    using state_cases [OF excl state] by (simp only: bad all good few)
qed

theorem campaign_state_is_faithful_witness: "campaignState demo_rollout (db_Jobs (mem demo_rollout_db)) = ''canary_complete''"
proof -
  have "wf_map (db_Jobs (mem demo_rollout_db))" by code_simp
  from campaign_state_is_faithful [OF this _ _ demo_rollout_one_each] show ?thesis
    by (simp add: demo_rollout_has demo_rollout_jobs)
       (simp add: demo_rollout_def demo_campaign_def demo_tc_def demo_cjob_def)
qed

end
