(* ===== verification/CloudInvariant.thy ===== *)
theory CloudInvariant
  imports CloudBoundary
begin

text \<open>
  The invariant of the cloud store over every method of \<^verbatim>\<open>storage/store.go\<close> that changes it,
  whoever calls it: the calls in a tenant's context, enrollment and log-in, the user commands, the
  start of the program, and the two methods that nothing calls.
\<close>

section \<open>Every method that changes the store\<close>

text \<open>
  \<open>InTenant\<close> stands for the methods that take a tenant's context; the methods after it take none, or take
  the tenant from their argument.
\<close>

datatype store_call =
    InTenant cenv Context operation
  | CallCreateOrganization cenv string string
  | CallBootstrapOwner cenv string string string string
  | CallCreateUser cenv string string
  | CallCreateTenantUser cenv Context string string string
  | CallUpsertUserPassword cenv string string
  | CallAddMembership cenv Membership
  | CallSaveSession cenv Session
  | CallConsumeToken cenv string string string
  | CallCreateDevice cenv Device
  | CallUpdateDevice cenv Device
  | CallUpsertDownstream cenv DownstreamDevice
  | CallUpsertArtifact cenv Artifact
  | CallAudit cenv AuditEvent

fun call_store :: "store_call \<Rightarrow> cstore \<Rightarrow> cstore" where
  "call_store (InTenant env tc op) s = snd (perform env tc op s)"
| "call_store (CallCreateOrganization env name slug) s = snd (CreateOrganization env name slug s)"
| "call_store (CallBootstrapOwner env name slug email hash) s = snd (BootstrapOrganizationOwner env name slug email hash s)"
| "call_store (CallCreateUser env email hash) s = snd (CreateUser env email hash s)"
| "call_store (CallCreateTenantUser env tc email hash role) s = snd (CreateTenantUser env tc email hash role s)"
| "call_store (CallUpsertUserPassword env email hash) s = snd (UpsertUserPassword env email hash s)"
| "call_store (CallAddMembership env m) s = snd (AddMembership env m s)"
| "call_store (CallSaveSession env session) s = snd (SaveSession env session s)"
| "call_store (CallConsumeToken env hash serial product) s = snd (ConsumeEnrollmentToken env hash serial product s)"
| "call_store (CallCreateDevice env dv) s = snd (CreateDevice env dv s)"
| "call_store (CallUpdateDevice env dv) s = snd (UpdateDevice env dv s)"
| "call_store (CallUpsertDownstream env dd) s = snd (UpsertDownstream env dd s)"
| "call_store (CallUpsertArtifact env a) s = snd (UpsertArtifact env a s)"
| "call_store (CallAudit env e) s = snd (Audit env e s)"

text \<open>The identifiers that must be new: a device is stored under its identifier whether or not it is in use.\<close>

fun fresh_call :: "store_call \<Rightarrow> cdata \<Rightarrow> bool" where
  "fresh_call (InTenant env tc op) d \<longleftrightarrow> fresh_ids env op d"
| "fresh_call (CallCreateDevice env dv) d \<longleftrightarrow> mget (db_Devices d) (NewID env 0 ''dev'') = None"
| "fresh_call _ d \<longleftrightarrow> True"

text \<open>The one method that stores a reference without looking at what it refers to.\<close>

fun attached :: "store_call \<Rightarrow> cdata \<Rightarrow> bool" where
  "attached (CallUpsertDownstream env dd) d \<longleftrightarrow> owned_device (dd_TenantID dd) d (dd_ParentGatewayID dd)"
| "attached _ d \<longleftrightarrow> True"

definition run_store :: "store_call list \<Rightarrow> cstore \<Rightarrow> cstore" where
  "run_store cs s = fold call_store cs s"

fun orderly :: "store_call list \<Rightarrow> cstore \<Rightarrow> bool" where
  "orderly [] s \<longleftrightarrow> True"
| "orderly (c # cs) s \<longleftrightarrow> fresh_call c (mem s) \<and> attached c (mem s) \<and> orderly cs (call_store c s)"

section \<open>Methods outside a tenant's context\<close>

lemma store_inv_same_fleet:
  assumes "store_inv d"
    and "db_Devices d' = db_Devices d" "db_Downstream d' = db_Downstream d" "db_Telemetry d' = db_Telemetry d"
    "db_Inventory d' = db_Inventory d" "db_Jobs d' = db_Jobs d" "db_OTACampaigns d' = db_OTACampaigns d"
    "db_PlatformSettings d' = db_PlatformSettings d" "db_AIConfigurations d' = db_AIConfigurations d"
    and "wf_map (db_Organizations d')" "wf_map (db_Users d')" "wf_map (db_Sessions d')" "wf_map (db_EnrollmentTokens d')"
    "wf_map (db_Artifacts d')"
  shows "store_inv d'"
proof -
  have "owned_device t d' = owned_device t d" for t by (rule ext) (simp add: owned_device_def assms)
  then show ?thesis using assms by (simp add: store_inv_def wf_maps_def references_ok_def)
qed

lemmas store_call_defs = CreateOrganization_def CreateUser_def UpsertUserPassword_def AddMembership_def SaveSession_def
  UpsertArtifact_def Audit_def CreateTenantUser_def BootstrapOrganizationOwner_def ConsumeEnrollmentToken_def put_user_def Let_def

lemma saveLocked_cases:
  "(case saveLocked env s of (r, s') \<Rightarrow> f r s') = f (fst (saveLocked env s)) (snd (saveLocked env s))"
  by (simp add: case_prod_unfold)

lemma store_inv_account_calls:
  assumes "store_inv (mem s)"
  shows "store_inv (mem (snd (CreateOrganization env name slug s)))"
    and "store_inv (mem (snd (BootstrapOrganizationOwner env name slug email hash s)))"
    and "store_inv (mem (snd (CreateUser env email hash s)))"
    and "store_inv (mem (snd (CreateTenantUser env tc email hash role s)))"
    and "store_inv (mem (snd (UpsertUserPassword env email hash s)))"
    and "store_inv (mem (snd (AddMembership env m s)))"
    and "store_inv (mem (snd (SaveSession env session s)))"
    and "store_inv (mem (snd (ConsumeEnrollmentToken env hash serial product s)))"
    and "store_inv (mem (snd (UpsertArtifact env a s)))"
    and "store_inv (mem (snd (Audit env e s)))"
proof -
  have wf: "wf_maps (mem s)" using assms by (simp add: store_inv_def)
  note simps = store_call_defs wf_mapsD [OF wf]
  show "store_inv (mem (snd (CreateOrganization env name slug s)))"
    by (rule store_inv_same_fleet [OF assms]) (simp_all add: simps)
  show "store_inv (mem (snd (BootstrapOrganizationOwner env name slug email hash s)))"
    by (rule store_inv_same_fleet [OF assms]) (simp_all add: simps saveLocked_cases split: option.split)
  show "store_inv (mem (snd (CreateUser env email hash s)))"
    by (rule store_inv_same_fleet [OF assms]) (simp_all add: simps)
  show "store_inv (mem (snd (CreateTenantUser env tc email hash role s)))"
    by (rule store_inv_same_fleet [OF assms]) (simp_all add: simps saveLocked_cases split: option.split)
  show "store_inv (mem (snd (UpsertUserPassword env email hash s)))"
    by (rule store_inv_same_fleet [OF assms]) (simp_all add: simps split: option.split)
  show "store_inv (mem (snd (AddMembership env m s)))"
    by (rule store_inv_same_fleet [OF assms]) (simp_all add: simps)
  show "store_inv (mem (snd (SaveSession env session s)))"
    by (rule store_inv_same_fleet [OF assms]) (simp_all add: simps)
  show "store_inv (mem (snd (ConsumeEnrollmentToken env hash serial product s)))"
    by (rule store_inv_same_fleet [OF assms]) (simp_all add: simps split: option.split)
  show "store_inv (mem (snd (UpsertArtifact env a s)))"
    by (rule store_inv_same_fleet [OF assms]) (simp_all add: simps)
  show "store_inv (mem (snd (Audit env e s)))"
    by (rule store_inv_same_fleet [OF assms]) (simp_all add: simps)
qed

lemma store_inv_device_calls:
  assumes "store_inv (mem s)"
  shows "mget (db_Devices (mem s)) (NewID env 0 ''dev'') = None \<Longrightarrow> store_inv (mem (snd (CreateDevice env dv s)))"
    and "store_inv (mem (snd (UpdateDevice env dv s)))"
proof -
  let ?tc = "\<lparr>tc_TenantID = dv_TenantID dv, tc_ActorID = [], Roles = [], Scopes = []\<rparr>"
  show "store_inv (mem (snd (CreateDevice env dv s)))" if "mget (db_Devices (mem s)) (NewID env 0 ''dev'') = None"
    using within_CreateDevice [OF assms that, of dv "fst (CreateDevice env dv s)" "snd (CreateDevice env dv s)" ?tc]
    by (simp add: within_def)
  show "store_inv (mem (snd (UpdateDevice env dv s)))"
    using within_UpdateDevice [OF assms, of env dv "fst (UpdateDevice env dv s)" "snd (UpdateDevice env dv s)" ?tc]
    by (simp add: within_def)
qed

section \<open>The invariant\<close>

text \<open>A downstream device is stored whatever its parent: the invariant holds afterwards exactly if the parent is a device
  of its tenant.\<close>

lemma store_inv_put_downstream:
  assumes "store_inv d"
  shows "store_inv (d\<lparr>db_Downstream := mput k dd (db_Downstream d)\<rparr>) \<longleftrightarrow> owned_device (dd_TenantID dd) d (dd_ParentGatewayID dd)"
    (is "store_inv ?d \<longleftrightarrow> _")
proof -
  have same: "owned_device t ?d = owned_device t d" for t by (rule ext) (simp add: owned_device_def)
  let ?ok = "\<lambda>(k, dd). owned_device (dd_TenantID dd) d (dd_ParentGatewayID dd)"
  have "(k, dd) \<in> set (mput k dd (db_Downstream d))"
    using assms by (simp add: store_inv_def wf_maps_def set_mput)
  moreover have "x = (k, dd) \<or> x \<in> set (db_Downstream d)" if "x \<in> set (mput k dd (db_Downstream d))" for x
    using that assms by (auto simp: store_inv_def wf_maps_def set_mput)
  moreover have "\<forall>x \<in> set (db_Downstream d). ?ok x" using assms by (simp add: store_inv_def references_ok_def)
  ultimately have "(\<forall>x \<in> set (mput k dd (db_Downstream d)). ?ok x) \<longleftrightarrow> ?ok (k, dd)" by blast
  then show ?thesis using assms by (simp add: store_inv_def wf_maps_def references_ok_def same)
qed

lemma store_inv_UpsertDownstream:
  assumes "store_inv (mem s)"
  shows "store_inv (mem (snd (UpsertDownstream env dd s))) \<longleftrightarrow> owned_device (dd_TenantID dd) (mem s) (dd_ParentGatewayID dd)"
  using assms by (simp add: UpsertDownstream_def Let_def store_inv_put_downstream)

lemma store_inv_call:
  assumes "store_inv (mem s)" "fresh_call c (mem s)"
  shows "store_inv (mem (call_store c s)) \<longleftrightarrow> attached c (mem s)"
proof (cases c)
  case (InTenant env tc op)
  then show ?thesis using assms within_perform [of s env op tc] by (simp add: within_def)
qed (use assms in \<open>simp_all add: store_inv_account_calls store_inv_device_calls store_inv_UpsertDownstream\<close>)

lemma store_inv_run: "store_inv (mem s) \<Longrightarrow> orderly cs s \<Longrightarrow> store_inv (mem (run_store cs s))"
  by (induction cs arbitrary: s) (auto simp: run_store_def store_inv_call)

text \<open>C25: The invariant of the store, over every method that changes it: unique keys, campaigns filed under their
  identifier, jobs and downstream devices attached to a registered device of their own tenant, telemetry and
  inventory attached to a registered device. Along any sequence of calls whose new identifiers are unused it holds, and
  it holds after one more call exactly if that call is not \<open>UpsertDownstream\<close> with a parent that is no device of the
  tenant: this method alone (which nothing in the program calls) stores a reference unchecked, and the sequence before
  is taken to use it only with such a parent.\<close>

theorem store_keeps_references:
  assumes "store_inv (mem s)" "orderly cs s" "fresh_call c (mem (run_store cs s))"
  shows "store_inv (mem (run_store cs s))
    \<and> (store_inv (mem (call_store c (run_store cs s))) \<longleftrightarrow> attached c (mem (run_store cs s)))"
  using assms by (simp add: store_inv_run store_inv_call)

definition demo_child :: "string \<Rightarrow> DownstreamDevice" where
  "demo_child gateway = \<lparr>dd_ID = ''c1'', dd_TenantID = ''a'', dd_ParentGatewayID = gateway, ConnectorType = ''modbus'',
     ProtocolAddress = ''1'', dd_Model = [], dd_Serial = [], FirmwareVersion = [], dd_LastSeenAt = 0, dd_Health = [],
     dd_Capabilities = [], ApprovedCommands = []\<rparr>"

definition demo_store_calls :: "store_call list" where
  "demo_store_calls =
     [CallCreateOrganization demo_cenv ''acme'' ''acme'', CallUpsertDownstream demo_cenv (demo_child ''d1''),
      InTenant demo_cenv (demo_tc ''a'') (OpDeleteDevice ''d1'')]"

text \<open>A child of a registered gateway goes with it; after that, the same call leaves it without one.\<close>

theorem store_keeps_references_witness:
  "store_inv (mem (run_store demo_store_calls demo_db))
   \<and> \<not> store_inv (mem (call_store (CallUpsertDownstream demo_cenv (demo_child ''d1'')) (run_store demo_store_calls demo_db)))"
proof -
  have "orderly demo_store_calls demo_db" by code_simp
  moreover have "\<not> attached (CallUpsertDownstream demo_cenv (demo_child ''d1'')) (mem (run_store demo_store_calls demo_db))" by code_simp
  ultimately show ?thesis
    using store_keeps_references [OF demo_db_inv, of demo_store_calls "CallUpsertDownstream demo_cenv (demo_child ''d1'')"] by simp
qed

end
