(* ===== verification/AssistantService.thy ===== *)
theory AssistantService
  imports CloudModel
begin

text \<open>
  The client of the AI providers, \<^verbatim>\<open>cloud-infra/internal/assistant/assistant.go\<close>: the
  limit on requests, the sealing of secrets, the check of a provider, the requests to the three kinds of
  providers and the reading of their answers. The cipher, JSON and the HTTP round trip are parameters.
\<close>

section \<open>Data\<close>

record ProviderConfig =
  pc_Provider :: string
  pc_BaseURL :: string
  pc_Model :: string
  APIKey :: string

record Message =
  ms_Role :: string
  ms_Content :: string

record CompletionRequest =
  System :: string
  Prompt :: string
  History :: "Message list"
  MaxTokens :: int

record Usage =
  InputTokens :: int
  OutputTokens :: int

record ProposedAction =
  pa_Kind :: string
  pa_Title :: string
  pa_Rationale :: string
  pa_Risk :: string
  pa_DeviceID :: string
  pa_JobType :: string
  pa_Page :: string

record AIResult =
  Answer :: string
  Actions :: "ProposedAction list"
  FollowUpPrompts :: "string list"
  ai_Usage :: Usage

definition no_usage :: Usage where "no_usage = \<lparr>InputTokens = 0, OutputTokens = 0\<rparr>"

section \<open>Sealing\<close>

text \<open>The cipher with its nonce and additional data, and the text form of sealed bytes.\<close>

record secret_box =
  aead_Seal :: "string \<Rightarrow> string \<Rightarrow> string \<Rightarrow> string"
  aead_Open :: "string \<Rightarrow> string \<Rightarrow> string \<Rightarrow> string option"
  EncodeToString :: "string \<Rightarrow> string"
  DecodeString :: "string \<Rightarrow> string option"

definition nonce_size :: nat where "nonce_size = 12"

definition box_seal :: "secret_box \<Rightarrow> string result \<Rightarrow> string \<Rightarrow> string \<Rightarrow> string result" where
  "box_seal b rand plainText additionalData =
     (case rand of
        Inl err \<Rightarrow> Inl err
      | Inr nonce \<Rightarrow> Inr (EncodeToString b (nonce @ aead_Seal b nonce plainText additionalData)))"

definition box_open :: "secret_box \<Rightarrow> string \<Rightarrow> string \<Rightarrow> string result" where
  "box_open b encoded additionalData =
     (case DecodeString b encoded of
        None \<Rightarrow> Inl (ErrorString ''invalid encrypted value'')
      | Some cipherText \<Rightarrow>
          if length cipherText < nonce_size then Inl (ErrorString ''invalid encrypted value'')
          else (case aead_Open b (take nonce_size cipherText) (drop nonce_size cipherText) additionalData of
                  None \<Rightarrow> Inl (ErrorString ''encrypted value could not be authenticated'')
                | Some plainText \<Rightarrow> Inr plainText))"

section \<open>The service\<close>

text \<open>\<open>sv_box\<close> is the box or the error of creating it (\<^verbatim>\<open>initErr\<close>).\<close>

record ai_service =
  sv_box :: "secret_box result"
  ai_limit :: int
  requestTimes :: "go_time list go_map"

definition service_New :: "secret_box result \<Rightarrow> int \<Rightarrow> ai_service" where
  "service_New box requestsPerMinute =
     \<lparr>sv_box = box, ai_limit = (if requestsPerMinute \<le> 0 then 30 else requestsPerMinute), requestTimes = []\<rparr>"

definition recent :: "go_time \<Rightarrow> go_time list \<Rightarrow> go_time list" where
  "recent t stamps = filter (\<lambda>stamp. After stamp (time_Add t (- Minute))) stamps"

definition Allow :: "go_time \<Rightarrow> string \<Rightarrow> ai_service \<Rightarrow> bool \<times> ai_service" where
  "Allow t key svc =
     (let kept = recent t (case mget (requestTimes svc) key of Some stamps \<Rightarrow> stamps | None \<Rightarrow> []) in
      if ai_limit svc \<le> int (length kept) then (False, svc\<lparr>requestTimes := mput key kept (requestTimes svc)\<rparr>)
      else (True, svc\<lparr>requestTimes := mput key (kept @ [t]) (requestTimes svc)\<rparr>))"

definition service_Seal :: "ai_service \<Rightarrow> string result \<Rightarrow> string \<Rightarrow> string \<Rightarrow> string result" where
  "service_Seal svc rand plainText purpose =
     (case sv_box svc of Inl err \<Rightarrow> Inl err | Inr box \<Rightarrow> box_seal box rand plainText purpose)"

definition service_Open :: "ai_service \<Rightarrow> string \<Rightarrow> string \<Rightarrow> string result" where
  "service_Open svc cipherText purpose =
     (case sv_box svc of Inl err \<Rightarrow> Inl err | Inr box \<Rightarrow> box_open box cipherText purpose)"

definition service_OpenJSON :: "ai_service \<Rightarrow> (string \<Rightarrow> 'a result) \<Rightarrow> string \<Rightarrow> string \<Rightarrow> 'a result" where
  "service_OpenJSON svc decode cipherText purpose =
     (case service_Open svc cipherText purpose of Inl err \<Rightarrow> Inl err | Inr payload \<Rightarrow> decode payload)"

section \<open>Checking a provider\<close>

text \<open>
  An address is its four or sixteen bytes. The first test of \<^verbatim>\<open>net.IP\<close>'s methods is whether
  it is an IPv4 address, also one mapped into IPv6.
\<close>

type_synonym ip = "nat list"

definition To4 :: "ip \<Rightarrow> ip option" where
  "To4 a = (if length a = 4 then Some a
            else if length a = 16 \<and> take 10 a = replicate 10 0 \<and> a ! 10 = 255 \<and> a ! 11 = 255 then Some (drop 12 a)
            else None)"

definition IsUnspecified :: "ip \<Rightarrow> bool" where
  "IsUnspecified a \<longleftrightarrow> To4 a = Some [0, 0, 0, 0] \<or> a = replicate 16 0"

definition IsMulticast :: "ip \<Rightarrow> bool" where
  "IsMulticast a \<longleftrightarrow> (case To4 a of Some b \<Rightarrow> b ! 0 div 16 = 14 | None \<Rightarrow> length a = 16 \<and> a ! 0 = 255)"

definition IsLinkLocalUnicast :: "ip \<Rightarrow> bool" where
  "IsLinkLocalUnicast a \<longleftrightarrow>
     (case To4 a of Some b \<Rightarrow> b ! 0 = 169 \<and> b ! 1 = 254 | None \<Rightarrow> length a = 16 \<and> a ! 0 = 254 \<and> a ! 1 div 64 = 2)"

definition IsLinkLocalMulticast :: "ip \<Rightarrow> bool" where
  "IsLinkLocalMulticast a \<longleftrightarrow>
     (case To4 a of Some b \<Rightarrow> b ! 0 = 224 \<and> b ! 1 = 0 \<and> b ! 2 = 0 | None \<Rightarrow> length a = 16 \<and> a ! 0 = 255 \<and> a ! 1 mod 16 = 2)"

definition blockedIP :: "ip \<Rightarrow> bool" where
  "blockedIP a \<longleftrightarrow> IsUnspecified a \<or> IsMulticast a \<or> IsLinkLocalUnicast a \<or> IsLinkLocalMulticast a"

definition validateBaseURL :: "(string \<Rightarrow> url result) \<Rightarrow> (string \<Rightarrow> ip option) \<Rightarrow> string \<Rightarrow> go_error option" where
  "validateBaseURL parse ParseIP raw =
     (if 512 < length raw then Some (ErrorString ''provider URL is too long'')
      else
        let bad = Some (ErrorString ''provider URL must be an HTTP or HTTPS URL'') in
        case parse (TrimSpace raw) of
          Inl err \<Rightarrow> bad
        | Inr u \<Rightarrow>
            if Hostname u = [] \<or> (Scheme u \<noteq> ''http'' \<and> Scheme u \<noteq> ''https'') then bad
            else if User u \<or> RawQuery u \<noteq> [] \<or> Fragment u \<noteq> []
            then Some (ErrorString ''provider URL cannot contain credentials, a query, or a fragment'')
            else (case ParseIP (Hostname u) of
                    Some a \<Rightarrow> if blockedIP a then Some (ErrorString ''provider URL resolves to a prohibited network address'') else None
                  | None \<Rightarrow> None))"

definition ValidateConfiguration :: "(string \<Rightarrow> url result) \<Rightarrow> (string \<Rightarrow> ip option) \<Rightarrow> ProviderConfig \<Rightarrow> go_error option" where
  "ValidateConfiguration parse ParseIP config =
     (if pc_Provider config \<noteq> ''openai'' \<and> pc_Provider config \<noteq> ''anthropic'' \<and> pc_Provider config \<noteq> ''compatible''
      then Some (ErrorString ''provider must be openai, anthropic, or compatible'')
      else if TrimSpace (pc_Model config) = [] \<or> 128 < length (pc_Model config)
      then Some (ErrorString ''a valid model name is required'')
      else if pc_Provider config \<noteq> ''compatible'' \<and> TrimSpace (APIKey config) = []
      then Some (ErrorString ''an API key is required for this provider'')
      else validateBaseURL parse ParseIP (pc_BaseURL config))"

text \<open>The dialler: every address of the host is checked, and the first of them is dialled.\<close>

definition safeDialContext ::
  "(string \<Rightarrow> (string \<times> string) result) \<Rightarrow> (string \<Rightarrow> ip list result) \<Rightarrow> string \<Rightarrow> (ip \<times> string) result" where
  "safeDialContext SplitHostPort LookupIPAddr address =
     (case SplitHostPort address of
        Inl err \<Rightarrow> Inl err
      | Inr (host, port) \<Rightarrow>
          (case LookupIPAddr host of
             Inl err \<Rightarrow> Inl (ErrorString ''AI provider hostname could not be resolved'')
           | Inr addresses \<Rightarrow>
               (case addresses of
                  [] \<Rightarrow> Inl (ErrorString ''AI provider hostname could not be resolved'')
                | a # rest \<Rightarrow>
                    if \<exists>b \<in> set addresses. blockedIP b
                    then Inl (ErrorString ''AI provider resolved to a prohibited network address'')
                    else Inr (a, port))))"

section \<open>Asking a provider\<close>

datatype json = JString string | JInt int | JNumber string | JBool bool | JList "json list" | JObject "(string \<times> json) list"

text \<open>
  \<open>ha_Body\<close> is the body or the error of reading it. \<open>pv_post\<close> takes the URL, the headers beside
  those every request has, and the body.
\<close>

record http_answer =
  ha_StatusCode :: int
  ha_Body :: "string result"

record openai_response =
  OutputText :: string
  Output :: "(string \<times> string) list list"
  oa_Usage :: Usage

record anthropic_response =
  an_Content :: "(string \<times> string) list"
  an_Usage :: Usage

record compatible_response =
  Choices :: "string list"
  co_Usage :: Usage

record provider =
  pv_post :: "string \<Rightarrow> (string \<times> string) list \<Rightarrow> json \<Rightarrow> http_answer result"
  pv_StatusText :: "int \<Rightarrow> string"
  pv_problem :: "string \<Rightarrow> string"
  pv_openai :: "string \<Rightarrow> openai_response option"
  pv_anthropic :: "string \<Rightarrow> anthropic_response option"
  pv_compatible :: "string \<Rightarrow> compatible_response option"
  pv_result :: "string \<Rightarrow> AIResult option"

definition maxProviderResponse :: nat where "maxProviderResponse = 1024 * 1024"

definition ai_bounded :: "string \<Rightarrow> nat \<Rightarrow> string" where
  "ai_bounded value limit = take limit (TrimSpace value)"

definition doJSON :: "provider \<Rightarrow> (string \<Rightarrow> 'a option) \<Rightarrow> string \<Rightarrow> json \<Rightarrow> (string \<times> string) list \<Rightarrow> 'a result" where
  "doJSON pv decode endpoint payload headers =
     (case pv_post pv endpoint headers payload of
        Inl err \<Rightarrow> Inl (ErrorString (''AI provider request failed: '' @ Error err))
      | Inr answer \<Rightarrow>
          (case ha_Body answer of
             Inl err \<Rightarrow> Inl (ErrorString ''failed to read AI provider response'')
           | Inr contents \<Rightarrow>
               let raw = take (maxProviderResponse + 1) contents in
               if maxProviderResponse < length raw then Inl (ErrorString ''AI provider response exceeded the size limit'')
               else if ha_StatusCode answer < 200 \<or> 300 \<le> ha_StatusCode answer then
                 (let message = ai_bounded (pv_problem pv raw) 240;
                      message = (if message = [] then pv_StatusText pv (ha_StatusCode answer) else message) in
                  Inl (ErrorString (''AI provider returned HTTP '' @ itoa (ha_StatusCode answer) @ '': '' @ message)))
               else (case decode raw of
                       None \<Rightarrow> Inl (ErrorString ''AI provider returned invalid JSON'')
                     | Some out \<Rightarrow> Inr out)))"

definition conversationText :: "CompletionRequest \<Rightarrow> string" where
  "conversationText request =
     concat (map (\<lambda>message. ToUpper (ms_Role message) @ '': '' @ ms_Content message @ [CHR 0x0A, CHR 0x0A]) (History request))
     @ ''USER: '' @ Prompt request"

definition message_json :: "string \<times> string \<Rightarrow> json" where
  "message_json = (\<lambda>(role, content). JObject [(''role'', JString role), (''content'', JString content)])"

definition history_pairs :: "CompletionRequest \<Rightarrow> (string \<times> string) list" where
  "history_pairs request = map (\<lambda>m. (ms_Role m, ms_Content m)) (History request) @ [(''user'', Prompt request)]"

definition empty_response :: go_error where
  "empty_response = ErrorString ''AI provider returned an empty response''"

definition openAI :: "provider \<Rightarrow> ProviderConfig \<Rightarrow> CompletionRequest \<Rightarrow> (string \<times> Usage) result" where
  "openAI pv config request =
     (let payload = JObject [(''model'', JString (pc_Model config)), (''instructions'', JString (System request)),
            (''input'', JString (conversationText request)), (''max_output_tokens'', JInt (MaxTokens request)), (''store'', JBool False)] in
      case doJSON pv (pv_openai pv) (TrimRight (pc_BaseURL config) ''/'' @ ''/responses'') payload
             [(''Authorization'', ''Bearer '' @ APIKey config)] of
        Inl err \<Rightarrow> Inl err
      | Inr response \<Rightarrow>
          (let text = (if OutputText response = []
                       then concat (map snd (filter (\<lambda>(ty, text). ty = ''output_text'' \<or> ty = ''text'') (concat (Output response))))
                       else OutputText response) in
           if TrimSpace text = [] then Inl empty_response else Inr (text, oa_Usage response)))"

definition anthropic :: "provider \<Rightarrow> ProviderConfig \<Rightarrow> CompletionRequest \<Rightarrow> (string \<times> Usage) result" where
  "anthropic pv config request =
     (let payload = JObject [(''model'', JString (pc_Model config)), (''max_tokens'', JInt (MaxTokens request)),
            (''system'', JString (System request)), (''messages'', JList (map message_json (history_pairs request)))] in
      case doJSON pv (pv_anthropic pv) (TrimRight (pc_BaseURL config) ''/'' @ ''/v1/messages'') payload
             [(''x-api-key'', APIKey config), (''anthropic-version'', ''2023-06-01'')] of
        Inl err \<Rightarrow> Inl err
      | Inr response \<Rightarrow>
          (let text = concat (map snd (filter (\<lambda>(ty, text). ty = ''text'') (an_Content response))) in
           if TrimSpace text = [] then Inl empty_response else Inr (text, an_Usage response)))"

definition compatible :: "provider \<Rightarrow> ProviderConfig \<Rightarrow> CompletionRequest \<Rightarrow> (string \<times> Usage) result" where
  "compatible pv config request =
     (let payload = JObject [(''model'', JString (pc_Model config)),
            (''messages'', JList (map message_json ((''system'', System request) # history_pairs request))),
            (''max_tokens'', JInt (MaxTokens request)), (''temperature'', JNumber ''0.2'')];
          headers = (if APIKey config \<noteq> [] then [(''Authorization'', ''Bearer '' @ APIKey config)] else []) in
      case doJSON pv (pv_compatible pv) (TrimRight (pc_BaseURL config) ''/'' @ ''/chat/completions'') payload headers of
        Inl err \<Rightarrow> Inl err
      | Inr response \<Rightarrow>
          (case Choices response of
             [] \<Rightarrow> Inl empty_response
           | content # _ \<Rightarrow> if TrimSpace content = [] then Inl empty_response else Inr (content, co_Usage response)))"

text \<open>The part of an answer from its first opening to its last closing brace.\<close>

definition braced :: "string \<Rightarrow> string option" where
  "braced s =
     (let start = length (takeWhile (\<lambda>c. c \<noteq> CHR ''{'') s); rest = length (takeWhile (\<lambda>c. c \<noteq> CHR ''}'') (rev s)) in
      if start < length s \<and> rest < length s \<and> start < length s - rest - 1
      then Some (take (length s - rest - start) (drop start s)) else None)"

definition parseResult :: "provider \<Rightarrow> string \<Rightarrow> AIResult" where
  "parseResult pv raw =
     (let trimmed = TrimSpace raw;
          plain = \<lparr>Answer = ai_bounded trimmed 12000, Actions = [], FollowUpPrompts = [], ai_Usage = no_usage\<rparr> in
      case braced trimmed of
        None \<Rightarrow> plain
      | Some text \<Rightarrow>
          (case pv_result pv text of
             None \<Rightarrow> plain
           | Some result \<Rightarrow>
               if TrimSpace (Answer result) = [] then plain
               else result\<lparr>Answer := ai_bounded (TrimSpace (Answer result)) 12000, Actions := take 4 (Actions result),
                           FollowUpPrompts := take 4 (FollowUpPrompts result)\<rparr>))"

definition Complete ::
  "(string \<Rightarrow> url result) \<Rightarrow> (string \<Rightarrow> ip option) \<Rightarrow> provider \<Rightarrow> ProviderConfig \<Rightarrow> CompletionRequest \<Rightarrow> AIResult result" where
  "Complete parse ParseIP pv config request =
     (case ValidateConfiguration parse ParseIP config of
        Some err \<Rightarrow> Inl err
      | None \<Rightarrow>
          (let request = (if MaxTokens request \<le> 0 \<or> 4096 < MaxTokens request then request\<lparr>MaxTokens := 1200\<rparr> else request);
               reply = (if pc_Provider config = ''openai'' then openAI pv config request
                        else if pc_Provider config = ''anthropic'' then anthropic pv config request
                        else if pc_Provider config = ''compatible'' then compatible pv config request
                        else Inl (ErrorString ''unsupported AI provider'')) in
           case reply of
             Inl err \<Rightarrow> Inl err
           | Inr (text, usage) \<Rightarrow> Inr ((parseResult pv text)\<lparr>ai_Usage := usage\<rparr>)))"

section \<open>Properties of the service\<close>

text \<open>A sealed text opens under its own purpose.\<close>

definition box_ok :: "secret_box \<Rightarrow> bool" where
  "box_ok b \<longleftrightarrow> (\<forall>s. DecodeString b (EncodeToString b s) = Some s)
     \<and> (\<forall>nonce p a. length nonce = nonce_size \<longrightarrow> aead_Open b nonce (aead_Seal b nonce p a) a = Some p)"

lemma box_open_seal:
  "box_ok b \<Longrightarrow> length nonce = nonce_size \<Longrightarrow> box_seal b (Inr nonce) p a = Inr t \<Longrightarrow> box_open b t a = Inr p"
  by (auto simp: box_ok_def box_seal_def box_open_def)

text \<open>The requests a key has made in the last minute are never more than the limit.\<close>

definition within_limit :: "ai_service \<Rightarrow> bool" where
  "within_limit svc \<longleftrightarrow> 0 < ai_limit svc \<and> (\<forall>key stamps. mget (requestTimes svc) key = Some stamps \<longrightarrow> int (length stamps) \<le> ai_limit svc)"

lemma within_limit_New [simp]: "within_limit (service_New box n)"
  by (simp add: within_limit_def service_New_def)

lemma within_limit_Allow: "within_limit svc \<Longrightarrow> within_limit (snd (Allow t key svc))"
proof -
  assume svc: "within_limit svc"
  let ?stamps = "case mget (requestTimes svc) key of Some stamps \<Rightarrow> stamps | None \<Rightarrow> []"
  have "length (recent t ?stamps) \<le> length ?stamps" unfolding recent_def by (rule length_filter_le)
  moreover have "int (length ?stamps) \<le> ai_limit svc" using svc by (auto simp: within_limit_def split: option.split)
  ultimately have kept: "int (length (recent t ?stamps)) \<le> ai_limit svc" by linarith
  define stamps where "stamps = recent t ?stamps"
  define stored where "stored = (if ai_limit svc \<le> int (length stamps) then stamps else stamps @ [t])"
  have "snd (Allow t key svc) = svc\<lparr>requestTimes := mput key stored (requestTimes svc)\<rparr>"
    by (simp add: Allow_def Let_def stored_def stamps_def)
  moreover have "int (length stored) \<le> ai_limit svc"
    using kept unfolding stamps_def [symmetric] by (simp add: stored_def)
  ultimately show ?thesis using svc by (simp add: within_limit_def)
qed

text \<open>An address that is dialled is not blocked.\<close>

lemma safe_dial: "safeDialContext split lookup address = Inr (a, port) \<Longrightarrow> \<not> blockedIP a"
  by (auto simp: safeDialContext_def split: sum.splits list.splits if_splits)

lemma parseResult_bounded: "length (Actions (parseResult pv raw)) \<le> 4 \<and> length (FollowUpPrompts (parseResult pv raw)) \<le> 4"
  by (simp add: parseResult_def Let_def split: option.split)

end
