(* ===== verification/Assistant.thy ===== *)
theory Assistant
  imports CloudBoundary AssistantService
begin

text \<open>
  The assistant of the control plane, \<^verbatim>\<open>cloud-infra/internal/server/assistant.go\<close>: its
  configuration, the conversation with the fleet as context, and the actions a model proposes, which
  become jobs only through an approval token. A handler runs over the store and the assistant service.
\<close>

section \<open>Data\<close>

record ai_config_view =
  cv_Provider :: string
  cv_BaseURL :: string
  cv_Model :: string
  cv_Configured :: bool
  cv_Enabled :: bool
  cv_KeyHint :: string
  CanManage :: bool
  cv_UpdatedAt :: go_time

record ai_config_request =
  cr_Provider :: string
  cr_BaseURL :: string
  cr_Model :: string
  cr_APIKey :: string
  ClearAPIKey :: bool
  cr_Enabled :: "bool option"

record approval =
  ap_TenantID :: string
  ap_ActorID :: string
  ap_DeviceID :: string
  ap_JobType :: string
  ap_Nonce :: string
  ap_ExpiresAt :: go_time

record ai_action_view =
  av_ID :: string
  av_Kind :: string
  av_Title :: string
  av_Rationale :: string
  av_Risk :: string
  av_DeviceID :: string
  DeviceName :: string
  av_JobType :: string
  av_Page :: string
  ApprovalToken :: string

record device_snapshot =
  ds_ID :: string
  ds_Name :: string
  ds_Presence :: string
  ds_Health :: string
  ds_UpdateState :: string
  ds_OS :: string
  ds_Architecture :: string
  ds_HardwareModel :: string
  LastSeen :: go_time
  LatestMetrics :: "u64 go_map"
  AvailableActions :: "string list"

record job_snapshot =
  js_ID :: string
  js_DeviceID :: string
  js_Type :: string
  js_State :: string
  js_CreatedAt :: go_time

record update_snapshot =
  up_ID :: string
  up_Name :: string
  up_Adapter :: string
  up_Version :: string
  up_State :: string
  Targets :: nat

record fleet_summary =
  TotalDevices :: nat
  ConnectedDevices :: nat
  OfflineDevices :: nat
  UnhealthyDevices :: nat
  InstalledPackages :: nat
  fs_Artifacts :: nat

record fleet_snapshot =
  GeneratedAt :: go_time
  fs_Summary :: fleet_summary
  fs_Devices :: "device_snapshot list"
  RecentJobs :: "job_snapshot list"
  Updates :: "update_snapshot list"

text \<open>A success has its own body; \<open>Reply\<close> is an error or a plain status.\<close>

datatype ai_reply =
    Reply response
  | AIView ai_config_view
  | AITested string string
  | AIChatted string "ai_action_view list" "string list" string string Usage
  | AIQueued cJob

text \<open>
  The library functions and services of the handlers: URL and address parsing, the provider, the
  random bytes of a nonce, JSON texts, the repair of UTF-8 and the rounding of floats to two digits.
\<close>

record ai_world =
  aw_parse :: "string \<Rightarrow> url result"
  aw_ParseIP :: "string \<Rightarrow> ip option"
  aw_provider :: provider
  aw_nonce :: "cenv \<Rightarrow> string result"
  aw_encode_approval :: "approval \<Rightarrow> string"
  aw_decode_approval :: "string \<Rightarrow> approval result"
  aw_job_payload :: "string \<Rightarrow> string"
  aw_snapshot :: "fleet_snapshot \<Rightarrow> string result"
  aw_packages :: "string \<Rightarrow> nat option"
  ToValidUTF8 :: "string \<Rightarrow> string"
  round_cents :: "u64 \<Rightarrow> u64"

section \<open>Small functions\<close>

definition boundedServerText :: "ai_world \<Rightarrow> string \<Rightarrow> nat \<Rightarrow> string" where
  "boundedServerText aw value limit = take limit (TrimSpace (ToValidUTF8 aw value))"

definition actionTitle :: "ai_world \<Rightarrow> string \<Rightarrow> string \<Rightarrow> string" where
  "actionTitle aw value fallback = (let value = boundedServerText aw value 120 in if value = [] then fallback else value)"

definition aiConfigPurpose :: "Context \<Rightarrow> string" where
  "aiConfigPurpose tc = ''ai-config:'' @ tc_TenantID tc"

definition keyHint :: "string \<Rightarrow> string" where
  "keyHint key = (if length key \<le> 4 then ''saved'' else ''ends in '' @ drop (length key - 4) key)"

definition aiJobPermission :: "string \<Rightarrow> Permission option" where
  "aiJobPermission jobType =
     (if jobType \<in> {''collect_diagnostics'', ''collect_logs'', ''collect_inventory'', ''scan_vulnerabilities''} then Some DeviceCommand
      else if jobType = ''reboot'' then Some DeviceReboot
      else None)"

definition hasDeviceCapability :: "Device \<Rightarrow> string \<Rightarrow> bool" where
  "hasDeviceCapability device expected \<longleftrightarrow> expected \<in> set (dv_Capabilities device)"

definition deviceSupportsAIJob :: "Device \<Rightarrow> string \<Rightarrow> bool" where
  "deviceSupportsAIJob device jobType \<longleftrightarrow>
     (if hasDeviceCapability device (''job:'' @ jobType) then True
      else if jobType = ''scan_vulnerabilities'' then hasDeviceCapability device ''security:trivy''
      else if jobType = ''reboot'' then False
      else hasDeviceCapability device ''jobs'')"

definition aiDeviceActions :: "Device \<Rightarrow> string list" where
  "aiDeviceActions device =
     filter (deviceSupportsAIJob device) [''collect_diagnostics'', ''collect_logs'', ''collect_inventory'', ''scan_vulnerabilities'', ''reboot'']"

definition page_permission :: "string \<Rightarrow> Permission option" where
  "page_permission page =
     (if page = ''remote'' then Some RemoteCreate
      else if page = ''ota'' then Some DeploymentCreate
      else if page = ''profiles'' then Some ProfileManage
      else if page = ''enrollment'' then Some DeviceEnroll
      else if page = ''audit'' then Some AuditRead
      else if page = ''users'' then Some UserManage
      else if page = ''onprem'' then Some TenantSettings
      else None)"

definition aiPageAllowed :: "Context \<Rightarrow> string \<Rightarrow> bool" where
  "aiPageAllowed tc page \<longleftrightarrow>
     page \<in> set [''overview'', ''devices'', ''gateways'', ''telemetry'', ''inventory'', ''map'', ''jobs'', ''remote'', ''deployments'', ''ota'',
       ''alerts'', ''profiles'', ''applications'', ''artifacts'', ''enrollment'', ''audit'', ''users'', ''health'', ''onprem'']
     \<and> (case page_permission page of None \<Rightarrow> True | Some permission \<Rightarrow> Authorize (Some tc) permission = None)"

section \<open>The conversation\<close>

fun clean_history :: "int \<Rightarrow> Message list \<Rightarrow> Message list" where
  "clean_history sofar [] = []"
| "clean_history sofar (item # items) =
     (let role = ToLower (TrimSpace (ms_Role item)); text = TrimSpace (ms_Content item) in
      if (role \<noteq> ''user'' \<and> role \<noteq> ''assistant'') \<or> text = [] then clean_history sofar items
      else let text = take 1200 text; sofar = sofar + int (length text) in
        if 6000 < sofar then [] else \<lparr>ms_Role = role, ms_Content = text\<rparr> # clean_history sofar items)"

definition sanitizeAIConversation :: "string \<Rightarrow> Message list \<Rightarrow> (string \<times> Message list) result" where
  "sanitizeAIConversation message history =
     (let message = TrimSpace message in
      if message = [] \<or> 2000 < length message then Inl (ErrorString ''message must contain between 1 and 2000 characters'')
      else Inr (message, clean_history 0 (drop (length history - 6) history)))"

section \<open>The fleet as context\<close>

definition deviceRelevance :: "Device \<Rightarrow> string \<Rightarrow> int" where
  "deviceRelevance device query =
     (if Contains query (ToLower (dv_ID device)) \<or> (DisplayName device \<noteq> [] \<and> Contains query (ToLower (DisplayName device)))
      then 1000 else 0)
     + (if Presence device \<noteq> ''connected'' then 100 else 0)
     + (if HealthState device \<noteq> [] \<and> HealthState device \<noteq> ''healthy'' then 80 else 0)
     + (if UpdateState device \<noteq> [] \<and> UpdateState device \<noteq> ''current'' then 40 else 0)"

definition wanted_metric :: "string \<Rightarrow> string option" where
  "wanted_metric name =
     (if name = ''system.cpu.utilization'' then Some ''cpu_percent''
      else if name = ''system.memory.utilization'' then Some ''memory_percent''
      else if name = ''filesystem.utilization'' then Some ''disk_percent''
      else if name = ''system.temperature'' then Some ''temperature_celsius''
      else None)"

definition latest_step :: "Metric go_map \<Rightarrow> Metric \<Rightarrow> Metric go_map" where
  "latest_step values metric =
     (case wanted_metric (mt_Name metric) of
        None \<Rightarrow> values
      | Some label \<Rightarrow>
          (case mget values label of
             Some existing \<Rightarrow> if After (ReceivedAt metric) (ReceivedAt existing) then mput label metric values else values
           | None \<Rightarrow> mput label metric values))"

definition latestAIMetrics :: "ai_world \<Rightarrow> Metric list \<Rightarrow> u64 go_map" where
  "latestAIMetrics aw metrics = map (\<lambda>(label, metric). (label, round_cents aw (mt_Value metric))) (foldl latest_step [] metrics)"

text \<open>The stable sort of the devices: relevance, then the time last seen, both falling, then the name.\<close>

definition device_key :: "string \<Rightarrow> Device \<Rightarrow> int \<times> int \<times> string" where
  "device_key query device = (- deviceRelevance device query, - dv_LastSeenAt device, DisplayName device)"

definition shown_device :: "ai_world \<Rightarrow> Context \<Rightarrow> cstore \<Rightarrow> Device \<Rightarrow> device_snapshot" where
  "shown_device aw tc s device =
     \<lparr>ds_ID = dv_ID device, ds_Name = boundedServerText aw (DisplayName device) 120, ds_Presence = Presence device,
      ds_Health = HealthState device, ds_UpdateState = UpdateState device, ds_OS = boundedServerText aw (dv_OS device) 120,
      ds_Architecture = dv_Architecture device, ds_HardwareModel = boundedServerText aw (HardwareModel device) 120,
      LastSeen = dv_LastSeenAt device, LatestMetrics = latestAIMetrics aw (ListTelemetry tc (dv_ID device) s),
      AvailableActions = aiDeviceActions device\<rparr>"

definition aiFleetSnapshot :: "ai_world \<Rightarrow> cenv \<Rightarrow> Context \<Rightarrow> string \<Rightarrow> cstore \<Rightarrow> fleet_snapshot" where
  "aiFleetSnapshot aw env tc query s =
     (let devices = sort_key (device_key (ToLower query)) (ListDevices env tc s);
          connected = length (filter (\<lambda>d. Presence d = ''connected'') devices);
          unhealthy = length (filter (\<lambda>d. HealthState d \<noteq> [] \<and> HealthState d \<noteq> ''healthy'') devices);
          packages = sum_list (List.map_filter (aw_packages aw) (map snd (ListInventory tc s))) in
      \<lparr>GeneratedAt = c_now env,
       fs_Summary = \<lparr>TotalDevices = length devices, ConnectedDevices = connected, OfflineDevices = length devices - connected,
                     UnhealthyDevices = unhealthy, InstalledPackages = packages, fs_Artifacts = length (ListArtifacts env tc s)\<rparr>,
       fs_Devices = map (shown_device aw tc s) (take 20 devices),
       RecentJobs = map (\<lambda>j. \<lparr>js_ID = jo_ID j, js_DeviceID = jo_DeviceID j, js_Type = jo_Type j, js_State = jo_State j, js_CreatedAt = jo_CreatedAt j\<rparr>)
         (take 8 (sort_key (\<lambda>j. - jo_CreatedAt j) (ListJobs env tc s))),
       Updates = map (\<lambda>c. \<lparr>up_ID = cm_ID c, up_Name = boundedServerText aw (cm_Name c) 120, up_Adapter = cm_Adapter c, up_Version = cm_Version c,
                          up_State = cm_State c, Targets = length (TargetIDs c)\<rparr>)
         (take 6 (sort_key (\<lambda>c. - cm_CreatedAt c) (ListOTACampaigns env tc s)))\<rparr>)"

section \<open>The configuration\<close>

type_synonym ai_state = "cstore \<times> ai_service"

definition aiConfigView :: "Context \<Rightarrow> cstore \<Rightarrow> ai_config_view" where
  "aiConfigView tc s =
     (let found = get_AIConfiguration tc s;
          stored = (case found of Some v \<Rightarrow> v | None \<Rightarrow>
            \<lparr>Provider = [], BaseURL = [], ai_Model = [], APIKeyCiphertext = [], KeyHint = [], ai_Enabled = False, ai_UpdatedBy = [],
             ai_UpdatedAt = zero_time\<rparr>);
          canManage = (Authorize (Some tc) TenantSettings = None) in
      \<lparr>cv_Provider = Provider stored, cv_BaseURL = (if canManage then BaseURL stored else []), cv_Model = ai_Model stored,
       cv_Configured = (found \<noteq> None \<and> ai_Enabled stored \<and> ai_Model stored \<noteq> [] \<and> BaseURL stored \<noteq> []
          \<and> (Provider stored = ''compatible'' \<or> APIKeyCiphertext stored \<noteq> [])),
       cv_Enabled = ai_Enabled stored, cv_KeyHint = (if canManage then KeyHint stored else []), CanManage = canManage,
       cv_UpdatedAt = ai_UpdatedAt stored\<rparr>)"

definition encryption_unavailable :: "string \<Rightarrow> ai_reply" where
  "encryption_unavailable message = Reply (ErrorJSON 503 ''ai_encryption_unavailable'' message)"

text \<open>The key to keep: what was saved, unless the provider changed or it is to be cleared, or a new one.\<close>

definition new_credential ::
  "ai_world \<Rightarrow> cenv \<Rightarrow> ai_service \<Rightarrow> Context \<Rightarrow> string \<Rightarrow> ai_config_request \<Rightarrow> cstore \<Rightarrow> ai_reply + (string \<times> string \<times> string)" where
  "new_credential aw env svc tc provider req s =
     (let (saved, hint, before) = (case get_AIConfiguration tc s of Some v \<Rightarrow> (APIKeyCiphertext v, KeyHint v, Provider v) | None \<Rightarrow> ([], [], []));
          apiKey = TrimSpace (cr_APIKey req);
          (saved, hint) = (if before \<noteq> [] \<and> before \<noteq> provider \<and> apiKey = [] then ([], []) else (saved, hint));
          (saved, hint) = (if ClearAPIKey req then ([], []) else (saved, hint)) in
      if apiKey \<noteq> [] then
        (case service_Seal svc (aw_nonce aw env) apiKey (aiConfigPurpose tc) of
           Inl err \<Rightarrow> Inl (encryption_unavailable ''the AI credential encryption key is unavailable'')
         | Inr cipherText \<Rightarrow> Inr (apiKey, cipherText, keyHint apiKey))
      else if saved \<noteq> [] then
        (case service_Open svc saved (aiConfigPurpose tc) of
           Inl err \<Rightarrow> Inl (encryption_unavailable ''the saved AI credential cannot be decrypted; reconnect the provider'')
         | Inr apiKey \<Rightarrow> Inr (apiKey, saved, hint))
      else Inr (apiKey, saved, hint))"

definition putAIConfiguration ::
  "ai_world \<Rightarrow> envs \<Rightarrow> ai_config_request \<Rightarrow> Context \<Rightarrow> cstore \<Rightarrow> ai_service \<Rightarrow> ai_reply \<times> cstore" where
  "putAIConfiguration aw envs req tc s svc =
     (let provider = ToLower (TrimSpace (cr_Provider req));
          baseURL = (if provider = ''openai'' then ''https://api.openai.com/v1''
                     else if provider = ''anthropic'' then ''https://api.anthropic.com''
                     else TrimRight (TrimSpace (cr_BaseURL req)) ''/'') in
      if provider \<noteq> ''openai'' \<and> provider \<noteq> ''anthropic'' \<and> provider \<noteq> ''compatible''
      then (Reply (ErrorJSON 400 ''invalid_ai_configuration'' ''provider must be openai, anthropic, or compatible''), s)
      else case new_credential aw (envs 2) svc tc provider req s of
        Inl reply \<Rightarrow> (reply, s)
      | Inr (apiKey, cipherText, hint) \<Rightarrow>
          (let config = \<lparr>pc_Provider = provider, pc_BaseURL = baseURL, pc_Model = TrimSpace (cr_Model req), APIKey = apiKey\<rparr> in
           case ValidateConfiguration (aw_parse aw) (aw_ParseIP aw) config of
             Some err \<Rightarrow> (Reply (ErrorJSON 400 ''invalid_ai_configuration'' (Error err)), s)
           | None \<Rightarrow>
               (case SaveAIConfiguration (envs 0) tc \<lparr>Provider = provider, BaseURL = baseURL, ai_Model = pc_Model config,
                        APIKeyCiphertext = cipherText, KeyHint = hint,
                        ai_Enabled = (case cr_Enabled req of None \<Rightarrow> True | Some b \<Rightarrow> b), ai_UpdatedBy = [], ai_UpdatedAt = zero_time\<rparr> s of
                  (Some err, s) \<Rightarrow> (Reply (ErrorJSON 500 ''ai_configuration_save_failed'' ''AI configuration could not be saved''), s)
                | (None, s) \<Rightarrow>
                    (let s = Record (envs 1) tc ''ai.configuration.updated'' ''organization'' (tc_TenantID tc) ''success''
                               [(''provider'', provider), (''model'', pc_Model config)] s in
                     (AIView (aiConfigView tc s), s)))))"

definition aiConfiguration ::
  "ai_world \<Rightarrow> envs \<Rightarrow> http_request \<Rightarrow> ai_config_request result \<Rightarrow> Context \<Rightarrow> ai_state \<Rightarrow> ai_reply \<times> ai_state" where
  "aiConfiguration aw envs r body tc st =
     (let (s, svc) = st;
          (reply, s) =
            (if Authorize (Some tc) AIUse \<noteq> None then (Reply forbidden, s)
             else if Method r = ''GET'' then (AIView (aiConfigView tc s), s)
             else if Authorize (Some tc) TenantSettings \<noteq> None
             then (Reply (ErrorJSON 403 ''forbidden'' ''only organization owners can manage the AI connection''), s)
             else if Method r = ''DELETE'' then
               (case DeleteAIConfiguration (envs 0) tc s of
                  (Some err, s) \<Rightarrow> (Reply (ErrorJSON 500 ''ai_configuration_delete_failed'' ''AI configuration could not be removed''), s)
                | (None, s) \<Rightarrow>
                    (let s = Record (envs 1) tc ''ai.configuration.deleted'' ''organization'' (tc_TenantID tc) ''success'' [] s in
                     (AIView (aiConfigView tc s), s)))
             else if Method r \<noteq> ''PUT'' then (Reply method_not_allowed, s)
             else case body of
               Inl err \<Rightarrow> (Reply (ErrorJSON 400 ''bad_request'' (Error err)), s)
             | Inr req \<Rightarrow> putAIConfiguration aw envs req tc s svc) in
      (reply, s, svc))"

definition aiProvider :: "ai_world \<Rightarrow> ai_service \<Rightarrow> Context \<Rightarrow> cstore \<Rightarrow> (ProviderConfig \<times> AIConfiguration) result" where
  "aiProvider aw svc tc s =
     (case get_AIConfiguration tc s of
        None \<Rightarrow> Inl (ErrorString ''configure and enable an AI provider from the Assistant page first'')
      | Some stored \<Rightarrow>
          if \<not> ai_Enabled stored then Inl (ErrorString ''configure and enable an AI provider from the Assistant page first'')
          else case (if APIKeyCiphertext stored = [] then Inr []
                     else service_Open svc (APIKeyCiphertext stored) (aiConfigPurpose tc)) of
            Inl err \<Rightarrow> Inl (ErrorString ''the saved AI credential cannot be decrypted; reconnect the provider'')
          | Inr apiKey \<Rightarrow>
              (let config = \<lparr>pc_Provider = Provider stored, pc_BaseURL = BaseURL stored, pc_Model = ai_Model stored, APIKey = apiKey\<rparr> in
               case ValidateConfiguration (aw_parse aw) (aw_ParseIP aw) config of
                 Some err \<Rightarrow> Inl err
               | None \<Rightarrow> Inr (config, stored)))"

definition caller_key :: "Context \<Rightarrow> string" where
  "caller_key tc = tc_TenantID tc @ '':'' @ tc_ActorID tc"

definition rate_limited :: ai_reply where
  "rate_limited = Reply (ErrorJSON 429 ''ai_rate_limited'' ''AI request limit reached; wait a minute and try again'')"

definition test_request :: CompletionRequest where
  "test_request = \<lparr>System = ''Return exactly {'' @ [CHR 0x22] @ ''answer'' @ [CHR 0x22] @ '':'' @ [CHR 0x22] @ ''Connection verified'' @ [CHR 0x22]
      @ '','' @ [CHR 0x22] @ ''actions'' @ [CHR 0x22] @ '':[],'' @ [CHR 0x22] @ ''follow_up_prompts'' @ [CHR 0x22] @ '':[]}.'',
     Prompt = ''Verify this connection.'', History = [], MaxTokens = 64\<rparr>"

definition aiTest :: "ai_world \<Rightarrow> envs \<Rightarrow> http_request \<Rightarrow> Context \<Rightarrow> ai_state \<Rightarrow> ai_reply \<times> ai_state" where
  "aiTest aw envs r tc st =
     (let (s, svc) = st in
      if Method r \<noteq> ''POST'' then (Reply method_not_allowed, s, svc)
      else if Authorize (Some tc) TenantSettings \<noteq> None
      then (Reply (ErrorJSON 403 ''forbidden'' ''only organization owners can test the AI connection''), s, svc)
      else let (allowed, svc) = Allow (c_now (envs 0)) (caller_key tc) svc in
        if \<not> allowed then (rate_limited, s, svc)
        else case aiProvider aw svc tc s of
          Inl err \<Rightarrow> (Reply (ErrorJSON 409 ''ai_not_configured'' (Error err)), s, svc)
        | Inr (config, stored) \<Rightarrow>
            (let facts = [(''provider'', Provider stored), (''model'', ai_Model stored)];
                 tested = (\<lambda>outcome. Record (envs 1) tc ''ai.connection.tested'' ''organization'' (tc_TenantID tc) outcome facts s) in
             case Complete (aw_parse aw) (aw_ParseIP aw) (aw_provider aw) config test_request of
               Inl err \<Rightarrow> (Reply (ErrorJSON 502 ''ai_provider_error'' (Error err)), tested ''failure'', svc)
             | Inr result \<Rightarrow> (AITested (Provider stored) (ai_Model stored), tested ''success'', svc)))"

section \<open>Proposed actions\<close>

definition prepareAIAction ::
  "ai_world \<Rightarrow> cenv \<Rightarrow> ai_service \<Rightarrow> Context \<Rightarrow> cstore \<Rightarrow> ProposedAction \<Rightarrow> ai_action_view option" where
  "prepareAIAction aw env svc tc s proposal =
     (let view = \<lparr>av_ID = NewID env 0 ''aia'', av_Kind = pa_Kind proposal, av_Title = [],
                  av_Rationale = boundedServerText aw (pa_Rationale proposal) 320, av_Risk = ''informational'', av_DeviceID = [],
                  DeviceName = [], av_JobType = [], av_Page = [], ApprovalToken = []\<rparr> in
      if pa_Kind proposal = ''navigate'' then
        if \<not> aiPageAllowed tc (pa_Page proposal) then None
        else Some (view\<lparr>av_Title := actionTitle aw (pa_Title proposal) (''Open '' @ pa_Page proposal), av_Page := pa_Page proposal\<rparr>)
      else if pa_Kind proposal = ''device_job'' then
        (case aiJobPermission (pa_JobType proposal) of
           None \<Rightarrow> None
         | Some permission \<Rightarrow>
             if Authorize (Some tc) permission \<noteq> None then None
             else case GetDevice tc (pa_DeviceID proposal) s of
               Inl err \<Rightarrow> None
             | Inr device \<Rightarrow>
                 if \<not> deviceSupportsAIJob device (pa_JobType proposal) then None
                 else
                   (let grant = \<lparr>ap_TenantID = tc_TenantID tc, ap_ActorID = tc_ActorID tc, ap_DeviceID = dv_ID device,
                                 ap_JobType = pa_JobType proposal, ap_Nonce = NewID env 1 ''nonce'',
                                 ap_ExpiresAt = time_Add (c_now env) (10 * Minute)\<rparr> in
                    case service_Seal svc (aw_nonce aw env) (aw_encode_approval aw grant) ''ai-action'' of
                      Inl err \<Rightarrow> None
                    | Inr token \<Rightarrow>
                        Some (view\<lparr>av_Title := actionTitle aw (pa_Title proposal)
                                       (map (\<lambda>c. if c = CHR ''_'' then CHR '' '' else c) (pa_JobType proposal)),
                                   av_Risk := (if pa_JobType proposal = ''reboot'' then ''high'' else ''low''), av_DeviceID := dv_ID device,
                                   DeviceName := DisplayName device, av_JobType := pa_JobType proposal, ApprovalToken := token\<rparr>)))
      else None)"

text \<open>The proposals in turn, each with random bytes of its own.\<close>

fun prepareAIActions ::
  "ai_world \<Rightarrow> envs \<Rightarrow> ai_service \<Rightarrow> Context \<Rightarrow> cstore \<Rightarrow> ProposedAction list \<Rightarrow> ai_action_view list" where
  "prepareAIActions aw envs svc tc s [] = []"
| "prepareAIActions aw envs svc tc s (proposal # proposals) =
     (case prepareAIAction aw (envs 0) svc tc s proposal of None \<Rightarrow> [] | Some action \<Rightarrow> [action])
     @ prepareAIActions aw (\<lambda>n. envs (n + 1)) svc tc s proposals"

definition aiChat ::
  "ai_world \<Rightarrow> string \<Rightarrow> envs \<Rightarrow> http_request \<Rightarrow> (string \<times> Message list) result \<Rightarrow> Context \<Rightarrow> ai_state \<Rightarrow> ai_reply \<times> ai_state" where
  "aiChat aw aiSystemPrompt envs r body tc st =
     (let (s, svc) = st in
      if Method r \<noteq> ''POST'' then (Reply method_not_allowed, s, svc)
      else if Authorize (Some tc) AIUse \<noteq> None then (Reply forbidden, s, svc)
      else case body of
        Inl err \<Rightarrow> (Reply (ErrorJSON 400 ''bad_request'' (Error err)), s, svc)
      | Inr (text, told) \<Rightarrow>
          (case sanitizeAIConversation text told of
             Inl err \<Rightarrow> (Reply (ErrorJSON 400 ''invalid_ai_request'' (Error err)), s, svc)
           | Inr (message, history) \<Rightarrow>
               (let (allowed, svc) = Allow (c_now (envs 0)) (caller_key tc) svc in
                if \<not> allowed then (rate_limited, s, svc)
                else case aiProvider aw svc tc s of
                  Inl err \<Rightarrow> (Reply (ErrorJSON 409 ''ai_not_configured'' (Error err)), s, svc)
                | Inr (config, stored) \<Rightarrow>
                    (case aw_snapshot aw (aiFleetSnapshot aw (envs 2) tc message s) of
                       Inl err \<Rightarrow> (Reply (ErrorJSON 500 ''ai_context_failed'' ''fleet context could not be prepared''), s, svc)
                     | Inr snapshot \<Rightarrow>
                         (let facts = [(''provider'', Provider stored), (''model'', ai_Model stored)];
                              requested = (\<lambda>outcome facts. Record (envs 1) tc ''ai.assistant.requested'' ''organization'' (tc_TenantID tc) outcome facts s) in
                          case Complete (aw_parse aw) (aw_ParseIP aw) (aw_provider aw) config
                                 \<lparr>System = aiSystemPrompt @ [CHR 0x0A, CHR 0x0A] @ ''<fleet_snapshot>'' @ [CHR 0x0A] @ snapshot @ [CHR 0x0A]
                                    @ ''</fleet_snapshot>'', Prompt = message, History = history, MaxTokens = 900\<rparr> of
                            Inl err \<Rightarrow> (Reply (ErrorJSON 502 ''ai_provider_error'' (Error err)), requested ''failure'' facts, svc)
                          | Inr result \<Rightarrow>
                              (let actions = prepareAIActions aw (\<lambda>n. envs (n + 3)) svc tc s (Actions result) in
                               (AIChatted (Answer result) actions (FollowUpPrompts result) (Provider stored) (ai_Model stored) (ai_Usage result),
                                requested ''success'' (facts @ [(''action_count'', itoa (int (length actions)))]), svc)))))))"

section \<open>Approved actions\<close>

definition aiAction ::
  "ai_world \<Rightarrow> server_cfg \<Rightarrow> envs \<Rightarrow> http_request \<Rightarrow> string result \<Rightarrow> Context \<Rightarrow> ai_state \<Rightarrow> ai_reply \<times> ai_state" where
  "aiAction aw cfg envs r body tc st =
     (let (s, svc) = st;
          (reply, s) =
            (if Method r \<noteq> ''POST'' then (Reply method_not_allowed, s)
             else if Authorize (Some tc) AIUse \<noteq> None then (Reply forbidden, s)
             else case body of
               Inl err \<Rightarrow> (Reply (ErrorJSON 400 ''bad_request'' (Error err)), s)
             | Inr token \<Rightarrow>
                 (case service_OpenJSON svc (aw_decode_approval aw) token ''ai-action'' of
                    Inl err \<Rightarrow> (Reply (ErrorJSON 400 ''invalid_ai_action'' ''the action approval is invalid or has been changed''), s)
                  | Inr grant \<Rightarrow>
                      if ap_TenantID grant \<noteq> tc_TenantID tc \<or> ap_ActorID grant \<noteq> tc_ActorID tc \<or> After (c_now (envs 0)) (ap_ExpiresAt grant)
                      then (Reply (ErrorJSON 403 ''invalid_ai_action'' ''the action approval is expired or belongs to another session''), s)
                      else if (case aiJobPermission (ap_JobType grant) of None \<Rightarrow> True | Some permission \<Rightarrow> Authorize (Some tc) permission \<noteq> None)
                      then (Reply (ErrorJSON 403 ''forbidden'' ''this account cannot run the proposed action''), s)
                      else case GetDevice tc (ap_DeviceID grant) s of
                        Inl err \<Rightarrow> (Reply (ErrorJSON 404 ''device_not_found'' ''the target device is no longer available''), s)
                      | Inr device \<Rightarrow>
                          if \<not> deviceSupportsAIJob device (ap_JobType grant)
                          then (Reply (ErrorJSON 409 ''device_action_unavailable'' ''the device does not report support for this action''), s)
                          else
                            (let ttl = i64 (DefaultJobTTLMinutes (fst (effectivePlatformSettings cfg tc s)) * Minute) in
                             case jobs_New (envs 2) (ap_DeviceID grant) (ap_JobType grant) (aw_job_payload aw (tc_ActorID tc)) (tc_ActorID tc) ttl of
                               Inl err \<Rightarrow> (Reply (ErrorJSON 400 ''bad_job'' (Error err)), s)
                             | Inr job \<Rightarrow>
                                 (case CreateJob (envs 2) tc (job\<lparr>IdempotencyKey := ''ai:'' @ hexEncode (c_sha256 (envs 2) token)\<rparr>) s of
                                    (Inl err, s) \<Rightarrow> (Reply (ErrorJSON 400 ''job_error'' (Error err)), s)
                                  | (Inr job, s) \<Rightarrow>
                                      (AIQueued job,
                                       Record (envs 1) tc ''ai.action.approved'' ''job'' (jo_ID job) ''success''
                                         [(''device_id'', jo_DeviceID job), (''type'', jo_Type job)] s)))))
      in (reply, s, svc))"

section \<open>Routes\<close>

datatype ai_endpoint =
    EpAIConfig "ai_config_request result" | EpAITest | EpAIChat "(string \<times> Message list) result" | EpAIAction "string result"

fun ai_route ::
  "ai_world \<Rightarrow> string \<Rightarrow> server_cfg \<Rightarrow> envs \<Rightarrow> http_request \<Rightarrow> ai_endpoint \<Rightarrow> Context \<Rightarrow> ai_state \<Rightarrow> ai_reply \<times> ai_state" where
  "ai_route aw prompt cfg envs r (EpAIConfig body) = aiConfiguration aw envs r body"
| "ai_route aw prompt cfg envs r EpAITest = aiTest aw envs r"
| "ai_route aw prompt cfg envs r (EpAIChat body) = aiChat aw prompt envs r body"
| "ai_route aw prompt cfg envs r (EpAIAction body) = aiAction aw cfg envs r body"

definition ai_control ::
  "ai_world \<Rightarrow> string \<Rightarrow> server_cfg \<Rightarrow> envs \<Rightarrow> cenv \<Rightarrow> http_request \<Rightarrow> ai_endpoint \<Rightarrow> ai_state \<Rightarrow> ai_reply \<times> ai_state" where
  "ai_control aw prompt cfg envs env r e st =
     (case authenticate env r (fst st) of Inl response \<Rightarrow> (Reply response, st) | Inr tc \<Rightarrow> ai_route aw prompt cfg envs r e tc st)"

end
