(* ===== verification/AssistantActions.thy ===== *)
theory AssistantActions
  imports Assistant CloudCampaigns
begin

text \<open>
  What the assistant can change: a job is queued only through an approval token, under the permissions
  its holder has when it is used, and once per token text.
\<close>

section \<open>An approval\<close>

text \<open>What must hold when a token is used: it opens to a grant of the caller, of a type the caller may run and
  the device supports.\<close>

definition approves :: "ai_world \<Rightarrow> ai_service \<Rightarrow> go_time \<Rightarrow> Context \<Rightarrow> cstore \<Rightarrow> string \<Rightarrow> approval \<Rightarrow> bool" where
  "approves aw svc t tc s token grant \<longleftrightarrow>
     service_OpenJSON svc (aw_decode_approval aw) token ''ai-action'' = Inr grant
   \<and> ap_TenantID grant = tc_TenantID tc \<and> ap_ActorID grant = tc_ActorID tc \<and> \<not> After t (ap_ExpiresAt grant)
   \<and> Authorize (Some tc) AIUse = None
   \<and> (\<exists>p. aiJobPermission (ap_JobType grant) = Some p \<and> Authorize (Some tc) p = None)
   \<and> (\<exists>device. GetDevice tc (ap_DeviceID grant) s = Inr device \<and> deviceSupportsAIJob device (ap_JobType grant))"

definition approval_key :: "cenv \<Rightarrow> string \<Rightarrow> string" where
  "approval_key env token = ''ai:'' @ hexEncode (c_sha256 env token)"

text \<open>The job of a used token.\<close>

definition job_of :: "cenv \<Rightarrow> Context \<Rightarrow> string \<Rightarrow> approval \<Rightarrow> cJob \<Rightarrow> bool" where
  "job_of env tc token grant job \<longleftrightarrow>
     jo_TenantID job = tc_TenantID tc \<and> jo_DeviceID job = ap_DeviceID grant \<and> jo_Type job = ap_JobType grant
   \<and> jo_State job = ''queued'' \<and> jo_CreatedBy job = tc_ActorID tc \<and> DeploymentID job = []
   \<and> IdempotencyKey job = approval_key env token"

definition key_used :: "Context \<Rightarrow> string \<Rightarrow> cdata \<Rightarrow> bool" where
  "key_used tc key d \<longleftrightarrow> (\<exists>k j. (k, j) \<in> set (db_Jobs d) \<and> jo_TenantID j = tc_TenantID tc \<and> IdempotencyKey j = key)"

lemma CreateJob_jobs:
  fixes tc :: Context
  assumes "CreateJob env tc j s = (r, s')" "db_Jobs (mem s') \<noteq> db_Jobs (mem s)"
  shows "\<not> key_used tc (IdempotencyKey j) (mem s) \<or> IdempotencyKey j = []"
    and "\<exists>i. db_Jobs (mem s') = mput (NewID env 0 ''job'') i (db_Jobs (mem s)) \<and> jo_TenantID i = tc_TenantID tc
      \<and> jo_DeviceID i = jo_DeviceID j \<and> jo_Type i = jo_Type j \<and> jo_CreatedBy i = jo_CreatedBy j \<and> DeploymentID i = DeploymentID j
      \<and> IdempotencyKey i = IdempotencyKey j \<and> (jo_State j = ''queued'' \<longrightarrow> jo_State i = ''queued'')"
proof -
  have none: "List.find (same_request tc j) (range_values (c_order env) (db_Jobs (mem s))) = None"
    and owned: "owned_device (tc_TenantID tc) (mem s) (jo_DeviceID j)"
    using assms by (auto simp: CreateJob_def split: if_splits option.splits)
  show "\<not> key_used tc (IdempotencyKey j) (mem s) \<or> IdempotencyKey j = []"
    using none by (force simp: key_used_def find_None_iff range_values_def same_request_def)
  show "\<exists>i. db_Jobs (mem s') = mput (NewID env 0 ''job'') i (db_Jobs (mem s)) \<and> jo_TenantID i = tc_TenantID tc
      \<and> jo_DeviceID i = jo_DeviceID j \<and> jo_Type i = jo_Type j \<and> jo_CreatedBy i = jo_CreatedBy j \<and> DeploymentID i = DeploymentID j
      \<and> IdempotencyKey i = IdempotencyKey j \<and> (jo_State j = ''queued'' \<longrightarrow> jo_State i = ''queued'')"
    using assms(1) none owned by (auto simp: CreateJob_def Let_def put_job_def prod_eq_iff)
qed

lemma ai_configuration_jobs [simp]:
  "db_Jobs (mem (snd (SaveAIConfiguration env tc v s))) = db_Jobs (mem s)"
  "db_Jobs (mem (snd (DeleteAIConfiguration env tc s))) = db_Jobs (mem s)"
  by (simp_all add: SaveAIConfiguration_def DeleteAIConfiguration_def Let_def)

section \<open>The endpoints that queue nothing\<close>

text \<open>Walking a handler to its results, branch by branch.\<close>

definition same_jobs :: "cJob go_map \<Rightarrow> 'a \<times> cstore \<Rightarrow> bool" where
  "same_jobs J p \<longleftrightarrow> db_Jobs (mem (snd p)) = J"

lemma same_jobs_branch:
  "(\<And>x. same_jobs J (f x)) \<Longrightarrow> same_jobs J (Let e f)"
  "same_jobs J p \<Longrightarrow> same_jobs J q \<Longrightarrow> same_jobs J (if b then p else q)"
  "(\<And>x. same_jobs J (g x)) \<Longrightarrow> (\<And>y. same_jobs J (h y)) \<Longrightarrow> same_jobs J (case u of Inl x \<Rightarrow> g x | Inr y \<Rightarrow> h y)"
  "same_jobs J p \<Longrightarrow> (\<And>y. same_jobs J (k y)) \<Longrightarrow> same_jobs J (case w of None \<Rightarrow> p | Some y \<Rightarrow> k y)"
  "(\<And>x y. same_jobs J (l x y)) \<Longrightarrow> same_jobs J (case v of (x, y) \<Rightarrow> l x y)"
  by (auto simp: Let_def split: sum.split option.split prod.split)

lemma same_jobs_result [simp]: "same_jobs J (r, s) \<longleftrightarrow> db_Jobs (mem s) = J"
  by (simp add: same_jobs_def)

lemma same_jobs_call:
  assumes "same_jobs J c" "\<And>s. db_Jobs (mem s) = J \<Longrightarrow> same_jobs J (f s)" "\<And>x s. db_Jobs (mem s) = J \<Longrightarrow> same_jobs J (g x s)"
  shows "same_jobs J (case c of (None, s) \<Rightarrow> f s | (Some x, s) \<Rightarrow> g x s)"
  using assms by (cases c) (auto simp: split: option.split)

lemma ai_configuration_same [simp]:
  "same_jobs (db_Jobs (mem s)) (SaveAIConfiguration env tc v s)" "same_jobs (db_Jobs (mem s)) (DeleteAIConfiguration env tc s)"
  by (simp_all add: same_jobs_def)

lemma putAIConfiguration_same [simp]: "same_jobs (db_Jobs (mem s)) (putAIConfiguration aw envs req tc s svc)"
proof -
  have saved: "same_jobs (db_Jobs (mem s)) (case SaveAIConfiguration env tc v s of (Some err, s) \<Rightarrow> (q, s)
      | (None, s) \<Rightarrow> (let s = Record env1 tc a b c d m s in (w s, s)))" for env v q env1 a b c d m and w :: "cstore \<Rightarrow> ai_reply"
    by (rule same_jobs_call) (simp_all add: Let_def)
  show ?thesis
    unfolding putAIConfiguration_def
    by (rule same_jobs_branch same_jobs_result [THEN iffD2] refl saved)+
qed

lemma aiConfiguration_jobs [simp]: "db_Jobs (mem (fst (snd (aiConfiguration aw envs r body tc (s, svc))))) = db_Jobs (mem s)"
proof -
  have deleted: "same_jobs (db_Jobs (mem s)) (case DeleteAIConfiguration env tc s of (None, s) \<Rightarrow> (w s, Record env1 tc a b c d m s)
      | (Some err, s) \<Rightarrow> (q, s))" for env q env1 a b c d m and w :: "cstore \<Rightarrow> ai_reply"
    by (rule same_jobs_call) simp_all
  have result: "db_Jobs (mem (fst (snd (case p of (reply, s) \<Rightarrow> (reply, s, svc))))) = J \<longleftrightarrow> same_jobs J p" for p :: "ai_reply \<times> cstore" and J
    by (simp add: same_jobs_def case_prod_unfold)
  show ?thesis
    unfolding aiConfiguration_def Let_def prod.case result
    by (rule same_jobs_branch same_jobs_result [THEN iffD2] refl deleted putAIConfiguration_same)+
qed

lemma aiTest_jobs [simp]: "db_Jobs (mem (fst (snd (aiTest aw envs r tc (s, svc))))) = db_Jobs (mem s)"
  by (simp add: aiTest_def Let_def split: sum.split prod.split)

lemma aiChat_jobs [simp]: "db_Jobs (mem (fst (snd (aiChat aw prompt envs r body tc (s, svc))))) = db_Jobs (mem s)"
  by (simp add: aiChat_def Let_def split: sum.split prod.split)

section \<open>Using a token\<close>

lemma aiAction_jobs:
  fixes tc :: Context
  assumes "db_Jobs (mem (fst (snd (aiAction aw cfg envs r body tc (s, svc))))) \<noteq> db_Jobs (mem s)"
  shows "\<exists>token grant job. body = Inr token \<and> approves aw svc (c_now (envs 0)) tc s token grant \<and> job_of (envs 2) tc token grant job
    \<and> \<not> key_used tc (approval_key (envs 2) token) (mem s)
    \<and> db_Jobs (mem (fst (snd (aiAction aw cfg envs r body tc (s, svc))))) = mput (NewID (envs 2) 0 ''job'') job (db_Jobs (mem s))"
proof -
  let ?ttl = "i64 (DefaultJobTTLMinutes (fst (effectivePlatformSettings cfg tc s)) * Minute)"
  obtain token grant device j where body: "body = Inr token" and use: "Authorize (Some tc) AIUse = None" and post: "Method r = ''POST''"
    and grant: "service_OpenJSON svc (aw_decode_approval aw) token ''ai-action'' = Inr grant"
    and own: "ap_TenantID grant = tc_TenantID tc" "ap_ActorID grant = tc_ActorID tc" "\<not> After (c_now (envs 0)) (ap_ExpiresAt grant)"
    and may: "\<not> (case aiJobPermission (ap_JobType grant) of None \<Rightarrow> True | Some p \<Rightarrow> Authorize (Some tc) p \<noteq> None)"
    and device: "GetDevice tc (ap_DeviceID grant) s = Inr device" "deviceSupportsAIJob device (ap_JobType grant)"
    and j: "jobs_New (envs 2) (ap_DeviceID grant) (ap_JobType grant) (aw_job_payload aw (tc_ActorID tc)) (tc_ActorID tc) ?ttl = Inr j"
    using assms unfolding aiAction_def Let_def by (auto split: sum.splits if_splits)
  have ok: "approves aw svc (c_now (envs 0)) tc s token grant"
    using grant own may device use by (auto simp: approves_def split: option.splits)
  let ?j = "j\<lparr>IdempotencyKey := approval_key (envs 2) token\<rparr>"
  obtain q s' where create: "CreateJob (envs 2) tc ?j s = (q, s')" by fastforce
  have result: "db_Jobs (mem (fst (snd (aiAction aw cfg envs r body tc (s, svc))))) = db_Jobs (mem s')"
    using body use post grant own may device j create
    by (auto simp: aiAction_def approval_key_def split: option.splits sum.split)
  have j': "jo_DeviceID j = ap_DeviceID grant" "jo_Type j = ap_JobType grant" "jo_CreatedBy j = tc_ActorID tc" "DeploymentID j = []"
    "jo_State j = ''queued''" using j by (auto simp: jobs_New_def split: if_splits)
  have changed: "db_Jobs (mem s') \<noteq> db_Jobs (mem s)" using assms result by simp
  obtain i where i: "db_Jobs (mem s') = mput (NewID (envs 2) 0 ''job'') i (db_Jobs (mem s))" "job_of (envs 2) tc token grant i"
    using CreateJob_jobs(2) [OF create changed] j' by (auto simp: job_of_def)
  moreover have "\<not> key_used tc (approval_key (envs 2) token) (mem s)"
    using CreateJob_jobs(1) [OF create changed] by (auto simp: approval_key_def)
  ultimately show ?thesis using ok body result by auto
qed

text \<open>C16: The assistant queues a job only on an approval. Whatever its endpoints are sent, the jobs of the store change
  only when an authenticated caller that may use the assistant hands back a token that opens to an unexpired grant
  of that very tenant and user, for one of the five types, with the permission of that type, for a device of
  the tenant that supports it; then exactly one queued job is added, for that device and of that type, and the
  token had no job before.\<close>

theorem assistant_queues_only_approved_jobs:
  assumes "ai_control aw prompt cfg envs env r e (s, svc) = (reply, s', svc')" "db_Jobs (mem s') \<noteq> db_Jobs (mem s)"
  shows "\<exists>tc token grant job. authenticate env r s = Inr tc \<and> e = EpAIAction (Inr token)
    \<and> approves aw svc (c_now (envs 0)) tc s token grant \<and> job_of (envs 2) tc token grant job
    \<and> \<not> key_used tc (approval_key (envs 2) token) (mem s)
    \<and> db_Jobs (mem s') = mput (NewID (envs 2) 0 ''job'') job (db_Jobs (mem s))"
proof -
  obtain tc where tc: "authenticate env r s = Inr tc"
    and run: "ai_route aw prompt cfg envs r e tc (s, svc) = (reply, s', svc')"
    using assms by (auto simp: ai_control_def split: sum.splits)
  have s': "s' = fst (snd (ai_route aw prompt cfg envs r e tc (s, svc)))" by (simp add: run)
  then obtain body where e: "e = EpAIAction body" using assms(2) by (cases e) simp_all
  show ?thesis using aiAction_jobs [of aw cfg envs r body tc s svc] assms(2) tc s' e by auto
qed

section \<open>A token is issued, used, and used again\<close>

text \<open>What the assistant proposes can be approved: the token it issues opens to a grant of the caller, until it
  expires, as long as the cipher opens what it sealed and a grant is read back as it was written.\<close>

lemma prepared_action_is_approvable:
  fixes tc :: Context
  assumes "sv_box svc = Inr b" "box_ok b" "aw_nonce aw env = Inr nonce" "length nonce = nonce_size"
    and "\<And>g. aw_decode_approval aw (aw_encode_approval aw g) = Inr g"
    and "Authorize (Some tc) AIUse = None"
    and "prepareAIAction aw env svc tc s p = Some view" "pa_Kind p = ''device_job''"
    and "\<not> After t (time_Add (c_now env) (10 * Minute))" "\<forall>(k, dev) \<in> set (db_Devices (mem s)). dv_ID dev = k"
  shows "\<exists>grant. approves aw svc t tc s (ApprovalToken view) grant \<and> ap_DeviceID grant = pa_DeviceID p \<and> ap_JobType grant = pa_JobType p"
proof -
  obtain device token permission where may: "aiJobPermission (pa_JobType p) = Some permission" "Authorize (Some tc) permission = None"
    and device: "GetDevice tc (pa_DeviceID p) s = Inr device" "deviceSupportsAIJob device (pa_JobType p)"
    and token: "service_Seal svc (Inr nonce) (aw_encode_approval aw \<lparr>ap_TenantID = tc_TenantID tc, ap_ActorID = tc_ActorID tc, ap_DeviceID = dv_ID device,
      ap_JobType = pa_JobType p, ap_Nonce = NewID env 1 ''nonce'', ap_ExpiresAt = time_Add (c_now env) (10 * Minute)\<rparr>) ''ai-action'' = Inr token"
    "ApprovalToken view = token"
    using assms(3,7,8) by (auto simp: prepareAIAction_def Let_def split: if_splits option.splits sum.splits)
  have "dv_ID device = pa_DeviceID p"
    using device(1) assms(10) by (auto simp: GetDevice_def dest!: mget_SomeD split: option.splits if_splits)
  moreover have "service_Open svc token ''ai-action'' = Inr (aw_encode_approval aw \<lparr>ap_TenantID = tc_TenantID tc, ap_ActorID = tc_ActorID tc,
      ap_DeviceID = dv_ID device, ap_JobType = pa_JobType p, ap_Nonce = NewID env 1 ''nonce'', ap_ExpiresAt = time_Add (c_now env) (10 * Minute)\<rparr>)"
    using token(1) assms(1) box_open_seal [OF assms(2,4)] by (simp add: service_Open_def service_Seal_def)
  ultimately show ?thesis
    using may device token(2) assms(5,6,9) by (simp add: approves_def service_OpenJSON_def)
qed

text \<open>The texts a token can have are not one: decoding its base64 ignores a line feed at the end, so the same
  approval has another key, and a used token that is sent again with a line feed queues a second job.\<close>

lemma approves_with_line_feed:
  assumes "sv_box svc = Inr b" "DecodeString b (token @ [CHR 0x0A]) = DecodeString b token"
  shows "approves aw svc t tc s (token @ [CHR 0x0A]) grant \<longleftrightarrow> approves aw svc t tc s token grant"
  using assms by (simp add: approves_def service_OpenJSON_def service_Open_def box_open_def)

section \<open>Witnesses\<close>

text \<open>A toy cipher, that appends the additional data, and a grant that is read from its text.\<close>

definition demo_box :: secret_box where
  "demo_box = \<lparr>aead_Seal = (\<lambda>nonce p a. p @ a),
     aead_Open = (\<lambda>nonce c a. if drop (length c - length a) c = a then Some (take (length c - length a) c) else None),
     EncodeToString = (\<lambda>s. s), DecodeString = (\<lambda>s. Some (filter (\<lambda>c. c \<noteq> CHR 0x0A) s))\<rparr>"

definition demo_grant :: approval where
  "demo_grant = \<lparr>ap_TenantID = ''a'', ap_ActorID = ''u'', ap_DeviceID = ''d1'', ap_JobType = ''collect_logs'', ap_Nonce = ''n'', ap_ExpiresAt = 9000\<rparr>"

definition demo_provider :: provider where
  "demo_provider = \<lparr>pv_post = (\<lambda>u h b. Inl (ErrorString [])), pv_StatusText = (\<lambda>n. []), pv_problem = (\<lambda>t. []), pv_openai = (\<lambda>t. None),
     pv_anthropic = (\<lambda>t. None), pv_compatible = (\<lambda>t. None), pv_result = (\<lambda>t. None)\<rparr>"

definition demo_world :: ai_world where
  "demo_world = \<lparr>aw_parse = demo_parse, aw_ParseIP = (\<lambda>h. None), aw_provider = demo_provider, aw_nonce = (\<lambda>env. Inr (replicate 12 CHR ''n'')),
     aw_encode_approval = ap_JobType,
     aw_decode_approval = (\<lambda>t. Inr (demo_grant\<lparr>ap_JobType := t\<rparr>)),
     aw_job_payload = (\<lambda>u. u), aw_snapshot = (\<lambda>f. Inr []), aw_packages = (\<lambda>p. None), ToValidUTF8 = (\<lambda>v. v), round_cents = (\<lambda>v. v)\<rparr>"

definition demo_token :: string where
  "demo_token = replicate 12 CHR ''n'' @ ''collect_logs'' @ ''ai-action''"

definition demo_assistant :: "ai_service" where
  "demo_assistant = service_New (Inr demo_box) 0"

definition demo_fleet :: cstore where
  "demo_fleet = demo_member_db\<lparr>mem := (mem demo_member_db)\<lparr>db_Devices := [(''d1'', (demo_dev ''d1'' ''a'')\<lparr>dv_Capabilities := [''jobs'']\<rparr>)]\<rparr>\<rparr>"

definition demo_approval :: "string \<Rightarrow> cstore \<Rightarrow> ai_reply \<times> ai_state" where
  "demo_approval token s = ai_control demo_world [] demo_server demo_envs demo_cenv (CloudHTTP.demo_request ''POST'') (EpAIAction (Inr token))
     (s, demo_assistant)"

lemma demo_approval_queues: "length (db_Jobs (mem (fst (snd (demo_approval demo_token demo_fleet))))) = length (db_Jobs (mem demo_fleet)) + 1"
  by code_simp

lemma demo_approval_again:
  "length (db_Jobs (mem (fst (snd (demo_approval demo_token (fst (snd (demo_approval demo_token demo_fleet)))))))) = length (db_Jobs (mem demo_fleet)) + 1"
  by code_simp

theorem assistant_queues_only_approved_jobs_witness:
  "\<exists>grant job. ap_JobType grant = ''collect_logs'' \<and> job_of (demo_envs 2) (demo_tc ''a'') demo_token grant job"
proof -
  obtain reply s' svc' where run: "demo_approval demo_token demo_fleet = (reply, s', svc')" by (metis prod.collapse)
  have "length (db_Jobs (mem s')) = length (db_Jobs (mem demo_fleet)) + 1" using demo_approval_queues by (simp add: run)
  then have "db_Jobs (mem s') \<noteq> db_Jobs (mem demo_fleet)" by auto
  from assistant_queues_only_approved_jobs [OF run [unfolded demo_approval_def] this]
  obtain tc token grant job where "authenticate demo_cenv (CloudHTTP.demo_request ''POST'') demo_fleet = Inr tc" "token = demo_token"
    "service_OpenJSON demo_assistant (aw_decode_approval demo_world) token ''ai-action'' = Inr grant" "job_of (demo_envs 2) tc token grant job"
    by (auto simp: approves_def)
  moreover have "authenticate demo_cenv (CloudHTTP.demo_request ''POST'') demo_fleet = Inr (demo_tc ''a'')" by code_simp
  moreover have "service_OpenJSON demo_assistant (aw_decode_approval demo_world) demo_token ''ai-action'' = Inr (demo_grant\<lparr>ap_JobType := ''collect_logs''\<rparr>)"
    by code_simp
  ultimately show ?thesis by (intro exI [of _ "demo_grant\<lparr>ap_JobType := ''collect_logs''\<rparr>"] exI [of _ job]) auto
qed

end
