(* ===== verification/ControlAPI.thy ===== *)
theory ControlAPI
  imports AssistantActions
begin

text \<open>
  The whole of \<^verbatim>\<open>ControlHandler\<close>, \<^verbatim>\<open>server/server.go\<close>: every path it serves, with or without
  the authentication, and what a change of the store takes.
\<close>

section \<open>The paths\<close>

text \<open>
  A path with its decoded body: the pages of \<^verbatim>\<open>observability.go\<close>, log-in and log-out, the routes of
  \<open>endpoint\<close>, the certificate of the development CA, the lists that are always empty, and the assistant.
\<close>

datatype api_request =
    ApiHealth | ApiMetrics
  | ApiLogin "login_request result" | ApiLogout
  | ApiRoute endpoint
  | ApiDevCA
  | ApiList string
  | ApiAssistant ai_endpoint

datatype api_reply =
    ApiText string
  | ApiAnswer response
  | ApiAI ai_reply
  | ApiEmptyList string

definition Healthz :: string where
  "Healthz = [CHR 0x7B, CHR 0x22] @ ''status'' @ [CHR 0x22, CHR 0x3A, CHR 0x22] @ ''ok'' @ [CHR 0x22, CHR 0x7D]"

definition Metrics :: string where
  "Metrics = ''# HELP soul_room_up Service health'' @ [CHR 0x0A] @ ''# TYPE soul_room_up gauge'' @ [CHR 0x0A]
     @ ''soul_room_up 1'' @ [CHR 0x0A]"

definition devCA :: "authority option \<Rightarrow> http_request \<Rightarrow> api_reply" where
  "devCA ca r =
     (if Method r \<noteq> ''GET'' then ApiAnswer (ErrorJSON 404 ''not_found'' ''development CA is unavailable'')
      else case ca of
        None \<Rightarrow> ApiAnswer (ErrorJSON 404 ''not_found'' ''development CA is unavailable'')
      | Some authority \<Rightarrow> ApiText (CertPEM authority))"

text \<open>\<open>withAuth\<close> around a handler that does not use the store.\<close>

definition behind_auth :: "cenv \<Rightarrow> http_request \<Rightarrow> cstore \<Rightarrow> api_reply \<Rightarrow> api_reply" where
  "behind_auth env r s reply = (case authenticate env r s of Inl response \<Rightarrow> ApiAnswer response | Inr tc \<Rightarrow> reply)"

fun ControlHandler ::
  "services \<Rightarrow> server_cfg \<Rightarrow> authority option \<Rightarrow> ai_world \<Rightarrow> string \<Rightarrow> envs \<Rightarrow> cenv \<Rightarrow> go_error option \<Rightarrow> string result
   \<Rightarrow> http_request \<Rightarrow> api_request \<Rightarrow> ai_state \<Rightarrow> api_reply \<times> ai_state" where
  "ControlHandler sv cfg ca aw prompt envs env randErr salt r ApiHealth st = (ApiText Healthz, st)"
| "ControlHandler sv cfg ca aw prompt envs env randErr salt r ApiMetrics st = (ApiText Metrics, st)"
| "ControlHandler sv cfg ca aw prompt envs env randErr salt r (ApiLogin body) (s, svc) =
     (let (response, s) = login sv cfg envs randErr r body s in (ApiAnswer response, s, svc))"
| "ControlHandler sv cfg ca aw prompt envs env randErr salt r ApiLogout (s, svc) =
     (let (response, s) = logout r s in (ApiAnswer response, s, svc))"
| "ControlHandler sv cfg ca aw prompt envs env randErr salt r (ApiRoute e) (s, svc) =
     (let (response, s) = control sv cfg envs env randErr salt r e s in (ApiAnswer response, s, svc))"
| "ControlHandler sv cfg ca aw prompt envs env randErr salt r ApiDevCA st = (behind_auth env r (fst st) (devCA ca r), st)"
| "ControlHandler sv cfg ca aw prompt envs env randErr salt r (ApiList name) st = (behind_auth env r (fst st) (ApiEmptyList name), st)"
| "ControlHandler sv cfg ca aw prompt envs env randErr salt r (ApiAssistant e) st =
     (let (reply, st) = ai_control aw prompt cfg envs env r e st in (ApiAI reply, st))"

section \<open>What a change calls for\<close>

text \<open>The permissions that a change through a path takes; through a path without any nothing changes.\<close>

fun needed_ai :: "ai_endpoint \<Rightarrow> Permission list" where
  "needed_ai (EpAIConfig body) = [AIUse, TenantSettings]"
| "needed_ai EpAITest = [TenantSettings]"
| "needed_ai (EpAIChat body) = [AIUse]"
| "needed_ai (EpAIAction body) = [AIUse]"

fun calls_for :: "api_request \<Rightarrow> string \<Rightarrow> Permission list option" where
  "calls_for (ApiRoute e) verb = map_option (\<lambda>p. [p]) (needed e verb)"
| "calls_for (ApiAssistant e) verb = Some (needed_ai e)"
| "calls_for _ verb = None"

text \<open>A log-in that the store knows: the user is found by the e-mail address, the password verifies, the account is not
  locked, and the session is a new one of that user.\<close>

definition signs_in ::
  "services \<Rightarrow> server_cfg \<Rightarrow> envs \<Rightarrow> go_error option \<Rightarrow> http_request \<Rightarrow> login_request \<Rightarrow> cstore \<Rightarrow> Session \<Rightarrow> bool" where
  "signs_in sv cfg envs randErr r body s session \<longleftrightarrow>
     Method r = ''POST''
   \<and> (\<exists>user token. FindUserByEmail (envs 0) (ToLower (lg_Email body)) s = Inr user
        \<and> Verify (sv_hmac sv) (lg_Password body) (PasswordHash user) \<and> \<not> Before (c_now (envs 0)) (LockedUntil user)
        \<and> NewSession (envs 1) randErr (us_ID user) (SessionTTL cfg) = Inr (session, token))"

lemma login_changes:
  assumes "snd (login sv cfg envs randErr r body s) \<noteq> s"
  shows "\<exists>b session. body = Inr b \<and> signs_in sv cfg envs randErr r b s session
    \<and> mem (snd (login sv cfg envs randErr r body s)) = (mem s)\<lparr>db_Sessions := mput (se_TokenHash session) session (db_Sessions (mem s))\<rparr>"
proof -
  obtain b user session token where steps: "Method r = ''POST''" "body = Inr b"
    "FindUserByEmail (envs 0) (ToLower (lg_Email b)) s = Inr user" "Verify (sv_hmac sv) (lg_Password b) (PasswordHash user)"
    "\<not> Before (c_now (envs 0)) (LockedUntil user)" "NewSession (envs 1) randErr (us_ID user) (SessionTTL cfg) = Inr (session, token)"
    using assms unfolding login_def by (auto split: if_splits sum.splits prod.splits)
  have "snd (login sv cfg envs randErr r body s) = snd (SaveSession (envs 2) session s)"
    using steps by (simp add: login_def split: prod.split option.split)
  then have "mem (snd (login sv cfg envs randErr r body s)) = (mem s)\<lparr>db_Sessions := mput (se_TokenHash session) session (db_Sessions (mem s))\<rparr>"
    by (simp add: SaveSession_def)
  with steps show ?thesis by (auto simp: signs_in_def)
qed

lemma authenticate_scopes: "authenticate env r s = Inr tc \<Longrightarrow> Scopes tc = []"
  by (auto simp: authenticate_def split: sum.splits if_splits prod.splits)

lemma control_changes:
  assumes "snd (control sv cfg envs env randErr salt r e s) \<noteq> s"
  shows "\<exists>tc p. authenticate env r s = Inr tc \<and> needed e (Method r) = Some p \<and> Authorize (Some tc) p = None"
proof (cases "authenticate env r s")
  case (Inl response)
  with assms show ?thesis by (simp add: control_def withAuth_def)
next
  case (Inr tc)
  then show ?thesis
    using assms unauthorized_route [of e r tc sv cfg envs randErr salt s] by (fastforce simp: control_def withAuth_def)
qed

lemma aiAction_changes:
  assumes "fst (snd (aiAction aw cfg envs r body tc (s, svc))) \<noteq> s"
  shows "\<exists>token grant. body = Inr token \<and> approves aw svc (c_now (envs 0)) tc s token grant"
proof -
  obtain token grant device where "body = Inr token" "Authorize (Some tc) AIUse = None"
    "service_OpenJSON svc (aw_decode_approval aw) token ''ai-action'' = Inr grant"
    "ap_TenantID grant = tc_TenantID tc" "ap_ActorID grant = tc_ActorID tc" "\<not> After (c_now (envs 0)) (ap_ExpiresAt grant)"
    "\<not> (case aiJobPermission (ap_JobType grant) of None \<Rightarrow> True | Some p \<Rightarrow> Authorize (Some tc) p \<noteq> None)"
    "GetDevice tc (ap_DeviceID grant) s = Inr device" "deviceSupportsAIJob device (ap_JobType grant)"
    using assms unfolding aiAction_def Let_def by (auto split: sum.splits if_splits)
  then show ?thesis by (auto simp: approves_def split: option.splits)
qed

lemma ai_route_changes:
  assumes "fst (snd (ai_route aw prompt cfg envs r e tc (s, svc))) \<noteq> s"
  shows "\<forall>p \<in> set (needed_ai e). Authorize (Some tc) p = None"
proof (cases e)
  case (EpAIConfig body)
  with assms show ?thesis by (auto simp: aiConfiguration_def Let_def split: if_splits)
next
  case EpAITest
  with assms show ?thesis by (auto simp: aiTest_def split: if_splits)
next
  case (EpAIChat body)
  with assms show ?thesis by (auto simp: aiChat_def split: if_splits)
next
  case (EpAIAction body)
  then show ?thesis using assms aiAction_changes [of aw cfg envs r body tc s svc] by (auto simp: approves_def)
qed

text \<open>C12: Nothing in the store changes without a log-in or a permission. Whatever is sent to the control API, on any path
  of \<open>ControlHandler\<close>: if the store differs afterwards, then either the request was a log-in with the address and
  the password of a stored user that is not locked, and all that is new is a session of that user; or it carried the
  token of a live session of a user with roles in the tenant, and for each permission that the path and method call
  for, one of those roles has it; and a change through an approved action of the assistant came with a token that
  opens to an unexpired grant for this caller.\<close>

theorem changes_are_authorized:
  assumes "ControlHandler sv cfg ca aw prompt envs env randErr salt r q (s, svc) = (reply, s', svc')" "s' \<noteq> s"
  shows "(\<exists>body session. q = ApiLogin (Inr body) \<and> signs_in sv cfg envs randErr r body s session
      \<and> mem s' = (mem s)\<lparr>db_Sessions := mput (se_TokenHash session) session (db_Sessions (mem s))\<rparr>)
    \<or> (\<exists>tc ps. authenticate env r s = Inr tc \<and> calls_for q (Method r) = Some ps \<and> ps \<noteq> []
      \<and> (\<forall>p \<in> set ps. \<exists>role \<in> set (Roles tc). p \<in> set (permissions_of role))
      \<and> (\<forall>body. q = ApiAssistant (EpAIAction body)
            \<longrightarrow> (\<exists>token grant. body = Inr token \<and> approves aw svc (c_now (envs 0)) tc s token grant)))"
proof (cases q)
  case (ApiLogin body)
  then show ?thesis using assms login_changes [of sv cfg envs randErr r body s] by (auto split: prod.splits)
next
  case (ApiRoute e)
  then show ?thesis
    using assms control_changes [of sv cfg envs env randErr salt r e s] authenticate_scopes [of env r s]
    by (fastforce simp: Authorize_None_iff split: prod.splits)
next
  case (ApiAssistant e)
  then obtain tc where auth: "authenticate env r s = Inr tc" and run: "fst (snd (ai_route aw prompt cfg envs r e tc (s, svc))) = s'"
    using assms by (auto simp: ai_control_def split: sum.splits prod.splits)
  have "\<forall>p \<in> set (needed_ai e). \<exists>role \<in> set (Roles tc). p \<in> set (permissions_of role)"
    using ai_route_changes [of aw prompt cfg envs r e tc s svc] run assms(2) authenticate_scopes [OF auth] by (simp add: Authorize_None_iff)
  moreover have "needed_ai e \<noteq> []" by (cases e) simp_all
  moreover have "\<forall>body. e = EpAIAction body \<longrightarrow> (\<exists>token grant. body = Inr token \<and> approves aw svc (c_now (envs 0)) tc s token grant)"
    using aiAction_changes [of aw cfg envs r _ tc s svc] run assms(2) by auto
  ultimately show ?thesis using auth ApiAssistant by simp
qed (use assms in \<open>simp_all add: logout_def\<close>)

theorem changes_are_authorized_witness: "DeviceDelete \<in> set (permissions_of ''organization_owner'')"
proof -
  let ?q = "ApiRoute (EpDevices (Inl ErrNotFound))"
  obtain reply s' svc' where run: "ControlHandler demo_services demo_server None demo_world [] demo_envs demo_cenv None (Inr [])
      (CloudHTTP.demo_request ''DELETE'') ?q (demo_member_db, demo_assistant) = (reply, s', svc')" by (metis prod_cases3)
  moreover have "s' \<noteq> demo_member_db" using run demo_delete by (auto split: prod.splits)
  ultimately show ?thesis using changes_are_authorized [of _ _ _ _ _ _ _ _ _ _ ?q] demo_authenticate
    by (fastforce simp: demo_tc_def CloudHTTP.demo_request_def)
qed

end
