(* ===== verification/AgentDeploy.thy ===== *)
theory AgentDeploy
  imports GoFiles GoCodec
begin

text \<open>
  The deployment of files to a device, \<^verbatim>\<open>agent/internal/applications/file_deploy.go\<close>: which paths
  a request may write, the check of its content, and the replacement of the file by renaming a staged one.
\<close>

section \<open>Data\<close>

type_synonym u32 = "32 word"

record FileDeployRequest =
  fd_Destination :: string
  fd_Content :: string
  fd_SHA256 :: string
  fd_Mode :: u32
  fd_Backup :: bool

record FileDeployer =
  AllowedPrefixes :: "string list"
  fd_MaxBytes :: int
  fd_Audit :: bool

text \<open>
  The files by their names, each with its content and the mode it was given, and what the calls to the operating system
  return: an error, or for a write the error and how much was written before it (nothing at all when the
  file could not be opened). \<open>fe_CreateTemp\<close> is the name of a new file in the directory.
\<close>

type_synonym file_system = "string \<Rightarrow> (string \<times> u32) option"

record deploy_env =
  fe_sha256 :: "string \<Rightarrow> string"
  fe_ctx :: "go_error option"
  fe_MkdirAll :: "string \<Rightarrow> go_error option"
  fe_ReadFile :: "string \<Rightarrow> bool"
  fe_WriteFile :: "(go_error \<times> nat option) option"
  fe_CreateTemp :: "string \<Rightarrow> string result"
  fe_Write :: "(go_error \<times> nat) option"
  fe_Chmod :: "go_error option"
  fe_Sync :: "go_error option"
  fe_Close :: "go_error option"
  fe_Rename :: "go_error option"
  fe_Remove :: "go_error option"

definition write_file :: "deploy_env \<Rightarrow> string \<Rightarrow> string \<Rightarrow> u32 \<Rightarrow> file_system \<Rightarrow> go_error option \<times> file_system" where
  "write_file env path contents mode fs =
     (let put = (\<lambda>c. fs(path \<mapsto> (c, case fs path of Some (_, old) \<Rightarrow> old | None \<Rightarrow> mode))) in
      case fe_WriteFile env of
        None \<Rightarrow> (None, put contents)
      | Some (err, None) \<Rightarrow> (Some err, fs)
      | Some (err, Some n) \<Rightarrow> (Some err, put (take n contents)))"

definition remove_file :: "deploy_env \<Rightarrow> string \<Rightarrow> file_system \<Rightarrow> file_system" where
  "remove_file env path fs = (if fe_Remove env = None then fs(path := None) else fs)"

section \<open>The deployer\<close>

definition deploy_allowed :: "FileDeployer \<Rightarrow> string \<Rightarrow> bool" where
  "deploy_allowed d path \<longleftrightarrow> (\<exists>p \<in> set (AllowedPrefixes d). path = Clean p \<or> HasPrefix path (Clean p @ ''/''))"

definition backup :: "deploy_env \<Rightarrow> FileDeployRequest \<Rightarrow> string \<Rightarrow> file_system \<Rightarrow> go_error option \<times> file_system" where
  "backup env req clean fs =
     (if fd_Backup req then
        (case fs clean of
           Some (existing, _) \<Rightarrow> (if fe_ReadFile env clean then write_file env (clean @ ''.bak'') existing 384 fs else (None, fs))
         | None \<Rightarrow> (None, fs))
      else (None, fs))"

definition deploy_mode :: "FileDeployRequest \<Rightarrow> u32" where
  "deploy_mode req = (if fd_Mode req \<noteq> 0 then fd_Mode req else 420)"

text \<open>Filling the staged file, and putting it in the place of the destination.\<close>

definition stage_file :: "deploy_env \<Rightarrow> FileDeployRequest \<Rightarrow> string \<Rightarrow> file_system \<Rightarrow> go_error option \<times> file_system" where
  "stage_file env req tmp fs =
     (case fe_Write env of
        Some (err, n) \<Rightarrow> (Some err, remove_file env tmp (fs(tmp \<mapsto> (take n (fd_Content req), 384))))
      | None \<Rightarrow>
          (let fs = fs(tmp \<mapsto> (fd_Content req, 384)) in
           case fe_Chmod env of
             Some err \<Rightarrow> (Some err, remove_file env tmp fs)
           | None \<Rightarrow>
               (let fs = fs(tmp \<mapsto> (fd_Content req, deploy_mode req)) in
                case fe_Sync env of
                  Some err \<Rightarrow> (Some err, remove_file env tmp fs)
                | None \<Rightarrow>
                    (case fe_Close env of
                       Some err \<Rightarrow> (Some err, remove_file env tmp fs)
                     | None \<Rightarrow> (None, fs)))))"

definition replace_file :: "deploy_env \<Rightarrow> string \<Rightarrow> string \<Rightarrow> file_system \<Rightarrow> go_error option \<times> file_system" where
  "replace_file env tmp clean fs =
     (case fe_Rename env of
        Some err \<Rightarrow> (Some err, remove_file env tmp fs)
      | None \<Rightarrow> (None, (fs(tmp := None))(clean := fs tmp)))"

definition deploy_digest_ok :: "deploy_env \<Rightarrow> FileDeployRequest \<Rightarrow> bool" where
  "deploy_digest_ok env req \<longleftrightarrow> fd_SHA256 req = [] \<or> hexEncode (fe_sha256 env (fd_Content req)) = ToLower (fd_SHA256 req)"

text \<open>The request is given decoded, or as the error of decoding it. The last component is what was told to the audit.\<close>

definition Deploy ::
  "FileDeployer \<Rightarrow> deploy_env \<Rightarrow> FileDeployRequest result \<Rightarrow> file_system
     \<Rightarrow> go_error option \<times> file_system \<times> (string \<times> (string \<times> string) list) list" where
  "Deploy d env raw fs =
     (case raw of
        Inl err \<Rightarrow> (Some err, fs, [])
      | Inr req \<Rightarrow>
          if fd_Destination req = [] then (Some (ErrorString ''destination is required''), fs, [])
          else if fd_MaxBytes d < int (length (fd_Content req)) then (Some (ErrorString ''file exceeds maximum size''), fs, [])
          else
            let clean = Clean (fd_Destination req) in
            if \<not> deploy_allowed d clean then (Some (ErrorString ''destination is not allowlisted''), fs, [])
            else if \<not> deploy_digest_ok env req then (Some (ErrorString ''checksum mismatch''), fs, [])
            else case fe_ctx env of Some err \<Rightarrow> (Some err, fs, []) | None \<Rightarrow>
            case fe_MkdirAll env (path_Dir clean) of Some err \<Rightarrow> (Some err, fs, []) | None \<Rightarrow>
            let (err, fs) = backup env req clean fs in
            case err of Some err \<Rightarrow> (Some err, fs, []) | None \<Rightarrow>
            case fe_CreateTemp env (path_Dir clean) of Inl err \<Rightarrow> (Some err, fs, []) | Inr tmp \<Rightarrow>
            let (err, fs) = stage_file env req tmp fs in
            case err of Some err \<Rightarrow> (Some err, fs, []) | None \<Rightarrow>
            let (err, fs) = replace_file env tmp clean fs in
            case err of Some err \<Rightarrow> (Some err, fs, []) | None \<Rightarrow>
            (None, fs, if fd_Audit d then [(''file_deployed'', [(''destination'', clean)])] else []))"

section \<open>Paths under a prefix\<close>

text \<open>Part by part, with nothing left that leads upwards.\<close>

definition inside :: "string \<Rightarrow> string \<Rightarrow> bool" where
  "inside p path \<longleftrightarrow> HasPrefix path ''/'' \<and> (\<exists>rest. clean_parts path = clean_parts p @ rest) \<and> (\<forall>c \<in> set (clean_parts path). plain_part c)"

lemma Split_Clean:
  assumes "HasPrefix p ''/''" "clean_parts p \<noteq> []"
  shows "Split CHR ''/'' (Clean p) = [] # clean_parts p"
proof -
  have "Clean p = [] @ CHR ''/'' # Join (clean_parts p) ''/''" using assms by (simp add: Clean_def)
  then have "Split CHR ''/'' (Clean p) = [[]] @ Split CHR ''/'' (Join (clean_parts p) ''/'')" by (metis Split.simps(1) Split_append_sep)
  also have "Split CHR ''/'' (Join (clean_parts p) ''/'') = clean_parts p"
    using assms clean_parts_rooted_plain [OF assms(1)] by (intro Split_Join) (auto simp: plain_part_def)
  finally show ?thesis by simp
qed

lemma under_prefix:
  assumes p: "HasPrefix p ''/''" and under: "HasPrefix (Clean q) (Clean p @ ''/'')"
  shows "inside p (Clean q)"
proof -
  obtain t where t: "Clean q = Clean p @ CHR ''/'' # t" using under by (auto simp: HasPrefix_iff)
  have "HasPrefix (Clean p) ''/''" using p by simp
  then have root: "HasPrefix (Clean q) ''/''" unfolding t by (auto simp: HasPrefix_iff)
  then have q: "HasPrefix q ''/''" by simp
  have plain: "\<forall>c \<in> set (clean_parts q). plain_part c" using clean_parts_rooted_plain [OF q] by blast
  have split: "Split CHR ''/'' (Clean q) = Split CHR ''/'' (Clean p) @ Split CHR ''/'' t" unfolding t by (rule Split_append_sep)
  have "clean_parts q \<noteq> []"
  proof
    assume "clean_parts q = []"
    then have "length (Clean q) = 1" using q by (simp add: Clean_def)
    moreover have "1 \<le> length (Clean p)" using p by (simp add: Clean_def)
    ultimately show False by (simp add: t)
  qed
  note parts = Split_Clean [OF q this]
  show ?thesis
  proof (cases "clean_parts p = []")
    case True
    then have "Clean p = ''/''" using p by (simp add: Clean_def)
    then have "Split CHR ''/'' (Clean q) = [] # [] # Split CHR ''/'' t" by (simp add: split)
    then have "[] \<in> set (clean_parts q)" using parts by simp
    then show ?thesis using plain by (auto simp: plain_part_def)
  next
    case False
    then have "clean_parts q = clean_parts p @ Split CHR ''/'' t" using Split_Clean [OF p False] parts split by simp
    then show ?thesis using root plain q by (simp add: inside_def clean_parts_Clean_rooted)
  qed
qed

lemma allowed_inside:
  assumes "deploy_allowed d (Clean q)" "\<forall>p \<in> set (AllowedPrefixes d). HasPrefix p ''/''"
  shows "\<exists>p \<in> set (AllowedPrefixes d). inside p (Clean q)"
proof -
  obtain p where p: "p \<in> set (AllowedPrefixes d)" "Clean q = Clean p \<or> HasPrefix (Clean q) (Clean p @ ''/'')"
    using assms(1) by (auto simp: deploy_allowed_def)
  have root: "HasPrefix p ''/''" using p(1) assms(2) by blast
  have "inside p (Clean p)"
    using clean_parts_rooted_plain [OF root] by (auto simp: inside_def clean_parts_Clean_rooted [OF root] root)
  then show ?thesis using p under_prefix [OF root, of q] by auto
qed

section \<open>What a deployment changes\<close>

lemma backup_frame: "backup env req clean fs = (err, fs') \<Longrightarrow> q \<noteq> clean @ ''.bak'' \<Longrightarrow> fs' q = fs q"
  by (auto simp: backup_def write_file_def Let_def split: if_splits option.splits prod.splits)

lemma stage_file_frame: "stage_file env req tmp fs = (err, fs') \<Longrightarrow> q \<noteq> tmp \<Longrightarrow> fs' q = fs q"
  by (auto simp: stage_file_def remove_file_def Let_def split: option.splits if_splits)

lemma stage_file_done: "stage_file env req tmp fs = (None, fs') \<Longrightarrow> fs' tmp = Some (fd_Content req, deploy_mode req)"
  by (auto simp: stage_file_def Let_def split: option.splits)

lemma replace_file_frame: "replace_file env tmp clean fs = (err, fs') \<Longrightarrow> q \<noteq> tmp \<Longrightarrow> q \<noteq> clean \<Longrightarrow> fs' q = fs q"
  by (auto simp: replace_file_def remove_file_def split: option.splits if_splits)

lemma replace_file_failed: "replace_file env tmp clean fs = (Some err, fs') \<Longrightarrow> q \<noteq> tmp \<Longrightarrow> fs' q = fs q"
  by (auto simp: replace_file_def remove_file_def split: option.splits if_splits)

lemma replace_file_done: "replace_file env tmp clean fs = (None, fs') \<Longrightarrow> fs' clean = fs tmp"
  by (auto simp: replace_file_def split: option.splits)

lemmas deploy_frames = backup_frame stage_file_frame replace_file_frame

text \<open>The three ways a deployment ends: it is refused before anything is written, it fails with the destination
  as it was, or the staged file has taken its place.\<close>

lemma deploy_cases:
  assumes run: "Deploy d env (Inr req) fs = (err, fs', told)"
  obtains (refused) "err \<noteq> None" "fs' = fs"
  | (admitted) "deploy_allowed d (Clean (fd_Destination req))" "deploy_digest_ok env req" "int (length (fd_Content req)) \<le> fd_MaxBytes d"
      "\<And>q. fs' q \<noteq> fs q \<Longrightarrow> q = Clean (fd_Destination req) \<or> q = Clean (fd_Destination req) @ ''.bak''
         \<or> fe_CreateTemp env (path_Dir (Clean (fd_Destination req))) = Inr q"
      "(\<And>t. fe_CreateTemp env (path_Dir (Clean (fd_Destination req))) = Inr t \<Longrightarrow> t \<noteq> Clean (fd_Destination req)) \<Longrightarrow> err \<noteq> None
         \<Longrightarrow> fs' (Clean (fd_Destination req)) = fs (Clean (fd_Destination req))"
      "err = None \<Longrightarrow> fs' (Clean (fd_Destination req)) = Some (fd_Content req, deploy_mode req)"
proof -
  let ?c = "Clean (fd_Destination req)"
  show thesis
  proof (cases "err \<noteq> None \<and> fs' = fs")
    case True
    then show ?thesis using refused by simp
  next
    case False
    then have ok: "deploy_allowed d ?c" "deploy_digest_ok env req" "int (length (fd_Content req)) \<le> fd_MaxBytes d"
      and pre: "fd_Destination req \<noteq> []" "fe_ctx env = None" "fe_MkdirAll env (path_Dir ?c) = None"
      using run by (auto simp: Deploy_def Let_def split: if_splits option.splits)
    obtain e1 fs1 where b: "backup env req ?c fs = (e1, fs1)" by fastforce
    have run1: "(case e1 of Some err \<Rightarrow> (Some err, fs1, []) | None \<Rightarrow>
            case fe_CreateTemp env (path_Dir ?c) of Inl err \<Rightarrow> (Some err, fs1, []) | Inr tmp \<Rightarrow>
            let (err, fs) = stage_file env req tmp fs1 in
            case err of Some err \<Rightarrow> (Some err, fs, []) | None \<Rightarrow>
            let (err, fs) = replace_file env tmp ?c fs in
            case err of Some err \<Rightarrow> (Some err, fs, []) | None \<Rightarrow>
            (None, fs, if fd_Audit d then [(''file_deployed'', [(''destination'', ?c)])] else [])) = (err, fs', told)"
      using run ok pre b by (simp add: Deploy_def Let_def split del: if_split)
    show ?thesis
    proof (cases "e1 \<noteq> None \<or> (\<exists>e. fe_CreateTemp env (path_Dir ?c) = Inl e)")
      case True
      then have "fs' = fs1" "err \<noteq> None" using run1 by (auto split: option.splits)
      then show ?thesis using backup_frame [OF b] by (intro admitted [OF ok]) auto
    next
      case False
      then obtain tmp where e1: "e1 = None" and tmp: "fe_CreateTemp env (path_Dir ?c) = Inr tmp" by (cases "fe_CreateTemp env (path_Dir ?c)") auto
      obtain e2 fs2 where st: "stage_file env req tmp fs1 = (e2, fs2)" by fastforce
      obtain e3 fs3 where re: "replace_file env tmp ?c fs2 = (e3, fs3)" by fastforce
      show ?thesis
      proof (cases e2)
        case (Some e)
        then have out: "fs' = fs2" "err \<noteq> None" using run1 e1 tmp st by auto
        have "q = ?c \<or> q = ?c @ ''.bak'' \<or> fe_CreateTemp env (path_Dir ?c) = Inr q" if "fs' q \<noteq> fs q" for q
          using that [unfolded out(1)] tmp backup_frame [OF b, of q] stage_file_frame [OF st, of q] by metis
        moreover have "fs' ?c = fs ?c" if "tmp \<noteq> ?c"
          using that out backup_frame [OF b, of ?c] stage_file_frame [OF st, of ?c] by auto
        ultimately show ?thesis using out(2) tmp by (intro admitted [OF ok]) auto
      next
        case None
        then have out: "fs' = fs3" "err = None \<longleftrightarrow> e3 = None" using run1 e1 tmp st re by (auto split: option.splits)
        have staged: "fs2 tmp = Some (fd_Content req, deploy_mode req)" using stage_file_done st None by simp
        have changed: "q = ?c \<or> q = ?c @ ''.bak'' \<or> fe_CreateTemp env (path_Dir ?c) = Inr q" if "fs' q \<noteq> fs q" for q
          using that [unfolded out(1)] tmp backup_frame [OF b, of q] stage_file_frame [OF st, of q] replace_file_frame [OF re, of q] by metis
        have kept: "fs' ?c = fs ?c" if "tmp \<noteq> ?c" "err \<noteq> None"
          using that out replace_file_failed [of env tmp ?c fs2 _ fs3] re backup_frame [OF b, of ?c] stage_file_frame [OF st, of ?c] by auto
        have new: "fs' ?c = Some (fd_Content req, deploy_mode req)" if "err = None"
          using that out staged replace_file_done [of env tmp ?c fs2 fs3] re by auto
        show ?thesis using changed kept new tmp by (intro admitted [OF ok]) auto
      qed
    qed
  qed
qed

section \<open>The files beside the destination\<close>

text \<open>\<^verbatim>\<open>os.CreateTemp\<close> names a file directly in the directory it is given.\<close>

definition creates_in :: "(string \<Rightarrow> string result) \<Rightarrow> bool" where
  "creates_in create \<longleftrightarrow> (\<forall>dir t. create dir = Inr t \<longrightarrow> (\<exists>name. plain_part name \<and> t = path_Join dir name))"

text \<open>A file a deployment may write for a prefix: it lies inside of it, or the prefix names the destination itself and the
  file lies beside it.\<close>

definition writable :: "string \<Rightarrow> string \<Rightarrow> string \<Rightarrow> bool" where
  "writable p dest q \<longleftrightarrow> inside p q \<or> dest = Clean p \<and> path_Dir q = path_Dir dest"

lemma beside_writable:
  assumes p: "HasPrefix p ''/''" and under: "inside p (Clean q)"
    and beside: "f = Clean q @ ''.bak'' \<or> (\<exists>name. plain_part name \<and> f = path_Join (path_Dir (Clean q)) name)"
  shows "writable p (Clean q) f"
proof -
  have root: "HasPrefix q ''/''" using under by (simp add: inside_def)
  note cq = Clean_is_rooted [OF root]
  obtain rest where rest: "clean_parts q = clean_parts p @ rest"
    using under by (auto simp: inside_def clean_parts_Clean_rooted [OF root])
  have plain: "\<forall>c \<in> set (clean_parts q). plain_part c" using clean_parts_rooted_plain [OF root] by blast
  show ?thesis
  proof (cases "clean_parts q" rule: rev_cases)
    case Nil
    then have same: "Clean q = ''/''" "clean_parts p = []" using cq rest by (simp_all add: rooted_def)
    have "path_Dir ''/'' = rooted []" by code_simp
    moreover have "''/.bak'' = rooted [''.bak'']" by (simp add: rooted_def)
    moreover have "plain_part ''.bak''" by code_simp
    ultimately obtain name where "plain_part name" "f = rooted [name]"
      using beside path_Join_parts [of "[]"] by (auto simp: same(1))
    then show ?thesis using same(2) clean_parts_rooted [of "[name]"] by (simp add: writable_def inside_def)
  next
    case (snoc ps n)
    have all: "\<forall>c \<in> set (ps @ [n]). plain_part c" using plain snoc by simp
    have dir: "path_Dir (Clean q) = rooted ps" using path_Dir_rooted [OF all] cq snoc by simp
    have "CHR ''/'' \<notin> set n" using all by (simp add: plain_part_def)
    then have bak: "plain_part (n @ ''.bak'')" by (auto simp: plain_part_def append_eq_Cons_conv)
    have "\<exists>m. plain_part m \<and> f = rooted (ps @ [m])"
      using beside
    proof
      assume "f = Clean q @ ''.bak''"
      then have "f = rooted (ps @ [n @ ''.bak''])" using cq snoc by (simp add: rooted_snoc)
      then show ?thesis using bak by blast
    next
      assume "\<exists>name. plain_part name \<and> f = path_Join (path_Dir (Clean q)) name"
      then show ?thesis using path_Join_parts [of ps] all by (auto simp: dir)
    qed
    then obtain m where m: "plain_part m" "f = rooted (ps @ [m])" by blast
    then have all': "\<forall>c \<in> set (ps @ [m]). plain_part c" using all by simp
    show ?thesis
    proof (cases rest rule: rev_cases)
      case Nil
      then have "Clean q = Clean p" using rest cq Clean_is_rooted [OF p] by simp
      then show ?thesis using dir m(2) path_Dir_rooted [OF all'] by (simp add: writable_def)
    next
      case inner: (snoc rs r)
      then have "ps = clean_parts p @ rs" using snoc rest by simp
      then show ?thesis using m(2) all' clean_parts_rooted [OF all'] by (simp add: writable_def inside_def)
    qed
  qed
qed

text \<open>C23: A deployment stays inside its allowlist and is atomic. With absolute prefixes, whatever a request names and
  wherever a system call fails: the files that change are the destination, its backup and the staged file, all of
  them inside an allowed prefix, part by part and without any \<^verbatim>\<open>..\<close>, except where a prefix names the destination itself: then
  the backup and the staged file lie beside it. They change only if the content has the announced digest and an allowed
  size; an error leaves the destination as it was, and success leaves exactly the content and mode of the request.
  (The staged file is a new one in the directory of the destination. Directories are not in the model.)\<close>

theorem deployment_is_confined_and_atomic:
  assumes run: "Deploy d env (Inr req) fs = (err, fs', told)"
    and absolute: "\<forall>p \<in> set (AllowedPrefixes d). HasPrefix p ''/''"
    and temp: "creates_in (fe_CreateTemp env)"
    and new: "\<And>t. fe_CreateTemp env (path_Dir (Clean (fd_Destination req))) = Inr t \<Longrightarrow> t \<noteq> Clean (fd_Destination req)"
  shows "(\<forall>q. fs' q \<noteq> fs q \<longrightarrow>
        (q = Clean (fd_Destination req) \<or> q = Clean (fd_Destination req) @ ''.bak''
          \<or> fe_CreateTemp env (path_Dir (Clean (fd_Destination req))) = Inr q)
      \<and> (\<exists>p \<in> set (AllowedPrefixes d). inside p (Clean (fd_Destination req)) \<and> writable p (Clean (fd_Destination req)) q))
    \<and> (fs' \<noteq> fs \<longrightarrow> deploy_digest_ok env req \<and> int (length (fd_Content req)) \<le> fd_MaxBytes d)
    \<and> (if err = None then fs' (Clean (fd_Destination req)) = Some (fd_Content req, deploy_mode req)
        \<and> (\<exists>p \<in> set (AllowedPrefixes d). inside p (Clean (fd_Destination req)))
       else fs' (Clean (fd_Destination req)) = fs (Clean (fd_Destination req)))"
  using run
proof (cases rule: deploy_cases)
  case refused
  then show ?thesis by auto
next
  case admitted
  obtain p where p: "p \<in> set (AllowedPrefixes d)" "inside p (Clean (fd_Destination req))"
    using allowed_inside [OF admitted(1) absolute] by blast
  have "writable p (Clean (fd_Destination req)) q" if "fs' q \<noteq> fs q" for q
    using admitted(4) [OF that]
  proof (elim disjE)
    assume "q = Clean (fd_Destination req)"
    then show ?thesis using p(2) by (simp add: writable_def)
  next
    assume "q = Clean (fd_Destination req) @ ''.bak''"
    then show ?thesis using beside_writable [OF _ p(2)] absolute p(1) by blast
  next
    assume "fe_CreateTemp env (path_Dir (Clean (fd_Destination req))) = Inr q"
    then have "\<exists>name. plain_part name \<and> q = path_Join (path_Dir (Clean (fd_Destination req))) name"
      using temp by (simp add: creates_in_def)
    then show ?thesis using beside_writable [OF _ p(2)] absolute p(1) by blast
  qed
  then show ?thesis using admitted p new by auto
qed

section \<open>Witnesses\<close>

definition demo_deployer :: FileDeployer where
  "demo_deployer = \<lparr>AllowedPrefixes = [''/data''], fd_MaxBytes = 10, fd_Audit = False\<rparr>"

definition demo_deploy_env :: deploy_env where
  "demo_deploy_env = \<lparr>fe_sha256 = (\<lambda>s. s), fe_ctx = None, fe_MkdirAll = (\<lambda>p. None), fe_ReadFile = (\<lambda>p. True), fe_WriteFile = None,
     fe_CreateTemp = (\<lambda>dir. Inr (path_Join dir ''.edge-agent-stage-1'')), fe_Write = None, fe_Chmod = None, fe_Sync = None, fe_Close = None, fe_Rename = None,
     fe_Remove = None\<rparr>"

definition demo_deployment :: "string \<Rightarrow> FileDeployRequest" where
  "demo_deployment path = \<lparr>fd_Destination = path, fd_Content = ''new'', fd_SHA256 = ''6E6577'', fd_Mode = 0, fd_Backup = True\<rparr>"

lemma demo_deployed: "fst (Deploy demo_deployer demo_deploy_env (Inr (demo_deployment ''/data/./a'')) Map.empty) = None"
  by code_simp

lemma demo_escape: "fst (Deploy demo_deployer demo_deploy_env (Inr (demo_deployment ''/data/../etc/passwd'')) Map.empty)
    = Some (ErrorString ''destination is not allowlisted'')"
  by code_simp

theorem deployment_is_confined_and_atomic_witness:
  "fst (snd (Deploy demo_deployer demo_deploy_env (Inr (demo_deployment ''/data/./a'')) Map.empty)) ''/data/a'' = Some (''new'', 420)"
proof -
  obtain err fs' told where run: "Deploy demo_deployer demo_deploy_env (Inr (demo_deployment ''/data/./a'')) Map.empty = (err, fs', told)"
    by (metis prod.collapse)
  have path: "Clean ''/data/./a'' = ''/data/a''" "path_Dir ''/data/a'' = ''/data''" by code_simp+
  have none: "err = None" using demo_deployed by (simp add: run)
  have "\<forall>p \<in> set (AllowedPrefixes demo_deployer). HasPrefix p ''/''" by (simp add: demo_deployer_def HasPrefix_def)
  moreover have "fe_CreateTemp demo_deploy_env (path_Dir (Clean (fd_Destination (demo_deployment ''/data/./a'')))) = Inr ''/data/.edge-agent-stage-1''"
    by (simp add: demo_deployment_def path demo_deploy_env_def) code_simp
  moreover have "creates_in (fe_CreateTemp demo_deploy_env)"
  proof -
    have "plain_part ''.edge-agent-stage-1''" by code_simp
    then show ?thesis by (auto simp: creates_in_def demo_deploy_env_def)
  qed
  ultimately have "fs' (Clean (fd_Destination (demo_deployment ''/data/./a''))) = Some (fd_Content (demo_deployment ''/data/./a''), deploy_mode (demo_deployment ''/data/./a''))"
    using deployment_is_confined_and_atomic [OF run, THEN conjunct2, THEN conjunct2] by (simp add: none) (simp add: demo_deployment_def path)
  then have "fs' ''/data/a'' = Some (''new'', 420)" by (simp add: demo_deployment_def path deploy_mode_def)
  then show ?thesis by (simp only: run fst_conv snd_conv)
qed

end
