(* ===== verification/ComposePolicies.thy ===== *)
theory ComposePolicies
  imports GoPath
begin

text \<open>
  What a compose application may ask for, as the device checks it (\<^verbatim>\<open>agent/internal/containers/policy.go\<close>)
  and as the control plane does (\<^verbatim>\<open>cloud-infra/internal/applications/policy.go\<close>). Manifests are given
  decoded, or as the error of decoding them; the services are a map, so the first error that is found depends on the
  order it is ranged over.
\<close>

section \<open>On the device\<close>

record Policy =
  AllowPrivileged :: bool
  AllowHostNetwork :: bool
  AllowedHostPathMounts :: "string list"

record compose_service =
  co_Image :: string
  co_Managed :: bool
  co_Privileged :: bool
  co_Network :: string
  co_Volumes :: "string list"

definition volume_host :: "string \<Rightarrow> string" where
  "volume_host v = (case Cut CHR '':'' v of Some (host, _) \<Rightarrow> host | None \<Rightarrow> v)"

definition hostAllowed :: "string \<Rightarrow> string list \<Rightarrow> bool" where
  "hostAllowed path permitted \<longleftrightarrow>
     path = [] \<or> \<not> HasPrefix path ''/''
   \<or> (\<exists>p \<in> set permitted. path = p \<or> HasPrefix path (TrimRight p ''/'' @ ''/''))"

fun check_volumes :: "Policy \<Rightarrow> string \<Rightarrow> string list \<Rightarrow> go_error option" where
  "check_volumes policy name [] = None"
| "check_volumes policy name (v # vs) =
     (if Contains (volume_host v) ''/var/run/docker.sock'' then Some (ErrorString (''service '' @ name @ '' mounts Docker socket''))
      else if \<not> hostAllowed (volume_host v) (AllowedHostPathMounts policy)
      then Some (ErrorString (''service '' @ name @ '' mounts disallowed host path '' @ volume_host v))
      else check_volumes policy name vs)"

definition check_service :: "Policy \<Rightarrow> string \<times> compose_service \<Rightarrow> go_error option" where
  "check_service policy =
     (\<lambda>(name, svc).
       if \<not> co_Managed svc then Some (ErrorString (''service '' @ name @ '' is not marked platform-managed''))
       else if co_Image svc = [] then Some (ErrorString (''service '' @ name @ '' missing image''))
       else if co_Privileged svc \<and> \<not> AllowPrivileged policy then Some (ErrorString (''service '' @ name @ '' requests privileged mode''))
       else if (co_Network svc = ''host'' \<or> co_Network svc = ''container:host'') \<and> \<not> AllowHostNetwork policy
       then Some (ErrorString (''service '' @ name @ '' requests host networking''))
       else check_volumes policy name (co_Volumes svc))"

text \<open>The first error of a loop.\<close>

fun first_error :: "('a \<Rightarrow> go_error option) \<Rightarrow> 'a list \<Rightarrow> go_error option" where
  "first_error f [] = None"
| "first_error f (x # xs) = (case f x of Some err \<Rightarrow> Some err | None \<Rightarrow> first_error f xs)"

definition ValidateCompose :: "order \<Rightarrow> compose_service go_map result \<Rightarrow> Policy \<Rightarrow> go_error option" where
  "ValidateCompose ord raw policy =
     (case raw of
        Inl err \<Rightarrow> Some err
      | Inr services \<Rightarrow>
          if services = [] then Some (ErrorString ''compose app must include services'')
          else first_error (check_service policy) (range_map ord services))"

section \<open>In the control plane\<close>

record ComposeService =
  cs_Image :: string
  cs_Managed :: bool
  cs_Privileged :: bool
  cs_Network :: string
  PID :: string
  IPC :: string
  cs_Volumes :: "string list"
  cs_Devices :: "string list"
  CapAdd :: "string list"

fun check_mounts :: "string list \<Rightarrow> go_error option" where
  "check_mounts [] = None"
| "check_mounts (v # vs) =
     (if Contains (volume_host v) ''/var/run/docker.sock'' then Some (ErrorString ''docker socket mounts are rejected'')
      else if HasPrefix (volume_host v) ''/'' \<and> \<not> HasPrefix (volume_host v) ''/var/lib/soul-room/managed/''
      then Some (ErrorString ''unrestricted host mounts are rejected'')
      else check_mounts vs)"

definition check_manifest :: "bool \<Rightarrow> string \<times> ComposeService \<Rightarrow> go_error option" where
  "check_manifest allowExceptions =
     (\<lambda>(name, svc).
       if name = [] \<or> cs_Image svc = [] then Some (ErrorString ''service name and image are required'')
       else if \<not> cs_Managed svc then Some (ErrorString ''all services must be platform-managed'')
       else if allowExceptions then None
       else if cs_Privileged svc \<or> cs_Network svc = ''host'' \<or> PID svc = ''host'' \<or> IPC svc = ''host''
       then Some (ErrorString ''privileged mode and host namespaces are rejected'')
       else if cs_Devices svc \<noteq> [] \<or> CapAdd svc \<noteq> [] then Some (ErrorString ''device passthrough and added capabilities are rejected'')
       else check_mounts (cs_Volumes svc))"

definition ValidateManifest :: "order \<Rightarrow> ComposeService go_map result \<Rightarrow> bool \<Rightarrow> go_error option" where
  "ValidateManifest ord raw allowExceptions =
     (case raw of
        Inl err \<Rightarrow> Some err
      | Inr services \<Rightarrow>
          if services = [] then Some (ErrorString ''compose manifest must include services'')
          else first_error (check_manifest allowExceptions) (range_map ord services))"

section \<open>What is accepted\<close>

lemma first_error_None: "first_error f xs = None \<longleftrightarrow> (\<forall>x \<in> set xs. f x = None)"
  by (induction xs) (auto split: option.split)

lemma check_volumes_None:
  "check_volumes policy name vs = None \<longleftrightarrow>
     (\<forall>v \<in> set vs. \<not> Contains (volume_host v) ''/var/run/docker.sock'' \<and> hostAllowed (volume_host v) (AllowedHostPathMounts policy))"
  by (induction vs) auto

lemma check_mounts_None:
  "check_mounts vs = None \<longleftrightarrow>
     (\<forall>v \<in> set vs. \<not> Contains (volume_host v) ''/var/run/docker.sock''
       \<and> (HasPrefix (volume_host v) ''/'' \<longrightarrow> HasPrefix (volume_host v) ''/var/lib/soul-room/managed/''))"
  by (induction vs) auto

text \<open>Whether an application is accepted does not depend on the order of the map, and what it means.\<close>

lemma compose_accepted:
  "ValidateCompose ord (Inr services) policy = None \<longleftrightarrow>
     services \<noteq> [] \<and> (\<forall>(name, svc) \<in> set services.
        co_Managed svc \<and> co_Image svc \<noteq> [] \<and> (co_Privileged svc \<longrightarrow> AllowPrivileged policy)
        \<and> (co_Network svc \<in> {''host'', ''container:host''} \<longrightarrow> AllowHostNetwork policy)
        \<and> (\<forall>v \<in> set (co_Volumes svc). \<not> Contains (volume_host v) ''/var/run/docker.sock''
             \<and> hostAllowed (volume_host v) (AllowedHostPathMounts policy)))"
proof -
  have service: "check_service policy (name, svc) = None \<longleftrightarrow>
        co_Managed svc \<and> co_Image svc \<noteq> [] \<and> (co_Privileged svc \<longrightarrow> AllowPrivileged policy)
        \<and> (co_Network svc \<in> {''host'', ''container:host''} \<longrightarrow> AllowHostNetwork policy)
        \<and> (\<forall>v \<in> set (co_Volumes svc). \<not> Contains (volume_host v) ''/var/run/docker.sock''
             \<and> hostAllowed (volume_host v) (AllowedHostPathMounts policy))" for name svc
    unfolding check_service_def prod.case check_volumes_None [symmetric, where policy = policy and name = name] by simp blast
  show ?thesis
    unfolding ValidateCompose_def sum.case using service by (simp add: first_error_None split: prod.split) fastforce
qed

section \<open>What escapes\<close>

text \<open>
  The host path is compared as it is written, not cleaned: below an allowed directory, \<^verbatim>\<open>..\<close> leads anywhere,
  and so does a path that is not absolute.
\<close>

lemma mount_escapes_by_dots:
  assumes "p \<in> set permitted" "HasPrefix p ''/''"
  shows "hostAllowed (TrimRight p ''/'' @ ''/../'' @ q) permitted"
proof -
  have "HasPrefix (TrimRight p ''/'' @ ''/../'' @ q) (TrimRight p ''/'' @ ''/'')" by (simp add: HasPrefix_iff)
  then show ?thesis using assms(1) by (auto simp: hostAllowed_def)
qed

lemma relative_mount_is_allowed: "\<not> HasPrefix path ''/'' \<Longrightarrow> hostAllowed path permitted"
  by (simp add: hostAllowed_def)

lemma data_mount_reaches_etc: "hostAllowed ''/data/../etc'' [''/data''] \<and> Clean ''/data/../etc'' = ''/etc''"
  by code_simp

lemma managed_mount_reaches_etc:
  "check_mounts [''/var/lib/soul-room/managed/../../../../etc:/host''] = None \<and> Clean ''/var/lib/soul-room/managed/../../../../etc'' = ''/etc''"
  by code_simp

lemma managed_mount_reaches_docker:
  "check_mounts [''/var/lib/soul-room/managed/../../../run/docker.sock:/d''] = None
   \<and> Clean ''/var/lib/soul-room/managed/../../../run/docker.sock'' = ''/var/run/docker.sock''"
  by code_simp

end
