(* ===== verification/AgentScan.thy ===== *)
theory AgentScan
  imports GoStrings "HOL-Library.List_Lexorder" "HOL-Library.Char_ord"
begin

text \<open>
  The vulnerability report of a device, \<^verbatim>\<open>agent/internal/securityscan/trivy.go\<close>: the findings of the
  scanner, one by one, are collected into one entry per installed package. The scanner's output is given
  decoded. Go's \<^verbatim>\<open>sort.Slice\<close> is not stable, but it sorts the values of a map, whose order is arbitrary
  already, so a stable sort after an arbitrary order has the same results.
\<close>

section \<open>Data\<close>

record vulnerability =
  vu_ID :: string
  vu_Package :: string
  vu_InstalledVersion :: string
  vu_FixedVersion :: string
  vu_Severity :: string

record AdvisoryPackage =
  ad_Name :: string
  ad_InstalledVersion :: string
  ad_FixedVersion :: string
  HighestSeverity :: string
  Critical :: nat
  ad_High :: nat
  Medium :: nat
  ad_Low :: nat
  AdvisoryIDs :: "string list"

record scan_report =
  Scanner :: string
  ScannedAt :: go_time
  Total :: nat
  Counts :: "nat go_map"
  Packages :: "AdvisoryPackage list"

definition severityRank :: "string \<Rightarrow> int" where
  "severityRank v =
     (if v = ''CRITICAL'' then 5 else if v = ''HIGH'' then 4 else if v = ''MEDIUM'' then 3 else if v = ''LOW'' then 2 else 1)"

section \<open>Reading the findings\<close>

definition severity :: "vulnerability \<Rightarrow> string" where
  "severity v = ToUpper (vu_Severity v)"

definition package_key :: "vulnerability \<Rightarrow> string" where
  "package_key v = vu_Package v @ [CHR 0x00] @ vu_InstalledVersion v"

definition new_package :: "vulnerability \<Rightarrow> AdvisoryPackage" where
  "new_package v =
     \<lparr>ad_Name = vu_Package v, ad_InstalledVersion = vu_InstalledVersion v, ad_FixedVersion = vu_FixedVersion v,
      HighestSeverity = severity v, Critical = 0, ad_High = 0, Medium = 0, ad_Low = 0, AdvisoryIDs = []\<rparr>"

definition add_finding :: "vulnerability \<Rightarrow> AdvisoryPackage \<Rightarrow> AdvisoryPackage" where
  "add_finding v p =
     (let p = (if ad_FixedVersion p = [] then p\<lparr>ad_FixedVersion := vu_FixedVersion v\<rparr> else p);
          p = (if severityRank (HighestSeverity p) < severityRank (severity v) then p\<lparr>HighestSeverity := severity v\<rparr> else p);
          p = (if severity v = ''CRITICAL'' then p\<lparr>Critical := Critical p + 1\<rparr>
               else if severity v = ''HIGH'' then p\<lparr>ad_High := ad_High p + 1\<rparr>
               else if severity v = ''MEDIUM'' then p\<lparr>Medium := Medium p + 1\<rparr>
               else if severity v = ''LOW'' then p\<lparr>ad_Low := ad_Low p + 1\<rparr>
               else p) in
      if length (AdvisoryIDs p) < 8 \<and> vu_ID v \<noteq> [] then p\<lparr>AdvisoryIDs := AdvisoryIDs p @ [vu_ID v]\<rparr> else p)"

definition count_severity :: "nat go_map \<Rightarrow> vulnerability \<Rightarrow> nat go_map" where
  "count_severity counts v = mput (severity v) ((case mget counts (severity v) of Some n \<Rightarrow> n | None \<Rightarrow> 0) + 1) counts"

definition collect_package :: "AdvisoryPackage go_map \<Rightarrow> vulnerability \<Rightarrow> AdvisoryPackage go_map" where
  "collect_package byPackage v =
     (let p = (case mget byPackage (package_key v) of Some p \<Rightarrow> p | None \<Rightarrow> new_package v) in
      mput (package_key v) (add_finding v p) byPackage)"

definition report_key :: "AdvisoryPackage \<Rightarrow> int \<times> string" where
  "report_key p = (- severityRank (HighestSeverity p), ad_Name p)"

text \<open>\<open>decoded\<close> is the findings of each result of the scanner, or \<open>None\<close> for output that is not valid JSON.\<close>

definition Parse :: "order \<Rightarrow> go_time \<Rightarrow> vulnerability list list option \<Rightarrow> scan_report result" where
  "Parse ord t decoded =
     (case decoded of
        None \<Rightarrow> Inl (ErrorString ''Trivy returned an invalid JSON report'')
      | Some results \<Rightarrow>
          (let found = concat results;
               byPackage = foldl collect_package [] found in
           Inr \<lparr>Scanner = ''trivy'', ScannedAt = t, Total = length found, Counts = foldl count_severity [] found,
                Packages = take 500 (sort_key report_key (range_values ord byPackage))\<rparr>))"

text \<open>The scan: whether the scanner is installed, and its output or the error of running it.\<close>

definition Scan :: "bool \<Rightarrow> string result \<Rightarrow> (string \<Rightarrow> vulnerability list list option) \<Rightarrow> order \<Rightarrow> go_time \<Rightarrow> scan_report result" where
  "Scan installed output decode ord t =
     (if \<not> installed then Inl (ErrorString ''Trivy is not installed on this device'')
      else case output of
        Inl err \<Rightarrow> Inl (ErrorString (''Trivy scan failed: '' @ Error err))
      | Inr text \<Rightarrow> Parse ord t (decode text))"

section \<open>What a report says\<close>

text \<open>The entry of a package as it should be: read off the list of its findings.\<close>

definition first_text :: "string list \<Rightarrow> string" where
  "first_text xs = (case filter (\<lambda>x. x \<noteq> []) xs of [] \<Rightarrow> [] | x # _ \<Rightarrow> x)"

definition summarizes :: "vulnerability list \<Rightarrow> AdvisoryPackage \<Rightarrow> bool" where
  "summarizes vs p \<longleftrightarrow>
     ad_Name p = vu_Package (hd vs) \<and> ad_InstalledVersion p = vu_InstalledVersion (hd vs)
   \<and> ad_FixedVersion p = first_text (map vu_FixedVersion vs)
   \<and> HighestSeverity p \<in> severity ` set vs \<and> (\<forall>v \<in> set vs. severityRank (severity v) \<le> severityRank (HighestSeverity p))
   \<and> Critical p = length (filter (\<lambda>v. severity v = ''CRITICAL'') vs) \<and> ad_High p = length (filter (\<lambda>v. severity v = ''HIGH'') vs)
   \<and> Medium p = length (filter (\<lambda>v. severity v = ''MEDIUM'') vs) \<and> ad_Low p = length (filter (\<lambda>v. severity v = ''LOW'') vs)
   \<and> AdvisoryIDs p = take 8 (filter (\<lambda>i. i \<noteq> []) (map vu_ID vs))"

lemma add_finding_sel:
  "ad_Name (add_finding v p) = ad_Name p" "ad_InstalledVersion (add_finding v p) = ad_InstalledVersion p"
  "ad_FixedVersion (add_finding v p) = (if ad_FixedVersion p = [] then vu_FixedVersion v else ad_FixedVersion p)"
  "HighestSeverity (add_finding v p) = (if severityRank (HighestSeverity p) < severityRank (severity v) then severity v else HighestSeverity p)"
  "Critical (add_finding v p) = Critical p + (if severity v = ''CRITICAL'' then 1 else 0)"
  "ad_High (add_finding v p) = ad_High p + (if severity v = ''HIGH'' then 1 else 0)"
  "Medium (add_finding v p) = Medium p + (if severity v = ''MEDIUM'' then 1 else 0)"
  "ad_Low (add_finding v p) = ad_Low p + (if severity v = ''LOW'' then 1 else 0)"
  "AdvisoryIDs (add_finding v p) = (if length (AdvisoryIDs p) < 8 \<and> vu_ID v \<noteq> [] then AdvisoryIDs p @ [vu_ID v] else AdvisoryIDs p)"
  by (simp_all add: add_finding_def Let_def)

lemma first_text_snoc: "first_text (xs @ [x]) = (if first_text xs = [] then x else first_text xs)"
  by (auto simp: first_text_def filter_eq_Cons_iff split: list.splits)

lemma take_snoc_if: "take n xs @ (if length (take n xs) < n then [x] else []) = take n (xs @ [x])"
  by (cases "length xs < n") auto

lemma summarizes_add:
  assumes "summarizes vs p" "vs \<noteq> []"
  shows "summarizes (vs @ [v]) (add_finding v p)"
proof -
  have "AdvisoryIDs (add_finding v p) = take 8 (filter (\<lambda>i. i \<noteq> []) (map vu_ID (vs @ [v])))"
    using assms(1) take_snoc_if [of 8 "filter (\<lambda>i. i \<noteq> []) (map vu_ID vs)" "vu_ID v"]
    by (simp add: summarizes_def add_finding_sel) fastforce
  moreover have "severityRank (severity w) \<le> severityRank (HighestSeverity (add_finding v p))" if "w \<in> set (vs @ [v])" for w
    using assms(1) that by (force simp: summarizes_def add_finding_sel)
  ultimately show ?thesis
    using assms by (simp add: summarizes_def add_finding_sel first_text_snoc)
qed

lemma summarizes_first: "summarizes [v] (add_finding v (new_package v))"
  by (simp add: summarizes_def add_finding_sel new_package_def first_text_def)

lemma mget_collect:
  "mget (collect_package m v) k = (if k = package_key v then Some (add_finding v (case mget m k of Some p \<Rightarrow> p | None \<Rightarrow> new_package v)) else mget m k)"
  by (auto simp: collect_package_def)

text \<open>The map holds one entry for each package that was found.\<close>

lemma collected:
  "(case mget (foldl collect_package [] vs) k of
      None \<Rightarrow> k \<notin> package_key ` set vs
    | Some p \<Rightarrow> k \<in> package_key ` set vs \<and> summarizes (filter (\<lambda>v. package_key v = k) vs) p)"
proof (induction vs rule: rev_induct)
  case (snoc v vs)
  show ?case
  proof (cases "package_key v = k")
    case True
    let ?vs = "filter (\<lambda>v. package_key v = k) vs"
    show ?thesis
    proof (cases "mget (foldl collect_package [] vs) k")
      case None
      then have "?vs = []" using snoc by (auto simp: filter_empty_conv)
      then show ?thesis using True None by (simp add: mget_collect summarizes_first)
    next
      case (Some p)
      then have p: "summarizes ?vs p" "?vs \<noteq> []" using snoc by (auto simp: filter_empty_conv)
      then show ?thesis using True Some summarizes_add [OF p] by (simp add: mget_collect)
    qed
  next
    case False
    then show ?thesis using snoc by (auto simp: mget_collect split: option.splits)
  qed
qed simp

lemma wf_collected: "wf_map (foldl collect_package [] vs)"
  by (induction vs rule: rev_induct) (simp_all add: collect_package_def Let_def)

lemma counted: "(case mget (foldl count_severity [] vs) s of Some n \<Rightarrow> n | None \<Rightarrow> 0) = length (filter (\<lambda>v. severity v = s) vs)"
  by (induction vs rule: rev_induct) (auto simp: count_severity_def split: option.splits)

lemma insort_key_map: "insort_key f (g x) (map g xs) = map g (insort_key (\<lambda>x. f (g x)) x xs)"
  by (induction xs) simp_all

lemma sort_key_map: "sort_key f (map g xs) = map g (sort_key (\<lambda>x. f (g x)) xs)"
  by (induction xs) (simp_all add: insort_key_map)

text \<open>C39: A scan report says what the scanner found: the total and the count of each severity are those of the findings,
  and there is exactly one entry for each installed package with findings, which summarises all its findings, the most
  severe packages first; only entries behind the first 500 are left out.\<close>

theorem scan_report_is_faithful:
  "\<exists>report entries keys. Parse ord t (Some results) = Inr report
    \<and> Total report = length (concat results)
    \<and> (\<forall>s. (case mget (Counts report) s of Some n \<Rightarrow> n | None \<Rightarrow> 0) = length (filter (\<lambda>v. severity v = s) (concat results)))
    \<and> distinct keys \<and> set keys = package_key ` set (concat results)
    \<and> list_all2 (\<lambda>k p. summarizes (filter (\<lambda>v. package_key v = k) (concat results)) p) keys entries
    \<and> sorted (map report_key entries) \<and> Packages report = take 500 entries"
proof -
  let ?vs = "concat results"
  let ?m = "foldl collect_package [] ?vs"
  let ?es = "sort_key (\<lambda>e. report_key (snd e)) (range_map ord ?m)"
  have set: "set ?es = set ?m" by simp
  have keys: "set (map fst ?es) = package_key ` set ?vs"
  proof -
    have "k \<in> fst ` set ?m \<longleftrightarrow> k \<in> package_key ` set ?vs" for k
    proof -
      have "k \<in> fst ` set ?m \<longleftrightarrow> (\<exists>p. mget ?m k = Some p)" by (force simp: mget_iff_set [OF wf_collected])
      then show ?thesis using collected [where vs = ?vs and k = k] by (auto split: option.splits)
    qed
    then have "fst ` set ?m = package_key ` set ?vs" by (rule set_eqI)
    then show ?thesis using set by simp
  qed
  have "summarizes (filter (\<lambda>v. package_key v = k) ?vs) p" if "(k, p) \<in> set ?es" for k p
    using collected [where vs = ?vs and k = k] that set by (simp add: mget_iff_set [OF wf_collected, symmetric])
  then have all: "list_all2 (\<lambda>k p. summarizes (filter (\<lambda>v. package_key v = k) ?vs) p) (map fst ?es) (map snd ?es)"
    unfolding list_all2_map1 list_all2_map2 by (intro list.rel_refl_strong) (metis prod.collapse)
  have "distinct (map fst ?es)"
    using wf_range_map [OF wf_collected [of ?vs], of ord] by (simp add: wf_map_def distinct_map)
  moreover have "sorted (map report_key (map snd ?es))" by (simp add: comp_def)
  moreover obtain report where "Parse ord t (Some results) = Inr report" "Total report = length ?vs"
    "Counts report = foldl count_severity [] ?vs" "Packages report = take 500 (map snd ?es)"
    by (simp add: Parse_def range_values_def sort_key_map Let_def)
  ultimately show ?thesis using keys all by (metis counted)
qed

end
