(* ===== verification/AgentLoop.thy ===== *)
theory AgentLoop
  imports AgentFlush AgentTransport AgentConfig
begin

text \<open>
  The loop of the agent, \<^verbatim>\<open>agent/internal/agent/agent.go\<close>, with the location and the heartbeat it
  reports, \<^verbatim>\<open>agent/internal/location/location.go\<close> and \<^verbatim>\<open>agent/internal/heartbeat/heartbeat.go\<close>.
  Everything outside the agent is a function on the state \<open>'w\<close> of the world.
\<close>

section \<open>Where the device is\<close>

record agent_location =
  al_Latitude :: u64
  al_Longitude :: u64
  al_AccuracyM :: u64
  al_Source :: string
  al_Label :: string

record ip_answer =
  ip_StatusCode :: int
  Success :: "bool option"
  ip_Latitude :: u64
  ip_Longitude :: u64
  City :: string
  Region :: string
  Country :: string

record gpsd_report =
  Class :: string
  gp_Mode :: int
  Lat :: u64
  Lon :: u64
  EPH :: u64

text \<open>
  The answer to the request for the approximate location, with its body decoded (\<open>None\<close> when it is not the
  JSON expected, or when the request fails), and the lines the GPS daemon sends until the deadline, each
  decoded (\<open>None\<close> when it cannot be reached).
\<close>

record 'w location_world =
  ask_ip :: "string \<Rightarrow> 'w \<Rightarrow> ip_answer option \<times> 'w"
  ask_gpsd :: "string \<Rightarrow> 'w \<Rightarrow> gpsd_report option list option \<times> 'w"

definition f64_is_zero :: "u64 \<Rightarrow> bool" where
  "f64_is_zero x \<longleftrightarrow> f64_magnitude x = 0"

definition valid_position :: "u64 \<Rightarrow> u64 \<Rightarrow> bool" where
  "valid_position latitude longitude \<longleftrightarrow>
     f64_le (f64_neg f64_90) latitude \<and> f64_le latitude f64_90
   \<and> f64_le (f64_neg f64_180) longitude \<and> f64_le longitude f64_180
   \<and> (\<not> f64_is_zero latitude \<or> \<not> f64_is_zero longitude)"

definition ip_label :: "string \<Rightarrow> ip_answer \<Rightarrow> string" where
  "ip_label configured r =
     (let label = TrimSpace configured;
          named = Join (filter (\<lambda>part. part \<noteq> []) (map TrimSpace [City r, Region r, Country r])) '', '' in
      if label \<noteq> [] then label else if named \<noteq> [] then named @ '' (network approximate)'' else [])"

definition fromIP :: "'w location_world \<Rightarrow> string \<Rightarrow> string \<Rightarrow> 'w \<Rightarrow> agent_location option \<times> 'w" where
  "fromIP lw endpoint label w =
     (let (answer, w) = ask_ip lw endpoint w in
      (case answer of
         None \<Rightarrow> None
       | Some r \<Rightarrow>
           if ip_StatusCode r \<noteq> 200 \<or> Success r = Some False \<or> \<not> valid_position (ip_Latitude r) (ip_Longitude r) then None
           else Some \<lparr>al_Latitude = ip_Latitude r, al_Longitude = ip_Longitude r, al_AccuracyM = 0, al_Source = ''ip'',
                      al_Label = ip_label label r\<rparr>, w))"

fun first_fix :: "gpsd_report option list \<Rightarrow> agent_location option" where
  "first_fix [] = None"
| "first_fix (line # lines) =
     (case line of
        Some r \<Rightarrow>
          (if Class r = ''TPV'' \<and> 2 \<le> gp_Mode r
           then Some \<lparr>al_Latitude = Lat r, al_Longitude = Lon r, al_AccuracyM = EPH r, al_Source = ''gpsd'', al_Label = []\<rparr>
           else first_fix lines)
      | None \<Rightarrow> first_fix lines)"

definition fromGPSD :: "'w location_world \<Rightarrow> string \<Rightarrow> 'w \<Rightarrow> agent_location option \<times> 'w" where
  "fromGPSD lw address w =
     (let (lines, w) = ask_gpsd lw address w in (case lines of None \<Rightarrow> None | Some ls \<Rightarrow> first_fix ls, w))"

definition location_Collect :: "'w location_world \<Rightarrow> LocationConfig \<Rightarrow> 'w \<Rightarrow> agent_location option \<times> 'w" where
  "location_Collect lw c w =
     (if lc_Source c = ''static'' then
        (Some \<lparr>al_Latitude = lc_Latitude c, al_Longitude = lc_Longitude c, al_AccuracyM = 0, al_Source = ''static'', al_Label = lc_Label c\<rparr>, w)
      else if lc_Source c = ''gpsd'' then
        (let (found, w) = fromGPSD lw (GPSDAddress c) w in (map_option (\<lambda>l. l\<lparr>al_Label := lc_Label c\<rparr>) found, w))
      else if lc_Source c = ''ip'' then fromIP lw (IPURL c) (lc_Label c) w
      else (None, w))"

section \<open>The heartbeat\<close>

record agent_heartbeat =
  ah_AgentVersion :: string
  ah_Health :: string
  ah_UptimeSeconds :: int
  ah_Location :: "agent_location option"

definition agent_version :: string where "agent_version = ''0.1.0''"

definition heartbeat_Collect :: "string \<Rightarrow> int \<Rightarrow> agent_location option \<Rightarrow> agent_heartbeat" where
  "heartbeat_Collect version uptime location =
     \<lparr>ah_AgentVersion = version, ah_Health = ''healthy'', ah_UptimeSeconds = uptime, ah_Location = location\<rparr>"

section \<open>A tick\<close>

text \<open>
  What the agent has and what it calls: the network and the client, the clock and files of its queue, the
  job registry, the seconds it has been up, and the telemetry and inventory it collects, as they are
  encoded. \<open>'j\<close> is the part of the world the job handlers work on.
\<close>

record ('w, 'j) agent_world =
  lw_config :: agent_config
  lw_net :: "'w network"
  lw_client :: client
  lw_codec :: job_codec
  lw_jobs :: "'j job_world"
  lw_env :: "'w \<Rightarrow> queue_env \<times> 'w"
  lw_stamp :: "go_time \<Rightarrow> string"
  lw_location :: "'w location_world"
  lw_uptime :: "'w \<Rightarrow> int \<times> 'w"
  lw_encode :: "agent_heartbeat \<Rightarrow> string result"
  lw_telemetry :: "'w \<Rightarrow> string result \<times> 'w"
  lw_inventory :: "'w \<Rightarrow> string result \<times> 'w"

record agent =
  ag_Store :: Store
  ag_sequence :: u64
  ag_location :: "agent_location option"
  ag_jobs :: jobs_file

text \<open>The client as the queue sees it: its sequence number is part of the state.\<close>

definition agent_link :: "('w, 'j) agent_world \<Rightarrow> ('w \<times> u64) link" where
  "agent_link aw =
     \<lparr>next_env = (\<lambda>(w, sq). let (env, w) = lw_env aw w in (env, w, sq)),
      PostEnvelope = (\<lambda>endpoint schema raw (w, sq).
        let (r, sq, w) = Client_PostEnvelope (lw_net aw) (lw_client aw) endpoint schema (Inr raw) sq w in
        (case r of Inl err \<Rightarrow> Some err | Inr body \<Rightarrow> None, w, sq))\<rparr>"

text \<open>Encoding an item and putting it into the queue.\<close>

definition agent_enqueue ::
  "('w, 'j) agent_world \<Rightarrow> string \<Rightarrow> Priority \<Rightarrow> string result \<Rightarrow> Store \<Rightarrow> 'w \<Rightarrow> go_error option \<times> Store \<times> 'w" where
  "agent_enqueue aw kind priority raw s w =
     (case raw of
        Inl err \<Rightarrow> (Some err, s, w)
      | Inr text \<Rightarrow> (let (env, w) = lw_env aw w; (err, s) = enqueue (lw_stamp aw) env kind priority text s in (err, s, w)))"

text \<open>Posting a report, and queueing it when that fails; the error of queueing it is ignored.\<close>

definition report ::
  "('w, 'j) agent_world \<Rightarrow> string \<Rightarrow> Priority \<Rightarrow> string result \<Rightarrow> agent \<Rightarrow> 'w \<Rightarrow> agent \<times> 'w" where
  "report aw kind priority raw a w =
     (let (r, sq, w) = Client_PostEnvelope (lw_net aw) (lw_client aw) (endpoint_for kind) (kind @ ''.v1'') raw (ag_sequence a) w;
          a = a\<lparr>ag_sequence := sq\<rparr> in
      case r of
        Inr body \<Rightarrow> (a, w)
      | Inl err \<Rightarrow> (let (e, s, w) = agent_enqueue aw kind priority raw (ag_Store a) w in (a\<lparr>ag_Store := s\<rparr>, w)))"

definition locate :: "('w, 'j) agent_world \<Rightarrow> agent \<Rightarrow> 'w \<Rightarrow> agent_location option \<times> agent \<times> 'w" where
  "locate aw a w =
     (let c = ac_Location (lw_config aw) in
      if lc_Source c \<noteq> ''ip'' \<or> ag_location a = None then
        (let (found, w) = location_Collect (lw_location aw) c w in
         (found, if lc_Source c = ''ip'' \<and> found \<noteq> None then a\<lparr>ag_location := found\<rparr> else a, w))
      else (ag_location a, a, w))"

definition tick :: "('w, 'j) agent_world \<Rightarrow> agent \<Rightarrow> 'w \<Rightarrow> 'j \<Rightarrow> go_error option \<times> agent \<times> 'w \<times> 'j" where
  "tick aw a w j =
     (let (sent, flushErr, s, w, sq) = flush (agent_link aw) (ag_Store a) (w, ag_sequence a);
          a = a\<lparr>ag_Store := s, ag_sequence := sq\<rparr>;
          (location, a, w) = locate aw a w;
          (uptime, w) = lw_uptime aw w;
          hb = lw_encode aw (heartbeat_Collect agent_version uptime location);
          (r, sq, w) = Client_PostEnvelope (lw_net aw) (lw_client aw) ''/v1/heartbeat'' ''heartbeat.v1'' hb (ag_sequence a) w;
          a = a\<lparr>ag_sequence := sq\<rparr> in
      case r of
        Inl err \<Rightarrow>
          (let (err, s, w) = agent_enqueue aw ''heartbeat'' High hb (ag_Store a) w in (err, a\<lparr>ag_Store := s\<rparr>, w, j))
      | Inr body \<Rightarrow>
          (let (batch, w) = lw_telemetry aw w; (a, w) = report aw ''telemetry'' Low batch a w;
               (inv, w) = lw_inventory aw w; (a, w) = report aw ''inventory'' Normal inv a w;
               (jobErr, w, f, j) = processNextJob (lw_net aw) (lw_client aw) (lw_codec aw) (lw_jobs aw) w (ag_jobs a) j in
           (None, a\<lparr>ag_jobs := f\<rparr>, w, j)))"

text \<open>
  The loop: the first tick must succeed, the errors of later ones are only logged. \<open>ticks\<close> is how often the timer fires before
  the context ends with the error \<open>ended\<close>.
\<close>

fun ticks_of :: "('w, 'j) agent_world \<Rightarrow> nat \<Rightarrow> agent \<Rightarrow> 'w \<Rightarrow> 'j \<Rightarrow> agent \<times> 'w \<times> 'j" where
  "ticks_of aw 0 a w j = (a, w, j)"
| "ticks_of aw (Suc n) a w j = (let (err, a, w, j) = tick aw a w j in ticks_of aw n a w j)"

definition agent_Run ::
  "('w, 'j) agent_world \<Rightarrow> bool \<Rightarrow> nat \<Rightarrow> go_error \<Rightarrow> agent \<Rightarrow> 'w \<Rightarrow> 'j \<Rightarrow> go_error option \<times> agent \<times> 'w \<times> 'j" where
  "agent_Run aw once ticks ended a w j =
     (let (err, a, w, j) = tick aw a w j in
      case err of
        Some e \<Rightarrow> (Some e, a, w, j)
      | None \<Rightarrow> if once then (None, a, w, j) else (Some ended, ticks_of aw ticks a w j))"

section \<open>Without a connection\<close>

text \<open>No request is answered with success, and the clock and the files of the queue are good.\<close>

definition unreachable :: "'w network \<Rightarrow> bool" where
  "unreachable net \<longleftrightarrow> (\<forall>req w. \<exists>err. attempt_result (fst (send net req w)) = Inl err)"

lemma attempts_unreachable:
  "unreachable net \<Longrightarrow> 0 < n \<Longrightarrow> \<exists>err w'. attempts net req k n prev w = (Inl err, w')"
proof (induction n arbitrary: k prev w)
  case (Suc n)
  obtain r w1 where r: "send net req w = (r, w1)" by fastforce
  obtain e where e: "attempt_result r = Inl e" using Suc.prems(1) r by (metis fst_conv unreachable_def)
  obtain d w2 where d: "jitter net w1 = (d, w2)" by fastforce
  obtain c w3 where c: "sleep net (backoff k d) w2 = (c, w3)" by fastforce
  show ?case using Suc r e d c by (cases n; cases c) auto
qed simp

lemma PostEnvelope_unreachable:
  assumes "unreachable net"
  shows "\<exists>err w'. Client_PostEnvelope net cl path schema raw sq w = (Inl err, sq + 1, w')"
proof -
  obtain t r w1 where st: "stamp_of net w = ((t, r), w1)" by (metis surj_pair)
  show ?thesis
  proof (cases "NewEnvelope (cl_sha cl) t r (cl_TenantID cl) (cl_DeviceID cl) schema (sq + 1) raw")
    case (Inl e)
    then show ?thesis using st by (simp add: Client_PostEnvelope_def)
  next
    case (Inr e)
    let ?req = "\<lparr>wr_Method = ''POST'', wr_Path = path, wr_TenantID = [], wr_DeviceID = [], wr_Body = encode_envelope cl e\<rparr>"
    have "0 < max_attempts" by (simp add: max_attempts_def)
    from attempts_unreachable [OF assms this, of ?req 0 "Inr []" w1]
    obtain err w' where "attempts net ?req 0 max_attempts (Inr []) w1 = (Inl err, w')" by blast
    then show ?thesis using st Inr by (simp add: Client_PostEnvelope_def Let_def)
  qed
qed

text \<open>A flush that delivers nothing leaves what is queued, and the room there was.\<close>

lemma send_items_unreachable:
  assumes "\<And>endpoint schema raw w. fst (PostEnvelope l endpoint schema raw w) \<noteq> None"
  shows "send_items enq l its s w = (sent, err, s', w') \<Longrightarrow> sent = []"
proof (cases its)
  case (Cons it rest)
  assume run: "send_items enq l its s w = (sent, err, s', w')"
  obtain e w1 where e: "PostEnvelope l (endpoint_for (qi_Kind it)) (qi_Kind it @ ''.v1'') (qi_Payload it) w = (Some e, w1)"
    using assms by (metis not_None_eq prod.collapse)
  show ?thesis using run by (simp add: Cons e del: requeue.simps split: prod.splits)
qed simp

lemma agent_link_unreachable:
  assumes "unreachable (lw_net aw)"
  shows "fst (PostEnvelope (agent_link aw) endpoint schema raw wq) \<noteq> None"
proof (cases wq)
  case (Pair w sq)
  obtain err w' where "Client_PostEnvelope (lw_net aw) (lw_client aw) endpoint schema (Inr raw) sq w = (Inl err, sq + 1, w')"
    using PostEnvelope_unreachable [OF assms] by blast
  then show ?thesis using Pair by (simp add: agent_link_def)
qed

lemma flush_unreachable:
  assumes net: "unreachable (lw_net aw)" and good: "\<And>w. good_env horizon len (fst (lw_env aw w))"
    and room: "store_room horizon len s rest" and run: "flush (agent_link aw) s (w, sq) = (sent, err, s', w', sq')"
  shows "mset (queue_items s') = mset (queue_items s) \<and> store_room horizon len s' rest"
proof -
  have "good_env horizon len (fst (next_env (agent_link aw) wq))" for wq
    using good by (cases wq) (simp add: agent_link_def split: prod.split, metis fst_conv)
  from store_queue.flush_conserves [OF this room run [unfolded flush_def]]
  have keep: "mset (queue_items s) = mset sent + mset (queue_items s')" "store_room horizon len s' rest" by auto
  have "sent = []"
  proof -
    obtain env w1 where env: "next_env (agent_link aw) (w, sq) = (env, w1)" by (metis prod.collapse)
    obtain items e s1 where deq: "Dequeue env 16 s = ((items, e), s1)" by (metis prod.collapse)
    show ?thesis
    proof (cases e)
      case None
      then have "send_items Enqueue (agent_link aw) items s1 w1 = (sent, err, s', w', sq')"
        using run env deq by (simp add: flush_def flush_with_def)
      then show ?thesis by (rule send_items_unreachable [OF agent_link_unreachable [OF net]])
    qed (use run env deq in \<open>simp add: flush_def flush_with_def\<close>)
  qed
  then show ?thesis using keep by simp
qed

text \<open>The heartbeat as it is queued at the time \<open>t\<close>, and the room for it.\<close>

definition beat :: "('w, 'j) agent_world \<Rightarrow> go_time \<Rightarrow> string \<Rightarrow> QueueItem" where
  "beat aw t text = \<lparr>qi_ID = ''heartbeat-'' @ lw_stamp aw t, qi_Kind = ''heartbeat'', qi_Priority = High, qi_CreatedAt = t,
     qi_Payload = text, qi_ApproxBytes = int (length text) + 256\<rparr>"

definition room_for_beat :: "('w, 'j) agent_world \<Rightarrow> go_time \<Rightarrow> (QueueItem \<Rightarrow> int) \<Rightarrow> Store \<Rightarrow> bool" where
  "room_for_beat aw horizon len s \<longleftrightarrow>
     (\<forall>hb text t. lw_encode aw hb = Inr text \<longrightarrow> \<not> IsZero t \<longrightarrow> store_room horizon len s [beat aw t text])"

lemma enqueue_beat:
  "\<not> IsZero (q_now env) \<Longrightarrow> enqueue (lw_stamp aw) env ''heartbeat'' High text s = Enqueue env (beat aw (q_now env) text) s"
  by (simp add: enqueue_def Enqueue_def beat_def IsZero_def zero_time_def Let_def)

text \<open>C13: An agent without a connection loses nothing and runs nothing. A tick during which no request is answered with
  success keeps every queued report and queues its own heartbeat beside them, runs no job and leaves the job states
  as they were; it ends with an error only if the heartbeat cannot be encoded, and then the queue is unchanged.
  (The clock is good, the queue can be read and written and has room for the heartbeat.)\<close>

theorem offline_tick_loses_nothing:
  assumes net: "unreachable (lw_net aw)"
    and good: "\<And>w. good_env horizon len (fst (lw_env aw w)) \<and> \<not> IsZero (q_now (fst (lw_env aw w)))"
    and room: "store_room horizon len (ag_Store a) []" "room_for_beat aw horizon len (ag_Store a)"
    and run: "tick aw a w j = (err, a', w', j')"
  shows "ag_jobs a' = ag_jobs a \<and> j' = j
    \<and> (\<exists>uptime location. case lw_encode aw (heartbeat_Collect agent_version uptime location) of
          Inl e \<Rightarrow> err = Some e \<and> mset (queue_items (ag_Store a')) = mset (queue_items (ag_Store a))
        | Inr text \<Rightarrow> err = None \<and> (\<exists>t. mset (queue_items (ag_Store a')) = add_mset (beat aw t text) (mset (queue_items (ag_Store a)))))"
proof -
  obtain sent fe s1 w1 sq1 where fl: "flush (agent_link aw) (ag_Store a) (w, ag_sequence a) = (sent, fe, s1, w1, sq1)" by (metis prod.collapse)
  have kept: "mset (queue_items s1) = mset (queue_items (ag_Store a))"
    and room1: "room_for_beat aw horizon len s1"
    using flush_unreachable [OF net _ _ fl] good room by (auto simp: room_for_beat_def)
  obtain location a2 w2 where lo: "locate aw (a\<lparr>ag_Store := s1, ag_sequence := sq1\<rparr>) w1 = (location, a2, w2)" by (metis prod.collapse)
  have a2: "ag_Store a2 = s1" "ag_jobs a2 = ag_jobs a"
    using lo by (auto simp: locate_def Let_def split: if_splits prod.splits)
  obtain uptime w3 where up: "lw_uptime aw w2 = (uptime, w3)" by fastforce
  define hb where "hb = heartbeat_Collect agent_version uptime location"
  obtain e w4 where post: "Client_PostEnvelope (lw_net aw) (lw_client aw) ''/v1/heartbeat'' ''heartbeat.v1'' (lw_encode aw hb) (ag_sequence a2) w3
      = (Inl e, ag_sequence a2 + 1, w4)"
    using PostEnvelope_unreachable [OF net] by blast
  obtain e2 s3 w5 where enq: "agent_enqueue aw ''heartbeat'' High (lw_encode aw hb) s1 w4 = (e2, s3, w5)" by (metis prod.collapse)
  have out: "err = e2" "a' = a2\<lparr>ag_sequence := ag_sequence a2 + 1, ag_Store := s3\<rparr>" "j' = j"
    using run fl lo up post enq a2(1) by (simp_all add: tick_def hb_def Let_def)
  show ?thesis
  proof (cases "lw_encode aw hb")
    case (Inl x)
    then have "e2 = Some x" "s3 = s1" using enq by (simp_all add: agent_enqueue_def)
    then show ?thesis using out a2 kept Inl unfolding hb_def by (intro conjI exI [of _ uptime] exI [of _ location]) simp_all
  next
    case (Inr raw)
    obtain env w6 where env: "lw_env aw w4 = (env, w6)" by fastforce
    have ge: "good_env horizon len env" "\<not> IsZero (q_now env)" using good [of w4] env by simp_all
    have "store_room horizon len s1 [beat aw (q_now env) raw]" using room1 Inr ge(2) unfolding room_for_beat_def by blast
    from Enqueue_room [OF ge(1) this] obtain s4 where
      s4: "Enqueue env (beat aw (q_now env) raw) s1 = (None, s4)" "mset (queue_items s4) = add_mset (beat aw (q_now env) raw) (mset (queue_items s1))"
      by blast
    then have "e2 = None" "s3 = s4" using enq env Inr enqueue_beat [OF ge(2), of aw raw s1] by (simp_all add: agent_enqueue_def)
    then show ?thesis using out a2 kept Inr s4(2) unfolding hb_def by (intro conjI exI [of _ uptime] exI [of _ location]) auto
  qed
qed

section \<open>Witness\<close>

definition demo_codec0 :: job_codec where
  "demo_codec0 = \<lparr>decode_job = (\<lambda>s. Inr None), encode_result = (\<lambda>k r. [])\<rparr>"

definition demo_loop :: "(unit, nat) agent_world" where
  "demo_loop = \<lparr>lw_config = Default, lw_net = demo_net, lw_client = demo_client, lw_codec = demo_codec0,
     lw_jobs = demo_jobs,
     lw_env = (\<lambda>w. (demo_env, w)), lw_stamp = (\<lambda>t. itoa t), lw_location = \<lparr>ask_ip = (\<lambda>u w. (None, w)), ask_gpsd = (\<lambda>a w. (None, w))\<rparr>,
     lw_uptime = (\<lambda>w. (7, w)), lw_encode = (\<lambda>hb. Inr ''hb''), lw_telemetry = (\<lambda>w. (Inr [], w)), lw_inventory = (\<lambda>w. (Inr [], w))\<rparr>"

definition demo_agent :: agent where
  "demo_agent = \<lparr>ag_Store = demo_store [demo_item ''a'' Low 10], ag_sequence = 0, ag_location = None, ag_jobs = None\<rparr>"

theorem offline_tick_loses_nothing_witness:
  "\<exists>t. mset (queue_items (ag_Store (fst (snd (tick demo_loop demo_agent () 0))))) = {#beat demo_loop t ''hb'', demo_item ''a'' Low 10#}"
proof -
  obtain err a' w' j' where run: "tick demo_loop demo_agent () 0 = (err, a', w', j')" by (metis prod.collapse)
  have net: "unreachable (lw_net demo_loop)"
    by (simp add: unreachable_def demo_loop_def demo_net_def attempt_result_def accepted_def)
  have good: "good_env 1000 (\<lambda>it. 80) (fst (lw_env demo_loop w)) \<and> \<not> IsZero (q_now (fst (lw_env demo_loop w)))" for w
    by (simp add: good_env_def demo_loop_def demo_env_def IsZero_def zero_time_def)
  have items: "queue_items (demo_store its) = its" for its
    by (simp add: demo_store_def queue_items_def List.map_filter_def comp_def)
  have sel: "maxBytes (demo_store its) = 600" "maxAge (demo_store its) = 0" "queue_file (demo_store its) = Some (map Item its)" for its
    by (simp_all add: demo_store_def)
  have room: "store_room 1000 (\<lambda>it. 80) (ag_Store demo_agent) []" "room_for_beat demo_loop 1000 (\<lambda>it. 80) (ag_Store demo_agent)"
    unfolding room_for_beat_def
    by (auto simp: demo_agent_def store_room_def items demo_item_def normal_item_def IsZero_def zero_time_def expired_def
        max_token_def beat_def demo_loop_def sel total_bytes_def)
  have "lw_encode demo_loop hb = Inr ''hb''" for hb by (simp add: demo_loop_def)
  moreover have "queue_items (ag_Store demo_agent) = [demo_item ''a'' Low 10]" by (simp add: demo_agent_def items)
  ultimately show ?thesis
    using offline_tick_loses_nothing [OF net good room run] by (simp add: run)
qed

end
