(* ===== verification/AgentInventory.thy ===== *)
theory AgentInventory
  imports AgentOTA
begin

text \<open>
  What a device reports about itself, \<^verbatim>\<open>agent/internal/inventory/inventory.go\<close>: the parsers of the
  system's files and of the outputs of the package managers, and the fallbacks between them. Files are read
  and commands run by functions of the parameter \<open>host\<close>.
\<close>

section \<open>Data\<close>

record InstalledPackage =
  ip_Name :: string
  ip_Version :: string
  ip_Architecture :: string
  ip_Source :: string

record agent_inventory =
  in_DeviceID :: string
  in_Hostname :: string
  in_Architecture :: string
  in_OS :: string
  OSID :: string
  OSVersion :: string
  OSBuild :: string
  in_Kernel :: string
  OSRelease :: "string go_map"
  in_HardwareModel :: string
  in_Serial :: string
  CPUModel :: string
  CPUCores :: int
  MemoryTotalBytes :: u64
  StorageTotalBytes :: u64
  in_AgentVersion :: string
  in_Capabilities :: "string list"
  in_InstalledPackages :: "InstalledPackage list"

text \<open>
  A file that cannot be read is \<open>None\<close>, as is a command that fails; \<open>LookPath\<close> says whether a
  command is installed. \<open>Statfs\<close> is the number of blocks and their size.
\<close>

record host =
  ReadFile :: "string \<Rightarrow> string option"
  LookPath :: "string \<Rightarrow> bool"
  Command :: "string \<Rightarrow> string list \<Rightarrow> string option"
  Hostname_of :: string
  GOARCH :: string
  GOOS :: string
  NumCPU :: int
  Statfs :: "string \<Rightarrow> (u64 \<times> u64) option"
  PluginEntries :: "dir_entry list"

definition newline :: char where "newline = CHR 0x0A"

section \<open>Small functions\<close>

definition in_bounded :: "string \<Rightarrow> nat \<Rightarrow> string" where
  "in_bounded value limit = take limit (TrimSpace value)"

fun first_of :: "string list \<Rightarrow> string" where
  "first_of [] = ''unknown''"
| "first_of (v # vs) = (if v \<noteq> [] then v else first_of vs)"

definition readTrim :: "host \<Rightarrow> string \<Rightarrow> string" where
  "readTrim h path = (case ReadFile h path of None \<Rightarrow> ''unknown'' | Some b \<Rightarrow> Trim (TrimSpace b) [CHR 0x00])"

text \<open>The text of a file whose error is ignored.\<close>

definition file_or_empty :: "host \<Rightarrow> string \<Rightarrow> string" where
  "file_or_empty h path = (case ReadFile h path of None \<Rightarrow> [] | Some b \<Rightarrow> b)"

section \<open>Packages\<close>

fun parse_lines :: "string \<Rightarrow> InstalledPackage list \<Rightarrow> string list \<Rightarrow> InstalledPackage list" where
  "parse_lines source packages [] = packages"
| "parse_lines source packages (line # lines) =
     (let fields = Split CHR 0x09 line in
      if length fields < 2 \<or> TrimSpace (fields ! 0) = [] then parse_lines source packages lines
      else
        let pkg = \<lparr>ip_Name = in_bounded (fields ! 0) 256, ip_Version = in_bounded (fields ! 1) 256,
                   ip_Architecture = (if 2 < length fields then in_bounded (fields ! 2) 64 else []), ip_Source = source\<rparr>;
            packages = packages @ [pkg] in
        if length packages = 4000 then packages else parse_lines source packages lines)"

definition parsePackages :: "string \<Rightarrow> string \<Rightarrow> InstalledPackage list" where
  "parsePackages output source = parse_lines source [] (Split newline output)"

definition tabbed :: "string \<Rightarrow> string \<Rightarrow> string \<Rightarrow> string" where
  "tabbed a b c = a @ [CHR 0x09] @ b @ [CHR 0x09] @ c @ [newline]"

definition package_commands :: "(string \<times> string list \<times> string) list" where
  "package_commands =
     [(''dpkg-query'', [''-W'', ''-f='' @ tabbed ''${Package}'' ''${Version}'' ''${Architecture}''], ''dpkg''),
      (''rpm'', [''-qa'', ''--qf'', tabbed ''%{NAME}'' ''%{VERSION}-%{RELEASE}'' ''%{ARCH}''], ''rpm'')]"

fun packages_of :: "host \<Rightarrow> (string \<times> string list \<times> string) list \<Rightarrow> InstalledPackage list" where
  "packages_of h [] = []"
| "packages_of h ((name, args, source) # cs) =
     (if \<not> LookPath h name then packages_of h cs
      else (case Command h name args of Some output \<Rightarrow> parsePackages output source | None \<Rightarrow> packages_of h cs))"

definition installedPackages :: "host \<Rightarrow> InstalledPackage list" where
  "installedPackages h = packages_of h package_commands"

section \<open>The operating system\<close>

definition release_line :: "string go_map \<Rightarrow> string \<Rightarrow> string go_map" where
  "release_line out line =
     (let line = TrimSpace line in
      if line = [] \<or> HasPrefix line ''#'' then out
      else (case Cut CHR ''='' line of
              Some (key, value) \<Rightarrow> mput (TrimSpace key) (Trim (TrimSpace value) [CHR 0x22, CHR 0x27]) out
            | None \<Rightarrow> out))"

definition parseOSRelease :: "string \<Rightarrow> string go_map" where
  "parseOSRelease contents = foldl release_line [] (Split newline contents)"

definition osRelease :: "host \<Rightarrow> string go_map" where
  "osRelease h =
     (case ReadFile h ''/etc/os-release'' of
        Some b \<Rightarrow> parseOSRelease b
      | None \<Rightarrow> (case ReadFile h ''/usr/lib/os-release'' of Some b \<Rightarrow> parseOSRelease b | None \<Rightarrow> []))"

text \<open>The value of a key, empty when it is absent.\<close>

definition value_of :: "string go_map \<Rightarrow> string \<Rightarrow> string" where
  "value_of m k = (case mget m k of Some v \<Rightarrow> v | None \<Rightarrow> [])"

definition osDisplayName :: "host \<Rightarrow> string go_map \<Rightarrow> string" where
  "osDisplayName h release =
     (let pretty = TrimSpace (value_of release ''PRETTY_NAME'');
          name = first_of [value_of release ''NAME'', value_of release ''ID'', GOOS h];
          version = first_of [value_of release ''VERSION'', value_of release ''VERSION_ID''] in
      if pretty \<noteq> [] then pretty
      else if version = ''unknown'' \<or> Contains (ToLower name) (ToLower version) then name
      else TrimSpace (name @ '' '' @ version))"

section \<open>The hardware\<close>

fun first_known :: "host \<Rightarrow> string list \<Rightarrow> string option" where
  "first_known h [] = None"
| "first_known h (path # paths) =
     (let value = readTrim h path in if value \<noteq> ''unknown'' \<and> value \<noteq> [] then Some value else first_known h paths)"

definition hardwareModel :: "host \<Rightarrow> string" where
  "hardwareModel h =
     (case first_known h [''/proc/device-tree/model'', ''/sys/firmware/devicetree/base/model'', ''/sys/devices/virtual/dmi/id/product_name''] of
        Some v \<Rightarrow> v | None \<Rightarrow> ''unknown'')"

text \<open>The value of the first line whose key is one of the names, if \<open>ok\<close> accepts it.\<close>

fun keyed_line :: "string list \<Rightarrow> (string \<Rightarrow> bool) \<Rightarrow> string list \<Rightarrow> string option" where
  "keyed_line names ok [] = None"
| "keyed_line names ok (line # lines) =
     (case Cut CHR '':'' line of
        Some (key, value) \<Rightarrow>
          (if (\<exists>n \<in> set names. EqualFold (TrimSpace key) n) \<and> ok (TrimSpace value) then Some (TrimSpace value)
           else keyed_line names ok lines)
      | None \<Rightarrow> keyed_line names ok lines)"

definition serialNumber :: "host \<Rightarrow> string" where
  "serialNumber h =
     (case first_known h [''/sys/firmware/devicetree/base/serial-number'', ''/sys/devices/virtual/dmi/id/product_serial''] of
        Some v \<Rightarrow> v
      | None \<Rightarrow>
          (case keyed_line [''serial''] (\<lambda>v. True) (Split newline (file_or_empty h ''/proc/cpuinfo'')) of
             Some v \<Rightarrow> v | None \<Rightarrow> ''unknown''))"

definition parseCPUModel :: "string \<Rightarrow> string" where
  "parseCPUModel contents =
     (case keyed_line [''model name'', ''hardware''] (\<lambda>v. v \<noteq> []) (Split newline contents) of Some v \<Rightarrow> v | None \<Rightarrow> [])"

definition parseLSCPUModel :: "string \<Rightarrow> string" where
  "parseLSCPUModel contents =
     (case keyed_line [''model name''] (\<lambda>v. True) (Split newline contents) of Some v \<Rightarrow> v | None \<Rightarrow> [])"

text \<open>The device tree's names of the board, the last one first: what follows the vendor.\<close>

fun compatible_model :: "string list \<Rightarrow> string option" where
  "compatible_model [] = None"
| "compatible_model (v # vs) =
     (case Cut CHR '','' v of
        Some (_, value) \<Rightarrow> if value \<noteq> [] then Some (ToUpper value) else compatible_model vs
      | None \<Rightarrow> compatible_model vs)"

definition cpuModel :: "host \<Rightarrow> string" where
  "cpuModel h =
     (let fromInfo = parseCPUModel (file_or_empty h ''/proc/cpuinfo'');
          fromLscpu = (case Command h ''lscpu'' [] of Some output \<Rightarrow> parseLSCPUModel output | None \<Rightarrow> []);
          fromTree = (case ReadFile h ''/proc/device-tree/compatible'' of
                        Some b \<Rightarrow> compatible_model (rev (filter (\<lambda>v. v \<noteq> []) (Split CHR 0x00 b)))
                      | None \<Rightarrow> None) in
      if fromInfo \<noteq> [] then fromInfo
      else if fromLscpu \<noteq> [] then fromLscpu
      else (case fromTree of Some v \<Rightarrow> v | None \<Rightarrow> hardwareModel h))"

text \<open>A size that is not a number counts as the value \<^verbatim>\<open>ParseUint\<close> returns with its error: 0, or the maximum when it is too large.\<close>

definition uint_or_error :: "string \<Rightarrow> u64" where
  "uint_or_error s =
     (case ParseUint s of Some n \<Rightarrow> of_nat n | None \<Rightarrow> if s \<noteq> [] \<and> list_all is_digit s then - 1 else 0)"

fun mem_total :: "string list \<Rightarrow> u64" where
  "mem_total [] = 0"
| "mem_total (line # lines) =
     (let fields = Fields line in
      if 2 \<le> length fields \<and> fields ! 0 = ''MemTotal:'' then uint_or_error (fields ! 1) * 1024 else mem_total lines)"

definition memoryTotal :: "host \<Rightarrow> u64" where
  "memoryTotal h = mem_total (Split newline (file_or_empty h ''/proc/meminfo''))"

definition storageTotal :: "host \<Rightarrow> string \<Rightarrow> u64" where
  "storageTotal h path = (case Statfs h path of None \<Rightarrow> 0 | Some (blocks, bsize) \<Rightarrow> blocks * bsize)"

section \<open>The inventory\<close>

definition capabilities :: "order \<Rightarrow> host \<Rightarrow> string list" where
  "capabilities r h =
     [''telemetry'', ''inventory'', ''jobs'', ''job:collect_diagnostics'', ''job:collect_inventory'', ''job:collect_logs'', ''job:reboot'']
     @ DiscoverCapabilities r (LookPath h) (PluginEntries h)
     @ (if LookPath h ''trivy'' then [''security:trivy'', ''job:scan_vulnerabilities''] else [])"

definition CollectWithPluginDir :: "order \<Rightarrow> host \<Rightarrow> string \<Rightarrow> string \<Rightarrow> agent_inventory" where
  "CollectWithPluginDir r h deviceID version =
     (let release = osRelease h in
      \<lparr>in_DeviceID = deviceID, in_Hostname = Hostname_of h, in_Architecture = GOARCH h, in_OS = osDisplayName h release,
       OSID = first_of [value_of release ''ID'', GOOS h],
       OSVersion = first_of [value_of release ''VERSION_ID'', value_of release ''VERSION''],
       OSBuild = value_of release ''BUILD_ID'', in_Kernel = readTrim h ''/proc/sys/kernel/osrelease'', OSRelease = release,
       in_HardwareModel = hardwareModel h, in_Serial = serialNumber h, CPUModel = cpuModel h, CPUCores = NumCPU h,
       MemoryTotalBytes = memoryTotal h, StorageTotalBytes = storageTotal h ''/'', in_AgentVersion = version,
       in_Capabilities = capabilities r h, in_InstalledPackages = installedPackages h\<rparr>)"

section \<open>Facts\<close>

text \<open>The list of packages is bounded, and so is every text in it.\<close>

definition small_package :: "InstalledPackage \<Rightarrow> bool" where
  "small_package p \<longleftrightarrow> ip_Name p \<noteq> [] \<and> length (ip_Name p) \<le> 256 \<and> length (ip_Version p) \<le> 256 \<and> length (ip_Architecture p) \<le> 64"

lemma parse_lines_bounded:
  "length packages < 4000 \<Longrightarrow> \<forall>p \<in> set packages. small_package p \<Longrightarrow>
     length (parse_lines source packages lines) \<le> 4000 \<and> (\<forall>p \<in> set (parse_lines source packages lines). small_package p)"
proof (induction source packages lines rule: parse_lines.induct)
  case (2 source packages line lines)
  show ?case
  proof (cases "length (Split CHR 0x09 line) < 2 \<or> TrimSpace (Split CHR 0x09 line ! 0) = []")
    case False
    then have "in_bounded (Split CHR 0x09 line ! 0) 256 \<noteq> []" by (auto simp: in_bounded_def)
    then show ?thesis using 2 False by (auto simp: Let_def small_package_def in_bounded_def)
  qed (use 2 in \<open>simp add: Let_def\<close>)
qed simp

lemma installed_packages_bounded:
  "length (installedPackages h) \<le> 4000 \<and> (\<forall>p \<in> set (installedPackages h). small_package p)"
proof -
  have "length (parsePackages out source) \<le> 4000 \<and> (\<forall>p \<in> set (parsePackages out source). small_package p)" for out source
    unfolding parsePackages_def by (rule parse_lines_bounded) simp_all
  then have "length (packages_of h cs) \<le> 4000 \<and> (\<forall>p \<in> set (packages_of h cs). small_package p)" for cs
    by (induction h cs rule: packages_of.induct) (auto split: option.split)
  then show ?thesis by (simp add: installedPackages_def)
qed

text \<open>A device offers the jobs that need no other program, and a scan only where the scanner is installed.\<close>

lemma capabilities_offer:
  "{''jobs'', ''job:collect_diagnostics'', ''job:collect_inventory'', ''job:collect_logs'', ''job:reboot''} \<subseteq> set (capabilities r h)"
  by (simp add: capabilities_def)

lemma ubuntu_display_name:
  "osDisplayName h (parseOSRelease (''NAME='' @ [CHR 0x22] @ ''Ubuntu'' @ [CHR 0x22, newline] @ ''VERSION_ID=25.04'' @ [newline] @ ''ID=ubuntu''))
     = ''Ubuntu 25.04''"
  by (simp add: parseOSRelease_def release_line_def newline_def osDisplayName_def value_of_def Let_def TrimSpace_def TrimFunc_def TrimRightFunc_def
      Trim_def Cut_def HasPrefix_def is_space_def ToLower_def mput_def mget_def lower_char_def is_upper_def between_def)

end
