(* ===== verification/AgentIdentity.thy ===== *)
theory AgentIdentity
  imports AgentDeploy
begin

text \<open>
  Who the device is: the identity and its key in files, \<^verbatim>\<open>agent/internal/identity/identity.go\<close>, the
  client that enrolls it, \<^verbatim>\<open>agent/internal/enrollment/enrollment.go\<close>, and the check of a request to
  rotate its credentials, \<^verbatim>\<open>agent/internal/security/rotation.go\<close>. Keys, their PEM and PKCS 8 forms and
  the HTTP exchange are parameters.
\<close>

section \<open>Files\<close>

text \<open>
  The calls to the file system: what keeps a file from being read (apart from not being there), and for a write the
  error with how much was written before it. Files are those of the deployment model.
\<close>

record id_env =
  ie_MkdirAll :: "string \<Rightarrow> go_error option"
  ie_ReadFile :: "string \<Rightarrow> go_error option"
  ie_WriteFile :: "string \<Rightarrow> (go_error \<times> nat option) option"

definition id_write :: "id_env \<Rightarrow> string \<Rightarrow> string \<Rightarrow> u32 \<Rightarrow> file_system \<Rightarrow> go_error option \<times> file_system" where
  "id_write env path contents mode fs =
     (let put = (\<lambda>c. fs(path \<mapsto> (c, case fs path of Some (_, old) \<Rightarrow> old | None \<Rightarrow> mode))) in
      case ie_WriteFile env path of
        None \<Rightarrow> (None, put contents)
      | Some (err, None) \<Rightarrow> (Some err, fs)
      | Some (err, Some n) \<Rightarrow> (Some err, put (take n contents)))"

text \<open>Reading a file: its content, \<open>None\<close> when it does not exist, or another error.\<close>

definition id_read :: "id_env \<Rightarrow> string \<Rightarrow> file_system \<Rightarrow> string option result" where
  "id_read env path fs =
     (case fs path of
        None \<Rightarrow> Inr None
      | Some (contents, _) \<Rightarrow> (case ie_ReadFile env path of Some err \<Rightarrow> Inl err | None \<Rightarrow> Inr (Some contents)))"

section \<open>The identity\<close>

record Identity =
  id_TenantID :: string
  id_DeviceID :: string
  id_CertificatePEM :: string
  id_CAPEM :: string

definition blank :: "char \<Rightarrow> bool" where
  "blank c \<longleftrightarrow> c \<in> {CHR 0x0A, CHR 0x0D, CHR '' '', CHR 0x09}"

definition bytesTrimSpace :: "string \<Rightarrow> string" where
  "bytesTrimSpace b = dropWhile blank (TrimRightFunc blank b)"

text \<open>The files in turn: a step that fails ends the saving, and what was written before it stays.\<close>

definition save_step ::
  "id_env \<Rightarrow> string \<Rightarrow> bool \<Rightarrow> string \<times> string \<times> u32 \<Rightarrow> go_error option \<times> file_system \<Rightarrow> go_error option \<times> file_system" where
  "save_step env stateDir wanted = (\<lambda>(name, contents, mode) (err, fs).
     (case err of
        Some e \<Rightarrow> (Some e, fs)
      | None \<Rightarrow> if wanted then id_write env (path_Join stateDir name) contents mode fs else (None, fs)))"

definition SaveIdentity :: "id_env \<Rightarrow> string \<Rightarrow> Identity \<Rightarrow> file_system \<Rightarrow> go_error option \<times> file_system" where
  "SaveIdentity env stateDir i fs =
     save_step env stateDir (id_CAPEM i \<noteq> []) (''ca.pem'', id_CAPEM i, 420)
     (save_step env stateDir (id_CertificatePEM i \<noteq> []) (''device.crt'', id_CertificatePEM i, 384)
     (save_step env stateDir True (''tenant_id'', id_TenantID i @ [CHR 0x0A], 384)
     (save_step env stateDir True (''device_id'', id_DeviceID i @ [CHR 0x0A], 384)
       (ie_MkdirAll env stateDir, fs))))"

text \<open>A file that cannot be read counts as empty. The identity is returned with the error.\<close>

definition read_trimmed :: "id_env \<Rightarrow> string \<Rightarrow> file_system \<Rightarrow> string \<Rightarrow> string" where
  "read_trimmed env stateDir fs name =
     (case id_read env (path_Join stateDir name) fs of Inr (Some b) \<Rightarrow> bytesTrimSpace b | _ \<Rightarrow> [])"

definition LoadIdentity :: "id_env \<Rightarrow> string \<Rightarrow> file_system \<Rightarrow> Identity \<times> go_error option" where
  "LoadIdentity env stateDir fs =
     (let i = \<lparr>id_TenantID = read_trimmed env stateDir fs ''tenant_id'', id_DeviceID = read_trimmed env stateDir fs ''device_id'',
              id_CertificatePEM = read_trimmed env stateDir fs ''device.crt'', id_CAPEM = read_trimmed env stateDir fs ''ca.pem''\<rparr> in
      (i, if id_DeviceID i = [] \<or> id_TenantID i = [] then Some (ErrorString ''identity is not enrolled'') else None))"

section \<open>The key\<close>

text \<open>
  \<open>kl_Decode\<close> is the block of a PEM text, \<open>kl_ParsePKCS8\<close> the Ed25519 key in it (\<open>Inr None\<close> for a key of another
  kind), \<open>kl_pem_key\<close> and \<open>kl_pem_public\<close> the PEM texts of a key and of its public part.
\<close>

record 'k key_lib =
  kl_Decode :: "string \<Rightarrow> string option"
  kl_ParsePKCS8 :: "string \<Rightarrow> 'k option result"
  kl_GenerateKey :: "'k result"
  kl_pem_key :: "'k \<Rightarrow> string result"
  kl_pem_public :: "'k \<Rightarrow> string result"
  kl_sha256 :: "string \<Rightarrow> string"

definition LoadOrCreateFileSigner :: "'k key_lib \<Rightarrow> id_env \<Rightarrow> string \<Rightarrow> file_system \<Rightarrow> 'k result \<times> file_system" where
  "LoadOrCreateFileSigner kl env stateDir fs =
     (case ie_MkdirAll env stateDir of
        Some err \<Rightarrow> (Inl err, fs)
      | None \<Rightarrow>
          (let path = path_Join stateDir ''device_key.pem'' in
           case id_read env path fs of
             Inl err \<Rightarrow> (Inl err, fs)
           | Inr (Some b) \<Rightarrow>
               ((case kl_Decode kl b of
                   None \<Rightarrow> Inl (ErrorString ''invalid private key pem'')
                 | Some block \<Rightarrow>
                     (case kl_ParsePKCS8 kl block of
                        Inl err \<Rightarrow> Inl err
                      | Inr None \<Rightarrow> Inl (ErrorString ''private key is not ed25519'')
                      | Inr (Some key) \<Rightarrow> Inr key)), fs)
           | Inr None \<Rightarrow>
               (case kl_GenerateKey kl of
                  Inl err \<Rightarrow> (Inl err, fs)
                | Inr key \<Rightarrow>
                    (case kl_pem_key kl key of
                       Inl err \<Rightarrow> (Inl err, fs)
                     | Inr block \<Rightarrow>
                         (case id_write env path block 384 fs of
                            (Some err, fs) \<Rightarrow> (Inl err, fs)
                          | (None, fs) \<Rightarrow> (Inr key, fs))))))"

definition key_Fingerprint :: "'k key_lib \<Rightarrow> 'k \<Rightarrow> string result" where
  "key_Fingerprint kl key = (case kl_pem_public kl key of Inl err \<Rightarrow> Inl err | Inr pub \<Rightarrow> Inr (hexEncode (kl_sha256 kl pub)))"

section \<open>Enrollment\<close>

record agent_fingerprint =
  af_Hostname :: string
  af_MachineIDHash :: string
  af_Architecture :: string
  af_OS :: string
  af_Kernel :: string
  af_Serial :: string
  af_Product :: string

record enroll_request =
  ar_Token :: string
  ar_PublicKeyPEM :: string
  ar_RequestedName :: string
  ar_Fingerprint :: agent_fingerprint

record enroll_response =
  rs_TenantID :: string
  rs_DeviceID :: string
  rs_ClientCertificatePEM :: string
  rs_CACertificatePEM :: string
  rs_ServerEndpoint :: string

text \<open>
  The server's answer: its status and the decoded body, or the error of decoding it. \<open>'w\<close> is the state of the
  network and the server behind it.
\<close>

record enroll_answer =
  en_StatusCode :: int
  en_Status :: string
  en_Body :: "enroll_response result"

definition client_Enroll ::
  "'k key_lib \<Rightarrow> id_env \<Rightarrow> string \<Rightarrow> agent_fingerprint \<Rightarrow> (enroll_request \<Rightarrow> 'w \<Rightarrow> enroll_answer result \<times> 'w)
     \<Rightarrow> string \<Rightarrow> string \<Rightarrow> file_system \<Rightarrow> 'w \<Rightarrow> (Identity option \<times> go_error option) \<times> file_system \<times> 'w" where
  "client_Enroll kl env stateDir fingerprint post token requestedName fs w =
     (case LoadOrCreateFileSigner kl env stateDir fs of
        (Inl err, fs) \<Rightarrow> ((None, Some err), fs, w)
      | (Inr signer, fs) \<Rightarrow>
          (case kl_pem_public kl signer of
             Inl err \<Rightarrow> ((None, Some err), fs, w)
           | Inr pub \<Rightarrow>
               (case post \<lparr>ar_Token = token, ar_PublicKeyPEM = pub, ar_RequestedName = requestedName, ar_Fingerprint = fingerprint\<rparr> w of
                  (Inl err, w) \<Rightarrow> ((None, Some err), fs, w)
                | (Inr res, w) \<Rightarrow>
                    if en_StatusCode res \<noteq> 200 then ((None, Some (ErrorString (''enrollment failed: '' @ en_Status res))), fs, w)
                    else case en_Body res of
                      Inl err \<Rightarrow> ((None, Some err), fs, w)
                    | Inr out \<Rightarrow>
                        if rs_DeviceID out = [] \<or> rs_TenantID out = []
                        then ((None, Some (ErrorString ''enrollment response missing identity'')), fs, w)
                        else
                          let i = \<lparr>id_TenantID = rs_TenantID out, id_DeviceID = rs_DeviceID out,
                                   id_CertificatePEM = rs_ClientCertificatePEM out, id_CAPEM = rs_CACertificatePEM out\<rparr>;
                              (err, fs) = SaveIdentity env stateDir i fs in
                          ((Some i, err), fs, w))))"

text \<open>What the device tells about itself: the first file that can be read, trimmed of blanks and zero bytes at its end.\<close>

definition fp_trim :: "string \<Rightarrow> string" where
  "fp_trim b = TrimRightFunc (\<lambda>c. c = CHR 0x00) (TrimRightFunc blank b)"

fun readFirst :: "(string \<Rightarrow> string option) \<Rightarrow> string list \<Rightarrow> string" where
  "readFirst read_file [] = ''unknown''"
| "readFirst read_file (p # ps) = (case read_file p of Some b \<Rightarrow> fp_trim b | None \<Rightarrow> readFirst read_file ps)"

fun first_told :: "(string \<Rightarrow> string option) \<Rightarrow> string list \<Rightarrow> string option" where
  "first_told read_file [] = None"
| "first_told read_file (p # ps) =
     (let v = readFirst read_file [p] in if v \<noteq> ''unknown'' \<and> v \<noteq> [] then Some v else first_told read_file ps)"

definition deviceProduct :: "(string \<Rightarrow> string option) \<Rightarrow> string" where
  "deviceProduct read_file =
     (case first_told read_file [''/proc/device-tree/model'', ''/sys/firmware/devicetree/base/model'', ''/sys/devices/virtual/dmi/id/product_name''] of
        Some v \<Rightarrow> v | None \<Rightarrow> ''unknown'')"

fun serial_line :: "string list \<Rightarrow> string option" where
  "serial_line [] = None"
| "serial_line (line # lines) =
     (case Cut CHR '':'' line of
        Some (key, value) \<Rightarrow> if EqualFold (TrimSpace key) ''serial'' then Some (TrimSpace value) else serial_line lines
      | None \<Rightarrow> serial_line lines)"

definition deviceSerial :: "(string \<Rightarrow> string option) \<Rightarrow> string" where
  "deviceSerial read_file =
     (case first_told read_file [''/sys/firmware/devicetree/base/serial-number'', ''/sys/devices/virtual/dmi/id/product_serial''] of
        Some v \<Rightarrow> v
      | None \<Rightarrow>
          (case read_file ''/proc/cpuinfo'' of
             None \<Rightarrow> ''unknown''
           | Some b \<Rightarrow> (case serial_line (Split CHR 0x0A b) of Some v \<Rightarrow> v | None \<Rightarrow> ''unknown'')))"

definition agent_Fingerprint :: "(string \<Rightarrow> string) \<Rightarrow> (string \<Rightarrow> string option) \<Rightarrow> string \<Rightarrow> string \<Rightarrow> string \<Rightarrow> agent_fingerprint" where
  "agent_Fingerprint sha read_file hostname goarch goos =
     \<lparr>af_Hostname = hostname, af_MachineIDHash = hexEncode (sha (readFirst read_file [''/etc/machine-id'', ''/var/lib/dbus/machine-id''])),
      af_Architecture = goarch, af_OS = goos, af_Kernel = readFirst read_file [''/proc/sys/kernel/osrelease''],
      af_Serial = deviceSerial read_file, af_Product = deviceProduct read_file\<rparr>"

section \<open>Rotation\<close>

record RotationRequest =
  ro_TenantID :: string
  ro_DeviceID :: string
  RequestedAt :: go_time
  ro_ExpiresAt :: go_time
  Reason :: string

definition ValidateRotationRequest :: "go_time \<Rightarrow> RotationRequest \<Rightarrow> go_error option" where
  "ValidateRotationRequest t req =
     (if ro_TenantID req = [] \<or> ro_DeviceID req = [] then Some (ErrorString ''invalid credential rotation request'')
      else if IsZero (ro_ExpiresAt req) \<or> After t (ro_ExpiresAt req) then Some (ErrorString ''expired credential rotation request'')
      else None)"

section \<open>Files of a directory\<close>

lemma clean_parts_file:
  assumes "plain_part n" "d \<noteq> []"
  shows "clean_parts (d @ ''/'' @ n) = clean_parts d @ [n]"
proof -
  have root: "HasPrefix (d @ CHR ''/'' # n) ''/'' \<longleftrightarrow> HasPrefix d ''/''"
    using assms(2) by (cases d) (simp_all add: HasPrefix_def)
  have "clean_step r st n = n # st" for r st using assms(1) by (simp add: clean_step_def plain_part_def)
  moreover have "Split CHR ''/'' n = [n]" using assms(1) by (simp add: Split_no_occurrence plain_part_def)
  ultimately show ?thesis by (simp add: clean_parts_def root Split_append_sep)
qed

lemma Clean_file:
  assumes "plain_part n" "d \<noteq> []"
  shows "Clean (d @ ''/'' @ n) = (if HasPrefix d ''/'' then ''/'' else []) @ (if clean_parts d = [] then [] else Join (clean_parts d) ''/'' @ ''/'') @ n"
proof -
  have "HasPrefix (d @ ''/'' @ n) ''/'' \<longleftrightarrow> HasPrefix d ''/''"
    using assms(2) by (cases d) (simp_all add: HasPrefix_def)
  then show ?thesis unfolding Clean_def clean_parts_file [OF assms] by (simp add: Join_snoc)
qed

lemma Clean_name: "plain_part n \<Longrightarrow> Clean n = n"
proof -
  assume n: "plain_part n"
  then have "\<not> HasPrefix n ''/''" by (cases n) (auto simp: plain_part_def HasPrefix_def)
  moreover have "clean_parts n = [n]"
    using n by (simp add: clean_parts_def Split_no_occurrence plain_part_def clean_step_def)
  ultimately show ?thesis by (simp add: Clean_def)
qed

text \<open>Two names in a directory are two files.\<close>

lemma path_Join_inj:
  assumes "plain_part n" "plain_part m"
  shows "path_Join d n = path_Join d m \<longleftrightarrow> n = m"
proof (cases "d = []")
  case True
  then show ?thesis using assms by (simp add: path_Join_def Clean_name plain_part_def)
next
  case False
  then show ?thesis using assms Clean_file [OF assms(1) False] Clean_file [OF assms(2) False] by (simp add: path_Join_def plain_part_def)
qed

lemma id_files_plain: "plain_part ''device_id''" "plain_part ''tenant_id''" "plain_part ''device.crt''" "plain_part ''ca.pem''" "plain_part ''device_key.pem''"
  by (simp_all add: plain_part_def)

lemmas id_files = path_Join_inj [OF id_files_plain(1) id_files_plain(2)] path_Join_inj [OF id_files_plain(1) id_files_plain(3)]
  path_Join_inj [OF id_files_plain(1) id_files_plain(4)] path_Join_inj [OF id_files_plain(2) id_files_plain(1)]
  path_Join_inj [OF id_files_plain(2) id_files_plain(3)] path_Join_inj [OF id_files_plain(2) id_files_plain(4)]
  path_Join_inj [OF id_files_plain(3) id_files_plain(1)] path_Join_inj [OF id_files_plain(3) id_files_plain(2)]
  path_Join_inj [OF id_files_plain(3) id_files_plain(4)] path_Join_inj [OF id_files_plain(4) id_files_plain(1)]
  path_Join_inj [OF id_files_plain(4) id_files_plain(2)] path_Join_inj [OF id_files_plain(4) id_files_plain(3)]

section \<open>What is saved is loaded\<close>

definition good_files :: "id_env \<Rightarrow> bool" where
  "good_files env \<longleftrightarrow> (\<forall>p. ie_MkdirAll env p = None \<and> ie_ReadFile env p = None \<and> ie_WriteFile env p = None)"

definition content_of :: "file_system \<Rightarrow> string \<Rightarrow> string option" where
  "content_of fs path = map_option fst (fs path)"

lemma id_write_good: "good_files env \<Longrightarrow> \<exists>m. id_write env path c mode fs = (None, fs(path \<mapsto> (c, m)))"
  by (auto simp: good_files_def id_write_def)

lemma save_step_good:
  assumes "good_files env" "save_step env d wanted (name, c, mode) (None, fs) = (err, fs')"
  shows "err = None \<and> (\<forall>q. q \<noteq> path_Join d name \<longrightarrow> fs' q = fs q)
    \<and> content_of fs' (path_Join d name) = (if wanted then Some c else content_of fs (path_Join d name))"
  using assms id_write_good [OF assms(1), of "path_Join d name" c mode fs] by (auto simp: content_of_def save_step_def split: if_splits)

lemma read_trimmed_good:
  "good_files env \<Longrightarrow> read_trimmed env d fs name = (case content_of fs (path_Join d name) of None \<Rightarrow> [] | Some c \<Rightarrow> bytesTrimSpace c)"
  by (auto simp: content_of_def read_trimmed_def id_read_def good_files_def split: option.split)

lemma bytesTrimSpace_newline [simp]: "bytesTrimSpace (s @ [CHR 0x0A]) = bytesTrimSpace s"
  by (simp add: bytesTrimSpace_def TrimRightFunc_def blank_def)

text \<open>The certificates are only replaced: one that is not given keeps the file there was.\<close>

lemma LoadIdentity_saved:
  assumes good: "good_files env" and save: "SaveIdentity env d i fs = (err, fs')"
  shows "err = None
    \<and> fst (LoadIdentity env d fs') = \<lparr>id_TenantID = bytesTrimSpace (id_TenantID i), id_DeviceID = bytesTrimSpace (id_DeviceID i),
        id_CertificatePEM = (if id_CertificatePEM i \<noteq> [] then bytesTrimSpace (id_CertificatePEM i) else read_trimmed env d fs ''device.crt''),
        id_CAPEM = (if id_CAPEM i \<noteq> [] then bytesTrimSpace (id_CAPEM i) else read_trimmed env d fs ''ca.pem'')\<rparr>"
proof -
  obtain e1 fs1 where s1: "save_step env d True (''device_id'', id_DeviceID i @ [CHR 0x0A], 384) (None, fs) = (e1, fs1)" by fastforce
  note r1 = save_step_good [OF good s1]
  obtain e2 fs2 where s2: "save_step env d True (''tenant_id'', id_TenantID i @ [CHR 0x0A], 384) (None, fs1) = (e2, fs2)" by fastforce
  note r2 = save_step_good [OF good s2]
  obtain e3 fs3 where s3: "save_step env d (id_CertificatePEM i \<noteq> []) (''device.crt'', id_CertificatePEM i, 384) (None, fs2) = (e3, fs3)" by fastforce
  note r3 = save_step_good [OF good s3]
  obtain e4 fs4 where s4: "save_step env d (id_CAPEM i \<noteq> []) (''ca.pem'', id_CAPEM i, 420) (None, fs3) = (e4, fs4)" by fastforce
  note r4 = save_step_good [OF good s4]
  have e: "e1 = None" "e2 = None" "e3 = None" "e4 = None" using r1 r2 r3 r4 by simp_all
  have mk: "ie_MkdirAll env d = None" using good by (simp add: good_files_def)
  have out: "err = None" "fs' = fs4" using save s1 s2 s3 s4 e unfolding SaveIdentity_def mk by simp_all
  have "content_of fs4 (path_Join d ''device_id'') = content_of fs1 (path_Join d ''device_id'')"
    "content_of fs4 (path_Join d ''tenant_id'') = content_of fs2 (path_Join d ''tenant_id'')"
    "content_of fs4 (path_Join d ''device.crt'') = content_of fs3 (path_Join d ''device.crt'')"
    "content_of fs2 (path_Join d ''device.crt'') = content_of fs (path_Join d ''device.crt'')"
    "content_of fs3 (path_Join d ''ca.pem'') = content_of fs (path_Join d ''ca.pem'')"
    using r1 r2 r3 r4 by (simp_all add: content_of_def id_files)
  then show ?thesis
    using r1 r2 r3 r4 out by (simp add: LoadIdentity_def read_trimmed_good [OF good] Let_def)
qed

end
