(* ===== verification/EnrollmentEndToEnd.thy ===== *)
theory EnrollmentEndToEnd
  imports AgentIdentity EndToEnd
begin

text \<open>
  Enrollment from end to end: the client of the device, \<^verbatim>\<open>agent/internal/enrollment/enrollment.go\<close>, and the
  gateway's handler, \<^verbatim>\<open>deviceEnroll\<close> of \<^verbatim>\<open>cloud-infra/internal/server/server.go\<close>, over a network that
  may lose the request or the answer.
\<close>

section \<open>The exchange\<close>

text \<open>The request as the gateway decodes it: the fields the agent writes, the others empty.\<close>

definition enrollment_on_wire :: "enroll_request \<Rightarrow> EnrollmentRequest" where
  "enrollment_on_wire req =
     \<lparr>er_Token = ar_Token req, er_EnrollmentToken = [], PublicKeyPEM = ar_PublicKeyPEM req, RequestedName = ar_RequestedName req,
      Fingerprint = (let f = ar_Fingerprint req in
        \<lparr>df_Hostname = af_Hostname f, MachineIDHash = af_MachineIDHash f, df_Serial = af_Serial f, df_Product = af_Product f,
         df_Architecture = af_Architecture f, df_OS = af_OS f, df_Kernel = af_Kernel f\<rparr>),
      er_Inventory = []\<rparr>"

text \<open>The answer as the agent decodes it: any other body has no identity in it.\<close>

definition answer_on_wire :: "response \<Rightarrow> enroll_answer" where
  "answer_on_wire resp =
     \<lparr>en_StatusCode = response.status resp, en_Status = itoa (response.status resp),
      en_Body = Inr (case resp of
         JSON _ (BEnrolled t d c ca e) \<Rightarrow>
           \<lparr>rs_TenantID = t, rs_DeviceID = d, rs_ClientCertificatePEM = c, rs_CACertificatePEM = ca, rs_ServerEndpoint = e\<rparr>
       | _ \<Rightarrow> \<lparr>rs_TenantID = [], rs_DeviceID = [], rs_ClientCertificatePEM = [], rs_CACertificatePEM = [], rs_ServerEndpoint = []\<rparr>)\<rparr>"

definition post_enrollment ::
  "server_cfg \<Rightarrow> authority \<Rightarrow> envs \<Rightarrow> string \<Rightarrow> fate \<Rightarrow> enroll_request \<Rightarrow> cstore \<Rightarrow> enroll_answer result \<times> cstore" where
  "post_enrollment cfg ca envs host fate req s =
     (let r = \<lparr>Method = ''POST'', Header = (\<lambda>h. []), Cookie = None, Query = (\<lambda>q. []), http_Host = host\<rparr>;
          (resp, s') = deviceEnroll cfg ca envs r (Inr (enrollment_on_wire req)) s in
      case fate of
        Answered \<Rightarrow> (Inr (answer_on_wire resp), s')
      | LostRequest err \<Rightarrow> (Inl err, s)
      | LostAnswer err \<Rightarrow> (Inl err, s'))"

section \<open>What the gateway did\<close>

text \<open>A token that may still be used, and the hash it is found by.\<close>

definition live_token :: "cenv \<Rightarrow> string \<Rightarrow> EnrollmentToken \<Rightarrow> bool" where
  "live_token env token t \<longleftrightarrow> et_TokenHash t = HashToken env token \<and> IsZero (et_RevokedAt t)
     \<and> \<not> After (c_now env) (et_ExpiresAt t) \<and> UsedCount t < MaxDevices t"

lemma find_SomeD: "List.find P xs = Some x \<Longrightarrow> x \<in> set xs \<and> P x"
  by (induction xs) (auto split: if_splits)

lemma Consume_token:
  assumes "ConsumeEnrollmentToken env (HashToken env token) serial product s = (Inr enr, s')"
  shows "\<exists>k t. (k, t) \<in> set (db_EnrollmentTokens (mem s)) \<and> live_token env token t \<and> enr = t\<lparr>UsedCount := i64 (UsedCount t + 1)\<rparr>
    \<and> mget (db_EnrollmentTokens (mem s')) k = Some enr \<and> db_Devices (mem s') = db_Devices (mem s)"
proof -
  obtain k t where kt: "List.find (\<lambda>(k, t). et_TokenHash t = HashToken env token) (range_map (c_order env) (db_EnrollmentTokens (mem s))) = Some (k, t)"
    using assms by (auto simp: ConsumeEnrollmentToken_def split: option.splits)
  then have "(k, t) \<in> set (db_EnrollmentTokens (mem s))" "et_TokenHash t = HashToken env token"
    by (auto dest: find_SomeD)
  moreover have "IsZero (et_RevokedAt t)" "\<not> After (c_now env) (et_ExpiresAt t)" "UsedCount t < MaxDevices t"
    using assms kt by (auto simp: ConsumeEnrollmentToken_def split: if_splits)
  moreover have "enr = t\<lparr>UsedCount := i64 (UsedCount t + 1)\<rparr> \<and> mget (db_EnrollmentTokens (mem s')) k = Some enr
      \<and> db_Devices (mem s') = db_Devices (mem s)"
    using assms kt by (auto simp: ConsumeEnrollmentToken_def save_and_return_def Let_def dest!: saveLocked_frame split: if_splits option.splits prod.splits)
  ultimately show ?thesis by (auto simp: live_token_def)
qed

lemma CreateDevice_done:
  "CreateDevice env dev s = (Inr d, s') \<Longrightarrow>
     dv_ID d = NewID env 0 ''dev'' \<and> dv_TenantID d = dv_TenantID dev \<and> mget (db_Devices (mem s')) (dv_ID d) = Some d
     \<and> db_EnrollmentTokens (mem s') = db_EnrollmentTokens (mem s)"
  by (auto simp: CreateDevice_def put_device_def save_and_return_def Let_def dest!: saveLocked_frame split: option.splits prod.splits)

lemma UpdateDevice_done:
  "UpdateDevice env d s = (None, s') \<Longrightarrow> mget (db_Devices (mem s')) (dv_ID d) = Some d \<and> db_EnrollmentTokens (mem s') = db_EnrollmentTokens (mem s)"
  by (auto simp: UpdateDevice_def put_device_def dest!: saveLocked_frame split: option.splits if_splits)

lemma Record_frame [simp]:
  "db_Devices (mem (Record env tc a rt rid out sm s)) = db_Devices (mem s)"
  "db_EnrollmentTokens (mem (Record env tc a rt rid out sm s)) = db_EnrollmentTokens (mem s)"
  by (simp_all add: Record_def Audit_def)

lemma Enroll_done:
  assumes "Enroll ca ttl endpoint envs req s = (Inr res, s')" "er_Inventory req = []" "er_Token req \<noteq> []"
  shows "\<exists>k t dev. (k, t) \<in> set (db_EnrollmentTokens (mem s)) \<and> live_token (envs 0) (er_Token req) t
    \<and> mget (db_EnrollmentTokens (mem s')) k = Some (t\<lparr>UsedCount := i64 (UsedCount t + 1)\<rparr>)
    \<and> es_TenantID res = et_TenantID t \<and> es_DeviceID res = NewID (envs 1) 0 ''dev''
    \<and> mget (db_Devices (mem s')) (es_DeviceID res) = Some dev \<and> dv_TenantID dev = et_TenantID t"
proof -
  obtain enr s1 where c: "ConsumeEnrollmentToken (envs 0) (HashToken (envs 0) (er_Token req)) (df_Serial (Fingerprint req)) (df_Product (Fingerprint req)) s = (Inr enr, s1)"
    using assms by (auto simp: Enroll_def Let_def split: prod.splits sum.splits)
  obtain d s2 where d: "CreateDevice (envs 1) (enrolled_device (envs 1) enr req) s1 = (Inr d, s2)"
    using assms c by (auto simp: Enroll_def Let_def split: prod.splits sum.splits)
  obtain cert serial expires where i: "IssueDeviceCertificate ca (PublicKeyPEM req) (dv_ID d) ttl = Inr (cert, serial, expires)"
    using assms c d by (auto simp: Enroll_def Let_def split: sum.splits)
  let ?d = "d\<lparr>CertificateSerial := serial, CertificateSubject := dv_ID d, CertificateExpiresAt := expires\<rparr>"
  have u: "UpdateDevice (envs 2) ?d s2 = (None, s')" "es_TenantID res = et_TenantID enr" "es_DeviceID res = dv_ID d"
    using assms c d i by (auto simp: Enroll_def Let_def split: prod.splits option.splits)
  obtain k t where t: "(k, t) \<in> set (db_EnrollmentTokens (mem s))" "live_token (envs 0) (er_Token req) t"
    "enr = t\<lparr>UsedCount := i64 (UsedCount t + 1)\<rparr>" "mget (db_EnrollmentTokens (mem s1)) k = Some enr"
    using Consume_token [OF c] by blast
  note cd = CreateDevice_done [OF d] and ud = UpdateDevice_done [OF u(1)]
  have "dv_TenantID d = et_TenantID t" using cd t(3) by (simp add: enrolled_device_def Let_def)
  moreover have "mget (db_EnrollmentTokens (mem s')) k = Some enr" using ud cd t(4) by simp
  moreover have "mget (db_Devices (mem s')) (dv_ID d) = Some ?d" using ud by simp
  ultimately show ?thesis using t u(2,3) cd by (intro exI [of _ k] exI [of _ t] exI [of _ ?d]) simp
qed

section \<open>An enrolled device is known\<close>

lemma trim_NewID: "bytesTrimSpace (NewID env n ''dev'') = NewID env n ''dev''"
proof -
  let ?s = "NewID env n ''dev''"
  have digit: "\<not> blank (hex_char d)" if "d < 16" for d
    using hex_val_hex_char [OF that] by (auto simp: blank_def hex_val_def is_digit_def between_def)
  have plain: "\<not> blank c" if "c \<in> set (hexEncode x)" for c x
    using that by (induction x rule: hexEncode.induct) (auto simp: digit)
  have "\<not> blank (last (hexEncode x))" if "hexEncode x \<noteq> []" for x
    using plain [OF last_in_set [OF that]] .
  then have "\<not> blank (last ?s)" "\<not> blank (hd ?s)"
    by (simp_all add: NewID_def) (simp_all add: blank_def)
  then show ?thesis
    by (simp add: bytesTrimSpace_def TrimRightFunc_eq_self NewID_def)
qed

lemma client_Enroll_done:
  assumes "client_Enroll kl env d fp (post_enrollment cfg ca envs host fate) token name fs s = ((Some i, None), fs', s')"
  shows "\<exists>pub fs1 s1 res. fate = Answered \<and> SaveIdentity env d i fs1 = (None, fs')
    \<and> id_TenantID i = es_TenantID res \<and> id_DeviceID i = es_DeviceID res \<and> es_TenantID res \<noteq> []
    \<and> Enroll ca (CertificateTTL cfg) (''https://'' @ host) envs
        (enrollment_on_wire \<lparr>ar_Token = token, ar_PublicKeyPEM = pub, ar_RequestedName = name, ar_Fingerprint = fp\<rparr>) s = (Inr res, s1)
    \<and> db_Devices (mem s') = db_Devices (mem s1) \<and> db_EnrollmentTokens (mem s') = db_EnrollmentTokens (mem s1)"
proof -
  obtain signer fs1 where k: "LoadOrCreateFileSigner kl env d fs = (Inr signer, fs1)"
    using assms by (auto simp: client_Enroll_def split: prod.splits sum.splits)
  obtain pub where pub: "kl_pem_public kl signer = Inr pub" using assms k by (auto simp: client_Enroll_def split: sum.splits)
  define req where "req = \<lparr>ar_Token = token, ar_PublicKeyPEM = pub, ar_RequestedName = name, ar_Fingerprint = fp\<rparr>"
  obtain q s2 where e: "Enroll ca (CertificateTTL cfg) (''https://'' @ host) envs (enrollment_on_wire req) s = (q, s2)" by fastforce
  have fate: "fate = Answered"
    using assms k pub by (cases fate) (auto simp: client_Enroll_def post_enrollment_def Let_def split: prod.splits)
  obtain res where res: "q = Inr res"
    using assms k pub e fate
    by (cases q) (auto simp: client_Enroll_def post_enrollment_def deviceEnroll_def answer_on_wire_def req_def [symmetric] Let_def)
  have all: "i = \<lparr>id_TenantID = es_TenantID res, id_DeviceID = es_DeviceID res, id_CertificatePEM = ClientCertificatePEM res,
        id_CAPEM = CACertificatePEM res\<rparr> \<and> SaveIdentity env d i fs1 = (None, fs') \<and> es_TenantID res \<noteq> []
    \<and> db_Devices (mem s') = db_Devices (mem s2) \<and> db_EnrollmentTokens (mem s') = db_EnrollmentTokens (mem s2)"
    using assms k pub e fate res unfolding req_def
    by (auto simp: client_Enroll_def post_enrollment_def deviceEnroll_def answer_on_wire_def Let_def split: if_splits prod.splits)
  then show ?thesis
    using fate e res by (elim conjE) (intro exI [of _ pub] exI [of _ fs1] exI [of _ s2] exI [of _ res], simp add: req_def)
qed

text \<open>C8: Enrollment gives a device an identity the gateway knows. If the client of the agent ends without an error, over a
  network that may lose messages, the control plane held an unrevoked, unexpired token with the hash of the one that was
  given and with uses left, and has counted one more use of it; and the identity the agent then loads from its files names
  a stored device of that token's tenant, so that its envelopes are accepted as that device's.\<close>

theorem enrolled_device_is_known:
  assumes good: "good_files env" and token: "token \<noteq> []"
    and tenants: "\<forall>(k, t) \<in> set (db_EnrollmentTokens (mem s)). bytesTrimSpace (et_TenantID t) = et_TenantID t"
    and run: "client_Enroll kl env d fp (post_enrollment cfg ca envs host fate) token name fs s = ((Some i, None), fs', s')"
  shows "\<exists>k t dev. (k, t) \<in> set (db_EnrollmentTokens (mem s)) \<and> live_token (envs 0) token t
    \<and> mget (db_EnrollmentTokens (mem s')) k = Some (t\<lparr>UsedCount := i64 (UsedCount t + 1)\<rparr>)
    \<and> snd (LoadIdentity env d fs') = None
    \<and> id_TenantID (fst (LoadIdentity env d fs')) = et_TenantID t
    \<and> GetDevice (device_context (id_TenantID (fst (LoadIdentity env d fs')))) (id_DeviceID (fst (LoadIdentity env d fs'))) s' = Inr dev"
proof -
  obtain pub fs1 s1 res where save: "SaveIdentity env d i fs1 = (None, fs')"
    and ids: "id_TenantID i = es_TenantID res" "id_DeviceID i = es_DeviceID res" "es_TenantID res \<noteq> []"
    and enroll: "Enroll ca (CertificateTTL cfg) (''https://'' @ host) envs
        (enrollment_on_wire \<lparr>ar_Token = token, ar_PublicKeyPEM = pub, ar_RequestedName = name, ar_Fingerprint = fp\<rparr>) s = (Inr res, s1)"
    and same: "db_Devices (mem s') = db_Devices (mem s1)" "db_EnrollmentTokens (mem s') = db_EnrollmentTokens (mem s1)"
    using client_Enroll_done [OF run] by blast
  obtain k t dev where t: "(k, t) \<in> set (db_EnrollmentTokens (mem s))" "live_token (envs 0) token t"
    "mget (db_EnrollmentTokens (mem s1)) k = Some (t\<lparr>UsedCount := i64 (UsedCount t + 1)\<rparr>)"
    and dev: "es_TenantID res = et_TenantID t" "es_DeviceID res = NewID (envs 1) 0 ''dev''"
    "mget (db_Devices (mem s1)) (es_DeviceID res) = Some dev" "dv_TenantID dev = et_TenantID t"
    using Enroll_done [OF enroll] token by (auto simp: enrollment_on_wire_def)
  have trim: "bytesTrimSpace (et_TenantID t) = et_TenantID t" using tenants t(1) by blast
  have load: "id_TenantID (fst (LoadIdentity env d fs')) = et_TenantID t" "id_DeviceID (fst (LoadIdentity env d fs')) = es_DeviceID res"
    using LoadIdentity_saved [OF good save] ids dev(1,2) trim trim_NewID by simp_all
  have "es_DeviceID res \<noteq> []" using dev(2) by (simp add: NewID_def)
  then have "snd (LoadIdentity env d fs') = None"
    using load ids(3) dev(1) by (simp add: LoadIdentity_def Let_def)
  moreover have "GetDevice (device_context (id_TenantID (fst (LoadIdentity env d fs')))) (id_DeviceID (fst (LoadIdentity env d fs'))) s' = Inr dev"
    using load dev same by (simp add: GetDevice_def device_context_def)
  ultimately show ?thesis using t load same by (intro exI [of _ k] exI [of _ t] exI [of _ dev]) simp
qed

section \<open>Witness\<close>

text \<open>A store with one token for the text \<^verbatim>\<open>t\<close>, and keys that are their own texts.\<close>

definition demo_keys :: "string key_lib" where
  "demo_keys = \<lparr>kl_Decode = Some, kl_ParsePKCS8 = (\<lambda>b. Inr (Some b)), kl_GenerateKey = Inr ''key'', kl_pem_key = Inr, kl_pem_public = Inr, kl_sha256 = (\<lambda>s. s)\<rparr>"

definition demo_files :: id_env where
  "demo_files = \<lparr>ie_MkdirAll = (\<lambda>p. None), ie_ReadFile = (\<lambda>p. None), ie_WriteFile = (\<lambda>p. None)\<rparr>"

definition demo_token_db :: cstore where
  "demo_token_db = \<lparr>file_path = [], mem = no_data\<lparr>db_EnrollmentTokens := [(''k'', \<lparr>et_ID = ''k'', et_TenantID = ''a'', et_ProfileID = [],
     et_TokenHash = ''74'', PlainToken = [], ExpectedSerial = [], ExpectedProduct = [], MaxDevices = 1, UsedCount = 0, et_ExpiresAt = 9000,
     et_RevokedAt = zero_time, et_CreatedBy = [], et_CreatedAt = 0\<rparr>)]\<rparr>, disk = None\<rparr>"

definition demo_fingerprint :: agent_fingerprint where
  "demo_fingerprint = \<lparr>af_Hostname = ''h'', af_MachineIDHash = [], af_Architecture = ''arm64'', af_OS = ''linux'', af_Kernel = [], af_Serial = [], af_Product = []\<rparr>"

definition demo_enrollment :: "(Identity option \<times> go_error option) \<times> file_system \<times> cstore" where
  "demo_enrollment = client_Enroll demo_keys demo_files ''/id'' demo_fingerprint
     (post_enrollment demo_server demo_authority demo_envs ''gw'' Answered) ''t'' ''device'' Map.empty demo_token_db"

lemma demo_enrolled: "\<exists>i fs' s'. demo_enrollment = ((Some i, None), fs', s')"
proof -
  have enrolled: "fst (fst demo_enrollment) \<noteq> None" "snd (fst demo_enrollment) = None" by code_simp+
  obtain a b fs' s' where e: "demo_enrollment = ((a, b), fs', s')" by (metis prod.collapse)
  have "a \<noteq> None" using enrolled(1) unfolding e by simp
  moreover have "b = None" using enrolled(2) unfolding e by simp
  ultimately show ?thesis using e by blast
qed

theorem enrolled_device_is_known_witness:
  "\<exists>fs' s' dev. demo_enrollment = ((fst (fst demo_enrollment), None), fs', s')
    \<and> id_TenantID (fst (LoadIdentity demo_files ''/id'' fs')) = ''a''
    \<and> GetDevice (device_context ''a'') (id_DeviceID (fst (LoadIdentity demo_files ''/id'' fs'))) s' = Inr dev"
proof -
  obtain i fs' s' where run: "demo_enrollment = ((Some i, None), fs', s')" using demo_enrolled by blast
  have good: "good_files demo_files" by (simp add: good_files_def demo_files_def)
  have all: "\<forall>(k, t) \<in> set (db_EnrollmentTokens (mem demo_token_db)). et_TenantID t = ''a'' \<and> bytesTrimSpace (et_TenantID t) = et_TenantID t"
    by (simp add: demo_token_db_def bytesTrimSpace_def TrimRightFunc_def blank_def)
  then have tenants: "\<forall>(k, t) \<in> set (db_EnrollmentTokens (mem demo_token_db)). bytesTrimSpace (et_TenantID t) = et_TenantID t" by auto
  obtain k t dev where "(k, t) \<in> set (db_EnrollmentTokens (mem demo_token_db))"
    "id_TenantID (fst (LoadIdentity demo_files ''/id'' fs')) = et_TenantID t"
    "GetDevice (device_context (id_TenantID (fst (LoadIdentity demo_files ''/id'' fs')))) (id_DeviceID (fst (LoadIdentity demo_files ''/id'' fs'))) s' = Inr dev"
    using enrolled_device_is_known [OF good _ tenants run [unfolded demo_enrollment_def]] by auto
  moreover from this(1) all have "et_TenantID t = ''a''" by auto
  ultimately show ?thesis by (intro exI [of _ fs'] exI [of _ s'] exI [of _ dev]) (simp add: run)
qed

end
