(* ===== verification/GoFloat.thy ===== *)
theory GoFloat
  imports GoCodec
begin

text \<open>
  The arithmetic of \<^verbatim>\<open>float64\<close>, IEEE 754 with rounding to the nearest number and ties to the even one.
  Every finite float is a whole multiple of \<open>2 ^ -1074\<close>, so its exact value is kept as that integer, and
  results are rounded from a fraction of such integers. Which of the bit patterns that are not a number an
  operation yields is left open by the standard; here it is always the same one.
\<close>

section \<open>Values\<close>

definition f64_inf :: int where "f64_inf = 9218868437227405312"
definition f64_nan :: u64 where "f64_nan = 9221120237041090561"
definition f64_one :: u64 where "f64_one = 4607182418800017408"

definition f64_make :: "bool \<Rightarrow> int \<Rightarrow> u64" where
  "f64_make neg m = word_of_int (m + (if neg then 2 ^ 63 else 0))"

definition f64_negative :: "u64 \<Rightarrow> bool" where
  "f64_negative x \<longleftrightarrow> 2 ^ 63 \<le> uint x"

definition f64_finite :: "u64 \<Rightarrow> bool" where
  "f64_finite x \<longleftrightarrow> f64_magnitude x < f64_inf"

definition f64_infinite :: "u64 \<Rightarrow> bool" where
  "f64_infinite x \<longleftrightarrow> f64_magnitude x = f64_inf"

text \<open>The exact value of a finite float in units of \<open>2 ^ -1074\<close>: a biased exponent of 0 has no hidden bit.\<close>

definition scaled_magnitude :: "int \<Rightarrow> int" where
  "scaled_magnitude m = (let e = m div 2 ^ 52; f = m mod 2 ^ 52 in if e = 0 then f else (2 ^ 52 + f) * 2 ^ nat (e - 1))"

definition f64_exact :: "u64 \<Rightarrow> int" where
  "f64_exact x = (if f64_negative x then - scaled_magnitude (f64_magnitude x) else scaled_magnitude (f64_magnitude x))"

section \<open>Rounding\<close>

text \<open>How many low bits of an integer do not fit into the 53 bits of a mantissa.\<close>

fun excess :: "nat \<Rightarrow> nat" where
  "excess q = (if q < 2 ^ 53 then 0 else Suc (excess (q div 2)))"

declare excess.simps [simp del]

definition round_half_even :: "int \<Rightarrow> int \<Rightarrow> int" where
  "round_half_even n d = n div d + (if d < 2 * (n mod d) \<or> d = 2 * (n mod d) \<and> odd (n div d) then 1 else 0)"

text \<open>The magnitude of \<open>n / d\<close>: a mantissa that is rounded up to \<open>2 ^ 53\<close> carries into the exponent.\<close>

definition round_magnitude :: "int \<Rightarrow> int \<Rightarrow> int" where
  "round_magnitude n d =
     (let k = excess (nat (n div d)) in min f64_inf (int k * 2 ^ 52 + round_half_even n (d * 2 ^ k)))"

definition f64_round :: "bool \<Rightarrow> int \<Rightarrow> int \<Rightarrow> u64" where
  "f64_round neg n d =
     (if n < 0 then f64_make True (round_magnitude (- n) d)
      else if n = 0 then f64_make neg 0
      else f64_make False (round_magnitude n d))"

section \<open>Operations\<close>

definition f64_unit :: int where "f64_unit = 2 ^ 1074"

definition f64_of_int :: "int \<Rightarrow> u64" where
  "f64_of_int n = f64_round False (n * f64_unit) 1"

definition f64_add :: "u64 \<Rightarrow> u64 \<Rightarrow> u64" where
  "f64_add x y =
     (if \<not> f64_number x \<or> \<not> f64_number y then f64_nan
      else if f64_infinite x then (if f64_infinite y \<and> f64_negative x \<noteq> f64_negative y then f64_nan else x)
      else if f64_infinite y then y
      else f64_round (f64_negative x \<and> f64_negative y) (f64_exact x + f64_exact y) 1)"

definition f64_sub :: "u64 \<Rightarrow> u64 \<Rightarrow> u64" where
  "f64_sub x y = f64_add x (f64_neg y)"

definition f64_mul :: "u64 \<Rightarrow> u64 \<Rightarrow> u64" where
  "f64_mul x y =
     (let neg = (f64_negative x \<noteq> f64_negative y) in
      if \<not> f64_number x \<or> \<not> f64_number y then f64_nan
      else if f64_infinite x \<or> f64_infinite y then
        (if f64_magnitude x = 0 \<or> f64_magnitude y = 0 then f64_nan else f64_make neg f64_inf)
      else f64_round neg (f64_exact x * f64_exact y) f64_unit)"

definition f64_div :: "u64 \<Rightarrow> u64 \<Rightarrow> u64" where
  "f64_div x y =
     (let neg = (f64_negative x \<noteq> f64_negative y) in
      if \<not> f64_number x \<or> \<not> f64_number y \<or> f64_infinite x \<and> f64_infinite y \<or> f64_magnitude x = 0 \<and> f64_magnitude y = 0 then f64_nan
      else if f64_infinite x \<or> f64_magnitude y = 0 then f64_make neg f64_inf
      else if f64_infinite y then f64_make neg 0
      else f64_round neg (if f64_negative y then - f64_exact x * f64_unit else f64_exact x * f64_unit) \<bar>f64_exact y\<bar>)"

section \<open>Exact results\<close>

lemma excess_eq: "excess q = k \<longleftrightarrow> (if k = 0 then q < 2 ^ 53 else 2 ^ (52 + k) \<le> q \<and> q < 2 ^ (53 + k))"
proof (induction q arbitrary: k rule: excess.induct)
  case (1 q)
  show ?case
  proof (cases "q < 2 ^ 53")
    case True
    have "(2::nat) ^ 53 \<le> 2 ^ (52 + k)" if "k \<noteq> 0" using that by (intro power_increasing) auto
    then show ?thesis using True by (subst excess.simps) force
  next
    case False
    note IH = 1 [OF False]
    show ?thesis
    proof (cases k)
      case 0
      then show ?thesis using False by (subst excess.simps) simp
    next
      case (Suc j)
      have half: "2 ^ n \<le> q div 2 \<longleftrightarrow> 2 ^ Suc n \<le> q" "q div 2 < 2 ^ n \<longleftrightarrow> q < 2 ^ Suc n" for n by auto
      show ?thesis
      proof (cases "j = 0")
        case True
        then show ?thesis using IH [of 0] False Suc half [of 53] by (subst excess.simps) auto
      next
        case j: False
        then show ?thesis using IH [of j] False Suc half [of "52 + j"] half [of "53 + j"] by (subst excess.simps) auto
      qed
    qed
  qed
qed

lemma round_magnitude_zero [simp]: "0 < d \<Longrightarrow> round_magnitude 0 d = 0"
  by (simp add: round_magnitude_def round_half_even_def excess_eq [of 0 0, THEN iffD2] f64_inf_def)

lemma f64_round_nonneg: "0 \<le> n \<Longrightarrow> 0 < d \<Longrightarrow> f64_round False n d = f64_make False (round_magnitude n d)"
  by (simp add: f64_round_def)

lemma round_half_even_exact: "0 < d \<Longrightarrow> round_half_even (m * d) d = m"
  by (simp add: round_half_even_def)

lemma round_half_even_scale:
  assumes "0 < d"
  shows "round_half_even (n * d) (e * d) = round_half_even n e"
proof -
  have "e * d < 2 * ((n mod e) * d) \<longleftrightarrow> e < 2 * (n mod e)" "e * d = 2 * ((n mod e) * d) \<longleftrightarrow> e = 2 * (n mod e)"
    using assms mult_less_cancel_right_pos [of d e "2 * (n mod e)"] mult_cancel_right [of e d "2 * (n mod e)"]
    by (simp_all only: mult.assoc) auto
  moreover have "n * d div (e * d) = n div e" "n * d mod (e * d) = (n mod e) * d" using assms by (simp_all only: mult_mod_left) simp
  ultimately show ?thesis unfolding round_half_even_def by (simp only:)
qed

lemma round_magnitude_scale: "0 < c \<Longrightarrow> round_magnitude (n * c) (d * c) = round_magnitude n d"
proof -
  assume c: "0 < c"
  have "round_half_even (n * c) (d * c * 2 ^ k) = round_half_even n (d * 2 ^ k)" for k
    using round_half_even_scale [OF c, of n "d * 2 ^ k"] by (simp only: mult.assoc mult.commute [of c])
  then show ?thesis using c by (simp add: round_magnitude_def Let_def)
qed

text \<open>A mantissa of 53 bits at an exponent in range is not rounded.\<close>

lemma round_magnitude_exact:
  assumes m: "2 ^ 52 \<le> m" "m < 2 ^ 53" and k: "k \<le> 2045"
  shows "round_magnitude (m * 2 ^ k) 1 = int k * 2 ^ 52 + m"
proof -
  define n where "n = nat m"
  have n: "m = int n" "2 ^ 52 \<le> n" "n < 2 ^ 53" using m by (simp_all add: n_def nat_less_iff le_nat_iff)
  have "2 ^ (52 + k) \<le> n * 2 ^ k" "n * 2 ^ k < 2 ^ (53 + k)" using n(2,3) unfolding power_add by simp_all
  moreover have "n < 2 ^ 53" if "k = 0" using n(3) .
  ultimately have "excess (n * 2 ^ k) = k" by (subst excess_eq) simp
  moreover have "nat (m * 2 ^ k) = n * 2 ^ k" using n(1) by (metis nat_int of_nat_mult of_nat_numeral of_nat_power)
  ultimately have k': "excess (nat (m * 2 ^ k div 1)) = k" by simp
  have "round_half_even (m * 2 ^ k) (1 * 2 ^ k) = m" using round_half_even_exact [of "2 ^ k" m] by simp
  moreover have "int k * 2 ^ 52 + m \<le> f64_inf"
  proof -
    have "int k * 2 ^ 52 \<le> 2045 * 2 ^ 52" using k by (intro mult_right_mono) simp_all
    then show ?thesis using m(2) by (simp add: f64_inf_def)
  qed
  ultimately show ?thesis unfolding round_magnitude_def Let_def k' by simp
qed

lemma round_magnitude_small: "0 \<le> m \<Longrightarrow> m < 2 ^ 52 \<Longrightarrow> round_magnitude m 1 = m"
proof -
  assume m: "0 \<le> m" "m < 2 ^ 52"
  then have "excess (nat m) = 0" by (subst excess_eq) (simp add: nat_less_iff)
  then show ?thesis using m round_half_even_exact [of 1 m] by (simp add: round_magnitude_def f64_inf_def)
qed

text \<open>What a finite float stands for is rounded to that float.\<close>

lemma round_scaled:
  assumes "0 \<le> m" "m < f64_inf"
  shows "round_magnitude (scaled_magnitude m) 1 = m"
proof (cases "m div 2 ^ 52 = 0")
  case True
  then have "m < 2 ^ 52" using assms(1) by (simp add: div_eq_0_iff) 
  then show ?thesis using assms(1) by (simp add: scaled_magnitude_def round_magnitude_small)
next
  case False
  let ?e = "m div 2 ^ 52" and ?f = "m mod 2 ^ 52"
  have e: "1 \<le> ?e" "?e \<le> 2046"
    using False assms pos_imp_zdiv_nonneg_iff [of "2 ^ 52" m] by (simp_all add: f64_inf_def)
  have "round_magnitude ((2 ^ 52 + ?f) * 2 ^ nat (?e - 1)) 1 = int (nat (?e - 1)) * 2 ^ 52 + (2 ^ 52 + ?f)"
    using e by (intro round_magnitude_exact) auto
  also have "\<dots> = ?e * 2 ^ 52 + ?f" using e by (simp add: algebra_simps)
  finally show ?thesis using False by (simp add: scaled_magnitude_def Let_def)
qed

lemma uint_f64: "0 \<le> uint (x :: u64)" "uint (x :: u64) < 2 ^ 64"
  using uint_lt2p [of x] by simp_all

lemma f64_make_parts: "f64_make (f64_negative x) (f64_magnitude x) = x"
proof -
  have "f64_magnitude x + (if f64_negative x then 2 ^ 63 else 0) = uint x"
  proof (cases "f64_negative x")
    case True
    then have "uint x mod 2 ^ 63 = (uint x - 2 ^ 63) mod 2 ^ 63" by simp
    also have "\<dots> = uint x - 2 ^ 63" using True uint_f64 [of x] by (intro mod_pos_pos_trivial) (simp_all add: f64_negative_def)
    finally show ?thesis using True by (simp add: f64_magnitude_def)
  next
    case False
    then show ?thesis using uint_f64 [of x] by (simp add: f64_magnitude_def f64_negative_def)
  qed
  then show ?thesis by (simp add: f64_make_def)
qed

lemma f64_make_sel:
  assumes "0 \<le> m" "m < 2 ^ 63"
  shows "f64_magnitude (f64_make neg m) = m" "f64_negative (f64_make neg m) = neg"
proof -
  have "uint (f64_make neg m) = m + (if neg then 2 ^ 63 else 0)"
    using assms unfolding f64_make_def uint_word_of_int by (intro mod_pos_pos_trivial) simp_all
  then show "f64_magnitude (f64_make neg m) = m" "f64_negative (f64_make neg m) = neg"
    using assms by (simp_all add: f64_magnitude_def f64_negative_def)
qed

lemma f64_magnitude_nonneg: "0 \<le> f64_magnitude x"
  by (simp add: f64_magnitude_def)

lemma scaled_magnitude_nonneg: "0 \<le> m \<Longrightarrow> 0 \<le> scaled_magnitude m"
  by (simp add: scaled_magnitude_def Let_def)

lemma scaled_magnitude_0: "0 \<le> m \<Longrightarrow> m < f64_inf \<Longrightarrow> scaled_magnitude m = 0 \<Longrightarrow> m = 0"
  using round_scaled [of m] round_magnitude_small [of 0] by simp

lemma f64_round_exact: "f64_finite x \<Longrightarrow> 0 < d \<Longrightarrow> f64_round (f64_negative x) (f64_exact x * d) d = x"
proof -
  assume x: "f64_finite x" and d: "0 < d"
  let ?m = "f64_magnitude x"
  have m: "0 \<le> ?m" "?m < f64_inf" using x by (simp_all add: f64_finite_def f64_magnitude_nonneg)
  have r: "round_magnitude (scaled_magnitude ?m * d) d = ?m"
    using round_magnitude_scale [OF d, of _ 1] round_scaled [OF m] by simp
  show ?thesis
  proof (cases "scaled_magnitude ?m = 0")
    case True
    then have "?m = 0" using scaled_magnitude_0 [OF m] by simp
    then show ?thesis using True f64_make_parts [of x] by (simp add: f64_round_def f64_exact_def)
  next
    case False
    then have "0 < scaled_magnitude ?m" using scaled_magnitude_nonneg [OF m(1)] by simp
    then have "f64_exact x * d < 0 \<longleftrightarrow> f64_negative x" "f64_exact x * d \<noteq> 0"
      using d by (simp_all add: f64_exact_def mult_less_0_iff zero_less_mult_iff)
    then show ?thesis using r f64_make_parts [of x] by (auto simp: f64_round_def f64_exact_def)
  qed
qed

text \<open>A whole number of at most 53 bits is a float, and multiplying by one changes nothing.\<close>

lemma f64_exact_of_int:
  assumes "0 \<le> n" "n < 2 ^ 53"
  shows "f64_exact (f64_of_int n) = n * f64_unit \<and> f64_finite (f64_of_int n) \<and> \<not> f64_negative (f64_of_int n)"
proof (cases "n = 0")
  case True
  then show ?thesis
    by (simp add: f64_of_int_def f64_round_def f64_exact_def f64_finite_def f64_make_sel scaled_magnitude_def f64_inf_def)
next
  case False
  have "\<exists>j \<le> 52. 2 ^ 52 \<le> k * 2 ^ j \<and> k * 2 ^ j < 2 ^ 53" if "0 < k" "k < 2 ^ 53" for k :: int
  proof -
    have "\<exists>j \<le> i. 2 ^ i \<le> k * 2 ^ j \<and> k * 2 ^ j < 2 ^ Suc i" if "0 < k" "k < 2 ^ Suc i" for i and k :: int
      using that
    proof (induction i)
      case (Suc i)
      show ?case
      proof (cases "k < 2 ^ Suc i")
        case True
        then obtain j where "j \<le> i" "2 ^ i \<le> k * 2 ^ j" "k * 2 ^ j < 2 ^ Suc i" using Suc by blast
        then show ?thesis by (intro exI [of _ "Suc j"]) (simp add: mult.left_commute)
      qed (use Suc in \<open>auto intro: exI [of _ 0]\<close>)
    qed (auto intro: exI [of _ 0])
    from this [of k 52] that show ?thesis by simp
  qed
  then obtain j where j: "j \<le> 52" "2 ^ 52 \<le> n * 2 ^ j" "n * 2 ^ j < 2 ^ 53" using False assms by force
  define m where "m = n * 2 ^ j"
  define k where "k = 1074 - j"
  have jk: "k + j = 1074" "k \<le> 2045" "1 \<le> k" using j(1) by (simp_all add: k_def)
  have whole: "n * f64_unit = m * 2 ^ k" unfolding f64_unit_def m_def jk(1) [symmetric] by (simp add: power_add)
  have r: "round_magnitude (m * 2 ^ k) 1 = int k * 2 ^ 52 + m" using j jk by (intro round_magnitude_exact) (simp_all add: m_def)
  let ?r = "int k * 2 ^ 52 + m"
  have "int k * 2 ^ 52 \<le> 1074 * 2 ^ 52" using jk by (intro mult_right_mono) simp_all
  then have range: "0 \<le> ?r" "?r < f64_inf" "?r < 2 ^ 63" using j by (simp_all add: m_def f64_inf_def)
  have pos: "\<not> n * f64_unit < 0" "n * f64_unit \<noteq> 0" using False assms(1) by (simp_all add: f64_unit_def)
  have x: "f64_of_int n = f64_make False ?r"
    using pos r unfolding f64_of_int_def f64_round_def whole by (simp only: if_False)
  have "?r = (int k + 1) * 2 ^ 52 + (m - 2 ^ 52)" by (simp add: algebra_simps)
  moreover have "0 \<le> m - 2 ^ 52" "m - 2 ^ 52 < 2 ^ 52" using j by (simp_all add: m_def)
  ultimately have "?r div 2 ^ 52 = int k + 1" "?r mod 2 ^ 52 = m - 2 ^ 52"
    by (metis add.commute div_mult_self3 div_pos_pos_trivial add.right_neutral zero_neq_numeral power_eq_0_iff, metis add.commute mod_mult_self3 mod_pos_pos_trivial)
  then have "scaled_magnitude ?r = m * 2 ^ k" by (simp add: scaled_magnitude_def)
  then show ?thesis unfolding x whole using range by (simp add: f64_exact_def f64_finite_def f64_make_sel)
qed

lemma f64_one_exact: "f64_exact f64_one = f64_unit" "\<not> f64_negative f64_one" "f64_number f64_one" "\<not> f64_infinite f64_one"
  by (simp_all add: f64_one_def f64_exact_def f64_negative_def f64_magnitude_def scaled_magnitude_def f64_unit_def
      f64_number_def f64_infinite_def f64_inf_def)

lemma f64_mul_one: "f64_finite x \<Longrightarrow> f64_mul x f64_one = x"
proof -
  assume x: "f64_finite x"
  then have "f64_number x" "\<not> f64_infinite x" by (simp_all add: f64_number_def f64_infinite_def f64_finite_def f64_inf_def)
  moreover have "0 < f64_unit" by (simp add: f64_unit_def)
  ultimately show ?thesis using f64_round_exact [OF x] by (simp add: f64_mul_def f64_one_exact)
qed

section \<open>Rounding is monotone\<close>

lemma round_half_even_mono: "0 < d \<Longrightarrow> n \<le> n' \<Longrightarrow> round_half_even n d \<le> round_half_even n' d"
proof -
  assume d: "0 < d" and le: "n \<le> n'"
  then have "n div d \<le> n' div d" by (simp add: zdiv_mono1)
  then consider "n div d < n' div d" | "n div d = n' div d" by force
  then show ?thesis
  proof cases
    case 1
    then show ?thesis by (simp add: round_half_even_def)
  next
    case 2
    then have "n mod d \<le> n' mod d" using le by (metis add_le_cancel_left mult_div_mod_eq)
    then show ?thesis using 2 by (simp add: round_half_even_def)
  qed
qed

lemma excess_mono: "q \<le> q' \<Longrightarrow> excess q \<le> excess q'"
proof (induction q arbitrary: q' rule: excess.induct)
  case (1 q)
  show ?case
  proof (cases "q < 2 ^ 53")
    case False
    then have "excess (q div 2) \<le> excess (q' div 2)" using 1 by (simp add: div_le_mono)
    then show ?thesis using False 1(2) by (subst (1 2) excess.simps) simp
  qed (simp add: excess.simps)
qed

lemma mantissa_bounds:
  assumes "0 \<le> n" "0 < d" and k: "k = excess (nat (n div d))"
  shows "round_half_even n (d * 2 ^ k) \<le> 2 ^ 53" "k \<noteq> 0 \<Longrightarrow> 2 ^ 52 \<le> round_half_even n (d * 2 ^ k)"
proof -
  let ?q = "nat (n div d)"
  have q: "n div d = int ?q" using assms by (simp add: pos_imp_zdiv_nonneg_iff)
  have m: "n div (d * 2 ^ k) = int (?q div 2 ^ k)" using assms(2) q by (metis of_nat_div of_nat_numeral of_nat_power zdiv_zmult2_eq zero_le_numeral zero_le_power)
  have "?q < 2 ^ (53 + k)" "k \<noteq> 0 \<Longrightarrow> 2 ^ (52 + k) \<le> ?q" using k excess_eq [of ?q k] by (auto split: if_splits)
  then have "?q div 2 ^ k < 2 ^ 53" "k \<noteq> 0 \<Longrightarrow> 2 ^ 52 \<le> ?q div 2 ^ k"
    by (simp_all add: less_mult_imp_div_less power_add less_eq_div_iff_mult_less_eq)
  then show "round_half_even n (d * 2 ^ k) \<le> 2 ^ 53" "k \<noteq> 0 \<Longrightarrow> 2 ^ 52 \<le> round_half_even n (d * 2 ^ k)"
    by (simp_all add: round_half_even_def m)
qed

lemma round_magnitude_mono:
  assumes "0 \<le> n" "n \<le> n'" "0 < d"
  shows "round_magnitude n d \<le> round_magnitude n' d"
proof -
  define k where "k = excess (nat (n div d))"
  define k' where "k' = excess (nat (n' div d))"
  have le: "k \<le> k'" unfolding k_def k'_def using assms by (intro excess_mono nat_mono zdiv_mono1)
  have "int k * 2 ^ 52 + round_half_even n (d * 2 ^ k) \<le> int k' * 2 ^ 52 + round_half_even n' (d * 2 ^ k')"
  proof (cases "k = k'")
    case True
    then show ?thesis using round_half_even_mono [OF _ assms(2), of "d * 2 ^ k'"] assms(3) by simp
  next
    case False
    have "round_half_even n (d * 2 ^ k) \<le> 2 ^ 53" using mantissa_bounds(1) [OF assms(1,3) k_def] .
    moreover have "2 ^ 52 \<le> round_half_even n' (d * 2 ^ k')" using mantissa_bounds(2) [OF _ assms(3) k'_def] assms False le by simp
    moreover have "(int k + 1) * 2 ^ 52 \<le> int k' * 2 ^ 52" using False le by (intro mult_right_mono) simp_all
    ultimately show ?thesis by (simp add: algebra_simps)
  qed
  then show ?thesis unfolding round_magnitude_def k_def [symmetric] k'_def [symmetric] Let_def by linarith
qed

section \<open>Whole numbers\<close>

lemma f64_neg_sel: "f64_magnitude (f64_neg x) = f64_magnitude x" "f64_negative (f64_neg x) = (\<not> f64_negative x)"
proof -
  have "x = f64_make (f64_negative x) (f64_magnitude x)" by (simp add: f64_make_parts)
  moreover have m: "0 \<le> f64_magnitude x" "f64_magnitude x < 2 ^ 63" by (simp_all add: f64_magnitude_def)
  moreover have "f64_neg (f64_make neg m) = f64_make (\<not> neg) m" for neg m
    by (simp add: f64_neg_def f64_make_def)
  ultimately have "f64_neg x = f64_make (\<not> f64_negative x) (f64_magnitude x)" by metis
  then show "f64_magnitude (f64_neg x) = f64_magnitude x" "f64_negative (f64_neg x) = (\<not> f64_negative x)"
    using f64_make_sel [OF m] by simp_all
qed

lemma whole_number:
  assumes "0 \<le> n" "n < 2 ^ 53"
  shows "f64_number (f64_of_int n)" "\<not> f64_infinite (f64_of_int n)" "\<not> f64_negative (f64_of_int n)" "f64_exact (f64_of_int n) = n * f64_unit"
    "f64_magnitude (f64_of_int n) = 0 \<longleftrightarrow> n = 0"
proof -
  note x = f64_exact_of_int [OF assms]
  then show "f64_number (f64_of_int n)" "\<not> f64_infinite (f64_of_int n)" "\<not> f64_negative (f64_of_int n)" "f64_exact (f64_of_int n) = n * f64_unit"
    by (auto simp: f64_finite_def f64_number_def f64_infinite_def f64_inf_def)
  have "f64_magnitude (f64_of_int n) = 0 \<longleftrightarrow> scaled_magnitude (f64_magnitude (f64_of_int n)) = 0"
    using scaled_magnitude_0 [of "f64_magnitude (f64_of_int n)"] x by (auto simp: f64_finite_def f64_magnitude_nonneg scaled_magnitude_def)
  also have "\<dots> \<longleftrightarrow> n * f64_unit = 0" using x by (auto simp: f64_exact_def)
  also have "\<dots> \<longleftrightarrow> n = 0" by (simp add: f64_unit_def)
  finally show "f64_magnitude (f64_of_int n) = 0 \<longleftrightarrow> n = 0" .
qed

lemma f64_sub_of_int:
  assumes "0 \<le> m" "m \<le> n" "n < 2 ^ 53"
  shows "f64_sub (f64_of_int n) (f64_of_int m) = f64_of_int (n - m)"
proof -
  note n = whole_number [of n] and m = whole_number [of m]
  have "f64_exact (f64_neg (f64_of_int m)) = - (m * f64_unit)"
    using m assms by (simp add: f64_exact_def f64_neg_sel)
  then show ?thesis
    using n m assms by (simp add: f64_sub_def f64_add_def f64_neg_sel f64_number_def f64_infinite_def f64_of_int_def algebra_simps)
qed

lemma f64_mul_of_int:
  assumes "0 \<le> m" "m < 2 ^ 53" "0 \<le> n" "n < 2 ^ 53"
  shows "f64_mul (f64_of_int n) (f64_of_int m) = f64_of_int (n * m)"
proof -
  note n = whole_number [OF assms(3,4)] and m = whole_number [OF assms(1,2)]
  have u: "0 < f64_unit" by (simp add: f64_unit_def)
  have "f64_round False (n * f64_unit * (m * f64_unit)) f64_unit = f64_round False (n * m * f64_unit) 1"
  proof -
    have eq: "n * f64_unit * (m * f64_unit) = (n * m * f64_unit) * f64_unit" by (simp only: ac_simps)
    have "0 \<le> n * m * f64_unit" "0 \<le> (n * m * f64_unit) * f64_unit" using assms u by simp_all
    then show ?thesis
      unfolding eq using round_magnitude_scale [OF u, of "n * m * f64_unit" 1] u by (simp only: f64_round_nonneg mult_1 zero_less_one)
  qed
  then show ?thesis using n m by (simp add: f64_mul_def f64_of_int_def [of "n * m"])
qed

text \<open>A quotient of whole numbers is at most a whole number that is.\<close>

lemma f64_div_of_int_le:
  assumes "0 \<le> n" "n < 2 ^ 53" "0 < d" "d < 2 ^ 53" and q: "n \<le> q * d" "0 \<le> q" "q < 2 ^ 53"
  shows "f64_le 0 (f64_div (f64_of_int n) (f64_of_int d)) \<and> f64_le (f64_div (f64_of_int n) (f64_of_int d)) (f64_of_int q)"
proof -
  have u: "0 < f64_unit" by (simp add: f64_unit_def)
  note wn = whole_number [OF assms(1,2)] and wd = whole_number [of d] and wq = whole_number [OF q(2,3)]
  let ?r = "round_magnitude (n * f64_unit) d"
  have "f64_div (f64_of_int n) (f64_of_int d) = f64_round False ((n * f64_unit) * f64_unit) (d * f64_unit)"
    using wn wd assms u by (simp add: f64_div_def abs_mult)
  also have "\<dots> = f64_make False ?r"
  proof -
    have "0 \<le> (n * f64_unit) * f64_unit" using assms u by simp
    moreover have "0 < d * f64_unit" using assms u by simp
    ultimately show ?thesis using round_magnitude_scale [OF u, of "n * f64_unit" d] by (simp only: f64_round_nonneg)
  qed
  finally have div: "f64_div (f64_of_int n) (f64_of_int d) = f64_make False ?r" .
  have "?r \<le> round_magnitude (q * f64_unit * d) (1 * d)"
    unfolding mult_1 using assms u mult_right_mono [OF q(1), of f64_unit] by (intro round_magnitude_mono) (simp_all add: ac_simps)
  also have "\<dots> = round_magnitude (q * f64_unit) 1" by (rule round_magnitude_scale [OF assms(3)])
  also have "\<dots> = f64_magnitude (f64_of_int q)"
  proof -
    have "round_magnitude (scaled_magnitude (f64_magnitude (f64_of_int q))) 1 = f64_magnitude (f64_of_int q)"
      using wq(1,2) by (intro round_scaled) (simp_all add: f64_magnitude_nonneg f64_number_def f64_infinite_def f64_inf_def)
    then show ?thesis using wq by (simp add: f64_exact_def)
  qed
  finally have le: "?r \<le> f64_magnitude (f64_of_int q)" .
  have "round_magnitude 0 d \<le> ?r" using assms u by (intro round_magnitude_mono) simp_all
  then have nonneg: "0 \<le> ?r" using assms by simp
  have "f64_magnitude (f64_of_int q) \<le> 9218868437227405312" using wq(1) by (simp add: f64_number_def)
  then have r: "?r < 2 ^ 63" using le by simp
  have "f64_value (f64_make False ?r) = ?r" "f64_value (f64_of_int q) = f64_magnitude (f64_of_int q)"
    using f64_make_sel [OF nonneg r, of False] wq(3) by (simp_all add: f64_value_def f64_negative_def)
  then show ?thesis
    using f64_make_sel [OF nonneg r, of False] wq(1) le nonneg unfolding div
    by (simp add: f64_le_def f64_number_def f64_value_def [of 0] f64_magnitude_def [of 0])
qed

end
