(* ===== verification/AgentConnectors.thy ===== *)
theory AgentConnectors
  imports GoFloat
begin

text \<open>
  The devices behind a gateway: the interface of a connector, \<^verbatim>\<open>agent/pkg/connectorsdk/sdk.go\<close>, the Modbus
  TCP connector and the simulator, \<^verbatim>\<open>agent/internal/connectors\<close>, and the gateway that asks all its connectors,
  \<^verbatim>\<open>agent/internal/gateway/gateway.go\<close>. The network, the clock and what a connector remembers are parts of the
  world \<open>'w\<close>.
\<close>

unbundle bit_operations_syntax

section \<open>The interface\<close>

type_synonym u8 = "8 word"
type_synonym u16 = "16 word"

record sdk_device =
  sd_ID :: string
  sd_ParentGatewayID :: string
  ConnectorType :: string
  ProtocolAddress :: string
  sd_Model :: string
  FirmwareVersion :: string
  sd_LastSeen :: go_time
  sd_Health :: string
  sd_Capabilities :: "string list"
  CommandAllowlist :: "string list"

record sdk_metric =
  sm_DeviceID :: string
  sm_Name :: string
  sm_Value :: u64
  sm_Unit :: string
  sm_Time :: go_time

record 'w connector =
  conn_Discover :: "'w \<Rightarrow> sdk_device list result \<times> 'w"
  conn_Collect :: "sdk_device \<Rightarrow> 'w \<Rightarrow> sdk_metric list result \<times> 'w"

section \<open>Modbus\<close>

record ModbusRegister =
  mr_Name :: string
  mr_Address :: u16
  mr_Unit :: string
  mr_Scale :: u64

record ModbusEndpoint =
  ep_ID :: string
  ep_Address :: string
  ep_UnitID :: u8
  ep_Model :: string
  ep_Firmware :: string
  Registers :: "ModbusRegister list"

record ModbusTCPConnector =
  mb_GatewayID :: string
  mb_Timeout :: duration
  MinPeriod :: duration
  Endpoints :: "ModbusEndpoint list"
  mb_last :: go_time

text \<open>
  What the connector calls: one exchange over a new connection, which fails to send the request or delivers what the peer
  sends until the error that ends the stream, the clock, and the wait that the context may end.
\<close>

record 'w modbus_net =
  mb_exchange :: "string \<Rightarrow> u8 list \<Rightarrow> duration \<Rightarrow> 'w \<Rightarrow> (u8 list \<times> go_error) result \<times> 'w"
  mb_now :: "'w \<Rightarrow> go_time \<times> 'w"
  mb_wait :: "duration \<Rightarrow> 'w \<Rightarrow> go_error option \<times> 'w"

definition ErrCommandNotAllowed :: go_error where
  "ErrCommandNotAllowed = ErrorString ''connector command is not allowlisted''"

definition read_request :: "u8 \<Rightarrow> u16 \<Rightarrow> u8 list" where
  "read_request unit register = [0, 1, 0, 0, 0, 6, unit, 3, ucast (drop_bit 8 register), ucast register, 0, 1]"

definition big_endian :: "u8 \<Rightarrow> u8 \<Rightarrow> u16" where
  "big_endian hi lo = push_bit 8 (ucast hi) OR ucast lo"

definition readHoldingRegister ::
  "'w modbus_net \<Rightarrow> string \<Rightarrow> u8 \<Rightarrow> u16 \<Rightarrow> duration \<Rightarrow> 'w \<Rightarrow> u16 result \<times> 'w" where
  "readHoldingRegister net addr unit register timeout w =
     (let (r, w) = mb_exchange net addr (read_request unit register) timeout w in
      (case r of
         Inl err \<Rightarrow> Inl err
       | Inr (res, ended) \<Rightarrow>
           if length res < 11 then Inl ended
           else if res ! 7 \<noteq> 3 \<or> res ! 8 \<noteq> 2 then Inl (ErrorString ''invalid modbus response'')
           else Inr (big_endian (res ! 9) (res ! 10)), w))"

definition modbus_Discover :: "'w modbus_net \<Rightarrow> ModbusTCPConnector \<Rightarrow> 'w \<Rightarrow> sdk_device list result \<times> 'w" where
  "modbus_Discover net m w =
     (let (t, w) = mb_now net w in
      (Inr (map (\<lambda>ep. \<lparr>sd_ID = ep_ID ep, sd_ParentGatewayID = mb_GatewayID m, ConnectorType = ''modbus-tcp'', ProtocolAddress = ep_Address ep,
         sd_Model = ep_Model ep, FirmwareVersion = ep_Firmware ep, sd_LastSeen = t, sd_Health = ''unknown'', sd_Capabilities = [''read_registers''],
         CommandAllowlist = []\<rparr>) (Endpoints m)), w))"

definition modbus_endpoint :: "ModbusTCPConnector \<Rightarrow> string \<Rightarrow> ModbusEndpoint option" where
  "modbus_endpoint m i = List.find (\<lambda>ep. ep_ID ep = i) (Endpoints m)"

definition rateLimit :: "'w modbus_net \<Rightarrow> ModbusTCPConnector \<Rightarrow> 'w \<Rightarrow> go_error option \<times> ModbusTCPConnector \<times> 'w" where
  "rateLimit net m w =
     (let m = (if MinPeriod m = 0 then m\<lparr>MinPeriod := 100 * Millisecond\<rparr> else m);
          (t, w) = mb_now net w;
          wait = i64 (MinPeriod m - time_Sub t (mb_last m));
          (err, w) = (if 0 < wait then mb_wait net wait w else (None, w)) in
      case err of
        Some err \<Rightarrow> (Some err, m, w)
      | None \<Rightarrow> (let (t, w) = mb_now net w in (None, m\<lparr>mb_last := t\<rparr>, w)))"

definition register_metric :: "string \<Rightarrow> ModbusRegister \<Rightarrow> u16 \<Rightarrow> go_time \<Rightarrow> sdk_metric" where
  "register_metric device reg val t =
     (let scale = (if f64_magnitude (mr_Scale reg) = 0 then f64_one else mr_Scale reg) in
      \<lparr>sm_DeviceID = device, sm_Name = mr_Name reg, sm_Value = f64_mul (f64_of_int (uint val)) scale, sm_Unit = mr_Unit reg, sm_Time = t\<rparr>)"

fun collect_registers ::
  "'w modbus_net \<Rightarrow> ModbusEndpoint \<Rightarrow> duration \<Rightarrow> string \<Rightarrow> ModbusRegister list \<Rightarrow> 'w \<Rightarrow> sdk_metric list result \<times> 'w" where
  "collect_registers net ep timeout device [] w = (Inr [], w)"
| "collect_registers net ep timeout device (reg # regs) w =
     (let (r, w) = readHoldingRegister net (ep_Address ep) (ep_UnitID ep) (mr_Address reg) timeout w in
      case r of
        Inl err \<Rightarrow> (Inl err, w)
      | Inr val \<Rightarrow>
          (let (t, w) = mb_now net w; (rest, w) = collect_registers net ep timeout device regs w in
           (case rest of Inl err \<Rightarrow> Inl err | Inr metrics \<Rightarrow> Inr (register_metric device reg val t # metrics), w)))"

definition modbus_Collect ::
  "'w modbus_net \<Rightarrow> ModbusTCPConnector \<Rightarrow> sdk_device \<Rightarrow> 'w \<Rightarrow> sdk_metric list result \<times> ModbusTCPConnector \<times> 'w" where
  "modbus_Collect net m d w =
     (case modbus_endpoint m (sd_ID d) of
        None \<Rightarrow> (Inl (ErrorString (''unknown downstream device '' @ sd_ID d)), m, w)
      | Some ep \<Rightarrow>
          if Registers ep = [] then (Inr [], m, w)
          else
            let m = (if mb_Timeout m = 0 then m\<lparr>mb_Timeout := 2 * Second\<rparr> else m);
                (err, m, w) = rateLimit net m w in
            case err of
              Some err \<Rightarrow> (Inl err, m, w)
            | None \<Rightarrow> (let (r, w) = collect_registers net ep (mb_Timeout m) (sd_ID d) (Registers ep) w in (r, m, w)))"

definition modbus_Invoke :: "sdk_device \<Rightarrow> string \<Rightarrow> go_error option" where
  "modbus_Invoke d command = Some ErrCommandNotAllowed"

section \<open>The simulator\<close>

definition sim_device :: "string \<Rightarrow> go_time \<Rightarrow> string \<Rightarrow> string \<Rightarrow> string list \<Rightarrow> sdk_device" where
  "sim_device gateway t name model allowlist =
     \<lparr>sd_ID = gateway @ ''-'' @ name, sd_ParentGatewayID = gateway, ConnectorType = ''simulator'', ProtocolAddress = ''sim://'' @ name,
      sd_Model = model, FirmwareVersion = ''1.0.0'', sd_LastSeen = t, sd_Health = ''healthy'', sd_Capabilities = [''telemetry''],
      CommandAllowlist = allowlist\<rparr>"

definition sim_Discover :: "string \<Rightarrow> go_time \<Rightarrow> sdk_device list result" where
  "sim_Discover gateway t =
     Inr [sim_device gateway t ''controller-a'' ''sim-controller'' [''firmware.simulate''], sim_device gateway t ''meter-c'' ''sim-meter'' []]"

definition sim_Collect :: "sdk_device \<Rightarrow> go_time \<Rightarrow> sdk_metric list result" where
  "sim_Collect d t = Inr [\<lparr>sm_DeviceID = sd_ID d, sm_Name = ''sim.health'', sm_Value = f64_one, sm_Unit = ''state'', sm_Time = t\<rparr>]"

definition sim_Invoke :: "sdk_device \<Rightarrow> string \<Rightarrow> go_error option" where
  "sim_Invoke d command = (if command \<in> set (CommandAllowlist d) then None else Some ErrCommandNotAllowed)"

section \<open>The gateway\<close>

fun gateway_Discover :: "'w connector list \<Rightarrow> 'w \<Rightarrow> sdk_device list \<times> go_error option \<times> 'w" where
  "gateway_Discover [] w = ([], None, w)"
| "gateway_Discover (c # cs) w =
     (let (r, w) = conn_Discover c w in
      case r of
        Inl err \<Rightarrow> ([], Some err, w)
      | Inr devices \<Rightarrow> (let (out, err, w) = gateway_Discover cs w in (devices @ out, err, w)))"

fun collect_devices :: "'w connector \<Rightarrow> sdk_device list \<Rightarrow> 'w \<Rightarrow> sdk_metric list \<times> 'w" where
  "collect_devices c [] w = ([], w)"
| "collect_devices c (d # ds) w =
     (let (r, w) = conn_Collect c d w; (rest, w) = collect_devices c ds w in
      (case r of Inl err \<Rightarrow> rest | Inr metrics \<Rightarrow> metrics @ rest, w))"

fun gateway_Collect :: "'w connector list \<Rightarrow> 'w \<Rightarrow> sdk_metric list \<times> go_error option \<times> 'w" where
  "gateway_Collect [] w = ([], None, w)"
| "gateway_Collect (c # cs) w =
     (let (r, w) = conn_Discover c w in
      case r of
        Inl err \<Rightarrow> ([], Some err, w)
      | Inr devices \<Rightarrow>
          (let (found, w) = collect_devices c devices w; (out, err, w) = gateway_Collect cs w in (found @ out, err, w)))"

section \<open>The contract of a connector\<close>

text \<open>
  A connector of a gateway discovers devices of that gateway only, and what it collects for a device carries that
  device's name. \<open>good\<close> is what the connector keeps true of the world, its own state included.
\<close>

locale downstream =
  fixes gateway :: string and good :: "'w \<Rightarrow> bool" and c :: "'w connector"
  assumes discovers: "good w \<Longrightarrow> conn_Discover c w = (r, w') \<Longrightarrow> good w' \<and> (\<forall>ds. r = Inr ds \<longrightarrow> (\<forall>d \<in> set ds. sd_ParentGatewayID d = gateway))"
    and collects: "good w \<Longrightarrow> conn_Collect c d w = (q, w') \<Longrightarrow> good w' \<and> (\<forall>ms. q = Inr ms \<longrightarrow> (\<forall>m \<in> set ms. sm_DeviceID m = sd_ID d))"
begin

lemma collect_devices_named:
  "good w \<Longrightarrow> collect_devices c ds w = (ms, w') \<Longrightarrow> good w' \<and> (\<forall>m \<in> set ms. sm_DeviceID m \<in> sd_ID ` set ds)"
proof (induction ds arbitrary: w ms w')
  case (Cons d ds)
  obtain r w1 where r: "conn_Collect c d w = (r, w1)" by fastforce
  obtain rest w2 where rest: "collect_devices c ds w1 = (rest, w2)" by fastforce
  note one = collects [OF Cons.prems(1) r]
  note more = Cons.IH [OF _ rest]
  show ?case using Cons.prems(2) r rest one more by (fastforce split: sum.splits)
qed simp

end

text \<open>The metrics a gateway collects are of devices it discovered, and those are its own.\<close>

lemma gateway_collects_own_devices:
  assumes cs: "\<forall>c \<in> set cs. downstream g good c" and w: "good w"
    and run: "gateway_Collect cs w = (ms, err, w')"
  shows "good w' \<and> (\<exists>ds :: sdk_device list. (\<forall>d \<in> set ds. sd_ParentGatewayID d = g) \<and> (\<forall>m \<in> set ms. sm_DeviceID m \<in> sd_ID ` set ds))"
  using cs w run
proof (induction cs arbitrary: w ms err w')
  case Nil
  then show ?case by (auto intro: exI [of _ "[]"])
next
  case (Cons c cs)
  have c: "downstream g good c" using Cons.prems(1) by simp
  obtain r w1 where r: "conn_Discover c w = (r, w1)" by fastforce
  note d = downstream.discovers [OF c Cons.prems(2) r]
  show ?case
  proof (cases r)
    case (Inl e)
    then show ?thesis using Cons.prems(3) r d by (auto intro: exI [of _ "[]"])
  next
    case (Inr devices)
    obtain found w2 where f: "collect_devices c devices w1 = (found, w2)" by fastforce
    obtain out e w3 where o: "gateway_Collect cs w2 = (out, e, w3)" by (metis prod.collapse)
    have one: "good w2" "\<forall>m \<in> set found. sm_DeviceID m \<in> sd_ID ` set devices"
      using downstream.collect_devices_named [OF c _ f] d by blast+
    obtain ds :: "sdk_device list" where ds: "good w3" "\<forall>d \<in> set ds. sd_ParentGatewayID d = g" "\<forall>m \<in> set out. sm_DeviceID m \<in> sd_ID ` set ds"
      using Cons.IH [OF _ one(1) o] Cons.prems(1) by auto
    have out: "ms = found @ out" "w' = w3" using Cons.prems(3) r Inr f o by simp_all
    have "\<forall>d \<in> set (devices @ ds). sd_ParentGatewayID d = g" using d Inr ds(2) by auto
    moreover have "\<forall>m \<in> set ms. sm_DeviceID m \<in> sd_ID ` set (devices @ ds)" using one(2) ds(3) unfolding out(1) by auto
    ultimately show ?thesis using ds(1) unfolding out(2) by blast
  qed
qed

section \<open>The connectors keep it\<close>

definition modbus_connector :: "'w modbus_net \<Rightarrow> (ModbusTCPConnector \<times> 'w) connector" where
  "modbus_connector net =
     \<lparr>conn_Discover = (\<lambda>(m, w). let (r, w) = modbus_Discover net m w in (r, m, w)),
      conn_Collect = (\<lambda>d (m, w). modbus_Collect net m d w)\<rparr>"

definition sim_connector :: "string \<Rightarrow> ('w \<Rightarrow> go_time \<times> 'w) \<Rightarrow> 'w connector" where
  "sim_connector gateway clock =
     \<lparr>conn_Discover = (\<lambda>w. let (t, w) = clock w in (sim_Discover gateway t, w)),
      conn_Collect = (\<lambda>d w. let (t, w) = clock w in (sim_Collect d t, w))\<rparr>"

lemma collect_registers_named:
  "collect_registers net ep timeout device regs w = (Inr ms, w') \<Longrightarrow> m \<in> set ms \<Longrightarrow> sm_DeviceID m = device"
proof (induction regs arbitrary: w ms w')
  case (Cons reg regs)
  then show ?case by (auto simp: register_metric_def Let_def split: prod.splits sum.splits)
qed simp

lemma rateLimit_gateway: "rateLimit net m w = (err, m', w') \<Longrightarrow> mb_GatewayID m' = mb_GatewayID m \<and> Endpoints m' = Endpoints m \<and> mb_Timeout m' = mb_Timeout m"
  by (auto simp: rateLimit_def Let_def split: prod.splits option.splits if_splits)

lemma modbus_Collect_contract:
  assumes "modbus_Collect net m d w = (r, m', w')"
  shows "mb_GatewayID m' = mb_GatewayID m \<and> (\<forall>ms. r = Inr ms \<longrightarrow> (\<forall>x \<in> set ms. sm_DeviceID x = sd_ID d))"
  using assms
  by (auto simp: modbus_Collect_def Let_def dest!: rateLimit_gateway dest: collect_registers_named split: option.splits prod.splits if_splits)

interpretation modbus: downstream g "\<lambda>(m, w). mb_GatewayID m = g" "modbus_connector net"
proof unfold_locales
  fix w r w'
  assume "case w of (m, w) \<Rightarrow> mb_GatewayID m = g" "conn_Discover (modbus_connector net) w = (r, w')"
  then show "(case w' of (m, w) \<Rightarrow> mb_GatewayID m = g) \<and> (\<forall>ds. r = Inr ds \<longrightarrow> (\<forall>d \<in> set ds. sd_ParentGatewayID d = g))"
    by (auto simp: modbus_connector_def modbus_Discover_def split: prod.splits)
next
  fix w :: "ModbusTCPConnector \<times> 'a" and d :: sdk_device and r w'
  assume "case w of (m, w) \<Rightarrow> mb_GatewayID m = g" "conn_Collect (modbus_connector net) d w = (r, w')"
  then show "(case w' of (m, w) \<Rightarrow> mb_GatewayID m = g) \<and> (\<forall>ms. r = Inr ms \<longrightarrow> (\<forall>m \<in> set ms. sm_DeviceID m = sd_ID d))"
    using modbus_Collect_contract [of net "fst w" d "snd w" r "fst w'" "snd w'"] by (cases w; cases w') (simp add: modbus_connector_def)
qed

interpretation sim: downstream g "\<lambda>w. True" "sim_connector g clock"
  by unfold_locales (auto simp: sim_connector_def sim_Discover_def sim_Collect_def sim_device_def split: prod.splits)

section \<open>Reading registers\<close>

text \<open>The answer of a device that holds \<open>val\<close> in the register asked for, and a device that answers so.\<close>

definition read_reply :: "u8 \<Rightarrow> u16 \<Rightarrow> u8 list" where
  "read_reply unit val = [0, 1, 0, 0, 0, 5, unit, 3, 2, ucast (drop_bit 8 val), ucast val]"

definition serves :: "'w modbus_net \<Rightarrow> ModbusEndpoint \<Rightarrow> (u16 \<Rightarrow> u16) \<Rightarrow> bool" where
  "serves net ep regs \<longleftrightarrow> (\<forall>register timeout w. \<exists>ended w'.
     mb_exchange net (ep_Address ep) (read_request (ep_UnitID ep) register) timeout w = (Inr (read_reply (ep_UnitID ep) (regs register), ended), w'))"

lemma big_endian_bytes: "big_endian (ucast (drop_bit 8 x)) (ucast x) = x"
  by (rule bit_word_eqI) (auto simp: big_endian_def bit_simps)

text \<open>The address of a register is in the request, high byte first.\<close>

lemma read_request_inj: "read_request unit x = read_request unit' y \<longleftrightarrow> unit = unit' \<and> x = y"
proof
  assume "read_request unit x = read_request unit' y"
  then have "unit = unit'" "ucast (drop_bit 8 x) = (ucast (drop_bit 8 y) :: u8)" "ucast x = (ucast y :: u8)"
    by (simp_all only: read_request_def list.inject)
  then show "unit = unit' \<and> x = y" by (metis big_endian_bytes)
qed simp

lemma read_served:
  assumes "serves net ep regs"
  shows "\<exists>w'. readHoldingRegister net (ep_Address ep) (ep_UnitID ep) register timeout w = (Inr (regs register), w')"
proof -
  obtain ended w' where "mb_exchange net (ep_Address ep) (read_request (ep_UnitID ep) register) timeout w
      = (Inr (read_reply (ep_UnitID ep) (regs register), ended), w')"
    using assms unfolding serves_def by blast
  then show ?thesis by (simp add: readHoldingRegister_def read_reply_def big_endian_bytes)
qed

lemma collect_served:
  assumes "serves net ep regs"
  shows "\<exists>ms w'. collect_registers net ep timeout device rs w = (Inr ms, w')
    \<and> list_all2 (\<lambda>reg m. \<exists>t. m = register_metric device reg (regs (mr_Address reg)) t) rs ms"
proof (induction rs arbitrary: w)
  case (Cons reg rs)
  obtain w1 where r: "readHoldingRegister net (ep_Address ep) (ep_UnitID ep) (mr_Address reg) timeout w = (Inr (regs (mr_Address reg)), w1)"
    using read_served [OF assms] by blast
  obtain t w2 where t: "mb_now net w1 = (t, w2)" by fastforce
  obtain ms w3 where more: "collect_registers net ep timeout device rs w2 = (Inr ms, w3)"
    "list_all2 (\<lambda>reg m. \<exists>t. m = register_metric device reg (regs (mr_Address reg)) t) rs ms"
    using Cons by blast
  then have "collect_registers net ep timeout device (reg # rs) w = (Inr (register_metric device reg (regs (mr_Address reg)) t # ms), w3)"
    using r t by simp
  then show ?case using more(2) by blast
qed simp

text \<open>A device that answers is read completely, register by register, and without a scale the value is the register's.\<close>

lemma modbus_collects_the_registers:
  assumes "modbus_endpoint m (sd_ID d) = Some ep" "serves net ep regs" "\<And>wait w. fst (mb_wait net wait w) = None"
  shows "\<exists>ms m' w'. modbus_Collect net m d w = (Inr ms, m', w')
    \<and> list_all2 (\<lambda>reg x. \<exists>t. x = register_metric (sd_ID d) reg (regs (mr_Address reg)) t) (Registers ep) ms"
proof (cases "Registers ep = []")
  case False
  let ?m = "if mb_Timeout m = 0 then m\<lparr>mb_Timeout := 2 * Second\<rparr> else m"
  have "fst (rateLimit net ?m w) = None"
    using assms(3) by (auto simp: rateLimit_def Let_def split: prod.splits option.splits) (metis fst_conv option.distinct(1))+
  then obtain m1 w1 where l: "rateLimit net ?m w = (None, m1, w1)" by (metis prod.collapse)
  obtain ms w2 where "collect_registers net ep (mb_Timeout m1) (sd_ID d) (Registers ep) w1 = (Inr ms, w2)"
    "list_all2 (\<lambda>reg x. \<exists>t. x = register_metric (sd_ID d) reg (regs (mr_Address reg)) t) (Registers ep) ms"
    using collect_served [OF assms(2)] by blast
  then show ?thesis using assms(1) False l by (simp add: modbus_Collect_def Let_def)
qed (use assms(1) in \<open>simp add: modbus_Collect_def\<close>)

lemma unscaled_value:
  assumes "f64_magnitude (mr_Scale reg) = 0"
  shows "f64_exact (sm_Value (register_metric device reg val t)) = uint val * f64_unit"
proof -
  have "0 \<le> uint val" "uint val < 2 ^ 53" using uint_lt2p [of val] by simp_all
  from f64_exact_of_int [OF this] show ?thesis using assms by (simp add: register_metric_def f64_mul_one)
qed

end
