(* ===== verification/AgentTelemetry.thy ===== *)
theory AgentTelemetry
  imports GoFloat
begin

text \<open>
  The metrics of a device, \<^verbatim>\<open>agent/internal/telemetry/telemetry.go\<close>: the collector of the system's files
  and the loop over collectors. How \<^verbatim>\<open>strconv.ParseFloat\<close> reads a text is a parameter: the value it returns,
  also beside an error, and whether there is none.
\<close>

section \<open>Data\<close>

record agent_metric =
  am_Name :: string
  am_Value :: u64
  am_Unit :: string
  am_Labels :: "(string \<times> string) list"
  am_TimeUnixNano :: int

text \<open>
  The system: its files (\<open>None\<close> for one that cannot be read), \<^verbatim>\<open>/proc/stat\<close> at the first and the second
  reading, whether the wait between them runs to its end, the clock at the start and at the end, and for a file
  system its blocks, the blocks available and their size.
\<close>

record system_env =
  sy_ReadFile :: "string \<Rightarrow> string option"
  sy_stat :: "string option"
  sy_stat_later :: "string option"
  sy_waited :: bool
  sy_now :: int
  sy_later :: int
  sy_NumGoroutine :: int
  sy_Statfs :: "string \<Rightarrow> (u64 \<times> u64 \<times> u64) option"
  sy_ParseFloat :: "string \<Rightarrow> u64 \<times> bool"

definition f64_hundred :: u64 where "f64_hundred = f64_of_int 100"
definition f64_minus_one :: u64 where "f64_minus_one = f64_neg f64_one"
definition f64_of_u64 :: "u64 \<Rightarrow> u64" where "f64_of_u64 w = f64_of_int (uint w)"

definition parsed :: "system_env \<Rightarrow> string \<Rightarrow> u64" where
  "parsed env s = fst (sy_ParseFloat env s)"

section \<open>The processor\<close>

fun parse_counters :: "string list \<Rightarrow> u64 list option" where
  "parse_counters [] = Some []"
| "parse_counters (f # fs) =
     (case ParseUint f of
        None \<Rightarrow> None
      | Some n \<Rightarrow> (case parse_counters fs of None \<Rightarrow> None | Some vs \<Rightarrow> Some (of_nat n # vs)))"

definition readCPUStat :: "string option \<Rightarrow> (u64 \<times> u64) option" where
  "readCPUStat file =
     (case file of
        None \<Rightarrow> None
      | Some b \<Rightarrow>
          (let fields = Fields (hd (Split CHR 0x0A b)) in
           if length fields < 5 \<or> fields ! 0 \<noteq> ''cpu'' then None
           else case parse_counters (tl fields) of
             None \<Rightarrow> None
           | Some values \<Rightarrow>
               Some (sum_list values, if 4 < length values then values ! 3 + values ! 4 else values ! 3)))"

definition cpu_share :: "u64 \<Rightarrow> u64 \<Rightarrow> u64" where
  "cpu_share deltaTotal deltaIdle =
     f64_div (f64_mul (f64_sub (f64_of_u64 deltaTotal) (f64_of_u64 deltaIdle)) f64_hundred) (f64_of_u64 deltaTotal)"

definition readCPUUtilization :: "system_env \<Rightarrow> u64" where
  "readCPUUtilization env =
     (case readCPUStat (sy_stat env) of
        None \<Rightarrow> f64_minus_one
      | Some (totalA, idleA) \<Rightarrow>
          if \<not> sy_waited env then f64_minus_one
          else case readCPUStat (sy_stat_later env) of
            None \<Rightarrow> f64_minus_one
          | Some (totalB, idleB) \<Rightarrow>
              if totalB \<le> totalA then f64_minus_one else cpu_share (totalB - totalA) (idleB - idleA))"

section \<open>The other readings\<close>

fun meminfo_line :: "system_env \<Rightarrow> u64 go_map \<Rightarrow> string \<Rightarrow> u64 go_map" where
  "meminfo_line env values line =
     (let fields = Fields line in
      if length fields < 2 then values
      else mput (TrimSuffix (fields ! 0) '':'') (f64_mul (parsed env (fields ! 1)) (f64_of_int 1024)) values)"

definition float_of :: "u64 go_map \<Rightarrow> string \<Rightarrow> u64" where
  "float_of m k = (case mget m k of Some v \<Rightarrow> v | None \<Rightarrow> 0)"

definition readMemory :: "system_env \<Rightarrow> u64 \<times> u64" where
  "readMemory env =
     (case sy_ReadFile env ''/proc/meminfo'' of
        None \<Rightarrow> (0, 0)
      | Some b \<Rightarrow>
          (let values = foldl (meminfo_line env) [] (Split CHR 0x0A b); whole = float_of values ''MemTotal'' in
           (f64_sub whole (float_of values ''MemAvailable''), whole)))"

definition readUptime :: "system_env \<Rightarrow> u64" where
  "readUptime env =
     (case sy_ReadFile env ''/proc/uptime'' of
        None \<Rightarrow> 0
      | Some b \<Rightarrow> (case Fields b of [] \<Rightarrow> 0 | f # fs \<Rightarrow> parsed env f))"

definition readLoadAvg :: "system_env \<Rightarrow> u64" where
  "readLoadAvg env =
     (case sy_ReadFile env ''/proc/loadavg'' of
        None \<Rightarrow> f64_minus_one
      | Some b \<Rightarrow>
          (case Fields (hd (Split CHR 0x0A b)) of
             [] \<Rightarrow> f64_minus_one
           | f # fs \<Rightarrow> (let (v, ok) = sy_ParseFloat env f in if ok then v else f64_minus_one)))"

definition network_line :: "system_env \<Rightarrow> u64 \<times> u64 \<Rightarrow> string \<Rightarrow> u64 \<times> u64" where
  "network_line env sums line =
     (case Cut CHR '':'' line of
        None \<Rightarrow> sums
      | Some (name, values) \<Rightarrow>
          (let fields = Fields values in
           if TrimSpace name = ''lo'' \<or> length fields < 9 then sums
           else (f64_add (fst sums) (parsed env (fields ! 0)), f64_add (snd sums) (parsed env (fields ! 8)))))"

definition readNetworkTotals :: "system_env \<Rightarrow> u64 \<times> u64" where
  "readNetworkTotals env =
     (case sy_ReadFile env ''/proc/net/dev'' of
        None \<Rightarrow> (f64_minus_one, f64_minus_one)
      | Some b \<Rightarrow> foldl (network_line env) (0, 0) (Split CHR 0x0A b))"

fun first_temperature :: "system_env \<Rightarrow> string list \<Rightarrow> u64" where
  "first_temperature env [] = f64_minus_one"
| "first_temperature env (path # paths) =
     (case sy_ReadFile env path of
        None \<Rightarrow> first_temperature env paths
      | Some b \<Rightarrow>
          (let (v, ok) = sy_ParseFloat env (TrimSpace b) in
           if ok then (if f64_lt (f64_of_int 1000) v then f64_div v (f64_of_int 1000) else v) else first_temperature env paths))"

definition readTemperature :: "system_env \<Rightarrow> u64" where
  "readTemperature env = first_temperature env [''/sys/class/thermal/thermal_zone0/temp'', ''/sys/class/hwmon/hwmon0/temp1_input'']"

definition fsUsage :: "system_env \<Rightarrow> string \<Rightarrow> u64 \<times> u64" where
  "fsUsage env path = (case sy_Statfs env path of None \<Rightarrow> (0, 0) | Some (blocks, bavail, bsize) \<Rightarrow> (blocks * bsize, bavail * bsize))"

definition share_used :: "u64 \<Rightarrow> u64 \<Rightarrow> u64" where
  "share_used whole free = f64_div (f64_mul (f64_of_u64 (whole - free)) f64_hundred) (f64_of_u64 whole)"

section \<open>The collector\<close>

definition metric :: "int \<Rightarrow> string \<Rightarrow> u64 \<Rightarrow> string \<Rightarrow> (string \<times> string) list \<Rightarrow> agent_metric" where
  "metric t name value unit labels =
     \<lparr>am_Name = name, am_Value = value, am_Unit = unit, am_Labels = labels, am_TimeUnixNano = t\<rparr>"

definition basic_Collect :: "system_env \<Rightarrow> agent_metric list" where
  "basic_Collect env =
     (let t = sy_now env; root = [(''mount'', ''/'')];
          load = readLoadAvg env;
          (used, whole) = readMemory env;
          (fs_total, fs_free) = fsUsage env ''/'';
          (rx, tx) = readNetworkTotals env;
          temperature = readTemperature env;
          utilization = readCPUUtilization env in
      [metric t ''agent.goroutines'' (f64_of_int (sy_NumGoroutine env)) ''count'' [], metric t ''system.uptime'' (readUptime env) ''seconds'' []]
      @ (if f64_le 0 load then [metric t ''system.load1'' load ''load'' []] else [])
      @ (if f64_lt 0 whole
         then [metric t ''system.memory.utilization'' (f64_div (f64_mul used f64_hundred) whole) ''percent'' [],
               metric t ''system.memory.used'' used ''bytes'' [], metric t ''system.memory.total'' whole ''bytes'' []]
         else [])
      @ (if 0 < fs_total
         then [metric t ''filesystem.utilization'' (share_used fs_total fs_free) ''percent'' root,
               metric t ''filesystem.total'' (f64_of_u64 fs_total) ''bytes'' root, metric t ''filesystem.free'' (f64_of_u64 fs_free) ''bytes'' root]
         else [])
      @ (if f64_le 0 rx
         then [metric t ''network.receive_bytes_total'' rx ''bytes'' [], metric t ''network.transmit_bytes_total'' tx ''bytes'' []]
         else [])
      @ (if f64_le 0 temperature then [metric t ''system.temperature'' temperature ''celsius'' []] else [])
      @ (if f64_le 0 utilization then [metric (sy_later env) ''system.cpu.utilization'' utilization ''percent'' []] else []))"

text \<open>
  The loop over collectors, each given as whether the context had ended before it, its name, its metrics or that it failed,
  and the time of that.
\<close>

fun CollectAll :: "(bool \<times> string \<times> agent_metric list option \<times> int) list \<Rightarrow> agent_metric list" where
  "CollectAll [] = []"
| "CollectAll ((ended, name, result, t) # cs) =
     (if ended then []
      else (case result of
              None \<Rightarrow> [metric t ''collector.error'' f64_one ''count'' [(''collector'', name)]]
            | Some metrics \<Rightarrow> metrics) @ CollectAll cs)"

section \<open>Percentages\<close>

text \<open>
  A share of a total below \<open>2 ^ 46\<close> is between 0 and 100 percent, rounding included: the processor's, whose
  counters are in hundredths of a second, and that of a file system with less than 64 TiB.
\<close>

lemma cpu_share_range:
  assumes "0 < deltaTotal" "uint deltaTotal < 2 ^ 46" "deltaIdle \<le> deltaTotal"
  shows "f64_le 0 (cpu_share deltaTotal deltaIdle) \<and> f64_le (cpu_share deltaTotal deltaIdle) f64_hundred"
proof -
  define T where "T = uint deltaTotal"
  define I where "I = uint deltaIdle"
  have r: "0 < T" "T < 2 ^ 46" "0 \<le> I" "I \<le> T"
    using assms by (simp_all add: T_def I_def word_less_def word_le_def)
  have "f64_sub (f64_of_int T) (f64_of_int I) = f64_of_int (T - I)" using r by (intro f64_sub_of_int) simp_all
  moreover have "f64_mul (f64_of_int (T - I)) (f64_of_int 100) = f64_of_int ((T - I) * 100)" using r by (intro f64_mul_of_int) simp_all
  ultimately have "cpu_share deltaTotal deltaIdle = f64_div (f64_of_int ((T - I) * 100)) (f64_of_int T)"
    by (simp add: cpu_share_def f64_of_u64_def f64_hundred_def T_def I_def)
  moreover have "f64_le 0 (f64_div (f64_of_int ((T - I) * 100)) (f64_of_int T)) \<and> f64_le (f64_div (f64_of_int ((T - I) * 100)) (f64_of_int T)) (f64_of_int 100)"
    using r by (intro f64_div_of_int_le) simp_all
  ultimately show ?thesis by (simp add: f64_hundred_def)
qed

lemma share_used_range:
  assumes "0 < whole" "uint whole < 2 ^ 46" "free \<le> whole"
  shows "f64_le 0 (share_used whole free) \<and> f64_le (share_used whole free) f64_hundred"
proof -
  define T where "T = uint whole"
  define U where "U = uint (whole - free)"
  have r: "0 < T" "T < 2 ^ 46" "0 \<le> U" "U \<le> T"
    using assms uint_sub_if' [of whole free] by (simp_all add: T_def U_def word_less_def word_le_def)
  have "f64_mul (f64_of_int U) (f64_of_int 100) = f64_of_int (U * 100)" using r by (intro f64_mul_of_int) simp_all
  moreover have "f64_le 0 (f64_div (f64_of_int (U * 100)) (f64_of_int T)) \<and> f64_le (f64_div (f64_of_int (U * 100)) (f64_of_int T)) (f64_of_int 100)"
    using r by (intro f64_div_of_int_le) simp_all
  ultimately show ?thesis by (simp add: share_used_def f64_of_u64_def f64_hundred_def T_def U_def)
qed

lemma readCPUUtilization_range:
  assumes "readCPUStat (sy_stat env) = Some (totalA, idleA)" "readCPUStat (sy_stat_later env) = Some (totalB, idleB)"
    and "sy_waited env" "totalA < totalB" "uint (totalB - totalA) < 2 ^ 46" "idleB - idleA \<le> totalB - totalA"
  shows "f64_le 0 (readCPUUtilization env) \<and> f64_le (readCPUUtilization env) f64_hundred"
proof -
  have "0 < totalB - totalA" using assms(4) by (metis word_gt_0 eq_iff_diff_eq_0 less_irrefl)
  moreover have "\<not> totalB \<le> totalA" using assms(4) by (simp add: word_less_def word_le_def)
  ultimately show ?thesis using assms(1-3,5,6) cpu_share_range [of "totalB - totalA" "idleB - idleA"] by (simp add: readCPUUtilization_def)
qed

end
