(* ===== verification/CloudHelpers.thy ===== *)
theory CloudHelpers
  imports CloudModel "HOL-Library.Signed_Division"
begin

text \<open>
  The small packages of the control plane that no handler calls yet: presence, quotas, rollouts, uploads, alerts,
  notifications, gateways and the normal forms of names and addresses, each one file under
  \<^verbatim>\<open>cloud-infra/internal\<close>.
\<close>

section \<open>Presence\<close>

definition presence_State :: "go_time \<Rightarrow> bool \<Rightarrow> bool \<Rightarrow> go_time \<Rightarrow> string" where
  "presence_State lastSeen disabled decommissioned t =
     (if decommissioned then ''decommissioned''
      else if disabled then ''disabled''
      else if IsZero lastSeen then ''offline''
      else if time_Sub t lastSeen \<le> 2 * Minute then ''connected''
      else if time_Sub t lastSeen \<le> 15 * Minute then ''recently_seen''
      else if time_Sub t lastSeen \<le> 24 * Hour then ''offline''
      else ''stale'')"

section \<open>Limits and checks\<close>

definition CheckLimit :: "int \<Rightarrow> int \<Rightarrow> go_error option" where
  "CheckLimit used limit = (if 0 < limit \<and> limit \<le> used then Some ErrQuotaExceeded else None)"

record RolloutPolicy =
  CanaryPercent :: int
  MaxConcurrent :: int
  FailureThreshold :: int
  SuccessThreshold :: int
  MaintenanceWindow :: string

definition ShouldPause :: "int \<Rightarrow> int \<Rightarrow> RolloutPolicy \<Rightarrow> bool" where
  "ShouldPause failures count policy \<longleftrightarrow>
     count \<noteq> 0 \<and> FailureThreshold policy \<noteq> 0 \<and> FailureThreshold policy \<le> i64 (i64 (failures * 100) sdiv count)"

definition ValidateUpload :: "int \<Rightarrow> string \<Rightarrow> string \<Rightarrow> int \<Rightarrow> go_error option" where
  "ValidateUpload bytes digest contentType maxBytes =
     (if bytes \<le> 0 \<or> digest = [] \<or> contentType = [] then Some (ErrorString ''artifact size, digest, and content type are required'')
      else if 0 < maxBytes \<and> maxBytes < bytes then Some (ErrorString ''artifact exceeds tenant quota'')
      else None)"

definition RecoveryState :: "bool \<Rightarrow> string" where
  "RecoveryState active = (if active then ''firing'' else ''resolved'')"

record notification =
  no_TenantID :: string
  no_Type :: string
  no_Target :: string
  no_Body :: string
  no_Metadata :: "string go_map"

definition notification_Validate :: "notification \<Rightarrow> go_error option" where
  "notification_Validate m =
     (if no_TenantID m = [] \<or> no_Type m = [] \<or> no_Target m = [] then Some (ErrorString ''tenant, type, and target are required'') else None)"

section \<open>Devices and gateways\<close>

definition IsGateway :: "Device \<Rightarrow> bool" where
  "IsGateway d \<longleftrightarrow> ''gateway'' \<in> set (dv_Capabilities d)"

definition Children :: "Device \<Rightarrow> DownstreamDevice list \<Rightarrow> DownstreamDevice list" where
  "Children parent ds = filter (\<lambda>d. dd_ParentGatewayID d = dv_ID parent \<and> dd_TenantID d = dv_TenantID parent) ds"

section \<open>Names\<close>

definition slug_char :: "char \<Rightarrow> bool" where
  "slug_char c \<longleftrightarrow> is_lower c \<or> is_digit c \<or> c = CHR ''-''"

definition Slug :: "string \<Rightarrow> string" where
  "Slug name = filter slug_char (map (\<lambda>c. if c = CHR '' '' then CHR ''-'' else c) (ToLower (TrimSpace name)))"

definition NormalizeEmail :: "string \<Rightarrow> string result" where
  "NormalizeEmail email =
     (let email = ToLower (TrimSpace email) in
      if \<not> Contains email ''@'' \<or> (\<exists>c \<in> set email. c \<in> {CHR 0x0D, CHR 0x0A, CHR 0x09, CHR '' ''}) then Inl (ErrorString ''invalid email'')
      else Inr email)"

section \<open>What they promise\<close>

text \<open>Without a new message the presence of a device only gets worse.\<close>

definition presence_rank :: "string \<Rightarrow> nat" where
  "presence_rank p = (if p = ''connected'' then 0 else if p = ''recently_seen'' then 1 else if p = ''offline'' then 2 else 3)"

lemma presence_only_fades:
  "\<not> IsZero seen \<Longrightarrow> t \<le> t' \<Longrightarrow> presence_rank (presence_State seen False False t) \<le> presence_rank (presence_State seen False False t')"
  by (auto simp: presence_State_def presence_rank_def time_Sub_def Minute_def Hour_def Second_def)

text \<open>A slug is of the alphabet of slugs, and its own slug; a normal address is its own normal form.\<close>

lemma slug_char_fixed: "slug_char c \<Longrightarrow> lower_char c = c \<and> \<not> is_space c \<and> c \<noteq> CHR '' ''"
  by (auto simp: slug_char_def lower_char_def is_lower_def is_upper_def is_digit_def between_def is_space_def)

lemma Slug_idem: "Slug (Slug name) = Slug name"
proof -
  have chars: "\<forall>c \<in> set (Slug name). slug_char c" by (simp add: Slug_def)
  then have "TrimSpace (Slug name) = Slug name"
    unfolding TrimSpace_def by (intro TrimFunc_eq_self) (auto simp: slug_char_fixed)
  moreover have "ToLower (Slug name) = Slug name" using chars by (simp add: ToLower_def map_idI slug_char_fixed)
  moreover have "map (\<lambda>c. if c = CHR '' '' then CHR ''-'' else c) (Slug name) = Slug name"
    using chars slug_char_fixed by (intro map_idI) auto
  ultimately show ?thesis using chars by (simp add: Slug_def [of "Slug name"])
qed

text \<open>A gateway's children are of its tenant.\<close>

lemma Children_of_tenant: "d \<in> set (Children parent ds) \<Longrightarrow> dd_TenantID d = dv_TenantID parent \<and> d \<in> set ds"
  by (simp add: Children_def)

lemma CheckLimit_room: "CheckLimit used limit = None \<Longrightarrow> 0 < limit \<Longrightarrow> used + 1 \<le> limit"
  by (simp add: CheckLimit_def split: if_splits)

lemma le_zdiv_iff:
  fixes a c n :: int
  assumes "0 < c"
  shows "a \<le> n div c \<longleftrightarrow> a * c \<le> n"
proof
  assume "a \<le> n div c"
  then have "a * c \<le> (n div c) * c" using assms by simp
  also have "\<dots> \<le> n" using assms by (metis div_mult_mod_eq le_add_same_cancel1 pos_mod_sign)
  finally show "a * c \<le> n" .
next
  assume "a * c \<le> n"
  then show "a \<le> n div c" using assms zdiv_mono1 [of "a * c" n c] by simp
qed

lemma ShouldPause_percent:
  assumes "0 \<le> failures" "failures \<le> count" "count < 2 ^ 56" "0 < FailureThreshold policy"
  shows "ShouldPause failures count policy \<longleftrightarrow> 0 < count \<and> FailureThreshold policy * count \<le> failures * 100"
proof (cases "count = 0")
  case False
  then have "0 < count" using assms by simp
  then have "failures * 100 sdiv count = failures * 100 div count" using assms by (cases "failures = 0") (simp_all add: signed_divide_int_def sgn_if)
  moreover have "0 \<le> failures * 100 div count" "failures * 100 div count \<le> failures * 100"
    using assms \<open>0 < count\<close> zdiv_mono2 [of "failures * 100" 1 count] by (simp_all add: pos_imp_zdiv_nonneg_iff)
  ultimately show ?thesis
    using assms \<open>0 < count\<close> by (simp add: ShouldPause_def i64_id in_i64_def le_zdiv_iff)
qed (simp add: ShouldPause_def)

end
