(* ===== verification/CloudStartup.thy ===== *)
theory CloudStartup
  imports CloudBoundary AssistantService AgentIdentity
begin

text \<open>
  How the control plane comes up: its configuration, \<^verbatim>\<open>cloud-infra/internal/config/config.go\<close>, the development
  certificate authority, \<^verbatim>\<open>internal/certificates/ca.go\<close>, the key of the assistant's secrets, \<^verbatim>\<open>loadSecretBox\<close>
  of \<^verbatim>\<open>internal/assistant/assistant.go\<close>, and the program that creates the first organisation and its owner,
  \<^verbatim>\<open>cmd/dev-seed/main.go\<close>. Files are those of \<open>AgentIdentity\<close>, keys and certificates are parameters.
\<close>

section \<open>Configuration\<close>

record cloud_config =
  HTTPAddr :: string
  DeviceAddr :: string
  cf_DevicePublicHost :: string
  StorePath :: string
  DevCADir :: string
  cf_OrganizationName :: string
  OrganizationSlug :: string
  AdminEmail :: string
  AdminPassword :: string
  cf_SessionTTL :: duration
  cf_CertificateTTL :: duration
  SignupEnabled :: bool
  MaxPayloadBytes :: int
  cf_ShellHubURL :: string
  cf_ShellHubSSHPort :: int
  cf_ShellHubManaged :: bool
  cf_CompanyDomain :: string
  cf_DeviceOfflineMinutes :: int
  cf_DefaultTelemetryWindow :: string
  cf_DefaultOTAPilotPercent :: int
  cf_DefaultEnrollmentTTLHours :: int
  cf_DefaultJobTTLMinutes :: int
  AISecretKeyPath :: string
  AIRequestTimeout :: duration
  AIRequestsPerMinute :: int

text \<open>The environment gives an empty text for a variable that is not set.\<close>

definition getenv :: "(string \<Rightarrow> string) \<Rightarrow> string \<Rightarrow> string \<Rightarrow> string" where
  "getenv vars key fallback = (if vars key \<noteq> [] then vars key else fallback)"

definition env_duration :: "(string \<Rightarrow> duration option) \<Rightarrow> (string \<Rightarrow> string) \<Rightarrow> string \<Rightarrow> duration \<Rightarrow> duration" where
  "env_duration parse vars key fallback =
     (if vars key \<noteq> [] then (case parse (vars key) of Some d \<Rightarrow> d | None \<Rightarrow> fallback) else fallback)"

definition env_integer :: "(string \<Rightarrow> string) \<Rightarrow> string \<Rightarrow> int \<Rightarrow> int" where
  "env_integer vars key fallback =
     (if vars key \<noteq> [] then (case ParseInt (vars key) of Some i \<Rightarrow> i | None \<Rightarrow> fallback) else fallback)"

definition integerRange :: "(string \<Rightarrow> string) \<Rightarrow> string \<Rightarrow> int \<Rightarrow> int \<Rightarrow> int \<Rightarrow> int" where
  "integerRange vars key fallback minimum maximum =
     (let value = env_integer vars key fallback in if value < minimum \<or> maximum < value then fallback else value)"

definition choice :: "(string \<Rightarrow> string) \<Rightarrow> string \<Rightarrow> string \<Rightarrow> string list \<Rightarrow> string" where
  "choice vars key fallback candidates =
     (let value = getenv vars key fallback in if value \<in> set candidates then value else fallback)"

definition cloud_Load :: "(string \<Rightarrow> duration option) \<Rightarrow> (string \<Rightarrow> string) \<Rightarrow> cloud_config" where
  "cloud_Load parse vars =
     \<lparr>HTTPAddr = getenv vars ''SOULROOM_HTTP_ADDR'' ''127.0.0.1:8080'',
      DeviceAddr = getenv vars ''SOULROOM_DEVICE_ADDR'' ''127.0.0.1:8443'',
      cf_DevicePublicHost = getenv vars ''SOULROOM_DEVICE_PUBLIC_HOST'' ''localhost'',
      StorePath = getenv vars ''SOULROOM_STORE_PATH'' ''.soul-room/control-plane.json'',
      DevCADir = getenv vars ''SOULROOM_DEV_CA_DIR'' ''.soul-room/ca'',
      cf_OrganizationName = getenv vars ''SOULROOM_ORGANIZATION_NAME'' ''Soul Room Local'',
      OrganizationSlug = getenv vars ''SOULROOM_ORGANIZATION_SLUG'' ''local'',
      AdminEmail = getenv vars ''SOULROOM_ADMIN_EMAIL'' ''admin@soulroom.local'',
      AdminPassword = getenv vars ''SOULROOM_ADMIN_PASSWORD'' ''change-me-local'',
      cf_SessionTTL = env_duration parse vars ''SOULROOM_SESSION_TTL'' (12 * Hour),
      cf_CertificateTTL = env_duration parse vars ''SOULROOM_CERTIFICATE_TTL'' (90 * 24 * Hour),
      SignupEnabled = (getenv vars ''SOULROOM_SIGNUP_ENABLED'' ''false'' = ''true''),
      MaxPayloadBytes = env_integer vars ''SOULROOM_MAX_PAYLOAD_BYTES'' (2 * 1024 * 1024),
      cf_ShellHubURL = getenv vars ''SOULROOM_SHELLHUB_URL'' [],
      cf_ShellHubSSHPort = env_integer vars ''SOULROOM_SHELLHUB_SSH_PORT'' 22,
      cf_ShellHubManaged = (getenv vars ''SOULROOM_SHELLHUB_MANAGED'' ''false'' = ''true''),
      cf_CompanyDomain = getenv vars ''SOULROOM_COMPANY_DOMAIN'' [],
      cf_DeviceOfflineMinutes = integerRange vars ''SOULROOM_DEVICE_OFFLINE_MINUTES'' 5 2 1440,
      cf_DefaultTelemetryWindow = choice vars ''SOULROOM_DEFAULT_TELEMETRY_WINDOW'' ''1h'' [''15m'', ''1h'', ''24h''],
      cf_DefaultOTAPilotPercent = integerRange vars ''SOULROOM_DEFAULT_OTA_PILOT_PERCENT'' 10 1 100,
      cf_DefaultEnrollmentTTLHours = integerRange vars ''SOULROOM_DEFAULT_ENROLLMENT_TTL_HOURS'' 24 1 720,
      cf_DefaultJobTTLMinutes = integerRange vars ''SOULROOM_DEFAULT_JOB_TTL_MINUTES'' 60 5 10080,
      AISecretKeyPath = getenv vars ''SOULROOM_AI_SECRET_KEY_PATH'' ''.soul-room/ai-secrets.key'',
      AIRequestTimeout = env_duration parse vars ''SOULROOM_AI_REQUEST_TIMEOUT'' (45 * Second),
      AIRequestsPerMinute = integerRange vars ''SOULROOM_AI_REQUESTS_PER_MINUTE'' 30 1 120\<rparr>"

text \<open>What the handlers of the server use of it.\<close>

definition server_cfg_of :: "cloud_config \<Rightarrow> server_cfg" where
  "server_cfg_of c =
     \<lparr>SessionTTL = cf_SessionTTL c, CertificateTTL = cf_CertificateTTL c, DevicePublicHost = cf_DevicePublicHost c,
      ShellHubManaged = cf_ShellHubManaged c,
      defaults = \<lparr>OrganizationName = cf_OrganizationName c, CompanyDomain = cf_CompanyDomain c, ShellHubURL = cf_ShellHubURL c,
        ShellHubSSHPort = cf_ShellHubSSHPort c, DeviceOfflineMinutes = cf_DeviceOfflineMinutes c,
        DefaultTelemetryWindow = cf_DefaultTelemetryWindow c, DefaultOTAPilotPercent = cf_DefaultOTAPilotPercent c,
        DefaultEnrollmentTTLHours = cf_DefaultEnrollmentTTLHours c, DefaultJobTTLMinutes = cf_DefaultJobTTLMinutes c,
        ps_UpdatedBy = [], ps_UpdatedAt = zero_time\<rparr>\<rparr>"

section \<open>The development certificate authority\<close>

text \<open>
  Certificates: \<open>ce_parse\<close> reads one, \<open>ce_self\<close> is the template of the authority's own for a key with the PEM text of
  what is signed, \<open>ce_PKIX\<close> the Ed25519 public key of a block (\<open>Inr None\<close> for another kind), and \<open>ce_issue\<close> the PEM text of
  a certificate for a public key and a name with its serial number and expiry.
\<close>

record ('c, 'k) cert_lib =
  ce_parse :: "string \<Rightarrow> 'c result"
  ce_self :: "'k \<Rightarrow> ('c \<times> string) result"
  ce_PKIX :: "string \<Rightarrow> string option result"
  ce_issue :: "'c \<Rightarrow> 'k \<Rightarrow> string \<Rightarrow> string \<Rightarrow> int \<Rightarrow> go_time \<Rightarrow> string result"

record ('c, 'k) dev_ca =
  ca_CertPEM :: string
  ca_cert :: 'c
  ca_key :: 'k

definition parseCert :: "('c, 'k) cert_lib \<Rightarrow> 'k key_lib \<Rightarrow> string \<Rightarrow> 'c result" where
  "parseCert cl kl b = (case kl_Decode kl b of None \<Rightarrow> Inl (ErrorString ''invalid cert pem'') | Some block \<Rightarrow> ce_parse cl block)"

definition parseKey :: "'k key_lib \<Rightarrow> string \<Rightarrow> 'k result" where
  "parseKey kl b =
     (case kl_Decode kl b of
        None \<Rightarrow> Inl (ErrorString ''invalid key pem'')
      | Some block \<Rightarrow>
          (case kl_ParsePKCS8 kl block of
             Inl err \<Rightarrow> Inl err
           | Inr None \<Rightarrow> Inl (ErrorString ''invalid ed25519 private key'')
           | Inr (Some key) \<Rightarrow> Inr key))"

definition writeKey :: "'k key_lib \<Rightarrow> id_env \<Rightarrow> string \<Rightarrow> 'k \<Rightarrow> file_system \<Rightarrow> go_error option \<times> file_system" where
  "writeKey kl env path key fs =
     (case kl_pem_key kl key of Inl err \<Rightarrow> (Some err, fs) | Inr block \<Rightarrow> id_write env path block 384 fs)"

definition no_such_file :: go_error where "no_such_file = ErrorString ''file does not exist''"

definition LoadOrCreateDevCA ::
  "('c, 'k) cert_lib \<Rightarrow> 'k key_lib \<Rightarrow> id_env \<Rightarrow> string \<Rightarrow> file_system \<Rightarrow> ('c, 'k) dev_ca result \<times> file_system" where
  "LoadOrCreateDevCA cl kl env dir fs =
     (case ie_MkdirAll env dir of
        Some err \<Rightarrow> (Inl err, fs)
      | None \<Rightarrow>
          (let certPath = path_Join dir ''ca.pem''; keyPath = path_Join dir ''ca_key.pem'' in
           case id_read env certPath fs of
             Inr (Some certPEM) \<Rightarrow>
               ((case id_read env keyPath fs of
                   Inl err \<Rightarrow> Inl err
                 | Inr None \<Rightarrow> Inl no_such_file
                 | Inr (Some keyPEM) \<Rightarrow>
                     (case parseCert cl kl certPEM of
                        Inl err \<Rightarrow> Inl err
                      | Inr cert \<Rightarrow>
                          (case parseKey kl keyPEM of
                             Inl err \<Rightarrow> Inl err
                           | Inr key \<Rightarrow> Inr \<lparr>ca_CertPEM = certPEM, ca_cert = cert, ca_key = key\<rparr>))), fs)
           | _ \<Rightarrow>
               (case kl_GenerateKey kl of
                  Inl err \<Rightarrow> (Inl err, fs)
                | Inr key \<Rightarrow>
                    (case ce_self cl key of
                       Inl err \<Rightarrow> (Inl err, fs)
                     | Inr (tpl, certPEM) \<Rightarrow>
                         (case id_write env certPath certPEM 420 fs of
                            (Some err, fs) \<Rightarrow> (Inl err, fs)
                          | (None, fs) \<Rightarrow>
                              (case writeKey kl env keyPath key fs of
                                 (Some err, fs) \<Rightarrow> (Inl err, fs)
                               | (None, fs) \<Rightarrow> (Inr \<lparr>ca_CertPEM = certPEM, ca_cert = tpl, ca_key = key\<rparr>, fs)))))))"

text \<open>A certificate for a device; the serial number is the clock in nanoseconds.\<close>

definition issue_certificate ::
  "('c, 'k) cert_lib \<Rightarrow> 'k key_lib \<Rightarrow> go_time \<Rightarrow> ('c, 'k) dev_ca \<Rightarrow> string \<Rightarrow> string \<Rightarrow> duration
     \<Rightarrow> (string \<times> string \<times> go_time) result" where
  "issue_certificate cl kl t a publicKeyPEM deviceID ttl =
     (case kl_Decode kl publicKeyPEM of
        None \<Rightarrow> Inl (ErrorString ''invalid public key pem'')
      | Some block \<Rightarrow>
          (case ce_PKIX cl block of
             Inl err \<Rightarrow> Inl err
           | Inr None \<Rightarrow> Inl (ErrorString ''device key must be ed25519'')
           | Inr (Some pub) \<Rightarrow>
               (let serial = i64 (t - unix_epoch); expires = time_Add t ttl in
                case ce_issue cl (ca_cert a) (ca_key a) pub deviceID serial expires of
                  Inl err \<Rightarrow> Inl err
                | Inr pem \<Rightarrow> Inr (pem, itoa serial, expires))))"

text \<open>The authority as the device gateway uses it.\<close>

definition authority_of :: "('c, 'k) cert_lib \<Rightarrow> 'k key_lib \<Rightarrow> go_time \<Rightarrow> ('c, 'k) dev_ca \<Rightarrow> authority" where
  "authority_of cl kl t a = \<lparr>CertPEM = ca_CertPEM a, IssueDeviceCertificate = issue_certificate cl kl t a\<rparr>"

section \<open>The key of the secrets\<close>

text \<open>
  The calls beside reading and writing: the random bytes of each attempt, the cipher of a key, what another process
  does to the files between the first look and the creation, and the errors of creating, synchronising and
  closing the file.
\<close>

record key_env =
  ke_files :: id_env
  ke_rand :: "string result"
  ke_aead :: "string \<Rightarrow> secret_box result"
  ke_meanwhile :: "file_system \<Rightarrow> file_system"
  ke_OpenFile :: "go_error option"
  ke_Write :: "(go_error \<times> nat) option"
  ke_Sync :: "go_error option"
  ke_Close :: "go_error option"

definition create_key :: "key_env \<Rightarrow> string \<Rightarrow> string \<Rightarrow> file_system \<Rightarrow> secret_box result \<times> file_system" where
  "create_key env path key fs =
     (if fs path \<noteq> None then
        ((case id_read (ke_files env) path fs of
            Inr (Some stored) \<Rightarrow>
              (if length stored = 32 then ke_aead env stored else Inl (ErrorString ''failed to load concurrently created AI secret key''))
          | _ \<Rightarrow> Inl (ErrorString ''failed to load concurrently created AI secret key'')), fs)
      else case ke_OpenFile env of
        Some err \<Rightarrow> (Inl err, fs)
      | None \<Rightarrow>
          (let (err, written) = (case ke_Write env of Some (err, n) \<Rightarrow> (Some err, take n key) | None \<Rightarrow> (ke_Sync env, key));
               fs = fs(path \<mapsto> (written, 384)) in
           case err of
             Some err \<Rightarrow> (Inl err, fs)
           | None \<Rightarrow> (case ke_Close env of Some err \<Rightarrow> (Inl err, fs) | None \<Rightarrow> (ke_aead env key, fs))))"

definition loadSecretBox :: "key_env \<Rightarrow> string \<Rightarrow> file_system \<Rightarrow> secret_box result \<times> file_system" where
  "loadSecretBox env path fs =
     (if path = [] then ((case ke_rand env of Inl err \<Rightarrow> Inl err | Inr key \<Rightarrow> ke_aead env key), fs)
      else case id_read (ke_files env) path fs of
        Inr (Some stored) \<Rightarrow>
          (if length stored \<noteq> 32 then Inl (ErrorString ''AI secret key must contain exactly 32 bytes'') else ke_aead env stored, fs)
      | Inl err \<Rightarrow> (Inl err, fs)
      | Inr None \<Rightarrow>
          (case ie_MkdirAll (ke_files env) (path_Dir path) of
             Some err \<Rightarrow> (Inl err, fs)
           | None \<Rightarrow>
               (case ke_rand env of
                  Inl err \<Rightarrow> (Inl err, fs)
                | Inr key \<Rightarrow> create_key env path key (ke_meanwhile env fs))))"

section \<open>The first organisation\<close>

datatype seed_outcome = SeedFailed go_error | Already_initialized | Seeded

definition dev_seed ::
  "cloud_config \<Rightarrow> (string \<Rightarrow> string option) \<Rightarrow> mac \<Rightarrow> string result \<Rightarrow> cenv \<Rightarrow> db_file \<Rightarrow> seed_outcome \<times> cstore option" where
  "dev_seed cfg address hmac rand env file =
     (case Open_store (StorePath cfg) file of
        Inl err \<Rightarrow> (SeedFailed err, None)
      | Inr s \<Rightarrow>
          (let name = TrimSpace (cf_OrganizationName cfg); slug = ToLower (TrimSpace (OrganizationSlug cfg));
               email = ToLower (TrimSpace (AdminEmail cfg)) in
           if name = [] \<or> slug = []
           then (SeedFailed (ErrorString ''SOULROOM_ORGANIZATION_NAME and SOULROOM_ORGANIZATION_SLUG must not be empty''), Some s)
           else if address email \<noteq> Some email
           then (SeedFailed (ErrorString ''SOULROOM_ADMIN_EMAIL must be a valid email address''), Some s)
           else if length (AdminPassword cfg) < 12
           then (SeedFailed (ErrorString ''SOULROOM_ADMIN_PASSWORD must contain at least 12 characters''), Some s)
           else case Hash hmac rand (AdminPassword cfg) of
             Inl err \<Rightarrow> (SeedFailed err, Some s)
           | Inr hash \<Rightarrow>
               (case BootstrapOrganizationOwner env name slug email hash s of
                  (Inl err, s) \<Rightarrow> (SeedFailed err, Some s)
                | (Inr created, s) \<Rightarrow> (if created then Seeded else Already_initialized, Some s))))"

section \<open>The configuration is in range\<close>

lemma integerRange_bounds: "minimum \<le> fallback \<Longrightarrow> fallback \<le> maximum \<Longrightarrow> minimum \<le> integerRange vars key fallback minimum maximum \<and> integerRange vars key fallback minimum maximum \<le> maximum"
  by (simp add: integerRange_def Let_def)

lemma choice_candidate: "fallback \<in> set candidates \<Longrightarrow> choice vars key fallback candidates \<in> set candidates"
  by (simp add: choice_def Let_def)

text \<open>
  Whatever the environment says, the defaults pass the validation of settings if the texts in them and the port of ShellHub
  do: the port is the one number that is read without a range.
\<close>

lemma loaded_defaults_valid:
  fixes parse_url parse vars
  defines "d \<equiv> defaults (server_cfg_of (cloud_Load parse vars))"
  assumes name: "2 \<le> length (TrimSpace (OrganizationName d))" "length (TrimSpace (OrganizationName d)) \<le> 80"
    and texts: "CompanyDomain d = []" "ShellHubURL d = []" and port: "1 \<le> ShellHubSSHPort d" "ShellHubSSHPort d \<le> 65535"
  shows "Settings_Validate parse_url d = None"
proof -
  have "2 \<le> DeviceOfflineMinutes d \<and> DeviceOfflineMinutes d \<le> 1440" "1 \<le> DefaultOTAPilotPercent d \<and> DefaultOTAPilotPercent d \<le> 100"
    "1 \<le> DefaultEnrollmentTTLHours d \<and> DefaultEnrollmentTTLHours d \<le> 720" "5 \<le> DefaultJobTTLMinutes d \<and> DefaultJobTTLMinutes d \<le> 10080"
    by (simp_all add: d_def server_cfg_of_def cloud_Load_def integerRange_bounds)
  moreover have "DefaultTelemetryWindow d \<in> set [''15m'', ''1h'', ''24h'']"
    unfolding d_def server_cfg_of_def cloud_Load_def by (simp del: list.set, rule choice_candidate, simp)
  ultimately show ?thesis using name texts port by (auto simp: Settings_Validate_def Let_def)
qed

section \<open>Keys survive a restart, or never load\<close>

text \<open>What is written as PEM is read back.\<close>

definition pem_ok :: "('c, 'k) cert_lib \<Rightarrow> 'k key_lib \<Rightarrow> bool" where
  "pem_ok cl kl \<longleftrightarrow>
     (\<forall>key b. kl_pem_key kl key = Inr b \<longrightarrow> (\<exists>block. kl_Decode kl b = Some block \<and> kl_ParsePKCS8 kl block = Inr (Some key)))
   \<and> (\<forall>key tpl b. ce_self cl key = Inr (tpl, b) \<longrightarrow> (\<exists>block cert. kl_Decode kl b = Some block \<and> ce_parse cl block = Inr cert))"

lemma ca_files_plain: "plain_part ''ca.pem''" "plain_part ''ca_key.pem''"
  by (simp_all add: plain_part_def)

lemma ca_paths: "path_Join dir ''ca.pem'' \<noteq> path_Join dir ''ca_key.pem''"
  by (simp add: path_Join_inj [OF ca_files_plain])

lemma dev_ca_survives_restart:
  assumes good: "good_files env" and pem: "pem_ok cl kl" and run: "LoadOrCreateDevCA cl kl env dir fs = (Inr a, fs')"
  shows "\<exists>cert. LoadOrCreateDevCA cl kl env dir fs' = (Inr (a\<lparr>ca_cert := cert\<rparr>), fs')"
proof -
  have env: "ie_MkdirAll env p = None" "ie_ReadFile env p = None" "ie_WriteFile env p = None" for p using good by (simp_all add: good_files_def)
  have read: "id_read env p f = Inr (map_option fst (f p))" for p f using env by (auto simp: id_read_def split: option.split)
  show ?thesis
  proof (cases "fs (path_Join dir ''ca.pem'')")
    case (Some f)
    then have "fs' = fs" using run env by (auto simp: LoadOrCreateDevCA_def read Let_def)
    then show ?thesis using run by (intro exI [of _ "ca_cert a"]) simp
  next
    case None
    let ?c = "path_Join dir ''ca.pem''" and ?k = "path_Join dir ''ca_key.pem''"
    obtain key tpl certPEM where k: "kl_GenerateKey kl = Inr key" "ce_self cl key = Inr (tpl, certPEM)"
      using run None env by (auto simp: LoadOrCreateDevCA_def read Let_def split: sum.splits prod.splits)
    obtain m where w: "id_write env ?c certPEM 420 fs = (None, fs(?c \<mapsto> (certPEM, m)))" using id_write_good [OF good] by blast
    obtain block where b: "kl_pem_key kl key = Inr block"
      using run None env k w by (auto simp: LoadOrCreateDevCA_def read Let_def writeKey_def split: sum.splits)
    obtain m' where w': "id_write env ?k block 384 (fs(?c \<mapsto> (certPEM, m))) = (None, fs(?c \<mapsto> (certPEM, m), ?k \<mapsto> (block, m')))"
      using id_write_good [OF good] by blast
    have out: "a = \<lparr>ca_CertPEM = certPEM, ca_cert = tpl, ca_key = key\<rparr>" "fs' = fs(?c \<mapsto> (certPEM, m), ?k \<mapsto> (block, m'))"
      using run None env k w b w' by (auto simp: LoadOrCreateDevCA_def read Let_def writeKey_def)
    obtain cert where "parseCert cl kl certPEM = Inr cert" using pem k(2) by (fastforce simp: pem_ok_def parseCert_def)
    moreover have "parseKey kl block = Inr key" using pem b by (fastforce simp: pem_ok_def parseKey_def)
    ultimately show ?thesis
      using ca_paths [of dir] by (intro exI [of _ cert]) (simp add: LoadOrCreateDevCA_def read Let_def out env)
  qed
qed

text \<open>The certificate is written before its key: if the program stops in between, no later start succeeds.\<close>

lemma dev_ca_without_key_never_loads:
  assumes "good_files env" "fs (path_Join dir ''ca.pem'') \<noteq> None" "fs (path_Join dir ''ca_key.pem'') = None"
  shows "LoadOrCreateDevCA cl kl env dir fs = (Inl no_such_file, fs)"
  using assms by (auto simp: LoadOrCreateDevCA_def id_read_def good_files_def Let_def)

text \<open>Once the assistant's key has been loaded, every later start loads the same; one that was cut off is never replaced.\<close>

definition good_keys :: "key_env \<Rightarrow> bool" where
  "good_keys env \<longleftrightarrow> good_files (ke_files env) \<and> (\<forall>key. ke_rand env = Inr key \<longrightarrow> length key = 32)"

lemma secret_key_survives_restart:
  assumes "good_keys env" "path \<noteq> []" and run: "loadSecretBox env path fs = (Inr box, fs')"
    and later: "good_keys env'" "ke_aead env' = ke_aead env"
  shows "loadSecretBox env' path fs' = (Inr box, fs')"
proof -
  have read: "id_read (ke_files e) p f = Inr (map_option fst (f p))" if "good_keys e" for e p f
    using that by (auto simp: id_read_def good_keys_def good_files_def split: option.split)
  note reads = read [OF assms(1)] read [OF later(1)]
  have "\<exists>key m. fs' path = Some (key, m) \<and> length key = 32 \<and> ke_aead env key = Inr box"
  proof (cases "fs path")
    case (Some f)
    then show ?thesis using run assms(2) by (cases f) (auto simp: loadSecretBox_def reads split: if_splits)
  next
    case None
    obtain key where key: "ke_rand env = Inr key" and made: "create_key env path key (ke_meanwhile env fs) = (Inr box, fs')"
      using run assms(2) None by (auto simp: loadSecretBox_def reads split: option.splits sum.splits)
    have "length key = 32" using key assms(1) by (simp add: good_keys_def)
    then show ?thesis
      using made by (auto simp: create_key_def reads Let_def split: if_splits option.splits prod.splits)
  qed
  then show ?thesis using assms(2) later(2) by (auto simp: loadSecretBox_def reads)
qed

lemma torn_secret_key_never_loads:
  assumes "good_keys env" "path \<noteq> []" "fs path = Some (key, m)" "length key \<noteq> 32"
  shows "loadSecretBox env path fs = (Inl (ErrorString ''AI secret key must contain exactly 32 bytes''), fs)"
  using assms by (simp add: loadSecretBox_def id_read_def good_keys_def good_files_def)

end
