(* ===== verification/CloudSeed.thy ===== *)
theory CloudSeed
  imports CloudStartup
begin

text \<open>
  From the empty installation to a signed-in owner: \<^verbatim>\<open>dev-seed\<close> writes the store, the server opens it, and the
  owner signs in with the password of the configuration.
\<close>

section \<open>What is seeded\<close>

text \<open>The organisation, its owner and the membership, and nothing else.\<close>

lemma seeded_store:
  assumes "dev_seed cfg address hmac (Inr salt) env NoFile = (Seeded, Some s)" "StorePath cfg \<noteq> []"
  shows "\<exists>hash. Hash hmac (Inr salt) (AdminPassword cfg) = Inr hash \<and> disk s = Some (no_data
    \<lparr>db_Organizations := [(NewID env 0 ''org'', \<lparr>og_ID = NewID env 0 ''org'', og_Name = TrimSpace (cf_OrganizationName cfg),
        og_Slug = ToLower (TrimSpace (OrganizationSlug cfg)), og_CreatedAt = c_now env\<rparr>)],
     db_Users := [(NewID env 1 ''usr'', new_user env 1 (ToLower (TrimSpace (AdminEmail cfg))) hash [])],
     db_Memberships := [\<lparr>mb_TenantID = NewID env 0 ''org'', mb_UserID = NewID env 1 ''usr'', mb_Role = ''organization_owner''\<rparr>]\<rparr>)"
proof -
  obtain hash where hash: "Hash hmac (Inr salt) (AdminPassword cfg) = Inr hash" by (simp add: Hash_def Let_def)
  let ?s0 = "\<lparr>file_path = StorePath cfg, mem = no_data, disk = None\<rparr>"
  have b: "BootstrapOrganizationOwner env (TrimSpace (cf_OrganizationName cfg)) (ToLower (TrimSpace (OrganizationSlug cfg)))
      (ToLower (TrimSpace (AdminEmail cfg))) hash ?s0 = (Inr True, s)"
    using assms hash by (auto simp: dev_seed_def Open_store_def Let_def split: if_splits sum.splits prod.splits)
  then show ?thesis
    using hash assms(2)
    by (auto simp: BootstrapOrganizationOwner_def no_data_def saveLocked_def modify_def persisted_def map_values_def new_user_def mput_def Let_def
        split: option.splits prod.splits)
qed

text \<open>Seeding again changes nothing, whatever the configuration says then.\<close>

lemma seeding_again:
  assumes "dev_seed cfg address hmac (Inr salt) env NoFile = (Seeded, Some s)" "StorePath cfg \<noteq> []" "disk s = Some d"
    and "dev_seed cfg' address' hmac' rand' env' (DBFile d) = (outcome, Some s')" "StorePath cfg' \<noteq> []"
  shows "outcome \<noteq> Seeded \<and> disk s' = Some d"
proof -
  obtain hash where "d = no_data
    \<lparr>db_Organizations := [(NewID env 0 ''org'', \<lparr>og_ID = NewID env 0 ''org'', og_Name = TrimSpace (cf_OrganizationName cfg),
        og_Slug = ToLower (TrimSpace (OrganizationSlug cfg)), og_CreatedAt = c_now env\<rparr>)],
     db_Users := [(NewID env 1 ''usr'', new_user env 1 (ToLower (TrimSpace (AdminEmail cfg))) hash [])],
     db_Memberships := [\<lparr>mb_TenantID = NewID env 0 ''org'', mb_UserID = NewID env 1 ''usr'', mb_Role = ''organization_owner''\<rparr>]\<rparr>"
    using seeded_store [OF assms(1,2)] assms(3) by auto
  then have "db_Organizations d \<noteq> []" by simp
  then show ?thesis
    using assms(4,5) by (auto simp: dev_seed_def Open_store_def BootstrapOrganizationOwner_def Let_def split: if_splits sum.splits prod.splits)
qed

section \<open>Signing in\<close>

text \<open>C31: A seeded owner can sign in and is let in. After the seed program has set up an empty installation, a server that opens
  the file accepts a log-in with the e-mail address of the configuration, in whatever case, and its password: it answers with a
  session for the one membership, owner of the new organisation, and until the session expires every request that
  carries its token is authenticated as that owner.\<close>

theorem seeded_owner_signs_in:
  assumes mac: "\<And>k m. length (hmac k m) = 32" "sv_hmac sv = hmac"
    and seed: "dev_seed cfg address hmac (Inr salt) env NoFile = (Seeded, Some s)" "StorePath cfg \<noteq> []"
    and server: "disk s = Some d" "Open_store (StorePath cfg) (DBFile d) = Inr s1"
    and sign_in: "Method r = ''POST''" "ToLower email = ToLower (TrimSpace (AdminEmail cfg))"
    and calm: "c_saveErr (envs 2) = None" "0 \<le> c_now (envs 0)"
  shows "\<exists>owner token s2.
      login sv scfg envs None r (Inr \<lparr>lg_Email = email, lg_Password = AdminPassword cfg\<rparr>) s1
        = (JSON 200 (BSession (c_now (envs 1) + SessionTTL scfg) [owner] token), s2)
    \<and> mb_Role owner = ''organization_owner''
    \<and> (\<exists>org. get_Organization \<lparr>tc_TenantID = mb_TenantID owner, tc_ActorID = mb_UserID owner, Roles = [mb_Role owner], Scopes = []\<rparr> s2 = Inr org
          \<and> og_Name org = TrimSpace (cf_OrganizationName cfg))
    \<and> (\<forall>env' r'. Cookie r' = Some token \<and> Header r' ''Authorization'' = [] \<and> Header r' ''X-Tenant-ID'' = []
          \<and> c_sha256 env' = c_sha256 (envs 1) \<and> c_now env' \<le> c_now (envs 1) + SessionTTL scfg
        \<longrightarrow> authenticate env' r' s2
              = Inr \<lparr>tc_TenantID = mb_TenantID owner, tc_ActorID = mb_UserID owner, Roles = [''organization_owner''], Scopes = []\<rparr>)"
proof -
  let ?org = "\<lparr>og_ID = NewID env 0 ''org'', og_Name = TrimSpace (cf_OrganizationName cfg),
        og_Slug = ToLower (TrimSpace (OrganizationSlug cfg)), og_CreatedAt = c_now env\<rparr>"
  let ?owner = "\<lparr>mb_TenantID = NewID env 0 ''org'', mb_UserID = NewID env 1 ''usr'', mb_Role = ''organization_owner''\<rparr>"
  obtain hash where hash: "Hash hmac (Inr salt) (AdminPassword cfg) = Inr hash"
    and d: "d = no_data\<lparr>db_Organizations := [(NewID env 0 ''org'', ?org)],
       db_Users := [(NewID env 1 ''usr'', new_user env 1 (ToLower (TrimSpace (AdminEmail cfg))) hash [])], db_Memberships := [?owner]\<rparr>"
    using seeded_store [OF seed] server(1) by auto
  have s1: "s1 = \<lparr>file_path = StorePath cfg, mem = d, disk = Some d\<rparr>" using server(2) seed(2) by (simp add: Open_store_def)
  have verify: "Verify hmac (AdminPassword cfg) hash" using Verify_Hash [OF mac(1) hash] by blast
  define u where "u = new_user env 1 (ToLower (TrimSpace (AdminEmail cfg))) hash []"
  have u: "us_Email u = ToLower (TrimSpace (AdminEmail cfg))" "us_ID u = NewID env 1 ''usr''" "PasswordHash u = hash" "LockedUntil u = 0"
    by (simp_all add: u_def new_user_def zero_time_def)
  have users: "db_Users (mem s1) = [(NewID env 1 ''usr'', u)]" by (simp add: s1 d u_def)
  have found: "FindUserByEmail (envs 0) (ToLower email) s1 = Inr u"
    using sign_in(2) u(1) by (simp add: FindUserByEmail_def find_user_def users)
  define token where "token = hexEncode (c_rand (envs 1) 0)"
  define session where "session = \<lparr>se_ID = NewID (envs 1) 1 ''sess'', se_UserID = us_ID u, se_TokenHash = HashToken (envs 1) token,
     se_ExpiresAt = time_Add (c_now (envs 1)) (SessionTTL scfg), se_RevokedAt = zero_time, se_CreatedAt = c_now (envs 1)\<rparr>"
  have new: "NewSession (envs 1) None (us_ID u) (SessionTTL scfg) = Inr (session, token)"
    by (simp add: NewSession_def session_def token_def Let_def)
  have none: "db_Sessions d = []" by (simp add: d no_data_def)
  obtain e s2 where run: "SaveSession (envs 2) session s1 = (e, s2)" by fastforce
  have "mem s2 = d\<lparr>db_Sessions := mput (HashToken (envs 1) token) session (db_Sessions d)\<rparr>"
    using run unfolding SaveSession_def by (auto dest!: saveLocked_frame simp: modify_def s1 session_def)
  moreover have "e = None" using run calm(1) by (auto simp: SaveSession_def saveLocked_def split: if_splits)
  ultimately have s2: "SaveSession (envs 2) session s1 = (None, s2)" "mem s2 = d\<lparr>db_Sessions := [(HashToken (envs 1) token, session)]\<rparr>"
    using run by (simp_all add: none mput_def)
  have members: "Memberships (us_ID u) s2 = [?owner]" by (simp add: Memberships_def s2(2) d u(2))
  have signed: "login sv scfg envs None r (Inr \<lparr>lg_Email = email, lg_Password = AdminPassword cfg\<rparr>) s1
      = (JSON 200 (BSession (c_now (envs 1) + SessionTTL scfg) [?owner] token), s2)"
    using sign_in(1) calm(2) by (simp add: login_def found verify mac(2) u(3,4) new s2(1) members del: One_nat_def) (simp add: session_def time_Add_def)
  have "authenticate env' r' s2 = Inr \<lparr>tc_TenantID = NewID env 0 ''org'', tc_ActorID = NewID env 1 ''usr'', Roles = [''organization_owner''], Scopes = []\<rparr>"
    if "Cookie r' = Some token" "Header r' ''Authorization'' = []" "Header r' ''X-Tenant-ID'' = []" "c_sha256 env' = c_sha256 (envs 1)"
      "c_now env' \<le> c_now (envs 1) + SessionTTL scfg" for env' r'
  proof -
    have "request_token r' = token" using that by (simp add: request_token_def bearer_def HasPrefix_def)
    moreover have "SessionByToken env' token s2 = Inr session"
      using that(4,5) by (simp add: SessionByToken_def s2(2) HashToken_def mget_def) (simp add: session_def IsZero_def time_Add_def)
    moreover have "se_UserID session = us_ID u" by (simp add: session_def)
    ultimately show ?thesis using that(3) members by (simp add: authenticate_def Let_def NewID_def u(2))
  qed
  moreover have "mget (db_Organizations (mem s2)) (NewID env 0 ''org'') = Some ?org" by (simp add: s2(2) d mget_def)
  ultimately show ?thesis using signed
    by (intro exI [of _ ?owner] exI [of _ token] exI [of _ s2]) (auto simp: get_Organization_def)
qed

section \<open>Witness\<close>

text \<open>The defaults of the configuration, and an owner who types the address in mixed case.\<close>

definition demo_config :: cloud_config where
  "demo_config = cloud_Load (\<lambda>s. None) (\<lambda>key. [])"

lemma demo_seeded: "\<exists>s d. dev_seed demo_config Some demo_hmac (Inr ''salt'') demo_cenv NoFile = (Seeded, Some s) \<and> disk s = Some d"
proof -
  obtain hash where "Hash demo_hmac (Inr ''salt'') (AdminPassword demo_config) = Inr hash" by (simp add: Hash_def Let_def)
  moreover have "TrimSpace (cf_OrganizationName demo_config) \<noteq> []" "ToLower (TrimSpace (OrganizationSlug demo_config)) \<noteq> []"
    "\<not> length (AdminPassword demo_config) < 12" "StorePath demo_config \<noteq> []" "c_saveErr demo_cenv = None"
    by code_simp+
  ultimately show ?thesis
    by (simp add: dev_seed_def Open_store_def BootstrapOrganizationOwner_def saveLocked_def modify_def no_data_def Let_def)
qed

theorem seeded_owner_signs_in_witness:
  "\<exists>s1 owner token s2 expires.
      login (demo_services\<lparr>sv_hmac := demo_hmac\<rparr>) (server_cfg_of demo_config) demo_envs None (CloudHTTP.demo_request ''POST'')
        (Inr \<lparr>lg_Email = ''Admin@SoulRoom.local'', lg_Password = ''change-me-local''\<rparr>) s1
      = (JSON 200 (BSession expires [owner] token), s2) \<and> mb_Role owner = ''organization_owner''"
proof -
  obtain s d where seed: "dev_seed demo_config Some demo_hmac (Inr ''salt'') demo_cenv NoFile = (Seeded, Some s)" "disk s = Some d"
    using demo_seeded by blast
  have path: "StorePath demo_config \<noteq> []" by code_simp
  obtain s1 where s1: "Open_store (StorePath demo_config) (DBFile d) = Inr s1" using path by (simp add: Open_store_def)
  have email: "ToLower ''Admin@SoulRoom.local'' = ToLower (TrimSpace (AdminEmail demo_config))" by code_simp
  have calm: "c_saveErr (demo_envs 2) = None" "0 \<le> c_now (demo_envs 0)" by code_simp+
  have pw: "AdminPassword demo_config = ''change-me-local''" by (simp add: demo_config_def cloud_Load_def getenv_def)
  have hmac: "length (demo_hmac k m) = 32" for k m by (simp add: demo_hmac_def)
  have "sv_hmac (demo_services\<lparr>sv_hmac := demo_hmac\<rparr>) = demo_hmac" "Method (CloudHTTP.demo_request ''POST'') = ''POST''" by (simp_all add: CloudHTTP.demo_request_def)
  from seeded_owner_signs_in [OF hmac this(1) seed(1) path seed(2) s1 this(2) email calm]
  show ?thesis unfolding pw by blast
qed

end
