(* ===== verification/DeviceSimulator.thy ===== *)
theory DeviceSimulator
  imports AgentTransport CloudStartup
begin

text \<open>
  The simulator of a control plane that the agent is developed against,
  \<^verbatim>\<open>agent/cmd/device-simulator/main.go\<close>: it enrolls a device once per token and accepts envelopes. Its
  certificates are those of \<open>CloudStartup\<close>; the pair of certificate and key it listens with is a parameter.
\<close>

section \<open>State and answers\<close>

record simulator =
  used :: "bool go_map"
  sim_caPEM :: string
  sim_caKey :: string

datatype sim_response =
    HTTPError int string
  | SimEnrolled enroll_response
  | SimAccepted string string

text \<open>
  What the simulator calls: \<open>sl_tls\<close> pairs a certificate with its key, \<open>sl_server\<close> is the certificate of the listening
  server for a host, and \<open>sl_error\<close> the text of an error of the library. Keys are texts.
\<close>

record 'c sim_lib =
  sl_certs :: "('c, string) cert_lib"
  sl_keys :: "string key_lib"
  sl_tls :: "string \<Rightarrow> string \<Rightarrow> string result"
  sl_host :: "string \<Rightarrow> string"
  sl_server :: "'c \<Rightarrow> string \<Rightarrow> string \<Rightarrow> string \<Rightarrow> string result"
  sl_server_key :: string

section \<open>Enrollment\<close>

definition shortHash :: "'c sim_lib \<Rightarrow> string \<Rightarrow> string" where
  "shortHash l s = hexEncode (take 8 (kl_sha256 (sl_keys l) s))"

definition invalid_pem :: go_error where "invalid_pem = ErrorString ''invalid public key pem''"

text \<open>The own certificate is decoded without a check: \<open>None\<close> stands for the panic of a certificate that is no PEM text.\<close>

definition signClient :: "'c sim_lib \<Rightarrow> go_time \<Rightarrow> simulator \<Rightarrow> string \<Rightarrow> string \<Rightarrow> string result option" where
  "signClient l t s pubPEM cn =
     (case kl_Decode (sl_keys l) pubPEM of
        None \<Rightarrow> Some (Inl invalid_pem)
      | Some block \<Rightarrow>
          (case ce_PKIX (sl_certs l) block of
             Inl err \<Rightarrow> Some (Inl err)
           | Inr None \<Rightarrow> Some (Inl invalid_pem)
           | Inr (Some pub) \<Rightarrow>
               (case kl_Decode (sl_keys l) (sim_caPEM s) of
                  None \<Rightarrow> None
                | Some caBlock \<Rightarrow>
                    Some (case ce_parse (sl_certs l) caBlock of
                       Inl err \<Rightarrow> Inl err
                     | Inr ca \<Rightarrow>
                         ce_issue (sl_certs l) ca (sim_caKey s) pub cn (i64 (t - unix_epoch)) (time_Add t (365 * 24 * Hour))))))"

definition sim_enroll ::
  "'c sim_lib \<Rightarrow> go_time \<Rightarrow> http_request \<Rightarrow> enroll_request result \<Rightarrow> simulator \<Rightarrow> sim_response option \<times> simulator" where
  "sim_enroll l t r body s =
     (if Method r \<noteq> ''POST'' then (Some (HTTPError 405 ''method''), s)
      else case body of
        Inl err \<Rightarrow> (Some (HTTPError 400 ''bad request''), s)
      | Inr req \<Rightarrow>
          if ar_Token req = [] then (Some (HTTPError 400 ''missing token''), s)
          else if mget (used s) (ar_Token req) = Some True then (Some (HTTPError 403 ''token used''), s)
          else
            let s = s\<lparr>used := mput (ar_Token req) True (used s)\<rparr>;
                deviceID = ''dev-'' @ shortHash l (ar_PublicKeyPEM req) in
            (case signClient l t s (ar_PublicKeyPEM req) deviceID of
               None \<Rightarrow> None
             | Some (Inl err) \<Rightarrow> Some (HTTPError 400 (Error err))
             | Some (Inr certPEM) \<Rightarrow>
                 Some (SimEnrolled \<lparr>rs_TenantID = ''dev-tenant'', rs_DeviceID = deviceID, rs_ClientCertificatePEM = certPEM,
                   rs_CACertificatePEM = sim_caPEM s, rs_ServerEndpoint = ''https://'' @ http_Host r\<rparr>), s))"

section \<open>Envelopes\<close>

definition acceptEnvelope :: "(string \<Rightarrow> string) \<Rightarrow> go_time \<Rightarrow> string \<Rightarrow> agent_envelope result \<Rightarrow> sim_response" where
  "acceptEnvelope sha t kind body =
     (case body of
        Inl err \<Rightarrow> HTTPError 400 ''bad envelope''
      | Inr env \<Rightarrow>
          (case agent_Validate sha t (10 * Minute) env of
             Some err \<Rightarrow> HTTPError 400 (Error err)
           | None \<Rightarrow> SimAccepted kind (ae_MessageID env)))"

section \<open>Certificates\<close>

definition parseEdKey :: "string key_lib \<Rightarrow> string \<Rightarrow> string result" where
  "parseEdKey kl b =
     (case kl_Decode kl b of
        None \<Rightarrow> Inl invalid_pem
      | Some block \<Rightarrow>
          (case kl_ParsePKCS8 kl block of Inl err \<Rightarrow> Inl err | Inr None \<Rightarrow> Inl invalid_pem | Inr (Some key) \<Rightarrow> Inr key))"

definition read_or :: "id_env \<Rightarrow> string \<Rightarrow> file_system \<Rightarrow> string result" where
  "read_or env path fs = (case id_read env path fs of Inl err \<Rightarrow> Inl err | Inr None \<Rightarrow> Inl no_such_file | Inr (Some b) \<Rightarrow> Inr b)"

definition LoadX509KeyPair :: "'c sim_lib \<Rightarrow> id_env \<Rightarrow> string \<Rightarrow> string \<Rightarrow> file_system \<Rightarrow> string result" where
  "LoadX509KeyPair l env certPath keyPath fs =
     (case read_or env certPath fs of
        Inl err \<Rightarrow> Inl err
      | Inr cert \<Rightarrow> (case read_or env keyPath fs of Inl err \<Rightarrow> Inl err | Inr key \<Rightarrow> sl_tls l cert key))"

text \<open>The pair to listen with, the authority's certificate and its key. A file that is there but cannot be looked at is not modelled.\<close>

definition load_certs :: "'c sim_lib \<Rightarrow> id_env \<Rightarrow> string \<Rightarrow> file_system \<Rightarrow> (string \<times> string \<times> string) result" where
  "load_certs l env state fs =
     (case LoadX509KeyPair l env (path_Join state ''server.pem'') (path_Join state ''server_key.pem'') fs of
        Inl err \<Rightarrow> Inl err
      | Inr cert \<Rightarrow>
          (case read_or env (path_Join state ''ca.pem'') fs of
             Inl err \<Rightarrow> Inl err
           | Inr caPEM \<Rightarrow>
               (case read_or env (path_Join state ''ca_key.pem'') fs of
                  Inl err \<Rightarrow> Inl err
                | Inr keyPEM \<Rightarrow> (case parseEdKey (sl_keys l) keyPEM of Inl err \<Rightarrow> Inl err | Inr caKey \<Rightarrow> Inr (cert, caPEM, caKey)))))"

definition create_certs ::
  "'c sim_lib \<Rightarrow> id_env \<Rightarrow> string \<Rightarrow> string \<Rightarrow> string \<Rightarrow> file_system \<Rightarrow> (string \<times> string \<times> string) result \<times> file_system" where
  "create_certs l env addr state caKey fs =
     (case ce_self (sl_certs l) caKey of
        Inl err \<Rightarrow> (Inl err, fs)
      | Inr (caTpl, caPEM) \<Rightarrow>
          (case id_write env (path_Join state ''ca.pem'') caPEM 420 fs of (Some err, fs) \<Rightarrow> (Inl err, fs) | (None, fs) \<Rightarrow>
          (case writeKey (sl_keys l) env (path_Join state ''ca_key.pem'') caKey fs of (Some err, fs) \<Rightarrow> (Inl err, fs) | (None, fs) \<Rightarrow>
          (case sl_server l caTpl caKey (sl_host l addr) (sl_server_key l) of Inl err \<Rightarrow> (Inl err, fs) | Inr serverPEM \<Rightarrow>
          (case id_write env (path_Join state ''server.pem'') serverPEM 420 fs of (Some err, fs) \<Rightarrow> (Inl err, fs) | (None, fs) \<Rightarrow>
          (case writeKey (sl_keys l) env (path_Join state ''server_key.pem'') (sl_server_key l) fs of (Some err, fs) \<Rightarrow> (Inl err, fs) | (None, fs) \<Rightarrow>
          (case LoadX509KeyPair l env (path_Join state ''server.pem'') (path_Join state ''server_key.pem'') fs of
             Inl err \<Rightarrow> (Inl err, fs)
           | Inr cert \<Rightarrow> (Inr (cert, caPEM, caKey), fs))))))))"

definition loadOrCreateCerts ::
  "'c sim_lib \<Rightarrow> id_env \<Rightarrow> string \<Rightarrow> string \<Rightarrow> string \<Rightarrow> file_system \<Rightarrow> (string \<times> string \<times> string) result \<times> file_system" where
  "loadOrCreateCerts l env addr state caKey fs =
     (if fs (path_Join state ''server.pem'') \<noteq> None then (load_certs l env state fs, fs) else create_certs l env addr state caKey fs)"

definition newServer ::
  "'c sim_lib \<Rightarrow> id_env \<Rightarrow> string \<Rightarrow> string \<Rightarrow> string \<Rightarrow> file_system \<Rightarrow> (string \<times> simulator) result \<times> file_system" where
  "newServer l env addr state caKey fs =
     (case ie_MkdirAll env state of
        Some err \<Rightarrow> (Inl err, fs)
      | None \<Rightarrow>
          (case loadOrCreateCerts l env addr state caKey fs of
             (Inl err, fs) \<Rightarrow> (Inl err, fs)
           | (Inr (cert, caPEM, caKey), fs) \<Rightarrow> (Inr (cert, \<lparr>used = [], sim_caPEM = caPEM, sim_caKey = caKey\<rparr>), fs)))"

section \<open>A token enrolls once\<close>

definition sim_run :: "'c sim_lib \<Rightarrow> (go_time \<times> http_request \<times> enroll_request result) list \<Rightarrow> simulator \<Rightarrow> simulator" where
  "sim_run l rs s = foldl (\<lambda>s (t, r, body). snd (sim_enroll l t r body s)) s rs"

lemma sim_enroll_used:
  "mget (used s) token = Some True \<Longrightarrow> mget (used (snd (sim_enroll l t r body s))) token = Some True"
  by (auto simp: sim_enroll_def Let_def split: sum.splits)

lemma sim_run_used: "mget (used s) token = Some True \<Longrightarrow> mget (used (sim_run l rs s)) token = Some True"
  by (induction rs arbitrary: s) (auto simp: sim_run_def sim_enroll_used)

text \<open>Whatever is asked in between, a token that has enrolled a device never enrolls another one.\<close>

lemma token_enrolls_once:
  assumes "fst (sim_enroll l t r (Inr req) s) = Some (SimEnrolled resp)" "ar_Token req' = ar_Token req"
  shows "fst (sim_enroll l t' r' (Inr req') (sim_run l rs (snd (sim_enroll l t r (Inr req) s)))) \<noteq> Some (SimEnrolled resp')"
proof -
  let ?s = "snd (sim_enroll l t r (Inr req) s)"
  have "mget (used ?s) (ar_Token req) = Some True" using assms(1) by (auto simp: sim_enroll_def Let_def split: if_splits)
  then have "mget (used (sim_run l rs ?s)) (ar_Token req') = Some True" unfolding assms(2) by (rule sim_run_used)
  then show ?thesis by (simp add: sim_enroll_def)
qed

text \<open>A request whose key cannot be signed has used its token up all the same.\<close>

lemma failed_enrollment_uses_token:
  assumes "Method r = ''POST''" "ar_Token req \<noteq> []" "mget (used s) (ar_Token req) = None"
    and "kl_Decode (sl_keys l) (ar_PublicKeyPEM req) = None"
  shows "fst (sim_enroll l t r (Inr req) s) = Some (HTTPError 400 ''invalid public key pem'')
    \<and> mget (used (snd (sim_enroll l t r (Inr req) s))) (ar_Token req) = Some True"
  using assms by (simp add: sim_enroll_def signClient_def invalid_pem_def Let_def)

text \<open>An envelope of the agent, made within ten minutes, is accepted.\<close>

lemma simulator_accepts_agent:
  assumes "NewEnvelope sha t random tenant device schema sq raw = Inr e" "random \<noteq> []" "in_i64 (t - unix_epoch)" "\<bar>t - t'\<bar> \<le> 10 * Minute"
  shows "acceptEnvelope sha t' kind (Inr e) = SimAccepted kind (hexEncode random)"
proof -
  have "hexEncode random \<noteq> []" using assms(2) by (cases random) simp_all
  then have "agent_Validate sha t' (10 * Minute) e = None"
    using assms(1,3,4) by (auto simp: NewEnvelope_def agent_Validate_def Unix0_def i64_id time_Add_def split: sum.splits)
  then show ?thesis using assms(1) by (auto simp: acceptEnvelope_def NewEnvelope_def split: sum.splits)
qed

end
