(* ===== verification/Spec2Isabelle.thy ===== *)
theory Spec2Isabelle
  imports OTACommit AgentFlush AgentConfigTUI EndToEnd CloudCampaigns CloudInvariant ControlAPI
    AgentDeploy ComposePolicies AgentScan AgentLoop AgentInventory EnrollmentEndToEnd AgentConnectors
    AgentTelemetry CloudHelpers CloudSeed DeviceSimulator
begin

text \<open>
  The Soul Room edge platform manages a fleet of devices. An agent (\<^verbatim>\<open>agent/\<close>) runs on each device or
  gateway; a control plane (\<^verbatim>\<open>cloud-infra/\<close>) keeps the fleet of many tenants, offers an API to operators and
  a gateway to devices. This development models both programs in the way they are written and proves what the
  one relies on in the other. All paths below are relative to the repository.

  \<^bold>\<open>How the parts interact.\<close>
  A device enrolls with a one-time token: \<^verbatim>\<open>agent/internal/enrollment\<close> sends its key and fingerprint, the
  gateway's \<^verbatim>\<open>deviceEnroll\<close> consumes the token and issues a certificate, and \<^verbatim>\<open>identity\<close> saves what comes
  back. From then on \<^verbatim>\<open>agent/internal/agent\<close> runs a loop: it flushes the offline queue, sends a heartbeat,
  telemetry and inventory in envelopes, asks for its next job, runs it and reports the result. Jobs are queued
  by operators through the control API, by a campaign for its pilot group and later for the rest of its targets,
  or by the assistant after an operator has approved its proposal. An update job runs the update engine, which
  keeps a transaction in a file and survives power cuts and reboots; the report of the job decides the state of
  the campaign. Behind the API everything is kept in one store that is shared by all tenants.

  \<^bold>\<open>Conventions.\<close>
  A definition has the name of the Go function or type it models, with a qualifier where a name would clash; one that
  stands for a part of a function says what that part computes.
  Structs are records, and fields whose names clash carry a short prefix. An \<^verbatim>\<open>error\<close> is a value of
  \<open>go_error option\<close>, and a function that returns a value and an error yields a sum with the error on the left
  where one excludes the other, and a pair where callers can see both. Strings are sequences of bytes. Machine integers are
  words of their width where an overflow can matter (byte counts, registers, the bits of floats, counters of the
  kernel), and integers where the code's bounds keep them far below \<open>2 ^ 63\<close>. Maps are
  association lists with distinct keys, ranged over in an order that is an argument. Effects are explicit:
  the state goes in and comes out, and everything outside the process (commands, files of the system, the
  network, the clock) is a function of a parameter on a world of arbitrary type \<open>'w\<close>.

  \<^bold>\<open>Prelude.\<close>
  \<open>GoBase\<close> has errors, words, instants and maps; \<open>GoStrings\<close>, \<open>GoCodec\<close> and \<open>GoPath\<close> the functions of
  \<^verbatim>\<open>strings\<close>, \<^verbatim>\<open>strconv\<close>, \<^verbatim>\<open>encoding\<close> and \<^verbatim>\<open>path/filepath\<close> that the code calls, with their round trips; \<open>GoFiles\<close> the places
  paths can name; \<open>GoJSON\<close> what \<^verbatim>\<open>encoding/json\<close> does to a message it embeds (compaction and HTML escaping);
  \<open>GoFloat\<close> the arithmetic of \<^verbatim>\<open>float64\<close> with its monotonicity and bounds. The collections \<open>view\<close> and those of
  the prelude carry the simplification in the later theories.

  \<^bold>\<open>The agent.\<close>
  \<^item> \<open>AgentOTA\<close>, \<open>AgentDownload\<close>, \<open>AgentAdapters\<close>, \<open>AgentEngine\<close>: \<^verbatim>\<open>agent/internal/ota\<close> and
  \<^verbatim>\<open>applications/flatpak.go\<close>: the checks of a request, download, digest and signature, the adapters with the
  commands they run, and the engine's \<^verbatim>\<open>Execute\<close> with every stage. \<open>OTAMachine\<close> is the abstract protocol of a
  transaction, \<open>OTARefinement\<close> the simulation that makes every execution a trace of it, \<open>OTADemo\<close> a concrete device for
  witnesses. \<open>OTAProperties\<close> and \<open>OTAOutcomes\<close> have results over the protocol: only verified releases are
  installed, the saved phases follow the protocol through power cuts, no transaction is installed twice, reboots are
  bounded. \<open>OTAEffects\<close> follows the world through the stages of one execution, and \<open>OTACommit\<close> draws from it that
  success is reported only after the health check, the version check and the commit of that very execution, in this
  order, which files the engine touches, and when an update fails because reboots are switched off.
  \<^item> \<open>AgentQueue\<close>, \<open>AgentFlush\<close>: \<^verbatim>\<open>storage/store.go\<close> and the queueing of \<^verbatim>\<open>agent/agent.go\<close>. The locale
  \<open>offline_queue\<close> is the contract between them, interpreted on the store: pruning gives up no item of a higher priority
  than one it keeps, and an interrupted flush loses none.
  \<^item> \<open>AgentJobs\<close>, \<open>AgentHandlers\<close>: \<^verbatim>\<open>jobs/jobs.go\<close>, the job states of the store and \<^verbatim>\<open>agent/job_handlers.go\<close>. The
  locale \<open>job_store\<close>, interpreted on \<^verbatim>\<open>jobs.json\<close>, gives that a job that has succeeded is not run again.
  \<^item> \<open>AgentTransport\<close>, \<open>AgentLoop\<close>: \<^verbatim>\<open>transport\<close>, \<^verbatim>\<open>protocol\<close>, \<^verbatim>\<open>location\<close>, \<^verbatim>\<open>heartbeat\<close> and the loop: how often a
  message is posted and how long that takes, and what a tick without connection keeps.
  \<^item> \<open>AgentConfig\<close>, \<open>AgentConfigFile\<close>, \<open>AgentConfigTUI\<close>: \<^verbatim>\<open>config/config.go\<close> and \<^verbatim>\<open>configtui/tui.go\<close>: which settings
  survive saving and loading, and when the editor returns.
  \<^item> \<open>AgentDeploy\<close>, \<open>AgentScan\<close>, \<open>AgentInventory\<close>, \<open>AgentTelemetry\<close>, \<open>AgentConnectors\<close>, \<open>AgentIdentity\<close>: file
  deployment, vulnerability scan, inventory, telemetry, the devices behind a gateway (locale \<open>downstream\<close>,
  interpreted on the Modbus connector and on the simulator), and the identity with the client that enrolls it.
  \<^item> \<open>ComposePolicies\<close>, \<open>DeviceSimulator\<close>: the container policies of both programs, and the control plane the agent is
  developed against.

  \<^bold>\<open>The control plane.\<close>
  \<^item> \<open>CloudModel\<close>, \<open>CloudStore\<close>, \<open>CloudFleet\<close>: \<^verbatim>\<open>model\<close>, \<^verbatim>\<open>tenancy\<close>, \<^verbatim>\<open>rbac\<close>, \<^verbatim>\<open>auth/session.go\<close>, \<^verbatim>\<open>jobs\<close>, \<^verbatim>\<open>audit\<close> and
  \<^verbatim>\<open>storage/store.go\<close>: the data, and every operation of the store with the file it is saved to.
  \<^item> \<open>CloudView\<close>, \<open>CloudUpdates\<close>, \<open>Isolation\<close>, \<open>CloudIsolation\<close>, \<open>CloudTenancy\<close>: the part of the store that
  belongs to one tenant, and isolation: the locale \<open>shared_service\<close> states when the
  clients of a shared service cannot influence each other, and its interpretation on the store discharges the
  conditions operation by operation. The store refines the private stores of its tenants.
  \<open>CloudInvariant\<close> has the invariant of references between the objects, over every method that changes the store, and
  names the one call that can break it.
  \<^item> \<open>CloudOTA\<close>, \<open>CloudRollout\<close>, \<open>CloudCampaigns\<close>: \<^verbatim>\<open>ota/ota.go\<close> and the campaign handlers of \<^verbatim>\<open>server/server.go\<close>:
  what the control plane validates the agent accepts, the state of a campaign follows from its jobs, and a
  promotion queues a job for every remaining target whose idempotency key no other job holds.
  \<^item> \<open>CloudPassword\<close>, \<open>CloudHTTP\<close>, \<open>CloudControl\<close>, \<open>CloudAuthority\<close>, \<open>CloudBoundary\<close>, \<open>ControlAPI\<close>: \<^verbatim>\<open>auth/password.go\<close>, log-in
  and authentication, every handler of the control API, and its boundary: handlers run for live sessions only
  and a request stays in its tenant. \<open>ControlAPI\<close> has the whole multiplexer of \<^verbatim>\<open>ControlHandler\<close>, with log-in, log-out,
  the assistant's routes and the pages anyone may read: a change of the store is a log-in or the work of a
  user who holds the permission of the route.
  \<^item> \<open>CloudGateway\<close>, \<open>CloudDelivery\<close>: the device gateway with \<^verbatim>\<open>enrollment\<close> and \<^verbatim>\<open>protocol\<close>, and the delivery of jobs.
  \<^item> \<open>AssistantService\<close>, \<open>Assistant\<close>, \<open>AssistantActions\<close>: \<^verbatim>\<open>assistant/assistant.go\<close> and \<^verbatim>\<open>server/assistant.go\<close>: sealed
  texts, rate limit, address checks and providers, and that the assistant adds only approved jobs.
  \<^item> \<open>CloudStartup\<close>, \<open>CloudSeed\<close>, \<open>CloudHelpers\<close>: configuration, development authority, the key file, the seed program
  up to the log-in of the owner it creates, and the small packages no handler calls.
  \<^item> \<open>EndToEnd\<close>, \<open>EnrollmentEndToEnd\<close>: both programs together, over a network that may lose messages: envelopes
  and jobs with a plain payload are accepted on the other side, a job that the store shows as succeeded was committed by the device, and an enrollment that ends
  without an error leaves a device the control plane knows.

  \<^bold>\<open>Bounds and termination.\<close>
  No definition uses fuel. Loops over data are structural; pruning the queue (\<open>cut_tail\<close>) and the editor (\<open>run_editor\<close>)
  terminate by the length of what is left; the four attempts to post an envelope are the code's own bound. A question of
  the editor that the end of the input leaves without a readable answer is asked for ever, and is \<open>None\<close>. The main loop
  of the agent is a sequence of ticks, and a device over its life an inductive relation whose steps are executions,
  power cuts and reboots. Byte totals and lengths are unbounded integers, because files cannot reach \<open>2 ^ 63\<close> bytes.

  \<^bold>\<open>Parameters and their laws.\<close>
  SHA-256, HMAC, AES-GCM, Ed25519, X.509, PEM, TLS, URL parsing, the encoding of JSON (apart from compaction), how durations and floats are
  printed and read, DNS and the exchange over HTTP belong to libraries and are arguments. Where a result relies on one of
  them, its documented behaviour is a named hypothesis (a digest has 32 bytes, what was sealed opens again, decoding inverts encoding),
  and the witness of the result instantiates it.

  \<^bold>\<open>What is not modelled.\<close>
  The texts of errors of the operating system; contexts and deadlines, so that a call that times out is one that
  returns an error; several readings of the clock within one operation of the store; the aliasing of slices within
  \<^verbatim>\<open>DeleteDevice\<close>; case mapping beyond ASCII; line limits of scanners except where a property depends on
  them; and the interleaving of the store operations of two requests, although each operation holds the store's
  lock and is one step, and the isolation results hold for every sequence of such steps. The programs' \<^verbatim>\<open>main\<close> functions apart from the seed and the simulator, listeners, logging,
  diagnostics bundles, the agent's health page, the web console, the deployment scripts and the SQL migrations have no logic the results speak of.
\<close>

end
